(* ===== verification/Js_Prelude.thy ===== *)
theory Js_Prelude
  imports Complex_Main
begin

text \<open>
  The prelude of the development: what the TypeScript sources use of the language itself.
  \<^item> \<open>jsnum\<close>: JavaScript numbers. Finite numbers are exact rationals; the infinities and
    NaN are values of their own, so that guards such as \<^verbatim>\<open>!(x > 0)\<close>, \<^verbatim>\<open>isNaN(x)\<close> and
    \<^verbatim>\<open>Number.isFinite(x)\<close> have the branches they have in the code. Binary rounding and the
    sign of zero are abstracted away.
  \<^item> \<open>js_error\<close>: thrown values, with the fields the code inspects.
  \<^item> \<open>('s, 'a) eff\<close>: an async function over a state \<open>'s\<close> that returns or throws; the state
    changes made before a throw are kept, as they are in the code.
  \<^item> \<open>keeps\<close> and \<open>unchanged\<close>: what an effect leaves alone, with the rules that push both
    through the combinators (collections \<open>keeps_rules\<close> and \<open>unchanged_rules\<close>).
  \<^item> generic lemmas on folds, joins of strings and filters.
\<close>

section \<open>Numbers\<close>

datatype jsnum = Fin rat | PInf | NInf | NaN

named_theorems js_simps \<open>unfoldings of the operations on JavaScript numbers\<close>

fun sign_inf :: "rat \<Rightarrow> jsnum" where
  "sign_inf q = (if q > 0 then PInf else if q < 0 then NInf else NaN)"

fun js_plus :: "jsnum \<Rightarrow> jsnum \<Rightarrow> jsnum" where
  "js_plus NaN _ = NaN"
| "js_plus _ NaN = NaN"
| "js_plus (Fin a) (Fin b) = Fin (a + b)"
| "js_plus (Fin _) y = y"
| "js_plus x (Fin _) = x"
| "js_plus PInf PInf = PInf"
| "js_plus NInf NInf = NInf"
| "js_plus _ _ = NaN"

fun js_uminus :: "jsnum \<Rightarrow> jsnum" where
  "js_uminus (Fin a) = Fin (- a)"
| "js_uminus PInf = NInf"
| "js_uminus NInf = PInf"
| "js_uminus NaN = NaN"

fun js_times :: "jsnum \<Rightarrow> jsnum \<Rightarrow> jsnum" where
  "js_times NaN _ = NaN"
| "js_times _ NaN = NaN"
| "js_times (Fin a) (Fin b) = Fin (a * b)"
| "js_times (Fin a) PInf = sign_inf a"
| "js_times (Fin a) NInf = sign_inf (- a)"
| "js_times PInf (Fin b) = sign_inf b"
| "js_times NInf (Fin b) = sign_inf (- b)"
| "js_times PInf PInf = PInf"
| "js_times NInf NInf = PInf"
| "js_times PInf NInf = NInf"
| "js_times NInf PInf = NInf"

fun js_div :: "jsnum \<Rightarrow> jsnum \<Rightarrow> jsnum" where
  "js_div NaN _ = NaN"
| "js_div _ NaN = NaN"
| "js_div (Fin a) (Fin b) = (if b = 0 then sign_inf a else Fin (a / b))"
| "js_div (Fin _) _ = Fin 0"
| "js_div PInf (Fin b) = (if b < 0 then NInf else PInf)"
| "js_div NInf (Fin b) = (if b < 0 then PInf else NInf)"
| "js_div _ _ = NaN"

fun js_le :: "jsnum \<Rightarrow> jsnum \<Rightarrow> bool" where
  "js_le (Fin a) (Fin b) = (a \<le> b)"
| "js_le NaN _ = False"
| "js_le _ NaN = False"
| "js_le NInf _ = True"
| "js_le _ PInf = True"
| "js_le PInf _ = False"
| "js_le _ NInf = False"

fun js_less :: "jsnum \<Rightarrow> jsnum \<Rightarrow> bool" where
  "js_less (Fin a) (Fin b) = (a < b)"
| "js_less NaN _ = False"
| "js_less _ NaN = False"
| "js_less _ NInf = False"
| "js_less PInf _ = False"
| "js_less NInf _ = True"
| "js_less _ PInf = True"

fun js_abs :: "jsnum \<Rightarrow> jsnum" where
  "js_abs (Fin a) = Fin \<bar>a\<bar>"
| "js_abs NaN = NaN"
| "js_abs _ = PInf"

instantiation jsnum :: "{zero, one, plus, minus, uminus, times, inverse, abs, ord}"
begin

definition zero_jsnum :: jsnum where "0 = Fin 0"
definition one_jsnum :: jsnum where "1 = Fin 1"
definition plus_jsnum :: "jsnum \<Rightarrow> jsnum \<Rightarrow> jsnum" where "x + y = js_plus x y"
definition uminus_jsnum :: "jsnum \<Rightarrow> jsnum" where "- x = js_uminus x"
definition minus_jsnum :: "jsnum \<Rightarrow> jsnum \<Rightarrow> jsnum" where "x - y = js_plus x (js_uminus y)"
definition times_jsnum :: "jsnum \<Rightarrow> jsnum \<Rightarrow> jsnum" where "x * y = js_times x y"
definition divide_jsnum :: "jsnum \<Rightarrow> jsnum \<Rightarrow> jsnum" where "x div y = js_div x y"
definition inverse_jsnum :: "jsnum \<Rightarrow> jsnum" where "inverse x = js_div (Fin 1) x"
definition abs_jsnum :: "jsnum \<Rightarrow> jsnum" where "\<bar>x\<bar> = js_abs x"
definition less_eq_jsnum :: "jsnum \<Rightarrow> jsnum \<Rightarrow> bool" where "x \<le> y = js_le x y"
definition less_jsnum :: "jsnum \<Rightarrow> jsnum \<Rightarrow> bool" where "x < y = js_less x y"

instance ..

end

lemmas jsnum_op_defs =
  zero_jsnum_def one_jsnum_def plus_jsnum_def uminus_jsnum_def minus_jsnum_def times_jsnum_def
  divide_jsnum_def abs_jsnum_def less_eq_jsnum_def less_jsnum_def

lemma Fin_arith [simp, js_simps]:
  "Fin a + Fin b = Fin (a + b)"
  "Fin a - Fin b = Fin (a - b)"
  "- Fin a = Fin (- a)"
  "Fin a * Fin b = Fin (a * b)"
  "b \<noteq> 0 \<Longrightarrow> Fin a / Fin b = Fin (a / b)"
  "\<bar>Fin a\<bar> = Fin \<bar>a\<bar>"
  by (simp_all add: jsnum_op_defs)

lemma Fin_order [simp, js_simps]:
  "(Fin a \<le> Fin b) = (a \<le> b)"
  "(Fin a < Fin b) = (a < b)"
  by (simp_all add: jsnum_op_defs)

lemma NaN_absorbs [simp]:
  "NaN + x = NaN" "x + NaN = NaN" "NaN - x = NaN" "x - NaN = NaN"
  "NaN * x = NaN" "x * NaN = NaN" "NaN / x = NaN" "x / NaN = NaN" "- NaN = NaN"
  by (cases x; simp add: jsnum_op_defs)+

lemma NaN_compare [simp]:
  "\<not> NaN \<le> x" "\<not> x \<le> NaN" "\<not> NaN < x" "\<not> x < NaN"
  by (cases x; simp add: jsnum_op_defs)+

lemma inf_compare [simp]:
  "\<not> PInf < x" "\<not> x < NInf" "Fin a < PInf" "NInf < Fin a"
  "\<not> PInf \<le> Fin a" "\<not> Fin a \<le> NInf" "Fin a \<le> PInf" "NInf \<le> Fin a"
  by (cases x; simp add: jsnum_op_defs)+

lemma inf_arith [simp]:
  "Fin a + PInf = PInf" "Fin a + NInf = NInf" "Fin a - PInf = NInf" "Fin a - NInf = PInf"
  "PInf + Fin a = PInf" "NInf + Fin a = NInf" "PInf - Fin a = PInf" "NInf - Fin a = NInf"
  "- PInf = NInf" "- NInf = PInf"
  by (simp_all add: jsnum_op_defs)

instance jsnum :: comm_monoid_add
proof
  fix a b c :: jsnum
  show "a + b + c = a + (b + c)"
    by (cases a; cases b; cases c; simp add: jsnum_op_defs)
  show "a + b = b + a"
    by (cases a; cases b; simp add: jsnum_op_defs)
  show "0 + a = a"
    by (cases a; simp add: jsnum_op_defs)
qed

lemma jsnum_less_imp_le: "(x :: jsnum) < y \<Longrightarrow> x \<le> y"
  by (cases x; cases y; simp add: jsnum_op_defs)

lemma jsnum_le_trans: "(x :: jsnum) \<le> y \<Longrightarrow> y \<le> z \<Longrightarrow> x \<le> z"
  by (cases x; cases y; cases z; simp add: jsnum_op_defs)

definition isFinite :: "jsnum \<Rightarrow> bool" where
  "isFinite x = (case x of Fin _ \<Rightarrow> True | _ \<Rightarrow> False)"

definition isNaN :: "jsnum \<Rightarrow> bool" where
  "isNaN x = (x = NaN)"

definition isInteger :: "jsnum \<Rightarrow> bool" where
  "isInteger x = (case x of Fin a \<Rightarrow> a \<in> \<int> | _ \<Rightarrow> False)"

lemma isFinite_simps [simp]:
  "isFinite (Fin a)" "\<not> isFinite PInf" "\<not> isFinite NInf" "\<not> isFinite NaN"
  by (simp_all add: isFinite_def)

lemma isFinite_iff: "isFinite x \<longleftrightarrow> (\<exists>a. x = Fin a)"
  by (cases x) simp_all

lemma finite_pos_iff: "isFinite x \<and> Fin 0 < x \<longleftrightarrow> (\<exists>a > 0. x = Fin a)"
  by (cases x) simp_all

text \<open>\<open>Number(v)\<close> of a field that may be undefined.\<close>

definition Number :: "jsnum option \<Rightarrow> jsnum" where
  "Number v = (case v of None \<Rightarrow> NaN | Some x \<Rightarrow> x)"

text \<open>The operator \<open>??\<close> on an optional left operand.\<close>

definition nullish :: "'a option \<Rightarrow> 'a \<Rightarrow> 'a" where
  "nullish v d = (case v of None \<Rightarrow> d | Some x \<Rightarrow> x)"

definition nullish_opt :: "'a option \<Rightarrow> 'a option \<Rightarrow> 'a option" where
  "nullish_opt v d = (case v of None \<Rightarrow> d | Some x \<Rightarrow> Some x)"

lemma Number_simps [simp]: "Number None = NaN" "Number (Some x) = x"
  by (simp_all add: Number_def)

lemma nullish_simps [simp]:
  "nullish None d = d" "nullish (Some x) d = x"
  "nullish_opt None e = e" "nullish_opt (Some x) e = Some x"
  by (simp_all add: nullish_def nullish_opt_def)

text \<open>\<open>xs.reduce((sum, x) => sum + f x, 0)\<close>.\<close>

definition reduce_sum :: "('a \<Rightarrow> jsnum) \<Rightarrow> 'a list \<Rightarrow> jsnum" where
  "reduce_sum f xs = foldl (\<lambda>s x. s + f x) (Fin 0) xs"

lemma foldl_jsnum_plus: "foldl (\<lambda>s x. s + f x) a xs = a + sum_list (map f xs)" for a :: jsnum
  by (induction xs arbitrary: a) (simp_all add: add.assoc)

lemma reduce_sum_eq: "reduce_sum f xs = sum_list (map f xs)"
  by (simp add: reduce_sum_def foldl_jsnum_plus flip: zero_jsnum_def)

lemma reduce_sum_append: "reduce_sum f (xs @ ys) = reduce_sum f xs + reduce_sum f ys"
  by (simp add: reduce_sum_eq)

lemma reduce_sum_simps [simp]:
  "reduce_sum f [] = Fin 0"
  "reduce_sum f (x # xs) = f x + reduce_sum f xs"
  by (simp_all add: reduce_sum_eq zero_jsnum_def)

lemma reduce_sum_Fin:
  "(\<And>x. x \<in> set xs \<Longrightarrow> f x = Fin (g x)) \<Longrightarrow> reduce_sum f xs = Fin (sum_list (map g xs))"
  by (induction xs) simp_all

section \<open>Thrown values and effects\<close>

datatype js_error =
    JsError (err_name: string) (err_code: "string option") (err_message: string)
  | NonError

definition newError :: "string \<Rightarrow> js_error" where
  "newError msg = JsError ''Error'' None msg"

definition typeError :: "string \<Rightarrow> js_error" where
  "typeError msg = JsError ''TypeError'' None msg"

type_synonym ('s, 'a) eff = "'s \<Rightarrow> (js_error + 'a) \<times> 's"

definition ret :: "'a \<Rightarrow> ('s, 'a) eff" where
  "ret x s = (Inr x, s)"

definition throwE :: "js_error \<Rightarrow> ('s, 'a) eff" where
  "throwE e s = (Inl e, s)"

definition bindE :: "('s, 'a) eff \<Rightarrow> ('a \<Rightarrow> ('s, 'b) eff) \<Rightarrow> ('s, 'b) eff" where
  "bindE m f s = (case m s of (Inl e, t) \<Rightarrow> (Inl e, t) | (Inr x, t) \<Rightarrow> f x t)"

definition catchE :: "('s, 'a) eff \<Rightarrow> (js_error \<Rightarrow> ('s, 'a) eff) \<Rightarrow> ('s, 'a) eff" where
  "catchE m h s = (case m s of (Inl e, t) \<Rightarrow> h e t | (Inr x, t) \<Rightarrow> (Inr x, t))"

definition getsE :: "('s \<Rightarrow> 'a) \<Rightarrow> ('s, 'a) eff" where
  "getsE f s = (Inr (f s), s)"

definition modifyE :: "('s \<Rightarrow> 's) \<Rightarrow> ('s, unit) eff" where
  "modifyE f s = (Inr (), f s)"

definition liftE :: "js_error + 'a \<Rightarrow> ('s, 'a) eff" where
  "liftE r s = (r, s)"

text \<open>\<open>for (const x of xs) await f(x)\<close>: stops at the first throw.\<close>

fun forE :: "'a list \<Rightarrow> ('a \<Rightarrow> ('s, unit) eff) \<Rightarrow> ('s, unit) eff" where
  "forE [] f = ret ()"
| "forE (x # xs) f = bindE (f x) (\<lambda>_. forE xs f)"

text \<open>The same with a result per element, collected in order.\<close>

fun mapE :: "('a \<Rightarrow> ('s, 'b) eff) \<Rightarrow> 'a list \<Rightarrow> ('s, 'b list) eff" where
  "mapE f [] = ret []"
| "mapE f (x # xs) = bindE (f x) (\<lambda>y. bindE (mapE f xs) (\<lambda>ys. ret (y # ys)))"

named_theorems eff_simps \<open>unfoldings of the combinators of effects\<close>

lemmas eff_defs [eff_simps] =
  ret_def throwE_def bindE_def catchE_def getsE_def modifyE_def liftE_def

lemma bindE_Inr:
  "bindE m f s = (Inr y, t) \<longleftrightarrow> (\<exists>x u. m s = (Inr x, u) \<and> f x u = (Inr y, t))"
  by (auto simp: bindE_def split: prod.splits sum.splits)

lemma bindE_Inl:
  "bindE m f s = (Inl e, t) \<longleftrightarrow>
     m s = (Inl e, t) \<or> (\<exists>x u. m s = (Inr x, u) \<and> f x u = (Inl e, t))"
  by (auto simp: bindE_def split: prod.splits sum.splits)

lemma bindE_of_Inr: "m s = (Inr x, u) \<Longrightarrow> bindE m f s = f x u"
  by (simp add: bindE_def)

lemma bindE_of_Inl: "m s = (Inl e, u) \<Longrightarrow> bindE m f s = (Inl e, u)"
  by (simp add: bindE_def)

lemma bindE_simps [simp]:
  "bindE (ret x) f = f x"
  "bindE (throwE e) f = throwE e"
  "bindE (getsE g) f s = f (g s) s"
  "bindE (modifyE h) k s = k () (h s)"
  "bindE (liftE (Inr x)) f = f x"
  "bindE (liftE (Inl e)) f = throwE e"
  by (auto simp: eff_defs fun_eq_iff)

lemma ret_Inr [simp]: "ret x s = (Inr y, t) \<longleftrightarrow> y = x \<and> t = s"
  by (auto simp: ret_def)

lemma ret_Inl [simp]: "ret x s \<noteq> (Inl e, t)"
  by (simp add: ret_def)

lemma throwE_Inr [simp]: "throwE e s \<noteq> (Inr x, t)"
  by (simp add: throwE_def)

lemma throwE_Inl [simp]: "throwE e s = (Inl e', t) \<longleftrightarrow> e' = e \<and> t = s"
  by (auto simp: throwE_def)

lemma getsE_Inr [simp]: "getsE f s = (Inr x, t) \<longleftrightarrow> x = f s \<and> t = s"
  by (auto simp: getsE_def)

lemma modifyE_Inr [simp]: "modifyE f s = (Inr x, t) \<longleftrightarrow> t = f s"
  by (auto simp: modifyE_def)

lemma liftE_Inr [simp]: "liftE r s = (Inr x, t) \<longleftrightarrow> r = Inr x \<and> t = s"
  by (auto simp: liftE_def)

lemma liftE_Inl [simp]: "liftE r s = (Inl x, t) \<longleftrightarrow> r = Inl x \<and> t = s"
  by (auto simp: liftE_def)

lemma catchE_Inr:
  "catchE m h s = (Inr y, t) \<longleftrightarrow>
     m s = (Inr y, t) \<or> (\<exists>e u. m s = (Inl e, u) \<and> h e u = (Inr y, t))"
  by (auto simp: catchE_def split: prod.splits sum.splits)

subsection \<open>What an effect leaves alone\<close>

text \<open>\<open>keeps P m\<close>: \<open>m\<close> preserves the predicate \<open>P\<close>, whether it returns or throws.\<close>

definition keeps :: "('s \<Rightarrow> bool) \<Rightarrow> ('s, 'a) eff \<Rightarrow> bool" where
  "keeps P m \<longleftrightarrow> (\<forall>s. P s \<longrightarrow> P (snd (m s)))"

text \<open>\<open>unchanged g m\<close>: the observation \<open>g\<close> of the state is the same after \<open>m\<close>.\<close>

definition unchanged :: "('s \<Rightarrow> 'b) \<Rightarrow> ('s, 'a) eff \<Rightarrow> bool" where
  "unchanged g m \<longleftrightarrow> (\<forall>s. g (snd (m s)) = g s)"

named_theorems keeps_rules \<open>preservation of a state predicate\<close>
named_theorems unchanged_rules \<open>observations an effect does not change\<close>

lemma keepsD: "keeps P m \<Longrightarrow> P s \<Longrightarrow> m s = (r, t) \<Longrightarrow> P t"
  by (metis keeps_def snd_conv)

lemma unchangedD: "unchanged g m \<Longrightarrow> m s = (r, t) \<Longrightarrow> g t = g s"
  by (metis unchanged_def snd_conv)

lemma keepsI: "(\<And>s r t. P s \<Longrightarrow> m s = (r, t) \<Longrightarrow> P t) \<Longrightarrow> keeps P m"
  by (metis keeps_def surjective_pairing)

lemma unchangedI: "(\<And>s r t. m s = (r, t) \<Longrightarrow> g t = g s) \<Longrightarrow> unchanged g m"
  by (metis unchanged_def surjective_pairing)

lemma unchanged_iff_keeps: "unchanged g m \<longleftrightarrow> (\<forall>c. keeps (\<lambda>s. g s = c) m)"
  by (auto simp: unchanged_def keeps_def)

lemma keeps_of_unchanged: "unchanged g m \<Longrightarrow> keeps (\<lambda>s. P (g s)) m"
  by (auto simp: unchanged_def keeps_def)

lemma keeps_bind [keeps_rules]:
  "keeps P m \<Longrightarrow> (\<And>x. keeps P (f x)) \<Longrightarrow> keeps P (bindE m f)"
  by (auto simp: keeps_def bindE_def split: prod.splits sum.splits)

lemma keeps_catch [keeps_rules]:
  "keeps P m \<Longrightarrow> (\<And>e. keeps P (h e)) \<Longrightarrow> keeps P (catchE m h)"
  by (auto simp: keeps_def catchE_def split: prod.splits sum.splits)

lemma keeps_basic [keeps_rules]:
  "keeps P (ret x)" "keeps P (throwE e)" "keeps P (getsE g)" "keeps P (liftE r)"
  by (auto simp: keeps_def eff_defs)

lemma keeps_modify: "(\<And>s. P s \<Longrightarrow> P (f s)) \<Longrightarrow> keeps P (modifyE f)"
  by (auto simp: keeps_def modifyE_def)

lemma keeps_if [keeps_rules]: "keeps P m \<Longrightarrow> keeps P n \<Longrightarrow> keeps P (if b then m else n)"
  by simp

lemma keeps_option [keeps_rules]:
  "keeps P m \<Longrightarrow> (\<And>x. keeps P (f x)) \<Longrightarrow> keeps P (case v of None \<Rightarrow> m | Some x \<Rightarrow> f x)"
  by (cases v) simp_all

lemma keeps_sum [keeps_rules]:
  "(\<And>x. keeps P (f x)) \<Longrightarrow> (\<And>x. keeps P (g x)) \<Longrightarrow>
     keeps P (case v of Inl x \<Rightarrow> f x | Inr x \<Rightarrow> g x)"
  by (cases v) simp_all

lemma keeps_list [keeps_rules]:
  "keeps P m \<Longrightarrow> (\<And>x xs. keeps P (f x xs)) \<Longrightarrow> keeps P (case v of [] \<Rightarrow> m | x # xs \<Rightarrow> f x xs)"
  by (cases v) simp_all

lemma keeps_for [keeps_rules]: "(\<And>x. keeps P (f x)) \<Longrightarrow> keeps P (forE xs f)"
  by (induction xs) (auto intro: keeps_rules)

lemma keeps_map [keeps_rules]: "(\<And>x. keeps P (f x)) \<Longrightarrow> keeps P (mapE f xs)"
  by (induction xs) (auto intro: keeps_rules)

lemma unchanged_bind [unchanged_rules]:
  "unchanged g m \<Longrightarrow> (\<And>x. unchanged g (f x)) \<Longrightarrow> unchanged g (bindE m f)"
  by (simp add: unchanged_iff_keeps keeps_rules)

lemma unchanged_catch [unchanged_rules]:
  "unchanged g m \<Longrightarrow> (\<And>e. unchanged g (h e)) \<Longrightarrow> unchanged g (catchE m h)"
  by (simp add: unchanged_iff_keeps keeps_rules)

lemma unchanged_basic [unchanged_rules]:
  "unchanged g (ret x)" "unchanged g (throwE e)" "unchanged g (getsE h)" "unchanged g (liftE r)"
  by (simp_all add: unchanged_iff_keeps keeps_rules)

lemma unchanged_modify: "(\<And>s. g (f s) = g s) \<Longrightarrow> unchanged g (modifyE f)"
  by (simp add: unchanged_def modifyE_def)

lemma unchanged_if [unchanged_rules]:
  "unchanged g m \<Longrightarrow> unchanged g n \<Longrightarrow> unchanged g (if b then m else n)"
  by simp

lemma unchanged_option [unchanged_rules]:
  "unchanged g m \<Longrightarrow> (\<And>x. unchanged g (f x)) \<Longrightarrow>
     unchanged g (case v of None \<Rightarrow> m | Some x \<Rightarrow> f x)"
  by (cases v) simp_all

lemma unchanged_sum [unchanged_rules]:
  "(\<And>x. unchanged g (f x)) \<Longrightarrow> (\<And>x. unchanged g (h x)) \<Longrightarrow>
     unchanged g (case v of Inl x \<Rightarrow> f x | Inr x \<Rightarrow> h x)"
  by (cases v) simp_all

lemma unchanged_list [unchanged_rules]:
  "unchanged g m \<Longrightarrow> (\<And>x xs. unchanged g (f x xs)) \<Longrightarrow>
     unchanged g (case v of [] \<Rightarrow> m | x # xs \<Rightarrow> f x xs)"
  by (cases v) simp_all

lemma unchanged_for [unchanged_rules]: "(\<And>x. unchanged g (f x)) \<Longrightarrow> unchanged g (forE xs f)"
  by (simp add: unchanged_iff_keeps keeps_rules)

lemma unchanged_map [unchanged_rules]: "(\<And>x. unchanged g (f x)) \<Longrightarrow> unchanged g (mapE f xs)"
  by (simp add: unchanged_iff_keeps keeps_rules)

lemma mapE_length: "mapE f xs s = (Inr ys, t) \<Longrightarrow> length ys = length xs"
  by (induction xs arbitrary: s ys) (auto simp: bindE_Inr)

section \<open>Strings and lists\<close>

definition upper_char :: "char \<Rightarrow> char" where
  "upper_char c = (let n = of_char c :: nat in if 97 \<le> n \<and> n \<le> 122 then char_of (n - 32) else c)"

definition toUpperCase :: "string \<Rightarrow> string" where
  "toUpperCase = map upper_char"

definition toLowerCase_char :: "char \<Rightarrow> char" where
  "toLowerCase_char c = (let n = of_char c :: nat in if 65 \<le> n \<and> n \<le> 90 then char_of (n + 32) else c)"

definition toLowerCase :: "string \<Rightarrow> string" where
  "toLowerCase = map toLowerCase_char"

text \<open>\<open>xs.join(sep)\<close>.\<close>

fun join :: "string \<Rightarrow> string list \<Rightarrow> string" where
  "join sep [] = ''''"
| "join sep [x] = x"
| "join sep (x # y # xs) = x @ sep @ join sep (y # xs)"

lemma count_list_concat: "count_list (concat xss) c = sum_list (map (\<lambda>xs. count_list xs c) xss)"
  by (induction xss) simp_all

lemma join_count:
  "count_list sep c = 0 \<Longrightarrow> count_list (join sep xs) c = sum_list (map (\<lambda>x. count_list x c) xs)"
  by (induction sep xs rule: join.induct) simp_all

lemma sum_list_nat_const:
  "(\<And>x. x \<in> set xs \<Longrightarrow> f x = (k :: nat)) \<Longrightarrow> sum_list (map f xs) = k * length xs"
  by (induction xs) simp_all

lemma filter_map_update:
  "(\<And>x. x \<in> set xs \<Longrightarrow> P (f x) = P x) \<Longrightarrow> filter P (map f xs) = map f (filter P xs)"
  by (induction xs) auto

lemma find_append: "find p (xs @ ys) = (case find p xs of None \<Rightarrow> find p ys | Some x \<Rightarrow> Some x)"
  by (induction xs) simp_all

lemma find_Some_filter: "find P xs = Some x \<Longrightarrow> \<exists>ys. filter P xs = x # ys"
  by (induction xs) (auto split: if_splits)

lemma filter_find: "filter P xs = x # ys \<Longrightarrow> find P xs = Some x"
  by (induction xs) (auto split: if_splits)

lemma sum_powers_of_two: "(\<Sum>n < k. (2::int) ^ n) = 2 ^ k - 1"
  by (induction k) simp_all

text \<open>Decimal printing of a natural number, as \<open>String(n)\<close> gives it.\<close>

definition digit_char :: "nat \<Rightarrow> char" where
  "digit_char d = char_of (48 + d)"

fun show_nat :: "nat \<Rightarrow> string" where
  "show_nat n = (if n < 10 then [digit_char n] else show_nat (n div 10) @ [digit_char (n mod 10)])"

declare show_nat.simps [simp del]

end
