(* ===== verification/Trade_Types.thy ===== *)
theory Trade_Types
  imports Js_Prelude
begin

text \<open>
  The data of the trading engine: the types of \<^verbatim>\<open>src/types/types.ts\<close> and
  \<^verbatim>\<open>src/repository/types/types.ts\<close>, the tables created by
  \<^verbatim>\<open>src/utils/DatabaseService/DatabaseService.ts\<close>, the platform the process runs on and the
  state of one trading process.

  The platform \<open>'x platform\<close> is a parameter: the ccxt client, the clock, the source of
  randomness, the cipher and the failures of the database engine are code outside the
  repository. Its functions act on an opaque state \<open>'x\<close>. The state of the process,
  \<open>'x world\<close>, holds that opaque state, the tables, the order lists of the two
  \<^verbatim>\<open>OrdersOperationService\<close> instances (the strategy's own one and the one inside
  \<^verbatim>\<open>SessionTradingService\<close>), the balance caches, the messages sent to the parent process and
  a log of the calls made to the exchange.
\<close>

section \<open>Order and market data\<close>

datatype mode = Buy | Sell

datatype trade_type = Market | Limit

fun opposite :: "mode \<Rightarrow> mode" where
  "opposite Buy = Sell"
| "opposite Sell = Buy"

lemma opposite_simps [simp]:
  "opposite (opposite m) = m" "opposite m \<noteq> m" "opposite m = Buy \<longleftrightarrow> m = Sell" "opposite m = Sell \<longleftrightarrow> m = Buy"
  by (cases m; simp)+

text \<open>The fields of a ccxt order the code reads; \<open>None\<close> is a field that is undefined.\<close>

record ccxt_order =
  o_id :: string
  o_clientOrderId :: "string option"
  o_symbol :: string
  o_side :: "mode option"
  o_type :: string
  o_status :: "string option"
  o_price :: "jsnum option"
  o_amount :: "jsnum option"
  o_filled :: "jsnum option"
  o_remaining :: "jsnum option"
  o_average :: "jsnum option"
  o_info :: "string option"

text \<open>
  The column \<open>"order"\<close> read back: an object (PostgreSQL JSON), a text (SQLite) that
  \<^verbatim>\<open>JSON.parse\<close> accepts or rejects, or nothing.
\<close>

datatype stored_json = JsonNull | JsonText "ccxt_order option" | JsonObject ccxt_order

text \<open>
  An element of \<^verbatim>\<open>OrdersOperationService.orders\<close>: a ccxt order as it was pushed, or a row of
  \<^verbatim>\<open>trade_operation\<close> (\<^verbatim>\<open>OrderType\<close>), which also has \<open>orderId\<close> and \<open>order\<close>.
\<close>

record mem_order = ccxt_order +
  o_orderId :: "string option"
  o_order :: stored_json

definition as_mem :: "ccxt_order \<Rightarrow> mem_order" where
  "as_mem o' = ccxt_order.extend o' (mem_order.fields None JsonNull)"

lemma as_mem_simps [simp]:
  "o_id (as_mem r) = o_id r" "o_side (as_mem r) = o_side r" "o_amount (as_mem r) = o_amount r"
  "o_price (as_mem r) = o_price r" "o_filled (as_mem r) = o_filled r"
  "o_orderId (as_mem r) = None" "o_order (as_mem r) = JsonNull" "o_symbol (as_mem r) = o_symbol r"
  by (simp_all add: as_mem_def ccxt_order.defs mem_order.defs)

record setting_order =
  so_symbol :: string
  so_type :: trade_type
  so_amount :: jsnum
  so_price :: jsnum

record create_open_position =
  rq_symbol :: string
  rq_type :: trade_type
  rq_side :: mode
  rq_amount :: jsnum
  rq_price :: jsnum
  rq_stopPrice :: "jsnum option"

record open_position =
  ps_symbol :: string
  ps_amount :: jsnum
  ps_price :: jsnum

record ticker =
  t_last :: "jsnum option"
  t_bid :: jsnum
  t_ask :: jsnum

record currency =
  cu_free :: "jsnum option"
  cu_used :: "jsnum option"
  cu_total :: "jsnum option"

type_synonym balance = "(string \<times> currency) list"
type_synonym ohlcv = "jsnum list"

text \<open>Reading an array out of range gives undefined.\<close>

definition js_index :: "'a list \<Rightarrow> nat \<Rightarrow> 'a option" where
  "js_index xs i = (if i < length xs then Some (xs ! i) else None)"

definition TimeFrame :: "string \<Rightarrow> string option" where
  "TimeFrame s = (if s \<in> {''1s'', ''1m'', ''3m'', ''5m'', ''15m'', ''30m'', ''1h'', ''2h'', ''4h'',
     ''6h'', ''8h'', ''12h'', ''1d'', ''3d'', ''1w'', ''1M''} then Some s else None)"

section \<open>Configuration\<close>

datatype exchange_type = okx | binance | bitget | kucoin | mexc | poloniex | gate | exmo | bybit

record config =
  c_id :: nat
  c_apiKey :: string
  c_privateKey :: string
  c_password :: string
  c_symbol :: string
  c_positionSize :: jsnum
  c_countGridSize :: "jsnum option"
  c_gridSize :: "jsnum option"
  c_percentBuyBackStep :: jsnum
  c_takeProfit :: "jsnum option"
  c_stopLoss :: "jsnum option"
  c_isEmergencyStop :: bool
  c_isFibonacci :: bool
  c_percentProfit :: jsnum
  c_percentFromBalance :: jsnum
  c_candlePriceRange :: string
  c_isPercentTargetAfterTakeProfit :: bool
  c_isCapitalizeDeltaFromSale :: bool
  c_isCoinAccumulation :: bool
  c_isConfigUpdated :: bool
  c_isAutoStartTrading :: bool
  c_isStopTrading :: bool
  c_isOnlyBuy :: bool
  c_percentTargetAfterTakeProfit :: jsnum
  c_balanceDistribution :: bool
  c_exchange :: exchange_type

section \<open>Tables\<close>

text \<open>
  One record per table, with the columns of the schema that the queries read or write. The
  flags \<^verbatim>\<open>is_active\<close>, \<^verbatim>\<open>is_delete\<close> and the like are SMALLINT 0/1 columns.
\<close>

record trade_operation_row =
  op_id :: nat
  op_price :: jsnum
  op_side :: mode
  op_symbol :: string
  op_is_active :: bool
  op_is_delete :: bool
  op_order_id :: string
  op_order :: ccxt_order
  op_index_operation :: string
  op_amount :: jsnum

record trade_session_row =
  se_id :: nat
  se_index_session :: string
  se_is_active :: bool
  se_profit_session :: "jsnum option"
  se_config_id :: nat

record balance_row =
  ba_usdt :: "jsnum option"
  ba_profit_all :: jsnum
  ba_exchange_name :: exchange_type
  ba_update_date :: int
  ba_profit_usdt :: jsnum
  ba_id :: nat
  ba_balance_object :: balance

record config_row = config +
  c_loggerEvent :: "string option"

section \<open>Messages to the parent process\<close>

record order_update =
  u_exchangeOrderId :: string
  u_clientOrderId :: string
  u_symbol :: string
  u_side :: string
  u_orderType :: string
  u_status :: string
  u_quantity :: jsnum
  u_price :: "jsnum option"
  u_rawResponse :: string

section \<open>The platform\<close>

datatype app_mode = Web | Desktop

record 'x platform =
  p_app_mode :: app_mode
  p_has_ipc :: bool
  p_fetchTicker :: "string \<Rightarrow> ('x, ticker) eff"
  p_fetchBidsAsks :: "string list \<Rightarrow> ('x, (string \<times> ticker) list) eff"
  p_fetchBalance :: "('x, balance) eff"
  p_fetchTradingFee :: "('x, jsnum) eff"
  p_fetchOHLCV :: "string \<Rightarrow> string option \<Rightarrow> ('x, ohlcv list) eff"
  p_fetchOrder :: "string \<Rightarrow> string \<Rightarrow> ('x, ccxt_order) eff"
  p_fetchOpenOrders :: "string \<Rightarrow> ('x, ccxt_order list) eff"
  p_cancelAllOrders :: "string \<Rightarrow> ('x, unit) eff"
  p_cancelOrder :: "string \<Rightarrow> string \<Rightarrow> ('x, unit) eff"
  p_createOrder :: "create_open_position \<Rightarrow> ('x, ccxt_order) eff"
  p_createMarketOrder :: "create_open_position \<Rightarrow> ('x, ccxt_order) eff"
  p_createLimitBuyOrder :: "open_position \<Rightarrow> ('x, ccxt_order) eff"
  p_createLimitSellOrder :: "open_position \<Rightarrow> ('x, ccxt_order) eff"
  p_createMarketBuyOrder :: "string \<Rightarrow> jsnum \<Rightarrow> ('x, ccxt_order) eff"
  p_createMarketSellOrder :: "string \<Rightarrow> jsnum \<Rightarrow> ('x, ccxt_order) eff"
  p_now :: "'x \<Rightarrow> int \<times> 'x"
  p_sleep :: "int \<Rightarrow> 'x \<Rightarrow> 'x"
  p_random :: "'x \<Rightarrow> rat \<times> 'x"
  p_db_fault :: "'x \<Rightarrow> js_error option \<times> 'x"
  p_randomIv :: "'x \<Rightarrow> string \<times> 'x"
  p_gcm_seal :: "string \<Rightarrow> string \<Rightarrow> string \<times> string"
  p_gcm_open :: "string \<Rightarrow> string \<Rightarrow> string \<Rightarrow> js_error + string"
  p_cbc_open :: "string \<Rightarrow> string \<Rightarrow> js_error + string"
  p_latest :: "balance_row list \<Rightarrow> balance_row option"

text \<open>A call of the ccxt client, as it is logged.\<close>

datatype api_call =
    FetchTicker string | FetchBidsAsks "string list" | FetchBalance | FetchTradingFee
  | FetchOHLCV string "string option" | FetchOrder string string | FetchOpenOrders string
  | CancelAllOrders string | CancelOrder string string
  | CreateOrder create_open_position | CreateMarketOrder create_open_position
  | CreateLimitBuyOrder open_position | CreateLimitSellOrder open_position
  | CreateMarketBuyOrder string jsnum | CreateMarketSellOrder string jsnum

section \<open>The state of a trading process\<close>

datatype ops_instance = StrategyOps | SessionOps | CheckingOps

datatype exchange_instance = StrategyExchange | SessionExchange

record 'x world =
  ext :: 'x
  ops_orders :: "ops_instance \<Rightarrow> mem_order list"
  balance_cache :: "exchange_instance \<Rightarrow> (balance \<times> int) option"
  trade_operation :: "trade_operation_row list"
  trade_session :: "trade_session_row list"
  trade_config :: "config_row list"
  balance_history :: "balance_row list"
  instance_identity :: "string list"
  sent :: "order_update list"
  api_log :: "api_call list"

text \<open>A call of the ccxt client: it runs on the opaque state and is logged.\<close>

definition ccxt_call :: "api_call \<Rightarrow> ('x, 'a) eff \<Rightarrow> ('x world, 'a) eff" where
  "ccxt_call c m w = (case m (ext w) of (r, x) \<Rightarrow> (r, w\<lparr>ext := x, api_log := api_log w @ [c]\<rparr>))"

definition Date_now :: "'x platform \<Rightarrow> ('x world, int) eff" where
  "Date_now P w = (case p_now P (ext w) of (n, x) \<Rightarrow> (Inr n, w\<lparr>ext := x\<rparr>))"

definition sleepE :: "'x platform \<Rightarrow> int \<Rightarrow> ('x world, unit) eff" where
  "sleepE P ms w = (Inr (), w\<lparr>ext := p_sleep P ms (ext w)\<rparr>)"

definition randomE :: "'x platform \<Rightarrow> ('x world, rat) eff" where
  "randomE P w = (case p_random P (ext w) of (n, x) \<Rightarrow> (Inr n, w\<lparr>ext := x\<rparr>))"

definition randomIvE :: "'x platform \<Rightarrow> ('x world, string) eff" where
  "randomIvE P w = (case p_randomIv P (ext w) of (n, x) \<Rightarrow> (Inr n, w\<lparr>ext := x\<rparr>))"

text \<open>
  \<^verbatim>\<open>DatabaseService.query\<close>: the engine may reject the statement; otherwise the statement acts
  on the tables.
\<close>

definition queryE :: "'x platform \<Rightarrow> ('x world \<Rightarrow> 'a \<times> 'x world) \<Rightarrow> ('x world, 'a) eff" where
  "queryE P stmt w =
     (case p_db_fault P (ext w) of
        (Some e, x) \<Rightarrow> (Inl e, w\<lparr>ext := x\<rparr>)
      | (None, x) \<Rightarrow> (case stmt (w\<lparr>ext := x\<rparr>) of (r, v) \<Rightarrow> (Inr r, v)))"

text \<open>The calls that put an order on the exchange, in the order they were made.\<close>

fun places_order :: "api_call \<Rightarrow> bool" where
  "places_order (CreateOrder _) = True"
| "places_order (CreateMarketOrder _) = True"
| "places_order (CreateLimitBuyOrder _) = True"
| "places_order (CreateLimitSellOrder _) = True"
| "places_order (CreateMarketBuyOrder _ _) = True"
| "places_order (CreateMarketSellOrder _ _) = True"
| "places_order _ = False"

definition orders_placed :: "'x world \<Rightarrow> api_call list" where
  "orders_placed w = filter places_order (api_log w)"

text \<open>
  An observation of the world that ignores the opaque state and the logged calls that place no
  order is untouched by the reads of the platform: these are the frames of the development.
\<close>

definition platform_free :: "('x world \<Rightarrow> 'b) \<Rightarrow> bool" where
  "platform_free g \<longleftrightarrow>
     (\<forall>w x. g (w\<lparr>ext := x\<rparr>) = g w) \<and>
     (\<forall>w c. \<not> places_order c \<longrightarrow> g (w\<lparr>api_log := api_log w @ [c]\<rparr>) = g w)"

definition log_free :: "('x world \<Rightarrow> 'b) \<Rightarrow> bool" where
  "log_free g \<longleftrightarrow> (\<forall>w l. g (w\<lparr>api_log := l\<rparr>) = g w)"

lemma platform_free_ext: "platform_free g \<Longrightarrow> g (w\<lparr>ext := x\<rparr>) = g w"
  by (simp add: platform_free_def)

lemma platform_free_call:
  assumes "platform_free g" and "\<not> places_order c \<or> log_free g"
  shows "g (w\<lparr>ext := x, api_log := api_log w @ [c]\<rparr>) = g w"
proof -
  have "g (w\<lparr>ext := x, api_log := api_log (w\<lparr>ext := x\<rparr>) @ [c]\<rparr>) = g (w\<lparr>ext := x\<rparr>)"
    using assms unfolding platform_free_def log_free_def by blast
  with assms(1) show ?thesis by (simp add: platform_free_ext)
qed

lemma platform_free_fields [simp, intro]:
  "platform_free ops_orders" "platform_free balance_cache" "platform_free trade_operation"
  "platform_free trade_session" "platform_free trade_config" "platform_free balance_history"
  "platform_free instance_identity" "platform_free sent" "platform_free orders_placed"
  "platform_free (\<lambda>w. ops_orders w i)"
  by (simp_all add: platform_free_def orders_placed_def)

lemma log_free_fields [simp, intro]:
  "log_free ops_orders" "log_free balance_cache" "log_free trade_operation"
  "log_free trade_session" "log_free trade_config" "log_free balance_history"
  "log_free instance_identity" "log_free sent" "log_free (\<lambda>w. ops_orders w i)"
  by (simp_all add: log_free_def)

lemma reads_place_no_order [unchanged_rules]:
  "\<not> places_order (FetchTicker s)" "\<not> places_order (FetchBidsAsks ss)" "\<not> places_order FetchBalance"
  "\<not> places_order FetchTradingFee" "\<not> places_order (FetchOHLCV s tf)" "\<not> places_order (FetchOrder i s)"
  "\<not> places_order (FetchOpenOrders s)" "\<not> places_order (CancelAllOrders s)" "\<not> places_order (CancelOrder i s)"
  by simp_all

lemma ccxt_read_unchanged [unchanged_rules]:
  "platform_free g \<Longrightarrow> \<not> places_order c \<Longrightarrow> unchanged g (ccxt_call c m)"
  by (auto intro!: unchangedI simp: ccxt_call_def platform_free_call split: prod.splits)

lemma ccxt_create_unchanged:
  "platform_free g \<Longrightarrow> log_free g \<Longrightarrow> unchanged g (ccxt_call c m)"
  by (auto intro!: unchangedI simp: ccxt_call_def platform_free_call split: prod.splits)

lemma platform_unchanged [unchanged_rules]:
  assumes "platform_free g"
  shows "unchanged g (Date_now P)" "unchanged g (sleepE P ms)"
    "unchanged g (randomE P)" "unchanged g (randomIvE P)"
  using assms
  by (auto intro!: unchangedI
      simp: Date_now_def sleepE_def randomE_def randomIvE_def platform_free_ext split: prod.splits)

lemma unchanged_query:
  assumes "platform_free g" and "\<And>w. g (snd (stmt w)) = g w"
  shows "unchanged g (queryE P stmt)"
proof (rule unchangedI)
  fix s r t
  assume "queryE P stmt s = (r, t)"
  then show "g t = g s"
    using assms(2) platform_free_ext [OF assms(1)]
    by (auto simp: queryE_def split: prod.splits option.splits) (metis snd_conv)
qed

lemma queryE_Inr:
  "queryE P stmt w = (Inr r, t) \<longleftrightarrow>
     (\<exists>x. p_db_fault P (ext w) = (None, x) \<and> stmt (w\<lparr>ext := x\<rparr>) = (r, t))"
  by (auto simp: queryE_def split: prod.splits option.splits)

lemma queryE_Inl:
  "queryE P stmt w = (Inl e, t) \<longleftrightarrow> (\<exists>x. p_db_fault P (ext w) = (Some e, x) \<and> t = w\<lparr>ext := x\<rparr>)"
  by (auto simp: queryE_def split: prod.splits option.splits)

lemma ccxt_call_Inr:
  "ccxt_call c m w = (Inr r, t) \<longleftrightarrow>
     (\<exists>x. m (ext w) = (Inr r, x) \<and> t = w\<lparr>ext := x, api_log := api_log w @ [c]\<rparr>)"
  by (auto simp: ccxt_call_def split: prod.splits)

lemma ccxt_call_Inl:
  "ccxt_call c m w = (Inl r, t) \<longleftrightarrow>
     (\<exists>x. m (ext w) = (Inl r, x) \<and> t = w\<lparr>ext := x, api_log := api_log w @ [c]\<rparr>)"
  by (auto simp: ccxt_call_def split: prod.splits)

lemma sleepE_Inr [simp]: "sleepE P ms w = (Inr r, t) \<longleftrightarrow> t = w\<lparr>ext := p_sleep P ms (ext w)\<rparr>"
  by (auto simp: sleepE_def)

lemma sleepE_Inl [simp]: "sleepE P ms w \<noteq> (Inl r, t)"
  by (auto simp: sleepE_def)

end
