(* ===== verification/Trading_Math.thy ===== *)
theory Trading_Math
  imports Trade_Types
begin

text \<open>
  The pure arithmetic of the engine: \<^verbatim>\<open>src/trading-service/trading-math.ts\<close>,
  \<^verbatim>\<open>src/utils/OrdersOperationService/position-exposure.ts\<close> and
  \<^verbatim>\<open>src/utils/SessionTrading/session-reconciliation.ts\<close>. The locale \<open>signed_ledger\<close> states
  once what a list of buys and sells nets to; both exposure functions are interpretations of
  it, and the lemmas about closing a position come from there.
\<close>

section \<open>trading-math.ts\<close>

record position_metrics =
  pnlPerUnit :: jsnum
  pnlRatio :: jsnum
  positionPnl :: jsnum

definition resolvePositionSide :: "mode option \<Rightarrow> mode option list \<Rightarrow> js_error + mode" where
  "resolvePositionSide firstOrderSide orderSides =
     (case nullish_opt firstOrderSide (Option.bind (js_index orderSides 0) (\<lambda>s. s)) of
        None \<Rightarrow> Inl (newError ''Position side requires at least one entry order.'')
      | Some positionSide \<Rightarrow> Inr positionSide)"

definition calculatePositionMetrics ::
    "mode \<Rightarrow> jsnum \<Rightarrow> jsnum \<Rightarrow> jsnum \<Rightarrow> js_error + position_metrics" where
  "calculatePositionMetrics entrySide averageEntryPrice lastPrice positionAmount =
     (if \<not> (averageEntryPrice > Fin 0) \<or> \<not> (lastPrice > Fin 0) \<or> \<not> (positionAmount \<ge> Fin 0)
      then Inl (newError ''Position metrics require positive prices and a non-negative position amount.'')
      else let pnl = (if entrySide = Buy then lastPrice - averageEntryPrice
                      else averageEntryPrice - lastPrice)
        in Inr \<lparr>pnlPerUnit = pnl, pnlRatio = pnl / averageEntryPrice,
                positionPnl = pnl * positionAmount\<rparr>)"

definition calculateBuyBackAmount :: "jsnum \<Rightarrow> jsnum \<Rightarrow> jsnum \<Rightarrow> js_error + jsnum" where
  "calculateBuyBackAmount averageEntryPrice percentBuyBackStep drawdownStep =
     (if \<not> (averageEntryPrice > Fin 0) \<or> \<not> (percentBuyBackStep \<ge> Fin 0) \<or> \<not> (drawdownStep \<ge> Fin 1)
      then Inl (newError ''Buyback calculation requires a positive price, non-negative step percentage, and drawdown step.'')
      else Inr (averageEntryPrice * percentBuyBackStep * drawdownStep))"

record buy_back_params =
  bb_side :: mode
  bb_availableBalance :: jsnum
  bb_lastPrice :: jsnum
  bb_percentFromBalance :: jsnum
  bb_positionSize :: jsnum
  bb_drawdownStep :: jsnum
  bb_fibonacci :: bool

definition calculateBuyBackOrderAmount :: "buy_back_params \<Rightarrow> jsnum" where
  "calculateBuyBackOrderAmount p =
     (if \<not> (bb_availableBalance p > Fin 0) \<or> \<not> (bb_lastPrice p > Fin 0) then Fin 0
      else let amount = (if bb_fibonacci p then bb_positionSize p * bb_drawdownStep p
                         else (bb_availableBalance p * bb_percentFromBalance p) /
                              (if bb_side p = Buy then bb_lastPrice p else Fin 1));
               requiredBalance = (if bb_side p = Buy then amount * bb_lastPrice p else amount)
        in if amount > Fin 0 \<and> requiredBalance \<le> bb_availableBalance p then amount else Fin 0)"

section \<open>position-exposure.ts and session-reconciliation.ts\<close>

record filled_order =
  fo_side :: "mode option"
  fo_filled :: jsnum

record closing_exposure =
  ce_side :: mode
  ce_amount :: jsnum

definition EPSILON :: rat where
  "EPSILON = 1 / 2 ^ 52"

definition calculateClosingOrderExposure :: "filled_order list \<Rightarrow> closing_exposure option" where
  "calculateClosingOrderExposure orders =
     (let netBaseAmount = foldl (\<lambda>total order.
            let filled = fo_filled order
            in if \<not> isFinite filled \<or> filled \<le> Fin 0 then total
               else total + (if fo_side order = Some Buy then filled else - filled)) (Fin 0) orders
      in if \<bar>netBaseAmount\<bar> \<le> Fin EPSILON then None
         else Some \<lparr>ce_side = (if netBaseAmount > Fin 0 then Sell else Buy),
                    ce_amount = \<bar>netBaseAmount\<bar>\<rparr>)"

record session_order =
  sx_side :: "mode option"
  sx_amount :: "jsnum option"

definition Math_max :: "jsnum \<Rightarrow> jsnum \<Rightarrow> jsnum" where
  "Math_max x y = (if isNaN x \<or> isNaN y then NaN else if x \<le> y then y else x)"

definition isSessionExposureClosed :: "session_order list \<Rightarrow> bool" where
  "isSessionExposureClosed orders =
     (if length orders < 2 \<or> \<not> list_ex (\<lambda>order. sx_side order \<noteq> sx_side (hd orders)) orders then False
      else if list_ex (\<lambda>order. \<not> isFinite (Number (sx_amount order)) \<or> Number (sx_amount order) \<le> Fin 0) orders
      then False
      else let netAmount = reduce_sum (\<lambda>order. if sx_side order = Some Buy then Number (sx_amount order)
                                               else - Number (sx_amount order)) orders;
               totalAmount = reduce_sum (\<lambda>order. \<bar>Number (sx_amount order)\<bar>) orders;
               tolerance = Math_max (Fin (1 / 10 ^ 12)) (totalAmount * Fin (1 / 10 ^ 8))
        in \<bar>netAmount\<bar> \<le> tolerance)"

section \<open>The ledger of buys and sells\<close>

locale signed_ledger =
  fixes side_of :: "'o \<Rightarrow> mode option"
    and qty :: "'o \<Rightarrow> rat"
  assumes qty_nonneg: "0 \<le> qty r"
begin

definition signed :: "'o \<Rightarrow> rat" where
  "signed r = (if side_of r = Some Buy then qty r else - qty r)"

definition net :: "'o list \<Rightarrow> rat" where
  "net rs = sum_list (map signed rs)"

definition total :: "'o list \<Rightarrow> rat" where
  "total rs = sum_list (map qty rs)"

lemma net_simps [simp]:
  "net [] = 0" "net (r # rs) = signed r + net rs" "net (rs @ ss) = net rs + net ss"
  by (simp_all add: net_def)

lemma total_nonneg: "0 \<le> total rs"
  by (induction rs) (auto simp: total_def qty_nonneg)

lemma net_le_total: "\<bar>net rs\<bar> \<le> total rs"
proof (induction rs)
  case Nil
  then show ?case by (simp add: total_def)
next
  case (Cons r rs)
  have "\<bar>signed r\<bar> = qty r"
    using qty_nonneg [of r] by (simp add: signed_def)
  with Cons show ?case by (simp add: total_def)
qed

text \<open>Selling (buying back) exactly the long (short) net leaves nothing open.\<close>

lemma net_closed:
  assumes "side_of c = Some (if 0 < net rs then Sell else Buy)" and "qty c = \<bar>net rs\<bar>"
  shows "net (rs @ [c]) = 0"
  using assms by (auto simp: signed_def)

text \<open>A ledger with a positive (negative) net has an order on that side.\<close>

lemma net_pos_has_buy: "0 < net rs \<Longrightarrow> \<exists>r \<in> set rs. side_of r = Some Buy"
proof (induction rs)
  case (Cons r rs)
  then show ?case
    using qty_nonneg [of r] by (auto simp: signed_def split: if_splits)
qed simp

lemma net_neg_has_non_buy: "net rs < 0 \<Longrightarrow> \<exists>r \<in> set rs. side_of r \<noteq> Some Buy"
proof (induction rs)
  case (Cons r rs)
  then show ?case
    using qty_nonneg [of r] by (auto simp: signed_def split: if_splits)
qed simp

end

definition filled_qty :: "filled_order \<Rightarrow> rat" where
  "filled_qty r = (case fo_filled r of Fin a \<Rightarrow> max a 0 | _ \<Rightarrow> 0)"

interpretation fills: signed_ledger fo_side filled_qty
  by unfold_locales (simp add: filled_qty_def split: jsnum.splits)

lemma filled_qty_simps [simp]:
  "fo_filled r = Fin a \<Longrightarrow> filled_qty r = max a 0"
  "\<not> isFinite (fo_filled r) \<Longrightarrow> filled_qty r = 0"
  by (auto simp: filled_qty_def split: jsnum.splits)

lemma fills_fold:
  "foldl (\<lambda>total order.
      let filled = fo_filled order
      in if \<not> isFinite filled \<or> filled \<le> Fin 0 then total
         else total + (if fo_side order = Some Buy then filled else - filled)) (Fin a) orders
    = Fin (a + fills.net orders)"
proof (induction orders arbitrary: a)
  case (Cons r rs)
  then show ?case
    by (cases "fo_filled r") (auto simp: Let_def fills.signed_def)
qed simp

lemma closing_exposure_net:
  "calculateClosingOrderExposure orders =
     (if \<bar>fills.net orders\<bar> \<le> EPSILON then None
      else Some \<lparr>ce_side = (if fills.net orders > 0 then Sell else Buy),
                 ce_amount = Fin \<bar>fills.net orders\<bar>\<rparr>)"
  unfolding calculateClosingOrderExposure_def fills_fold by (simp add: Let_def)

definition session_qty :: "session_order \<Rightarrow> rat" where
  "session_qty r = (case sx_amount r of Some (Fin a) \<Rightarrow> max a 0 | _ \<Rightarrow> 0)"

interpretation session_ledger: signed_ledger sx_side session_qty
  by unfold_locales (simp add: session_qty_def split: option.splits jsnum.splits)

definition well_filled :: "session_order \<Rightarrow> bool" where
  "well_filled r = (case sx_amount r of Some (Fin a) \<Rightarrow> 0 < a | _ \<Rightarrow> False)"

lemma well_filled_iff: "well_filled r \<longleftrightarrow> isFinite (Number (sx_amount r)) \<and> \<not> Number (sx_amount r) \<le> Fin 0"
  by (auto simp: well_filled_def split: option.splits jsnum.splits)

lemma well_filled_amount: "well_filled r \<Longrightarrow> Number (sx_amount r) = Fin (session_qty r)"
  by (auto simp: well_filled_def session_qty_def split: option.splits jsnum.splits)

lemma session_net:
  "list_all well_filled rs \<Longrightarrow>
   reduce_sum (\<lambda>r. if sx_side r = Some Buy then Number (sx_amount r) else - Number (sx_amount r)) rs
     = Fin (session_ledger.net rs)"
  by (induction rs) (auto simp: well_filled_amount session_ledger.signed_def)

lemma session_total:
  "list_all well_filled rs \<Longrightarrow>
   reduce_sum (\<lambda>r. \<bar>Number (sx_amount r)\<bar>) rs = Fin (session_ledger.total rs)"
  by (induction rs)
    (auto simp: well_filled_amount session_ledger.total_def abs_of_nonneg session_ledger.qty_nonneg)

lemma isSessionExposureClosed_iff:
  "isSessionExposureClosed rs \<longleftrightarrow>
     2 \<le> length rs \<and> (\<exists>r \<in> set rs. sx_side r \<noteq> sx_side (hd rs)) \<and> list_all well_filled rs \<and>
     \<bar>session_ledger.net rs\<bar> \<le> max (1 / 10 ^ 12) (session_ledger.total rs / 10 ^ 8)"
proof (cases "list_all well_filled rs")
  case True
  then have "\<not> list_ex (\<lambda>r. \<not> isFinite (Number (sx_amount r)) \<or> Number (sx_amount r) \<le> Fin 0) rs"
    by (auto simp: list_ex_iff list_all_iff well_filled_iff)
  with True show ?thesis
    unfolding isSessionExposureClosed_def
    by (auto simp: Let_def session_net session_total Math_max_def isNaN_def list_ex_iff max_def)
next
  case False
  then have "list_ex (\<lambda>r. \<not> isFinite (Number (sx_amount r)) \<or> Number (sx_amount r) \<le> Fin 0) rs"
    by (auto simp: list_ex_iff list_all_iff well_filled_iff)
  with False show ?thesis
    unfolding isSessionExposureClosed_def by simp
qed

text \<open>The rows of a session as the executed orders the closing order is computed from.\<close>

definition as_fill :: "session_order \<Rightarrow> filled_order" where
  "as_fill r = \<lparr>fo_side = sx_side r, fo_filled = Number (sx_amount r)\<rparr>"

lemma as_fill_qty: "filled_qty (as_fill r) = session_qty r"
  by (auto simp: as_fill_def filled_qty_def session_qty_def split: option.splits jsnum.splits)

lemma as_fill_net: "fills.net (map as_fill rs) = session_ledger.net rs"
proof (induction rs)
  case (Cons r rs)
  have "fo_side (as_fill r) = sx_side r"
    by (simp add: as_fill_def)
  with Cons show ?case
    by (simp add: fills.signed_def session_ledger.signed_def as_fill_qty)
qed simp

lemma closing_order_closes:
  assumes "calculateClosingOrderExposure orders = Some c"
  shows "calculateClosingOrderExposure
           (orders @ [\<lparr>fo_side = Some (ce_side c), fo_filled = ce_amount c\<rparr>]) = None
         \<and> isFinite (ce_amount c) \<and> Fin EPSILON < ce_amount c"
proof -
  let ?n = "fills.net orders"
  let ?o = "\<lparr>fo_side = Some (ce_side c), fo_filled = ce_amount c\<rparr>"
  from assms have big: "EPSILON < \<bar>?n\<bar>"
    and c: "c = \<lparr>ce_side = (if 0 < ?n then Sell else Buy), ce_amount = Fin \<bar>?n\<bar>\<rparr>"
    by (auto simp: closing_exposure_net split: if_splits)
  have "filled_qty ?o = \<bar>?n\<bar>" and "fo_side ?o = Some (if 0 < ?n then Sell else Buy)"
    by (simp_all add: c)
  then have "fills.net (orders @ [?o]) = 0"
    by (intro fills.net_closed) simp_all
  with big c show ?thesis
    by (simp add: closing_exposure_net EPSILON_def)
qed

section \<open>Properties\<close>

text \<open>
  C6: the closing order computed from a list of executed orders closes the position. When
  \<^verbatim>\<open>calculateClosingOrderExposure\<close> asks for an order, the amount it asks for is finite and
  above the noise threshold, and once that order is executed too nothing is left to close.
\<close>

theorem closing_order_flattens:
  assumes "calculateClosingOrderExposure orders = Some c"
  shows "calculateClosingOrderExposure
           (orders @ [\<lparr>fo_side = Some (ce_side c), fo_filled = ce_amount c\<rparr>]) = None
         \<and> isFinite (ce_amount c) \<and> Fin EPSILON < ce_amount c"
  using assms by (rule closing_order_closes)

theorem closing_order_flattens_witness:
  "calculateClosingOrderExposure
     ([\<lparr>fo_side = Some Buy, fo_filled = Fin 3\<rparr>, \<lparr>fo_side = Some Sell, fo_filled = Fin 1\<rparr>,
       \<lparr>fo_side = Some Buy, fo_filled = NaN\<rparr>] @ [\<lparr>fo_side = Some Sell, fo_filled = Fin 2\<rparr>]) = None"
proof -
  have "calculateClosingOrderExposure
     [\<lparr>fo_side = Some Buy, fo_filled = Fin 3\<rparr>, \<lparr>fo_side = Some Sell, fo_filled = Fin 1\<rparr>,
      \<lparr>fo_side = Some Buy, fo_filled = NaN\<rparr>] = Some \<lparr>ce_side = Sell, ce_amount = Fin 2\<rparr>"
    by (simp add: calculateClosingOrderExposure_def EPSILON_def)
  from closing_order_flattens [OF this] show ?thesis by simp
qed

text \<open>
  Recovery recognises a position the engine has closed. If every recorded order of a session
  has a finite positive amount and the closing order asked for is executed in full and recorded,
  then \<^verbatim>\<open>isSessionExposureClosed\<close> holds of the recorded orders, so a restarted process ends the
  session instead of trading on it.
\<close>

theorem closed_session_is_recognised:
  assumes filled: "list_all well_filled rs"
    and close: "calculateClosingOrderExposure (map as_fill rs) = Some c"
  shows "isSessionExposureClosed (rs @ [\<lparr>sx_side = Some (ce_side c), sx_amount = Some (ce_amount c)\<rparr>])"
proof -
  let ?n = "session_ledger.net rs"
  let ?o = "\<lparr>sx_side = Some (ce_side c), sx_amount = Some (ce_amount c)\<rparr>"
  from close have big: "EPSILON < \<bar>?n\<bar>"
    and c: "c = \<lparr>ce_side = (if 0 < ?n then Sell else Buy), ce_amount = Fin \<bar>?n\<bar>\<rparr>"
    by (auto simp: closing_exposure_net as_fill_net split: if_splits)
  from big have nz: "?n \<noteq> 0" by (auto simp: EPSILON_def)
  then obtain r rs' where rs: "rs = r # rs'"
    by (cases rs) auto
  have "session_ledger.net (rs @ [?o]) = 0"
    by (rule session_ledger.net_closed) (simp_all add: c session_qty_def)
  moreover have "list_all well_filled (rs @ [?o])"
    using filled nz by (simp add: c well_filled_def)
  moreover have "\<exists>x \<in> set (rs @ [?o]). sx_side x \<noteq> sx_side (hd (rs @ [?o]))"
  proof (cases "sx_side r = Some (ce_side c)")
    case True
    show ?thesis
    proof (cases "0 < ?n")
      case True
      with session_ledger.net_pos_has_buy obtain x where "x \<in> set rs" "sx_side x = Some Buy" by blast
      with \<open>sx_side r = Some (ce_side c)\<close> True rs c show ?thesis by force
    next
      case False
      with nz have "?n < 0" by simp
      with session_ledger.net_neg_has_non_buy obtain x where "x \<in> set rs" "sx_side x \<noteq> Some Buy" by blast
      with \<open>sx_side r = Some (ce_side c)\<close> False rs c show ?thesis by force
    qed
  next
    case False
    with rs show ?thesis by auto
  qed
  ultimately show ?thesis
    using rs by (simp add: isSessionExposureClosed_iff del: session_ledger.net_simps)
qed

theorem closed_session_is_recognised_witness:
  "isSessionExposureClosed
     ([\<lparr>sx_side = Some Sell, sx_amount = Some (Fin 1)\<rparr>, \<lparr>sx_side = Some Sell, sx_amount = Some (Fin 2)\<rparr>]
      @ [\<lparr>sx_side = Some Buy, sx_amount = Some (Fin 3)\<rparr>])"
proof -
  let ?rs = "[\<lparr>sx_side = Some Sell, sx_amount = Some (Fin 1)\<rparr>, \<lparr>sx_side = Some Sell, sx_amount = Some (Fin 2)\<rparr>]"
  have 1: "list_all well_filled ?rs"
    by (simp add: well_filled_def)
  have 2: "calculateClosingOrderExposure (map as_fill ?rs) = Some \<lparr>ce_side = Buy, ce_amount = Fin 3\<rparr>"
    by (simp add: calculateClosingOrderExposure_def as_fill_def EPSILON_def)
  from closed_session_is_recognised [OF 1 2] show ?thesis by simp
qed

text \<open>
  \<^verbatim>\<open>isSessionExposureClosed\<close> accepts only a session in which both sides traded, in which every
  recorded amount is a finite positive number, and whose open remainder is at most one part in
  \<open>10\<^sup>8\<close> of the traded volume (or \<open>10\<^sup>-\<^sup>1\<^sup>2\<close>): missing and NaN amounts are never taken for closed.
\<close>

theorem session_closed_exactly_when_balanced:
  "isSessionExposureClosed rs \<longleftrightarrow>
     2 \<le> length rs \<and> (\<exists>r \<in> set rs. sx_side r \<noteq> sx_side (hd rs)) \<and> list_all well_filled rs \<and>
     \<bar>\<Sum>r\<leftarrow>rs. if sx_side r = Some Buy then session_qty r else - session_qty r\<bar>
       \<le> max (1 / 10 ^ 12) ((\<Sum>r\<leftarrow>rs. session_qty r) / 10 ^ 8)"
  unfolding isSessionExposureClosed_iff session_ledger.net_def session_ledger.total_def
    session_ledger.signed_def ..

text \<open>
  A buy-back order never asks for more than the free balance. Whatever the inputs (NaN and
  infinities included), \<^verbatim>\<open>calculateBuyBackOrderAmount\<close> returns zero or a positive amount whose cost,
  in the currency it is paid in, is at most the available balance.
\<close>

theorem buy_back_within_balance:
  "calculateBuyBackOrderAmount p = Fin 0 \<or>
   Fin 0 < calculateBuyBackOrderAmount p \<and>
   (if bb_side p = Buy then calculateBuyBackOrderAmount p * bb_lastPrice p
    else calculateBuyBackOrderAmount p) \<le> bb_availableBalance p"
  by (auto simp: calculateBuyBackOrderAmount_def Let_def)

end
