(* ===== verification/Simulated_Exchange.thy ===== *)
theory Simulated_Exchange
  imports Trade_Types
begin

text \<open>
  A small executable platform: an exchange that fills every limit order at once and fully, with
  scripted prices, scripted API failures and scripted database failures. It is one instance of
  the parameter \<open>'x platform\<close>; the witnesses of the development evaluate the program on it.
\<close>

record sim =
  sim_clock :: int
  sim_prices :: "jsnum list"
  sim_faults :: "js_error option list"
  sim_db_faults :: "js_error option list"
  sim_book :: "ccxt_order list"
  sim_open :: "ccxt_order list"

definition sim_call :: "(sim \<Rightarrow> 'a \<times> sim) \<Rightarrow> (sim, 'a) eff" where
  "sim_call f x =
     (case sim_faults x of
        [] \<Rightarrow> (case f x of (v, y) \<Rightarrow> (Inr v, y))
      | None # fs \<Rightarrow> (case f (x\<lparr>sim_faults := fs\<rparr>) of (v, y) \<Rightarrow> (Inr v, y))
      | Some e # fs \<Rightarrow> (Inl e, x\<lparr>sim_faults := fs\<rparr>))"

definition sim_price :: "sim \<Rightarrow> ticker \<times> sim" where
  "sim_price x =
     (case sim_prices x of
        [] \<Rightarrow> (\<lparr>t_last = None, t_bid = NaN, t_ask = NaN\<rparr>, x)
      | [p] \<Rightarrow> (\<lparr>t_last = Some p, t_bid = p, t_ask = p\<rparr>, x)
      | p # ps \<Rightarrow> (\<lparr>t_last = Some p, t_bid = p, t_ask = p\<rparr>, x\<lparr>sim_prices := ps\<rparr>))"

definition sim_fill :: "create_open_position \<Rightarrow> sim \<Rightarrow> ccxt_order \<times> sim" where
  "sim_fill rq x =
     (let r = \<lparr>o_id = ''x'' @ show_nat (length (sim_book x)), o_clientOrderId = None,
               o_symbol = rq_symbol rq, o_side = Some (rq_side rq), o_type = ''limit'',
               o_status = Some ''closed'', o_price = Some (rq_price rq),
               o_amount = Some (rq_amount rq), o_filled = Some (rq_amount rq),
               o_remaining = Some (Fin 0), o_average = Some (rq_price rq), o_info = None\<rparr>
      in (r, x\<lparr>sim_book := sim_book x @ [r]\<rparr>))"

definition sim_usdt :: balance where
  "sim_usdt = [(''USDT'', \<lparr>cu_free = Some (Fin 1000), cu_used = Some (Fin 0), cu_total = Some (Fin 1000)\<rparr>),
               (''ETH'', \<lparr>cu_free = Some (Fin 10), cu_used = Some (Fin 0), cu_total = Some (Fin 10)\<rparr>)]"

definition as_limit :: "mode \<Rightarrow> string \<Rightarrow> jsnum \<Rightarrow> jsnum \<Rightarrow> create_open_position" where
  "as_limit side symbol amount price =
     \<lparr>rq_symbol = symbol, rq_type = Limit, rq_side = side, rq_amount = amount, rq_price = price,
      rq_stopPrice = None\<rparr>"

definition sim_find :: "string \<Rightarrow> (sim, ccxt_order) eff" where
  "sim_find i x =
     (case sim_call (\<lambda>y. (find (\<lambda>r. o_id r = i) (sim_book y), y)) x of
        (Inl e, y) \<Rightarrow> (Inl e, y)
      | (Inr None, y) \<Rightarrow> (Inl (JsError ''OrderNotFound'' None i), y)
      | (Inr (Some r), y) \<Rightarrow> (Inr r, y))"

text \<open>The cipher of the simulation only spells every byte as two letters.\<close>

fun sim_hex :: "string \<Rightarrow> string" where
  "sim_hex [] = []"
| "sim_hex (c # cs) = char_of (97 + of_char c div (16 :: nat)) # char_of (97 + of_char c mod (16 :: nat)) # sim_hex cs"

fun sim_unhex :: "string \<Rightarrow> string" where
  "sim_unhex (a # b # cs) = char_of (16 * (of_char a - 97) + (of_char b - 97 :: nat)) # sim_unhex cs"
| "sim_unhex _ = []"

definition sim_platform :: "app_mode \<Rightarrow> sim platform" where
  "sim_platform mode =
     \<lparr>p_app_mode = mode, p_has_ipc = True,
      p_fetchTicker = (\<lambda>_. sim_call sim_price),
      p_fetchBidsAsks = (\<lambda>ss. sim_call (\<lambda>x. (map (\<lambda>s. (s, fst (sim_price x))) ss, x))),
      p_fetchBalance = sim_call (\<lambda>x. (sim_usdt, x)),
      p_fetchTradingFee = sim_call (\<lambda>x. (Fin (1 / 1000), x)),
      p_fetchOHLCV = (\<lambda>_ _. sim_call (\<lambda>x. ([[Fin 0, Fin 100, Fin 120, Fin 90, Fin 100, Fin 1]], x))),
      p_fetchOrder = (\<lambda>i _. sim_find i),
      p_fetchOpenOrders = (\<lambda>_. sim_call (\<lambda>x. (sim_open x, x))),
      p_cancelAllOrders = (\<lambda>_. sim_call (\<lambda>x. ((), x\<lparr>sim_open := []\<rparr>))),
      p_cancelOrder = (\<lambda>i _. sim_call (\<lambda>x. ((), x\<lparr>sim_open := filter (\<lambda>r. o_id r \<noteq> i) (sim_open x)\<rparr>))),
      p_createOrder = (\<lambda>rq. sim_call (sim_fill rq)),
      p_createMarketOrder = (\<lambda>rq. sim_call (sim_fill rq)),
      p_createLimitBuyOrder = (\<lambda>p. sim_call (sim_fill (as_limit Buy (ps_symbol p) (ps_amount p) (ps_price p)))),
      p_createLimitSellOrder = (\<lambda>p. sim_call (sim_fill (as_limit Sell (ps_symbol p) (ps_amount p) (ps_price p)))),
      p_createMarketBuyOrder = (\<lambda>s a. sim_call (sim_fill (as_limit Buy s a (Fin 0)))),
      p_createMarketSellOrder = (\<lambda>s a. sim_call (sim_fill (as_limit Sell s a (Fin 0)))),
      p_now = (\<lambda>x. (sim_clock x, x)),
      p_sleep = (\<lambda>ms x. x\<lparr>sim_clock := sim_clock x + ms\<rparr>),
      p_random = (\<lambda>x. (1 / 2, x)),
      p_db_fault = (\<lambda>x. case sim_db_faults x of [] \<Rightarrow> (None, x) | f # fs \<Rightarrow> (f, x\<lparr>sim_db_faults := fs\<rparr>)),
      p_randomIv = (\<lambda>x. (''c0ffee'', x)),
      p_gcm_seal = (\<lambda>iv d. (''ff'', sim_hex d)),
      p_gcm_open = (\<lambda>iv tag d. Inr (sim_unhex d)),
      p_cbc_open = (\<lambda>iv d. Inr (sim_unhex d)),
      p_latest = (\<lambda>rows. case rows of [] \<Rightarrow> None | _ \<Rightarrow> Some (last rows))\<rparr>"

definition sim_start :: sim where
  "sim_start = \<lparr>sim_clock = 0, sim_prices = [Fin 100], sim_faults = [], sim_db_faults = [],
     sim_book = [], sim_open = []\<rparr>"

definition sim_world :: "sim \<Rightarrow> sim world" where
  "sim_world x = \<lparr>ext = x, ops_orders = (\<lambda>_. []), balance_cache = (\<lambda>_. None), trade_operation = [],
     trade_session = [], trade_config = [], balance_history = [], instance_identity = [],
     sent = [], api_log = []\<rparr>"

definition sim_config :: config where
  "sim_config =
     \<lparr>c_id = 1, c_apiKey = ''key'', c_privateKey = ''secret'', c_password = ''pass'',
      c_symbol = ''ETH/USDT'', c_positionSize = Fin 1, c_countGridSize = Some (Fin 1),
      c_gridSize = Some (Fin 1), c_percentBuyBackStep = Fin (1 / 100), c_takeProfit = None,
      c_stopLoss = Some (Fin (1 / 10)), c_isEmergencyStop = False, c_isFibonacci = False,
      c_percentProfit = Fin (2 / 100), c_percentFromBalance = Fin (1 / 100), c_candlePriceRange = ''1h'',
      c_isPercentTargetAfterTakeProfit = False, c_isCapitalizeDeltaFromSale = False,
      c_isCoinAccumulation = False, c_isConfigUpdated = False, c_isAutoStartTrading = False,
      c_isStopTrading = False, c_isOnlyBuy = True, c_percentTargetAfterTakeProfit = Fin (1 / 100),
      c_balanceDistribution = False, c_exchange = okx\<rparr>"

lemmas sim_defs =
  sim_call_def sim_price_def sim_fill_def sim_usdt_def as_limit_def sim_find_def sim_platform_def
  sim_start_def sim_world_def

lemma sim_nibble: "of_char (c :: char) div 16 < (16 :: nat)"
  using nat_of_char_less_256 [of c] by (simp add: less_mult_imp_div_less)

lemma sim_unhex_hex [simp]: "sim_unhex (sim_hex d) = d"
proof (induction d)
  case (Cons c cs)
  have "of_char c div (16 :: nat) < 16" "of_char c mod (16 :: nat) < 16"
    using sim_nibble by simp_all
  then show ?case
    using Cons by (simp add: of_char_of)
qed simp

lemma sim_hex_no_colon: "CHR '':'' \<notin> set (sim_hex d)"
proof (induction d)
  case (Cons c cs)
  have *: "char_of (97 + n) \<noteq> CHR '':''" if "n < 16" for n :: nat
  proof
    assume "char_of (97 + n) = CHR '':''"
    then have "of_char (char_of (97 + n)) = (of_char CHR '':'' :: nat)" by simp
    with that show False by (simp add: of_char_of)
  qed
  have "char_of (97 + of_char c div (16 :: nat)) \<noteq> CHR '':''"
    "char_of (97 + of_char c mod (16 :: nat)) \<noteq> CHR '':''"
    using sim_nibble by (auto intro!: *)
  with Cons show ?case by (metis sim_hex.simps(2) set_ConsD)
qed simp

end
