(* ===== verification/Exchange_Service.thy ===== *)
theory Exchange_Service
  imports Simulated_Exchange
begin

text \<open>
  \<^verbatim>\<open>src/utils/ExchangeService/ExchangeService.ts\<close>: the wrapper around the ccxt client, with
  its retries, its balance cache and the fallback of \<^verbatim>\<open>cancelAllOrders\<close>. The locale
  \<open>backoff\<close> is the contract of an exponential retry schedule; the other retry loops of the
  repository interpret it too.
\<close>

section \<open>Retries\<close>

definition isTransientExchangeError :: "js_error \<Rightarrow> bool" where
  "isTransientExchangeError e =
     (case e of
        NonError \<Rightarrow> False
      | JsError name code _ \<Rightarrow>
          name \<in> set [''DDoSProtection'', ''ExchangeNotAvailable'', ''NetworkError'',
                     ''RateLimitExceeded'', ''RequestTimeout''] \<or>
          nullish code '''' \<in> set [''ECONNRESET'', ''ECONNREFUSED'', ''ETIMEDOUT'', ''EAI_AGAIN''])"

definition retryDelay :: "nat \<Rightarrow> int" where
  "retryDelay attempt = min (1000 * 2 ^ (attempt - 1)) 10000"

text \<open>
  The loop \<^verbatim>\<open>for (attempt = 1; attempt <= 5; attempt++)\<close>; the first argument counts the
  iterations that are left.
\<close>

fun readWithRetry_loop ::
    "'x platform \<Rightarrow> nat \<Rightarrow> nat \<Rightarrow> js_error \<Rightarrow> ('x world, 'a) eff \<Rightarrow> ('x world, 'a) eff" where
  "readWithRetry_loop P 0 attempt lastError request = throwE lastError"
| "readWithRetry_loop P (Suc left) attempt lastError request =
     catchE request (\<lambda>error.
       if \<not> isTransientExchangeError error \<or> attempt = 5 then throwE error
       else bindE (sleepE P (retryDelay attempt)) (\<lambda>_.
         readWithRetry_loop P left (Suc attempt) error request))"

definition readWithRetry :: "'x platform \<Rightarrow> ('x world, 'a) eff \<Rightarrow> ('x world, 'a) eff" where
  "readWithRetry P request = readWithRetry_loop P 5 1 NonError request"

section \<open>The operations\<close>

definition getFee :: "'x platform \<Rightarrow> ('x world, jsnum) eff" where
  "getFee P = ccxt_call FetchTradingFee (p_fetchTradingFee P)"

definition getBalance :: "'x platform \<Rightarrow> exchange_instance \<Rightarrow> ('x world, balance) eff" where
  "getBalance P i =
     (let fetch = bindE (readWithRetry P (ccxt_call FetchBalance (p_fetchBalance P))) (\<lambda>balance.
            bindE (Date_now P) (\<lambda>now.
            bindE (modifyE (\<lambda>w. w\<lparr>balance_cache := (balance_cache w)(i \<mapsto> (balance, now + 10000))\<rparr>)) (\<lambda>_.
            ret balance)))
      in bindE (getsE (\<lambda>w. balance_cache w i)) (\<lambda>cache.
           case cache of
             None \<Rightarrow> fetch
           | Some (v, expiresAt) \<Rightarrow>
               bindE (Date_now P) (\<lambda>now. if expiresAt > now then ret v else fetch)))"

definition getSwap :: "'x platform \<Rightarrow> string list \<Rightarrow> ('x world, jsnum) eff" where
  "getSwap P symbol =
     bindE (ccxt_call (FetchBidsAsks symbol) (p_fetchBidsAsks P symbol)) (\<lambda>response.
       case Option.bind (js_index symbol 0) (map_of response) of
         None \<Rightarrow> throwE (typeError ''Cannot read properties of undefined'')
       | Some t \<Rightarrow> ret (t_ask t - t_bid t))"

definition getTick :: "'x platform \<Rightarrow> string \<Rightarrow> ('x world, ticker) eff" where
  "getTick P symbol = readWithRetry P (ccxt_call (FetchTicker symbol) (p_fetchTicker P symbol))"

definition getPrice :: "'x platform \<Rightarrow> string \<Rightarrow> ('x world, jsnum) eff" where
  "getPrice P symbol = bindE (getTick P symbol) (\<lambda>ticker. ret (Number (t_last ticker)))"

definition getOHLCVByTimeFrame :: "'x platform \<Rightarrow> string \<Rightarrow> string option \<Rightarrow> ('x world, ohlcv list) eff" where
  "getOHLCVByTimeFrame P symbol timeFrame =
     ccxt_call (FetchOHLCV symbol timeFrame) (p_fetchOHLCV P symbol timeFrame)"

definition openLongMarketPosition :: "'x platform \<Rightarrow> string \<Rightarrow> jsnum \<Rightarrow> ('x world, ccxt_order) eff" where
  "openLongMarketPosition P symbol amount =
     ccxt_call (CreateMarketBuyOrder symbol amount) (p_createMarketBuyOrder P symbol amount)"

definition openShortMarketPosition :: "'x platform \<Rightarrow> string \<Rightarrow> jsnum \<Rightarrow> ('x world, ccxt_order) eff" where
  "openShortMarketPosition P symbol amount =
     ccxt_call (CreateMarketSellOrder symbol amount) (p_createMarketSellOrder P symbol amount)"

definition openLimitLongPosition :: "'x platform \<Rightarrow> open_position \<Rightarrow> ('x world, ccxt_order) eff" where
  "openLimitLongPosition P p = ccxt_call (CreateLimitBuyOrder p) (p_createLimitBuyOrder P p)"

definition openLimitShortPosition :: "'x platform \<Rightarrow> open_position \<Rightarrow> ('x world, ccxt_order) eff" where
  "openLimitShortPosition P p = ccxt_call (CreateLimitSellOrder p) (p_createLimitSellOrder P p)"

definition checkStatusOrderById :: "'x platform \<Rightarrow> string \<Rightarrow> string \<Rightarrow> ('x world, ccxt_order) eff" where
  "checkStatusOrderById P oid symbol =
     readWithRetry P (ccxt_call (FetchOrder oid symbol) (p_fetchOrder P oid symbol))"

definition fetchOpenOrders :: "'x platform \<Rightarrow> string \<Rightarrow> ('x world, ccxt_order list) eff" where
  "fetchOpenOrders P symbol = ccxt_call (FetchOpenOrders symbol) (p_fetchOpenOrders P symbol)"

definition cancelAllOrders :: "'x platform \<Rightarrow> string \<Rightarrow> ('x world, unit) eff" where
  "cancelAllOrders P symbol =
     catchE (ccxt_call (CancelAllOrders symbol) (p_cancelAllOrders P symbol)) (\<lambda>bulkCancelError.
       bindE (catchE (fetchOpenOrders P symbol) (\<lambda>_. throwE bulkCancelError)) (\<lambda>openOrders.
         if openOrders = [] then ret ()
         else bindE (forE openOrders (\<lambda>order.
                catchE (ccxt_call (CancelOrder (o_id order) symbol) (p_cancelOrder P (o_id order) symbol))
                  (\<lambda>_. ret ()))) (\<lambda>_.
              bindE (fetchOpenOrders P symbol) (\<lambda>remainingOrders.
                if remainingOrders \<noteq> []
                then throwE (newError (''Unable to cancel open orders for '' @ symbol @ '': '' @
                       join '', '' (map o_id remainingOrders)))
                else ret ()))))"

definition createOrder :: "'x platform \<Rightarrow> create_open_position \<Rightarrow> ('x world, ccxt_order) eff" where
  "createOrder P rq = ccxt_call (CreateOrder rq) (p_createOrder P rq)"

definition createStopMarketOrder :: "'x platform \<Rightarrow> create_open_position \<Rightarrow> ('x world, ccxt_order) eff" where
  "createStopMarketOrder P rq = ccxt_call (CreateMarketOrder rq) (p_createMarketOrder P rq)"

definition getOpenOrders :: "'x platform \<Rightarrow> string \<Rightarrow> ('x world, ccxt_order list) eff" where
  "getOpenOrders P symbol = fetchOpenOrders P symbol"

definition getUnrealizedPnl :: "'x platform \<Rightarrow> string \<Rightarrow> jsnum \<Rightarrow> mode option \<Rightarrow> ('x world, jsnum) eff" where
  "getUnrealizedPnl P symbol priceOrder side =
     bindE (getTick P symbol) (\<lambda>ticker.
       let calculate = Number (t_last ticker) - priceOrder
       in ret (if side = Some Buy then calculate else - calculate))"

record info_price =
  ip_ticker :: ticker
  ip_price :: jsnum
  ip_prevCandleOHLC :: ohlcv
  ip_highestInCandle :: jsnum
  ip_lowestInCandle :: jsnum

definition getInfoPrice :: "'x platform \<Rightarrow> exchange_instance \<Rightarrow> string \<Rightarrow> string \<Rightarrow> ('x world, info_price) eff" where
  "getInfoPrice P i symbol candlePriceRange =
     bindE (getTick P symbol) (\<lambda>ticker.
     bindE (getOHLCVByTimeFrame P symbol (TimeFrame candlePriceRange)) (\<lambda>ohlc.
       if ohlc = [] then throwE (typeError ''Cannot read properties of undefined (reading 2)'')
       else let prevCandleOHLC = last ohlc
         in bindE (getBalance P i) (\<lambda>_.
              ret \<lparr>ip_ticker = ticker, ip_price = Number (t_last ticker),
                   ip_prevCandleOHLC = prevCandleOHLC,
                   ip_highestInCandle = Number (js_index prevCandleOHLC 2),
                   ip_lowestInCandle = Number (js_index prevCandleOHLC 3)\<rparr>)))"

section \<open>The retry schedule\<close>

text \<open>
  A retry schedule: the delay before the retry that follows attempt \<open>n\<close>, and the number of the
  last attempt. Its laws bound a single delay and the whole time spent waiting.
\<close>

locale backoff =
  fixes delay :: "nat \<Rightarrow> int"
    and max_attempt :: nat
  assumes delay_pos: "1 \<le> n \<Longrightarrow> n < max_attempt \<Longrightarrow> 0 < delay n"
    and delay_doubles: "1 \<le> n \<Longrightarrow> Suc n < max_attempt \<Longrightarrow> delay (Suc n) = 2 * delay n"
begin

definition total_wait :: int where
  "total_wait = (\<Sum>n \<in> {1..<max_attempt}. delay n)"

lemma delay_closed: "1 \<le> n \<Longrightarrow> n < max_attempt \<Longrightarrow> delay n = 2 ^ (n - 1) * delay 1"
proof (induction n rule: nat_induct_at_least)
  case (Suc n)
  then have "delay (Suc n) = 2 * delay n"
    by (intro delay_doubles) auto
  moreover from Suc have "delay n = 2 ^ (n - 1) * delay 1"
    by simp
  moreover from Suc.hyps obtain k where "n = Suc k"
    by (cases n) auto
  ultimately show ?case by simp
qed simp

lemma total_wait_closed:
  assumes "1 \<le> max_attempt"
  shows "total_wait = (2 ^ (max_attempt - 1) - 1) * delay 1"
proof -
  have "total_wait = (\<Sum>n \<in> {1..<max_attempt}. 2 ^ (n - 1) * delay 1)"
    unfolding total_wait_def
  proof (rule sum.cong)
    fix n
    assume "n \<in> {1..<max_attempt}"
    then show "delay n = 2 ^ (n - 1) * delay 1"
      by (intro delay_closed) simp_all
  qed simp
  also have "\<dots> = (\<Sum>n \<in> {1..<max_attempt}. 2 ^ (n - 1)) * delay 1"
    by (simp add: sum_distrib_right)
  also have "(\<Sum>n \<in> {1..<max_attempt}. (2::int) ^ (n - 1)) = (\<Sum>n < max_attempt - 1. 2 ^ n)"
    by (rule sum.reindex_bij_witness [of _ Suc "\<lambda>n. n - 1"]) auto
  also have "\<dots> = 2 ^ (max_attempt - 1) - 1"
    by (rule sum_powers_of_two)
  finally show ?thesis .
qed

end

lemma retryDelay_values:
  "retryDelay 1 = 1000" "retryDelay 2 = 2000" "retryDelay 3 = 4000" "retryDelay 4 = 8000"
  by (simp_all add: retryDelay_def)

interpretation exchange_backoff: backoff retryDelay 5
proof unfold_locales
  fix n :: nat
  assume "1 \<le> n" "n < 5"
  then show "0 < retryDelay n"
    by (simp add: retryDelay_def)
next
  fix n :: nat
  assume "1 \<le> n" "Suc n < 5"
  then have "n = 1 \<or> n = 2 \<or> n = 3" by auto
  then show "retryDelay (Suc n) = 2 * retryDelay n"
    by (auto simp: retryDelay_def)
qed

section \<open>Frames\<close>

text \<open>No operation of the exchange touches a table, an order list or a sent message.\<close>

lemma readWithRetry_loop_unchanged:
  "platform_free g \<Longrightarrow> unchanged g request \<Longrightarrow> unchanged g (readWithRetry_loop P k n e request)"
  by (induction k arbitrary: n e) (auto intro!: unchanged_rules)

lemma readWithRetry_unchanged [unchanged_rules]:
  "platform_free g \<Longrightarrow> unchanged g request \<Longrightarrow> unchanged g (readWithRetry P request)"
  by (simp add: readWithRetry_def readWithRetry_loop_unchanged)

lemma exchange_unchanged [unchanged_rules]:
  assumes "platform_free g"
  shows "unchanged g (getFee P)" "unchanged g (getSwap P ss)" "unchanged g (getTick P s)"
    "unchanged g (getPrice P s)" "unchanged g (getOHLCVByTimeFrame P s tf)"
    "unchanged g (checkStatusOrderById P i s)" "unchanged g (fetchOpenOrders P s)"
    "unchanged g (cancelAllOrders P s)" "unchanged g (getOpenOrders P s)"
    "unchanged g (getUnrealizedPnl P s pr sd)"
  unfolding getFee_def getSwap_def getTick_def getPrice_def getOHLCVByTimeFrame_def
    checkStatusOrderById_def fetchOpenOrders_def cancelAllOrders_def getOpenOrders_def
    getUnrealizedPnl_def Let_def
  by (intro unchanged_rules assms)+

lemma exchange_create_unchanged [unchanged_rules]:
  assumes "platform_free g" and "log_free g"
  shows "unchanged g (openLongMarketPosition P s a)" "unchanged g (openShortMarketPosition P s a)"
    "unchanged g (openLimitLongPosition P p)" "unchanged g (openLimitShortPosition P p)"
    "unchanged g (createOrder P rq)" "unchanged g (createStopMarketOrder P rq)"
  unfolding openLongMarketPosition_def openShortMarketPosition_def openLimitLongPosition_def
    openLimitShortPosition_def createOrder_def createStopMarketOrder_def
  by (intro ccxt_create_unchanged assms)+

text \<open>Reading the balance also fills the cache.\<close>

definition cache_free :: "('x world \<Rightarrow> 'b) \<Rightarrow> bool" where
  "cache_free g \<longleftrightarrow> platform_free g \<and> (\<forall>w c. g (w\<lparr>balance_cache := c\<rparr>) = g w)"

lemma cache_free_fields [simp, intro]:
  "cache_free ops_orders" "cache_free trade_operation" "cache_free trade_session"
  "cache_free trade_config" "cache_free balance_history" "cache_free instance_identity"
  "cache_free sent" "cache_free orders_placed" "cache_free (\<lambda>w. ops_orders w i)"
  by (auto simp: cache_free_def orders_placed_def)

lemma cache_free_platform [simp, dest]: "cache_free g \<Longrightarrow> platform_free g"
  by (simp add: cache_free_def)

lemma getBalance_unchanged [unchanged_rules]:
  assumes "cache_free g"
  shows "unchanged g (getBalance P i)"
proof -
  have "unchanged g (modifyE (\<lambda>w. w\<lparr>balance_cache := f w\<rparr>))" for f
    using assms by (intro unchanged_modify) (simp add: cache_free_def)
  then show ?thesis
    using assms unfolding getBalance_def Let_def
    by (auto intro!: unchanged_rules split: prod.splits)
qed

lemma getInfoPrice_unchanged [unchanged_rules]:
  "cache_free g \<Longrightarrow> unchanged g (getInfoPrice P i s r)"
  unfolding getInfoPrice_def Let_def by (intro unchanged_rules cache_free_platform)

section \<open>Properties\<close>

lemma readWithRetry_loop_calls:
  assumes "readWithRetry_loop P left n e (ccxt_call c m) w = (r, t)" and "left + n = 6" and "1 \<le> left"
  shows "\<exists>k. 1 \<le> k \<and> k \<le> left \<and> api_log t = api_log w @ replicate k c \<and>
    (\<forall>err. r = Inl err \<longrightarrow> isTransientExchangeError err \<longrightarrow> k = left)"
  using assms
proof (induction left arbitrary: n e w)
  case (Suc left)
  obtain r1 x where call: "m (ext w) = (r1, x)" by force
  let ?w1 = "w\<lparr>ext := x, api_log := api_log w @ [c]\<rparr>"
  have req: "ccxt_call c m w = (r1, ?w1)"
    by (simp add: ccxt_call_def call)
  show ?case
  proof (cases r1)
    case (Inr v)
    with req Suc.prems(1) have "r = Inr v" "t = ?w1"
      by (simp_all add: catchE_def)
    then show ?thesis by (intro exI [of _ 1]) simp
  next
    case (Inl err)
    show ?thesis
    proof (cases "\<not> isTransientExchangeError err \<or> n = 5")
      case True
      with Inl req Suc.prems(1) have "r = Inl err" "t = ?w1"
        by (auto simp: catchE_def throwE_def)
      with True Suc.prems(2) show ?thesis by (intro exI [of _ 1]) auto
    next
      case False
      let ?w2 = "?w1\<lparr>ext := p_sleep P (retryDelay n) x\<rparr>"
      from False Inl req Suc.prems(1)
      have rec: "readWithRetry_loop P left (Suc n) err (ccxt_call c m) ?w2 = (r, t)"
        by (simp add: catchE_def bindE_def sleepE_def)
      have "left + Suc n = 6" "1 \<le> left"
        using False Suc.prems(2,3) by auto
      from Suc.IH [OF rec this] obtain k where "1 \<le> k" "k \<le> left"
        "api_log t = api_log ?w2 @ replicate k c"
        "\<forall>e. r = Inl e \<longrightarrow> isTransientExchangeError e \<longrightarrow> k = left" by blast
      then show ?thesis by (intro exI [of _ "Suc k"]) auto
    qed
  qed
qed simp

text \<open>
  A read of the exchange is bounded and gives up for a reason. \<^verbatim>\<open>_readWithRetry\<close> issues its
  request between one and five times and nothing else; when it throws a transient error it has
  used all five attempts, so a non-transient error is never retried and a transient one is never
  reported early.
\<close>

theorem readWithRetry_bounded:
  assumes "readWithRetry P (ccxt_call c m) w = (r, t)"
  shows "\<exists>k. 1 \<le> k \<and> k \<le> 5 \<and> api_log t = api_log w @ replicate k c \<and>
    (\<forall>err. r = Inl err \<longrightarrow> isTransientExchangeError err \<longrightarrow> k = 5)"
  using readWithRetry_loop_calls [OF assms [unfolded readWithRetry_def]] by simp

theorem readWithRetry_bounded_witness:
  "\<exists>k. 1 \<le> k \<and> k \<le> 5 \<and>
     api_log (snd (getTick (sim_platform Desktop) ''ETH/USDT''
       (sim_world (sim_start\<lparr>sim_faults := [Some (JsError ''NetworkError'' None []), None]\<rparr>))))
     = replicate k (FetchTicker ''ETH/USDT'') \<and> k = 2"
proof -
  let ?P = "sim_platform Desktop"
  let ?w = "sim_world (sim_start\<lparr>sim_faults := [Some (JsError ''NetworkError'' None []), None]\<rparr>)"
  have len: "length (api_log (snd (getTick ?P ''ETH/USDT'' ?w))) = 2"
    by (simp add: getTick_def readWithRetry_def eval_nat_numeral eff_defs ccxt_call_def sleepE_def
        isTransientExchangeError_def sim_defs)
  obtain r t where rt: "getTick ?P ''ETH/USDT'' ?w = (r, t)" by force
  from readWithRetry_bounded [OF rt [unfolded getTick_def]] obtain k where
    "1 \<le> k" "k \<le> 5" "api_log t = api_log ?w @ replicate k (FetchTicker ''ETH/USDT'')" by blast
  with len rt show ?thesis by (auto simp: sim_world_def)
qed

text \<open>
  The waits between the five attempts double from one second and add up to fifteen seconds.
\<close>

lemma readWithRetry_total_wait:
  "(\<Sum>n \<in> {1..<5}. retryDelay n) = 15000 \<and> (\<forall>n \<in> {1..<5}. retryDelay n \<le> 10000)"
proof
  show "(\<Sum>n \<in> {1..<5}. retryDelay n) = 15000"
    using exchange_backoff.total_wait_closed
    by (simp add: exchange_backoff.total_wait_def retryDelay_def)
  show "\<forall>n \<in> {1..<5}. retryDelay n \<le> 10000"
    by (simp add: retryDelay_def)
qed

text \<open>
  \<^verbatim>\<open>cancelAllOrders\<close> never reports success with orders left open. When it returns, either the
  bulk cancellation of the exchange succeeded, or the last thing it did was to ask the exchange
  for the open orders of the symbol and get none.
\<close>

theorem cancelAllOrders_sound:
  assumes "cancelAllOrders P symbol w = (Inr (), t)"
  shows "p_cancelAllOrders P symbol (ext w) = (Inr (), ext t) \<or>
    (\<exists>x. p_fetchOpenOrders P symbol x = (Inr [], ext t))"
  using assms unfolding cancelAllOrders_def fetchOpenOrders_def
  by (auto simp: catchE_Inr bindE_Inr ccxt_call_Inr split: if_splits)

theorem cancelAllOrders_sound_witness:
  "\<exists>t. cancelAllOrders (sim_platform Desktop) ''ETH/USDT''
      (sim_world (sim_start\<lparr>sim_faults := [Some NonError]\<rparr>)) = (Inr (), t) \<and>
    (p_cancelAllOrders (sim_platform Desktop) ''ETH/USDT'' (sim_start\<lparr>sim_faults := [Some NonError]\<rparr>)
       = (Inr (), ext t) \<or>
     (\<exists>x. p_fetchOpenOrders (sim_platform Desktop) ''ETH/USDT'' x = (Inr [], ext t)))"
proof -
  let ?w = "sim_world (sim_start\<lparr>sim_faults := [Some NonError]\<rparr>)"
  have "\<exists>t. cancelAllOrders (sim_platform Desktop) ''ETH/USDT'' ?w = (Inr (), t)"
    by (simp add: cancelAllOrders_def fetchOpenOrders_def eff_defs ccxt_call_def sim_defs)
  then obtain t where t: "cancelAllOrders (sim_platform Desktop) ''ETH/USDT'' ?w = (Inr (), t)" ..
  from cancelAllOrders_sound [OF t] t show ?thesis
    by (intro exI [of _ t]) (simp add: sim_world_def)
qed

end
