(* ===== verification/Encryption_Service.thy ===== *)
theory Encryption_Service
  imports Simulated_Exchange
begin

text \<open>
  \<^verbatim>\<open>src/plugins/EncryptionService/EncryptionService.ts\<close>: the envelope in which the API
  credentials of a configuration are stored. The ciphers (AES-256-GCM, and AES-256-CBC for old
  records) are parameters of the platform; what is modelled is the envelope
  \<^verbatim>\<open>v2:iv:tag:ciphertext\<close>, its parser and the legacy branch.
\<close>

section \<open>The envelope\<close>

text \<open>\<open>s.split(c)\<close> for a separator of one character.\<close>

fun split_on :: "char \<Rightarrow> string \<Rightarrow> string list" where
  "split_on c [] = [[]]"
| "split_on c (x # xs) =
     (if x = c then [] # split_on c xs
      else case split_on c xs of [] \<Rightarrow> [[x]] | p # ps \<Rightarrow> (x # p) # ps)"

definition encrypt :: "'x platform \<Rightarrow> string \<Rightarrow> ('x world, string) eff" where
  "encrypt P data =
     bindE (randomIvE P) (\<lambda>iv.
       let (tag, encrypted) = p_gcm_seal P iv data
       in ret (join '':'' [''v2'', iv, tag, encrypted]))"

text \<open>A part of the split value that is missing or empty is falsy.\<close>

definition truthy_part :: "string list \<Rightarrow> nat \<Rightarrow> string option" where
  "truthy_part parts i = (if i < length parts \<and> parts ! i \<noteq> [] then Some (parts ! i) else None)"

definition decrypt :: "'x platform \<Rightarrow> string \<Rightarrow> js_error + string" where
  "decrypt P encryptedData =
     (if encryptedData = [] then Inr []
      else let parts = split_on CHR '':'' encryptedData
        in if parts ! 0 = ''v2''
           then case (truthy_part parts 1, truthy_part parts 2, truthy_part parts 3) of
                  (Some ivHex, Some authTagHex, Some encryptedHex) \<Rightarrow> p_gcm_open P ivHex authTagHex encryptedHex
                | _ \<Rightarrow> Inl (newError ''Invalid encrypted value.'')
           else case (truthy_part parts 0, truthy_part parts 1) of
                  (Some ivHex, Some encryptedHex) \<Rightarrow> p_cbc_open P ivHex encryptedHex
                | _ \<Rightarrow> Inl (newError ''Invalid encrypted value.''))"

section \<open>Splitting and joining\<close>

lemma split_on_not_Nil [simp]: "split_on c xs \<noteq> []"
  by (induction xs) (auto split: list.splits)

lemma split_on_no_sep: "c \<notin> set xs \<Longrightarrow> split_on c xs = [xs]"
  by (induction xs) auto

lemma split_on_append_sep:
  "c \<notin> set xs \<Longrightarrow> split_on c (xs @ c # ys) = xs # split_on c ys"
  by (induction xs) auto

lemma split_on_join:
  "xss \<noteq> [] \<Longrightarrow> (\<And>xs. xs \<in> set xss \<Longrightarrow> c \<notin> set xs) \<Longrightarrow> split_on c (join [c] xss) = xss"
proof (induction "[c]" xss rule: join.induct)
  case (2 x)
  then show ?case by (simp add: split_on_no_sep)
next
  case (3 x y xs)
  then show ?case by (simp add: split_on_append_sep)
qed simp

lemma encrypt_unchanged [unchanged_rules]: "platform_free g \<Longrightarrow> unchanged g (encrypt P d)"
  unfolding encrypt_def by (auto intro!: unchanged_rules split: prod.splits)

section \<open>What the cipher provides\<close>

text \<open>
  The documented behaviour of AES-256-GCM over hexadecimal strings: opening what was sealed gives
  the plaintext back, initialisation vectors and tags are never empty, no hexadecimal string has a
  colon, and GCM being a stream mode the ciphertext is as long as the plaintext.
\<close>

locale gcm =
  fixes seal :: "string \<Rightarrow> string \<Rightarrow> string \<times> string"
    and unseal :: "string \<Rightarrow> string \<Rightarrow> string \<Rightarrow> js_error + string"
  assumes unseal_seal: "unseal iv (fst (seal iv d)) (snd (seal iv d)) = Inr d"
    and tag_nonempty: "fst (seal iv d) \<noteq> []"
    and hex_tag: "CHR '':'' \<notin> set (fst (seal iv d))"
    and hex_cipher: "CHR '':'' \<notin> set (snd (seal iv d))"
    and stream_mode: "snd (seal iv d) = [] \<longleftrightarrow> d = []"
begin

lemma envelope_parts:
  "CHR '':'' \<notin> set iv \<Longrightarrow>
   split_on CHR '':'' (join '':'' [''v2'', iv, fst (seal iv d), snd (seal iv d)])
     = [''v2'', iv, fst (seal iv d), snd (seal iv d)]"
  by (rule split_on_join) (auto simp: hex_tag hex_cipher)

end

interpretation sim_cipher: gcm "p_gcm_seal (sim_platform m)" "p_gcm_open (sim_platform m)" for m
proof unfold_locales
  fix iv d
  show "(snd (p_gcm_seal (sim_platform m) iv d) = []) = (d = [])"
    by (cases d) (simp_all add: sim_platform_def)
qed (simp_all add: sim_platform_def sim_hex_no_colon)

lemma decrypt_envelope:
  assumes "gcm (p_gcm_seal P) (p_gcm_open P)" and "iv \<noteq> []" and "CHR '':'' \<notin> set iv"
  shows "decrypt P (join '':'' [''v2'', iv, fst (p_gcm_seal P iv d), snd (p_gcm_seal P iv d)])
    = (if d = [] then Inl (newError ''Invalid encrypted value.'') else Inr d)"
proof -
  note parts = gcm.envelope_parts [OF assms(1,3), of d]
  let ?e = "join '':'' [''v2'', iv, fst (p_gcm_seal P iv d), snd (p_gcm_seal P iv d)]"
  have ne: "?e \<noteq> []" by simp
  show ?thesis
    unfolding decrypt_def Let_def parts
    using ne assms(2) gcm.tag_nonempty [OF assms(1), of iv d] gcm.stream_mode [OF assms(1), of iv d]
      gcm.unseal_seal [OF assms(1), of iv d]
    by (simp add: truthy_part_def)
qed

text \<open>Initialisation vectors are non-empty hexadecimal strings.\<close>

definition hex_ivs :: "'x platform \<Rightarrow> bool" where
  "hex_ivs P \<longleftrightarrow> (\<forall>x. fst (p_randomIv P x) \<noteq> [] \<and> CHR '':'' \<notin> set (fst (p_randomIv P x)))"

lemma encrypt_returns:
  assumes "gcm (p_gcm_seal P) (p_gcm_open P)" and "hex_ivs P"
  obtains stored x where "encrypt P secret w = (Inr stored, w\<lparr>ext := x\<rparr>)"
    and "decrypt P stored = (if secret = [] then Inl (newError ''Invalid encrypted value.'') else Inr secret)"
proof -
  obtain iv y where iv: "p_randomIv P (ext w) = (iv, y)" by force
  let ?e = "join '':'' [''v2'', iv, fst (p_gcm_seal P iv secret), snd (p_gcm_seal P iv secret)]"
  have "encrypt P secret w = (Inr ?e, w\<lparr>ext := y\<rparr>)"
    by (simp add: encrypt_def randomIvE_def bindE_def ret_def iv split: prod.splits)
  moreover have "iv \<noteq> []" "CHR '':'' \<notin> set iv"
    using assms(2) iv by (auto simp: hex_ivs_def dest: spec [of _ "ext w"])
  ultimately show ?thesis
    using that decrypt_envelope [OF assms(1)] by blast
qed

section \<open>Properties\<close>

text \<open>
  Credentials survive the database. A non-empty secret that \<^verbatim>\<open>encrypt\<close> returned is given back
  by \<^verbatim>\<open>decrypt\<close>, and an empty one is not: its envelope has an empty last part, which \<^verbatim>\<open>decrypt\<close>
  rejects with \<^verbatim>\<open>Invalid encrypted value.\<close>, so that a configuration created with an empty
  passphrase cannot be read any more. The cipher is only assumed to behave as AES-GCM is
  documented to.
\<close>

theorem encrypt_decrypt:
  assumes "gcm (p_gcm_seal P) (p_gcm_open P)" and "hex_ivs P"
  shows "\<exists>stored t. encrypt P secret w = (Inr stored, t) \<and>
    decrypt P stored = (if secret = [] then Inl (newError ''Invalid encrypted value.'') else Inr secret)"
  using encrypt_returns [OF assms] by metis

theorem encrypt_decrypt_witness:
  "\<exists>s1 s2. fst (encrypt (sim_platform Web) ''key'' (sim_world sim_start)) = Inr s1 \<and>
     decrypt (sim_platform Web) s1 = Inr ''key'' \<and>
     fst (encrypt (sim_platform Web) [] (sim_world sim_start)) = Inr s2 \<and>
     decrypt (sim_platform Web) s2 = Inl (newError ''Invalid encrypted value.'')"
proof -
  have "hex_ivs (sim_platform Web)"
    by (simp add: hex_ivs_def sim_platform_def)
  note run = encrypt_decrypt [OF sim_cipher.gcm_axioms this, of _ "sim_world sim_start"]
  show ?thesis
    using run [of "''key''"] run [of "[]"] by auto
qed

end
