(* ===== verification/Repositories.thy ===== *)
theory Repositories
  imports Encryption_Service
begin

text \<open>
  The repositories of \<^verbatim>\<open>src/repository/repository/\<close> as operations on the tables of the state.
  Every statement goes through \<open>queryE\<close>, so the engine may reject it; the methods that catch
  and log such an error return nothing, the others throw. Rows are scanned in insertion order and
  keys are generated as \<^verbatim>\<open>AUTOINCREMENT\<close> does. The two engines differ where the code depends on
  it: SQLite stores a NaN as NULL and keeps the text of an unaliased column as its name,
  PostgreSQL folds an unquoted alias to lower case.

  The locale \<open>session_store\<close> is the contract of the session table (start, finish, look up the
  active session of a configuration); \<open>order_log\<close> is the contract of the order table.
\<close>

section \<open>The engine\<close>

definition next_id :: "('r \<Rightarrow> nat) \<Rightarrow> 'r list \<Rightarrow> nat" where
  "next_id key rows = Suc (foldr (\<lambda>r m. max (key r) m) rows 0)"

text \<open>A REAL column: SQLite has no NaN and stores NULL.\<close>

definition sql_real :: "'x platform \<Rightarrow> jsnum \<Rightarrow> jsnum option" where
  "sql_real P x = (if p_app_mode P = Desktop \<and> isNaN x then None else Some x)"

text \<open>\<^verbatim>\<open>sum(column)\<close> skips NULLs and is NULL when there is nothing to add.\<close>

definition sql_sum :: "jsnum option list \<Rightarrow> jsnum option" where
  "sql_sum xs = (case List.map_filter id xs of [] \<Rightarrow> None | ys \<Rightarrow> Some (sum_list ys))"

text \<open>A statement the engine rejects whatever the tables hold.\<close>

definition rejectE :: "'x platform \<Rightarrow> string \<Rightarrow> ('x world, 'a) eff" where
  "rejectE P msg = bindE (queryE P (\<lambda>w. ((), w))) (\<lambda>_. throwE (newError msg))"

abbreviation selectE :: "'x platform \<Rightarrow> ('x world \<Rightarrow> 'a) \<Rightarrow> ('x world, 'a) eff" where
  "selectE P f \<equiv> queryE P (\<lambda>w. (f w, w))"

abbreviation executeE :: "'x platform \<Rightarrow> ('x world \<Rightarrow> 'x world) \<Rightarrow> ('x world, unit) eff" where
  "executeE P f \<equiv> queryE P (\<lambda>w. ((), f w))"

section \<open>order.repository.ts\<close>

record create_order_params =
  cp_orderId :: string
  cp_order :: ccxt_order
  cp_price :: jsnum
  cp_amount :: jsnum
  cp_side :: mode
  cp_symbol :: string
  cp_indexOperation :: string

definition op_insert :: "create_order_params \<Rightarrow> trade_operation_row list \<Rightarrow> trade_operation_row list" where
  "op_insert c rows =
     rows @ [\<lparr>op_id = next_id op_id rows, op_price = cp_price c, op_side = cp_side c,
              op_symbol = cp_symbol c, op_is_active = True, op_is_delete = False,
              op_order_id = cp_orderId c, op_order = cp_order c,
              op_index_operation = cp_indexOperation c, op_amount = cp_amount c\<rparr>]"

definition op_deactivate :: "string \<Rightarrow> trade_operation_row list \<Rightarrow> trade_operation_row list" where
  "op_deactivate idx rows =
     map (\<lambda>r. if op_index_operation r = idx then r\<lparr>op_is_active := False\<rparr> else r) rows"

text \<open>A row of \<^verbatim>\<open>trade_operation\<close> as the select lists of the repository return it (\<^verbatim>\<open>OrderType\<close>).\<close>

definition order_type :: "'x platform \<Rightarrow> trade_operation_row \<Rightarrow> mem_order" where
  "order_type P r =
     \<lparr>o_id = show_nat (op_id r), o_clientOrderId = None, o_symbol = op_symbol r,
      o_side = Some (op_side r), o_type = [], o_status = None, o_price = Some (op_price r),
      o_amount = Some (op_amount r), o_filled = None, o_remaining = None, o_average = None,
      o_info = None, o_orderId = Some (op_order_id r),
      o_order = (if p_app_mode P = Web then JsonObject (op_order r) else JsonText (Some (op_order r)))\<rparr>"

definition session_rows :: "string \<Rightarrow> trade_operation_row list \<Rightarrow> trade_operation_row list" where
  "session_rows idx rows = filter (\<lambda>r. \<not> op_is_delete r \<and> op_index_operation r = idx) rows"

definition active_session_rows :: "string \<Rightarrow> trade_operation_row list \<Rightarrow> trade_operation_row list" where
  "active_session_rows idx rows = filter (\<lambda>r. op_index_operation r = idx \<and> op_is_active r) rows"

text \<open>The aggregate of the second statement; it is NULL when there is no row.\<close>

definition session_profit :: "mode option \<Rightarrow> jsnum \<Rightarrow> trade_operation_row list \<Rightarrow> jsnum option" where
  "session_profit sideCloseOrder price rows =
     (let amounts = sum_list (map op_amount rows);
          costs = sum_list (map (\<lambda>r. op_price r * op_amount r) rows)
      in if rows = [] then None
         else Some (if sideCloseOrder = Some Sell then amounts * price - costs else costs - amounts * price))"

text \<open>
  The price of the closing order is written into the text of the statement, so a price that is
  not a finite number is not a number there either.
\<close>

definition getProfitForTradeSession ::
    "'x platform \<Rightarrow> string \<Rightarrow> mode option \<Rightarrow> mem_order list \<Rightarrow> ('x world, jsnum option) eff" where
  "getProfitForTradeSession P indexSession sideCloseOrder order =
     (if order = [] then throwE (typeError ''Cannot read properties of undefined (reading orderId)'')
      else
        let closingOrderId = nullish (o_orderId (last order)) (o_id (last order))
        in bindE (selectE P (\<lambda>w. filter (\<lambda>r. op_index_operation r = indexSession \<and> op_order_id r = closingOrderId)
                                   (trade_operation w))) (\<lambda>priceResult.
           case priceResult of
             [] \<Rightarrow> throwE (newError ''Not found closed order!'')
           | row # _ \<Rightarrow>
               if \<not> isFinite (op_price row) then rejectE P ''no such column''
               else selectE P (\<lambda>w.
                 session_profit sideCloseOrder (op_price row) (active_session_rows indexSession (trade_operation w)))))"

definition getAllActiveOrders :: "'x platform \<Rightarrow> ('x world, mem_order list) eff" where
  "getAllActiveOrders P =
     selectE P (\<lambda>w. map (order_type P) (filter (\<lambda>r. \<not> op_is_delete r \<and> op_is_active r) (trade_operation w)))"

definition getAllOrdersByIndexOperation :: "'x platform \<Rightarrow> string \<Rightarrow> ('x world, mem_order list) eff" where
  "getAllOrdersByIndexOperation P indexOperation =
     selectE P (\<lambda>w. map (order_type P) (session_rows indexOperation (trade_operation w)))"

definition findOrderById :: "'x platform \<Rightarrow> string \<Rightarrow> ('x world, mem_order option) eff" where
  "findOrderById P orderId =
     catchE (selectE P (\<lambda>w. map_option (order_type P) (find (\<lambda>r. op_order_id r = orderId) (trade_operation w))))
       (\<lambda>_. ret None)"

text \<open>The column \<open>price\<close> is NOT NULL. The result tells whether a message was returned.\<close>

definition insertOrder :: "'x platform \<Rightarrow> create_order_params \<Rightarrow> ('x world, bool) eff" where
  "insertOrder P operation =
     catchE (bindE (if sql_real P (cp_price operation) = None
                    then rejectE P ''NOT NULL constraint failed: trade_operation.price''
                    else executeE P (\<lambda>w. w\<lparr>trade_operation := op_insert operation (trade_operation w)\<rparr>))
               (\<lambda>_. ret True))
       (\<lambda>_. ret False)"

definition deleteOrderById :: "'x platform \<Rightarrow> string \<Rightarrow> ('x world, bool) eff" where
  "deleteOrderById P orderId =
     catchE (bindE (executeE P (\<lambda>w. w\<lparr>trade_operation :=
                      map (\<lambda>r. if op_order_id r = orderId then r\<lparr>op_is_delete := True\<rparr> else r) (trade_operation w)\<rparr>))
               (\<lambda>_. ret True))
       (\<lambda>_. ret False)"

definition revertOrderActiveStatus :: "'x platform \<Rightarrow> string \<Rightarrow> ('x world, unit) eff" where
  "revertOrderActiveStatus P indexOperation =
     catchE (executeE P (\<lambda>w. w\<lparr>trade_operation := op_deactivate indexOperation (trade_operation w)\<rparr>))
       (\<lambda>_. ret ())"

section \<open>session.repository.ts\<close>

definition identity_chars :: string where
  "identity_chars = ''ABCDEFGHIJKLMNOPQRSTUVWXYZabcdefghijklmnopqrstuvwxyz0123456789''"

definition charAt :: "string \<Rightarrow> int \<Rightarrow> string" where
  "charAt s i = (if 0 \<le> i \<and> nat i < length s then [s ! nat i] else [])"

text \<open>\<^verbatim>\<open>GenerateIdentity.generateIdentity\<close> and \<^verbatim>\<open>_generateIndexOperation\<close>: the same loop.\<close>

fun generateIdentity_loop :: "'x platform \<Rightarrow> nat \<Rightarrow> string \<Rightarrow> ('x world, string) eff" where
  "generateIdentity_loop P 0 result = ret result"
| "generateIdentity_loop P (Suc n) result =
     bindE (randomE P) (\<lambda>r.
       generateIdentity_loop P n (result @ charAt identity_chars \<lfloor>r * of_nat (length identity_chars)\<rfloor>))"

definition generateIdentity :: "'x platform \<Rightarrow> nat \<Rightarrow> ('x world, string) eff" where
  "generateIdentity P len = generateIdentity_loop P len []"

definition generateIndexOperation :: "'x platform \<Rightarrow> ('x world, string) eff" where
  "generateIndexOperation P = generateIdentity_loop P 45 []"

definition session_start :: "nat \<Rightarrow> string \<Rightarrow> trade_session_row list \<Rightarrow> trade_session_row list" where
  "session_start cid idx rows =
     rows @ [\<lparr>se_id = next_id se_id rows, se_index_session = idx, se_is_active = True,
              se_profit_session = Some (Fin 0), se_config_id = cid\<rparr>]"

definition session_finish :: "jsnum option \<Rightarrow> string \<Rightarrow> trade_session_row list \<Rightarrow> trade_session_row list" where
  "session_finish profit idx rows =
     map (\<lambda>r. if se_index_session r = idx then r\<lparr>se_is_active := False, se_profit_session := profit\<rparr> else r) rows"

definition session_active :: "trade_session_row list \<Rightarrow> nat \<Rightarrow> string option" where
  "session_active rows cid =
     map_option se_index_session (find (\<lambda>r. se_is_active r \<and> se_config_id r = cid) rows)"

definition startSession :: "'x platform \<Rightarrow> nat \<Rightarrow> ('x world, string) eff" where
  "startSession P configId =
     bindE (generateIndexOperation P) (\<lambda>indexSession.
     bindE (executeE P (\<lambda>w. w\<lparr>trade_session := session_start configId indexSession (trade_session w)\<rparr>)) (\<lambda>_.
       ret indexSession))"

record session_type =
  st_indexSession :: string
  st_profitSession :: "jsnum option"
  st_configId :: nat

definition session_read :: "trade_session_row \<Rightarrow> session_type" where
  "session_read r = \<lparr>st_indexSession = se_index_session r, st_profitSession = se_profit_session r,
                     st_configId = se_config_id r\<rparr>"

definition getAllSession :: "'x platform \<Rightarrow> ('x world, session_type list) eff" where
  "getAllSession P = selectE P (\<lambda>w. map session_read (trade_session w))"

definition getAllNotActiveSession :: "'x platform \<Rightarrow> ('x world, session_type list) eff" where
  "getAllNotActiveSession P =
     selectE P (\<lambda>w. map session_read (filter (\<lambda>r. \<not> se_is_active r) (trade_session w)))"

text \<open>None is the empty object returned when no session is active.\<close>

definition checkingActiveSession :: "'x platform \<Rightarrow> nat \<Rightarrow> ('x world, string option) eff" where
  "checkingActiveSession P configId = selectE P (\<lambda>w. session_active (trade_session w) configId)"

definition finishTradeSession :: "'x platform \<Rightarrow> jsnum option \<Rightarrow> string \<Rightarrow> ('x world, unit) eff" where
  "finishTradeSession P profitSession indexSession =
     executeE P (\<lambda>w. w\<lparr>trade_session :=
       session_finish (Option.bind profitSession (sql_real P)) indexSession (trade_session w)\<rparr>)"

text \<open>
  The column \<^verbatim>\<open>sum(profit_session)\<close> has no alias: PostgreSQL calls it \<^verbatim>\<open>sum\<close>, SQLite calls it
  \<^verbatim>\<open>sum(profit_session)\<close>, where the property \<^verbatim>\<open>sum\<close> of the row is undefined.
\<close>

definition getAllProfitSession :: "'x platform \<Rightarrow> ('x world, jsnum option) eff" where
  "getAllProfitSession P =
     selectE P (\<lambda>w. if p_app_mode P = Web then sql_sum (map se_profit_session (trade_session w)) else None)"

section \<open>balance.repository.ts\<close>

record state_balance_params =
  sb_usdt :: "jsnum option"
  sb_profitAll :: jsnum
  sb_exchangeName :: exchange_type
  sb_profitUsdt :: jsnum
  sb_balanceObject :: balance

definition createStateBalance :: "'x platform \<Rightarrow> state_balance_params \<Rightarrow> ('x world, bool) eff" where
  "createStateBalance P b =
     catchE (bindE (Date_now P) (\<lambda>now.
             bindE (executeE P (\<lambda>w. w\<lparr>balance_history := balance_history w @
                     [\<lparr>ba_usdt = sb_usdt b, ba_profit_all = sb_profitAll b, ba_exchange_name = sb_exchangeName b,
                       ba_update_date = now, ba_profit_usdt = sb_profitUsdt b,
                       ba_id = next_id ba_id (balance_history w), ba_balance_object = sb_balanceObject b\<rparr>]\<rparr>))
               (\<lambda>_. ret True)))
       (\<lambda>_. ret False)"

text \<open>
  The alias \<open>profitUsdt\<close> is not quoted: PostgreSQL returns the column as \<open>profitusdt\<close>, so the
  property the code reads is undefined there.
\<close>

record balance_state =
  bs_usdt :: "jsnum option"
  bs_profitAll :: jsnum
  bs_exchangeName :: exchange_type
  bs_profitUsdt :: "jsnum option"
  bs_balanceObject :: balance

definition balance_read :: "'x platform \<Rightarrow> balance_row \<Rightarrow> balance_state" where
  "balance_read P r =
     \<lparr>bs_usdt = ba_usdt r, bs_profitAll = ba_profit_all r, bs_exchangeName = ba_exchange_name r,
      bs_profitUsdt = (if p_app_mode P = Web then None else Some (ba_profit_usdt r)),
      bs_balanceObject = ba_balance_object r\<rparr>"

definition getLastBalance :: "'x platform \<Rightarrow> ('x world, balance_state option) eff" where
  "getLastBalance P = selectE P (\<lambda>w. map_option (balance_read P) (p_latest P (balance_history w)))"

definition getAllBalance :: "'x platform \<Rightarrow> ('x world, balance_state list) eff" where
  "getAllBalance P = selectE P (\<lambda>w. map (balance_read P) (balance_history w))"

text \<open>The update has no where clause.\<close>

definition updateBalance ::
    "'x platform \<Rightarrow> jsnum option \<Rightarrow> jsnum \<Rightarrow> jsnum \<Rightarrow> balance \<Rightarrow> ('x world, unit) eff" where
  "updateBalance P usdt profitAll profitUsdt balanceObject =
     executeE P (\<lambda>w. w\<lparr>balance_history :=
       map (\<lambda>r. r\<lparr>ba_usdt := usdt, ba_profit_all := profitAll, ba_profit_usdt := profitUsdt,
                  ba_balance_object := balanceObject\<rparr>) (balance_history w)\<rparr>)"

section \<open>instance-identity.repository.ts\<close>

text \<open>A select always returns an array, so the branch that creates the identity is never taken.\<close>

definition getInstance :: "'x platform \<Rightarrow> ('x world, string option) eff" where
  "getInstance P = selectE P (\<lambda>w. js_index (instance_identity w) 0)"

definition createInstance :: "'x platform \<Rightarrow> ('x world, bool) eff" where
  "createInstance P =
     catchE (bindE (generateIdentity P 45) (\<lambda>clientId.
             bindE (executeE P (\<lambda>w. w\<lparr>instance_identity := instance_identity w @ [clientId]\<rparr>)) (\<lambda>_. ret True)))
       (\<lambda>_. ret False)"

section \<open>The session table as a store\<close>

text \<open>
  What the clients of the session table rely on: a started session is the active one of its
  configuration, a finished one is not, and other configurations are left alone. The invariant is
  that a configuration has at most one active session.
\<close>

locale session_store =
  fixes start :: "nat \<Rightarrow> string \<Rightarrow> 's \<Rightarrow> 's"
    and finish :: "'p \<Rightarrow> string \<Rightarrow> 's \<Rightarrow> 's"
    and active :: "'s \<Rightarrow> nat \<Rightarrow> string option"
    and inv :: "'s \<Rightarrow> bool"
  assumes inv_start: "inv s \<Longrightarrow> active s c = None \<Longrightarrow> inv (start c i s)"
    and inv_finish: "inv s \<Longrightarrow> inv (finish p i s)"
    and active_start: "active s c = None \<Longrightarrow> active (start c i s) d = (if d = c then Some i else active s d)"
    and active_finish: "inv s \<Longrightarrow> active (finish p i s) d = (if active s d = Some i then None else active s d)"
begin

text \<open>Replacing the active session of a configuration by a new one.\<close>

lemma replace_session:
  assumes "inv s" and "active s c = Some i"
  shows "inv (start c j (finish p i s))" and "active (start c j (finish p i s)) c = Some j"
proof -
  have "active (finish p i s) c = None"
    using assms by (simp add: active_finish)
  with inv_finish [OF assms(1)] inv_start active_start
  show "inv (start c j (finish p i s))" and "active (start c j (finish p i s)) c = Some j"
    by simp_all
qed

lemma finish_idem: "inv s \<Longrightarrow> active (finish p i (finish q i s)) d = active (finish q i s) d"
  by (simp add: active_finish inv_finish)

end

definition one_active_session :: "trade_session_row list \<Rightarrow> bool" where
  "one_active_session rows =
     distinct (map se_config_id (filter se_is_active rows))"

lemma session_active_None:
  "session_active rows c = None \<longleftrightarrow> c \<notin> set (map se_config_id (filter se_is_active rows))"
  by (auto simp: session_active_def find_None_iff)

lemma session_finish_filter:
  "filter se_is_active (session_finish p i rows) = filter (\<lambda>r. se_is_active r \<and> se_index_session r \<noteq> i) rows"
  by (induction rows) (auto simp: session_finish_def)

lemma distinct_map_filter_imp:
  "distinct (map f (filter Q xs)) \<Longrightarrow> distinct (map f (filter (\<lambda>x. Q x \<and> R x) xs))"
  by (induction xs) (auto split: if_splits)

lemma session_active_Cons:
  "session_active (r # rows) c =
     (if se_is_active r \<and> se_config_id r = c then Some (se_index_session r) else session_active rows c)"
  by (simp add: session_active_def)

lemma session_active_finish:
  "one_active_session rows \<Longrightarrow>
   session_active (session_finish p i rows) d =
     (if session_active rows d = Some i then None else session_active rows d)"
proof (induction rows)
  case (Cons r rows)
  have rest: "one_active_session rows"
    using Cons.prems by (auto simp: one_active_session_def split: if_splits)
  have step: "session_finish p i (r # rows) =
    (if se_index_session r = i then r\<lparr>se_is_active := False, se_profit_session := p\<rparr> else r) # session_finish p i rows"
    by (simp add: session_finish_def)
  show ?case
  proof (cases "se_is_active r \<and> se_config_id r = d")
    case True
    with Cons.prems have "session_active rows d = None"
      by (auto simp: session_active_None one_active_session_def)
    with Cons.IH [OF rest] True show ?thesis
      by (auto simp: step session_active_Cons)
  next
    case False
    with Cons.IH [OF rest] show ?thesis
      by (auto simp: step session_active_Cons)
  qed
qed (simp add: session_active_def session_finish_def)

interpretation sessions: session_store session_start session_finish session_active one_active_session
proof unfold_locales
  fix s c i
  assume "one_active_session s" "session_active s c = None"
  then show "one_active_session (session_start c i s)"
    by (auto simp: one_active_session_def session_start_def session_active_None)
next
  fix s p i
  assume "one_active_session s"
  then show "one_active_session (session_finish p i s)"
    by (simp add: one_active_session_def session_finish_filter distinct_map_filter_imp)
next
  fix s c i d
  assume "session_active s c = None"
  then show "session_active (session_start c i s) d = (if d = c then Some i else session_active s d)"
    by (auto simp: session_active_def session_start_def find_append split: option.splits)
qed (rule session_active_finish)

section \<open>The order table as a log\<close>

text \<open>
  What the clients of the order table rely on: an inserted order is the last one of its session
  and is active, closing a session deactivates its orders and no others.
\<close>

locale order_log =
  fixes insert :: "'c \<Rightarrow> 's \<Rightarrow> 's"
    and deactivate :: "string \<Rightarrow> 's \<Rightarrow> 's"
    and live :: "string \<Rightarrow> 's \<Rightarrow> 'r list"
    and row_of :: "'c \<Rightarrow> 's \<Rightarrow> 'r"
    and session_of :: "'c \<Rightarrow> string"
  assumes live_insert: "live i (insert c s) = live i s @ (if session_of c = i then [row_of c s] else [])"
    and live_deactivate: "live i (deactivate j s) = (if i = j then [] else live i s)"
begin

lemma live_after_close: "live i (deactivate i (insert c s)) = []"
  by (simp add: live_deactivate)

lemma live_other: "session_of c \<noteq> i \<Longrightarrow> i \<noteq> j \<Longrightarrow> live i (deactivate j (insert c s)) = live i s"
  by (simp add: live_deactivate live_insert)

end

definition op_row :: "create_order_params \<Rightarrow> trade_operation_row list \<Rightarrow> trade_operation_row" where
  "op_row c rows = last (op_insert c rows)"

lemma op_insert_row: "op_insert c rows = rows @ [op_row c rows]"
  by (simp add: op_row_def op_insert_def)

lemma op_row_fields [simp]:
  "op_price (op_row c rows) = cp_price c" "op_side (op_row c rows) = cp_side c"
  "op_symbol (op_row c rows) = cp_symbol c" "op_is_active (op_row c rows)"
  "\<not> op_is_delete (op_row c rows)" "op_order_id (op_row c rows) = cp_orderId c"
  "op_order (op_row c rows) = cp_order c" "op_index_operation (op_row c rows) = cp_indexOperation c"
  "op_amount (op_row c rows) = cp_amount c"
  by (simp_all add: op_row_def op_insert_def)

interpretation order_table: order_log op_insert op_deactivate active_session_rows op_row cp_indexOperation
proof unfold_locales
  fix i c s
  show "active_session_rows i (op_insert c s) =
    active_session_rows i s @ (if cp_indexOperation c = i then [op_row c s] else [])"
    by (simp add: active_session_rows_def op_insert_row)
next
  fix i j s
  show "active_session_rows i (op_deactivate j s) = (if i = j then [] else active_session_rows i s)"
    by (induction s) (auto simp: active_session_rows_def op_deactivate_def)
qed

section \<open>Frames of the repositories\<close>

lemma query_select_unchanged [unchanged_rules]: "platform_free g \<Longrightarrow> unchanged g (selectE P f)"
  by (rule unchanged_query) simp_all

lemma rejectE_unchanged [unchanged_rules]: "platform_free g \<Longrightarrow> unchanged g (rejectE P msg)"
  unfolding rejectE_def by (intro unchanged_rules)

lemma rejectE_Inr [simp]: "rejectE P msg w \<noteq> (Inr x, t)"
  by (simp add: rejectE_def bindE_Inr)

lemma generateIdentity_loop_unchanged [unchanged_rules]:
  "platform_free g \<Longrightarrow> unchanged g (generateIdentity_loop P n s)"
  by (induction n arbitrary: s) (auto intro!: unchanged_rules)

lemma generateIdentity_unchanged [unchanged_rules]:
  "platform_free g \<Longrightarrow> unchanged g (generateIdentity P n)"
  "platform_free g \<Longrightarrow> unchanged g (generateIndexOperation P)"
  unfolding generateIdentity_def generateIndexOperation_def by (intro unchanged_rules; assumption)+

lemma repository_reads_unchanged [unchanged_rules]:
  assumes "platform_free g"
  shows "unchanged g (getProfitForTradeSession P i sd os)" "unchanged g (getAllActiveOrders P)"
    "unchanged g (getAllOrdersByIndexOperation P i)" "unchanged g (findOrderById P oid)"
    "unchanged g (getAllSession P)" "unchanged g (getAllNotActiveSession P)"
    "unchanged g (checkingActiveSession P c)" "unchanged g (getAllProfitSession P)"
    "unchanged g (getLastBalance P)" "unchanged g (getAllBalance P)" "unchanged g (getInstance P)"
  unfolding getProfitForTradeSession_def getAllActiveOrders_def getAllOrdersByIndexOperation_def
    findOrderById_def getAllSession_def getAllNotActiveSession_def checkingActiveSession_def
    getAllProfitSession_def getLastBalance_def getAllBalance_def getInstance_def Let_def
  by (intro unchanged_rules assms)+

lemma insertOrder_unchanged [unchanged_rules]:
  assumes "platform_free g" and "\<And>w t. g (w\<lparr>trade_operation := t\<rparr>) = g w"
  shows "unchanged g (insertOrder P c)" "unchanged g (deleteOrderById P i)"
    "unchanged g (revertOrderActiveStatus P i)"
proof -
  have *: "unchanged g (executeE P (\<lambda>w. w\<lparr>trade_operation := f w\<rparr>))" for f
    using assms by (intro unchanged_query) simp_all
  show "unchanged g (insertOrder P c)" "unchanged g (deleteOrderById P i)"
    "unchanged g (revertOrderActiveStatus P i)"
    unfolding insertOrder_def deleteOrderById_def revertOrderActiveStatus_def
    by (intro unchanged_rules assms(1) *)+
qed

lemma session_writes_unchanged [unchanged_rules]:
  assumes "platform_free g" and "\<And>w t. g (w\<lparr>trade_session := t\<rparr>) = g w"
  shows "unchanged g (startSession P c)" "unchanged g (finishTradeSession P p i)"
proof -
  have *: "unchanged g (executeE P (\<lambda>w. w\<lparr>trade_session := f w\<rparr>))" for f
    using assms by (intro unchanged_query) simp_all
  show "unchanged g (startSession P c)" "unchanged g (finishTradeSession P p i)"
    unfolding startSession_def finishTradeSession_def
    by (intro unchanged_rules assms(1) *)+
qed

lemma balance_writes_unchanged [unchanged_rules]:
  assumes "platform_free g" and "\<And>w t. g (w\<lparr>balance_history := t\<rparr>) = g w"
  shows "unchanged g (createStateBalance P b)" "unchanged g (updateBalance P u pa pu bo)"
proof -
  have *: "unchanged g (executeE P (\<lambda>w. w\<lparr>balance_history := f w\<rparr>))" for f
    using assms by (intro unchanged_query) simp_all
  show "unchanged g (createStateBalance P b)" "unchanged g (updateBalance P u pa pu bo)"
    unfolding createStateBalance_def updateBalance_def
    by (intro unchanged_rules assms(1) *)+
qed

section \<open>Recording an order\<close>

text \<open>An engine that accepts every well-formed statement.\<close>

definition reliable_db :: "'x platform \<Rightarrow> bool" where
  "reliable_db P \<longleftrightarrow> (\<forall>x. fst (p_db_fault P x) = None)"

text \<open>
  What inserting an order leaves in the table: the new row, or nothing new when the engine rejects
  the statement, an error the repository only logs.
\<close>

definition recorded ::
    "'x platform \<Rightarrow> create_order_params \<Rightarrow> trade_operation_row list \<Rightarrow> trade_operation_row list \<Rightarrow> bool" where
  "recorded P c before after \<longleftrightarrow>
     after = op_insert c before \<or>
     after = before \<and> \<not> (reliable_db P \<and> sql_real P (cp_price c) \<noteq> None)"

lemma insertOrder_recorded:
  assumes "insertOrder P c w = (r, t)"
  shows "\<exists>b. r = Inr b" and "recorded P c (trade_operation w) (trade_operation t)"
proof -
  show "\<exists>b. r = Inr b"
    using assms by (cases r) (auto simp: insertOrder_def catchE_def ret_def split: prod.splits sum.splits)
  show "recorded P c (trade_operation w) (trade_operation t)"
  proof (cases "sql_real P (cp_price c) = None")
    case True
    then have "unchanged trade_operation (insertOrder P c)"
      unfolding insertOrder_def by (auto intro!: unchanged_rules)
    then have "trade_operation t = trade_operation w"
      using assms by (rule unchangedD)
    with True show ?thesis by (simp add: recorded_def)
  next
    case False
    obtain f x where fault: "p_db_fault P (ext w) = (f, x)" by force
    then have "reliable_db P \<Longrightarrow> f = None"
      by (metis fst_conv reliable_db_def)
    with fault False assms show ?thesis
      by (cases f) (auto simp: insertOrder_def recorded_def eff_defs queryE_def)
  qed
qed

end
