(* ===== verification/Config_Repository.thy ===== *)
theory Config_Repository
  imports Repositories
begin

text \<open>
  \<^verbatim>\<open>src/repository/repository/config.repository.ts\<close>: the stored configurations, with their
  encrypted credentials and the flags the dashboard sets and the engine reads.
\<close>

section \<open>Operations\<close>

text \<open>
  The select list names neither \<^verbatim>\<open>balance_distribution\<close> nor \<^verbatim>\<open>is_config_update\<close>, so both read as
  undefined, which is falsy.
\<close>

definition config_columns :: "config_row \<Rightarrow> config" where
  "config_columns r = (config.truncate r)\<lparr>c_balanceDistribution := False, c_isConfigUpdated := False\<rparr>"

text \<open>The three secrets are decrypted in this order; the first that fails throws.\<close>

definition decrypt_config :: "'x platform \<Rightarrow> config \<Rightarrow> js_error + config" where
  "decrypt_config P c =
     (case decrypt P (c_apiKey c) of
        Inl e \<Rightarrow> Inl e
      | Inr apiKey \<Rightarrow>
          (case decrypt P (c_privateKey c) of
             Inl e \<Rightarrow> Inl e
           | Inr privateKey \<Rightarrow>
               (case decrypt P (c_password c) of
                  Inl e \<Rightarrow> Inl e
                | Inr password \<Rightarrow>
                    Inr (c\<lparr>c_apiKey := apiKey, c_privateKey := privateKey, c_password := password\<rparr>))))"

definition getConfig :: "'x platform \<Rightarrow> ('x world, config list) eff" where
  "getConfig P =
     bindE (selectE P (\<lambda>w. map config_columns (trade_config w))) (\<lambda>result.
       mapE (\<lambda>config. liftE (decrypt_config P config)) result)"

definition getConfigById :: "'x platform \<Rightarrow> nat \<Rightarrow> ('x world, config) eff" where
  "getConfigById P configId =
     bindE (selectE P (\<lambda>w. map config_columns (filter (\<lambda>r. c_id r = configId) (trade_config w)))) (\<lambda>result.
       case result of
         [] \<Rightarrow> throwE (typeError ''Cannot read properties of undefined (reading apiKey)'')
       | config # _ \<Rightarrow> liftE (decrypt_config P config))"

definition createConfig :: "'x platform \<Rightarrow> config \<Rightarrow> ('x world, unit) eff" where
  "createConfig P config =
     bindE (encrypt P (c_apiKey config)) (\<lambda>apiKey.
     bindE (encrypt P (c_privateKey config)) (\<lambda>privateKey.
     bindE (encrypt P (c_password config)) (\<lambda>password.
       executeE P (\<lambda>w. w\<lparr>trade_config := trade_config w @
         [config.extend (config\<lparr>c_id := next_id c_id (trade_config w), c_isConfigUpdated := False,
                                c_apiKey := apiKey, c_privateKey := privateKey, c_password := password\<rparr>)
            (config_row.fields None)]\<rparr>))))"

text \<open>A \<^verbatim>\<open>Partial<ConfigType>\<close>: None is a key that is absent.\<close>

record config_patch =
  pa_id :: "nat option"
  pa_apiKey :: "string option"
  pa_privateKey :: "string option"
  pa_password :: "string option"
  pa_symbol :: "string option"
  pa_positionSize :: "jsnum option"
  pa_countGridSize :: "jsnum option option"
  pa_gridSize :: "jsnum option option"
  pa_percentBuyBackStep :: "jsnum option"
  pa_takeProfit :: "jsnum option option"
  pa_stopLoss :: "jsnum option option"
  pa_isEmergencyStop :: "bool option"
  pa_isFibonacci :: "bool option"
  pa_percentProfit :: "jsnum option"
  pa_percentFromBalance :: "jsnum option"
  pa_candlePriceRange :: "string option"
  pa_isPercentTargetAfterTakeProfit :: "bool option"
  pa_isCapitalizeDeltaFromSale :: "bool option"
  pa_isCoinAccumulation :: "bool option"
  pa_isAutoStartTrading :: "bool option"
  pa_isStopTrading :: "bool option"
  pa_isOnlyBuy :: "bool option"
  pa_percentTargetAfterTakeProfit :: "jsnum option"
  pa_balanceDistribution :: "bool option"
  pa_exchange :: "exchange_type option"

definition apply_patch :: "config_patch \<Rightarrow> config_row \<Rightarrow> config_row" where
  "apply_patch p r =
     r\<lparr>c_id := nullish (pa_id p) (c_id r),
       c_apiKey := nullish (pa_apiKey p) (c_apiKey r),
       c_privateKey := nullish (pa_privateKey p) (c_privateKey r),
       c_password := nullish (pa_password p) (c_password r),
       c_symbol := nullish (pa_symbol p) (c_symbol r),
       c_positionSize := nullish (pa_positionSize p) (c_positionSize r),
       c_countGridSize := nullish (pa_countGridSize p) (c_countGridSize r),
       c_gridSize := nullish (pa_gridSize p) (c_gridSize r),
       c_percentBuyBackStep := nullish (pa_percentBuyBackStep p) (c_percentBuyBackStep r),
       c_takeProfit := nullish (pa_takeProfit p) (c_takeProfit r),
       c_stopLoss := nullish (pa_stopLoss p) (c_stopLoss r),
       c_isEmergencyStop := nullish (pa_isEmergencyStop p) (c_isEmergencyStop r),
       c_isFibonacci := nullish (pa_isFibonacci p) (c_isFibonacci r),
       c_percentProfit := nullish (pa_percentProfit p) (c_percentProfit r),
       c_percentFromBalance := nullish (pa_percentFromBalance p) (c_percentFromBalance r),
       c_candlePriceRange := nullish (pa_candlePriceRange p) (c_candlePriceRange r),
       c_isPercentTargetAfterTakeProfit :=
         nullish (pa_isPercentTargetAfterTakeProfit p) (c_isPercentTargetAfterTakeProfit r),
       c_isCapitalizeDeltaFromSale := nullish (pa_isCapitalizeDeltaFromSale p) (c_isCapitalizeDeltaFromSale r),
       c_isCoinAccumulation := nullish (pa_isCoinAccumulation p) (c_isCoinAccumulation r),
       c_isAutoStartTrading := nullish (pa_isAutoStartTrading p) (c_isAutoStartTrading r),
       c_isStopTrading := nullish (pa_isStopTrading p) (c_isStopTrading r),
       c_isOnlyBuy := nullish (pa_isOnlyBuy p) (c_isOnlyBuy r),
       c_percentTargetAfterTakeProfit :=
         nullish (pa_percentTargetAfterTakeProfit p) (c_percentTargetAfterTakeProfit r),
       c_balanceDistribution := nullish (pa_balanceDistribution p) (c_balanceDistribution r),
       c_exchange := nullish (pa_exchange p) (c_exchange r)\<rparr>"

definition empty_patch :: config_patch where
  "empty_patch =
     \<lparr>pa_id = None, pa_apiKey = None, pa_privateKey = None, pa_password = None, pa_symbol = None,
      pa_positionSize = None, pa_countGridSize = None, pa_gridSize = None, pa_percentBuyBackStep = None,
      pa_takeProfit = None, pa_stopLoss = None, pa_isEmergencyStop = None, pa_isFibonacci = None,
      pa_percentProfit = None, pa_percentFromBalance = None, pa_candlePriceRange = None,
      pa_isPercentTargetAfterTakeProfit = None, pa_isCapitalizeDeltaFromSale = None,
      pa_isCoinAccumulation = None, pa_isAutoStartTrading = None, pa_isStopTrading = None,
      pa_isOnlyBuy = None, pa_percentTargetAfterTakeProfit = None, pa_balanceDistribution = None,
      pa_exchange = None\<rparr>"

text \<open>\<^verbatim>\<open>if (secret) mapping.secret = encrypt(secret)\<close>: an absent or empty secret is dropped.\<close>

definition encrypt_if_given :: "'x platform \<Rightarrow> string option \<Rightarrow> ('x world, string option) eff" where
  "encrypt_if_given P secret =
     (case secret of
        None \<Rightarrow> ret None
      | Some s \<Rightarrow> if s = [] then ret None else bindE (encrypt P s) (\<lambda>e. ret (Some e)))"

definition updateConfig :: "'x platform \<Rightarrow> config_patch \<Rightarrow> nat \<Rightarrow> ('x world, unit) eff" where
  "updateConfig P config configId =
     bindE (encrypt_if_given P (pa_apiKey config)) (\<lambda>apiKey.
     bindE (encrypt_if_given P (pa_privateKey config)) (\<lambda>privateKey.
     bindE (encrypt_if_given P (pa_password config)) (\<lambda>password.
       let patch = config\<lparr>pa_apiKey := apiKey, pa_privateKey := privateKey, pa_password := password\<rparr>
       in if patch = empty_patch then throwE (newError ''Update values cannot be empty.'')
          else executeE P (\<lambda>w. w\<lparr>trade_config :=
                 map (\<lambda>r. if c_id r = configId then apply_patch patch r else r) (trade_config w)\<rparr>))))"

text \<open>A whole configuration handed to \<^verbatim>\<open>updateConfig\<close>: every key is present.\<close>

definition full_patch :: "config \<Rightarrow> config_patch" where
  "full_patch c =
     \<lparr>pa_id = Some (c_id c), pa_apiKey = Some (c_apiKey c), pa_privateKey = Some (c_privateKey c),
      pa_password = Some (c_password c), pa_symbol = Some (c_symbol c),
      pa_positionSize = Some (c_positionSize c), pa_countGridSize = Some (c_countGridSize c),
      pa_gridSize = Some (c_gridSize c), pa_percentBuyBackStep = Some (c_percentBuyBackStep c),
      pa_takeProfit = Some (c_takeProfit c), pa_stopLoss = Some (c_stopLoss c),
      pa_isEmergencyStop = Some (c_isEmergencyStop c), pa_isFibonacci = Some (c_isFibonacci c),
      pa_percentProfit = Some (c_percentProfit c), pa_percentFromBalance = Some (c_percentFromBalance c),
      pa_candlePriceRange = Some (c_candlePriceRange c),
      pa_isPercentTargetAfterTakeProfit = Some (c_isPercentTargetAfterTakeProfit c),
      pa_isCapitalizeDeltaFromSale = Some (c_isCapitalizeDeltaFromSale c),
      pa_isCoinAccumulation = Some (c_isCoinAccumulation c),
      pa_isAutoStartTrading = Some (c_isAutoStartTrading c), pa_isStopTrading = Some (c_isStopTrading c),
      pa_isOnlyBuy = Some (c_isOnlyBuy c),
      pa_percentTargetAfterTakeProfit = Some (c_percentTargetAfterTakeProfit c),
      pa_balanceDistribution = Some (c_balanceDistribution c), pa_exchange = Some (c_exchange c)\<rparr>"

definition syncRuntimeConfig :: "'x platform \<Rightarrow> config \<Rightarrow> ('x world, unit) eff" where
  "syncRuntimeConfig P config =
     bindE (getConfig P) (\<lambda>configs.
       if \<exists>item \<in> set configs. c_id item = c_id config
       then updateConfig P (full_patch config) (c_id config)
       else if length configs > 0
       then throwE (newError (''Runtime config '' @ show_nat (c_id config) @
              '' was not found in a non-empty config database.''))
       else bindE (createConfig P config) (\<lambda>_.
            bindE (getConfig P) (\<lambda>after.
              let created = js_index after 0
              in if map_option c_id created \<noteq> Some (c_id config)
                 then throwE (newError (''Runtime config was created with id '' @
                        nullish (map_option (\<lambda>c. show_nat (c_id c)) created) ''unknown'' @
                        '' instead of '' @ show_nat (c_id config) @ ''.''))
                 else ret ())))"

text \<open>None is an undefined row, which the caller destructures.\<close>

definition getEmergencyStop :: "'x platform \<Rightarrow> nat \<Rightarrow> ('x world, bool option) eff" where
  "getEmergencyStop P configId =
     selectE P (\<lambda>w. map_option c_isEmergencyStop (find (\<lambda>r. c_id r = configId) (trade_config w)))"

abbreviation updateConfigs ::
    "'x platform \<Rightarrow> (config_row \<Rightarrow> bool) \<Rightarrow> (config_row \<Rightarrow> config_row) \<Rightarrow> ('x world, unit) eff" where
  "updateConfigs P cond f \<equiv>
     executeE P (\<lambda>w. w\<lparr>trade_config := map (\<lambda>r. if cond r then f r else r) (trade_config w)\<rparr>)"

definition enableEmergencyStop :: "'x platform \<Rightarrow> nat \<Rightarrow> ('x world, unit) eff" where
  "enableEmergencyStop P configId =
     updateConfigs P (\<lambda>r. c_id r = configId) (\<lambda>r. r\<lparr>c_isEmergencyStop := True\<rparr>)"

text \<open>The where clause is on the flag only, not on a configuration.\<close>

definition disableEmergencyStop :: "'x platform \<Rightarrow> ('x world, unit) eff" where
  "disableEmergencyStop P = updateConfigs P c_isEmergencyStop (\<lambda>r. r\<lparr>c_isEmergencyStop := False\<rparr>)"

definition enableStopTrading :: "'x platform \<Rightarrow> nat \<Rightarrow> ('x world, unit) eff" where
  "enableStopTrading P configId =
     updateConfigs P (\<lambda>r. c_id r = configId) (\<lambda>r. r\<lparr>c_isStopTrading := True\<rparr>)"

definition disableStopTrading :: "'x platform \<Rightarrow> nat \<Rightarrow> ('x world, unit) eff" where
  "disableStopTrading P configId =
     updateConfigs P (\<lambda>r. c_isStopTrading r \<and> c_id r = configId) (\<lambda>r. r\<lparr>c_isStopTrading := False\<rparr>)"

definition enabledAutoStartTrading :: "'x platform \<Rightarrow> nat \<Rightarrow> ('x world, unit) eff" where
  "enabledAutoStartTrading P configId =
     updateConfigs P (\<lambda>r. c_id r = configId) (\<lambda>r. r\<lparr>c_isAutoStartTrading := True\<rparr>)"

definition disableAutoStartTrading :: "'x platform \<Rightarrow> nat \<Rightarrow> ('x world, unit) eff" where
  "disableAutoStartTrading P configId =
     updateConfigs P (\<lambda>r. c_id r = configId) (\<lambda>r. r\<lparr>c_isAutoStartTrading := False\<rparr>)"

text \<open>No schema has a column \<^verbatim>\<open>is_config_update\<close>: the engine rejects the statement.\<close>

definition disableConfigUpdate :: "'x platform \<Rightarrow> nat \<Rightarrow> ('x world, unit) eff" where
  "disableConfigUpdate P configId = rejectE P ''no such column: is_config_update''"

definition recordLogger :: "'x platform \<Rightarrow> string \<Rightarrow> nat \<Rightarrow> ('x world, unit) eff" where
  "recordLogger P loggerEvent configId =
     updateConfigs P (\<lambda>r. c_id r = configId) (\<lambda>r. r\<lparr>c_loggerEvent := Some loggerEvent\<rparr>)"

section \<open>Frames\<close>

lemma config_reads_unchanged [unchanged_rules]:
  assumes "platform_free g"
  shows "unchanged g (getConfig P)" "unchanged g (getConfigById P c)" "unchanged g (getEmergencyStop P c)"
    "unchanged g (disableConfigUpdate P c)"
  unfolding getConfig_def getConfigById_def getEmergencyStop_def disableConfigUpdate_def
  by (intro unchanged_rules assms)+

lemma encrypt_if_given_unchanged [unchanged_rules]:
  "platform_free g \<Longrightarrow> unchanged g (encrypt_if_given P s)"
  unfolding encrypt_if_given_def by (intro unchanged_rules; assumption)

lemma updateConfigs_unchanged:
  assumes "platform_free g" and "\<And>w t. g (w\<lparr>trade_config := t\<rparr>) = g w"
  shows "unchanged g (executeE P (\<lambda>w. w\<lparr>trade_config := f w\<rparr>))"
  using assms by (intro unchanged_query) simp_all

lemma config_writes_unchanged [unchanged_rules]:
  assumes "platform_free g" and "\<And>w t. g (w\<lparr>trade_config := t\<rparr>) = g w"
  shows "unchanged g (enableEmergencyStop P c)" "unchanged g (disableEmergencyStop P)"
    "unchanged g (enableStopTrading P c)" "unchanged g (disableStopTrading P c)"
    "unchanged g (enabledAutoStartTrading P c)" "unchanged g (disableAutoStartTrading P c)"
    "unchanged g (recordLogger P l c)" "unchanged g (createConfig P cfg)" "unchanged g (updateConfig P pt c)"
    "unchanged g (syncRuntimeConfig P cfg)"
  unfolding enableEmergencyStop_def disableEmergencyStop_def enableStopTrading_def disableStopTrading_def
    enabledAutoStartTrading_def disableAutoStartTrading_def recordLogger_def createConfig_def
    updateConfig_def syncRuntimeConfig_def Let_def
  by (intro unchanged_rules assms(1) updateConfigs_unchanged [OF assms])+

section \<open>The first start\<close>

lemma reliable_db_at: "reliable_db P \<Longrightarrow> \<exists>x. p_db_fault P y = (None, x)"
  by (metis prod.collapse reliable_db_def)

text \<open>A table with one row is read back as that row decrypts; an empty one as nothing.\<close>

lemma getConfig_single:
  assumes "reliable_db P" and "trade_config w = [row]"
  obtains x where "getConfig P w =
    (case decrypt_config P (config_columns row) of Inl e \<Rightarrow> (Inl e, w\<lparr>ext := x\<rparr>) | Inr c \<Rightarrow> (Inr [c], w\<lparr>ext := x\<rparr>))"
proof -
  obtain x where "p_db_fault P (ext w) = (None, x)"
    using reliable_db_at [OF assms(1)] by blast
  with assms(2) that show ?thesis
    by (auto simp: getConfig_def bindE_def liftE_def ret_def queryE_def split: sum.splits)
qed

lemma getConfig_empty:
  assumes "reliable_db P" and "trade_config w = []"
  obtains x where "getConfig P w = (Inr [], w\<lparr>ext := x\<rparr>)"
proof -
  obtain x where "p_db_fault P (ext w) = (None, x)"
    using reliable_db_at [OF assms(1)] by blast
  with assms(2) that show ?thesis
    by (simp add: getConfig_def bindE_def ret_def queryE_def)
qed

lemma getConfigById_single:
  assumes "reliable_db P" and "trade_config w = [row]" and "c_id row = c"
  shows "fst (getConfigById P c w) = decrypt_config P (config_columns row)"
proof -
  obtain x where "p_db_fault P (ext w) = (None, x)"
    using reliable_db_at [OF assms(1)] by blast
  with assms(2,3) show ?thesis
    by (simp add: getConfigById_def bindE_def liftE_def queryE_def)
qed

text \<open>The row a configuration is stored as.\<close>

definition stored_config :: "config \<Rightarrow> string \<Rightarrow> string \<Rightarrow> string \<Rightarrow> config_row" where
  "stored_config config a b c =
     config.extend (config\<lparr>c_id := 1, c_isConfigUpdated := False, c_apiKey := a, c_privateKey := b, c_password := c\<rparr>)
       (config_row.fields None)"

lemma createConfig_first:
  assumes "gcm (p_gcm_seal P) (p_gcm_open P)" and "hex_ivs P" and "reliable_db P" and "trade_config w = []"
  obtains a b c x where "createConfig P config w = (Inr (), w\<lparr>ext := x, trade_config := [stored_config config a b c]\<rparr>)"
    and "\<forall>s e. (s, e) \<in> {(c_apiKey config, a), (c_privateKey config, b), (c_password config, c)} \<longrightarrow>
      decrypt P e = (if s = [] then Inl (newError ''Invalid encrypted value.'') else Inr s)"
proof -
  note enc = encrypt_returns [OF assms(1,2)]
  obtain a x1 where a: "encrypt P (c_apiKey config) w = (Inr a, w\<lparr>ext := x1\<rparr>)"
    "decrypt P a = (if c_apiKey config = [] then Inl (newError ''Invalid encrypted value.'') else Inr (c_apiKey config))"
    by (rule enc)
  obtain b x2 where b: "encrypt P (c_privateKey config) (w\<lparr>ext := x1\<rparr>) = (Inr b, w\<lparr>ext := x1\<rparr>\<lparr>ext := x2\<rparr>)"
    "decrypt P b = (if c_privateKey config = [] then Inl (newError ''Invalid encrypted value.'') else Inr (c_privateKey config))"
    by (rule enc)
  obtain c x3 where c: "encrypt P (c_password config) (w\<lparr>ext := x2\<rparr>) = (Inr c, w\<lparr>ext := x2\<rparr>\<lparr>ext := x3\<rparr>)"
    "decrypt P c = (if c_password config = [] then Inl (newError ''Invalid encrypted value.'') else Inr (c_password config))"
    by (rule enc)
  obtain x4 where "p_db_fault P x3 = (None, x4)"
    using reliable_db_at [OF assms(3)] by blast
  then have "createConfig P config w = (Inr (), w\<lparr>ext := x4, trade_config := [stored_config config a b c]\<rparr>)"
    using a(1) b(1) c(1) assms(4)
    by (simp add: createConfig_def bindE_def queryE_def next_id_def stored_config_def)
  with that a(2) b(2) c(2) show ?thesis by blast
qed

lemma stored_config_secrets [simp]:
  "c_apiKey (config_columns (stored_config config a b c)) = a"
  "c_privateKey (config_columns (stored_config config a b c)) = b"
  "c_password (config_columns (stored_config config a b c)) = c"
  "c_id (stored_config config a b c) = 1"
  by (simp_all add: config_columns_def stored_config_def config.defs config_row.defs)

lemma stored_config_plain:
  "c_id config = 1 \<Longrightarrow> (config_columns (stored_config config a b c))
     \<lparr>c_apiKey := c_apiKey config, c_privateKey := c_privateKey config, c_password := c_password config\<rparr>
   = config\<lparr>c_balanceDistribution := False, c_isConfigUpdated := False\<rparr>"
  by (cases config) (simp add: config_columns_def stored_config_def config.defs config_row.defs)

lemma decrypt_stored:
  assumes "\<forall>s e. (s, e) \<in> {(c_apiKey config, a), (c_privateKey config, b), (c_password config, c)} \<longrightarrow>
      decrypt P e = (if s = [] then Inl (newError ''Invalid encrypted value.'') else Inr s)"
    and "c_id config = 1"
  shows "decrypt_config P (config_columns (stored_config config a b c)) =
    (if [] \<in> {c_apiKey config, c_privateKey config, c_password config}
     then Inl (newError ''Invalid encrypted value.'')
     else Inr (config\<lparr>c_balanceDistribution := False, c_isConfigUpdated := False\<rparr>))"
proof -
  have "decrypt P a = (if c_apiKey config = [] then Inl (newError ''Invalid encrypted value.'') else Inr (c_apiKey config))"
    "decrypt P b = (if c_privateKey config = [] then Inl (newError ''Invalid encrypted value.'') else Inr (c_privateKey config))"
    "decrypt P c = (if c_password config = [] then Inl (newError ''Invalid encrypted value.'') else Inr (c_password config))"
    using assms(1) by simp_all
  note d = this
  show ?thesis
    unfolding decrypt_config_def stored_config_secrets d
    by (simp only: stored_config_plain [OF assms(2)] sum.case insert_iff empty_iff eq_commute [of "[]"] simp_thms
        split: if_split) blast
qed

lemma syncRuntimeConfig_first:
  assumes "gcm (p_gcm_seal P) (p_gcm_open P)" and "hex_ivs P" and "reliable_db P"
    and "trade_config w = []" and "c_id config = 1"
  shows "\<exists>t. (if [] \<in> {c_apiKey config, c_privateKey config, c_password config}
     then syncRuntimeConfig P config w = (Inl (newError ''Invalid encrypted value.''), t) \<and>
          fst (getConfigById P 1 t) = Inl (newError ''Invalid encrypted value.'') \<and>
          fst (getConfig P t) = Inl (newError ''Invalid encrypted value.'')
     else syncRuntimeConfig P config w = (Inr (), t) \<and>
          fst (getConfigById P 1 t) = Inr (config\<lparr>c_balanceDistribution := False, c_isConfigUpdated := False\<rparr>))"
proof -
  obtain x where s1: "getConfig P w = (Inr [], w\<lparr>ext := x\<rparr>)"
    by (rule getConfig_empty [OF assms(3,4)])
  have empty: "trade_config (w\<lparr>ext := x\<rparr>) = []"
    using assms(4) by simp
  obtain a b c y where
    s2: "createConfig P config (w\<lparr>ext := x\<rparr>) = (Inr (), w\<lparr>ext := x\<rparr>\<lparr>ext := y, trade_config := [stored_config config a b c]\<rparr>)"
    and dec: "\<forall>s e. (s, e) \<in> {(c_apiKey config, a), (c_privateKey config, b), (c_password config, c)} \<longrightarrow>
      decrypt P e = (if s = [] then Inl (newError ''Invalid encrypted value.'') else Inr s)"
    by (rule createConfig_first [OF assms(1-3) empty, of config])
  let ?u = "w\<lparr>ext := y, trade_config := [stored_config config a b c]\<rparr>"
  note stored = decrypt_stored [OF dec assms(5)]
  have single: "trade_config (?u\<lparr>ext := z\<rparr>) = [stored_config config a b c]" for z by simp
  have read: "fst (getConfigById P 1 (?u\<lparr>ext := z\<rparr>)) = decrypt_config P (config_columns (stored_config config a b c))" for z
    by (rule getConfigById_single [OF assms(3) single]) simp
  obtain z where s3: "getConfig P ?u = (case decrypt_config P (config_columns (stored_config config a b c)) of
      Inl e \<Rightarrow> (Inl e, ?u\<lparr>ext := z\<rparr>) | Inr c \<Rightarrow> (Inr [c], ?u\<lparr>ext := z\<rparr>))"
    by (rule getConfig_single [OF assms(3), of ?u]) simp_all
  obtain z' where s4: "getConfig P (?u\<lparr>ext := z\<rparr>) = (case decrypt_config P (config_columns (stored_config config a b c)) of
      Inl e \<Rightarrow> (Inl e, ?u\<lparr>ext := z\<rparr>\<lparr>ext := z'\<rparr>) | Inr c \<Rightarrow> (Inr [c], ?u\<lparr>ext := z\<rparr>\<lparr>ext := z'\<rparr>))"
    by (rule getConfig_single [OF assms(3) single])
  have "syncRuntimeConfig P config w = (if [] \<in> {c_apiKey config, c_privateKey config, c_password config}
      then (Inl (newError ''Invalid encrypted value.''), ?u\<lparr>ext := z\<rparr>) else (Inr (), ?u\<lparr>ext := z\<rparr>))"
    using s1 s2 s3 assms(5) by (simp add: syncRuntimeConfig_def bindE_def stored js_index_def ret_def)
  with read [of z] s4 stored show ?thesis
    by (intro exI [of _ "?u\<lparr>ext := z\<rparr>"]) auto
qed

section \<open>Properties\<close>

text \<open>
  The first start of a worker. On an empty configuration table \<^verbatim>\<open>syncRuntimeConfig\<close> stores the
  configuration and succeeds exactly when none of the three secrets is empty, and what a later
  \<^verbatim>\<open>getConfigById\<close> reads is the configuration itself. With an empty secret, the passphrase of an
  exchange that has none for instance, it throws \<^verbatim>\<open>Invalid encrypted value.\<close> after having stored the
  row, and every later read of the table throws the same.
\<close>

theorem sync_runtime_config:
  assumes "gcm (p_gcm_seal P) (p_gcm_open P)" and "hex_ivs P" and "reliable_db P"
    and "trade_config w = []" and "c_id config = 1"
  shows "\<exists>t. (if [] \<in> {c_apiKey config, c_privateKey config, c_password config}
     then syncRuntimeConfig P config w = (Inl (newError ''Invalid encrypted value.''), t) \<and>
          fst (getConfigById P 1 t) = Inl (newError ''Invalid encrypted value.'') \<and>
          fst (getConfig P t) = Inl (newError ''Invalid encrypted value.'')
     else syncRuntimeConfig P config w = (Inr (), t) \<and>
          fst (getConfigById P 1 t) = Inr (config\<lparr>c_balanceDistribution := False, c_isConfigUpdated := False\<rparr>))"
  using assms by (rule syncRuntimeConfig_first)

theorem sync_runtime_config_witness:
  "\<exists>t. syncRuntimeConfig (sim_platform Desktop\<lparr>p_db_fault := \<lambda>x. (None, x)\<rparr>) (sim_config\<lparr>c_password := []\<rparr>)
     (sim_world sim_start) = (Inl (newError ''Invalid encrypted value.''), t)"
proof -
  let ?P = "sim_platform Desktop\<lparr>p_db_fault := \<lambda>x. (None, x)\<rparr>"
  have "gcm (p_gcm_seal ?P) (p_gcm_open ?P)"
    using sim_cipher.gcm_axioms [of Desktop] by simp
  moreover have "hex_ivs ?P" "reliable_db ?P" "trade_config (sim_world sim_start) = []"
    "c_id (sim_config\<lparr>c_password := []\<rparr>) = 1" "c_password (sim_config\<lparr>c_password := []\<rparr>) = []"
    by (simp_all add: hex_ivs_def reliable_db_def sim_defs sim_config_def)
  ultimately show ?thesis
    using sync_runtime_config [of ?P "sim_world sim_start" "sim_config\<lparr>c_password := []\<rparr>"] by auto
qed

end
