(* ===== verification/Orders_Operation.thy ===== *)
theory Orders_Operation
  imports Trading_Math Exchange_Service Config_Repository
begin

text \<open>
  \<^verbatim>\<open>src/utils/OrdersOperationService/OrdersOperationService.ts\<close>: opening positions, waiting for
  their execution, recording them, publishing them to the parent process and closing what is
  open. Several services hold an instance of the class of their own, so the operations that use
  the list \<^verbatim>\<open>orders\<close> take the instance as an argument.
\<close>

section \<open>Publishing orders\<close>

text \<open>\<open>Number(order.filled ?? 0)\<close>.\<close>

definition filled_or_0 :: "('a :: type) ccxt_order_scheme \<Rightarrow> jsnum" where
  "filled_or_0 r = nullish (o_filled r) (Fin 0)"

definition side_string :: "mode \<Rightarrow> string" where
  "side_string m = (case m of Buy \<Rightarrow> ''buy'' | Sell \<Rightarrow> ''sell'')"

definition dashboardOrderStatus :: "'a ccxt_order_scheme \<Rightarrow> string" where
  "dashboardOrderStatus order =
     (if o_status order = Some ''closed'' then ''FILLED''
      else if o_status order = Some ''canceled'' then ''CANCELLED''
      else if o_status order = Some ''rejected'' then ''REJECTED''
      else if o_status order = Some ''expired'' then ''EXPIRED''
      else if filled_or_0 order > Fin 0 then ''PARTIALLY_FILLED''
      else ''OPEN'')"

definition order_message :: "'a ccxt_order_scheme \<Rightarrow> mode \<Rightarrow> jsnum \<Rightarrow> order_update" where
  "order_message order side quantity =
     \<lparr>u_exchangeOrderId = o_id order,
      u_clientOrderId = (case o_clientOrderId order of
          None \<Rightarrow> ''exchange-'' @ o_id order
        | Some c \<Rightarrow> if c = [] then ''exchange-'' @ o_id order else c),
      u_symbol = o_symbol order, u_side = toUpperCase (side_string side),
      u_orderType = toUpperCase (o_type order), u_status = dashboardOrderStatus order,
      u_quantity = quantity, u_price = o_price order, u_rawResponse = nullish (o_info order) ''{}''\<rparr>"

definition publishOrder :: "'x platform \<Rightarrow> 'a ccxt_order_scheme \<Rightarrow> ('x world, unit) eff" where
  "publishOrder P order =
     (case o_side order of
        None \<Rightarrow> ret ()
      | Some side \<Rightarrow>
          if \<not> p_has_ipc P \<or> o_id order = [] \<or> o_symbol order = [] \<or> o_type order = [] then ret ()
          else let filledQuantity = filled_or_0 order;
                   quantity = (if filledQuantity > Fin 0 then filledQuantity
                               else nullish (o_amount order) (Fin 0))
            in if \<not> isFinite quantity \<or> quantity \<le> Fin 0 then ret ()
               else modifyE (\<lambda>w. w\<lparr>sent := sent w @ [order_message order side quantity]\<rparr>))"

section \<open>The list of orders\<close>

abbreviation set_ops :: "ops_instance \<Rightarrow> mem_order list \<Rightarrow> 'x world \<Rightarrow> 'x world" where
  "set_ops i os w \<equiv> w\<lparr>ops_orders := (ops_orders w)(i := os)\<rparr>"

definition pushOrder :: "ops_instance \<Rightarrow> ccxt_order \<Rightarrow> ('x world, unit) eff" where
  "pushOrder i order = modifyE (\<lambda>w. set_ops i (ops_orders w i @ [as_mem order]) w)"

definition clearingOrderList :: "ops_instance \<Rightarrow> ('x world, unit) eff" where
  "clearingOrderList i = modifyE (set_ops i [])"

definition blank_order :: ccxt_order where
  "blank_order = \<lparr>o_id = [], o_clientOrderId = None, o_symbol = [], o_side = None, o_type = [],
     o_status = None, o_price = None, o_amount = None, o_filled = None, o_remaining = None,
     o_average = None, o_info = None\<rparr>"

text \<open>The object \<^verbatim>\<open>setOrders\<close> publishes for a stored order.\<close>

definition restored_order :: "mem_order \<Rightarrow> ccxt_order option \<Rightarrow> ccxt_order" where
  "restored_order stored raw =
     (nullish raw blank_order)\<lparr>
        o_id := nullish (o_orderId stored) [],
        o_symbol := o_symbol stored,
        o_side := o_side stored,
        o_type := nullish (map_option o_type raw) ''limit'',
        o_status := Some (nullish (Option.bind raw o_status) ''open''),
        o_amount := o_amount stored,
        o_price := o_price stored\<rparr>"

definition publishStored :: "'x platform \<Rightarrow> mem_order \<Rightarrow> ('x world, unit) eff" where
  "publishStored P stored =
     (case o_order stored of
        JsonText raw \<Rightarrow> publishOrder P (restored_order stored raw)
      | JsonObject raw \<Rightarrow> publishOrder P (restored_order stored (Some raw))
      | JsonNull \<Rightarrow> throwE (typeError ''Cannot read properties of null (reading type)''))"

definition setOrders :: "'x platform \<Rightarrow> ops_instance \<Rightarrow> mem_order list \<Rightarrow> ('x world, unit) eff" where
  "setOrders P i orders = bindE (modifyE (set_ops i orders)) (\<lambda>_. forE orders (publishStored P))"

section \<open>Waiting for an execution\<close>

text \<open>
  \<open>publishedState\<close> is the text \<^verbatim>\<open>status:filled:remaining\<close> of the last published update; it is
  compared only, and the model compares its three parts.
\<close>

type_synonym exec_state = "string option \<times> jsnum \<times> jsnum option"

definition exec_state_of :: "ccxt_order \<Rightarrow> exec_state" where
  "exec_state_of latest = (o_status latest, filled_or_0 latest, o_remaining latest)"

text \<open>The loop of 60 polls; None is its end without an execution.\<close>

fun waitForExecution_loop ::
    "'x platform \<Rightarrow> nat \<Rightarrow> string \<Rightarrow> string \<Rightarrow> exec_state option \<Rightarrow> ('x world, ccxt_order option) eff" where
  "waitForExecution_loop P 0 oid symbol publishedState = ret None"
| "waitForExecution_loop P (Suc left) oid symbol publishedState =
     bindE (checkStatusOrderById P oid symbol) (\<lambda>latest.
     bindE (if Some (exec_state_of latest) \<noteq> publishedState then publishOrder P latest else ret ()) (\<lambda>_.
       if o_status latest = Some ''closed'' \<and> filled_or_0 latest > Fin 0 then ret (Some latest)
       else if o_status latest \<in> {Some ''canceled'', Some ''rejected'', Some ''expired''}
       then if filled_or_0 latest > Fin 0 then ret (Some latest)
            else throwE (newError (''Order '' @ oid @ '' was '' @ nullish (o_status latest) [] @ '' before execution.''))
       else bindE (sleepE P 1000) (\<lambda>_.
              waitForExecution_loop P left oid symbol (Some (exec_state_of latest)))))"

definition waitForExecution :: "'x platform \<Rightarrow> ccxt_order \<Rightarrow> string \<Rightarrow> ('x world, ccxt_order) eff" where
  "waitForExecution P order symbol =
     (if filled_or_0 order > Fin 0 \<and> o_status order = Some ''closed''
      then bindE (publishOrder P order) (\<lambda>_. ret order)
      else bindE (waitForExecution_loop P 60 (o_id order) symbol None) (\<lambda>r.
        case r of
          Some latest \<Rightarrow> ret latest
        | None \<Rightarrow>
            bindE (cancelAllOrders P symbol) (\<lambda>_.
            bindE (checkStatusOrderById P (o_id order) symbol) (\<lambda>latest.
            bindE (publishOrder P latest) (\<lambda>_.
              if filled_or_0 latest > Fin 0 then ret latest
              else throwE (newError (''Order '' @ o_id order @ '' was not executed within 60 seconds.'')))))))"

section \<open>Opening positions\<close>

definition openPositionForAlgorithm :: "'x platform \<Rightarrow> create_open_position \<Rightarrow> ('x world, ccxt_order) eff" where
  "openPositionForAlgorithm P params = createOrder P params"

definition saveActivatedOrder :: "'x platform \<Rightarrow> create_order_params \<Rightarrow> ('x world, bool) eff" where
  "saveActivatedOrder P operation = insertOrder P operation"

text \<open>\<open>Number(order.average ?? order.price ?? d)\<close> and \<open>Number(order.filled ?? order.amount ?? d)\<close>.\<close>

definition executed_price :: "ccxt_order \<Rightarrow> jsnum \<Rightarrow> jsnum" where
  "executed_price order d = nullish (o_average order) (nullish (o_price order) d)"

definition executed_amount :: "ccxt_order \<Rightarrow> jsnum \<Rightarrow> jsnum" where
  "executed_amount order d = nullish (o_filled order) (nullish (o_amount order) d)"

text \<open>The row \<^verbatim>\<open>openPositionForStrategy\<close> records for an executed order.\<close>

definition entry_params :: "mode \<Rightarrow> setting_order \<Rightarrow> string \<Rightarrow> ccxt_order \<Rightarrow> create_order_params" where
  "entry_params side so idx r =
     \<lparr>cp_orderId = o_id r, cp_order = r, cp_price = executed_price r (so_price so),
      cp_amount = executed_amount r (so_amount so), cp_side = side, cp_symbol = o_symbol r,
      cp_indexOperation = idx\<rparr>"

definition openPositionForStrategy ::
    "'x platform \<Rightarrow> ops_instance \<Rightarrow> mode \<Rightarrow> setting_order \<Rightarrow> string \<Rightarrow> ('x world, ccxt_order) eff" where
  "openPositionForStrategy P i side settingOrder indexOperation =
     bindE (openPositionForAlgorithm P
              \<lparr>rq_symbol = so_symbol settingOrder, rq_type = so_type settingOrder, rq_side = side,
               rq_amount = so_amount settingOrder, rq_price = so_price settingOrder, rq_stopPrice = None\<rparr>)
       (\<lambda>submittedOrder.
     bindE (publishOrder P submittedOrder) (\<lambda>_.
     bindE (waitForExecution P submittedOrder (so_symbol settingOrder)) (\<lambda>newOrder.
     bindE (saveActivatedOrder P (entry_params side settingOrder indexOperation newOrder)) (\<lambda>_.
     bindE (pushOrder i newOrder) (\<lambda>_. ret newOrder)))))"

definition openFirstPosition ::
    "'x platform \<Rightarrow> ops_instance \<Rightarrow> config \<Rightarrow> setting_order \<Rightarrow> jsnum \<Rightarrow> jsnum \<Rightarrow> jsnum \<Rightarrow> string \<Rightarrow>
     ('x world, ccxt_order) eff" where
  "openFirstPosition P i config settingForFirstOrder price lowestInCandle highestInCandle indexOperation =
     (let open_side = (\<lambda>side. bindE (openPositionForStrategy P i side settingForFirstOrder indexOperation)
                                (\<lambda>order. ret (Some order)))
      in if c_isOnlyBuy config then openPositionForStrategy P i Buy settingForFirstOrder indexOperation
         else
           bindE (if price \<ge> lowestInCandle \<and> price \<le> highestInCandle
                  then let sellSide = price - lowestInCandle; buySide = highestInCandle - price
                    in if buySide > sellSide then open_side Sell else open_side Buy
                  else ret None) (\<lambda>first1.
           bindE (if price < lowestInCandle then open_side Buy else ret first1) (\<lambda>first2.
           bindE (if price > highestInCandle then open_side Sell else ret first2) (\<lambda>firstOrder.
             case firstOrder of
               None \<Rightarrow> throwE (typeError ''Cannot use 'in' operator to search for id in undefined'')
             | Some order \<Rightarrow> ret order))))"

section \<open>The grid\<close>

definition openStopMarketPosition :: "'x platform \<Rightarrow> create_open_position \<Rightarrow> ('x world, ccxt_order) eff" where
  "openStopMarketPosition P positionData = createStopMarketOrder P positionData"

definition createMarketOrLimitOrStopOrder ::
    "'x platform \<Rightarrow> create_open_position \<Rightarrow> ('x world, ccxt_order) eff" where
  "createMarketOrLimitOrStopOrder P settings = createOrder P settings"

definition openStopMarketPositionByGridLineByuHightSellLowActualPrice ::
    "'x platform \<Rightarrow> ops_instance \<Rightarrow> mode \<Rightarrow> string \<Rightarrow> jsnum \<Rightarrow> ticker \<Rightarrow> jsnum \<Rightarrow> nat \<Rightarrow> ('x world, unit) eff" where
  "openStopMarketPositionByGridLineByuHightSellLowActualPrice P i mode symbol positionSize ticker gridSize
     numberGridLines =
     (let tickPrice = Number (t_last ticker)
      in forE [0..<numberGridLines] (\<lambda>k.
           let condutionPriceOpen = (if numberGridLines = 1 then Fin 1 else Fin (of_nat (k * 2)));
               price = tickPrice + (if mode = Buy then gridSize * condutionPriceOpen
                                    else - (gridSize * condutionPriceOpen))
           in bindE (openStopMarketPosition P
                       \<lparr>rq_symbol = symbol, rq_type = Limit, rq_side = mode, rq_amount = positionSize,
                        rq_price = price, rq_stopPrice = Some price\<rparr>) (\<lambda>order. pushOrder i order)))"

definition openLimitPositionByModeBuyOpenLongSellOpenShort ::
    "'x platform \<Rightarrow> mode \<Rightarrow> open_position \<Rightarrow> ('x world, ccxt_order) eff" where
  "openLimitPositionByModeBuyOpenLongSellOpenShort P mode positionData =
     (if mode = Buy then openLimitLongPosition P positionData else openLimitShortPosition P positionData)"

text \<open>The body of the loop returns, so it runs at most once.\<close>

definition openLimitPositionByGridLineBuyLowSellHight ::
    "'x platform \<Rightarrow> ops_instance \<Rightarrow> mode \<Rightarrow> string \<Rightarrow> jsnum \<Rightarrow> ticker \<Rightarrow> jsnum \<Rightarrow> nat \<Rightarrow>
     ('x world, ccxt_order option) eff" where
  "openLimitPositionByGridLineBuyLowSellHight P i mode symbol positionSize ticker gridSize numberGridLines =
     (let tickPrice = Number (t_last ticker)
      in case [1..<Suc numberGridLines] of
           [] \<Rightarrow> ret None
         | k # _ \<Rightarrow>
             let gridSizeForSizeOpen = (if mode = Buy then - (gridSize * Fin (of_nat k)) else gridSize * Fin (of_nat k));
                 price = tickPrice + gridSizeForSizeOpen
             in bindE (openLimitPositionByModeBuyOpenLongSellOpenShort P mode
                         \<lparr>ps_symbol = symbol, ps_amount = positionSize, ps_price = price\<rparr>) (\<lambda>order.
                bindE (pushOrder i order) (\<lambda>_. ret (Some order))))"

section \<open>Closing and resuming\<close>

text \<open>A number the code accepts: \<^verbatim>\<open>Number.isFinite(x) && x > 0\<close>.\<close>

definition finite_positive :: "jsnum \<Rightarrow> bool" where
  "finite_positive x \<longleftrightarrow> isFinite x \<and> x > Fin 0"

definition resolveExecutedAmount :: "mem_order \<Rightarrow> ccxt_order option \<Rightarrow> jsnum" where
  "resolveExecutedAmount order latest =
     (let latestFilled = Number (Option.bind latest o_filled);
          latestAmount = Number (Option.bind latest o_amount);
          rawOrder = (case o_order order of JsonObject r \<Rightarrow> Some r | _ \<Rightarrow> None);
          storedFilled = Number (Option.bind rawOrder o_filled);
          storedAmount = Number (o_amount order)
      in if finite_positive latestFilled then latestFilled
         else if Option.bind latest o_status = Some ''closed'' \<and> finite_positive latestAmount then latestAmount
         else if finite_positive storedFilled then storedFilled
         else if o_orderId order \<notin> {None, Some []} \<and> finite_positive storedAmount then storedAmount
         else Fin 0)"

text \<open>The id an order has on the exchange: \<^verbatim>\<open>order.orderId || String(order.id)\<close>.\<close>

definition exchange_order_id :: "mem_order \<Rightarrow> string" where
  "exchange_order_id order =
     (case o_orderId order of None \<Rightarrow> o_id order | Some s \<Rightarrow> if s = [] then o_id order else s)"

definition executedOrder :: "'x platform \<Rightarrow> string \<Rightarrow> mem_order \<Rightarrow> ('x world, filled_order) eff" where
  "executedOrder P symbol order =
     bindE (catchE (bindE (checkStatusOrderById P (exchange_order_id order) symbol) (\<lambda>s. ret (Some s)))
              (\<lambda>_. ret None)) (\<lambda>status.
     bindE (case status of None \<Rightarrow> ret () | Some s \<Rightarrow> publishOrder P s) (\<lambda>_.
       ret \<lparr>fo_side = o_side order, fo_filled = resolveExecutedAmount order status\<rparr>))"

text \<open>The request \<^verbatim>\<open>closeFilledPosition\<close> submits for an exposure, and the row it records.\<close>

definition closing_request :: "string \<Rightarrow> closing_exposure \<Rightarrow> jsnum \<Rightarrow> create_open_position" where
  "closing_request symbol e price =
     \<lparr>rq_symbol = symbol, rq_type = Limit, rq_side = ce_side e, rq_amount = ce_amount e,
      rq_price = price, rq_stopPrice = None\<rparr>"

definition closing_params :: "string \<Rightarrow> string \<Rightarrow> closing_exposure \<Rightarrow> jsnum \<Rightarrow> ccxt_order \<Rightarrow> create_order_params" where
  "closing_params symbol idx e price r =
     \<lparr>cp_orderId = o_id r, cp_order = r, cp_price = executed_price r price,
      cp_amount = executed_amount r (ce_amount e), cp_side = ce_side e, cp_symbol = symbol,
      cp_indexOperation = idx\<rparr>"

definition saveClosingOrder :: "'x platform \<Rightarrow> string \<Rightarrow> create_order_params \<Rightarrow> ('x world, unit) eff" where
  "saveClosingOrder P indexOperation operation =
     (if indexOperation \<noteq> [] then bindE (saveActivatedOrder P operation) (\<lambda>_. ret ()) else ret ())"

text \<open>The second half of \<^verbatim>\<open>closeFilledPosition\<close>: submit, await and record the closing order.\<close>

definition submitClosingOrder ::
    "'x platform \<Rightarrow> ops_instance \<Rightarrow> string \<Rightarrow> string \<Rightarrow> closing_exposure \<Rightarrow> ('x world, ccxt_order option) eff" where
  "submitClosingOrder P i symbol indexOperation exposure =
     bindE (getPrice P symbol) (\<lambda>price.
     bindE (createOrder P (closing_request symbol exposure price)) (\<lambda>submittedClosingOrder.
     bindE (publishOrder P submittedClosingOrder) (\<lambda>_.
     bindE (waitForExecution P submittedClosingOrder symbol) (\<lambda>closingOrder.
     bindE (saveClosingOrder P indexOperation (closing_params symbol indexOperation exposure price closingOrder)) (\<lambda>_.
     bindE (pushOrder i closingOrder) (\<lambda>_. ret (Some closingOrder)))))))"

definition closeFilledPosition ::
    "'x platform \<Rightarrow> ops_instance \<Rightarrow> string \<Rightarrow> string \<Rightarrow> ('x world, ccxt_order option) eff" where
  "closeFilledPosition P i symbol indexOperation =
     bindE (cancelAllOrders P symbol) (\<lambda>_.
     bindE (getsE (\<lambda>w. ops_orders w i)) (\<lambda>orders.
       if orders = [] then ret None
       else bindE (mapE (executedOrder P symbol) orders) (\<lambda>filledOrders.
         case calculateClosingOrderExposure filledOrders of
           None \<Rightarrow> ret None
         | Some exposure \<Rightarrow> submitClosingOrder P i symbol indexOperation exposure)))"

definition getOrderByOrderId :: "'x platform \<Rightarrow> string \<Rightarrow> ('x world, mem_order option) eff" where
  "getOrderByOrderId P orderId = findOrderById P orderId"

definition revertActiveStateOrder :: "'x platform \<Rightarrow> string \<Rightarrow> ('x world, unit) eff" where
  "revertActiveStateOrder P indexOperation = revertOrderActiveStatus P indexOperation"

text \<open>The part of \<^verbatim>\<open>WatchingProcessParamType\<close> that is data.\<close>

record watch_start =
  ws_settingForFirstOrder :: "setting_order option"
  ws_firstOrder :: "mem_order option"
  ws_price :: "jsnum option"

text \<open>
  \<^verbatim>\<open>setOrders\<close> is called without await: what it throws is not seen here. It has no await of its
  own, so it is finished when the watching process starts. The watching process may not end; its
  result is None as long as it has not.
\<close>

definition checkingExistingOrders ::
    "'x platform \<Rightarrow> ops_instance \<Rightarrow> (watch_start \<Rightarrow> ('x world, unit option) eff) \<Rightarrow> string \<Rightarrow> string \<Rightarrow>
     ('x world, unit option) eff" where
  "checkingExistingOrders P i watchingProcess symbol indexOperation =
     bindE (getAllOrdersByIndexOperation P indexOperation) (\<lambda>ordersFromDB.
       case ordersFromDB of
         [] \<Rightarrow> ret (Some ())
       | first # _ \<Rightarrow>
           let amountAllOrders = reduce_sum (\<lambda>order. Number (o_amount order)) ordersFromDB
           in bindE (catchE (setOrders P i ordersFromDB) (\<lambda>_. ret ())) (\<lambda>_.
                watchingProcess
                  \<lparr>ws_settingForFirstOrder = Some \<lparr>so_symbol = symbol, so_type = Limit,
                       so_amount = amountAllOrders, so_price = Number (o_price first)\<rparr>,
                   ws_firstOrder = Some first, ws_price = o_price first\<rparr>))"

section \<open>Frames\<close>

lemma publishOrder_unchanged [unchanged_rules]:
  assumes "platform_free g" and "\<And>w t. g (w\<lparr>sent := t\<rparr>) = g w"
  shows "unchanged g (publishOrder P r)"
proof -
  have "unchanged g (modifyE (\<lambda>w. w\<lparr>sent := f w\<rparr>))" for f
    using assms by (intro unchanged_modify) simp
  then show ?thesis
    unfolding publishOrder_def Let_def by (intro unchanged_rules)
qed

text \<open>An observation of the world that waiting for an order does not touch.\<close>

definition wait_free :: "('x world \<Rightarrow> 'b) \<Rightarrow> bool" where
  "wait_free g \<longleftrightarrow> platform_free g \<and> (\<forall>w t. g (w\<lparr>sent := t\<rparr>) = g w)"

lemma wait_free_fields [simp, intro]:
  "wait_free ops_orders" "wait_free trade_operation" "wait_free trade_session" "wait_free trade_config"
  "wait_free balance_history" "wait_free instance_identity"
  "wait_free orders_placed" "wait_free (\<lambda>w. ops_orders w i)"
  by (auto simp: wait_free_def orders_placed_def)

lemma wait_free_platform [simp, dest]: "wait_free g \<Longrightarrow> platform_free g"
  by (simp add: wait_free_def)

lemma wait_free_publish: "wait_free g \<Longrightarrow> unchanged g (publishOrder P r)"
  by (rule publishOrder_unchanged) (simp_all add: wait_free_def)

lemma waitForExecution_loop_unchanged:
  "wait_free g \<Longrightarrow> unchanged g (waitForExecution_loop P k oid s st)"
  by (induction k arbitrary: st) (auto intro!: unchanged_rules wait_free_publish)

lemma waitForExecution_unchanged [unchanged_rules]:
  "wait_free g \<Longrightarrow> unchanged g (waitForExecution P r s)"
  unfolding waitForExecution_def
  by (intro unchanged_rules wait_free_publish waitForExecution_loop_unchanged wait_free_platform)

lemma executedOrder_unchanged [unchanged_rules]:
  "wait_free g \<Longrightarrow> unchanged g (executedOrder P s r)"
  unfolding executedOrder_def by (intro unchanged_rules wait_free_publish wait_free_platform)

section \<open>Executed orders\<close>

lemma waitForExecution_loop_filled:
  "waitForExecution_loop P k oid s st w = (Inr (Some r), t) \<Longrightarrow> filled_or_0 r > Fin 0"
  by (induction k arbitrary: st w) (auto simp: bindE_Inr split: if_splits)

lemma waitForExecution_filled:
  "waitForExecution P order s w = (Inr r, t) \<Longrightarrow> filled_or_0 r > Fin 0"
  by (auto simp: waitForExecution_def bindE_Inr split: if_splits option.splits
      dest: waitForExecution_loop_filled)

lemma executed_amount_pos: "filled_or_0 r > Fin 0 \<Longrightarrow> executed_amount r d = filled_or_0 r"
  by (cases "o_filled r") (auto simp: executed_amount_def filled_or_0_def)

lemma finite_positive_iff: "finite_positive x \<longleftrightarrow> (\<exists>a > 0. x = Fin a)"
  by (simp add: finite_positive_def finite_pos_iff)

lemma resolveExecutedAmount_finite: "\<exists>a \<ge> 0. resolveExecutedAmount order latest = Fin a"
  unfolding resolveExecutedAmount_def Let_def finite_positive_iff
  by (smt (verit, best) less_eq_rat_def order_refl)

text \<open>
  The orders of an instance with what was executed of each, as \<^verbatim>\<open>closeFilledPosition\<close> collects
  them: the side is the order's own, the amount is resolved from the status the exchange gave.
\<close>

definition executed_orders :: "mem_order list \<Rightarrow> filled_order list \<Rightarrow> bool" where
  "executed_orders orders fs \<longleftrightarrow>
     list_all2 (\<lambda>order f. fo_side f = o_side order \<and>
       (\<exists>status. fo_filled f = resolveExecutedAmount order status)) orders fs"

lemma mapE_executedOrder:
  "mapE (executedOrder P s) orders w = (Inr fs, t) \<Longrightarrow> executed_orders orders fs"
proof (induction orders arbitrary: w fs t)
  case (Cons order orders)
  then obtain f gs u v where "executedOrder P s order w = (Inr f, u)"
    and rest: "mapE (executedOrder P s) orders u = (Inr gs, v)" and fs: "fs = f # gs"
    by (auto simp: bindE_Inr)
  then have "fo_side f = o_side order \<and> (\<exists>status. fo_filled f = resolveExecutedAmount order status)"
    by (auto simp: executedOrder_def bindE_Inr)
  with Cons.IH [OF rest] show ?case
    by (simp add: executed_orders_def fs)
qed (simp add: executed_orders_def)

lemma pushOrder_Inr:
  "pushOrder i r w = (Inr x, t) \<longleftrightarrow> t = set_ops i (ops_orders w i @ [as_mem r]) w"
  by (simp add: pushOrder_def)

lemma pushOrder_unchanged [unchanged_rules]:
  "(\<And>w f. g (w\<lparr>ops_orders := f\<rparr>) = g w) \<Longrightarrow> unchanged g (pushOrder i r)"
  unfolding pushOrder_def by (intro unchanged_modify) simp

lemma ops_orders_frames [unchanged_rules]:
  "unchanged ops_orders (saveActivatedOrder P c)" "unchanged ops_orders (publishOrder P r)"
  "unchanged ops_orders (createOrder P rq)" "unchanged ops_orders (openPositionForAlgorithm P rq)"
  unfolding saveActivatedOrder_def openPositionForAlgorithm_def
  by (intro unchanged_rules wait_free_publish; simp)+

lemma trade_operation_frames [unchanged_rules]:
  "unchanged trade_operation (publishOrder P r)" "unchanged trade_operation (createOrder P rq)"
  "unchanged trade_operation (openPositionForAlgorithm P rq)" "unchanged trade_operation (pushOrder i r)"
  unfolding openPositionForAlgorithm_def by (intro unchanged_rules wait_free_publish; simp)+

lemma trade_session_frames [unchanged_rules]:
  "unchanged trade_session (publishOrder P r)" "unchanged trade_session (createOrder P rq)"
  "unchanged trade_session (openPositionForAlgorithm P rq)" "unchanged trade_session (pushOrder i r)"
  "unchanged trade_session (saveActivatedOrder P c)"
  unfolding openPositionForAlgorithm_def saveActivatedOrder_def
  by (intro unchanged_rules wait_free_publish; simp)+

section \<open>What opening and closing do to the state\<close>

lemma openPositionForStrategy_returns:
  assumes "openPositionForStrategy P i side so idx w = (Inr r, t)"
  shows "filled_or_0 r > Fin 0" and "ops_orders t = (ops_orders w)(i := ops_orders w i @ [as_mem r])"
    and "recorded P (entry_params side so idx r) (trade_operation w) (trade_operation t)"
proof -
  from assms obtain o' b w1 w2 w3 w4 where
    s1: "openPositionForAlgorithm P \<lparr>rq_symbol = so_symbol so, rq_type = so_type so, rq_side = side,
               rq_amount = so_amount so, rq_price = so_price so, rq_stopPrice = None\<rparr> w = (Inr o', w1)"
    and s2: "publishOrder P o' w1 = (Inr (), w2)"
    and s3: "waitForExecution P o' (so_symbol so) w2 = (Inr r, w3)"
    and s4: "saveActivatedOrder P (entry_params side so idx r) w3 = (Inr b, w4)"
    and s5: "t = set_ops i (ops_orders w4 i @ [as_mem r]) w4"
    by (auto simp: openPositionForStrategy_def bindE_Inr pushOrder_Inr)
  show "filled_or_0 r > Fin 0"
    using s3 by (rule waitForExecution_filled)
  have ops: "ops_orders w4 = ops_orders w"
    using unchangedD [OF ops_orders_frames(4) s1] unchangedD [OF ops_orders_frames(2) s2]
      unchangedD [OF waitForExecution_unchanged [of ops_orders] s3] unchangedD [OF ops_orders_frames(1) s4] by simp
  have tr: "trade_operation w3 = trade_operation w"
    using unchangedD [OF trade_operation_frames(3) s1] unchangedD [OF trade_operation_frames(1) s2]
      unchangedD [OF waitForExecution_unchanged [of trade_operation] s3] by simp
  show "ops_orders t = (ops_orders w)(i := ops_orders w i @ [as_mem r])"
    by (simp add: s5 ops)
  show "recorded P (entry_params side so idx r) (trade_operation w) (trade_operation t)"
    using insertOrder_recorded(2) [OF s4 [unfolded saveActivatedOrder_def]] by (simp add: s5 tr)
qed

lemma saveActivatedOrder_no_throw [simp]: "saveActivatedOrder P c w \<noteq> (Inl e, t)"
  unfolding saveActivatedOrder_def using insertOrder_recorded(1) by blast

lemma pushOrder_no_throw [simp]: "pushOrder i r w \<noteq> (Inl e, t)"
  by (simp add: pushOrder_def modifyE_def)

lemma publishOrder_no_throw [simp]: "publishOrder P r w \<noteq> (Inl e, t)"
  by (auto simp: publishOrder_def Let_def modifyE_def split: option.splits if_splits)

lemma openPositionForStrategy_throws:
  assumes "openPositionForStrategy P i side so idx w = (Inl e, t)"
  shows "ops_orders t = ops_orders w" and "trade_operation t = trade_operation w"
proof -
  let ?rq = "\<lparr>rq_symbol = so_symbol so, rq_type = so_type so, rq_side = side,
              rq_amount = so_amount so, rq_price = so_price so, rq_stopPrice = None\<rparr>"
  have "bindE (openPositionForAlgorithm P ?rq) (\<lambda>o'. bindE (publishOrder P o') (\<lambda>_.
          waitForExecution P o' (so_symbol so))) w = (Inl e, t)"
    using assms by (auto simp: openPositionForStrategy_def bindE_Inl)
  moreover have "unchanged ops_orders (bindE (openPositionForAlgorithm P ?rq) (\<lambda>o'. bindE (publishOrder P o') (\<lambda>_.
          waitForExecution P o' (so_symbol so))))"
    and "unchanged trade_operation (bindE (openPositionForAlgorithm P ?rq) (\<lambda>o'. bindE (publishOrder P o') (\<lambda>_.
          waitForExecution P o' (so_symbol so))))"
    by (intro unchanged_rules; simp)+
  ultimately show "ops_orders t = ops_orders w" and "trade_operation t = trade_operation w"
    by (auto dest: unchangedD)
qed

text \<open>A submitted order is logged; nothing else of the service places an order.\<close>

lemma createOrder_placed:
  "createOrder P rq w = (r, t) \<Longrightarrow> orders_placed t = orders_placed w @ [CreateOrder rq]"
  by (auto simp: createOrder_def ccxt_call_def orders_placed_def split: prod.splits)

lemma orders_placed_frames [unchanged_rules]:
  "unchanged orders_placed (saveActivatedOrder P c)" "unchanged orders_placed (publishOrder P r)"
  "unchanged orders_placed (pushOrder i o')" "unchanged orders_placed (saveClosingOrder P idx c)"
  unfolding saveActivatedOrder_def saveClosingOrder_def
  by (intro unchanged_rules wait_free_publish; simp add: orders_placed_def)+

text \<open>The first half of \<^verbatim>\<open>closeFilledPosition\<close> only reads, and publishes what it read.\<close>

lemma reading_half_unchanged:
  "wait_free g \<Longrightarrow> unchanged g (cancelAllOrders P s)"
  "wait_free g \<Longrightarrow> unchanged g (mapE (executedOrder P s) os)"
  "wait_free g \<Longrightarrow> unchanged g (getPrice P s)"
  by (intro unchanged_rules wait_free_platform; assumption)+

lemma saveClosingOrder_effect:
  assumes "saveClosingOrder P idx c w = (r, t)"
  shows "r = Inr ()" and "ops_orders t = ops_orders w"
    and "if idx = [] then trade_operation t = trade_operation w
         else recorded P c (trade_operation w) (trade_operation t)"
proof -
  show "ops_orders t = ops_orders w"
  proof -
    have "unchanged ops_orders (saveClosingOrder P idx c)"
      unfolding saveClosingOrder_def by (intro unchanged_rules)
    then show ?thesis using assms by (rule unchangedD)
  qed
  show "r = Inr ()"
    using assms by (cases r) (auto simp: saveClosingOrder_def bindE_Inl split: if_splits)
  with assms show "if idx = [] then trade_operation t = trade_operation w
         else recorded P c (trade_operation w) (trade_operation t)"
    by (auto simp: saveClosingOrder_def bindE_Inr saveActivatedOrder_def split: if_splits
        dest: insertOrder_recorded(2))
qed

lemma closeFilledPosition_steps:
  assumes "closeFilledPosition P i symbol idx w = (Inr (Some r), t)"
  obtains fs e price o' w3 w4 w5 w6 w7 where "ops_orders w3 = ops_orders w" "trade_operation w3 = trade_operation w"
      "orders_placed w3 = orders_placed w"
    and "executed_orders (ops_orders w i) fs" and "calculateClosingOrderExposure fs = Some e"
    and "createOrder P (closing_request symbol e price) w3 = (Inr o', w4)"
    and "publishOrder P o' w4 = (Inr (), w5)" and "waitForExecution P o' symbol w5 = (Inr r, w6)"
    and "saveClosingOrder P idx (closing_params symbol idx e price r) w6 = (Inr (), w7)"
    and "t = set_ops i (ops_orders w7 i @ [as_mem r]) w7"
proof -
  from assms obtain fs e price o' w1 w2 w3 w4 w5 w6 w7 where
    s1: "cancelAllOrders P symbol w = (Inr (), w1)"
    and s2: "mapE (executedOrder P symbol) (ops_orders w1 i) w1 = (Inr fs, w2)"
    and s3: "getPrice P symbol w2 = (Inr price, w3)"
    and rest: "calculateClosingOrderExposure fs = Some e"
      "createOrder P (closing_request symbol e price) w3 = (Inr o', w4)"
      "publishOrder P o' w4 = (Inr (), w5)" "waitForExecution P o' symbol w5 = (Inr r, w6)"
      "saveClosingOrder P idx (closing_params symbol idx e price r) w6 = (Inr (), w7)"
      "t = set_ops i (ops_orders w7 i @ [as_mem r]) w7"
    by (auto simp: closeFilledPosition_def submitClosingOrder_def bindE_Inr pushOrder_Inr split: if_splits option.splits)
  have frame: "wait_free g \<Longrightarrow> g w3 = g w" for g :: "'a world \<Rightarrow> 'b"
  proof -
    assume that: "wait_free g"
    show "g w3 = g w"
    using unchangedD [OF reading_half_unchanged(1) [OF that] s1]
      unchangedD [OF reading_half_unchanged(2) [OF that] s2]
      unchangedD [OF reading_half_unchanged(3) [OF that] s3] by simp
  qed
  have "ops_orders w1 = ops_orders w"
    using unchangedD [OF reading_half_unchanged(1) [of ops_orders] s1] by simp
  with mapE_executedOrder [OF s2] have "executed_orders (ops_orders w i) fs" by simp
  then show ?thesis
    using that [OF frame frame frame _ rest] by blast
qed

lemma closeFilledPosition_returns:
  assumes "closeFilledPosition P i symbol idx w = (Inr (Some r), t)"
  obtains fs e price where "executed_orders (ops_orders w i) fs"
    and "calculateClosingOrderExposure fs = Some e"
    and "orders_placed t = orders_placed w @ [CreateOrder (closing_request symbol e price)]"
    and "filled_or_0 r > Fin 0" and "ops_orders t = (ops_orders w)(i := ops_orders w i @ [as_mem r])"
    and "if idx = [] then trade_operation t = trade_operation w
         else recorded P (closing_params symbol idx e price r) (trade_operation w) (trade_operation t)"
proof -
  obtain fs e price o' w3 w4 w5 w6 w7 where
    w3: "ops_orders w3 = ops_orders w" "trade_operation w3 = trade_operation w" "orders_placed w3 = orders_placed w"
    and fs: "executed_orders (ops_orders w i) fs" "calculateClosingOrderExposure fs = Some e"
    and s4: "createOrder P (closing_request symbol e price) w3 = (Inr o', w4)"
    and s5: "publishOrder P o' w4 = (Inr (), w5)" and s6: "waitForExecution P o' symbol w5 = (Inr r, w6)"
    and s7: "saveClosingOrder P idx (closing_params symbol idx e price r) w6 = (Inr (), w7)"
    and t: "t = set_ops i (ops_orders w7 i @ [as_mem r]) w7"
    by (rule closeFilledPosition_steps [OF assms])
  have w6: "g w6 = g w4" if "wait_free g" for g :: "'a world \<Rightarrow> 'b"
    using unchangedD [OF wait_free_publish [OF that] s5] unchangedD [OF waitForExecution_unchanged [OF that] s6] by simp
  have w4: "ops_orders w4 = ops_orders w" "trade_operation w4 = trade_operation w"
    using unchangedD [OF ops_orders_frames(3) s4] unchangedD [OF trade_operation_frames(2) s4] w3 by simp_all
  note eff7 = saveClosingOrder_effect [OF s7]
  show ?thesis
  proof (rule that [OF fs])
    have "orders_placed t = orders_placed w7"
      by (simp add: t orders_placed_def)
    then show "orders_placed t = orders_placed w @ [CreateOrder (closing_request symbol e price)]"
      using unchangedD [OF orders_placed_frames(4) s7] createOrder_placed [OF s4]
        w6 [of orders_placed] w3 by simp
    show "filled_or_0 r > Fin 0"
      by (rule waitForExecution_filled [OF s6])
    show "ops_orders t = (ops_orders w)(i := ops_orders w i @ [as_mem r])"
      using eff7 w6 [of ops_orders] w4 by (simp add: t)
    show "if idx = [] then trade_operation t = trade_operation w
         else recorded P (closing_params symbol idx e price r) (trade_operation w) (trade_operation t)"
      using eff7 w6 [of trade_operation] w4 by (simp add: t split: if_splits)
  qed
qed

lemma closeFilledPosition_idle:
  assumes "closeFilledPosition P i symbol idx w = (Inr None, t)" and "wait_free g"
  shows "g t = g w"
proof -
  from assms(1) obtain w1 where s1: "cancelAllOrders P symbol w = (Inr (), w1)"
    and "t = w1 \<or> (\<exists>fs. mapE (executedOrder P symbol) (ops_orders w1 i) w1 = (Inr fs, t))"
    by (auto simp: closeFilledPosition_def submitClosingOrder_def bindE_Inr split: if_splits option.splits)
  with unchangedD [OF reading_half_unchanged(1) [OF assms(2)] s1]
    unchangedD [OF reading_half_unchanged(2) [OF assms(2)]]
  show ?thesis by metis
qed

lemma openPositionForStrategy_placed:
  assumes "openPositionForStrategy P i side so idx w = (r, t)"
  shows "orders_placed t = orders_placed w @ [CreateOrder
    \<lparr>rq_symbol = so_symbol so, rq_type = so_type so, rq_side = side, rq_amount = so_amount so,
     rq_price = so_price so, rq_stopPrice = None\<rparr>]"
proof -
  let ?rq = "\<lparr>rq_symbol = so_symbol so, rq_type = so_type so, rq_side = side, rq_amount = so_amount so,
     rq_price = so_price so, rq_stopPrice = None\<rparr>"
  let ?rest = "\<lambda>o'. bindE (publishOrder P o') (\<lambda>_. bindE (waitForExecution P o' (so_symbol so)) (\<lambda>r.
     bindE (saveActivatedOrder P (entry_params side so idx r)) (\<lambda>_. bindE (pushOrder i r) (\<lambda>_. ret r))))"
  have quiet: "unchanged orders_placed (?rest o')" for o'
    by (intro unchanged_rules wait_free_publish; simp)
  obtain r1 w1 where s1: "createOrder P ?rq w = (r1, w1)" by force
  have "r1 = Inl e \<Longrightarrow> t = w1" "r1 = Inr o' \<Longrightarrow> ?rest o' w1 = (r, t)" for e o'
    using assms s1 by (auto simp: openPositionForStrategy_def openPositionForAlgorithm_def bindE_def)
  then have "orders_placed t = orders_placed w1"
    using unchangedD [OF quiet] by (cases r1) blast+
  with createOrder_placed [OF s1] show ?thesis by simp
qed

lemma bind_Some_ret: "bindE (bindE m (\<lambda>x. ret (Some x))) (\<lambda>v. case v of None \<Rightarrow> n | Some x \<Rightarrow> ret x) = m"
  by (auto simp: fun_eq_iff bindE_def ret_def split: prod.splits sum.splits)

section \<open>Messages to the parent process\<close>

text \<open>
  What the receiver requires of an order update: the columns of the table \<^verbatim>\<open>orders\<close> are not null,
  the side is one of two, and the quantity is a finite positive number.
\<close>

definition valid_update :: "order_update \<Rightarrow> bool" where
  "valid_update u \<longleftrightarrow>
     finite_positive (u_quantity u) \<and> u_exchangeOrderId u \<noteq> [] \<and> u_clientOrderId u \<noteq> [] \<and>
     u_symbol u \<noteq> [] \<and> u_orderType u \<noteq> [] \<and> u_side u \<in> {''BUY'', ''SELL''} \<and>
     u_status u \<in> {''FILLED'', ''CANCELLED'', ''REJECTED'', ''EXPIRED'', ''PARTIALLY_FILLED'', ''OPEN''}"

definition updates_valid :: "'x world \<Rightarrow> bool" where
  "updates_valid w = list_all valid_update (sent w)"

lemma side_upper: "toUpperCase (side_string side) = (case side of Buy \<Rightarrow> ''BUY'' | Sell \<Rightarrow> ''SELL'')"
proof (cases side)
  case Buy
  have "toUpperCase (side_string Buy) = ''BUY''" by code_simp
  with Buy show ?thesis by simp
next
  case Sell
  have "toUpperCase (side_string Sell) = ''SELL''" by code_simp
  with Sell show ?thesis by simp
qed

lemma toUpperCase_Nil [simp]: "toUpperCase s = [] \<longleftrightarrow> s = []"
  by (simp add: toUpperCase_def)

lemma not_le_finite: "isFinite q \<Longrightarrow> \<not> q \<le> Fin 0 \<Longrightarrow> finite_positive q"
  by (cases q) (simp_all add: finite_positive_def)

lemma order_message_valid:
  assumes "isFinite q" "\<not> q \<le> Fin 0" "o_id order \<noteq> []" "o_symbol order \<noteq> []" "o_type order \<noteq> []"
  shows "valid_update (order_message order side q)"
  using assms
  by (auto simp: valid_update_def order_message_def side_upper not_le_finite dashboardOrderStatus_def
      split: mode.splits option.splits)

lemma publishOrder_updates [keeps_rules]: "keeps updates_valid (publishOrder P order)"
proof -
  have "keeps updates_valid (modifyE (\<lambda>w. w\<lparr>sent := sent w @ [order_message order side q]\<rparr>))"
    if "isFinite q" "\<not> q \<le> Fin 0" "o_id order \<noteq> []" "o_symbol order \<noteq> []" "o_type order \<noteq> []" for side q
    using order_message_valid [OF that] by (intro keeps_modify) (simp add: updates_valid_def)
  then show ?thesis
    by (auto simp: publishOrder_def Let_def intro: keeps_rules split: option.splits)
qed

lemma sent_unchanged_updates: "unchanged sent m \<Longrightarrow> keeps updates_valid m"
  unfolding updates_valid_def by (rule keeps_of_unchanged)

lemma quiet_updates [keeps_rules]:
  "keeps updates_valid (checkStatusOrderById P oid s)" "keeps updates_valid (cancelAllOrders P s)"
  "keeps updates_valid (sleepE P ms)" "keeps updates_valid (createOrder P rq)" "keeps updates_valid (getPrice P s)"
  "keeps updates_valid (saveActivatedOrder P c)" "keeps updates_valid (pushOrder i r)"
  "keeps updates_valid (modifyE (set_ops i os))"
  unfolding saveActivatedOrder_def
  by (intro sent_unchanged_updates unchanged_rules unchanged_modify; simp)+

lemma waitForExecution_updates [keeps_rules]: "keeps updates_valid (waitForExecution P r s)"
proof -
  have "keeps updates_valid (waitForExecution_loop P k oid s st)" for k oid st
    by (induction k arbitrary: st) (auto intro!: keeps_rules)
  then show ?thesis unfolding waitForExecution_def by (intro keeps_rules)
qed

lemma openPositionForStrategy_updates [keeps_rules]:
  "keeps updates_valid (openPositionForStrategy P i side so idx)"
  unfolding openPositionForStrategy_def openPositionForAlgorithm_def by (intro keeps_rules)

lemma closeFilledPosition_updates [keeps_rules]: "keeps updates_valid (closeFilledPosition P i s idx)"
  unfolding closeFilledPosition_def submitClosingOrder_def executedOrder_def saveClosingOrder_def by (intro keeps_rules)

lemma setOrders_updates [keeps_rules]: "keeps updates_valid (setOrders P i os)"
proof -
  have "keeps updates_valid (publishStored P stored)" for stored
    unfolding publishStored_def by (cases "o_order stored") (auto intro: keeps_rules)
  then show ?thesis unfolding setOrders_def by (intro keeps_rules)
qed

lemmas open_defs =
  openPositionForStrategy_def openPositionForAlgorithm_def createOrder_def ccxt_call_def
  publishOrder_def waitForExecution_def filled_or_0_def saveActivatedOrder_def insertOrder_def
  queryE_def pushOrder_def sql_real_def isNaN_def executed_price_def entry_params_def Let_def

lemmas close_defs =
  open_defs closeFilledPosition_def cancelAllOrders_def executedOrder_def checkStatusOrderById_def
  getPrice_def getTick_def readWithRetry_def exchange_order_id_def resolveExecutedAmount_def
  finite_positive_def calculateClosingOrderExposure_def EPSILON_def closing_request_def
  closing_params_def saveClosingOrder_def submitClosingOrder_def

section \<open>Properties\<close>

text \<open>
  C2: what opening a position does, on every outcome. \<^verbatim>\<open>openPositionForStrategy\<close> submits exactly
  one order. When it returns, the order was executed at least in part, it is the new last element
  of the instance's list and it is recorded with the executed price and amount (unless the engine
  rejects the row). When it throws, nothing is added to the list nor recorded, although the order
  was submitted.
\<close>

theorem open_position_effect:
  assumes "openPositionForStrategy P i side so idx w = (res, t)"
  shows "orders_placed t = orders_placed w @ [CreateOrder
           \<lparr>rq_symbol = so_symbol so, rq_type = so_type so, rq_side = side, rq_amount = so_amount so,
            rq_price = so_price so, rq_stopPrice = None\<rparr>] \<and>
    (case res of
       Inl _ \<Rightarrow> ops_orders t = ops_orders w \<and> trade_operation t = trade_operation w
     | Inr r \<Rightarrow> filled_or_0 r > Fin 0 \<and>
         ops_orders t = (ops_orders w)(i := ops_orders w i @ [as_mem r]) \<and>
         recorded P \<lparr>cp_orderId = o_id r, cp_order = r, cp_price = executed_price r (so_price so),
             cp_amount = executed_amount r (so_amount so), cp_side = side, cp_symbol = o_symbol r,
             cp_indexOperation = idx\<rparr> (trade_operation w) (trade_operation t))"
  using openPositionForStrategy_placed [OF assms] openPositionForStrategy_throws
    openPositionForStrategy_returns [unfolded entry_params_def] assms
  by (cases res) auto

theorem open_position_effect_witness:
  "\<exists>r t. openPositionForStrategy (sim_platform Desktop) StrategyOps Buy
       \<lparr>so_symbol = ''ETH/USDT'', so_type = Limit, so_amount = Fin 2, so_price = Fin 100\<rparr> ''s1''
       (sim_world sim_start) = (Inr r, t) \<and>
     filled_or_0 r > Fin 0 \<and> ops_orders t StrategyOps = [as_mem r] \<and> length (orders_placed t) = 1"
proof -
  let ?so = "\<lparr>so_symbol = ''ETH/USDT'', so_type = Limit, so_amount = Fin 2, so_price = Fin 100\<rparr>"
  have "\<exists>r t. openPositionForStrategy (sim_platform Desktop) StrategyOps Buy ?so ''s1'' (sim_world sim_start)
      = (Inr r, t)"
    by (simp add: open_defs sim_defs eff_defs)
  then obtain r t where run:
    "openPositionForStrategy (sim_platform Desktop) StrategyOps Buy ?so ''s1'' (sim_world sim_start) = (Inr r, t)"
    by blast
  from open_position_effect [OF run] run show ?thesis
    by (intro exI [of _ r] exI [of _ t]) (auto simp: sim_world_def orders_placed_def)
qed



text \<open>
  Every order update the engine sends can be stored by its receiver. Opening, closing and
  resuming positions only send messages with a finite positive quantity, a side of BUY or SELL,
  non-empty identifiers and one of the six dashboard statuses; so the check of
  \<^verbatim>\<open>persistOrderUpdate\<close> and the constraints of the table \<^verbatim>\<open>orders\<close> hold of each of them.
\<close>

theorem published_updates_are_valid:
  "keeps updates_valid (openPositionForStrategy P i side so idx) \<and>
   keeps updates_valid (closeFilledPosition P i s idx) \<and>
   keeps updates_valid (setOrders P i os)"
  by (intro conjI keeps_rules)

text \<open>
  The side of the first order. With \<^verbatim>\<open>isOnlyBuy\<close> it is a buy; otherwise a price below the last
  candle buys, a price above it sells, and inside it the farther edge decides. In each of these
  cases \<^verbatim>\<open>openFirstPosition\<close> is exactly one \<^verbatim>\<open>openPositionForStrategy\<close>; with a price that is not a
  number it throws and submits no order.
\<close>

theorem first_position_side:
  assumes "low \<le> high"
  shows "openFirstPosition P i config so (Fin price) (Fin low) (Fin high) idx =
    openPositionForStrategy P i
      (if c_isOnlyBuy config \<or> price < low then Buy
       else if price > high then Sell
       else if high - price > price - low then Sell else Buy) so idx \<and>
   (\<not> c_isOnlyBuy config \<longrightarrow>
      openFirstPosition P i config so NaN (Fin low) (Fin high) idx =
      throwE (typeError ''Cannot use 'in' operator to search for id in undefined''))"
  using assms by (auto simp: openFirstPosition_def Let_def bind_Some_ret)

theorem first_position_side_witness:
  "\<forall>config so. openFirstPosition (sim_platform Desktop) StrategyOps config so (Fin 80) (Fin 90) (Fin 120) ''s1'' =
     openPositionForStrategy (sim_platform Desktop) StrategyOps Buy so ''s1''"
proof (intro allI)
  fix config so
  show "openFirstPosition (sim_platform Desktop) StrategyOps config so (Fin 80) (Fin 90) (Fin 120) ''s1'' =
     openPositionForStrategy (sim_platform Desktop) StrategyOps Buy so ''s1''"
    using first_position_side [of 90 120 "sim_platform Desktop" StrategyOps config so 80 "''s1''"] by simp
qed

text \<open>
  The limit grid opens one line. However many lines are asked for (at least one),
  \<^verbatim>\<open>openLimitPositionByGridLineBuyLowSellHight\<close> places a single limit order, one grid step from the
  ticker price, because the body of its loop returns.
\<close>

theorem limit_grid_opens_one_line:
  assumes "openLimitPositionByGridLineBuyLowSellHight P i mode symbol amount ticker gridSize (Suc n) w = (res, t)"
  shows "orders_placed t = orders_placed w @
    [(if mode = Buy then CreateLimitBuyOrder else CreateLimitSellOrder)
       \<lparr>ps_symbol = symbol, ps_amount = amount,
        ps_price = Number (t_last ticker) + (if mode = Buy then - (gridSize * Fin 1) else gridSize * Fin 1)\<rparr>]"
proof -
  have "[1..<Suc (Suc n)] = 1 # [2..<Suc (Suc n)]"
    by (simp add: upt_rec numeral_2_eq_2)
  with assms show ?thesis
    by (auto simp: openLimitPositionByGridLineBuyLowSellHight_def Let_def pushOrder_def orders_placed_def
        openLimitPositionByModeBuyOpenLongSellOpenShort_def openLimitLongPosition_def openLimitShortPosition_def
        ccxt_call_def eff_defs split: prod.splits sum.splits if_splits)
qed

theorem limit_grid_opens_one_line_witness:
  "length (orders_placed (snd (openLimitPositionByGridLineBuyLowSellHight (sim_platform Desktop) StrategyOps Buy
     ''ETH/USDT'' (Fin 2) \<lparr>t_last = Some (Fin 100), t_bid = Fin 100, t_ask = Fin 100\<rparr> (Fin 5) 10
     (sim_world sim_start)))) = 1"
proof -
  let ?run = "openLimitPositionByGridLineBuyLowSellHight (sim_platform Desktop) StrategyOps Buy
     ''ETH/USDT'' (Fin 2) \<lparr>t_last = Some (Fin 100), t_bid = Fin 100, t_ask = Fin 100\<rparr> (Fin 5) (Suc 9)
     (sim_world sim_start)"
  obtain res t where "?run = (res, t)" by force
  from limit_grid_opens_one_line [OF this] this show ?thesis
    by (simp add: sim_world_def orders_placed_def eval_nat_numeral)
qed

end
