(* ===== verification/Orders_Checking.thy ===== *)
theory Orders_Checking
  imports Orders_Operation
begin

text \<open>
  \<^verbatim>\<open>src/utils/OrdersCheckingsService/OrdersCheckingsService.ts\<close> and
  \<^verbatim>\<open>src/utils/EmergencyStop/EmergencyStopService.ts\<close>: polling a list of grid orders and replacing
  the executed ones by opposite orders, taking the profit or the loss of a single order, and the
  emergency stop as a service of its own.
\<close>

section \<open>OrdersCheckingService\<close>

record checking_order =
  ck_orders :: "ccxt_order list"
  ck_closedOrderIds :: "string list"

text \<open>
  \<^verbatim>\<open>ordersForChecking.indexOf(order)\<close> compares by identity, and \<open>order\<close> has just been built from
  the answer of the exchange: it is not an element of the array and the index is -1.
\<close>

definition index_of_fetched :: int where
  "index_of_fetched = - 1"

definition liquidationPrice :: "mode \<Rightarrow> jsnum \<Rightarrow> jsnum \<Rightarrow> ccxt_order \<Rightarrow> jsnum" where
  "liquidationPrice mode positionSize gridSize order =
     (let increaseAveragePosition = Fin (of_int (index_of_fetched + 1));
          averagePosition = positionSize * increaseAveragePosition + gridSize
      in Number (o_price order) + (if mode = Buy then averagePosition else - averagePosition))"

definition liquidationRequest :: "mode \<Rightarrow> string \<Rightarrow> jsnum \<Rightarrow> jsnum \<Rightarrow> ccxt_order \<Rightarrow> create_open_position" where
  "liquidationRequest mode symbol positionSize gridSize order =
     \<lparr>rq_symbol = symbol, rq_type = Limit, rq_side = (if mode = Buy then Sell else Buy),
      rq_amount = positionSize, rq_price = liquidationPrice mode positionSize gridSize order,
      rq_stopPrice = None\<rparr>"

text \<open>One round of the loop; an error is logged and the ids pushed before it are kept.\<close>

definition checkingOrder ::
    "'x platform \<Rightarrow> mode \<Rightarrow> string \<Rightarrow> jsnum \<Rightarrow> jsnum \<Rightarrow> checking_order \<Rightarrow> ccxt_order \<Rightarrow> ('x world, checking_order) eff" where
  "checkingOrder P mode symbol positionSize gridSize result orderData =
     bindE (catchE (bindE (checkStatusOrderById P (o_id orderData) symbol) (\<lambda>order.
         if o_status order = Some ''closed''
         then let result' = result\<lparr>ck_closedOrderIds := ck_closedOrderIds result @ [o_id order]\<rparr>
           in catchE (bindE (createMarketOrLimitOrStopOrder P
                               (liquidationRequest mode symbol positionSize gridSize order)) (\<lambda>newOrder.
                        ret (result'\<lparr>ck_orders := ck_orders result' @ [newOrder]\<rparr>)))
                (\<lambda>_. ret result')
         else ret result))
       (\<lambda>_. ret result)) (\<lambda>next.
     bindE (sleepE P 1) (\<lambda>_. ret next))"

fun checkingOrders_loop ::
    "'x platform \<Rightarrow> mode \<Rightarrow> string \<Rightarrow> jsnum \<Rightarrow> jsnum \<Rightarrow> ccxt_order list \<Rightarrow> checking_order \<Rightarrow> ('x world, checking_order) eff" where
  "checkingOrders_loop P mode symbol positionSize gridSize [] result = ret result"
| "checkingOrders_loop P mode symbol positionSize gridSize (orderData # rest) result =
     bindE (checkingOrder P mode symbol positionSize gridSize result orderData) (\<lambda>next.
       checkingOrders_loop P mode symbol positionSize gridSize rest next)"

definition checkingOrdersWhenOrderStatusCloseCreateNewOrderForLiqudationOpenPositionsOnExchange ::
    "'x platform \<Rightarrow> mode \<Rightarrow> string \<Rightarrow> jsnum \<Rightarrow> jsnum \<Rightarrow> ccxt_order list \<Rightarrow> ('x world, checking_order) eff" where
  "checkingOrdersWhenOrderStatusCloseCreateNewOrderForLiqudationOpenPositionsOnExchange P mode symbol positionSize
     gridSize ordersForChecking =
     checkingOrders_loop P mode symbol positionSize gridSize ordersForChecking \<lparr>ck_orders = [], ck_closedOrderIds = []\<rparr>"

definition checkWhichOrderActivatedHowPositionsClosedWaitingResult ::
    "'x platform \<Rightarrow> string \<Rightarrow> jsnum \<Rightarrow> ccxt_order \<Rightarrow> jsnum \<Rightarrow> jsnum \<Rightarrow> ('x world, ccxt_order option) eff" where
  "checkWhichOrderActivatedHowPositionsClosedWaitingResult P symbol positionSize order takeProfit stopLoss =
     bindE (checkStatusOrderById P (o_id order) symbol) (\<lambda>orderStatus.
       if o_status orderStatus = Some ''closed''
       then bindE (cancelAllOrders P symbol) (\<lambda>_.
            bindE (getUnrealizedPnl P symbol (Number (o_price orderStatus)) (o_side orderStatus)) (\<lambda>unrealizedPnl.
            bindE (getTick P symbol) (\<lambda>actualTicker.
              if unrealizedPnl \<ge> takeProfit \<or> unrealizedPnl \<le> stopLoss
              then bindE (openStopMarketPosition P
                       \<lparr>rq_symbol = symbol, rq_type = Market,
                        rq_side = (if o_side orderStatus = Some Buy then Sell else Buy),
                        rq_amount = positionSize, rq_price = Number (t_last actualTicker),
                        rq_stopPrice = None\<rparr>) (\<lambda>o'. ret (Some o'))
              else ret None)))
       else ret None)"

section \<open>EmergencyStopService\<close>

definition toggleIsEmergencyStop :: "'x platform \<Rightarrow> nat \<Rightarrow> ('x world, bool) eff" where
  "toggleIsEmergencyStop P configId =
     bindE (getEmergencyStop P configId) (\<lambda>row.
       case row of
         None \<Rightarrow> throwE (typeError ''Cannot destructure property isEmergencyStop of undefined'')
       | Some isEmergencyStop \<Rightarrow> ret isEmergencyStop)"

text \<open>The result True is \<open>true\<close>, False is undefined.\<close>

definition emergencyDisableProcess :: "'x platform \<Rightarrow> bool \<Rightarrow> ('x world, 'a) eff \<Rightarrow> ('x world, bool) eff" where
  "emergencyDisableProcess P isEmergencyStop closeAllAmount =
     (if \<not> isEmergencyStop then ret False
      else bindE closeAllAmount (\<lambda>_. bindE (disableEmergencyStop P) (\<lambda>_. ret True)))"

definition checkingIsEmergencyStop :: "'x platform \<Rightarrow> nat \<Rightarrow> ('x world, 'a) eff \<Rightarrow> ('x world, bool) eff" where
  "checkingIsEmergencyStop P configId closeAllAmount =
     catchE (bindE (toggleIsEmergencyStop P configId) (\<lambda>isEmergencyStop.
               emergencyDisableProcess P isEmergencyStop closeAllAmount))
       (\<lambda>_. ret False)"

section \<open>Lemmas\<close>

lemma checkingOrder_total: "\<exists>next t. checkingOrder P mode symbol size gridSize result r w = (Inr next, t)" for size
  unfolding checkingOrder_def Let_def
  by (auto simp: bindE_def catchE_def ret_def sleepE_def split: prod.splits sum.splits)

lemma checkingOrder_orders:
  assumes "checkingOrder P mode symbol amount gridSize result r w = (Inr next, t)"
  shows "\<exists>xs. ck_orders next = ck_orders result @ xs \<and> length xs \<le> 1 \<and>
    (\<exists>ys. ck_closedOrderIds next = ck_closedOrderIds result @ ys \<and> length xs \<le> length ys \<and> length ys \<le> 1)"
  using assms unfolding checkingOrder_def Let_def
  by (auto simp: bindE_Inr catchE_Inr bindE_Inl split: if_splits intro: exI [of _ "[]"])

lemma checkingOrders_loop_total:
  "\<exists>final t. checkingOrders_loop P mode symbol amount gridSize rs result w = (Inr final, t) \<and>
     (\<exists>xs ys. ck_orders final = ck_orders result @ xs \<and> ck_closedOrderIds final = ck_closedOrderIds result @ ys \<and>
        length xs \<le> length ys \<and> length ys \<le> length rs)"
proof (induction rs arbitrary: result w)
  case (Cons r rs)
  obtain mid u where s: "checkingOrder P mode symbol amount gridSize result r w = (Inr mid, u)"
    using checkingOrder_total by blast
  from checkingOrder_orders [OF s] obtain xs ys where 1: "ck_orders mid = ck_orders result @ xs"
    "ck_closedOrderIds mid = ck_closedOrderIds result @ ys" "length xs \<le> length ys" "length ys \<le> 1" by blast
  from Cons.IH [of mid u] obtain final t xs' ys' where
    2: "checkingOrders_loop P mode symbol amount gridSize rs mid u = (Inr final, t)"
      "ck_orders final = ck_orders mid @ xs'" "ck_closedOrderIds final = ck_closedOrderIds mid @ ys'"
      "length xs' \<le> length ys'" "length ys' \<le> length rs" by blast
  with 1 s show ?case
    by (intro exI [of _ final] exI [of _ t]) (auto simp: bindE_def)
qed (simp add: ret_def)

section \<open>Properties\<close>

text \<open>
  Polling the grid never throws, and never opens more orders than were executed. Whatever the
  exchange answers, \<^verbatim>\<open>checkingOrdersWhenOrderStatusClose...\<close> returns; it reports at most one closed
  order per order checked and at most one new order per closed one. The price of a new order is one
  grid step from the executed price for every order of the list: the multiplier the code computes
  from the position in the list is always zero.
\<close>

theorem grid_polling_total:
  "(\<exists>result t. checkingOrdersWhenOrderStatusCloseCreateNewOrderForLiqudationOpenPositionsOnExchange P mode symbol
      amount gridSize rs w = (Inr result, t) \<and>
      length (ck_orders result) \<le> length (ck_closedOrderIds result) \<and>
      length (ck_closedOrderIds result) \<le> length rs) \<and>
   liquidationPrice mode (Fin a) gridSize order =
     Number (o_price order) + (if mode = Buy then gridSize else - gridSize)"
proof
  show "\<exists>result t. checkingOrdersWhenOrderStatusCloseCreateNewOrderForLiqudationOpenPositionsOnExchange P mode symbol
      amount gridSize rs w = (Inr result, t) \<and>
      length (ck_orders result) \<le> length (ck_closedOrderIds result) \<and>
      length (ck_closedOrderIds result) \<le> length rs"
    using checkingOrders_loop_total [of P mode symbol amount gridSize rs "\<lparr>ck_orders = [], ck_closedOrderIds = []\<rparr>" w]
    by (fastforce simp: checkingOrdersWhenOrderStatusCloseCreateNewOrderForLiqudationOpenPositionsOnExchange_def)
  have "Fin (a * of_int (index_of_fetched + 1)) + gridSize = gridSize"
    by (cases gridSize) (simp_all add: index_of_fetched_def)
  then show "liquidationPrice mode (Fin a) gridSize order =
     Number (o_price order) + (if mode = Buy then gridSize else - gridSize)"
    by (simp add: liquidationPrice_def Let_def)
qed

text \<open>
  The service form of the emergency stop keeps the flag until the position is closed. If closing
  throws, \<^verbatim>\<open>checkingIsEmergencyStop\<close> swallows the error and leaves the stored configurations as
  closing left them, so that the flag is still set at the next check; it reports success only after
  the flag was cleared.
\<close>

theorem emergency_service_keeps_flag:
  assumes "unchanged trade_config closeAllAmount"
    and "checkingIsEmergencyStop P configId closeAllAmount w = (r, t)"
  shows "r = Inr True \<and> (\<forall>row \<in> set (trade_config t). \<not> c_isEmergencyStop row) \<or>
         r = Inr False \<and> trade_config t = trade_config w"
proof -
  have toggle: "unchanged trade_config (toggleIsEmergencyStop P configId)"
    unfolding toggleIsEmergencyStop_def by (intro unchanged_rules) simp
  have clear: "(case r of Inl _ \<Rightarrow> trade_config t = trade_config w
      | Inr _ \<Rightarrow> \<forall>row \<in> set (trade_config t). \<not> c_isEmergencyStop row)"
    if "disableEmergencyStop P w = (r, t)" for w r t
    using that by (cases "p_db_fault P (ext w)"; cases "fst (p_db_fault P (ext w))")
      (auto simp: disableEmergencyStop_def queryE_def)
  obtain r1 w1 where s1: "toggleIsEmergencyStop P configId w = (r1, w1)" by force
  obtain r2 w2 where s2: "closeAllAmount w1 = (r2, w2)" by force
  obtain r3 w3 where s3: "disableEmergencyStop P w2 = (r3, w3)" by force
  have "trade_config w1 = trade_config w" "trade_config w2 = trade_config w1"
    using unchangedD [OF toggle s1] unchangedD [OF assms(1) s2] by simp_all
  with clear [OF s3] assms(2) s1 s2 s3 show ?thesis
    by (cases r1; cases r2; cases r3)
      (auto simp: checkingIsEmergencyStop_def emergencyDisableProcess_def bindE_def catchE_def ret_def split: if_splits)
qed

theorem emergency_service_keeps_flag_witness:
  "trade_config (snd (checkingIsEmergencyStop (sim_platform Desktop) 1 (throwE NonError :: (sim world, unit) eff)
     ((sim_world sim_start)\<lparr>trade_config := [config.extend (sim_config\<lparr>c_isEmergencyStop := True\<rparr>) (config_row.fields None)]\<rparr>)))
   = [config.extend (sim_config\<lparr>c_isEmergencyStop := True\<rparr>) (config_row.fields None)]"
proof -
  let ?rows = "[config.extend (sim_config\<lparr>c_isEmergencyStop := True\<rparr>) (config_row.fields None)]"
  let ?w = "(sim_world sim_start)\<lparr>trade_config := ?rows\<rparr>"
  have quiet: "unchanged trade_config (throwE NonError :: (sim world, unit) eff)"
    by (intro unchanged_rules)
  obtain r t where run: "checkingIsEmergencyStop (sim_platform Desktop) 1 (throwE NonError :: (sim world, unit) eff) ?w = (r, t)"
    by force
  have "r = Inr False"
    using run by (auto simp: checkingIsEmergencyStop_def emergencyDisableProcess_def toggleIsEmergencyStop_def
        getEmergencyStop_def catchE_Inr bindE_def catchE_def throwE_def ret_def queryE_def
        split: prod.splits sum.splits option.splits if_splits)
  with emergency_service_keeps_flag [OF quiet run] run show ?thesis by (simp add: throwE_def)
qed

end
