(* ===== verification/Sql_Builder.thy ===== *)
theory Sql_Builder
  imports Trade_Types
begin

text \<open>
  \<^verbatim>\<open>src/repository/abstract.repository.ts\<close>: the statements every repository sends, as text with
  placeholders and a list of parameters. The text is modelled character by character, blanks and
  line breaks of the template literals included. \<^verbatim>\<open>JSON.stringify\<close> is an argument \<open>stringify\<close>, and
  the \<^verbatim>\<open>query\<close> method of \<^verbatim>\<open>DatabaseService\<close> an argument \<open>query\<close>. The repositories of this development
  describe the effect of a statement on the rows of its table; this theory is about the statement
  itself: which parameter each placeholder refers to, and that values never reach the text.
\<close>

section \<open>Parameters of the queries\<close>

datatype 'o sql_value = NumberV jsnum | StringV string | BooleanV bool | NullV | UndefinedV | ObjectV 'o

record 'o value_type =
  v_column :: string
  v_value :: "'o sql_value"

datatype operation_condition = AndC | OrC

datatype join_type = LeftJoin | RightJoin | InnerJoin

record join_table =
  jt_joinType :: join_type
  jt_conditionEqual :: "string \<times> string"
  jt_joinTable :: string

datatype sort_type = Asc | Desc

record 'o select_param =
  sp_tableName :: string
  sp_column :: "string list"
  sp_where :: "'o value_type list option"
  sp_operationCondition :: "operation_condition option"
  sp_join :: "join_table list option"
  sp_orderBy :: "(string \<times> sort_type) option"
  sp_limit :: "nat option"

fun condition_text :: "operation_condition \<Rightarrow> string" where
  "condition_text AndC = ''and''"
| "condition_text OrC = ''or''"

fun join_text :: "join_type \<Rightarrow> string" where
  "join_text LeftJoin = ''left''"
| "join_text RightJoin = ''right''"
| "join_text InnerJoin = ''inner''"

fun sort_text :: "sort_type \<Rightarrow> string" where
  "sort_text Asc = ''asc''"
| "sort_text Desc = ''desc''"

section \<open>Generating the text\<close>

text \<open>A line break of a template literal followed by \<open>n\<close> blanks.\<close>

definition line :: "nat \<Rightarrow> string" where
  "line n = CHR 0x0A # replicate n CHR '' ''"

fun serializeValue :: "('o \<Rightarrow> string) \<Rightarrow> 'o sql_value \<Rightarrow> 'o sql_value" where
  "serializeValue stringify (ObjectV v) = StringV (stringify v)"
| "serializeValue stringify v = v"

definition placeholder :: "app_mode \<Rightarrow> nat \<Rightarrow> string" where
  "placeholder mode index = (if mode = Web then CHR ''$'' # show_nat index else ''?'')"

definition placeholders :: "app_mode \<Rightarrow> nat \<Rightarrow> string" where
  "placeholders mode count = join '', '' (map (\<lambda>index. placeholder mode (index + 1)) [0..<count])"

definition insertColumnGeneration :: "'o value_type list \<Rightarrow> string" where
  "insertColumnGeneration value = join '', '' (map v_column value)"

text \<open>The first element of an empty list of columns is undefined.\<close>

definition selectColumnGeneration :: "string list \<Rightarrow> string" where
  "selectColumnGeneration columns =
     (if length columns > 1 then join '', '' columns
      else case columns of [] \<Rightarrow> ''undefined'' | c # _ \<Rightarrow> c)"

definition joinChecker :: "join_table list option \<Rightarrow> string \<Rightarrow> string" where
  "joinChecker joins tableName =
     (case joins of
        None \<Rightarrow> []
      | Some js \<Rightarrow> join '','' (map (\<lambda>p.
          join_text (jt_joinType p) @ '' join '' @ jt_joinTable p @ '' on '' @ tableName @ ''.'' @
          fst (jt_conditionEqual p) @ '' = '' @ jt_joinTable p @ ''.'' @ snd (jt_conditionEqual p)) js))"

text \<open>\<open>column = placeholder\<close> for each entry, numbered from \<open>offset + 1\<close>.\<close>

definition assignments :: "app_mode \<Rightarrow> nat \<Rightarrow> 'o value_type list \<Rightarrow> string list" where
  "assignments mode offset entries =
     map (\<lambda>(index, c). v_column c @ '' = '' @ placeholder mode (offset + index + 1)) (enumerate 0 entries)"

definition whereGeneration ::
    "app_mode \<Rightarrow> 'o value_type list option \<Rightarrow> operation_condition option \<Rightarrow> nat \<Rightarrow> string" where
  "whereGeneration mode conds condition offset =
     (case conds of
        None \<Rightarrow> []
      | Some conditions \<Rightarrow>
          join ('' '' @ (case condition of None \<Rightarrow> [] | Some c \<Rightarrow> condition_text c) @ '' '')
            (assignments mode offset conditions))"

definition whereChecker ::
    "app_mode \<Rightarrow> ('o \<Rightarrow> string) \<Rightarrow> 'o value_type list option \<Rightarrow> operation_condition option \<Rightarrow> nat \<Rightarrow>
     string \<times> 'o sql_value list" where
  "whereChecker mode stringify conds condition offset =
     (case conds of
        None \<Rightarrow> ([], [])
      | Some conditions \<Rightarrow>
          (''where '' @ whereGeneration mode (Some conditions) condition offset,
           map (\<lambda>c. serializeValue stringify (v_value c)) conditions))"

definition updateValueGeneration :: "app_mode \<Rightarrow> 'o value_type list \<Rightarrow> string" where
  "updateValueGeneration mode value = join '', '' (assignments mode 0 value)"

section \<open>The statements\<close>

definition insert_statement ::
    "app_mode \<Rightarrow> ('o \<Rightarrow> string) \<Rightarrow> string \<Rightarrow> 'o value_type list \<Rightarrow> string \<times> 'o sql_value list" where
  "insert_statement mode stringify tableName value =
     (line 8 @ ''insert into '' @ tableName @ ''('' @ insertColumnGeneration value @ '')'' @
      line 12 @ ''values('' @ placeholders mode (length value) @ '') returning *'' @ line 8,
      map (\<lambda>item. serializeValue stringify (v_value item)) value)"

definition update_statement ::
    "app_mode \<Rightarrow> ('o \<Rightarrow> string) \<Rightarrow> string \<Rightarrow> 'o value_type list \<Rightarrow> 'o value_type list option \<Rightarrow>
     operation_condition option \<Rightarrow> string \<times> 'o sql_value list" where
  "update_statement mode stringify tableName value conds condition =
     (let params = map (\<lambda>item. serializeValue stringify (v_value item)) value;
          (sql, conditionParams) = whereChecker mode stringify conds condition (length params)
      in (line 8 @ ''update '' @ tableName @ '' '' @ line 10 @ ''set '' @ updateValueGeneration mode value @
          line 10 @ sql @ '' returning *'' @ line 8,
          params @ conditionParams))"

definition select_statement ::
    "app_mode \<Rightarrow> ('o \<Rightarrow> string) \<Rightarrow> 'o select_param \<Rightarrow> string \<times> 'o sql_value list" where
  "select_statement mode stringify p =
     (let joinString = joinChecker (sp_join p) (sp_tableName p);
          (sql, params) = whereChecker mode stringify (sp_where p) (sp_operationCondition p) 0
      in (line 6 @ ''select '' @ selectColumnGeneration (sp_column p) @
          line 6 @ ''from '' @ sp_tableName p @
          line 6 @ joinString @ '' '' @ sql @
          line 6 @ (case sp_orderBy p of None \<Rightarrow> [] | Some (c, s) \<Rightarrow> ''order by '' @ c @ '' '' @ sort_text s) @
          line 6 @ (case sp_limit p of None \<Rightarrow> [] | Some n \<Rightarrow> if n = 0 then [] else ''limit '' @ show_nat n) @
          line 6,
          params))"

text \<open>\<open>query\<close> is \<^verbatim>\<open>DatabaseService.query\<close>, which \<^verbatim>\<open>_query\<close> passes both parts to.\<close>

type_synonym ('s, 'o, 'r) query = "string \<Rightarrow> 'o sql_value list \<Rightarrow> ('s, 'r list) eff"

definition insertQuery ::
    "('s, 'o, 'r) query \<Rightarrow> app_mode \<Rightarrow> ('o \<Rightarrow> string) \<Rightarrow> string \<Rightarrow> 'o value_type list \<Rightarrow> ('s, unit) eff" where
  "insertQuery query mode stringify tableName value =
     (if value = [] then throwE (newError ''Insert values cannot be empty.'')
      else let (sql, params) = insert_statement mode stringify tableName value
           in bindE (query sql params) (\<lambda>_. ret ()))"

definition updateQuery ::
    "('s, 'o, 'r) query \<Rightarrow> app_mode \<Rightarrow> ('o \<Rightarrow> string) \<Rightarrow> string \<Rightarrow> 'o value_type list \<Rightarrow> 'o value_type list option \<Rightarrow>
     operation_condition option \<Rightarrow> ('s, unit) eff" where
  "updateQuery query mode stringify tableName value conds condition =
     (if value = [] then throwE (newError ''Update values cannot be empty.'')
      else let (sql, params) = update_statement mode stringify tableName value conds condition
           in bindE (query sql params) (\<lambda>_. ret ()))"

definition selectQuery ::
    "('s, 'o, 'r) query \<Rightarrow> app_mode \<Rightarrow> ('o \<Rightarrow> string) \<Rightarrow> 'o select_param \<Rightarrow> ('s, 'r list) eff" where
  "selectQuery query mode stringify p =
     (let (sql, params) = select_statement mode stringify p in query sql params)"

section \<open>Column names\<close>

definition ColumnName :: "(string \<times> string) list" where
  "ColumnName =
    [(''id'', ''id''), (''usdt'', ''usdt''), (''profitAll'', ''profit_all''), (''exchangeName'', ''exchange_name''),
     (''updateDate'', ''update_date''), (''profitUsdt'', ''profit_usdt''), (''balanceObject'', ''balance_object''),
     (''symbol'', ''symbol''), (''orderId'', ''order_id''), (''order'', CHR 0x22 # ''order'' @ [CHR 0x22]),
     (''price'', ''price''), (''amount'', ''amount''), (''side'', ''side''), (''indexOperation'', ''index_operation''),
     (''createAt'', ''create_at''), (''isActive'', ''is_active''), (''indexSession'', ''index_session''),
     (''profitSession'', ''profit_session''), (''exchange'', ''exchange''), (''apiKey'', ''api_key''),
     (''privateKey'', ''private_key''), (''password'', ''password''), (''positionSize'', ''position_size''),
     (''countGridSize'', ''count_grid_size''), (''gridSize'', ''grid_size''),
     (''balanceDistribution'', ''balance_distribution''), (''percentBuyBackStep'', ''percent_buy_back''),
     (''takeProfit'', ''take_profit''), (''stopLoss'', ''stop_loss''), (''isEmergencyStop'', ''is_emergency_stop''),
     (''percentProfit'', ''percent_profit''), (''percentFromBalance'', ''percent_from_balance''),
     (''candlePriceRange'', ''candle_price_range''), (''isFibonacci'', ''is_fibonacci''), (''isOnlyBuy'', ''is_only_buy''),
     (''isPercentTargetAfterTakeProfit'', ''is_percent_target_after_take_profit''),
     (''percentTargetAfterTakeProfit'', ''percent_target_after_take_profit''),
     (''isCapitalizeDeltaFromSale'', ''is_capitalize_delta_from_sale''), (''isCoinAccumulation'', ''is_coin_accumulation''),
     (''isAutoStartTrading'', ''is_auto_start_trading''), (''isStopTrading'', ''is_stop_trading''),
     (''loggerEvent'', ''logger_event''), (''clientId'', ''client_id'')]"

text \<open>
  An object is the list of its own keys with their values. A key that is not in \<^verbatim>\<open>ColumnName\<close> gives
  the column \<^verbatim>\<open>undefined\<close>, which is what the template then prints.
\<close>

definition mappingValuesList :: "(string \<times> 'o sql_value) list \<Rightarrow> 'o value_type list" where
  "mappingValuesList values =
     map (\<lambda>(name, v). \<lparr>v_column = nullish (map_of ColumnName name) ''undefined'', v_value = v\<rparr>) values"

section \<open>Which placeholder refers to which parameter\<close>

text \<open>The numbers of the placeholders \<open>$n\<close> of a text, in order of appearance.\<close>

definition is_digit :: "char \<Rightarrow> bool" where
  "is_digit c \<longleftrightarrow> 48 \<le> (of_char c :: nat) \<and> (of_char c :: nat) \<le> 57"

definition read_nat :: "string \<Rightarrow> nat" where
  "read_nat = foldl (\<lambda>n c. 10 * n + (of_char c - 48)) 0"

fun dollar_refs :: "string \<Rightarrow> nat list" where
  "dollar_refs [] = []"
| "dollar_refs (c # cs) =
     (if c = CHR ''$'' then read_nat (takeWhile is_digit cs) # dollar_refs cs else dollar_refs cs)"

lemma digit_char [simp]:
  assumes "d < 10"
  shows "is_digit (digit_char d)" and "(of_char (digit_char d) :: nat) = 48 + d"
    and "digit_char d \<noteq> CHR ''$''" and "digit_char d \<noteq> CHR ''?''"
proof -
  show of: "(of_char (digit_char d) :: nat) = 48 + d"
    using assms by (simp add: digit_char_def)
  then show "is_digit (digit_char d)"
    using assms by (simp add: is_digit_def)
  show "digit_char d \<noteq> CHR ''$''" "digit_char d \<noteq> CHR ''?''"
    using of assms by auto
qed

lemma show_nat_digits: "c \<in> set (show_nat n) \<Longrightarrow> \<exists>d < 10. c = digit_char d"
proof (induction n rule: show_nat.induct)
  case (1 n)
  then show ?case
    by (subst (asm) (2) show_nat.simps) (auto split: if_splits, metis mod_less_divisor zero_less_numeral)
qed

lemma read_show_nat [simp]: "read_nat (show_nat n) = n"
proof (induction n rule: show_nat.induct)
  case (1 n)
  then show ?case
    by (subst show_nat.simps) (auto simp: read_nat_def)
qed

lemma show_nat_is_digit: "c \<in> set (show_nat n) \<Longrightarrow> is_digit c"
  using show_nat_digits digit_char(1) by metis

lemma show_nat_not [simp]: "CHR ''$'' \<notin> set (show_nat n)" "CHR ''?'' \<notin> set (show_nat n)"
  using show_nat_digits digit_char(3,4) by metis+

text \<open>
  \<open>emits ns xs\<close>: the text \<open>xs\<close> has the references \<open>ns\<close>, in any context that does not go on with a
  digit.
\<close>

definition emits :: "nat list \<Rightarrow> string \<Rightarrow> bool" where
  "emits ns xs \<longleftrightarrow>
     (\<forall>ys. (ys = [] \<or> \<not> is_digit (hd ys)) \<longrightarrow> dollar_refs (xs @ ys) = ns @ dollar_refs ys)"

named_theorems emits_rules \<open>composition of generated texts\<close>

lemma dollar_refs_literal: "CHR ''$'' \<notin> set xs \<Longrightarrow> dollar_refs (xs @ ys) = dollar_refs ys"
  by (induction xs) auto

lemma emits_literal [emits_rules]: "CHR ''$'' \<notin> set xs \<Longrightarrow> emits [] xs"
  by (simp add: emits_def dollar_refs_literal)

lemma emits_literal_append [emits_rules]: "CHR ''$'' \<notin> set xs \<Longrightarrow> emits ns ys \<Longrightarrow> emits ns (xs @ ys)"
  by (simp add: emits_def dollar_refs_literal)

lemma emits_append:
  "emits ns xs \<Longrightarrow> emits ms ys \<Longrightarrow> ys = [] \<or> \<not> is_digit (hd ys) \<Longrightarrow> emits (ns @ ms) (xs @ ys)"
  unfolding emits_def by (metis append.assoc append_Nil hd_append2)

lemma emits_placeholder: "emits [n] (placeholder Web n)"
proof -
  have "takeWhile is_digit (show_nat n @ ys) = show_nat n" if "ys = [] \<or> \<not> is_digit (hd ys)" for ys
    using that by (cases ys) (auto simp: takeWhile_append dest: show_nat_is_digit)
  then show ?thesis
    by (simp add: emits_def placeholder_def dollar_refs_literal)
qed

lemma emits_join:
  assumes "list_all2 emits nss xss" and "CHR ''$'' \<notin> set sep" and "sep \<noteq> []" and "\<not> is_digit (hd sep)"
  shows "emits (concat nss) (join sep xss)"
  using assms(1)
proof (induction xss arbitrary: nss rule: induct_list012)
  case (3 x y xs)
  then obtain ns mss where nss: "nss = ns # mss" and x: "emits ns x" and "list_all2 emits mss (y # xs)"
    by (auto simp: list_all2_Cons2)
  then have "emits (concat mss) (sep @ join sep (y # xs))"
    using 3 assms(2) by (intro emits_literal_append)
  from emits_append [OF x this] assms(3,4) nss show ?case by simp
qed (auto simp: list_all2_Cons2 intro: emits_rules)

lemma emits_assignments:
  assumes "\<And>c. c \<in> set entries \<Longrightarrow> CHR ''$'' \<notin> set (v_column c)"
  shows "list_all2 emits (map (\<lambda>i. [offset + i + 1]) [0..<length entries]) (assignments Web offset entries)"
proof (rule list_all2_all_nthI)
  fix i
  assume "i < length (map (\<lambda>i. [offset + i + 1]) [0..<length entries])"
  then have i: "i < length entries" by simp
  with assms have "CHR ''$'' \<notin> set (v_column (entries ! i) @ '' = '')" by simp
  from emits_literal_append [OF this emits_placeholder] i
  show "emits (map (\<lambda>i. [offset + i + 1]) [0..<length entries] ! i) (assignments Web offset entries ! i)"
    by (simp add: assignments_def nth_enumerate_eq)
qed (simp add: assignments_def)

lemma emits_join_assignments:
  assumes "\<And>c. c \<in> set entries \<Longrightarrow> CHR ''$'' \<notin> set (v_column c)"
    and "CHR ''$'' \<notin> set sep" and "sep \<noteq> []" and "\<not> is_digit (hd sep)"
  shows "emits [Suc offset..<Suc (offset + length entries)] (join sep (assignments Web offset entries))"
proof -
  have "[Suc offset..<Suc (offset + length entries)] = map (\<lambda>i. offset + i + 1) [0..<length entries]"
    by (rule nth_equalityI) (simp_all del: upt_Suc)
  then show ?thesis
    using emits_join [OF emits_assignments [OF assms(1)] assms(2-4)] by (simp del: upt_Suc)
qed

lemma emits_placeholders: "emits [Suc 0..<Suc n] (placeholders Web n)"
proof -
  have numbers: "[Suc 0..<Suc n] = map (\<lambda>i. i + 1) [0..<n]"
    by (rule nth_equalityI) (simp_all del: upt_Suc)
  have "list_all2 emits (map (\<lambda>i. [i + 1]) [0..<n]) (map (\<lambda>i. placeholder Web (i + 1)) [0..<n])"
    by (simp add: list_all2_conv_all_nth emits_placeholder)
  from emits_join [OF this, of "'', ''"]
  have "emits (map (\<lambda>i. i + 1) [0..<n]) (placeholders Web n)"
    by (simp add: placeholders_def is_digit_def)
  with numbers show ?thesis by simp
qed

lemma line_plain [simp]: "CHR ''$'' \<notin> set (line n)" "CHR ''?'' \<notin> set (line n)"
  by (simp_all add: line_def)

lemma line_start [simp]: "line n \<noteq> []" "\<not> is_digit (hd (line n))" "\<not> is_digit (hd (line n @ xs))"
  by (simp_all add: line_def is_digit_def)

text \<open>
  A name is plain when it has neither of the two placeholder characters. \<open>bound mode s\<close>: the
  placeholders of the statement \<open>s\<close> are the numbers of its parameters, each once and in order; in
  the desktop mode a placeholder has no number and the driver counts them.
\<close>

definition plain :: "string \<Rightarrow> bool" where
  "plain s \<longleftrightarrow> CHR ''$'' \<notin> set s \<and> CHR ''?'' \<notin> set s"

definition bound :: "app_mode \<Rightarrow> string \<times> 'o sql_value list \<Rightarrow> bool" where
  "bound mode s = (case mode of
     Web \<Rightarrow> dollar_refs (fst s) = [1..<Suc (length (snd s))]
   | Desktop \<Rightarrow> count_list (fst s) CHR ''?'' = length (snd s))"

lemma emits_whole: "emits ns xs \<Longrightarrow> dollar_refs xs = ns"
  unfolding emits_def by (metis append_Nil2 dollar_refs.simps(1))

lemma plainD: "plain s \<Longrightarrow> CHR ''$'' \<notin> set s" "plain s \<Longrightarrow> count_list s CHR ''?'' = 0"
  by (simp_all add: plain_def count_list_0_iff)

lemma plain_simps [simp]:
  "plain []" "plain (c # cs) \<longleftrightarrow> c \<noteq> CHR ''$'' \<and> c \<noteq> CHR ''?'' \<and> plain cs"
  "plain (xs @ ys) \<longleftrightarrow> plain xs \<and> plain ys" "plain (line n)"
  by (auto simp: plain_def)

lemma condition_plain [simp]: "plain (condition_text c)"
  by (cases c) simp_all

lemma join_plain [simp]: "plain (join_text j)"
  by (cases j) simp_all

lemma sort_plain [simp]: "plain (sort_text s)"
  by (cases s) simp_all

lemma number_plain [simp]: "plain (show_nat n)"
  by (simp add: plain_def)

lemma plain_join: "plain sep \<Longrightarrow> (\<And>x. x \<in> set xs \<Longrightarrow> plain x) \<Longrightarrow> plain (join sep xs)"
  by (induction sep xs rule: join.induct) auto

lemma plain_columns: "(\<And>c. c \<in> set entries \<Longrightarrow> plain (v_column c)) \<Longrightarrow> plain (insertColumnGeneration entries)"
  unfolding insertColumnGeneration_def by (intro plain_join) auto

lemma emits_plain: "plain xs \<Longrightarrow> emits [] xs"
  by (rule emits_literal) (simp add: plain_def)

lemma emits_within:
  assumes "plain xs" and "emits ns ys" and "plain zs" and "\<not> is_digit (hd zs)"
  shows "emits ns (xs @ ys @ zs)"
  using emits_literal_append [of xs ns "ys @ zs"] emits_append [OF assms(2) emits_plain [OF assms(3)]] assms(1,4)
  by (simp add: plain_def)

subsection \<open>The web statements\<close>

lemma insert_web:
  assumes "plain t" and "\<And>c. c \<in> set value \<Longrightarrow> plain (v_column c)"
  shows "bound Web (insert_statement Web f t value)"
proof -
  have "fst (insert_statement Web f t value) =
      (line 8 @ ''insert into '' @ t @ ''('' @ insertColumnGeneration value @ '')'' @ line 12 @ ''values('') @
      placeholders Web (length value) @ ('') returning *'' @ line 8)"
    by (simp add: insert_statement_def)
  also have "emits [1..<Suc (length value)] \<dots>"
    by (rule emits_within) (simp_all add: assms plain_columns emits_placeholders is_digit_def del: upt_Suc)
  finally show ?thesis
    by (simp add: bound_def emits_whole insert_statement_def del: upt_Suc)
qed

lemma emits_where:
  assumes "\<And>c. c \<in> set (nullish conds []) \<Longrightarrow> plain (v_column c)"
  shows "emits [Suc k..<Suc (k + length (snd (whereChecker Web f conds op k)))] (fst (whereChecker Web f conds op k))"
proof (cases conds)
  case None
  then show ?thesis by (simp add: whereChecker_def emits_plain)
next
  case (Some cs)
  let ?sep = "'' '' @ (case op of None \<Rightarrow> [] | Some c \<Rightarrow> condition_text c) @ '' ''"
  have "plain ?sep" by (cases op) simp_all
  then have "emits [Suc k..<Suc (k + length cs)] (join ?sep (assignments Web k cs))"
    using assms Some by (intro emits_join_assignments) (auto simp: plain_def is_digit_def nullish_def)
  from emits_literal_append [OF _ this, of "''where ''"] Some show ?thesis
    by (simp add: whereChecker_def whereGeneration_def del: upt_Suc)
qed

lemma update_web:
  assumes "plain t" and "\<And>c. c \<in> set value \<union> set (nullish conds []) \<Longrightarrow> plain (v_column c)"
  shows "bound Web (update_statement Web f t value conds op)"
proof -
  let ?n = "length value"
  obtain sql ps where w: "whereChecker Web f conds op ?n = (sql, ps)" by force
  let ?tail = "line 10 @ sql @ '' returning *'' @ line 8"
  have "emits [Suc ?n..<Suc (?n + length ps)] sql"
    using emits_where [of conds ?n f op] assms(2) w by (simp del: upt_Suc)
  then have tail: "emits [Suc ?n..<Suc (?n + length ps)] ?tail"
    by (intro emits_within) (simp_all add: is_digit_def)
  have "emits [Suc 0..<Suc (0 + ?n)] (updateValueGeneration Web value)"
    unfolding updateValueGeneration_def
    by (rule emits_join_assignments) (use assms(2) in \<open>auto simp: plain_def is_digit_def\<close>)
  from emits_append [OF this tail]
  have "emits ([1..<Suc ?n] @ [Suc ?n..<Suc (?n + length ps)]) (updateValueGeneration Web value @ ?tail)"
    by (simp del: upt_Suc)
  moreover have "[1..<Suc ?n] @ [Suc ?n..<Suc (?n + length ps)] = [1..<Suc (?n + length ps)]"
    using upt_add_eq_append [of 1 "Suc ?n" "length ps"] by (simp del: upt_Suc)
  moreover have "CHR ''$'' \<notin> set (line 8 @ ''update '' @ t @ '' '' @ line 10 @ ''set '')"
    using assms(1) by (simp add: plain_def)
  ultimately have "emits [1..<Suc (?n + length ps)]
      ((line 8 @ ''update '' @ t @ '' '' @ line 10 @ ''set '') @ updateValueGeneration Web value @ ?tail)"
    by (metis emits_literal_append)
  with w show ?thesis
    by (simp add: bound_def emits_whole update_statement_def Let_def del: upt_Suc)
qed

text \<open>The parts of a \<^verbatim>\<open>select\<close> that are not conditions.\<close>

definition select_names :: "'o select_param \<Rightarrow> string list" where
  "select_names p = sp_tableName p # sp_column p @ map v_column (nullish (sp_where p) []) @
     concat (map (\<lambda>j. [jt_joinTable j, fst (jt_conditionEqual j), snd (jt_conditionEqual j)]) (nullish (sp_join p) [])) @
     (case sp_orderBy p of None \<Rightarrow> [] | Some (c, _) \<Rightarrow> [c])"

lemma joinChecker_plain:
  assumes "\<And>x. x \<in> set (select_names p) \<Longrightarrow> plain x"
  shows "plain (joinChecker (sp_join p) (sp_tableName p))"
proof (cases "sp_join p")
  case (Some js)
  have "plain (jt_joinTable j)" "plain (fst (jt_conditionEqual j))" "plain (snd (jt_conditionEqual j))"
    if "j \<in> set js" for j
    using that assms Some by (auto simp: select_names_def nullish_def)
  moreover have "plain (sp_tableName p)"
    using assms by (simp add: select_names_def)
  ultimately show ?thesis
    using Some by (auto simp: joinChecker_def intro!: plain_join)
qed (simp add: joinChecker_def)

lemma select_columns_plain:
  assumes "\<And>x. x \<in> set (select_names p) \<Longrightarrow> plain x"
  shows "plain (selectColumnGeneration (sp_column p))"
  using assms by (auto simp: selectColumnGeneration_def select_names_def intro!: plain_join split: list.split)

definition select_tail :: "'o select_param \<Rightarrow> string" where
  "select_tail p = line 6 @ (case sp_orderBy p of None \<Rightarrow> [] | Some (c, s) \<Rightarrow> ''order by '' @ c @ '' '' @ sort_text s) @
     line 6 @ (case sp_limit p of None \<Rightarrow> [] | Some n \<Rightarrow> if n = 0 then [] else ''limit '' @ show_nat n) @ line 6"

lemma select_tail_plain:
  assumes "\<And>x. x \<in> set (select_names p) \<Longrightarrow> plain x"
  shows "plain (select_tail p)" and "\<not> is_digit (hd (select_tail p))"
  using assms by (auto simp: select_tail_def select_names_def split: option.split)

definition select_head :: "'o select_param \<Rightarrow> string" where
  "select_head p = line 6 @ ''select '' @ selectColumnGeneration (sp_column p) @ line 6 @ ''from '' @ sp_tableName p @
     line 6 @ joinChecker (sp_join p) (sp_tableName p) @ '' ''"

lemma select_head_plain:
  assumes "\<And>x. x \<in> set (select_names p) \<Longrightarrow> plain x"
  shows "plain (select_head p)"
proof -
  have "plain (sp_tableName p)"
    using assms by (simp add: select_names_def)
  moreover have "plain (joinChecker (sp_join p) (sp_tableName p))"
    by (rule joinChecker_plain) (rule assms)
  moreover have "plain (selectColumnGeneration (sp_column p))"
    by (rule select_columns_plain) (rule assms)
  ultimately show ?thesis by (simp add: select_head_def)
qed

lemma select_statement_parts:
  "select_statement mode f p =
     (let (sql, params) = whereChecker mode f (sp_where p) (sp_operationCondition p) 0
      in (select_head p @ sql @ select_tail p, params))"
  by (simp add: select_statement_def select_head_def select_tail_def Let_def split: prod.split)

lemma select_web:
  assumes "\<And>x. x \<in> set (select_names p) \<Longrightarrow> plain x"
  shows "bound Web (select_statement Web f p)"
proof -
  obtain sql ps where w: "whereChecker Web f (sp_where p) (sp_operationCondition p) 0 = (sql, ps)" by force
  have "plain (v_column c)" if "c \<in> set (nullish (sp_where p) [])" for c
    using assms that by (auto simp: select_names_def)
  from emits_where [where conds = "sp_where p" and k = 0 and f = f and op = "sp_operationCondition p", OF this] w
  have "emits [1..<Suc (length ps)] sql" by (simp del: upt_Suc)
  then have "emits [1..<Suc (length ps)] (select_head p @ sql @ select_tail p)"
    using assms by (intro emits_within select_head_plain select_tail_plain)
  with w show ?thesis
    by (simp add: bound_def emits_whole select_statement_parts del: upt_Suc)
qed

subsection \<open>The desktop statements\<close>

lemma count_plain [simp]: "plain s \<Longrightarrow> count_list s CHR ''?'' = 0"
  by (rule plainD)

lemma count_line [simp]: "count_list (line n) c = (if c = CHR 0x0A then 1 else if c = CHR '' '' then n else 0)"
  by (induction n) (auto simp: line_def)

lemma count_placeholders: "count_list (placeholders Desktop n) CHR ''?'' = n"
  by (simp add: placeholders_def join_count placeholder_def comp_def sum_list_triv)

lemma count_assignments:
  assumes "\<And>c. c \<in> set entries \<Longrightarrow> plain (v_column c)" and "plain sep"
  shows "count_list (join sep (assignments Desktop k entries)) CHR ''?'' = length entries"
proof -
  have "count_list x CHR ''?'' = 1" if "x \<in> set (assignments Desktop k entries)" for x
    using that assms by (auto simp: assignments_def placeholder_def in_set_enumerate_eq)
  from sum_list_nat_const [of "assignments Desktop k entries", OF this]
  have "(\<Sum>x\<leftarrow>assignments Desktop k entries. count_list x CHR ''?'') = length entries"
    by (simp add: assignments_def)
  with assms(2) show ?thesis by (simp add: join_count)
qed

lemma count_where:
  assumes "\<And>c. c \<in> set (nullish conds []) \<Longrightarrow> plain (v_column c)"
  shows "count_list (fst (whereChecker Desktop f conds op k)) CHR ''?'' = length (snd (whereChecker Desktop f conds op k))"
  using assms
  by (cases conds; cases op) (simp_all add: whereChecker_def whereGeneration_def nullish_def count_assignments)

lemma insert_desktop:
  "plain t \<Longrightarrow> (\<And>c. c \<in> set value \<Longrightarrow> plain (v_column c)) \<Longrightarrow> bound Desktop (insert_statement Desktop f t value)"
  by (simp add: bound_def insert_statement_def count_placeholders plain_columns)

lemma update_desktop:
  assumes "plain t" and "\<And>c. c \<in> set value \<union> set (nullish conds []) \<Longrightarrow> plain (v_column c)"
  shows "bound Desktop (update_statement Desktop f t value conds op)"
  using assms count_where [of conds f op "length value"] count_assignments [of "value" "'', ''" 0]
  by (simp add: bound_def update_statement_def updateValueGeneration_def Let_def case_prod_beta)

lemma select_desktop:
  assumes "\<And>x. x \<in> set (select_names p) \<Longrightarrow> plain x"
  shows "bound Desktop (select_statement Desktop f p)"
proof -
  have "plain (v_column c)" if "c \<in> set (nullish (sp_where p) [])" for c
    using assms that by (auto simp: select_names_def)
  note conditions = count_where [where conds = "sp_where p" and k = 0 and f = f and op = "sp_operationCondition p", OF this]
  have "plain (select_head p)" "plain (select_tail p)"
    using assms by (blast intro: select_head_plain select_tail_plain)+
  with conditions show ?thesis
    by (simp add: bound_def select_statement_parts case_prod_beta)
qed

section \<open>Values and names\<close>

lemma ColumnName_plain: "list_all (\<lambda>(_, c). plain c) ColumnName"
  by (simp add: ColumnName_def)

lemma mappingValuesList_plain: "c \<in> set (mappingValuesList values) \<Longrightarrow> plain (v_column c)"
  using ColumnName_plain by (auto simp: mappingValuesList_def nullish_def list_all_iff split: option.split dest!: map_of_SomeD)

lemma assignments_columns:
  assumes "map v_column v = map v_column v'"
  shows "assignments mode k v = assignments mode k v'"
proof (rule nth_equalityI)
  have len: "length v = length v'" using assms by (rule map_eq_imp_length_eq)
  then show "length (assignments mode k v) = length (assignments mode k v')" by (simp add: assignments_def)
  fix i assume "i < length (assignments mode k v)"
  then have "i < length v" by (simp add: assignments_def)
  moreover from this have "v_column (v ! i) = v_column (v' ! i)"
    using assms len by (metis nth_map)
  ultimately show "assignments mode k v ! i = assignments mode k v' ! i"
    using len by (simp add: assignments_def nth_enumerate_eq)
qed

section \<open>Properties\<close>

text \<open>
  Every parameter reaches its placeholder. Whatever tables, columns, joins, conditions and
  values a repository passes (names free of the two placeholder characters), the numbered
  placeholders of the generated insert, update and select are exactly 1, 2, \<open>\<dots>\<close>, up to the number of
  parameters, in this order, those of the conditions of an update going on after those of its
  assignments; on the desktop there are as many placeholders as parameters. The parameters of an
  update are the values of the assignments followed by those of the conditions.
\<close>

theorem statements_bind_every_parameter:
  assumes "plain t" and "\<forall>c \<in> set value \<union> set (nullish conds []). plain (v_column c)"
    and "\<forall>x \<in> set (select_names p). plain x"
  shows "bound mode (insert_statement mode f t value) \<and> bound mode (update_statement mode f t value conds op) \<and>
    bound mode (select_statement mode f p) \<and>
    snd (update_statement mode f t value conds op)
      = map (\<lambda>c. serializeValue f (v_value c)) (value @ nullish conds [])"
proof (intro conjI)
  show "bound mode (insert_statement mode f t value)"
    using assms by (cases mode) (auto intro!: insert_web insert_desktop)
  show "bound mode (update_statement mode f t value conds op)"
    using assms by (cases mode) (auto intro!: update_web update_desktop)
  show "bound mode (select_statement mode f p)"
    using assms by (cases mode) (auto intro!: select_web select_desktop)
  show "snd (update_statement mode f t value conds op)
      = map (\<lambda>c. serializeValue f (v_value c)) (value @ nullish conds [])"
    by (cases conds) (simp_all add: update_statement_def whereChecker_def nullish_def Let_def)
qed

theorem statements_bind_every_parameter_witness:
  "bound Web (update_statement Web (\<lambda>_ :: unit. ''x'') ''trade_config''
     (mappingValuesList [(''isStopTrading'', NumberV (Fin 1)), (''symbol'', StringV ''ETH/USDT'')])
     (Some [\<lparr>v_column = ''id'', v_value = NumberV (Fin 7)\<rparr>]) None)"
proof -
  let ?v = "mappingValuesList [(''isStopTrading'', NumberV (Fin 1)), (''symbol'', StringV ''ETH/USDT'')] :: unit value_type list"
  let ?c = "Some [\<lparr>v_column = ''id'', v_value = NumberV (Fin 7)\<rparr>] :: unit value_type list option"
  let ?p = "\<lparr>sp_tableName = ''trade_config'', sp_column = [''id''], sp_where = None, sp_operationCondition = None,
    sp_join = None, sp_orderBy = None, sp_limit = None\<rparr> :: unit select_param"
  have "plain ''trade_config''" "\<forall>c \<in> set ?v \<union> set (nullish ?c []). plain (v_column c)"
    "\<forall>x \<in> set (select_names ?p). plain x"
    using mappingValuesList_plain [of _ "[(''isStopTrading'', NumberV (Fin 1)), (''symbol'', StringV ''ETH/USDT'')]"]
    by (auto simp: nullish_def select_names_def)
  from statements_bind_every_parameter [OF this, of Web "\<lambda>_. ''x''" None] show ?thesis by blast
qed

text \<open>
  A value never becomes part of the text of a statement. Two inserts, updates or selects that
  name the same table and columns have the same text, whatever the values are and however objects
  are serialised; so no value can change the statement that is executed.
\<close>

theorem values_never_reach_the_text:
  assumes "map v_column v = map v_column v'" and "map v_column cs = map v_column cs'"
  shows "fst (insert_statement mode f t v) = fst (insert_statement mode g t v') \<and>
    fst (update_statement mode f t v (Some cs) op) = fst (update_statement mode g t v' (Some cs') op) \<and>
    fst (select_statement mode f (p\<lparr>sp_where := Some cs\<rparr>)) = fst (select_statement mode g (p\<lparr>sp_where := Some cs'\<rparr>))"
proof -
  have "length v = length v'" using assms(1) by (rule map_eq_imp_length_eq)
  with assms assignments_columns [OF assms(1)] assignments_columns [OF assms(2)] show ?thesis
    by (simp add: insert_statement_def insertColumnGeneration_def update_statement_def updateValueGeneration_def
        select_statement_def whereChecker_def whereGeneration_def Let_def)
qed

theorem values_never_reach_the_text_witness:
  "fst (insert_statement Web (\<lambda>_ :: unit. ''x'') ''trade_session'' [\<lparr>v_column = ''index_session'', v_value = StringV ''s1''\<rparr>])
   = fst (insert_statement Web (\<lambda>_ :: unit. ''x'') ''trade_session'' [\<lparr>v_column = ''index_session'', v_value = StringV ''); drop''\<rparr>])"
  (is "fst (insert_statement Web ?f ?t ?v) = fst (insert_statement Web ?f ?t ?v')")
proof -
  have "map v_column ?v = map v_column ?v'" "map v_column ([] :: unit value_type list) = map v_column ([] :: unit value_type list)"
    by simp_all
  from values_never_reach_the_text [OF this, of Web ?f ?t ?f] show ?thesis by blast
qed

end
