(* ===== verification/Worker_Manager.thy ===== *)
theory Worker_Manager
  imports Exchange_Service Simulated_Exchange "HOL-Library.AList"
begin

text \<open>
  \<^verbatim>\<open>src/process/TradingWorkerManager.ts\<close>: the parent process that forks one trading worker per
  configuration, restarts it when it crashes and stops it on request.

  A worker record and the child process it owns are created together and are captured by the same
  closures, so both are one \<open>worker\<close>, and the identity of either is its position in the list of all
  workers forked so far (\<^verbatim>\<open>pid\<close> stands for it). The private map from configurations to records is an
  association list in insertion order. What the runtime delivers (an exit, a timer) and what the
  router asks for (start, stop) are the events of a step relation; the handlers are functions. The
  operating system decides which child exits when and how: an exit by a signal has no code, and the
  \<^verbatim>\<open>exitCode\<close> of the child then stays null, as it is for a running child.
\<close>

section \<open>State\<close>

record worker =
  wk_config :: config
  wk_desiredRunning :: bool
  wk_restartAttempts :: nat
  wk_launchedWith :: nat
  wk_running :: bool
  wk_exitCode :: "int option"
  wk_connected :: bool

datatype worker_signal = StopMessage | SigTerm

record manager =
  wm_workers :: "worker list"
  wm_records :: "(nat \<times> nat) list"
  wm_restarts :: "(nat \<times> nat) list"
  wm_kills :: "nat list"
  wm_signals :: "(nat \<times> worker_signal) list"

definition no_workers :: manager where
  "no_workers = \<lparr>wm_workers = [], wm_records = [], wm_restarts = [], wm_kills = [], wm_signals = []\<rparr>"

datatype worker_state = WRunning | WStopping | WRestarting

record worker_status =
  ws_configId :: nat
  ws_pid :: nat
  ws_state :: worker_state
  ws_restartAttempts :: nat

section \<open>Operations\<close>

definition MAX_RESTART_ATTEMPTS :: nat where
  "MAX_RESTART_ATTEMPTS = 3"

definition restart_delay :: "nat \<Rightarrow> int" where
  "restart_delay nextAttempt = 1000 * 2 ^ (nextAttempt - 1)"

definition toStatus :: "manager \<Rightarrow> nat \<Rightarrow> worker_status" where
  "toStatus s i =
     (let w = wm_workers s ! i
      in \<lparr>ws_configId = c_id (wk_config w), ws_pid = i,
          ws_state = (if wk_desiredRunning w then (if wk_restartAttempts w \<noteq> 0 then WRestarting else WRunning)
                      else WStopping),
          ws_restartAttempts = wk_restartAttempts w\<rparr>)"

text \<open>\<^verbatim>\<open>launch\<close> forks the child and puts its record into the map; the index of the worker is returned.\<close>

definition launch :: "config \<Rightarrow> nat \<Rightarrow> manager \<Rightarrow> nat \<times> manager" where
  "launch config restartAttempts s =
     (let i = length (wm_workers s)
      in (i, s\<lparr>wm_workers := wm_workers s @
                 [\<lparr>wk_config = config, wk_desiredRunning = True, wk_restartAttempts = restartAttempts,
                   wk_launchedWith = restartAttempts, wk_running = True, wk_exitCode = None, wk_connected = True\<rparr>],
               wm_records := AList.update (c_id config) i (wm_records s)\<rparr>))"

definition start :: "config \<Rightarrow> manager \<Rightarrow> (bool \<times> worker_status) \<times> manager" where
  "start config s =
     (case map_of (wm_records s) (c_id config) of
        Some i \<Rightarrow>
          if wk_exitCode (wm_workers s ! i) = None then ((False, toStatus s i), s)
          else (let (j, t) = launch config 0 s in ((True, toStatus t j), t))
      | None \<Rightarrow> (let (j, t) = launch config 0 s in ((True, toStatus t j), t)))"

definition stop :: "nat \<Rightarrow> manager \<Rightarrow> bool \<times> manager" where
  "stop configId s =
     (case map_of (wm_records s) configId of
        None \<Rightarrow> (False, s)
      | Some i \<Rightarrow>
          (True,
           s\<lparr>wm_workers := (wm_workers s)[i := (wm_workers s ! i)\<lparr>wk_desiredRunning := False\<rparr>],
             wm_signals := wm_signals s @ (if wk_connected (wm_workers s ! i) then [(i, StopMessage)] else []),
             wm_kills := wm_kills s @ [i]\<rparr>))"

definition stopAll :: "manager \<Rightarrow> manager" where
  "stopAll s = fold (\<lambda>configId t. snd (stop configId t)) (map fst (wm_records s)) s"

definition getStatuses :: "manager \<Rightarrow> worker_status list" where
  "getStatuses s = map (\<lambda>(_, i). toStatus s i) (wm_records s)"

text \<open>The child \<open>i\<close> ends; then its listener runs.\<close>

definition child_exits :: "nat \<Rightarrow> int option \<Rightarrow> manager \<Rightarrow> manager" where
  "child_exits i code s =
     s\<lparr>wm_workers := (wm_workers s)[i := (wm_workers s ! i)\<lparr>wk_running := False, wk_exitCode := code, wk_connected := False\<rparr>]\<rparr>"

definition on_exit :: "nat \<Rightarrow> int option \<Rightarrow> manager \<Rightarrow> manager" where
  "on_exit i code s =
     (let record = wm_workers s ! i; configId = c_id (wk_config record); restartAttempts = wk_launchedWith record
      in if map_of (wm_records s) configId \<noteq> Some i then s
         else if wk_desiredRunning record \<and> code \<noteq> Some 0 \<and> restartAttempts < MAX_RESTART_ATTEMPTS
         then let nextAttempt = restartAttempts + 1
              in s\<lparr>wm_workers := (wm_workers s)[i := record\<lparr>wk_restartAttempts := nextAttempt\<rparr>],
                   wm_restarts := wm_restarts s @ [(i, nextAttempt)]\<rparr>
         else s\<lparr>wm_records := AList.delete configId (wm_records s)\<rparr>)"

definition on_restart_timer :: "nat \<times> nat \<Rightarrow> manager \<Rightarrow> manager" where
  "on_restart_timer r s =
     (let t = s\<lparr>wm_restarts := remove1 r (wm_restarts s)\<rparr>; record = wm_workers s ! fst r
      in if wk_desiredRunning record then snd (launch (wk_config record) (snd r) t) else t)"

definition on_kill_timer :: "nat \<Rightarrow> manager \<Rightarrow> manager" where
  "on_kill_timer i s =
     s\<lparr>wm_kills := remove1 i (wm_kills s),
       wm_signals := wm_signals s @ (if wk_exitCode (wm_workers s ! i) = None then [(i, SigTerm)] else [])\<rparr>"

section \<open>Steps\<close>

datatype wm_event =
  Start config
| Stop nat
| StopAll
| Exited nat "int option"
| RestartTimer "nat \<times> nat"
| KillTimer nat

inductive wm_step :: "manager \<Rightarrow> wm_event \<Rightarrow> manager \<Rightarrow> bool" where
  step_start: "wm_step s (Start config) (snd (start config s))"
| step_stop: "wm_step s (Stop configId) (snd (stop configId s))"
| step_stopAll: "wm_step s StopAll (stopAll s)"
| step_exit: "i < length (wm_workers s) \<Longrightarrow> wk_running (wm_workers s ! i) \<Longrightarrow>
    wm_step s (Exited i code) (on_exit i code (child_exits i code s))"
| step_restart: "r \<in> set (wm_restarts s) \<Longrightarrow> wm_step s (RestartTimer r) (on_restart_timer r s)"
| step_kill: "i \<in> set (wm_kills s) \<Longrightarrow> wm_step s (KillTimer i) (on_kill_timer i s)"

inductive_cases wm_stepE [elim!]:
  "wm_step s (Start c) t" "wm_step s (Stop n) t" "wm_step s StopAll t" "wm_step s (Exited i c) t"
  "wm_step s (RestartTimer r) t" "wm_step s (KillTimer i) t"

inductive wm_run :: "manager \<Rightarrow> wm_event list \<Rightarrow> manager \<Rightarrow> bool" where
  run_nil: "wm_run s [] s"
| run_snoc: "wm_run s es t \<Longrightarrow> wm_step t e u \<Longrightarrow> wm_run s (es @ [e]) u"

inductive_simps wm_run_simps [simp]: "wm_run s [] t"

text \<open>The same steps as a function, for concrete runs.\<close>

fun wm_exec :: "wm_event \<Rightarrow> manager \<Rightarrow> manager option" where
  "wm_exec (Start config) s = Some (snd (start config s))"
| "wm_exec (Stop configId) s = Some (snd (stop configId s))"
| "wm_exec StopAll s = Some (stopAll s)"
| "wm_exec (Exited i code) s =
     (if i < length (wm_workers s) \<and> wk_running (wm_workers s ! i)
      then Some (on_exit i code (child_exits i code s)) else None)"
| "wm_exec (RestartTimer r) s = (if r \<in> set (wm_restarts s) then Some (on_restart_timer r s) else None)"
| "wm_exec (KillTimer i) s = (if i \<in> set (wm_kills s) then Some (on_kill_timer i s) else None)"

fun wm_exec_all :: "wm_event list \<Rightarrow> manager \<Rightarrow> manager option" where
  "wm_exec_all [] s = Some s"
| "wm_exec_all (e # es) s = Option.bind (wm_exec e s) (wm_exec_all es)"

lemma wm_step_exec: "wm_step s e t \<longleftrightarrow> wm_exec e s = Some t"
  by (cases e) (auto intro: wm_step.intros)

lemma wm_run_exec: "wm_run s es t \<longleftrightarrow> wm_exec_all es s = Some t"
proof
  have snoc: "wm_exec_all (es @ [e]) s = Option.bind (wm_exec_all es s) (wm_exec e)" for es e s
    by (induction es arbitrary: s) (auto split: bind_split)
  show "wm_run s es t \<Longrightarrow> wm_exec_all es s = Some t"
    by (induction rule: wm_run.induct) (simp_all add: snoc wm_step_exec)
  show "wm_exec_all es s = Some t \<Longrightarrow> wm_run s es t"
  proof (induction es arbitrary: t rule: rev_induct)
    case (snoc e es)
    then show ?case
      using \<open>\<And>es e s. wm_exec_all (es @ [e]) s = Option.bind (wm_exec_all es s) (wm_exec e)\<close>
      by (auto simp: bind_eq_Some_conv wm_step_exec intro: run_snoc)
  qed simp
qed

text \<open>The delays of the restarts are the doubling delays of \<^verbatim>\<open>_readWithRetry\<close>, with three instead of four.\<close>

interpretation restart_backoff: backoff restart_delay 4
proof
  show "0 < restart_delay n" for n by (simp add: restart_delay_def)
  show "restart_delay (Suc n) = 2 * restart_delay n" if "1 \<le> n" for n
    using that by (cases n) (simp_all add: restart_delay_def)
qed

section \<open>The invariant of the manager\<close>

definition wm_inv :: "manager \<Rightarrow> bool" where
  "wm_inv s \<longleftrightarrow>
     distinct (map fst (wm_records s)) \<and>
     (\<forall>(c, i) \<in> set (wm_records s). i < length (wm_workers s) \<and> c_id (wk_config (wm_workers s ! i)) = c) \<and>
     (\<forall>w \<in> set (wm_workers s). wk_launchedWith w \<le> wk_restartAttempts w \<and> wk_restartAttempts w \<le> MAX_RESTART_ATTEMPTS) \<and>
     (\<forall>(i, k) \<in> set (wm_restarts s). i < length (wm_workers s) \<and> 1 \<le> k \<and> k \<le> MAX_RESTART_ATTEMPTS) \<and>
     (\<forall>i \<in> set (wm_kills s). i < length (wm_workers s))"

lemma wm_invD:
  assumes "wm_inv s"
  shows "map_of (wm_records s) c = Some i \<Longrightarrow> i < length (wm_workers s) \<and> c_id (wk_config (wm_workers s ! i)) = c"
    and "i < length (wm_workers s) \<Longrightarrow> wk_launchedWith (wm_workers s ! i) \<le> MAX_RESTART_ATTEMPTS"
    and "(i, k) \<in> set (wm_restarts s) \<Longrightarrow> i < length (wm_workers s) \<and> 1 \<le> k \<and> k \<le> MAX_RESTART_ATTEMPTS"
  using assms by (auto simp: wm_inv_def dest!: map_of_SomeD nth_mem)

lemma set_list_updateD: "x \<in> set (xs[i := y]) \<Longrightarrow> x = y \<or> x \<in> set xs"
  using set_update_subset_insert by fastforce

text \<open>Changing a worker without touching its configuration or its counters.\<close>

lemma wm_inv_touch:
  assumes "wm_inv s" and "wk_config w = wk_config (wm_workers s ! i)"
    and "wk_launchedWith w \<le> wk_restartAttempts w" and "wk_restartAttempts w \<le> MAX_RESTART_ATTEMPTS"
  shows "wm_inv (s\<lparr>wm_workers := (wm_workers s)[i := w]\<rparr>)"
proof -
  have "wk_config ((wm_workers s)[i := w] ! j) = wk_config (wm_workers s ! j)" for j
    using assms(2) by (cases "j = i"; cases "j < length (wm_workers s)") (auto simp: nth_list_update list_update_beyond)
  with assms show ?thesis unfolding wm_inv_def by (auto dest!: set_list_updateD)
qed

lemma launch_simps [simp]:
  "fst (launch config k s) = length (wm_workers s)"
  "wm_workers (snd (launch config k s)) = wm_workers s @
     [\<lparr>wk_config = config, wk_desiredRunning = True, wk_restartAttempts = k, wk_launchedWith = k,
       wk_running = True, wk_exitCode = None, wk_connected = True\<rparr>]"
  "wm_records (snd (launch config k s)) = AList.update (c_id config) (length (wm_workers s)) (wm_records s)"
  "wm_restarts (snd (launch config k s)) = wm_restarts s"
  "wm_kills (snd (launch config k s)) = wm_kills s"
  by (simp_all add: launch_def Let_def)

lemma launch_inv:
  assumes "wm_inv s" and "k \<le> MAX_RESTART_ATTEMPTS"
  shows "wm_inv (snd (launch config k s))"
proof -
  let ?t = "snd (launch config k s)"
  have "i < length (wm_workers ?t) \<and> c_id (wk_config (wm_workers ?t ! i)) = c"
    if "(c, i) \<in> set (wm_records ?t)" for c i
  proof -
    have "map_of (wm_records ?t) c = Some i"
      using that assms(1) by (intro map_of_is_SomeI) (auto simp: wm_inv_def distinct_update)
    then have "map_of (wm_records s) c = Some i \<or> c = c_id config \<and> i = length (wm_workers s)"
      by (auto simp: update_conv' split: if_splits)
    then show ?thesis
      using wm_invD(1) [OF assms(1)] by (auto simp: nth_append)
  qed
  moreover have "distinct (map fst (wm_records ?t))"
    using assms(1) by (simp add: wm_inv_def distinct_update)
  ultimately show ?thesis
    using assms unfolding wm_inv_def by auto
qed

lemma start_inv: "wm_inv s \<Longrightarrow> wm_inv (snd (start config s))"
  using launch_inv [of s 0 config] by (simp add: start_def case_prod_beta split: option.split)

lemma stop_inv:
  assumes "wm_inv s"
  shows "wm_inv (snd (stop c s))"
proof (cases "map_of (wm_records s) c")
  case (Some i)
  then have i: "i < length (wm_workers s)" using wm_invD(1) [OF assms] by blast
  with assms have "wm_inv (s\<lparr>wm_workers := (wm_workers s)[i := (wm_workers s ! i)\<lparr>wk_desiredRunning := False\<rparr>]\<rparr>)"
    by (intro wm_inv_touch) (auto simp: wm_inv_def)
  with Some i show ?thesis by (auto simp: stop_def wm_inv_def)
qed (simp add: stop_def assms)

lemma stopAll_inv: "wm_inv s \<Longrightarrow> wm_inv (stopAll s)"
  unfolding stopAll_def by (rule fold_invariant [where P = wm_inv and Q = "\<lambda>_. True"]) (simp_all add: stop_inv)

lemma child_exits_inv: "wm_inv s \<Longrightarrow> i < length (wm_workers s) \<Longrightarrow> wm_inv (child_exits i code s)"
  unfolding child_exits_def by (rule wm_inv_touch) (auto simp: wm_inv_def)

lemma on_exit_inv:
  assumes "wm_inv s" and "i < length (wm_workers s)"
  shows "wm_inv (on_exit i code s)"
proof -
  let ?w = "wm_workers s ! i"
  have "wm_inv (s\<lparr>wm_workers := (wm_workers s)[i := ?w\<lparr>wk_restartAttempts := Suc (wk_launchedWith ?w)\<rparr>]\<rparr>)"
    if "wk_launchedWith ?w < MAX_RESTART_ATTEMPTS"
    using that assms by (intro wm_inv_touch) auto
  moreover have "wm_inv (s\<lparr>wm_records := AList.delete c (wm_records s)\<rparr>)" for c
    using assms(1) AList.distinct_delete [of "wm_records s" c] by (auto simp: wm_inv_def AList.delete_eq)
  ultimately show ?thesis
    using assms by (auto simp: on_exit_def Let_def wm_inv_def)
qed

lemma on_restart_timer_inv:
  assumes "wm_inv s" and "r \<in> set (wm_restarts s)"
  shows "wm_inv (on_restart_timer r s)"
proof -
  have "wm_inv (s\<lparr>wm_restarts := remove1 r (wm_restarts s)\<rparr>)"
    using assms(1) set_remove1_subset [of r "wm_restarts s"] by (fastforce simp: wm_inv_def)
  moreover have "snd r \<le> MAX_RESTART_ATTEMPTS"
    using wm_invD(3) [OF assms(1), of "fst r" "snd r"] assms(2) by simp
  ultimately show ?thesis
    by (simp add: on_restart_timer_def Let_def launch_inv)
qed

lemma on_kill_timer_inv: "wm_inv s \<Longrightarrow> wm_inv (on_kill_timer i s)"
  using set_remove1_subset [of i "wm_kills s"] by (fastforce simp: on_kill_timer_def wm_inv_def)

lemma wm_step_inv: "wm_step s e t \<Longrightarrow> wm_inv s \<Longrightarrow> wm_inv t"
proof (induction rule: wm_step.induct)
  case (step_exit i s code)
  then show ?case by (intro on_exit_inv child_exits_inv) (simp_all add: child_exits_def)
qed (simp_all add: start_inv stop_inv stopAll_inv on_restart_timer_inv on_kill_timer_inv)

lemma wm_run_inv: "wm_run s es t \<Longrightarrow> wm_inv s \<Longrightarrow> wm_inv t"
  by (induction rule: wm_run.induct) (auto dest: wm_step_inv)

lemma no_workers_inv: "wm_inv no_workers"
  by (simp add: wm_inv_def no_workers_def)

section \<open>How often a worker is launched\<close>

text \<open>
  The launches that can still follow without another \<^verbatim>\<open>start\<close>: a pending restart \<open>k\<close> is followed by at
  most \<open>3 - k\<close> others, a running worker that was launched as attempt \<open>k\<close> too.
\<close>

definition launches_left :: "manager \<Rightarrow> nat" where
  "launches_left s =
     (\<Sum>(i, k)\<leftarrow>wm_restarts s. Suc MAX_RESTART_ATTEMPTS - k) +
     (\<Sum>w\<leftarrow>wm_workers s. if wk_running w then MAX_RESTART_ATTEMPTS - wk_launchedWith w else 0)"

definition launched :: "manager \<Rightarrow> nat" where
  "launched s = length (wm_workers s)"

text \<open>What is launched plus what can be launched never grows.\<close>

definition budget :: "manager \<Rightarrow> nat" where
  "budget s = launched s + launches_left s"

lemma sum_list_update_nat:
  "i < length xs \<Longrightarrow> sum_list (map f (xs[i := y])) + f (xs ! i) = sum_list (map f xs) + (f y :: nat)"
  by (induction xs arbitrary: i) (auto split: nat.split)

lemma sum_list_remove1_nat:
  "x \<in> set xs \<Longrightarrow> sum_list (map f (remove1 x xs)) + f x = (sum_list (map f xs) :: nat)"
  by (induction xs) auto

lemma budget_touch:
  assumes "i < length (wm_workers s)" and "wk_running w = wk_running (wm_workers s ! i)"
    and "wk_launchedWith w = wk_launchedWith (wm_workers s ! i)"
  shows "budget (s\<lparr>wm_workers := (wm_workers s)[i := w]\<rparr>) = budget s"
  using sum_list_update_nat [OF assms(1), of "\<lambda>w. if wk_running w then MAX_RESTART_ATTEMPTS - wk_launchedWith w else 0" w]
    assms(2,3) by (auto simp: budget_def launched_def launches_left_def split: if_splits)

lemma budget_stop:
  assumes "wm_inv s"
  shows "budget (snd (stop c s)) = budget s"
proof (cases "map_of (wm_records s) c")
  case (Some i)
  then have "i < length (wm_workers s)" using wm_invD(1) [OF assms] by blast
  from budget_touch [OF this, of "(wm_workers s ! i)\<lparr>wk_desiredRunning := False\<rparr>"] Some show ?thesis
    by (simp add: stop_def budget_def launched_def launches_left_def)
qed (simp add: stop_def)

lemma budget_stopAll:
  assumes "wm_inv s"
  shows "budget (stopAll s) = budget s"
proof -
  have "wm_inv (stopAll s) \<and> budget (stopAll s) = budget s"
    unfolding stopAll_def
    by (rule fold_invariant [where P = "\<lambda>t. wm_inv t \<and> budget t = budget s" and Q = "\<lambda>_. True"])
      (simp_all add: assms stop_inv budget_stop)
  then show ?thesis ..
qed

lemma budget_child_exits:
  assumes "i < length (wm_workers s)" and "wk_running (wm_workers s ! i)"
  shows "budget (child_exits i code s) + (MAX_RESTART_ATTEMPTS - wk_launchedWith (wm_workers s ! i)) = budget s"
  using sum_list_update_nat [OF assms(1), of "\<lambda>w. if wk_running w then MAX_RESTART_ATTEMPTS - wk_launchedWith w else 0"
      "(wm_workers s ! i)\<lparr>wk_running := False, wk_exitCode := code, wk_connected := False\<rparr>"] assms(2)
  by (simp add: child_exits_def budget_def launched_def launches_left_def)

lemma budget_on_exit:
  assumes "i < length (wm_workers s)"
  shows "budget (on_exit i code s) \<le> budget s + (MAX_RESTART_ATTEMPTS - wk_launchedWith (wm_workers s ! i))"
proof -
  let ?w = "wm_workers s ! i"
  have "budget (s\<lparr>wm_workers := (wm_workers s)[i := ?w\<lparr>wk_restartAttempts := k\<rparr>]\<rparr>) = budget s" for k
    using assms by (intro budget_touch) simp_all
  then show ?thesis
    by (auto simp: on_exit_def Let_def budget_def launched_def launches_left_def)
qed

lemma budget_restart:
  assumes "wm_inv s" and "r \<in> set (wm_restarts s)"
  shows "budget (on_restart_timer r s) \<le> budget s"
proof -
  have "snd r \<le> MAX_RESTART_ATTEMPTS"
    using wm_invD(3) [OF assms(1), of "fst r" "snd r"] assms(2) by simp
  with sum_list_remove1_nat [OF assms(2), of "\<lambda>(i, k). Suc MAX_RESTART_ATTEMPTS - k"] show ?thesis
    by (auto simp: on_restart_timer_def Let_def budget_def launched_def launches_left_def case_prod_beta)
qed

lemma budget_kill: "budget (on_kill_timer i s) = budget s"
  by (simp add: on_kill_timer_def budget_def launched_def launches_left_def)

definition is_start :: "wm_event \<Rightarrow> bool" where
  "is_start e = (case e of Start _ \<Rightarrow> True | _ \<Rightarrow> False)"

lemma budget_step:
  assumes "wm_step s e t" and "wm_inv s" and "\<not> is_start e"
  shows "budget t \<le> budget s"
  using assms
proof (induction rule: wm_step.induct)
  case (step_exit i s code)
  then have "i < length (wm_workers (child_exits i code s))"
    and "wk_launchedWith (wm_workers (child_exits i code s) ! i) = wk_launchedWith (wm_workers s ! i)"
    by (simp_all add: child_exits_def)
  with budget_on_exit [OF this(1), of code] budget_child_exits [OF step_exit(1,2), of code] show ?case by simp
qed (simp_all add: is_start_def budget_stop budget_stopAll budget_restart budget_kill)

lemma budget_start: "budget (snd (start config s)) \<le> budget s + Suc MAX_RESTART_ATTEMPTS"
  by (auto simp: start_def budget_def launched_def launches_left_def case_prod_beta split: option.split)

lemma budget_any_step:
  assumes "wm_step s e t" and "wm_inv s"
  shows "budget t \<le> budget s + (if is_start e then Suc MAX_RESTART_ATTEMPTS else 0)"
proof (cases "is_start e")
  case True
  then obtain config where "e = Start config" by (cases e) (auto simp: is_start_def)
  with assms(1) budget_start [of config s] True show ?thesis by auto
qed (use budget_step [OF assms] in simp)

section \<open>Configurations that are not wanted any more\<close>

text \<open>No worker of the configuration can be launched by a restart: each is told to stop, or is gone without a pending restart.\<close>

definition quiet :: "nat \<Rightarrow> manager \<Rightarrow> bool" where
  "quiet c s \<longleftrightarrow> (\<forall>j < length (wm_workers s). c_id (wk_config (wm_workers s ! j)) = c \<longrightarrow>
     \<not> wk_desiredRunning (wm_workers s ! j) \<or> \<not> wk_running (wm_workers s ! j) \<and> (\<forall>k. (j, k) \<notin> set (wm_restarts s)))"

definition workers_of :: "nat \<Rightarrow> manager \<Rightarrow> worker list" where
  "workers_of c s = filter (\<lambda>w. c_id (wk_config w) = c) (wm_workers s)"

lemma workers_of_touch:
  assumes "wk_config w = wk_config (wm_workers s ! i)"
  shows "length (filter (\<lambda>w. c_id (wk_config w) = c) ((wm_workers s)[i := w])) = length (workers_of c s)"
proof (cases "i < length (wm_workers s)")
  case True
  have "length (filter P (xs[j := y])) = length (filter P xs)" if "j < length xs" "P y = P (xs ! j)"
    for P and xs :: "worker list" and j y
    using that by (induction xs arbitrary: j) (auto split: nat.split)
  from this [OF True] assms show ?thesis by (simp add: workers_of_def)
qed (simp add: workers_of_def list_update_beyond)

lemma quiet_touch:
  assumes "quiet c s" and "wk_config w = wk_config (wm_workers s ! i)"
    and "wk_desiredRunning w \<longrightarrow> wk_desiredRunning (wm_workers s ! i)"
    and "wk_running w \<longrightarrow> wk_running (wm_workers s ! i)"
  shows "quiet c (s\<lparr>wm_workers := (wm_workers s)[i := w]\<rparr>)"
proof -
  let ?t = "s\<lparr>wm_workers := (wm_workers s)[i := w]\<rparr>"
  have "\<not> wk_desiredRunning (wm_workers ?t ! j) \<or> \<not> wk_running (wm_workers ?t ! j) \<and> (\<forall>k. (j, k) \<notin> set (wm_restarts ?t))"
    if "j < length (wm_workers ?t)" "c_id (wk_config (wm_workers ?t ! j)) = c" for j
    using assms(1) [unfolded quiet_def, rule_format, of j] assms(2-4) that by (cases "j = i") auto
  then show ?thesis unfolding quiet_def by blast
qed

lemma quietD:
  assumes "quiet c s" and "i < length (wm_workers s)" and "c_id (wk_config (wm_workers s ! i)) = c"
    and "wk_desiredRunning (wm_workers s ! i)"
  shows "\<not> wk_running (wm_workers s ! i)" and "(i, k) \<notin> set (wm_restarts s)"
  using assms by (auto simp: quiet_def)

lemma stop_quiet:
  assumes "quiet c s"
  shows "quiet c (snd (stop d s)) \<and> length (workers_of c (snd (stop d s))) = length (workers_of c s)"
proof (cases "map_of (wm_records s) d")
  case (Some i)
  with quiet_touch [OF assms, of "(wm_workers s ! i)\<lparr>wk_desiredRunning := False\<rparr>" i]
    workers_of_touch [of "(wm_workers s ! i)\<lparr>wk_desiredRunning := False\<rparr>" s i c] show ?thesis
    by (simp add: stop_def quiet_def workers_of_def)
qed (simp add: stop_def assms)

lemma stopAll_quiet:
  assumes "quiet c s"
  shows "quiet c (stopAll s) \<and> length (workers_of c (stopAll s)) = length (workers_of c s)"
  unfolding stopAll_def
  by (rule fold_invariant [where P = "\<lambda>t. quiet c t \<and> length (workers_of c t) = length (workers_of c s)" and Q = "\<lambda>_. True"])
    (use assms stop_quiet in auto)

lemma launch_quiet:
  assumes "quiet c s" and "c_id config \<noteq> c"
  shows "quiet c (snd (launch config k s)) \<and> workers_of c (snd (launch config k s)) = workers_of c s"
  using assms unfolding quiet_def by (auto simp: workers_of_def nth_append)

lemma exit_quiet:
  assumes "quiet c s" and "i < length (wm_workers s)" and "wk_running (wm_workers s ! i)"
  shows "quiet c (on_exit i code (child_exits i code s)) \<and>
    length (workers_of c (on_exit i code (child_exits i code s))) = length (workers_of c s)"
proof -
  let ?t = "child_exits i code s"
  have t: "quiet c ?t" "length (workers_of c ?t) = length (workers_of c s)"
    using quiet_touch [OF assms(1)] workers_of_touch [of _ s i c]
    by (simp_all add: child_exits_def workers_of_def)
  have off: "\<not> wk_desiredRunning (wm_workers ?t ! i)" if "c_id (wk_config (wm_workers ?t ! i)) = c"
    using that assms quietD(1) [OF assms(1,2)] by (auto simp: child_exits_def)
  have "quiet c (?t\<lparr>wm_workers := (wm_workers ?t)[i := (wm_workers ?t ! i)\<lparr>wk_restartAttempts := k\<rparr>],
      wm_restarts := wm_restarts ?t @ [(i, n)]\<rparr>)" if "c_id (wk_config (wm_workers ?t ! i)) \<noteq> c" for k n
    using quiet_touch [OF t(1), of "(wm_workers ?t ! i)\<lparr>wk_restartAttempts := k\<rparr>" i] that
    unfolding quiet_def by (auto simp: nth_list_update split: if_splits)
  moreover have "length (filter (\<lambda>w. c_id (wk_config w) = c) ((wm_workers ?t)[i := (wm_workers ?t ! i)\<lparr>wk_restartAttempts := k\<rparr>]))
      = length (workers_of c s)" for k
    using workers_of_touch [of "(wm_workers ?t ! i)\<lparr>wk_restartAttempts := k\<rparr>" ?t i c] t(2) by simp
  ultimately show ?thesis
    using t off by (auto simp: on_exit_def Let_def workers_of_def quiet_def)
qed

lemma restart_quiet:
  assumes "quiet c s" and "wm_inv s" and "r \<in> set (wm_restarts s)"
  shows "quiet c (on_restart_timer r s) \<and> length (workers_of c (on_restart_timer r s)) = length (workers_of c s)"
proof -
  let ?t = "s\<lparr>wm_restarts := remove1 r (wm_restarts s)\<rparr>"
  have t: "quiet c ?t" "workers_of c ?t = workers_of c s"
    using assms(1) set_remove1_subset [of r "wm_restarts s"] by (fastforce simp: quiet_def workers_of_def)+
  have "fst r < length (wm_workers s)"
    using wm_invD(3) [OF assms(2), of "fst r" "snd r"] assms(3) by simp
  then have "c_id (wk_config (wm_workers s ! fst r)) \<noteq> c" if "wk_desiredRunning (wm_workers s ! fst r)"
    using that quietD(2) [OF assms(1), of "fst r" "snd r"] assms(3) by auto
  with t launch_quiet [OF t(1)] show ?thesis
    by (simp add: on_restart_timer_def Let_def)
qed

definition starts :: "nat \<Rightarrow> wm_event \<Rightarrow> bool" where
  "starts c e = (case e of Start config \<Rightarrow> c_id config = c | _ \<Rightarrow> False)"

lemma quiet_step:
  assumes "wm_step s e t" and "wm_inv s" and "quiet c s" and "\<not> starts c e"
  shows "quiet c t \<and> length (workers_of c t) = length (workers_of c s)"
  using assms
proof (induction rule: wm_step.induct)
  case (step_start s config)
  then show ?case
    using launch_quiet [of c s config 0] by (simp add: starts_def start_def case_prod_beta split: option.split)
next
  case (step_kill i s)
  then show ?case by (simp add: on_kill_timer_def quiet_def workers_of_def)
qed (simp_all add: stop_quiet stopAll_quiet exit_quiet restart_quiet)

lemma quiet_run:
  "wm_run s es t \<Longrightarrow> wm_inv s \<Longrightarrow> quiet c s \<Longrightarrow> \<not> list_ex (starts c) es \<Longrightarrow>
     quiet c t \<and> length (workers_of c t) = length (workers_of c s)"
proof (induction rule: wm_run.induct)
  case (run_snoc s es t e u)
  then have "quiet c t \<and> length (workers_of c t) = length (workers_of c s)" and "wm_inv t"
    by (auto dest: wm_run_inv)
  with quiet_step [OF run_snoc.hyps(2), of c] run_snoc.prems show ?case by auto
qed simp

section \<open>Properties\<close>

text \<open>
  The state of the manager is well formed in every reachable state: the record the map holds for
  a configuration belongs to a worker forked for that configuration, no counter exceeds the three
  restarts, and a pending restart waits one, two or four seconds.
\<close>

theorem manager_invariant:
  assumes "wm_run no_workers es s"
  shows "wm_inv s \<and> (\<forall>(i, k) \<in> set (wm_restarts s). restart_delay k \<in> {1000, 2000, 4000})"
proof -
  have "wm_inv s"
    using wm_run_inv [OF assms no_workers_inv] .
  moreover have "restart_delay k \<in> {1000, 2000, 4000}" if "(i, k) \<in> set (wm_restarts s)" for i k
  proof -
    have "k = 1 \<or> k = 2 \<or> k = 3"
      using wm_invD(3) [OF calculation that] by (auto simp: MAX_RESTART_ATTEMPTS_def)
    then show ?thesis by (auto simp: restart_delay_def)
  qed
  ultimately show ?thesis by blast
qed

lemmas wm_exec_defs =
  start_def stop_def stopAll_def launch_def child_exits_def on_exit_def on_restart_timer_def on_kill_timer_def
  no_workers_def toStatus_def MAX_RESTART_ATTEMPTS_def Let_def

theorem manager_invariant_witness:
  "\<exists>s. wm_run no_workers [Start sim_config, Exited 0 (Some 1)] s \<and> wm_restarts s = [(0, 1)] \<and> wm_inv s"
proof -
  have "\<exists>s. wm_run no_workers [Start sim_config, Exited 0 (Some 1)] s \<and> wm_restarts s = [(0, 1)]"
    by (simp add: wm_run_exec wm_exec_defs)
  then obtain s where run: "wm_run no_workers [Start sim_config, Exited 0 (Some 1)] s" and "wm_restarts s = [(0, 1)]"
    by blast
  with manager_invariant [OF run] show ?thesis by blast
qed

text \<open>
  C37: a crash loop is cut. Whatever the children do, whatever order timers fire in and whatever is
  stopped in between, at most four children are forked per call of \<^verbatim>\<open>start\<close>: the one it launches and
  three restarts.
\<close>

theorem crash_loop_is_cut:
  assumes "wm_run no_workers es s"
  shows "launched s \<le> 4 * length (filter is_start es)"
proof -
  have "budget s \<le> 4 * length (filter is_start es)"
    using assms
  proof (induction no_workers es s rule: wm_run.induct)
    case run_nil
    then show ?case by (simp add: budget_def launched_def launches_left_def no_workers_def)
  next
    case (run_snoc es t e u)
    then have "wm_inv t" by (auto dest: wm_run_inv simp: no_workers_inv)
    from budget_any_step [OF run_snoc.hyps(3) this] run_snoc.hyps(2) show ?case
      by (simp add: MAX_RESTART_ATTEMPTS_def split: if_splits)
  qed
  then show ?thesis by (simp add: budget_def)
qed

theorem crash_loop_is_cut_witness:
  "\<exists>s. wm_run no_workers [Start sim_config, Exited 0 (Some 1), RestartTimer (0, 1), Exited 1 None, RestartTimer (1, 2),
       Exited 2 (Some 1), RestartTimer (2, 3), Exited 3 (Some 1)] s \<and> launched s = 4 \<and> wm_records s = [] \<and> wm_restarts s = []"
proof -
  let ?es = "[Start sim_config, Exited 0 (Some 1), RestartTimer (0, 1), Exited 1 None, RestartTimer (1, 2),
       Exited 2 (Some 1), RestartTimer (2, 3), Exited 3 (Some 1)]"
  have "\<exists>s. wm_run no_workers ?es s \<and> 4 \<le> launched s \<and> wm_records s = [] \<and> wm_restarts s = []"
    by (simp add: wm_run_exec wm_exec_defs launched_def numeral_2_eq_2 numeral_3_eq_3)
  then obtain s where run: "wm_run no_workers ?es s" and "4 \<le> launched s" "wm_records s = []" "wm_restarts s = []"
    by blast
  with crash_loop_is_cut [OF run] show ?thesis by (auto simp: is_start_def)
qed

text \<open>
  A stopped configuration stays stopped. If the worker the map holds for the configuration is
  the only one of it that is running or waiting for a restart, then after \<^verbatim>\<open>stop\<close> no worker is forked
  for it, however its children exit and whatever timers fire, until \<^verbatim>\<open>start\<close> is called for it again.
\<close>

theorem stopped_stays_stopped:
  assumes "wm_inv s" and "map_of (wm_records s) c = Some i"
    and "\<forall>j < length (wm_workers s). j \<noteq> i \<and> c_id (wk_config (wm_workers s ! j)) = c \<longrightarrow>
           \<not> wk_running (wm_workers s ! j) \<and> (\<forall>k. (j, k) \<notin> set (wm_restarts s))"
    and "wm_run (snd (stop c s)) es t" and "\<not> list_ex (starts c) es"
  shows "fst (stop c s) \<and> length (workers_of c t) = length (workers_of c s)"
proof -
  have i: "i < length (wm_workers s)"
    using wm_invD(1) [OF assms(1,2)] by simp
  with assms(2,3) have "quiet c (snd (stop c s))"
    by (auto simp: quiet_def stop_def nth_list_update)
  from quiet_run [OF assms(4) stop_inv [OF assms(1)] this assms(5)]
  have "length (workers_of c t) = length (workers_of c (snd (stop c s)))" by simp
  also have "\<dots> = length (workers_of c s)"
    using assms(2) workers_of_touch [of "(wm_workers s ! i)\<lparr>wk_desiredRunning := False\<rparr>" s i c]
    by (simp add: stop_def workers_of_def)
  finally show ?thesis
    using assms(2) by (simp add: stop_def)
qed

theorem stopped_stays_stopped_witness:
  "\<exists>t. wm_run (snd (stop 1 (snd (start sim_config no_workers)))) [Exited 0 None] t \<and> length (workers_of 1 t) = 1"
proof -
  let ?s = "snd (start sim_config no_workers)"
  obtain t where run: "wm_run (snd (stop 1 ?s)) [Exited 0 None] t"
    by (simp add: wm_run_exec wm_exec_defs sim_config_def)
  have "map_of (wm_records ?s) 1 = Some 0" "length (workers_of 1 ?s) = 1"
    "\<forall>j < length (wm_workers ?s). j \<noteq> 0 \<and> c_id (wk_config (wm_workers ?s ! j)) = 1 \<longrightarrow>
           \<not> wk_running (wm_workers ?s ! j) \<and> (\<forall>k. (j, k) \<notin> set (wm_restarts ?s))"
    by (simp_all add: wm_exec_defs sim_config_def workers_of_def)
  with stopped_stays_stopped [OF start_inv [OF no_workers_inv] this(1,3) run] run show ?thesis
    by (auto simp: starts_def)
qed

text \<open>
  Starting during a pending restart forks twice. For every configuration there is a run in which
  \<^verbatim>\<open>start\<close> is called after a crash and before the restart timer: afterwards two children of the same
  configuration are running, and \<^verbatim>\<open>stop\<close> reaches only the younger one; the older one stays wanted and
  gets neither the message nor the signal.
\<close>

theorem start_during_restart_forks_twice:
  "\<exists>s. wm_run no_workers [Start config, Exited 0 (Some 1), Start config, RestartTimer (0, 1), Stop (c_id config),
       KillTimer 2] s \<and>
     map (\<lambda>w. (wk_config w, wk_running w, wk_desiredRunning w)) (drop 1 (wm_workers s))
       = [(config, True, True), (config, True, False)] \<and>
     wm_signals s = [(2, StopMessage), (2, SigTerm)]"
  by (simp add: wm_run_exec wm_exec_defs numeral_2_eq_2)

end
