(* ===== verification/Session_Trading.thy ===== *)
theory Session_Trading
  imports Orders_Operation
begin

text \<open>
  \<^verbatim>\<open>src/utils/SessionTrading/SessionTradingService.ts\<close>: which session a started process trades
  in, how a session is ended, how its profit and the balance are recorded, and how a session that
  was closed on the exchange but not in the database is recovered.
\<close>

section \<open>Operations\<close>

definition endTradeSession :: "'x platform \<Rightarrow> jsnum option \<Rightarrow> string \<Rightarrow> ('x world, unit) eff" where
  "endTradeSession P calculateProfitSession indexOperation =
     finishTradeSession P calculateProfitSession indexOperation"

definition calculateProfitSession ::
    "'x platform \<Rightarrow> string \<Rightarrow> mem_order list \<Rightarrow> ('x world, jsnum option) eff" where
  "calculateProfitSession P indexOperation orders =
     (if orders = [] then throwE (typeError ''Cannot read properties of undefined (reading side)'')
      else getProfitForTradeSession P indexOperation (o_side (last orders)) orders)"

text \<open>\<open>balance.USDT.free\<close>; an exchange that reports no USDT gives a TypeError.\<close>

definition usdt_free :: "balance \<Rightarrow> ('x world, jsnum option) eff" where
  "usdt_free balance =
     (case map_of balance ''USDT'' of
        None \<Rightarrow> throwE (typeError ''Cannot read properties of undefined (reading free)'')
      | Some c \<Rightarrow> ret (cu_free c))"

text \<open>The profit of the session counts only when its first order was a buy; null counts as 0.\<close>

definition usdt_profit :: "mem_order list \<Rightarrow> jsnum option \<Rightarrow> jsnum" where
  "usdt_profit orders profit = (if o_side (hd orders) = Some Buy then nullish profit (Fin 0) else Fin 0)"

definition carried_profit :: "balance_state option \<Rightarrow> mem_order list \<Rightarrow> jsnum option \<Rightarrow> jsnum" where
  "carried_profit prevBalance orders profit =
     (case prevBalance of
        None \<Rightarrow> Fin 0
      | Some prev \<Rightarrow> Number (bs_profitUsdt prev) + usdt_profit orders profit)"

text \<open>The branches of \<^verbatim>\<open>saveBalanceState\<close> for an empty and for an existing history.\<close>

definition createFirstBalance :: "'x platform \<Rightarrow> config \<Rightarrow> balance \<Rightarrow> ('x world, balance option) eff" where
  "createFirstBalance P config balance =
     bindE (usdt_free balance) (\<lambda>usdt.
     bindE (createStateBalance P
              \<lparr>sb_usdt = usdt, sb_profitAll = Fin 0, sb_exchangeName = c_exchange config,
               sb_profitUsdt = Fin 0, sb_balanceObject = balance\<rparr>) (\<lambda>_. ret None))"

definition createNextBalance ::
    "'x platform \<Rightarrow> config \<Rightarrow> jsnum option \<Rightarrow> mem_order list \<Rightarrow> balance \<Rightarrow> ('x world, balance option) eff" where
  "createNextBalance P config profit orders balance =
     bindE (getAllProfitSession P) (\<lambda>allProfitSession.
     bindE (usdt_free balance) (\<lambda>_.
     bindE (getLastBalance P) (\<lambda>prevBalance.
     bindE (usdt_free balance) (\<lambda>usdt.
     bindE (createStateBalance P
              \<lparr>sb_usdt = usdt, sb_profitAll = nullish allProfitSession (Fin 0),
               sb_exchangeName = c_exchange config,
               sb_profitUsdt = carried_profit prevBalance orders profit,
               sb_balanceObject = balance\<rparr>) (\<lambda>_. ret (Some balance))))))"

definition saveBalanceState ::
    "'x platform \<Rightarrow> config \<Rightarrow> jsnum option \<Rightarrow> mem_order list \<Rightarrow> ('x world, balance option) eff" where
  "saveBalanceState P config profit orders =
     bindE (getBalance P SessionExchange) (\<lambda>balance.
     bindE (getLastBalance P) (\<lambda>isExisting.
       if orders = [] then ret None
       else case isExisting of
         None \<Rightarrow> createFirstBalance P config balance
       | Some _ \<Rightarrow> createNextBalance P config profit orders balance))"

definition exposure_of :: "mem_order \<Rightarrow> session_order" where
  "exposure_of r = \<lparr>sx_side = o_side r, sx_amount = o_amount r\<rparr>"

definition checkingIfClosingOrderHasBeenCreated ::
    "'x platform \<Rightarrow> config \<Rightarrow> mem_order list \<Rightarrow> string \<Rightarrow> ('x world, bool) eff" where
  "checkingIfClosingOrderHasBeenCreated P config orders indexSession =
     (if \<not> isSessionExposureClosed (map exposure_of orders) then ret False
      else bindE (calculateProfitSession P indexSession orders) (\<lambda>calculationProfit.
           bindE (saveBalanceState P config calculationProfit orders) (\<lambda>_.
           bindE (endTradeSession P calculationProfit indexSession) (\<lambda>_.
           bindE (revertActiveStateOrder P indexSession) (\<lambda>_.
           bindE (clearingOrderList SessionOps) (\<lambda>_. ret True))))))"

datatype type_session = StartNewTrade | StartOldTrade

definition startNewSession :: "'x platform \<Rightarrow> config \<Rightarrow> ('x world, type_session \<times> string) eff" where
  "startNewSession P config =
     bindE (startSession P (c_id config)) (\<lambda>indexOperation. ret (StartNewTrade, indexOperation))"

definition initTradeSession :: "'x platform \<Rightarrow> config \<Rightarrow> ('x world, type_session \<times> string) eff" where
  "initTradeSession P config =
     bindE (checkingActiveSession P (c_id config)) (\<lambda>isActiveOldSession.
       case isActiveOldSession of
         None \<Rightarrow> startNewSession P config
       | Some indexSession \<Rightarrow>
           bindE (getAllOrdersByIndexOperation P indexSession) (\<lambda>orders.
             if orders = []
             then bindE (endTradeSession P (Some (Fin 0)) indexSession) (\<lambda>_. startNewSession P config)
             else bindE (checkingIfClosingOrderHasBeenCreated P config orders indexSession) (\<lambda>completed.
               if completed then startNewSession P config
               else bindE (setOrders P SessionOps orders) (\<lambda>_. ret (StartOldTrade, indexSession)))))"

section \<open>Frames\<close>

lemma usdt_free_unchanged [unchanged_rules]: "unchanged g (usdt_free b)"
  unfolding usdt_free_def by (intro unchanged_rules)

lemma calculateProfitSession_unchanged [unchanged_rules]:
  "platform_free g \<Longrightarrow> unchanged g (calculateProfitSession P i os)"
  unfolding calculateProfitSession_def by (intro unchanged_rules)

lemma saveBalanceState_unchanged [unchanged_rules]:
  assumes "cache_free g" and "\<And>w t. g (w\<lparr>balance_history := t\<rparr>) = g w"
  shows "unchanged g (saveBalanceState P config p os)"
  unfolding saveBalanceState_def createFirstBalance_def createNextBalance_def
  by (intro unchanged_rules assms cache_free_platform [OF assms(1)])

lemma clearingOrderList_unchanged [unchanged_rules]:
  "(\<And>w t. g (w\<lparr>ops_orders := t\<rparr>) = g w) \<Longrightarrow> unchanged g (clearingOrderList i)"
  unfolding clearingOrderList_def by (intro unchanged_modify) simp

lemma publishStored_unchanged [unchanged_rules]: "wait_free g \<Longrightarrow> unchanged g (publishStored P r)"
  unfolding publishStored_def
  by (cases "o_order r") (auto intro: unchanged_rules wait_free_publish)

lemma setOrders_unchanged [unchanged_rules]:
  assumes "wait_free g" and "\<And>w t. g (w\<lparr>ops_orders := t\<rparr>) = g w"
  shows "unchanged g (setOrders P i os)"
  unfolding setOrders_def
  by (intro unchanged_rules assms(1) unchanged_modify) (rule assms(2))

lemma revertActiveStateOrder_unchanged [unchanged_rules]:
  "platform_free g \<Longrightarrow> (\<And>w t. g (w\<lparr>trade_operation := t\<rparr>) = g w) \<Longrightarrow> unchanged g (revertActiveStateOrder P i)"
  unfolding revertActiveStateOrder_def by (rule insertOrder_unchanged)

section \<open>The session table\<close>

lemma finishTradeSession_effect:
  "finishTradeSession P p i w = (r, t) \<Longrightarrow>
   trade_session t = (case r of Inl _ \<Rightarrow> trade_session w
     | Inr _ \<Rightarrow> session_finish (Option.bind p (sql_real P)) i (trade_session w))"
  by (cases "p_db_fault P (ext w)"; cases "fst (p_db_fault P (ext w))")
    (auto simp: finishTradeSession_def queryE_def)

lemma startSession_effect:
  assumes "startSession P c w = (r, t)"
  shows "trade_session t = (case r of Inl _ \<Rightarrow> trade_session w | Inr i \<Rightarrow> session_start c i (trade_session w))"
proof -
  obtain r1 w1 where gen: "generateIndexOperation P w = (r1, w1)" by force
  have frame: "trade_session w1 = trade_session w"
    using unchangedD [OF generateIdentity_unchanged(2) [of trade_session] gen] by simp
  from assms gen frame show ?thesis
    by (cases "p_db_fault P (ext w1)"; cases "fst (p_db_fault P (ext w1))"; cases r1)
      (auto simp: startSession_def bindE_def queryE_def ret_def)
qed

lemma startNewSession_effect:
  assumes "startNewSession P config w = (r, t)"
  shows "case r of Inl _ \<Rightarrow> trade_session t = trade_session w
    | Inr (ts, i) \<Rightarrow> ts = StartNewTrade \<and> trade_session t = session_start (c_id config) i (trade_session w)"
proof -
  obtain r1 w1 where s: "startSession P (c_id config) w = (r1, w1)" by force
  with assms startSession_effect [OF s] show ?thesis
    by (cases r1) (auto simp: startNewSession_def bindE_def ret_def)
qed

lemma checkingIfClosing_effect:
  assumes "checkingIfClosingOrderHasBeenCreated P config orders i w = (r, t)"
  shows "trade_session t = trade_session w \<or> (\<exists>p. trade_session t = session_finish p i (trade_session w))"
    and "r = Inr True \<Longrightarrow> \<exists>p. trade_session t = session_finish p i (trade_session w)"
    and "r = Inr False \<Longrightarrow> t = w"
proof -
  let ?closed = "isSessionExposureClosed (map exposure_of orders)"
  show "r = Inr False \<Longrightarrow> t = w"
    using assms by (auto simp: checkingIfClosingOrderHasBeenCreated_def bindE_Inr split: if_splits)
  have pre: "unchanged trade_session (calculateProfitSession P i orders)"
    "unchanged trade_session (saveBalanceState P config q orders)"
    "unchanged trade_session (revertActiveStateOrder P i)"
    "unchanged trade_session (clearingOrderList SessionOps)" for q
    by (intro unchanged_rules; simp)+
  { assume closed: ?closed
    obtain r1 w1 where s1: "calculateProfitSession P i orders w = (r1, w1)" by force
    note f1 = unchangedD [OF pre(1) s1]
    have "trade_session t = trade_session w \<and> (\<exists>e. r = Inl e) \<or>
      (\<exists>p. trade_session t = session_finish p i (trade_session w))"
    proof (cases r1)
      case (Inl e)
      with assms closed s1 f1 show ?thesis
        by (auto simp: checkingIfClosingOrderHasBeenCreated_def bindE_def)
    next
      case (Inr q)
      obtain r2 w2 where s2: "saveBalanceState P config q orders w1 = (r2, w2)" by force
      note f2 = unchangedD [OF pre(2) s2]
      obtain r3 w3 where s3: "finishTradeSession P q i w2 = (r3, w3)" by force
      note f3 = finishTradeSession_effect [OF s3]
      obtain r4 w4 where s4: "revertActiveStateOrder P i w3 = (r4, w4)" by force
      note f4 = unchangedD [OF pre(3) s4]
      obtain r5 w5 where s5: "clearingOrderList SessionOps w4 = (r5, w5)" by force
      note f5 = unchangedD [OF pre(4) s5]
      from assms closed s1 Inr s2 s3 s4 s5 f1 f2 f3 f4 f5 show ?thesis
        by (cases r2; cases r3; cases r4; cases r5)
          (auto simp: checkingIfClosingOrderHasBeenCreated_def endTradeSession_def bindE_def ret_def)
    qed }
  moreover
  { assume "\<not> ?closed"
    with assms have "t = w" "r = Inr False"
      by (simp_all add: checkingIfClosingOrderHasBeenCreated_def ret_def) }
  ultimately show "trade_session t = trade_session w \<or> (\<exists>p. trade_session t = session_finish p i (trade_session w))"
    and "r = Inr True \<Longrightarrow> \<exists>p. trade_session t = session_finish p i (trade_session w)"
    by auto
qed

text \<open>The second half of \<^verbatim>\<open>initTradeSession\<close>, once an old session was found.\<close>

lemma resume_or_restart:
  assumes "(if orders = []
      then bindE (endTradeSession P (Some (Fin 0)) i) (\<lambda>_. startNewSession P config)
      else bindE (checkingIfClosingOrderHasBeenCreated P config orders i) (\<lambda>completed.
        if completed then startNewSession P config
        else bindE (setOrders P SessionOps orders) (\<lambda>_. ret (StartOldTrade, i)))) w = (r, t)"
  shows "case r of
      Inl _ \<Rightarrow> trade_session t = trade_session w \<or> (\<exists>p. trade_session t = session_finish p i (trade_session w))
    | Inr (ts, j) \<Rightarrow> ts = StartOldTrade \<and> j = i \<and> trade_session t = trade_session w \<or>
        ts = StartNewTrade \<and>
        (\<exists>p. trade_session t = session_start (c_id config) j (session_finish p i (trade_session w)))"
proof (cases "orders = []")
  case True
  obtain r1 w1 where s1: "finishTradeSession P (Some (Fin 0)) i w = (r1, w1)" by force
  from assms True s1 finishTradeSession_effect [OF s1] startNewSession_effect [of P config w1 r t]
  show ?thesis
    by (cases r1) (auto simp: endTradeSession_def bindE_def split: sum.splits prod.splits)
next
  case False
  obtain r1 w1 where s1: "checkingIfClosingOrderHasBeenCreated P config orders i w = (r1, w1)" by force
  note eff1 = checkingIfClosing_effect [OF s1]
  show ?thesis
  proof (cases r1)
    case (Inl e)
    with assms False s1 have "r = Inl e" "t = w1" by (simp_all add: bindE_def)
    with eff1 show ?thesis by simp
  next
    case (Inr completed)
    show ?thesis
    proof (cases completed)
      case True
      with eff1(2) Inr obtain p where p: "trade_session w1 = session_finish p i (trade_session w)" by auto
      from assms False s1 Inr True have "startNewSession P config w1 = (r, t)" by (simp add: bindE_def)
      from startNewSession_effect [OF this] p show ?thesis by (auto split: sum.splits prod.splits)
    next
      case no: False
      with eff1(3) Inr have "w1 = w" by auto
      obtain r2 w2 where s2: "setOrders P SessionOps orders w = (r2, w2)" by force
      have "unchanged trade_session (setOrders P SessionOps orders)"
        by (intro unchanged_rules) simp_all
      from unchangedD [OF this s2] assms False s1 Inr no \<open>w1 = w\<close> s2 show ?thesis
        by (cases r2) (auto simp: bindE_def ret_def)
    qed
  qed
qed

text \<open>What \<^verbatim>\<open>initTradeSession\<close> leaves in the session table, case by case.\<close>

lemma initTradeSession_effect:
  assumes "initTradeSession P config w = (r, t)"
  shows "case session_active (trade_session w) (c_id config) of
      None \<Rightarrow> (case r of Inl _ \<Rightarrow> trade_session t = trade_session w
        | Inr (ts, j) \<Rightarrow> ts = StartNewTrade \<and> trade_session t = session_start (c_id config) j (trade_session w))
    | Some i \<Rightarrow> (case r of
          Inl _ \<Rightarrow> trade_session t = trade_session w \<or> (\<exists>p. trade_session t = session_finish p i (trade_session w))
        | Inr (ts, j) \<Rightarrow> ts = StartOldTrade \<and> j = i \<and> trade_session t = trade_session w \<or>
            ts = StartNewTrade \<and> (\<exists>p. trade_session t = session_start (c_id config) j (session_finish p i (trade_session w))))"
proof -
  obtain f x where fault: "p_db_fault P (ext w) = (f, x)" by force
  show ?thesis
  proof (cases f)
    case (Some e)
    with fault assms have "r = Inl e" "t = w\<lparr>ext := x\<rparr>"
      by (auto simp: initTradeSession_def checkingActiveSession_def bindE_def queryE_def)
    then show ?thesis by (simp split: option.splits)
  next
    case None
    let ?w = "w\<lparr>ext := x\<rparr>"
    have chk: "checkingActiveSession P (c_id config) w = (Inr (session_active (trade_session w) (c_id config)), ?w)"
      using fault None by (simp add: checkingActiveSession_def queryE_def)
    show ?thesis
    proof (cases "session_active (trade_session w) (c_id config)")
      case None
      with assms chk have "startNewSession P config ?w = (r, t)"
        by (simp add: initTradeSession_def bindE_def)
      from startNewSession_effect [OF this] None show ?thesis by (auto split: sum.splits prod.splits)
    next
      case (Some i)
      obtain r1 w1 where s1: "getAllOrdersByIndexOperation P i ?w = (r1, w1)" by force
      have w1: "trade_session w1 = trade_session w"
        using unchangedD [OF repository_reads_unchanged(3) [of trade_session] s1] by simp
      show ?thesis
      proof (cases r1)
        case (Inl e)
        with assms chk Some s1 have "r = Inl e" "t = w1"
          by (simp_all add: initTradeSession_def bindE_def)
        with Some w1 show ?thesis by simp
      next
        case (Inr orders)
        with assms chk Some s1 have rest: "(if orders = []
             then bindE (endTradeSession P (Some (Fin 0)) i) (\<lambda>_. startNewSession P config)
             else bindE (checkingIfClosingOrderHasBeenCreated P config orders i) (\<lambda>completed.
               if completed then startNewSession P config
               else bindE (setOrders P SessionOps orders) (\<lambda>_. ret (StartOldTrade, i)))) w1 = (r, t)"
          by (simp add: initTradeSession_def bindE_def)
        from resume_or_restart [OF this] Some w1 show ?thesis
          by (auto split: sum.splits prod.splits)
      qed
    qed
  qed
qed

section \<open>Profit and balance\<close>

fun num :: "jsnum \<Rightarrow> rat" where
  "num (Fin a) = a"
| "num _ = 0"

lemma Fin_num: "isFinite x \<Longrightarrow> Fin (num x) = x"
  by (cases x) simp_all

definition finite_row :: "trade_operation_row \<Rightarrow> bool" where
  "finite_row r \<longleftrightarrow> isFinite (op_price r) \<and> isFinite (op_amount r)"

text \<open>What an entry earned (lost) when it was closed at a price.\<close>

definition realised :: "mode \<Rightarrow> rat \<Rightarrow> trade_operation_row \<Rightarrow> rat" where
  "realised close_side price r =
     (if close_side = Sell then num (op_amount r) * (price - num (op_price r))
      else num (op_amount r) * (num (op_price r) - price))"

lemma sum_amounts: "list_all finite_row rows \<Longrightarrow> sum_list (map op_amount rows) = Fin (\<Sum>r\<leftarrow>rows. num (op_amount r))"
proof (induction rows)
  case (Cons r rows)
  then show ?case by (cases "op_amount r") (simp_all add: finite_row_def)
qed (simp add: zero_jsnum_def)

lemma sum_costs:
  "list_all finite_row rows \<Longrightarrow>
   sum_list (map (\<lambda>r. op_price r * op_amount r) rows) = Fin (\<Sum>r\<leftarrow>rows. num (op_price r) * num (op_amount r))"
proof (induction rows)
  case (Cons r rows)
  then show ?case by (cases "op_amount r"; cases "op_price r") (simp_all add: finite_row_def)
qed (simp add: zero_jsnum_def)

lemma sum_realised:
  "(\<Sum>r\<leftarrow>rows. realised Sell p r) = (\<Sum>r\<leftarrow>rows. num (op_amount r)) * p - (\<Sum>r\<leftarrow>rows. num (op_price r) * num (op_amount r))"
  "(\<Sum>r\<leftarrow>rows. realised Buy p r) = (\<Sum>r\<leftarrow>rows. num (op_price r) * num (op_amount r)) - (\<Sum>r\<leftarrow>rows. num (op_amount r)) * p"
  by (induction rows) (simp_all add: realised_def algebra_simps)

lemma session_profit_realised:
  assumes "list_all finite_row rows" and "rows \<noteq> []"
  shows "session_profit (Some side) (Fin p) rows = Some (Fin (\<Sum>r\<leftarrow>rows. realised side p r))"
  using assms(2)
  by (cases side) (simp_all add: session_profit_def Let_def sum_amounts [OF assms(1)] sum_costs [OF assms(1)] sum_realised)

lemma getProfitForTradeSession_returns:
  assumes "getProfitForTradeSession P idx side orders w = (Inr profit, t)"
    and "filter (\<lambda>r. op_index_operation r = idx \<and>
           op_order_id r = nullish (o_orderId (last orders)) (o_id (last orders))) (trade_operation w) = close # rest"
  shows "profit = session_profit side (op_price close) (active_session_rows idx (trade_operation w))"
proof -
  have "orders \<noteq> []"
    using assms(1) by (auto simp: getProfitForTradeSession_def)
  with assms show ?thesis
    by (auto simp: getProfitForTradeSession_def bindE_Inr queryE_Inr split: if_splits)
qed

lemma createStateBalance_reliable:
  assumes "reliable_db P" and "createStateBalance P b w = (r, t)"
  obtains n i where "balance_history t = balance_history w @
    [\<lparr>ba_usdt = sb_usdt b, ba_profit_all = sb_profitAll b, ba_exchange_name = sb_exchangeName b,
      ba_update_date = n, ba_profit_usdt = sb_profitUsdt b, ba_id = i, ba_balance_object = sb_balanceObject b\<rparr>]"
proof -
  obtain n x where n: "p_now P (ext w) = (n, x)" by force
  obtain y where "p_db_fault P x = (None, y)"
    using assms(1) by (metis prod.collapse reliable_db_def)
  with assms(2) n that show ?thesis
    by (auto simp: createStateBalance_def eff_defs Date_now_def queryE_def)
qed

lemma createNextBalance_row:
  assumes "reliable_db P" and "createNextBalance P config profit orders b w = (Inr saved, t)"
    and "p_latest P (balance_history w) = Some prev"
  shows "\<exists>row. balance_history t = balance_history w @ [row] \<and>
    (case p_app_mode P of
       Web \<Rightarrow> ba_profit_usdt row = NaN
     | Desktop \<Rightarrow> ba_profit_all row = Fin 0 \<and>
         ba_profit_usdt row = ba_profit_usdt prev + usdt_profit orders profit)"
proof -
  have same: "unchanged balance_history (getLastBalance P)" "unchanged balance_history (getAllProfitSession P)"
    by (intro unchanged_rules; simp)+
  from assms(2) obtain total usdt l w1 w2 x where s1: "getAllProfitSession P w = (Inr total, w1)"
    and s2: "getLastBalance P w1 = (Inr l, w2)"
    and s3: "createStateBalance P
       \<lparr>sb_usdt = usdt, sb_profitAll = nullish total (Fin 0), sb_exchangeName = c_exchange config,
        sb_profitUsdt = carried_profit l orders profit, sb_balanceObject = b\<rparr> w2 = (x, t)"
    by (auto simp: createNextBalance_def bindE_Inr usdt_free_def split: option.splits)
  have h1: "balance_history w1 = balance_history w" and h2: "balance_history w2 = balance_history w"
    using unchangedD [OF same(2) s1] unchangedD [OF same(1) s2] by simp_all
  have l: "l = Some (balance_read P prev)"
    using s2 h1 assms(3) by (auto simp: getLastBalance_def queryE_Inr)
  have total: "total = None" if "p_app_mode P = Desktop"
    using s1 that by (auto simp: getAllProfitSession_def queryE_Inr)
  obtain n i where "balance_history t = balance_history w2 @
    [\<lparr>ba_usdt = usdt, ba_profit_all = nullish total (Fin 0), ba_exchange_name = c_exchange config,
      ba_update_date = n, ba_profit_usdt = carried_profit l orders profit, ba_id = i, ba_balance_object = b\<rparr>]"
    by (rule createStateBalance_reliable [OF assms(1) s3]) simp
  with l total h2 show ?thesis
    by (cases "p_app_mode P") (simp_all add: carried_profit_def balance_read_def)
qed

text \<open>A row of a session, for the concrete runs below.\<close>

definition sim_row :: "nat \<Rightarrow> mode \<Rightarrow> rat \<Rightarrow> rat \<Rightarrow> string \<Rightarrow> trade_operation_row" where
  "sim_row n side price amount oid =
     \<lparr>op_id = n, op_price = Fin price, op_side = side, op_symbol = ''ETH/USDT'', op_is_active = True,
      op_is_delete = False, op_order_id = oid, op_order = blank_order, op_index_operation = ''s1'',
      op_amount = Fin amount\<rparr>"

section \<open>Properties\<close>

text \<open>
  C4: a configuration never has two active sessions. If each configuration has at most one active
  session before \<^verbatim>\<open>initTradeSession\<close>, the same holds after it, whether it returns or throws; and
  when it returns, the session it returned is the active session of the configuration. An old
  session is only resumed if it was the active one.
\<close>

theorem init_session_is_active:
  assumes "one_active_session (trade_session w)" and "initTradeSession P config w = (r, t)"
  shows "one_active_session (trade_session t) \<and>
    (case r of
       Inl _ \<Rightarrow> True
     | Inr (ts, i) \<Rightarrow> session_active (trade_session t) (c_id config) = Some i \<and>
         (ts = StartOldTrade \<longrightarrow> session_active (trade_session w) (c_id config) = Some i))"
proof (cases "session_active (trade_session w) (c_id config)")
  case None
  with assms initTradeSession_effect [OF assms(2)] sessions.inv_start sessions.active_start
  show ?thesis by (auto split: sum.splits prod.splits)
next
  case (Some i)
  with assms initTradeSession_effect [OF assms(2)] sessions.inv_finish [OF assms(1)]
    sessions.replace_session [OF assms(1) Some]
  show ?thesis by (auto split: sum.splits prod.splits)
qed

theorem init_session_is_active_witness:
  "\<exists>i t. initTradeSession (sim_platform Desktop) sim_config (sim_world sim_start) = (Inr (StartNewTrade, i), t) \<and>
     one_active_session (trade_session t) \<and> session_active (trade_session t) (c_id sim_config) = Some i"
proof -
  have "\<exists>i t. initTradeSession (sim_platform Desktop) sim_config (sim_world sim_start) = (Inr (StartNewTrade, i), t)"
    by (simp add: initTradeSession_def checkingActiveSession_def startNewSession_def startSession_def
        generateIndexOperation_def eval_nat_numeral randomE_def session_active_def queryE_def eff_defs sim_defs)
  then obtain i t where
    run: "initTradeSession (sim_platform Desktop) sim_config (sim_world sim_start) = (Inr (StartNewTrade, i), t)" by blast
  have "one_active_session (trade_session (sim_world sim_start))"
    by (simp add: sim_world_def one_active_session_def)
  from init_session_is_active [OF this run] run show ?thesis by auto
qed

text \<open>
  C8: the recorded profit of a session is the profit of its entries. When the last order of the
  list is the closing order and is the last active row of the session, \<^verbatim>\<open>calculateProfitSession\<close>
  returns the sum over the other rows of the amount times the distance to the closing price, with
  the sign of the position: the closing row itself contributes nothing, although the SQL sums over
  it too.
\<close>

theorem session_profit_is_realised_profit:
  assumes "calculateProfitSession P idx orders w = (Inr profit, t)"
    and "o_side (last orders) = Some side"
    and "active_session_rows idx (trade_operation w) = entries @ [close]"
    and "find (\<lambda>r. op_index_operation r = idx \<and>
           op_order_id r = nullish (o_orderId (last orders)) (o_id (last orders))) (trade_operation w) = Some close"
    and "list_all finite_row (entries @ [close])"
  shows "profit = Some (Fin (\<Sum>r\<leftarrow>entries. realised side (num (op_price close)) r))"
proof -
  let ?q = "\<lambda>r. op_index_operation r = idx \<and>
    op_order_id r = nullish (o_orderId (last orders)) (o_id (last orders))"
  let ?rows = "entries @ [close]"
  obtain rest where rest: "filter ?q (trade_operation w) = close # rest"
    using find_Some_filter [OF assms(4)] by blast
  have fin: "isFinite (op_price close)" "Fin (num (op_price close)) = op_price close"
    using assms(5) by (simp_all add: finite_row_def Fin_num)
  have "orders \<noteq> []"
    using assms(1) by (auto simp: calculateProfitSession_def)
  with assms(1,2) have "getProfitForTradeSession P idx (Some side) orders w = (Inr profit, t)"
    by (simp add: calculateProfitSession_def)
  from getProfitForTradeSession_returns [OF this rest]
  have "profit = session_profit (Some side) (Fin (num (op_price close))) ?rows"
    by (simp add: assms(3) fin(2))
  also have "\<dots> = Some (Fin (\<Sum>r\<leftarrow>?rows. realised side (num (op_price close)) r))"
    by (rule session_profit_realised [OF assms(5)]) simp
  also have "(\<Sum>r\<leftarrow>?rows. realised side (num (op_price close)) r) =
    (\<Sum>r\<leftarrow>entries. realised side (num (op_price close)) r)"
    by (simp add: realised_def)
  finally show ?thesis .
qed

theorem session_profit_is_realised_profit_witness:
  "fst (calculateProfitSession (sim_platform Desktop) ''s1'' [as_mem (blank_order\<lparr>o_id := ''b'', o_side := Some Sell\<rparr>)]
     ((sim_world sim_start)\<lparr>trade_operation := [sim_row 1 Buy 100 2 ''a'', sim_row 2 Sell 110 2 ''b'']\<rparr>))
   = Inr (Some (Fin 20))"
proof -
  let ?orders = "[as_mem (blank_order\<lparr>o_id := ''b'', o_side := Some Sell\<rparr>)]"
  let ?w = "(sim_world sim_start)\<lparr>trade_operation := [sim_row 1 Buy 100 2 ''a'', sim_row 2 Sell 110 2 ''b'']\<rparr>"
  have "\<exists>profit t. calculateProfitSession (sim_platform Desktop) ''s1'' ?orders ?w = (Inr profit, t)"
    by (simp add: calculateProfitSession_def getProfitForTradeSession_def queryE_def eff_defs sim_row_def sim_defs)
  then obtain profit t where run: "calculateProfitSession (sim_platform Desktop) ''s1'' ?orders ?w = (Inr profit, t)"
    by blast
  have "profit = Some (Fin (\<Sum>r\<leftarrow>[sim_row 1 Buy 100 2 ''a'']. realised Sell (num (op_price (sim_row 2 Sell 110 2 ''b''))) r))"
  proof (rule session_profit_is_realised_profit [OF run])
    show "active_session_rows ''s1'' (trade_operation ?w) = [sim_row 1 Buy 100 2 ''a''] @ [sim_row 2 Sell 110 2 ''b'']"
      by (simp add: active_session_rows_def sim_row_def)
  qed (simp_all add: sim_row_def finite_row_def)
  with run show ?thesis by (simp add: realised_def sim_row_def)
qed

text \<open>
  What a finished session writes into the balance history, once the history has a row. On the
  desktop the new row carries on the profit of the latest row plus that of the session (for a
  session that began with a buy) but its total profit is always 0, because the sum over the
  sessions is read under a name SQLite does not give it. On the web the carried profit becomes NaN,
  because the previous value is read under a name PostgreSQL does not give it.
\<close>

theorem balance_state_row:
  assumes "reliable_db P" and "saveBalanceState P config profit orders w = (Inr saved, t)"
    and "orders \<noteq> []" and "p_latest P (balance_history w) = Some prev"
  shows "\<exists>row. balance_history t = balance_history w @ [row] \<and>
    (case p_app_mode P of
       Web \<Rightarrow> ba_profit_usdt row = NaN
     | Desktop \<Rightarrow> ba_profit_all row = Fin 0 \<and>
         ba_profit_usdt row = ba_profit_usdt prev + usdt_profit orders profit)"
proof -
  have same: "unchanged balance_history (getBalance P SessionExchange)" "unchanged balance_history (getLastBalance P)"
    by (intro unchanged_rules; simp)+
  from assms(2,3) obtain b l w1 w2 where s1: "getBalance P SessionExchange w = (Inr b, w1)"
    and s2: "getLastBalance P w1 = (Inr l, w2)"
    and rest: "(case l of None \<Rightarrow> createFirstBalance P config b
      | Some _ \<Rightarrow> createNextBalance P config profit orders b) w2 = (Inr saved, t)"
    by (auto simp: saveBalanceState_def bindE_Inr)
  have h1: "balance_history w1 = balance_history w" and h2: "balance_history w2 = balance_history w"
    using unchangedD [OF same(1) s1] unchangedD [OF same(2) s2] by simp_all
  from s2 h1 assms(4) have "l = Some (balance_read P prev)"
    by (auto simp: getLastBalance_def queryE_Inr)
  with rest have "createNextBalance P config profit orders b w2 = (Inr saved, t)" by simp
  from createNextBalance_row [OF assms(1) this] h2 assms(4) show ?thesis by simp
qed

theorem balance_state_row_witness:
  "\<exists>saved t row. saveBalanceState (sim_platform Web\<lparr>p_db_fault := \<lambda>x. (None, x)\<rparr>) sim_config (Some (Fin 20))
       [as_mem (blank_order\<lparr>o_side := Some Buy\<rparr>)]
       ((sim_world sim_start)\<lparr>balance_history := [\<lparr>ba_usdt = None, ba_profit_all = Fin 0, ba_exchange_name = okx,
          ba_update_date = 0, ba_profit_usdt = Fin 5, ba_id = 1, ba_balance_object = []\<rparr>]\<rparr>) = (Inr saved, t) \<and>
     last (balance_history t) = row \<and> ba_profit_usdt row = NaN"
proof -
  let ?P = "sim_platform Web\<lparr>p_db_fault := \<lambda>x. (None, x)\<rparr>"
  let ?prev = "\<lparr>ba_usdt = None, ba_profit_all = Fin 0, ba_exchange_name = okx,
          ba_update_date = 0, ba_profit_usdt = Fin 5, ba_id = 1, ba_balance_object = []\<rparr>"
  let ?w = "(sim_world sim_start)\<lparr>balance_history := [?prev]\<rparr>"
  let ?orders = "[as_mem (blank_order\<lparr>o_side := Some Buy\<rparr>)]"
  have "\<exists>saved t. saveBalanceState ?P sim_config (Some (Fin 20)) ?orders ?w = (Inr saved, t)"
    by (simp add: saveBalanceState_def createNextBalance_def getBalance_def readWithRetry_def eval_nat_numeral
        getLastBalance_def getAllProfitSession_def usdt_free_def createStateBalance_def queryE_def ccxt_call_def
        Date_now_def Let_def eff_defs sim_defs)
  then obtain saved t where run: "saveBalanceState ?P sim_config (Some (Fin 20)) ?orders ?w = (Inr saved, t)" by blast
  have "reliable_db ?P" "p_latest ?P (balance_history ?w) = Some ?prev" "?orders \<noteq> []"
    by (simp_all add: reliable_db_def sim_platform_def)
  from balance_state_row [OF this(1) run this(3,2)] run show ?thesis
    by (auto simp: sim_platform_def)
qed

end
