(* ===== verification/Abstract_Trading.thy ===== *)
theory Abstract_Trading
  imports Session_Trading
begin

text \<open>
  \<^verbatim>\<open>src/trading-service/abstract.trading.ts\<close> and its subclass
  \<^verbatim>\<open>src/trading-service/TradingVectorProfitService/TradingVectorProfitService.ts\<close>: entering a
  position, watching it (emergency stop, stop loss, take profit, buy back), trailing the price
  after the target is reached, and ending the session.

  The fields of the class are arguments: \<open>config0\<close> is the configuration the services were built
  with, the configuration that \<^verbatim>\<open>_reloadConfig\<close> replaces is part of the state of the watching
  loop, \<open>symbol\<close> is \<^verbatim>\<open>_SYMBOL\<close> and \<open>idx\<close> is \<^verbatim>\<open>_indexOperation\<close>. Two loops of the code run until the
  market ends them; they take a number of iterations, and a result of None says that they have not
  ended within it. Console output and the socket of \<^verbatim>\<open>LoggerService\<close> are left out.
\<close>

section \<open>Small helpers\<close>

definition getCurrencyBreakdown :: "string \<Rightarrow> string \<times> string" where
  "getCurrencyBreakdown symbol =
     (if CHR ''/'' \<in> set symbol
      then (takeWhile (\<lambda>c. c \<noteq> CHR ''/'') symbol, tl (dropWhile (\<lambda>c. c \<noteq> CHR ''/'') symbol))
      else (butlast symbol, symbol))"

text \<open>\<open>order.amount * order.price\<close> summed over all orders.\<close>

definition turnover :: "mem_order list \<Rightarrow> jsnum" where
  "turnover orders = reduce_sum (\<lambda>r. Number (o_amount r) * Number (o_price r)) orders"

definition getDeltaForSale :: "config \<Rightarrow> mem_order list \<Rightarrow> mode \<Rightarrow> jsnum \<Rightarrow> jsnum \<Rightarrow> jsnum \<Rightarrow> jsnum" where
  "getDeltaForSale config orders side buyingBack price lastPrice =
     (if side = Sell \<and> c_isCapitalizeDeltaFromSale config
      then (turnover orders - buyingBack * price) / lastPrice else Fin 0)"

definition getDeltaForBuy :: "config \<Rightarrow> mem_order list \<Rightarrow> mode \<Rightarrow> jsnum \<Rightarrow> jsnum \<Rightarrow> jsnum \<Rightarrow> jsnum" where
  "getDeltaForBuy config orders side buyingBack price lastPrice =
     (if side = Buy \<and> c_isCoinAccumulation config
      then (buyingBack * price - turnover orders) / lastPrice else Fin 0)"

section \<open>Ending a session\<close>

definition closeTradeSession :: "'x platform \<Rightarrow> config \<Rightarrow> string \<Rightarrow> jsnum \<Rightarrow> ('x world, unit) eff" where
  "closeTradeSession P config0 idx deltaForSale =
     bindE (getsE (\<lambda>w. ops_orders w StrategyOps)) (\<lambda>orders.
     bindE (calculateProfitSession P idx orders) (\<lambda>profit.
       let total = nullish profit (Fin 0) + deltaForSale
       in bindE (saveBalanceState P config0 (Some total) orders) (\<lambda>_.
          bindE (endTradeSession P (Some total) idx) (\<lambda>_.
          bindE (revertActiveStateOrder P idx) (\<lambda>_. clearingOrderList StrategyOps)))))"

text \<open>The exit of the emergency stop and of the stop loss.\<close>

definition closeAndEnd :: "'x platform \<Rightarrow> config \<Rightarrow> string \<Rightarrow> string \<Rightarrow> jsnum \<Rightarrow> ('x world, unit) eff" where
  "closeAndEnd P config0 symbol idx deltaForSale =
     bindE (closeFilledPosition P StrategyOps symbol idx) (\<lambda>closingOrder.
       if closingOrder \<noteq> None then closeTradeSession P config0 idx deltaForSale else ret ())"

section \<open>Trailing the price\<close>

definition calculateTarget :: "mode \<Rightarrow> jsnum \<Rightarrow> bool \<Rightarrow> jsnum \<Rightarrow> jsnum" where
  "calculateTarget side reversePriceIndent isTake actualPrice =
     (if isTake then (if side = Sell then actualPrice + reversePriceIndent else actualPrice - reversePriceIndent)
      else (if side = Sell then actualPrice - reversePriceIndent else actualPrice + reversePriceIndent))"

definition stop_reached :: "mode \<Rightarrow> jsnum \<Rightarrow> jsnum \<Rightarrow> bool" where
  "stop_reached side lastPrice targetStopProfit \<longleftrightarrow>
     side = Sell \<and> lastPrice \<le> targetStopProfit \<or> side = Buy \<and> lastPrice \<ge> targetStopProfit"

definition take_reached :: "mode \<Rightarrow> jsnum \<Rightarrow> jsnum \<Rightarrow> bool" where
  "take_reached side lastPrice targetTakeProfit \<longleftrightarrow>
     side = Sell \<and> lastPrice \<ge> targetTakeProfit \<or> side = Buy \<and> lastPrice \<le> targetTakeProfit"

text \<open>The pair of targets (take, stop) after a price that did not reach the stop.\<close>

definition retarget :: "mode \<Rightarrow> jsnum \<Rightarrow> jsnum \<Rightarrow> jsnum \<times> jsnum \<Rightarrow> jsnum \<times> jsnum" where
  "retarget side indent lastPrice targets =
     (if take_reached side lastPrice (fst targets)
      then (calculateTarget side indent True lastPrice, calculateTarget side indent False lastPrice)
      else targets)"

fun priceTracker_loop ::
    "'x platform \<Rightarrow> nat \<Rightarrow> string \<Rightarrow> string \<Rightarrow> mode \<Rightarrow> jsnum \<Rightarrow> jsnum \<times> jsnum \<Rightarrow> ('x world, bool option) eff" where
  "priceTracker_loop P 0 symbol idx side indent targets = ret None"
| "priceTracker_loop P (Suc n) symbol idx side indent targets =
     bindE (getsE (\<lambda>w. ops_orders w StrategyOps)) (\<lambda>orders.
       case orders of
         [] \<Rightarrow> throwE (newError ''Orders not found!'')
       | first # _ \<Rightarrow>
           bindE (getPrice P symbol) (\<lambda>lastPrice.
           bindE (getUnrealizedPnl P symbol (Number (o_price first)) (o_side first)) (\<lambda>_.
             if stop_reached side lastPrice (snd targets)
             then bindE (closeFilledPosition P StrategyOps symbol idx) (\<lambda>closingOrder.
                    ret (Some (closingOrder \<noteq> None)))
             else bindE (sleepE P 1000) (\<lambda>_.
                    priceTracker_loop P n symbol idx side indent (retarget side indent lastPrice targets)))))"

definition onPriceTracker ::
    "'x platform \<Rightarrow> nat \<Rightarrow> config \<Rightarrow> string \<Rightarrow> string \<Rightarrow> mode \<Rightarrow> ('x world, bool option) eff" where
  "onPriceTracker P n config symbol idx side =
     catchE (bindE (getPrice P symbol) (\<lambda>price.
       let reversePriceIndent = price * c_percentTargetAfterTakeProfit config
       in priceTracker_loop P n symbol idx side reversePriceIndent
            (calculateTarget side reversePriceIndent True price, calculateTarget side reversePriceIndent False price)))
       (\<lambda>_. ret (Some False))"

section \<open>TradingVectorProfitService\<close>

record take_profit_param =
  tp_side :: mode
  tp_profitPrice :: jsnum
  tp_unrealizedPnl :: jsnum

text \<open>What \<^verbatim>\<open>_watchingProcess\<close> gets as \<^verbatim>\<open>watchingTakeProfitLogic\<close>, over the current configuration.\<close>

type_synonym 'x take_profit_logic = "config \<Rightarrow> take_profit_param \<Rightarrow> ('x world, bool option) eff"

definition watchingTakeProfitLogic :: "'x platform \<Rightarrow> nat \<Rightarrow> string \<Rightarrow> string \<Rightarrow> 'x take_profit_logic" where
  "watchingTakeProfitLogic P n symbol idx config param =
     (if tp_unrealizedPnl param \<ge> c_percentProfit config
      then if c_isPercentTargetAfterTakeProfit config
           then bindE (onPriceTracker P n config symbol idx (if tp_side param = Sell then Buy else Sell)) (\<lambda>r. ret r)
           else bindE (closeFilledPosition P StrategyOps symbol idx) (\<lambda>closingOrder.
                  ret (Some (closingOrder \<noteq> None)))
      else ret (Some False))"

definition endAlgorithms :: "'x platform \<Rightarrow> string \<Rightarrow> string \<Rightarrow> ('x world, unit) eff" where
  "endAlgorithms P symbol idx =
     (if symbol = [] then ret () else bindE (closeFilledPosition P StrategyOps symbol idx) (\<lambda>_. ret ()))"

section \<open>Watching a position\<close>

record watch_state =
  wt_config :: config
  wt_buyingBack :: jsnum
  wt_drawdownStep :: nat

text \<open>The values one iteration of the loop computes before it decides.\<close>

record market =
  mk_config :: config
  mk_balance :: balance
  mk_side :: mode
  mk_lastPrice :: jsnum
  mk_entryAmount :: jsnum
  mk_averageEntryPrice :: jsnum
  mk_metrics :: position_metrics
  mk_buyBackAmount :: jsnum
  mk_profitPrice :: jsnum
  mk_deltaForSale :: jsnum
  mk_deltaForBuy :: jsnum

definition averageEntry :: "mem_order list \<Rightarrow> mode \<Rightarrow> jsnum \<Rightarrow> jsnum \<times> jsnum" where
  "averageEntry orders entrySide price =
     (let entryOrders = filter (\<lambda>r. o_side r = Some entrySide) orders;
          entryAmount = reduce_sum (\<lambda>r. Number (o_amount r)) entryOrders
      in (entryAmount,
          if entryAmount > Fin 0
          then reduce_sum (\<lambda>r. Number (o_price r) * Number (o_amount r)) entryOrders / entryAmount
          else price))"

definition profitPriceOf :: "mode \<Rightarrow> jsnum \<Rightarrow> jsnum \<Rightarrow> jsnum" where
  "profitPriceOf entrySide averageEntryPrice percentProfit =
     averageEntryPrice + (if entrySide = Sell then - (averageEntryPrice * percentProfit)
                          else averageEntryPrice * percentProfit)"

definition readMarket :: "'x platform \<Rightarrow> string \<Rightarrow> watch_start \<Rightarrow> watch_state \<Rightarrow> ('x world, market) eff" where
  "readMarket P symbol start st =
     bindE (getConfigById P (c_id (wt_config st))) (\<lambda>config.
     bindE (getBalance P StrategyExchange) (\<lambda>balance.
     bindE (getsE (\<lambda>w. ops_orders w StrategyOps)) (\<lambda>orders.
     bindE (liftE (resolvePositionSide (Option.bind (ws_firstOrder start) o_side) (map o_side orders))) (\<lambda>side.
     bindE (getPrice P symbol) (\<lambda>lastPrice.
       let price = Number (ws_price start);
           (entryAmount, averageEntryPrice) = averageEntry orders side price
       in bindE (liftE (calculatePositionMetrics side averageEntryPrice lastPrice entryAmount)) (\<lambda>metrics.
          bindE (liftE (calculateBuyBackAmount averageEntryPrice (c_percentBuyBackStep config)
                   (Fin (of_nat (wt_drawdownStep st))))) (\<lambda>buyBackAmount.
          ret \<lparr>mk_config = config, mk_balance = balance, mk_side = side, mk_lastPrice = lastPrice,
               mk_entryAmount = entryAmount, mk_averageEntryPrice = averageEntryPrice, mk_metrics = metrics,
               mk_buyBackAmount = buyBackAmount,
               mk_profitPrice = profitPriceOf side averageEntryPrice (c_percentProfit config),
               mk_deltaForSale = getDeltaForSale config orders side (wt_buyingBack st) price lastPrice,
               mk_deltaForBuy = getDeltaForBuy config orders side (wt_buyingBack st) price lastPrice\<rparr>)))))))"

definition positionStrategy ::
    "'x platform \<Rightarrow> mode \<Rightarrow> setting_order \<Rightarrow> string \<Rightarrow> ('x world, unit) eff" where
  "positionStrategy P side settingOrder idx =
     bindE (openPositionForStrategy P StrategyOps side settingOrder idx) (\<lambda>_. ret ())"

text \<open>The averaging order; the result is the state of the next iteration.\<close>

definition buyBack ::
    "'x platform \<Rightarrow> string \<Rightarrow> string \<Rightarrow> watch_state \<Rightarrow> market \<Rightarrow> ('x world, watch_state) eff" where
  "buyBack P symbol idx st m =
     (let (firstCurrency, secondCurrency) = getCurrencyBreakdown symbol;
          nativeCurrency = (if mk_side m = Sell then firstCurrency else secondCurrency)
      in if mk_buyBackAmount m > Fin 0 \<and> pnlPerUnit (mk_metrics m) \<le> - mk_buyBackAmount m
         then case map_of (mk_balance m) nativeCurrency of
             None \<Rightarrow> throwE (typeError ''Cannot read properties of undefined (reading free)'')
           | Some currency \<Rightarrow>
               let amountForBuyBack = calculateBuyBackOrderAmount
                     \<lparr>bb_side = mk_side m, bb_availableBalance = Number (cu_free currency),
                      bb_lastPrice = mk_lastPrice m,
                      bb_percentFromBalance = c_percentFromBalance (mk_config m),
                      bb_positionSize = c_positionSize (mk_config m),
                      bb_drawdownStep = Fin (of_nat (wt_drawdownStep st)),
                      bb_fibonacci = c_isFibonacci (mk_config m)\<rparr>
               in if amountForBuyBack > Fin 0
                  then bindE (positionStrategy P (mk_side m)
                         \<lparr>so_symbol = symbol, so_type = Limit, so_amount = amountForBuyBack,
                          so_price = mk_lastPrice m\<rparr> idx) (\<lambda>_.
                       ret (st\<lparr>wt_drawdownStep := Suc (wt_drawdownStep st),
                               wt_buyingBack := wt_buyingBack st + amountForBuyBack\<rparr>))
                  else ret st
         else ret st)"

text \<open>A configured stop loss: undefined, null, 0 and NaN are falsy.\<close>

definition stopLossHit :: "config \<Rightarrow> jsnum \<Rightarrow> bool" where
  "stopLossHit config unrealizedPnl =
     (case c_stopLoss config of
        None \<Rightarrow> False
      | Some s \<Rightarrow> s \<noteq> Fin 0 \<and> \<not> isNaN s \<and> unrealizedPnl \<le> - s)"

datatype watch_result = Again watch_state | Done | Unfinished

text \<open>The decisions of one iteration, in the order the code takes them.\<close>

definition decideStep ::
    "'x platform \<Rightarrow> config \<Rightarrow> string \<Rightarrow> string \<Rightarrow> 'x take_profit_logic option \<Rightarrow> ('x world, unit) eff option \<Rightarrow>
     watch_state \<Rightarrow> market \<Rightarrow> ('x world, watch_result) eff" where
  "decideStep P config0 symbol idx takeProfitLogic gridLogic st m =
     (let config = mk_config m; pnl = pnlRatio (mk_metrics m)
      in if c_isEmergencyStop config
         then bindE (disableEmergencyStop P) (\<lambda>_.
              bindE (closeAndEnd P config0 symbol idx (mk_deltaForSale m)) (\<lambda>_. ret Done))
         else if c_isCapitalizeDeltaFromSale config \<and> isNaN (mk_deltaForSale m) \<or>
                 c_isCoinAccumulation config \<and> isNaN (mk_deltaForBuy m)
         then throwE (newError ''Delta is not a number!'')
         else case gridLogic of
           Some grid \<Rightarrow> bindE grid (\<lambda>_. ret Done)
         | None \<Rightarrow>
             if stopLossHit config pnl
             then bindE (closeAndEnd P config0 symbol idx (mk_deltaForSale m)) (\<lambda>_. ret Done)
             else bindE (case takeProfitLogic of
                      None \<Rightarrow> ret (Some False)
                    | Some logic \<Rightarrow> logic config
                        \<lparr>tp_side = mk_side m, tp_profitPrice = mk_profitPrice m, tp_unrealizedPnl = pnl\<rparr>) (\<lambda>result.
                  case result of
                    None \<Rightarrow> ret Unfinished
                  | Some True \<Rightarrow> bindE (closeTradeSession P config0 idx (mk_deltaForSale m)) (\<lambda>_. ret Done)
                  | Some False \<Rightarrow>
                      bindE (buyBack P symbol idx (st\<lparr>wt_config := config\<rparr>) m) (\<lambda>next.
                      bindE (sleepE P 1000) (\<lambda>_. ret (Again next)))))"

definition watchStep ::
    "'x platform \<Rightarrow> config \<Rightarrow> string \<Rightarrow> string \<Rightarrow> 'x take_profit_logic option \<Rightarrow> ('x world, unit) eff option \<Rightarrow>
     watch_start \<Rightarrow> watch_state \<Rightarrow> ('x world, watch_result) eff" where
  "watchStep P config0 symbol idx takeProfitLogic gridLogic start st =
     bindE (readMarket P symbol start st) (\<lambda>m.
       decideStep P config0 symbol idx takeProfitLogic gridLogic st m)"

fun watchingProcess_loop ::
    "'x platform \<Rightarrow> nat \<Rightarrow> config \<Rightarrow> string \<Rightarrow> string \<Rightarrow> 'x take_profit_logic option \<Rightarrow> ('x world, unit) eff option \<Rightarrow>
     watch_start \<Rightarrow> watch_state \<Rightarrow> ('x world, unit option) eff" where
  "watchingProcess_loop P 0 config0 symbol idx tp grid start st = ret None"
| "watchingProcess_loop P (Suc n) config0 symbol idx tp grid start st =
     bindE (getsE (\<lambda>w. ops_orders w StrategyOps)) (\<lambda>orders.
       if orders = [] then ret (Some ())
       else bindE (watchStep P config0 symbol idx tp grid start st) (\<lambda>r.
         case r of
           Again next \<Rightarrow> watchingProcess_loop P n config0 symbol idx tp grid start next
         | Done \<Rightarrow> ret (Some ())
         | Unfinished \<Rightarrow> ret None))"

definition watchingProcess ::
    "'x platform \<Rightarrow> nat \<Rightarrow> config \<Rightarrow> config \<Rightarrow> string \<Rightarrow> string \<Rightarrow> 'x take_profit_logic option \<Rightarrow>
     ('x world, unit) eff option \<Rightarrow> watch_start \<Rightarrow> ('x world, unit option) eff" where
  "watchingProcess P n config0 config symbol idx tp grid start =
     bindE (getsE (\<lambda>w. ops_orders w StrategyOps)) (\<lambda>orders.
       watchingProcess_loop P n config0 symbol idx tp grid start
         \<lparr>wt_config = config,
          wt_buyingBack = (case ws_settingForFirstOrder start of None \<Rightarrow> Fin 0 | Some so \<Rightarrow> so_amount so),
          wt_drawdownStep = length orders\<rparr>)"

section \<open>Entering a position\<close>

definition oneTradingBehavior ::
    "'x platform \<Rightarrow> config \<Rightarrow> config \<Rightarrow> string \<Rightarrow> string \<Rightarrow> ('x world, watch_start) eff" where
  "oneTradingBehavior P config0 config symbol idx =
     bindE (getInfoPrice P StrategyExchange symbol (c_candlePriceRange config)) (\<lambda>info.
       let settingForFirstOrder = \<lparr>so_symbol = symbol, so_type = Limit, so_amount = c_positionSize config,
                                   so_price = ip_price info\<rparr>
       in bindE (openFirstPosition P StrategyOps config0 settingForFirstOrder (ip_price info)
                   (ip_lowestInCandle info) (ip_highestInCandle info) idx) (\<lambda>firstOrder.
          ret \<lparr>ws_settingForFirstOrder = Some settingForFirstOrder, ws_firstOrder = Some (as_mem firstOrder),
               ws_price = Some (ip_price info)\<rparr>))"

text \<open>An optional number that is falsy: null, 0 or NaN.\<close>

definition falsy :: "jsnum option \<Rightarrow> bool" where
  "falsy v = (case v of None \<Rightarrow> True | Some x \<Rightarrow> x = Fin 0 \<or> isNaN x)"

text \<open>The number of rounds of \<^verbatim>\<open>for (let i = 0; i < count; i++)\<close>; the column is an integer.\<close>

definition loop_count :: "jsnum \<Rightarrow> nat" where
  "loop_count c = (case c of Fin a \<Rightarrow> nat \<lceil>a\<rceil> | _ \<Rightarrow> 0)"

definition gridPrice :: "jsnum \<Rightarrow> mode \<Rightarrow> jsnum \<Rightarrow> jsnum \<Rightarrow> nat \<Rightarrow> jsnum" where
  "gridPrice tickPrice side countGridSize gridSize i =
     (let conditionPriceOpen = (if countGridSize = Fin 1 then Fin 1 else Fin (of_nat (i * 2)))
      in tickPrice + (if side = Buy then gridSize * conditionPriceOpen else - (gridSize * conditionPriceOpen)))"

definition gridTradingBehavior ::
    "'x platform \<Rightarrow> config \<Rightarrow> string \<Rightarrow> string \<Rightarrow> ('x world, watch_start) eff" where
  "gridTradingBehavior P config symbol idx =
     bindE (getTick P symbol) (\<lambda>ticker.
       if falsy (c_countGridSize config) \<or> falsy (c_gridSize config)
       then throwE (newError ''Parameters countGridSize or gridSize must be provided.'')
       else let count = Number (c_countGridSize config); gridSize = Number (c_gridSize config)
         in bindE (forE [Buy, Sell] (\<lambda>side. forE [0..<loop_count count] (\<lambda>i.
                positionStrategy P side
                  \<lparr>so_symbol = symbol, so_type = Limit, so_amount = c_positionSize config,
                   so_price = gridPrice (Number (t_last ticker)) side count gridSize i\<rparr> idx))) (\<lambda>_.
            ret \<lparr>ws_settingForFirstOrder = None, ws_firstOrder = None, ws_price = None\<rparr>))"

datatype trading_type = Grid | OneTrade

definition enteringPosition ::
    "'x platform \<Rightarrow> trading_type \<Rightarrow> config \<Rightarrow> config \<Rightarrow> string \<Rightarrow> string \<Rightarrow> ('x world, watch_start) eff" where
  "enteringPosition P typeTrading config0 config symbol idx =
     (if typeTrading = OneTrade then oneTradingBehavior P config0 config symbol idx
      else gridTradingBehavior P config symbol idx)"

definition startNewTrade ::
    "'x platform \<Rightarrow> nat \<Rightarrow> trading_type \<Rightarrow> config \<Rightarrow> config \<Rightarrow> string \<Rightarrow> string \<Rightarrow> 'x take_profit_logic option \<Rightarrow>
     ('x world, unit) eff option \<Rightarrow> ('x world, unit option) eff" where
  "startNewTrade P n typeTrading config0 config symbol idx tp grid =
     bindE (enteringPosition P typeTrading config0 config symbol idx) (\<lambda>start.
       watchingProcess P n config0 config symbol idx tp grid start)"

text \<open>The take profit logic closes over the session index that is set here.\<close>

definition startTradingSession ::
    "'x platform \<Rightarrow> nat \<Rightarrow> trading_type \<Rightarrow> config \<Rightarrow> config \<Rightarrow> string \<Rightarrow> (string \<Rightarrow> 'x take_profit_logic) option \<Rightarrow>
     ('x world, unit) eff option \<Rightarrow> ('x world, unit option) eff" where
  "startTradingSession P n typeTrading config0 config symbol tp grid =
     bindE (sleepE P 5000) (\<lambda>_.
     bindE (initTradeSession P config0) (\<lambda>(typeSession, idx).
       let tp' = map_option (\<lambda>logic. logic idx) tp
       in case typeSession of
            StartNewTrade \<Rightarrow> startNewTrade P n typeTrading config0 config symbol idx tp' grid
          | StartOldTrade \<Rightarrow>
              checkingExistingOrders P StrategyOps
                (watchingProcess P n config0 config symbol idx tp' grid) symbol idx))"

definition openLimitPosition ::
    "'x platform \<Rightarrow> string \<Rightarrow> mode \<Rightarrow> jsnum \<Rightarrow> ticker \<Rightarrow> jsnum \<Rightarrow> nat \<Rightarrow> ('x world, unit) eff" where
  "openLimitPosition P symbol side positionSize ticker gridSize numberGridLines =
     bindE (openLimitPositionByGridLineBuyLowSellHight P StrategyOps side symbol positionSize ticker gridSize
              numberGridLines) (\<lambda>_. ret ())"

text \<open>
  The part of \<^verbatim>\<open>_initGeneralUtils\<close> that can fail or reaches the database: the port of the logger
  (the configured one, or the port of the server plus the id) and the identity recorded for it.
\<close>

definition initGeneralUtils :: "'x platform \<Rightarrow> config \<Rightarrow> jsnum option \<Rightarrow> jsnum \<Rightarrow> ('x world, string) eff" where
  "initGeneralUtils P config configuredLoggerPort envPort =
     (let loggerPort = (case configuredLoggerPort of
            None \<Rightarrow> envPort + Fin (of_nat (c_id config)) | Some p \<Rightarrow> p)
      in if \<not> isInteger loggerPort \<or> loggerPort < Fin 0 \<or> loggerPort > Fin 65535
         then throwE (newError ''TRADING_LOGGER_PORT must be a valid port number.'')
         else bindE (generateIdentity P 15) (\<lambda>identity.
              ret (''trading-service-'' @ identity @ ''-'' @ c_symbol config)))"

definition initialize :: "'x platform \<Rightarrow> bool \<Rightarrow> config \<Rightarrow> jsnum option \<Rightarrow> jsnum \<Rightarrow> ('x world, unit) eff" where
  "initialize P initialized config configuredLoggerPort envPort =
     (if initialized then ret ()
      else bindE (initGeneralUtils P config configuredLoggerPort envPort) (\<lambda>loggerIdentity.
           recordLogger P loggerIdentity (c_id config)))"

definition startAlgorithms ::
    "'x platform \<Rightarrow> nat \<Rightarrow> bool \<Rightarrow> config \<Rightarrow> config \<Rightarrow> jsnum option \<Rightarrow> jsnum \<Rightarrow> ('x world, unit option) eff" where
  "startAlgorithms P n initialized config0 config configuredLoggerPort envPort =
     bindE (initialize P initialized config0 configuredLoggerPort envPort) (\<lambda>_.
       startTradingSession P n OneTrade config0 config (c_symbol config0)
         (Some (watchingTakeProfitLogic P n (c_symbol config0))) None)"

section \<open>How many orders an effect places\<close>

text \<open>\<open>places_le n m\<close>: \<open>m\<close> submits at most \<open>n\<close> orders, whether it returns or throws.\<close>

definition places_le :: "nat \<Rightarrow> ('x world, 'a) eff \<Rightarrow> bool" where
  "places_le n m \<longleftrightarrow> (\<forall>w. \<exists>xs. orders_placed (snd (m w)) = orders_placed w @ xs \<and> length xs \<le> n)"

named_theorems places_rules \<open>bounds on the orders an effect places\<close>

lemma places_quiet: "unchanged orders_placed m \<Longrightarrow> places_le n m"
  by (auto simp: places_le_def unchanged_def)

lemma places_mono: "places_le n m \<Longrightarrow> n \<le> k \<Longrightarrow> places_le k m"
  unfolding places_le_def by (meson le_trans)

lemma places_bind:
  assumes "places_le a m" and "\<And>x. places_le b (f x)"
  shows "places_le (a + b) (bindE m f)"
  unfolding places_le_def
proof
  fix w
  obtain r u where m: "m w = (r, u)" by force
  with assms(1) obtain xs where xs: "orders_placed u = orders_placed w @ xs" "length xs \<le> a"
    by (metis places_le_def snd_conv)
  show "\<exists>zs. orders_placed (snd (bindE m f w)) = orders_placed w @ zs \<and> length zs \<le> a + b"
  proof (cases r)
    case (Inl e)
    with m xs show ?thesis by (auto simp: bindE_def)
  next
    case (Inr x)
    from assms(2) obtain ys where "orders_placed (snd (f x u)) = orders_placed u @ ys" "length ys \<le> b"
      by (auto simp: places_le_def)
    with m xs Inr show ?thesis by (auto simp: bindE_def)
  qed
qed

text \<open>A bind of which only one side places orders.\<close>

lemma places_bind_after: "unchanged orders_placed m \<Longrightarrow> (\<And>x. places_le n (f x)) \<Longrightarrow> places_le n (bindE m f)"
  using places_bind [of 0 m n f] by (simp add: places_quiet)

lemma places_bind_before: "places_le n m \<Longrightarrow> (\<And>x. unchanged orders_placed (f x)) \<Longrightarrow> places_le n (bindE m f)"
  using places_bind [of n m 0 f] by (simp add: places_quiet)

lemma places_catch_quiet:
  assumes "places_le n m" and "\<And>e. unchanged orders_placed (h e)"
  shows "places_le n (catchE m h)"
proof -
  have "orders_placed (snd (catchE m h w)) = orders_placed (snd (m w))" for w
    using assms(2) by (auto simp: catchE_def unchanged_def split: prod.splits sum.splits)
  with assms(1) show ?thesis by (simp add: places_le_def)
qed

lemma places_one_order: "places_le 1 (createOrder P rq)"
  unfolding places_le_def using createOrder_placed by (metis length_Cons list.size(3) One_nat_def order_refl prod.collapse)

lemma places_openPosition: "places_le 1 (openPositionForStrategy P i side so idx)"
  unfolding places_le_def
  using openPositionForStrategy_placed by (metis length_Cons list.size(3) One_nat_def order_refl prod.collapse)

lemma places_if: "places_le n a \<Longrightarrow> places_le n b \<Longrightarrow> places_le n (if c then a else b)"
  by simp

lemma places_option:
  "places_le n a \<Longrightarrow> (\<And>x. places_le n (f x)) \<Longrightarrow> places_le n (case v of None \<Rightarrow> a | Some x \<Rightarrow> f x)"
  by (cases v) simp_all

lemma places_ret: "places_le n (ret x)" "places_le n (throwE e)"
  by (simp_all add: places_quiet unchanged_basic)

lemma places_closeFilledPosition: "places_le 1 (closeFilledPosition P i symbol idx)"
proof -
  have submit: "places_le 1 (submitClosingOrder P i symbol idx e)" for e
    unfolding submitClosingOrder_def
  proof (rule places_bind_after)
    show "unchanged orders_placed (getPrice P symbol)"
      by (intro reading_half_unchanged wait_free_fields)
    show "places_le 1 (bindE (createOrder P (closing_request symbol e price)) (\<lambda>submitted.
       bindE (publishOrder P submitted) (\<lambda>_. bindE (waitForExecution P submitted symbol) (\<lambda>closing.
       bindE (saveClosingOrder P idx (closing_params symbol idx e price closing)) (\<lambda>_.
       bindE (pushOrder i closing) (\<lambda>_. ret (Some closing)))))))" for price
      by (intro places_bind_before places_one_order unchanged_rules wait_free_fields)
  qed
  have quiet: "unchanged orders_placed (cancelAllOrders P symbol)" "unchanged orders_placed (getsE (\<lambda>w. ops_orders w i))"
    "unchanged orders_placed (mapE (executedOrder P symbol) orders)" for orders
    by (intro reading_half_unchanged wait_free_fields unchanged_basic)+
  show ?thesis
    unfolding closeFilledPosition_def
    by (intro places_bind_after quiet places_if places_ret places_option submit)
qed

section \<open>One order per iteration\<close>

lemma readMarket_unchanged [unchanged_rules]:
  assumes "cache_free g"
  shows "unchanged g (readMarket P symbol start st)"
  unfolding readMarket_def Let_def case_prod_beta
  by (intro unchanged_rules assms cache_free_platform [OF assms])

lemma orders_placed_fields [simp]:
  "orders_placed (w\<lparr>trade_session := a\<rparr>) = orders_placed w" "orders_placed (w\<lparr>trade_operation := b\<rparr>) = orders_placed w"
  "orders_placed (w\<lparr>trade_config := c\<rparr>) = orders_placed w" "orders_placed (w\<lparr>balance_history := d\<rparr>) = orders_placed w"
  "orders_placed (w\<lparr>ops_orders := e\<rparr>) = orders_placed w"
  by (simp_all add: orders_placed_def)

lemma closeTradeSession_places_nothing: "unchanged orders_placed (closeTradeSession P config0 idx d)"
  unfolding closeTradeSession_def endTradeSession_def Let_def by (intro unchanged_rules; simp)

lemma closeAndEnd_places: "places_le 1 (closeAndEnd P config0 symbol idx d)"
  unfolding closeAndEnd_def
  by (intro places_bind_before places_closeFilledPosition unchanged_rules closeTradeSession_places_nothing)

lemma buyBack_places: "places_le 1 (buyBack P symbol idx st m)"
  unfolding buyBack_def positionStrategy_def Let_def case_prod_beta
  by (intro places_if places_option places_ret places_bind_before places_openPosition unchanged_rules)

lemma profit_excludes_buy_back:
  assumes "calculatePositionMetrics side avg price amount = Inr mt"
    and "pp \<le> pnlRatio mt" and "Fin 0 \<le> pp" and "Fin 0 < b"
  shows "\<not> pnlPerUnit mt \<le> - b"
proof -
  from assms(1) have pos: "Fin 0 < avg" "Fin 0 < price"
    and mt: "pnlRatio mt = pnlPerUnit mt / avg"
      "pnlPerUnit mt = (if side = Buy then price - avg else avg - price)"
    by (auto simp: calculatePositionMetrics_def Let_def split: if_splits)
  have ratio: "Fin 0 \<le> pnlPerUnit mt / avg"
    using assms(2,3) mt(1) jsnum_le_trans by metis
  with pos mt(2) assms(4) show ?thesis
    by (cases avg; cases price; cases b) (auto simp: jsnum_op_defs field_simps zero_le_divide_iff split: if_splits)
qed

text \<open>
  The contract of a take profit logic: below the target it does nothing, and it never submits more
  than one order.
\<close>

locale take_profit_contract =
  fixes logic :: "'x take_profit_logic"
  assumes below_target: "\<not> c_percentProfit config \<le> tp_unrealizedPnl param \<Longrightarrow> logic config param = ret (Some False)"
    and one_order: "places_le 1 (logic config param)"
begin

lemma decideStep_places:
  assumes "calculatePositionMetrics (mk_side m) (mk_averageEntryPrice m) (mk_lastPrice m) (mk_entryAmount m) = Inr (mk_metrics m)"
    and "Fin 0 \<le> c_percentProfit (mk_config m)"
  shows "places_le 1 (decideStep P config0 symbol idx (Some logic) None st m)"
proof -
  let ?param = "\<lparr>tp_side = mk_side m, tp_profitPrice = mk_profitPrice m, tp_unrealizedPnl = pnlRatio (mk_metrics m)\<rparr>"
  let ?bb = "buyBack P symbol idx (st\<lparr>wt_config := mk_config m\<rparr>) m"
  let ?after = "\<lambda>result. case result of
        None \<Rightarrow> ret Unfinished
      | Some True \<Rightarrow> bindE (closeTradeSession P config0 idx (mk_deltaForSale m)) (\<lambda>_. ret Done)
      | Some False \<Rightarrow> bindE ?bb (\<lambda>next. bindE (sleepE P 1000) (\<lambda>_. ret (Again next)))"
  have "places_le 1 (bindE (logic (mk_config m) ?param) ?after)"
  proof (cases "c_percentProfit (mk_config m) \<le> pnlRatio (mk_metrics m)")
    case True
    have "?bb = ret (st\<lparr>wt_config := mk_config m\<rparr>)"
      using profit_excludes_buy_back [OF assms(1) True assms(2)]
      by (auto simp: buyBack_def split: prod.splits)
    then have "unchanged orders_placed (?after result)" for result
      by (auto intro!: unchanged_rules closeTradeSession_places_nothing split: option.splits bool.splits)
    then show ?thesis
      by (intro places_bind_before one_order)
  next
    case False
    then have "logic (mk_config m) ?param = ret (Some False)"
      by (intro below_target) simp
    moreover have "places_le 1 (bindE ?bb (\<lambda>next. bindE (sleepE P 1000) (\<lambda>_. ret (Again next))))"
      by (intro places_bind_before buyBack_places unchanged_rules) simp
    ultimately show ?thesis by simp
  qed
  moreover have close: "places_le 1 (bindE (closeAndEnd P config0 symbol idx (mk_deltaForSale m)) (\<lambda>_. ret Done))"
    by (intro places_bind_before closeAndEnd_places unchanged_rules)
  moreover have "unchanged orders_placed (disableEmergencyStop P)"
    by (intro unchanged_rules) simp_all
  from places_bind_after [OF this close]
  have "places_le 1 (bindE (disableEmergencyStop P) (\<lambda>_.
     bindE (closeAndEnd P config0 symbol idx (mk_deltaForSale m)) (\<lambda>_. ret Done)))" .
  ultimately show ?thesis
    unfolding decideStep_def Let_def option.case by (intro places_if places_ret)
qed

end

lemma priceTracker_loop_places: "places_le 1 (priceTracker_loop P n symbol idx side indent targets)"
proof (induction n arbitrary: targets)
  case (Suc n)
  have close: "places_le 1 (bindE (closeFilledPosition P StrategyOps symbol idx) (\<lambda>c. ret (Some (c \<noteq> None))))"
    by (intro places_bind_before places_closeFilledPosition unchanged_rules)
  have wait: "places_le 1 (bindE (sleepE P 1000) (\<lambda>_. priceTracker_loop P n symbol idx side indent ts))" for ts
    by (intro places_bind_after Suc.IH unchanged_rules) simp
  have quiet: "unchanged orders_placed (getPrice P symbol)" "unchanged orders_placed (getUnrealizedPnl P symbol p sd)" for p sd
    by (intro unchanged_rules; simp)+
  have "places_le 1 (case orders of
         [] \<Rightarrow> throwE (newError ''Orders not found!'')
       | first # _ \<Rightarrow>
           bindE (getPrice P symbol) (\<lambda>lastPrice.
           bindE (getUnrealizedPnl P symbol (Number (o_price first)) (o_side first)) (\<lambda>_.
             if stop_reached side lastPrice (snd targets)
             then bindE (closeFilledPosition P StrategyOps symbol idx) (\<lambda>c. ret (Some (c \<noteq> None)))
             else bindE (sleepE P 1000) (\<lambda>_.
                    priceTracker_loop P n symbol idx side indent (retarget side indent lastPrice targets)))))"
    for orders :: "mem_order list"
    by (cases orders; simp only: list.case)
      (rule places_ret, rule places_bind_after [OF quiet(1)], rule places_bind_after [OF quiet(2)], rule places_if [OF close wait])
  then show ?case
    unfolding priceTracker_loop.simps by (intro places_bind_after unchanged_rules)
qed (simp add: places_ret)

lemma onPriceTracker_places: "places_le 1 (onPriceTracker P n config symbol idx side)"
  unfolding onPriceTracker_def Let_def
  by (intro places_catch_quiet places_bind_after priceTracker_loop_places unchanged_rules) simp

interpretation vector_profit: take_profit_contract "watchingTakeProfitLogic P n symbol idx" for P n symbol idx
proof
  fix config param
  show "\<not> c_percentProfit config \<le> tp_unrealizedPnl param \<Longrightarrow>
    watchingTakeProfitLogic P n symbol idx config param = ret (Some False)"
    by (simp add: watchingTakeProfitLogic_def)
  show "places_le 1 (watchingTakeProfitLogic P n symbol idx config param)"
    unfolding watchingTakeProfitLogic_def
    by (intro places_if places_ret places_bind_before places_closeFilledPosition onPriceTracker_places unchanged_rules)
qed

section \<open>What an iteration reads\<close>

lemma getConfigById_stored:
  assumes "getConfigById P c w = (Inr config, t)"
  shows "\<exists>row \<in> set (trade_config w). find (\<lambda>r. c_id r = c) (trade_config w) = Some row \<and>
    c_percentProfit config = c_percentProfit row \<and> c_isEmergencyStop config = c_isEmergencyStop row"
proof -
  from assms obtain u rows where rows: "rows = map config_columns (filter (\<lambda>r. c_id r = c) (trade_config w))"
    and k: "(case rows of [] \<Rightarrow> throwE (typeError ''Cannot read properties of undefined (reading apiKey)'')
      | config # _ \<Rightarrow> liftE (decrypt_config P config)) u = (Inr config, t)"
    by (auto simp: getConfigById_def bindE_Inr queryE_Inr)
  then obtain row rest where f: "filter (\<lambda>r. c_id r = c) (trade_config w) = row # rest"
    and d: "decrypt_config P (config_columns row) = Inr config"
    by (cases "filter (\<lambda>r. c_id r = c) (trade_config w)") auto
  have "row \<in> set (filter (\<lambda>r. c_id r = c) (trade_config w))"
    by (simp add: f)
  then have "row \<in> set (trade_config w)" by simp
  moreover have "find (\<lambda>r. c_id r = c) (trade_config w) = Some row"
    using f by (rule filter_find)
  moreover have "c_percentProfit config = c_percentProfit row \<and> c_isEmergencyStop config = c_isEmergencyStop row"
    using d by (auto simp: decrypt_config_def config_columns_def config.defs split: sum.splits)
  ultimately show ?thesis by blast
qed

lemma readMarket_returns:
  assumes "readMarket P symbol start st w = (Inr m, t)"
  shows "calculatePositionMetrics (mk_side m) (mk_averageEntryPrice m) (mk_lastPrice m) (mk_entryAmount m) = Inr (mk_metrics m)"
    and "\<exists>u. getConfigById P (c_id (wt_config st)) w = (Inr (mk_config m), u)"
  using assms by (auto simp: readMarket_def Let_def case_prod_beta bindE_Inr)

lemma closeAndEnd_keeps_config: "unchanged trade_config (closeAndEnd P config0 symbol idx d)"
  unfolding closeAndEnd_def closeFilledPosition_def submitClosingOrder_def saveClosingOrder_def saveActivatedOrder_def
    closeTradeSession_def endTradeSession_def Let_def
  by (intro unchanged_rules wait_free_publish; simp)

lemma disableEmergencyStop_effect:
  "disableEmergencyStop P w = (Inr u, t) \<Longrightarrow> \<forall>r \<in> set (trade_config t). \<not> c_isEmergencyStop r"
  by (auto simp: disableEmergencyStop_def queryE_Inr)

lemma emergency_decides:
  assumes "decideStep P config0 symbol idx tp grid st m w = (r, t)" and "c_isEmergencyStop (mk_config m)"
  shows "(\<exists>e. r = Inl e) \<or> r = Inr Done \<and> (\<forall>row \<in> set (trade_config t). \<not> c_isEmergencyStop row)"
proof -
  from assms have run: "bindE (disableEmergencyStop P) (\<lambda>_.
      bindE (closeAndEnd P config0 symbol idx (mk_deltaForSale m)) (\<lambda>_. ret Done)) w = (r, t)"
    by (simp add: decideStep_def)
  show ?thesis
  proof (cases r)
    case (Inr x)
    with run obtain u where s1: "disableEmergencyStop P w = (Inr (), u)"
      and s2: "closeAndEnd P config0 symbol idx (mk_deltaForSale m) u = (Inr (), t)" and "x = Done"
      by (auto simp: bindE_Inr)
    with disableEmergencyStop_effect [OF s1] unchangedD [OF closeAndEnd_keeps_config s2] Inr show ?thesis by simp
  qed simp
qed

text \<open>What a finished session leaves behind.\<close>

lemma revertActiveStateOrder_reliable:
  "reliable_db P \<Longrightarrow> revertActiveStateOrder P idx w = (r, t) \<Longrightarrow>
   trade_operation t = op_deactivate idx (trade_operation w)"
  by (cases "p_db_fault P (ext w)")
    (auto simp: revertActiveStateOrder_def revertOrderActiveStatus_def catchE_def queryE_def reliable_db_def
      dest!: spec [of _ "ext w"] split: option.splits)

lemma closeTradeSession_returns:
  assumes "reliable_db P" and "closeTradeSession P config0 idx d w = (Inr (), t)"
  obtains total where "ops_orders t StrategyOps = []"
    and "trade_operation t = op_deactivate idx (trade_operation w)"
    and "trade_session t = session_finish (sql_real P total) idx (trade_session w)"
proof -
  let ?orders = "ops_orders w StrategyOps"
  from assms(2) obtain p w1 b w2 w3 w4 where s1: "calculateProfitSession P idx ?orders w = (Inr p, w1)"
    and s2: "saveBalanceState P config0 (Some (nullish p (Fin 0) + d)) ?orders w1 = (Inr b, w2)"
    and s3: "finishTradeSession P (Some (nullish p (Fin 0) + d)) idx w2 = (Inr (), w3)"
    and s4: "revertActiveStateOrder P idx w3 = (Inr (), w4)"
    and s5: "clearingOrderList StrategyOps w4 = (Inr (), t)"
    by (auto simp: closeTradeSession_def endTradeSession_def Let_def bindE_Inr)
  have w2: "g w2 = g w" if "cache_free g" "\<And>v h. g (v\<lparr>balance_history := h\<rparr>) = g v" for g :: "'a world \<Rightarrow> 'b"
    using unchangedD [OF calculateProfitSession_unchanged [OF cache_free_platform [OF that(1)]] s1]
      unchangedD [OF saveBalanceState_unchanged [OF that] s2] by simp
  have op3: "trade_operation w3 = trade_operation w2"
    using unchangedD [OF session_writes_unchanged(2) [of trade_operation] s3] by simp
  have se4: "trade_session w4 = trade_session w3"
    using unchangedD [OF revertActiveStateOrder_unchanged [of trade_session] s4] by simp
  have t: "t = set_ops StrategyOps [] w4"
    using s5 by (simp add: clearingOrderList_def)
  have "trade_operation t = op_deactivate idx (trade_operation w)"
    using revertActiveStateOrder_reliable [OF assms(1) s4] op3 w2 [of trade_operation] by (simp add: t)
  moreover have "trade_session t = session_finish (sql_real P (nullish p (Fin 0) + d)) idx (trade_session w)"
    using finishTradeSession_effect [OF s3] se4 w2 [of trade_session] by (simp add: t)
  moreover have "ops_orders t StrategyOps = []"
    by (simp add: t)
  ultimately show ?thesis using that by blast
qed

section \<open>Properties\<close>

text \<open>
  C3: one iteration of the watching loop submits at most one order. With non-negative profit
  targets, whatever the exchange and the database do, an iteration of \<^verbatim>\<open>_watchingProcess\<close> under
  \<^verbatim>\<open>TradingVectorProfitService\<close> either closes the position or averages it, never both, also when
  the closing fails half way and its error is swallowed by the price tracker.
\<close>

theorem iteration_places_at_most_one_order:
  assumes "\<And>row. row \<in> set (trade_config w) \<Longrightarrow> Fin 0 \<le> c_percentProfit row"
    and "watchStep P config0 symbol idx (Some (watchingTakeProfitLogic P n symbol idx)) None start st w = (r, t)"
  shows "\<exists>xs. orders_placed t = orders_placed w @ xs \<and> length xs \<le> 1"
proof -
  obtain r1 u where s1: "readMarket P symbol start st w = (r1, u)" by force
  have quiet: "orders_placed u = orders_placed w"
    using unchangedD [OF readMarket_unchanged [of orders_placed] s1] by simp
  show ?thesis
  proof (cases r1)
    case (Inl e)
    with assms(2) s1 quiet show ?thesis by (simp add: watchStep_def bindE_def)
  next
    case (Inr m)
    note m = readMarket_returns [OF s1 [unfolded Inr]]
    from m(2) getConfigById_stored assms(1) have "Fin 0 \<le> c_percentProfit (mk_config m)" by metis
    from vector_profit.decideStep_places [OF m(1) this] obtain xs where
      "orders_placed (snd (decideStep P config0 symbol idx (Some (watchingTakeProfitLogic P n symbol idx)) None st m u))
         = orders_placed u @ xs" "length xs \<le> 1"
      unfolding places_le_def by blast
    with assms(2) s1 Inr quiet show ?thesis by (auto simp: watchStep_def bindE_def)
  qed
qed

theorem iteration_places_at_most_one_order_witness:
  "\<exists>r t xs. watchStep (sim_platform Desktop) sim_config ''ETH/USDT'' ''s1''
       (Some (watchingTakeProfitLogic (sim_platform Desktop) 10 ''ETH/USDT'' ''s1'')) None
       \<lparr>ws_settingForFirstOrder = None, ws_firstOrder = None, ws_price = None\<rparr>
       \<lparr>wt_config = sim_config, wt_buyingBack = Fin 1, wt_drawdownStep = 1\<rparr>
       (snd (createConfig (sim_platform Desktop) sim_config (sim_world sim_start))) = (r, t) \<and>
     orders_placed t = orders_placed (snd (createConfig (sim_platform Desktop) sim_config (sim_world sim_start))) @ xs \<and>
     length xs \<le> 1"
proof -
  let ?w = "snd (createConfig (sim_platform Desktop) sim_config (sim_world sim_start))"
  have pos: "Fin 0 \<le> c_percentProfit row" if "row \<in> set (trade_config ?w)" for row
    using that
    by (auto simp: createConfig_def encrypt_def randomIvE_def queryE_def eff_defs sim_defs sim_config_def config.defs)
  obtain r t where run: "watchStep (sim_platform Desktop) sim_config ''ETH/USDT'' ''s1''
       (Some (watchingTakeProfitLogic (sim_platform Desktop) 10 ''ETH/USDT'' ''s1'')) None
       \<lparr>ws_settingForFirstOrder = None, ws_firstOrder = None, ws_price = None\<rparr>
       \<lparr>wt_config = sim_config, wt_buyingBack = Fin 1, wt_drawdownStep = 1\<rparr> ?w = (r, t)" by force
  from iteration_places_at_most_one_order [OF pos run] run show ?thesis by blast
qed

text \<open>
  C7: the emergency stop ends the watching loop. If the stored configuration of the process has the
  flag set, the very next iteration ends the loop: it throws or returns, and never goes on. When it
  returns, the flag has been cleared for every configuration of the table, not only for the one
  that was stopped.
\<close>

theorem emergency_stop_ends_the_loop:
  assumes "find (\<lambda>r. c_id r = c_id (wt_config st)) (trade_config w) = Some row" and "c_isEmergencyStop row"
    and "watchingProcess_loop P (Suc n) config0 symbol idx tp grid start st w = (res, t)"
  shows "res \<noteq> Inr None \<and>
    (res = Inr (Some ()) \<and> ops_orders w StrategyOps \<noteq> [] \<longrightarrow> (\<forall>r \<in> set (trade_config t). \<not> c_isEmergencyStop r))"
proof (cases "ops_orders w StrategyOps = []")
  case True
  with assms(3) show ?thesis by (auto simp: ret_def)
next
  case False
  obtain r1 u where s1: "readMarket P symbol start st w = (r1, u)" by force
  show ?thesis
  proof (cases r1)
    case (Inl e)
    with False assms(3) s1 show ?thesis by (auto simp: watchStep_def bindE_def getsE_def)
  next
    case (Inr m)
    from readMarket_returns(2) [OF s1 [unfolded Inr]] getConfigById_stored assms(1,2)
    have emergency: "c_isEmergencyStop (mk_config m)" by fastforce
    obtain r2 v where s2: "decideStep P config0 symbol idx tp grid st m u = (r2, v)" by force
    from emergency_decides [OF s2 emergency] False assms(3) s1 Inr s2 show ?thesis
      by (auto simp: watchStep_def bindE_def ret_def getsE_def)
  qed
qed

theorem emergency_stop_ends_the_loop_witness:
  "fst (watchingProcess_loop (sim_platform Desktop) 1 sim_config ''ETH/USDT'' ''s1'' None None
       \<lparr>ws_settingForFirstOrder = None, ws_firstOrder = None, ws_price = None\<rparr>
       \<lparr>wt_config = sim_config, wt_buyingBack = Fin 1, wt_drawdownStep = 1\<rparr>
       ((sim_world sim_start)\<lparr>trade_config := [config.extend (sim_config\<lparr>c_isEmergencyStop := True\<rparr>) (config_row.fields None)]\<rparr>))
   \<noteq> Inr None"
proof -
  let ?w = "(sim_world sim_start)\<lparr>trade_config := [config.extend (sim_config\<lparr>c_isEmergencyStop := True\<rparr>) (config_row.fields None)]\<rparr>"
  let ?st = "\<lparr>wt_config = sim_config, wt_buyingBack = Fin 1, wt_drawdownStep = 1\<rparr>"
  obtain res t where run: "watchingProcess_loop (sim_platform Desktop) (Suc 0) sim_config ''ETH/USDT'' ''s1'' None None
       \<lparr>ws_settingForFirstOrder = None, ws_firstOrder = None, ws_price = None\<rparr> ?st ?w = (res, t)" by force
  have "find (\<lambda>r. c_id r = c_id (wt_config ?st)) (trade_config ?w) =
      Some (config.extend (sim_config\<lparr>c_isEmergencyStop := True\<rparr>) (config_row.fields None))"
    "c_isEmergencyStop (config.extend (sim_config\<lparr>c_isEmergencyStop := True\<rparr>) (config_row.fields None))"
    by (simp_all add: config.defs config_row.defs sim_config_def)
  from emergency_stop_ends_the_loop [OF this run] run show ?thesis by simp
qed

text \<open>
  C5: ending a session leaves no trace of it among what is live. When \<^verbatim>\<open>_endTradeSession\<close> returns, the
  strategy holds no order, no row of the session is active, rows of other sessions are untouched,
  and the session is no longer the active one of any configuration.
\<close>

theorem end_session_effect:
  assumes "reliable_db P" and "closeTradeSession P config0 idx d w = (Inr (), t)"
    and "one_active_session (trade_session w)"
  shows "ops_orders t StrategyOps = [] \<and> active_session_rows idx (trade_operation t) = [] \<and>
    (\<forall>j. j \<noteq> idx \<longrightarrow> active_session_rows j (trade_operation t) = active_session_rows j (trade_operation w)) \<and>
    one_active_session (trade_session t) \<and> session_active (trade_session t) c \<noteq> Some idx"
proof -
  obtain total where "ops_orders t StrategyOps = []"
    and "trade_operation t = op_deactivate idx (trade_operation w)"
    and "trade_session t = session_finish (sql_real P total) idx (trade_session w)"
    by (rule closeTradeSession_returns [OF assms(1,2)])
  then show ?thesis
    using order_table.live_deactivate sessions.inv_finish [OF assms(3)] sessions.active_finish [OF assms(3)] by simp
qed

theorem end_session_effect_witness:
  "\<exists>t. closeTradeSession (sim_platform Desktop\<lparr>p_db_fault := \<lambda>x. (None, x)\<rparr>) sim_config ''s1'' (Fin 0)
      ((sim_world sim_start)\<lparr>trade_operation := [sim_row 1 Buy 100 2 ''a'', sim_row 2 Sell 110 2 ''b''],
         trade_session := session_start 1 ''s1'' [],
         ops_orders := (\<lambda>_. [as_mem (blank_order\<lparr>o_id := ''b'', o_side := Some Sell\<rparr>)])\<rparr>) = (Inr (), t) \<and>
     ops_orders t StrategyOps = [] \<and> active_session_rows ''s1'' (trade_operation t) = [] \<and>
     session_active (trade_session t) 1 = None"
proof -
  let ?P = "sim_platform Desktop\<lparr>p_db_fault := \<lambda>x. (None, x)\<rparr>"
  let ?w = "(sim_world sim_start)\<lparr>trade_operation := [sim_row 1 Buy 100 2 ''a'', sim_row 2 Sell 110 2 ''b''],
         trade_session := session_start 1 ''s1'' [],
         ops_orders := (\<lambda>_. [as_mem (blank_order\<lparr>o_id := ''b'', o_side := Some Sell\<rparr>)])\<rparr>"
  have "\<exists>t. closeTradeSession ?P sim_config ''s1'' (Fin 0) ?w = (Inr (), t) \<and> (\<forall>i. session_active (trade_session t) 1 = Some i \<longrightarrow> i = ''s1'')"
    by (simp add: closeTradeSession_def calculateProfitSession_def getProfitForTradeSession_def saveBalanceState_def
        createFirstBalance_def createNextBalance_def getBalance_def readWithRetry_def eval_nat_numeral
        getLastBalance_def getAllProfitSession_def usdt_free_def createStateBalance_def queryE_def ccxt_call_def
        Date_now_def endTradeSession_def finishTradeSession_def revertActiveStateOrder_def revertOrderActiveStatus_def
        clearingOrderList_def sim_row_def Let_def eff_defs sim_defs session_active_def session_finish_def session_start_def)
  then obtain t where run: "closeTradeSession ?P sim_config ''s1'' (Fin 0) ?w = (Inr (), t)"
    and only: "\<forall>i. session_active (trade_session t) 1 = Some i \<longrightarrow> i = ''s1''" by blast
  have "reliable_db ?P" "one_active_session (trade_session ?w)"
    by (simp_all add: reliable_db_def one_active_session_def session_start_def)
  from end_session_effect [OF this(1) run this(2), of 1] run only show ?thesis
    by (cases "session_active (trade_session t) 1") auto
qed



text \<open>
  C9: the trailing stop only tightens. After any sequence of prices the two targets of
  \<^verbatim>\<open>_onPriceTracker\<close> are the indent above and below one observed price \<open>h\<close>; \<open>h\<close> never falls below the
  starting price (never rises above it for a short position), and no observed price is further
  than the indent beyond it.
\<close>

theorem trailing_stop_ratchets:
  assumes "0 \<le> d"
  shows "\<exists>h \<in> set (p0 # ps).
    foldl (\<lambda>targets p. retarget side (Fin d) (Fin p) targets)
      (calculateTarget side (Fin d) True (Fin p0), calculateTarget side (Fin d) False (Fin p0)) ps
    = (calculateTarget side (Fin d) True (Fin h), calculateTarget side (Fin d) False (Fin h)) \<and>
    (\<forall>p \<in> set (p0 # ps). if side = Sell then p0 \<le> h \<and> p \<le> h + d else h \<le> p0 \<and> h - d \<le> p)"
proof (induction ps rule: rev_induct)
  case Nil
  then show ?case using assms by auto
next
  case (snoc q ps)
  then obtain h where h: "h \<in> set (p0 # ps)"
    and targets: "foldl (\<lambda>targets p. retarget side (Fin d) (Fin p) targets)
      (calculateTarget side (Fin d) True (Fin p0), calculateTarget side (Fin d) False (Fin p0)) ps
      = (calculateTarget side (Fin d) True (Fin h), calculateTarget side (Fin d) False (Fin h))"
    and bound: "\<And>p. p \<in> set (p0 # ps) \<Longrightarrow> if side = Sell then p0 \<le> h \<and> p \<le> h + d else h \<le> p0 \<and> h - d \<le> p"
    by blast
  define h' where "h' = (if (if side = Sell then h + d \<le> q else q \<le> h - d) then q else h)"
  have "foldl (\<lambda>targets p. retarget side (Fin d) (Fin p) targets)
      (calculateTarget side (Fin d) True (Fin p0), calculateTarget side (Fin d) False (Fin p0)) (ps @ [q])
    = retarget side (Fin d) (Fin q) (calculateTarget side (Fin d) True (Fin h), calculateTarget side (Fin d) False (Fin h))"
    by (simp add: targets)
  also have "\<dots> = (calculateTarget side (Fin d) True (Fin h'), calculateTarget side (Fin d) False (Fin h'))"
    by (cases side) (auto simp: retarget_def take_reached_def calculateTarget_def h'_def)
  finally have "foldl (\<lambda>targets p. retarget side (Fin d) (Fin p) targets)
      (calculateTarget side (Fin d) True (Fin p0), calculateTarget side (Fin d) False (Fin p0)) (ps @ [q])
    = (calculateTarget side (Fin d) True (Fin h'), calculateTarget side (Fin d) False (Fin h'))" .
  moreover have "h' \<in> set (p0 # ps @ [q])"
    using h by (auto simp: h'_def)
  moreover have "if side = Sell then p0 \<le> h' \<and> p \<le> h' + d else h' \<le> p0 \<and> h' - d \<le> p"
    if "p \<in> set (p0 # ps @ [q])" for p
    using that bound [of p] bound [of p0] assms by (cases side) (auto simp: h'_def split: if_splits)
  ultimately show ?case by blast
qed

theorem trailing_stop_ratchets_witness:
  "foldl (\<lambda>targets p. retarget Sell (Fin 1) (Fin p) targets)
     (calculateTarget Sell (Fin 1) True (Fin 100), calculateTarget Sell (Fin 1) False (Fin 100)) [102, 101, 104]
   = (calculateTarget Sell (Fin 1) True (Fin 104), calculateTarget Sell (Fin 1) False (Fin 104))"
proof -
  obtain h where "h \<in> set ((100::rat) # [102, 101, 104])"
    and t: "foldl (\<lambda>targets p. retarget Sell (Fin 1) (Fin p) targets)
     (calculateTarget Sell (Fin 1) True (Fin 100), calculateTarget Sell (Fin 1) False (Fin 100)) [102, 101, 104]
      = (calculateTarget Sell (Fin 1) True (Fin h), calculateTarget Sell (Fin 1) False (Fin h))"
    and b: "\<forall>p \<in> set (100 # [102, 101, 104]). if Sell = Sell then 100 \<le> h \<and> p \<le> h + 1 else h \<le> 100 \<and> h - 1 \<le> p"
    using trailing_stop_ratchets [of 1 100 "[102, 101, 104]" Sell] by auto
  then have "h = 104" by auto
  with t show ?thesis by simp
qed

end
