(* ===== verification/Trading_Worker.thy ===== *)
theory Trading_Worker
  imports Abstract_Trading
begin

text \<open>
  \<^verbatim>\<open>src/worker.ts\<close>: the process that runs \<^verbatim>\<open>TradingVectorProfitService\<close> for one configuration, and
  \<^verbatim>\<open>dispose\<close> of that service. The module variables, the exit code and the messages sent to the parent
  are a record beside the world; \<open>symbol\<close> and \<open>idx\<close> are the fields of the trading service when the
  handler runs, \<open>closeError\<close> is what closing the logger socket reports and \<open>stack\<close> the text of an
  error's stack. The handlers are modelled one at a time: each is what the process does in response
  to one message or signal. The flag \<^verbatim>\<open>isStopping\<close> is set by a handler while the trading loop is
  suspended, so the loop reads it from a schedule \<open>stopping\<close>, one value per test.
\<close>

section \<open>State\<close>

datatype lifecycle = StartedMsg nat string | ErrorMsg nat string

record 'x process =
  pr_world :: "'x world"
  pr_config :: "config option"
  pr_isStopping :: bool
  pr_exitCode :: "int option"
  pr_sent :: "lifecycle list"

datatype worker_message = StopMsg | SuspendMsg | StartMsg "config option" | OtherMsg

datatype worker_interrupt = SIGTERM | SIGINT | Disconnect

section \<open>Stopping\<close>

definition dispose :: "js_error option \<Rightarrow> ('x world, unit) eff" where
  "dispose closeError = (case closeError of None \<Rightarrow> ret () | Some e \<Rightarrow> throwE e)"

definition stopWorker ::
    "'x platform \<Rightarrow> js_error option \<Rightarrow> string \<Rightarrow> string \<Rightarrow> bool \<Rightarrow> 'x process \<Rightarrow> 'x process" where
  "stopWorker P closeError symbol idx closePosition pr =
     (if pr_isStopping pr then pr
      else let (r, w) = bindE (if closePosition then endAlgorithms P symbol idx else ret ())
                          (\<lambda>_. dispose closeError) (pr_world pr)
           in pr\<lparr>pr_isStopping := True, pr_world := w,
                 pr_exitCode := Some (case r of Inl _ \<Rightarrow> 1 | Inr _ \<Rightarrow> 0)\<rparr>)"

definition on_interrupt ::
    "'x platform \<Rightarrow> js_error option \<Rightarrow> string \<Rightarrow> string \<Rightarrow> worker_interrupt \<Rightarrow> 'x process \<Rightarrow> 'x process" where
  "on_interrupt P closeError symbol idx i pr = stopWorker P closeError symbol idx False pr"

section \<open>Working\<close>

text \<open>The rounds of trading; None says that \<open>n\<close> rounds were not enough to see the flag or an error.\<close>

fun trading_rounds ::
    "'x platform \<Rightarrow> nat \<Rightarrow> nat \<Rightarrow> (nat \<Rightarrow> bool) \<Rightarrow> config \<Rightarrow> jsnum option \<Rightarrow> jsnum \<Rightarrow> ('x world, unit option) eff" where
  "trading_rounds P fuel 0 stopping config loggerPort envPort = ret None"
| "trading_rounds P fuel (Suc n) stopping config loggerPort envPort =
     (if stopping 0 then ret (Some ())
      else bindE (startAlgorithms P fuel True config config loggerPort envPort) (\<lambda>r.
        case r of None \<Rightarrow> ret None
        | Some _ \<Rightarrow> trading_rounds P fuel n (\<lambda>k. stopping (Suc k)) config loggerPort envPort))"

text \<open>What happens before the loop: the configuration is stored, the services are built.\<close>

definition prepare :: "'x platform \<Rightarrow> config \<Rightarrow> jsnum option \<Rightarrow> jsnum \<Rightarrow> ('x world, unit) eff" where
  "prepare P nextConfig loggerPort envPort =
     bindE (syncRuntimeConfig P nextConfig) (\<lambda>_. initialize P False nextConfig loggerPort envPort)"

definition worker_fails :: "(js_error \<Rightarrow> string) \<Rightarrow> config \<Rightarrow> js_error \<Rightarrow> 'x process \<Rightarrow> 'x process" where
  "worker_fails stack nextConfig e pr =
     pr\<lparr>pr_sent := pr_sent pr @ [ErrorMsg (c_id nextConfig) (stack e)], pr_exitCode := Some 1\<rparr>"

definition worker ::
    "'x platform \<Rightarrow> nat \<Rightarrow> nat \<Rightarrow> (nat \<Rightarrow> bool) \<Rightarrow> (js_error \<Rightarrow> string) \<Rightarrow> jsnum option \<Rightarrow> jsnum \<Rightarrow> config \<Rightarrow>
     'x process \<Rightarrow> 'x process" where
  "worker P fuel n stopping stack loggerPort envPort nextConfig pr =
     (case prepare P nextConfig loggerPort envPort (pr_world pr) of
        (Inl e, w) \<Rightarrow> worker_fails stack nextConfig e (pr\<lparr>pr_config := Some nextConfig, pr_world := w\<rparr>)
      | (Inr _, w) \<Rightarrow>
          (let pr' = pr\<lparr>pr_config := Some nextConfig, pr_world := w,
                        pr_sent := pr_sent pr @ [StartedMsg (c_id nextConfig) (c_symbol nextConfig)]\<rparr>
           in case trading_rounds P fuel n stopping nextConfig loggerPort envPort w of
                (Inl e, t) \<Rightarrow> worker_fails stack nextConfig e (pr'\<lparr>pr_world := t\<rparr>)
              | (Inr _, t) \<Rightarrow> pr'\<lparr>pr_world := t\<rparr>))"

definition on_message ::
    "'x platform \<Rightarrow> js_error option \<Rightarrow> string \<Rightarrow> string \<Rightarrow> (config \<Rightarrow> 'x process \<Rightarrow> 'x process) \<Rightarrow>
     worker_message \<Rightarrow> 'x process \<Rightarrow> 'x process" where
  "on_message P closeError symbol idx run m pr =
     (case m of
        StopMsg \<Rightarrow> stopWorker P closeError symbol idx True pr
      | SuspendMsg \<Rightarrow> stopWorker P closeError symbol idx False pr
      | StartMsg (Some config) \<Rightarrow> if pr_config pr = None then run config pr else pr
      | _ \<Rightarrow> pr)"

section \<open>Lemmas\<close>

lemma places_endAlgorithms: "places_le 1 (endAlgorithms P symbol idx)"
  unfolding endAlgorithms_def
  by (intro places_if places_ret places_bind_before places_closeFilledPosition unchanged_rules)

lemma dispose_unchanged [unchanged_rules]: "unchanged g (dispose closeError)"
  unfolding dispose_def by (intro unchanged_rules)

lemma stopWorker_places:
  "\<exists>xs. orders_placed (pr_world (stopWorker P closeError symbol idx closePosition pr))
     = orders_placed (pr_world pr) @ xs \<and> length xs \<le> (if pr_isStopping pr \<or> \<not> closePosition then 0 else 1)"
proof -
  have "places_le (if closePosition then 1 else 0)
      (bindE (if closePosition then endAlgorithms P symbol idx else ret ()) (\<lambda>_. dispose closeError))"
  proof (cases closePosition)
    case True
    show ?thesis unfolding if_P [OF True]
      by (intro places_bind_before places_endAlgorithms dispose_unchanged)
  next
    case False
    show ?thesis unfolding if_not_P [OF False]
      by (intro places_bind_before places_ret dispose_unchanged)
  qed
  then show ?thesis
    unfolding places_le_def by (fastforce simp: stopWorker_def Let_def case_prod_beta split: if_splits)
qed

lemma stopWorker_stops [simp]: "pr_isStopping (stopWorker P closeError symbol idx closePosition pr)"
  by (simp add: stopWorker_def Let_def case_prod_beta)

lemma stopWorker_once: "pr_isStopping pr \<Longrightarrow> stopWorker P closeError symbol idx closePosition pr = pr"
  by (simp add: stopWorker_def)

section \<open>Properties\<close>

text \<open>
  Only the user's stop command trades. The messages \<^verbatim>\<open>suspend\<close> and the signals of the
  infrastructure (SIGTERM, SIGINT, a lost connection to the parent) leave the whole world as it is:
  no order, no row, no message; they only end the process. The message \<^verbatim>\<open>stop\<close> submits at most one
  order, and once a process is stopping no message and no signal does anything.
\<close>

theorem only_stop_trades:
  "pr_world (on_interrupt P closeError symbol idx i pr) = pr_world pr \<and>
   pr_world (on_message P closeError symbol idx run SuspendMsg pr) = pr_world pr \<and>
   (\<exists>xs. orders_placed (pr_world (on_message P closeError symbol idx run StopMsg pr))
       = orders_placed (pr_world pr) @ xs \<and> length xs \<le> 1) \<and>
   on_interrupt P closeError symbol idx i (stopWorker P closeError' symbol' idx' b pr)
     = stopWorker P closeError' symbol' idx' b pr \<and>
   on_message P closeError symbol idx run StopMsg (stopWorker P closeError' symbol' idx' b pr)
     = stopWorker P closeError' symbol' idx' b pr"
proof -
  have idle: "pr_world (stopWorker P closeError symbol idx False pr) = pr_world pr"
    by (cases closeError) (simp_all add: stopWorker_def dispose_def bindE_def ret_def throwE_def)
  from stopWorker_places [of P closeError symbol idx True pr]
  have "\<exists>xs. orders_placed (pr_world (stopWorker P closeError symbol idx True pr)) = orders_placed (pr_world pr) @ xs \<and> length xs \<le> 1"
    by (auto split: if_splits)
  with idle show ?thesis
    by (simp add: on_interrupt_def on_message_def stopWorker_once)
qed

text \<open>
  A worker reports every failure and never throws. After \<^verbatim>\<open>worker\<close> the process has either no exit
  code of its own, and then it has sent \<^verbatim>\<open>started\<close> and no error, or the exit code 1, and then the
  last message it has sent is the error of its configuration.
\<close>

theorem worker_reports_failure:
  assumes "pr_exitCode pr = None"
  shows "let t = worker P fuel n stopping stack loggerPort envPort config pr
    in pr_exitCode t = None \<and> pr_sent t = pr_sent pr @ [StartedMsg (c_id config) (c_symbol config)] \<or>
       pr_exitCode t = Some 1 \<and> (\<exists>e. last (pr_sent t) = ErrorMsg (c_id config) (stack e))"
  using assms
  by (auto simp: worker_def worker_fails_def Let_def split: prod.split sum.split)

theorem worker_reports_failure_witness:
  "pr_exitCode (worker (sim_platform Desktop) 0 1 (\<lambda>_. True) (\<lambda>_. []) (Some (Fin 70000)) (Fin 3131) sim_config
     \<lparr>pr_world = sim_world sim_start, pr_config = None, pr_isStopping = False, pr_exitCode = None, pr_sent = []\<rparr>)
   \<in> {None, Some 1}"
  using worker_reports_failure [of "\<lparr>pr_world = sim_world sim_start, pr_config = None, pr_isStopping = False,
      pr_exitCode = None, pr_sent = []\<rparr>" "sim_platform Desktop" 0 1 "\<lambda>_. True" "\<lambda>_. []" "Some (Fin 70000)" "Fin 3131" sim_config]
  by (auto simp: Let_def)

end
