(* ===== verification/Http_Validation.thy ===== *)
theory Http_Validation
  imports Trade_Types
begin

text \<open>
  \<^verbatim>\<open>src/saas/http/validate.ts\<close>, \<^verbatim>\<open>src/saas/http/errors.ts\<close> and
  \<^verbatim>\<open>src/saas/trading/configuration.ts\<close>: the checks every request body goes through, and the
  configuration of a bot that passes them. A body is a JSON value; a field that is absent is None.
  Errors are values of \<open>http_error\<close>. The texts of numbers in messages are an argument \<open>num_text\<close>
  (\<^verbatim>\<open>String(n)\<close>).
\<close>

section \<open>JSON values and errors\<close>

datatype json =
    JNull
  | JBool bool
  | JNum jsnum
  | JStr string
  | JArr "json list"
  | JObj "(string \<times> json) list"

type_synonym json_object = "(string \<times> json) list"

record http_error =
  he_status :: nat
  he_code :: string
  he_message :: string
  he_details :: "json option"

definition SaasHttpError :: "nat \<Rightarrow> string \<Rightarrow> string \<Rightarrow> json option \<Rightarrow> http_error" where
  "SaasHttpError status code message details =
     \<lparr>he_status = status, he_code = code, he_message = message, he_details = details\<rparr>"

definition validationError :: "string \<Rightarrow> json option \<Rightarrow> http_error" where
  "validationError message details = SaasHttpError 400 ''VALIDATION_ERROR'' message details"

definition forbidden :: "string \<Rightarrow> http_error" where
  "forbidden message = SaasHttpError 403 ''FORBIDDEN'' message None"

definition notFound :: "string \<Rightarrow> http_error" where
  "notFound message = SaasHttpError 404 ''NOT_FOUND'' message None"

type_synonym 'a checked = "http_error + 'a"

definition bindC :: "'a checked \<Rightarrow> ('a \<Rightarrow> 'b checked) \<Rightarrow> 'b checked" where
  "bindC m f = (case m of Inl e \<Rightarrow> Inl e | Inr x \<Rightarrow> f x)"

lemma bindC_simps [simp]: "bindC (Inl e) f = Inl e" "bindC (Inr x) f = f x"
  by (simp_all add: bindC_def)

lemma bindC_Inr: "bindC m f = Inr y \<longleftrightarrow> (\<exists>x. m = Inr x \<and> f x = Inr y)"
  by (cases m) simp_all

section \<open>validate.ts\<close>

definition objectValue :: "json option \<Rightarrow> string list option \<Rightarrow> json_object checked" where
  "objectValue v allowedFields =
     (case v of
        Some (JObj entries) \<Rightarrow>
          (case allowedFields of
             None \<Rightarrow> Inr entries
           | Some allowed \<Rightarrow>
               let unknownFields = filter (\<lambda>f. f \<notin> set allowed) (map fst entries)
               in if unknownFields \<noteq> []
                  then Inl (validationError ''Unknown fields.'' (Some (JObj [(''fields'', JArr (map JStr unknownFields))])))
                  else Inr entries)
      | _ \<Rightarrow> Inl (validationError ''Expected a JSON object.'' None))"

text \<open>White space of \<^verbatim>\<open>String.prototype.trim\<close> among the first 256 code points.\<close>

definition is_space :: "char \<Rightarrow> bool" where
  "is_space c \<longleftrightarrow> (let n = of_char c :: nat in 9 \<le> n \<and> n \<le> 13 \<or> n = 32 \<or> n = 160)"

definition trim :: "string \<Rightarrow> string" where
  "trim s = rev (dropWhile is_space (rev (dropWhile is_space s)))"

definition stringValue :: "json option \<Rightarrow> string \<Rightarrow> nat \<Rightarrow> string checked" where
  "stringValue v field maxLength =
     (case v of
        Some (JStr s) \<Rightarrow>
          let result = trim s
          in if result = [] \<or> length result > maxLength
             then Inl (validationError (field @ '' must contain between 1 and '' @ show_nat maxLength @ '' characters.'') None)
             else Inr result
      | _ \<Rightarrow> Inl (validationError (field @ '' must be a string.'') None))"

definition optionalStringValue :: "json option \<Rightarrow> string \<Rightarrow> nat \<Rightarrow> string option checked" where
  "optionalStringValue v field maxLength =
     (if v = None \<or> v = Some JNull then Inr None
      else bindC (stringValue v field maxLength) (\<lambda>s. Inr (Some s)))"

definition booleanValue :: "json option \<Rightarrow> string \<Rightarrow> bool checked" where
  "booleanValue v field =
     (case v of Some (JBool b) \<Rightarrow> Inr b | _ \<Rightarrow> Inl (validationError (field @ '' must be a boolean.'') None))"

definition numberValue :: "(rat \<Rightarrow> string) \<Rightarrow> json option \<Rightarrow> string \<Rightarrow> rat \<Rightarrow> rat \<Rightarrow> jsnum checked" where
  "numberValue num_text v field minimum maximum =
     (let failure = validationError (field @ '' must be a number between '' @ num_text minimum @ '' and '' @
            num_text maximum @ ''.'') None
      in case v of
           Some (JNum n) \<Rightarrow>
             if \<not> isFinite n \<or> n < Fin minimum \<or> n > Fin maximum then Inl failure else Inr n
         | _ \<Rightarrow> Inl failure)"

text \<open>
  The regular expression of a UUID, one predicate per character; the flag \<^verbatim>\<open>i\<close> admits both cases of
  letters. \<open>versions\<close> are the digits allowed for the version.
\<close>

definition is_hex :: "char \<Rightarrow> bool" where
  "is_hex c \<longleftrightarrow> c \<in> set ''0123456789abcdefABCDEF''"

definition uuid_pattern :: "string \<Rightarrow> (char \<Rightarrow> bool) list" where
  "uuid_pattern versions =
     (let dash = (\<lambda>c. c = CHR ''-'')
      in replicate 8 is_hex @ [dash] @ replicate 4 is_hex @ [dash] @ [\<lambda>c. c \<in> set versions] @ replicate 3 is_hex @
         [dash] @ [\<lambda>c. c \<in> set ''89abAB''] @ replicate 3 is_hex @ [dash] @ replicate 12 is_hex)"

definition matches :: "(char \<Rightarrow> bool) list \<Rightarrow> string \<Rightarrow> bool" where
  "matches pattern s \<longleftrightarrow> list_all2 (\<lambda>p c. p c) pattern s"

definition uuidValue :: "json option \<Rightarrow> string \<Rightarrow> string checked" where
  "uuidValue v field =
     bindC (stringValue v field 36) (\<lambda>result.
       if matches (uuid_pattern ''12345678'') result then Inr result
       else Inl (validationError (field @ '' must be a UUID.'') None))"

section \<open>configuration.ts\<close>

definition configuration_fields :: "string list" where
  "configuration_fields =
     [''symbol'', ''positionSize'', ''countGridSize'', ''gridSize'', ''percentBuyBackStep'', ''takeProfit'', ''stopLoss'',
      ''isFibonacci'', ''percentProfit'', ''percentFromBalance'', ''candlePriceRange'', ''isPercentTargetAfterTakeProfit'',
      ''isCapitalizeDeltaFromSale'', ''isCoinAccumulation'', ''isOnlyBuy'', ''percentTargetAfterTakeProfit'',
      ''balanceDistribution'']"

definition configuration_ranges :: "(string \<times> rat \<times> rat) list" where
  "configuration_ranges =
     [(''positionSize'', 1 / 10 ^ 8, 10 ^ 6), (''countGridSize'', 1, 100), (''gridSize'', 1 / 10 ^ 8, 10 ^ 6),
      (''percentBuyBackStep'', 0, 1), (''takeProfit'', 0, 1), (''stopLoss'', 0, 1), (''percentProfit'', 0, 1),
      (''percentFromBalance'', 1 / 10 ^ 8, 1), (''percentTargetAfterTakeProfit'', 0, 1)]"

definition configuration_flags :: "string list" where
  "configuration_flags =
     [''isFibonacci'', ''isPercentTargetAfterTakeProfit'', ''isCapitalizeDeltaFromSale'', ''isCoinAccumulation'',
      ''isOnlyBuy'', ''balanceDistribution'']"

definition timeframes :: "string list" where
  "timeframes = [''1m'', ''5m'', ''15m'', ''1h'', ''4h'', ''1d'']"

definition is_symbol_char :: "char \<Rightarrow> bool" where
  "is_symbol_char c \<longleftrightarrow> c \<in> set ''ABCDEFGHIJKLMNOPQRSTUVWXYZ0123456789''"

definition currency_code :: "string \<Rightarrow> bool" where
  "currency_code s \<longleftrightarrow> 2 \<le> length s \<and> length s \<le> 12 \<and> list_all is_symbol_char s"

text \<open>BASE/QUOTE, as the regular expression of the code has it.\<close>

definition symbol_format :: "string \<Rightarrow> bool" where
  "symbol_format s \<longleftrightarrow>
     (case dropWhile (\<lambda>c. c \<noteq> CHR ''/'') s of
        [] \<Rightarrow> False
      | _ # quote \<Rightarrow> currency_code (takeWhile (\<lambda>c. c \<noteq> CHR ''/'') s) \<and> currency_code quote)"

text \<open>One loop of the function: the given fields of the list are checked and copied.\<close>

fun copy_fields :: "(string \<Rightarrow> json \<Rightarrow> json checked) \<Rightarrow> json_object \<Rightarrow> string list \<Rightarrow> json_object \<Rightarrow> json_object checked" where
  "copy_fields check input [] output = Inr output"
| "copy_fields check input (f # fs) output =
     (case map_of input f of
        None \<Rightarrow> copy_fields check input fs output
      | Some v \<Rightarrow> bindC (check f v) (\<lambda>c. copy_fields check input fs (output @ [(f, c)])))"

definition check_number :: "(rat \<Rightarrow> string) \<Rightarrow> string \<Rightarrow> json \<Rightarrow> json checked" where
  "check_number num_text f v =
     (case map_of configuration_ranges f of
        None \<Rightarrow> Inr v
      | Some (low, high) \<Rightarrow> bindC (numberValue num_text (Some v) (''configuration.'' @ f) low high) (\<lambda>n. Inr (JNum n)))"

definition check_flag :: "string \<Rightarrow> json \<Rightarrow> json checked" where
  "check_flag f v = bindC (booleanValue (Some v) (''configuration.'' @ f)) (\<lambda>b. Inr (JBool b))"

definition check_timeframe :: "string \<Rightarrow> json \<Rightarrow> json checked" where
  "check_timeframe f v =
     bindC (stringValue (Some v) ''configuration.candlePriceRange'' 4) (\<lambda>timeframe.
       if timeframe \<notin> set timeframes then Inl (validationError ''Unsupported candle timeframe.'' None)
       else Inr (JStr timeframe))"

definition tradingConfiguration :: "(rat \<Rightarrow> string) \<Rightarrow> json option \<Rightarrow> json_object checked" where
  "tradingConfiguration num_text v =
     bindC (objectValue v (Some configuration_fields)) (\<lambda>input.
     bindC (stringValue (map_of input ''symbol'') ''configuration.symbol'' 30) (\<lambda>given.
       let symbol = toUpperCase given
       in if \<not> symbol_format symbol
          then Inl (validationError ''configuration.symbol must use BASE/QUOTE format.'' None)
          else bindC (copy_fields (check_number num_text) input (map fst configuration_ranges) [(''symbol'', JStr symbol)]) (\<lambda>o1.
               bindC (copy_fields check_flag input configuration_flags o1) (\<lambda>o2.
                 copy_fields check_timeframe input [''candlePriceRange''] o2))))"

section \<open>What the loops copy\<close>

definition given :: "json_object \<Rightarrow> string list \<Rightarrow> string list" where
  "given input fs = filter (\<lambda>f. map_of input f \<noteq> None) fs"

lemma copy_fields_returns:
  assumes "copy_fields check input fs acc = Inr r"
  obtains cs where "r = acc @ cs" and "map fst cs = given input fs"
    and "\<forall>(f, c) \<in> set cs. \<exists>v. map_of input f = Some v \<and> check f v = Inr c"
proof -
  have "\<exists>cs. r = acc @ cs \<and> map fst cs = given input fs \<and>
      (\<forall>(f, c) \<in> set cs. \<exists>v. map_of input f = Some v \<and> check f v = Inr c)"
    using assms
  proof (induction check input fs acc rule: copy_fields.induct)
    case (2 check input f fs acc)
    show ?case
    proof (cases "map_of input f")
      case None
      with 2 show ?thesis by (simp add: given_def)
    next
      case (Some v)
      with 2(3) obtain c where c: "check f v = Inr c" and rest: "copy_fields check input fs (acc @ [(f, c)]) = Inr r"
        by (auto simp: bindC_Inr)
      from 2(2) [OF Some rest] obtain cs where "r = (acc @ [(f, c)]) @ cs" "map fst cs = given input fs"
        "\<forall>(f, c) \<in> set cs. \<exists>v. map_of input f = Some v \<and> check f v = Inr c" by blast
      with Some c show ?thesis
        by (intro exI [of _ "(f, c) # cs"]) (auto simp: given_def)
    qed
  qed (simp add: given_def)
  with that show ?thesis by blast
qed

lemma copy_fields_same:
  assumes "\<And>f v. f \<in> set fs \<Longrightarrow> map_of input f = Some v \<Longrightarrow> check f v = Inr v"
  shows "copy_fields check input fs acc = Inr (acc @ map (\<lambda>f. (f, the (map_of input f))) (given input fs))"
  using assms by (induction fs arbitrary: acc) (auto simp: given_def split: option.split)

section \<open>Well-typed configurations\<close>

definition well_typed :: "string \<times> json \<Rightarrow> bool" where
  "well_typed entry =
     (case entry of (f, v) \<Rightarrow>
        if f = ''symbol'' then (case v of JStr s \<Rightarrow> symbol_format s | _ \<Rightarrow> False)
        else if f = ''candlePriceRange'' then (case v of JStr s \<Rightarrow> s \<in> set timeframes | _ \<Rightarrow> False)
        else if f \<in> set configuration_flags then (case v of JBool _ \<Rightarrow> True | _ \<Rightarrow> False)
        else (case map_of configuration_ranges f of
                None \<Rightarrow> False
              | Some (low, high) \<Rightarrow> (case v of JNum (Fin n) \<Rightarrow> low \<le> n \<and> n \<le> high | _ \<Rightarrow> False)))"

lemmas configuration_names = configuration_ranges_def configuration_flags_def configuration_fields_def

lemma range_names: "f \<in> set (map fst configuration_ranges) \<Longrightarrow>
    f \<noteq> ''symbol'' \<and> f \<noteq> ''candlePriceRange'' \<and> f \<notin> set configuration_flags \<and> f \<in> set configuration_fields"
  by (auto simp: configuration_names)

lemma flag_names: "f \<in> set configuration_flags \<Longrightarrow>
    f \<noteq> ''symbol'' \<and> f \<noteq> ''candlePriceRange'' \<and> f \<in> set configuration_fields"
  by (auto simp: configuration_names)

lemma range_bounds:
  assumes "f \<in> set (map fst configuration_ranges)"
  obtains low high where "map_of configuration_ranges f = Some (low, high)"
  using assms by (metis map_of_eq_None_iff not_None_eq prod.collapse set_map)

lemma well_typed_number:
  assumes "f \<in> set (map fst configuration_ranges)" and "map_of configuration_ranges f = Some (low, high)"
  shows "well_typed (f, v) \<longleftrightarrow> (\<exists>n. v = JNum (Fin n) \<and> low \<le> n \<and> n \<le> high)"
  using range_names [OF assms(1)] assms(2) by (auto simp: well_typed_def split: json.split jsnum.split)

lemma check_number_typed:
  assumes "f \<in> set (map fst configuration_ranges)" and "check_number num_text f v = Inr c"
  shows "well_typed (f, c)"
proof -
  obtain low high where r: "map_of configuration_ranges f = Some (low, high)"
    using assms(1) by (rule range_bounds)
  with assms(2) obtain n where "c = JNum n" and "isFinite n" "\<not> n < Fin low" "\<not> n > Fin high"
    by (auto simp: check_number_def numberValue_def bindC_Inr Let_def split: json.splits if_splits)
  then show ?thesis
    using well_typed_number [OF assms(1) r] by (cases n) auto
qed

lemma check_number_same:
  assumes "f \<in> set (map fst configuration_ranges)" and "well_typed (f, v)"
  shows "check_number num_text f v = Inr v"
proof -
  obtain low high where r: "map_of configuration_ranges f = Some (low, high)"
    using assms(1) by (rule range_bounds)
  with assms(2) well_typed_number [OF assms(1) r] show ?thesis
    by (auto simp: check_number_def numberValue_def)
qed

lemma check_flag_typed: "f \<in> set configuration_flags \<Longrightarrow> check_flag f v = Inr c \<Longrightarrow> well_typed (f, c)"
  using flag_names by (auto simp: check_flag_def booleanValue_def well_typed_def bindC_Inr split: json.splits)

lemma check_flag_same: "f \<in> set configuration_flags \<Longrightarrow> well_typed (f, v) \<Longrightarrow> check_flag f v = Inr v"
  using flag_names [of f] by (auto simp: check_flag_def booleanValue_def well_typed_def split: json.splits)

lemma check_timeframe_typed: "check_timeframe f v = Inr c \<Longrightarrow> well_typed (''candlePriceRange'', c)"
  by (auto simp: check_timeframe_def well_typed_def bindC_Inr split: if_splits)

lemma check_timeframe_same: "well_typed (''candlePriceRange'', v) \<Longrightarrow> check_timeframe f v = Inr v"
  by (auto simp: check_timeframe_def well_typed_def stringValue_def timeframes_def trim_def is_space_def Let_def
      split: json.splits)

lemma upper_symbol_char: "is_symbol_char c \<or> c = CHR ''/'' \<Longrightarrow> upper_char c = c \<and> \<not> is_space c"
  by (auto simp: is_symbol_char_def upper_char_def is_space_def)

lemma symbol_format_chars:
  assumes "symbol_format s" and "c \<in> set s"
  shows "is_symbol_char c \<or> c = CHR ''/''"
proof -
  let ?P = "\<lambda>c. c \<noteq> CHR ''/''"
  obtain quote where q: "dropWhile ?P s = CHR ''/'' # quote"
    and codes: "currency_code (takeWhile ?P s)" "currency_code quote"
    using assms(1) by (auto simp: symbol_format_def dropWhile_eq_Cons_conv split: list.splits)
  have "c \<in> set (takeWhile ?P s) \<or> c = CHR ''/'' \<or> c \<in> set quote"
    using assms(2) q takeWhile_dropWhile_id [of ?P s] by (metis Un_iff set_ConsD set_append)
  with codes show ?thesis by (auto simp: currency_code_def list_all_iff)
qed

lemma symbol_format_length:
  assumes "symbol_format s"
  shows "s \<noteq> []" and "length s \<le> 30"
proof -
  let ?P = "\<lambda>c. c \<noteq> CHR ''/''"
  have "length s = length (takeWhile ?P s) + length (dropWhile ?P s)"
    by (metis length_append takeWhile_dropWhile_id)
  then show "length s \<le> 30" "s \<noteq> []"
    using assms by (auto simp: symbol_format_def currency_code_def split: list.splits)
qed

lemma trim_id: "(\<And>c. c \<in> set s \<Longrightarrow> \<not> is_space c) \<Longrightarrow> trim s = s"
proof -
  assume no: "\<And>c. c \<in> set s \<Longrightarrow> \<not> is_space c"
  have "dropWhile is_space t = t" if "set t \<subseteq> set s" for t
    using that no by (cases t) auto
  then show "trim s = s" by (simp add: trim_def)
qed

lemma symbol_stays:
  assumes "symbol_format s"
  shows "stringValue (Some (JStr s)) field 30 = Inr s" and "toUpperCase s = s"
proof -
  have "trim s = s"
    using symbol_format_chars [OF assms] upper_symbol_char by (intro trim_id) blast
  then show "stringValue (Some (JStr s)) field 30 = Inr s"
    using symbol_format_length [OF assms] by (simp add: stringValue_def)
  show "toUpperCase s = s"
    unfolding toUpperCase_def
    using symbol_format_chars [OF assms] upper_symbol_char by (intro map_idI) blast
qed

lemma copied_typed:
  assumes "map fst cs = given input fs"
    and "\<forall>(f, c) \<in> set cs. \<exists>v. map_of input f = Some v \<and> check f v = Inr c"
    and "\<And>f v c. f \<in> set fs \<Longrightarrow> check f v = Inr c \<Longrightarrow> well_typed (f, c)"
  shows "list_all well_typed cs"
proof -
  have "well_typed x" if x: "x \<in> set cs" for x
  proof (cases x)
    case (Pair f c)
    with x have "f \<in> set (map fst cs)" by force
    then have "f \<in> set fs" unfolding assms(1) by (simp add: given_def)
    moreover obtain v where "check f v = Inr c"
      using bspec [OF assms(2) x] Pair by auto
    ultimately show ?thesis unfolding Pair by (rule assms(3))
  qed
  then show ?thesis by (simp add: list_all_iff)
qed

text \<open>The shape of an accepted configuration: the four parts the function writes, in their order.\<close>

lemma tradingConfiguration_shape:
  assumes "tradingConfiguration num_text v = Inr out"
  obtains input symbol ns bs ts where "out = (''symbol'', JStr symbol) # ns @ bs @ ts" and "symbol_format symbol"
    and "map fst ns = given input (map fst configuration_ranges)" and "map fst bs = given input configuration_flags"
    and "map fst ts = given input [''candlePriceRange'']"
    and "list_all well_typed out"
proof -
  from assms obtain input symbol o1 o2 where symbol: "symbol_format symbol"
    and s1: "copy_fields (check_number num_text) input (map fst configuration_ranges) [(''symbol'', JStr symbol)] = Inr o1"
    and s2: "copy_fields check_flag input configuration_flags o1 = Inr o2"
    and s3: "copy_fields check_timeframe input [''candlePriceRange''] o2 = Inr out"
    unfolding tradingConfiguration_def by (auto simp: bindC_Inr Let_def split: if_splits)
  obtain ns where ns: "o1 = [(''symbol'', JStr symbol)] @ ns" "map fst ns = given input (map fst configuration_ranges)"
    "\<forall>(f, c) \<in> set ns. \<exists>v. map_of input f = Some v \<and> check_number num_text f v = Inr c"
    by (rule copy_fields_returns [OF s1])
  obtain bs where bs: "o2 = o1 @ bs" "map fst bs = given input configuration_flags"
    "\<forall>(f, c) \<in> set bs. \<exists>v. map_of input f = Some v \<and> check_flag f v = Inr c"
    by (rule copy_fields_returns [OF s2])
  obtain ts where ts: "out = o2 @ ts" "map fst ts = given input [''candlePriceRange'']"
    "\<forall>(f, c) \<in> set ts. \<exists>v. map_of input f = Some v \<and> check_timeframe f v = Inr c"
    by (rule copy_fields_returns [OF s3])
  have "well_typed (''symbol'', JStr symbol)"
    using symbol by (simp add: well_typed_def)
  moreover have "list_all well_typed ns"
    by (rule copied_typed [OF ns(2,3)]) (rule check_number_typed)
  moreover have "list_all well_typed bs"
    by (rule copied_typed [OF bs(2,3)]) (rule check_flag_typed)
  moreover have "list_all well_typed ts"
    by (rule copied_typed [OF ts(2,3)]) (auto dest: check_timeframe_typed)
  ultimately have "list_all well_typed out"
    unfolding ts(1) bs(1) ns(1) by simp
  moreover have "out = (''symbol'', JStr symbol) # ns @ bs @ ts"
    using ns(1) bs(1) ts(1) by simp
  ultimately show ?thesis using symbol ns(2) bs(2) ts(2) by (intro that)
qed

lemma given_names: "map fst cs = given input fs \<Longrightarrow> f \<in> fst ` set cs \<Longrightarrow> f \<in> set fs"
  by (metis filter_is_subset given_def list.set_map subsetD)

lemma configuration_disjoint:
  "distinct (''symbol'' # map fst configuration_ranges @ configuration_flags @ [''candlePriceRange''])"
  "set (''symbol'' # map fst configuration_ranges @ configuration_flags @ [''candlePriceRange'']) = set configuration_fields"
  by (simp add: configuration_names) (auto simp: configuration_names)

lemma shape_keys:
  assumes "map fst ns = given input (map fst configuration_ranges)" and "map fst bs = given input configuration_flags"
    and "map fst ts = given input [''candlePriceRange'']"
  shows "distinct (map fst ((''symbol'', v) # ns @ bs @ ts))"
    and "set (map fst ((''symbol'', v) # ns @ bs @ ts)) \<subseteq> set configuration_fields"
proof -
  have keys: "map fst ((''symbol'', v) # ns @ bs @ ts) =
    ''symbol'' # given input (map fst configuration_ranges) @ given input configuration_flags @ given input [''candlePriceRange'']"
    by (simp add: assms)
  show "distinct (map fst ((''symbol'', v) # ns @ bs @ ts))"
    unfolding keys using configuration_disjoint(1) by (auto simp: given_def simp del: set_map)
  show "set (map fst ((''symbol'', v) # ns @ bs @ ts)) \<subseteq> set configuration_fields"
    unfolding keys configuration_disjoint(2) [symmetric] by (auto simp: given_def simp del: set_map)
qed

text \<open>Reading a part of the output back gives the part.\<close>

lemma reread_part:
  assumes "map fst cs = given input fs" and "distinct (map fst out)" and "set cs \<subseteq> set out"
    and "\<And>f. f \<in> set fs \<Longrightarrow> map_of out f \<noteq> None \<Longrightarrow> f \<in> fst ` set cs"
  shows "map (\<lambda>f. (f, the (map_of out f))) (given out fs) = cs"
proof -
  have out: "map_of out f = Some c" if "(f, c) \<in> set cs" for f c
    using that assms(2,3) by (intro map_of_is_SomeI) auto
  have "map_of out f \<noteq> None \<longleftrightarrow> map_of input f \<noteq> None" if "f \<in> set fs" for f
  proof -
    have "f \<in> fst ` set cs \<longleftrightarrow> map_of input f \<noteq> None"
      using that arg_cong [OF assms(1), of set] by (simp add: given_def)
    then show ?thesis
      using assms(4) [OF that] out by fastforce
  qed
  then have "given out fs = map fst cs"
    unfolding assms(1) given_def by (rule filter_cong [OF refl])
  then have "map (\<lambda>f. (f, the (map_of out f))) (given out fs) = map (\<lambda>x. (fst x, the (map_of out (fst x)))) cs"
    by simp
  also have "\<dots> = cs"
    using out by (intro map_idI) fastforce
  finally show ?thesis .
qed

lemma reread_shape:
  assumes "map fst ns = given input (map fst configuration_ranges)" and "map fst bs = given input configuration_flags"
    and "map fst ts = given input [''candlePriceRange'']" and "out = (''symbol'', v) # ns @ bs @ ts"
  shows "map (\<lambda>f. (f, the (map_of out f))) (given out (map fst configuration_ranges)) = ns"
    and "map (\<lambda>f. (f, the (map_of out f))) (given out configuration_flags) = bs"
    and "map (\<lambda>f. (f, the (map_of out f))) (given out [''candlePriceRange'']) = ts"
proof -
  have distinct: "distinct (map fst out)"
    using shape_keys(1) [OF assms(1-3), of v] assms(4) by simp
  have key: "f = ''symbol'' \<or> f \<in> fst ` set ns \<or> f \<in> fst ` set bs \<or> f \<in> fst ` set ts" if "map_of out f \<noteq> None" for f
    using that unfolding assms(4) map_of_eq_None_iff by auto
  have parts: "set ns \<subseteq> set out" "set bs \<subseteq> set out" "set ts \<subseteq> set out"
    by (auto simp: assms(4))
  note names = given_names [OF assms(1)] given_names [OF assms(2)] given_names [OF assms(3)]
  show "map (\<lambda>f. (f, the (map_of out f))) (given out (map fst configuration_ranges)) = ns"
  proof (rule reread_part [OF assms(1) distinct parts(1)])
    show "f \<in> fst ` set ns" if "f \<in> set (map fst configuration_ranges)" "map_of out f \<noteq> None" for f
      using key [OF that(2)] names(2,3) [of f] range_names [OF that(1)] by auto
  qed
  show "map (\<lambda>f. (f, the (map_of out f))) (given out configuration_flags) = bs"
  proof (rule reread_part [OF assms(2) distinct parts(2)])
    show "f \<in> fst ` set bs" if "f \<in> set configuration_flags" "map_of out f \<noteq> None" for f
      using key [OF that(2)] names(1,3) [of f] range_names [of f] flag_names [OF that(1)] that(1) by auto
  qed
  show "map (\<lambda>f. (f, the (map_of out f))) (given out [''candlePriceRange'']) = ts"
  proof (rule reread_part [OF assms(3) distinct parts(3)])
    show "f \<in> fst ` set ts" if "f \<in> set [''candlePriceRange'']" "map_of out f \<noteq> None" for f
      using key [OF that(2)] names(1,2) [of f] range_names [of f] flag_names [of f] that(1) by auto
  qed
qed

lemma tradingConfiguration_idem:
  assumes "tradingConfiguration num_text v = Inr out"
  shows "tradingConfiguration num_text (Some (JObj out)) = Inr out"
proof -
  obtain input symbol ns bs ts where out: "out = (''symbol'', JStr symbol) # ns @ bs @ ts"
    and symbol: "symbol_format symbol"
    and parts: "map fst ns = given input (map fst configuration_ranges)" "map fst bs = given input configuration_flags"
      "map fst ts = given input [''candlePriceRange'']" and typed: "list_all well_typed out"
    by (rule tradingConfiguration_shape [OF assms])
  note reread = reread_shape [OF parts out]
  have typed_at: "well_typed (f, c)" if "map_of out f = Some c" for f c
    using that typed by (auto simp: list_all_iff dest: map_of_SomeD)
  have "objectValue (Some (JObj out)) (Some configuration_fields) = Inr out"
    using shape_keys(2) [OF parts, of "JStr symbol"] out
    by (auto simp: objectValue_def Let_def filter_empty_conv)
  moreover have "map_of out ''symbol'' = Some (JStr symbol)"
    by (simp add: out)
  moreover have "copy_fields (check_number num_text) out (map fst configuration_ranges) [(''symbol'', JStr symbol)]
      = Inr ([(''symbol'', JStr symbol)] @ ns)"
    using typed_at check_number_same by (subst copy_fields_same) (auto simp only: reread(1))
  moreover have "copy_fields check_flag out configuration_flags ((''symbol'', JStr symbol) # ns)
      = Inr (((''symbol'', JStr symbol) # ns) @ bs)"
    using typed_at check_flag_same by (subst copy_fields_same) (auto simp only: reread(2))
  moreover have "copy_fields check_timeframe out [''candlePriceRange''] ((''symbol'', JStr symbol) # ns @ bs)
      = Inr (((''symbol'', JStr symbol) # ns @ bs) @ ts)"
    using typed_at check_timeframe_same by (subst copy_fields_same) (auto simp: reread(3))
  ultimately show ?thesis
    using symbol_stays [OF symbol] symbol by (simp add: tradingConfiguration_def Let_def out [symmetric])
qed

section \<open>Properties\<close>

text \<open>
  What an accepted configuration is. \<^verbatim>\<open>tradingConfiguration\<close> only returns objects whose fields are
  those it knows, each once, with the symbol in BASE/QUOTE format, numbers that are finite and within
  their ranges, Boolean flags, and one of the six time frames.
\<close>

theorem accepted_configuration_is_typed:
  assumes "tradingConfiguration num_text v = Inr out"
  shows "distinct (map fst out) \<and> set (map fst out) \<subseteq> set configuration_fields \<and>
    list_all well_typed out \<and> map_of out ''symbol'' \<noteq> None"
proof -
  obtain input symbol ns bs ts where out: "out = (''symbol'', JStr symbol) # ns @ bs @ ts"
    and parts: "map fst ns = given input (map fst configuration_ranges)" "map fst bs = given input configuration_flags"
      "map fst ts = given input [''candlePriceRange'']" and "list_all well_typed out"
    by (rule tradingConfiguration_shape [OF assms])
  with shape_keys [OF parts, of "JStr symbol"] show ?thesis by simp
qed

definition sim_configuration :: json_object where
  "sim_configuration = [(''isOnlyBuy'', JBool True), (''symbol'', JStr '' eth/usdt ''), (''percentProfit'', JNum (Fin (1 / 50))),
     (''candlePriceRange'', JStr ''1h'')]"

lemmas configuration_defs =
  tradingConfiguration_def objectValue_def stringValue_def numberValue_def booleanValue_def check_number_def check_flag_def
  check_timeframe_def configuration_names timeframes_def trim_def is_space_def
  symbol_format_def currency_code_def is_symbol_char_def Let_def

lemma sim_configuration_accepted:
  "tradingConfiguration (\<lambda>_. []) (Some (JObj sim_configuration)) =
   Inr [(''symbol'', JStr ''ETH/USDT''), (''percentProfit'', JNum (Fin (1 / 50))), (''isOnlyBuy'', JBool True),
        (''candlePriceRange'', JStr ''1h'')]"
proof -
  have "toUpperCase ''eth/usdt'' = ''ETH/USDT''" by code_simp
  then show ?thesis by (simp add: sim_configuration_def configuration_defs)
qed

theorem accepted_configuration_is_typed_witness:
  "\<exists>out. tradingConfiguration (\<lambda>_. []) (Some (JObj sim_configuration)) = Inr out \<and> list_all well_typed out"
  using accepted_configuration_is_typed [OF sim_configuration_accepted] sim_configuration_accepted by blast

text \<open>
  Validation is idempotent. The configuration that is stored is accepted again, and unchanged:
  trimming, upper-casing and the order of the fields have reached a fixed point after one pass.
\<close>

theorem stored_configuration_revalidates:
  assumes "tradingConfiguration num_text v = Inr out"
  shows "tradingConfiguration num_text (Some (JObj out)) = Inr out"
  using assms by (rule tradingConfiguration_idem)

theorem stored_configuration_revalidates_witness:
  "\<exists>out. tradingConfiguration (\<lambda>_. []) (Some (JObj out)) = Inr out \<and> map_of out ''symbol'' = Some (JStr ''ETH/USDT'')"
  using stored_configuration_revalidates [OF sim_configuration_accepted] by fastforce

end
