(* ===== verification/Rate_Limit.thy ===== *)
theory Rate_Limit
  imports Http_Validation
begin

text \<open>
  \<^verbatim>\<open>src/saas/http/rate-limit.ts\<close>: the limiter that counts requests in memory, and the one that
  counts them in the table \<^verbatim>\<open>request_rate_limits\<close>. Times are integers: milliseconds of \<^verbatim>\<open>Date.now()\<close>,
  and for the database the milliseconds of \<^verbatim>\<open>now()\<close>. The hash of the database key is an argument.
\<close>

section \<open>The limiter in memory\<close>

record window_entry =
  we_count :: nat
  we_resetAt :: int

record limiter =
  rl_windows :: "string \<rightharpoonup> window_entry"
  rl_nextCleanup :: int

definition memoryRateLimit :: limiter where
  "memoryRateLimit = \<lparr>rl_windows = Map.empty, rl_nextCleanup = 0\<rparr>"

record rate_headers =
  rh_limit :: nat
  rh_remaining :: nat
  rh_reset :: int
  rh_retryAfter :: "int option"

definition ceil_seconds :: "int \<Rightarrow> int" where
  "ceil_seconds ms = - ((- ms) div 1000)"

definition cleanup :: "int \<Rightarrow> int \<Rightarrow> limiter \<Rightarrow> limiter" where
  "cleanup windowMs now s =
     (if now \<ge> rl_nextCleanup s
      then s\<lparr>rl_nextCleanup := now + windowMs,
             rl_windows := (\<lambda>key. case rl_windows s key of
               None \<Rightarrow> None | Some entry \<Rightarrow> if we_resetAt entry \<le> now then None else Some entry)\<rparr>
      else s)"

definition next_entry :: "int \<Rightarrow> int \<Rightarrow> window_entry option \<Rightarrow> window_entry" where
  "next_entry windowMs now current =
     (case current of
        Some entry \<Rightarrow> if we_resetAt entry \<le> now then \<lparr>we_count = 1, we_resetAt = now + windowMs\<rparr>
                      else entry\<lparr>we_count := we_count entry + 1\<rparr>
      | None \<Rightarrow> \<lparr>we_count = 1, we_resetAt = now + windowMs\<rparr>)"

definition rate_headers_of :: "nat \<Rightarrow> int \<Rightarrow> window_entry \<Rightarrow> rate_headers" where
  "rate_headers_of limit now entry =
     \<lparr>rh_limit = limit, rh_remaining = limit - we_count entry, rh_reset = ceil_seconds (we_resetAt entry),
      rh_retryAfter = (if we_count entry > limit then Some (max 1 (ceil_seconds (we_resetAt entry - now))) else None)\<rparr>"

text \<open>One request: the headers, the error passed on (None for \<^verbatim>\<open>next()\<close>), and the new state.\<close>

definition limit_request ::
    "nat \<Rightarrow> int \<Rightarrow> int \<Rightarrow> string \<Rightarrow> limiter \<Rightarrow> (rate_headers \<times> http_error option) \<times> limiter" where
  "limit_request limit windowMs now key s =
     (let s1 = cleanup windowMs now s; entry = next_entry windowMs now (rl_windows s1 key)
      in ((rate_headers_of limit now entry,
           if we_count entry > limit
           then Some (SaasHttpError 429 ''RATE_LIMITED'' ''Too many requests. Try again later.'' None) else None),
          s1\<lparr>rl_windows := (rl_windows s1)(key \<mapsto> entry)\<rparr>))"

text \<open>A sequence of requests (time, address), and how many of an address get through.\<close>

fun accepted :: "nat \<Rightarrow> int \<Rightarrow> string \<Rightarrow> (int \<times> string) list \<Rightarrow> limiter \<Rightarrow> nat" where
  "accepted limit windowMs key [] s = 0"
| "accepted limit windowMs key ((now, k) # es) s =
     (let ((_, err), t) = limit_request limit windowMs now k s
      in (if k = key \<and> err = None then 1 else 0) + accepted limit windowMs key es t)"

section \<open>The limiter in the database\<close>

text \<open>
  \<^verbatim>\<open>date_trunc('second', now())\<close> cuts the fraction of a second off, the cast \<^verbatim>\<open>::int\<close> of the epoch
  rounds to the nearest integer.
\<close>

definition bucket_start :: "int \<Rightarrow> int \<Rightarrow> int" where
  "bucket_start windowSeconds ms = ms div 1000 - ((ms + 500) div 1000) mod windowSeconds"

type_synonym rate_table = "(string \<times> int) \<Rightarrow> nat"

definition rate_key :: "(string \<Rightarrow> string) \<Rightarrow> string \<Rightarrow> string \<Rightarrow> json option \<Rightarrow> string" where
  "rate_key sha256 scope ip email =
     sha256 (scope @ '':'' @ ip @ '':'' @ (case email of Some (JStr e) \<Rightarrow> toLowerCase e | _ \<Rightarrow> []))"

definition databaseRateLimit :: "nat \<Rightarrow> int \<Rightarrow> string \<Rightarrow> int \<Rightarrow> rate_table \<Rightarrow> http_error option \<times> rate_table" where
  "databaseRateLimit limit windowSeconds key ms table =
     (let slot = (key, bucket_start windowSeconds ms); request_count = table slot + 1
      in (if request_count > limit
          then Some (SaasHttpError 429 ''RATE_LIMITED'' ''Too many requests. Try again later.'' None) else None,
          table(slot := request_count)))"

fun database_accepted :: "nat \<Rightarrow> int \<Rightarrow> string \<Rightarrow> int list \<Rightarrow> rate_table \<Rightarrow> nat" where
  "database_accepted limit windowSeconds key [] table = 0"
| "database_accepted limit windowSeconds key (ms # es) table =
     (let (err, t) = databaseRateLimit limit windowSeconds key ms table
      in (if err = None then 1 else 0) + database_accepted limit windowSeconds key es t)"

section \<open>Counting within a window\<close>

text \<open>A live entry survives the clean-up and the requests of other addresses, and counts its own.\<close>

definition live :: "string \<Rightarrow> int \<Rightarrow> limiter \<Rightarrow> window_entry option" where
  "live key now s = (case rl_windows s key of
     Some entry \<Rightarrow> if we_resetAt entry \<le> now then None else Some entry | None \<Rightarrow> None)"

lemma live_cleanup: "live key now (cleanup windowMs now s) = live key now s"
  by (auto simp: cleanup_def live_def split: option.split)

lemma entry_live: "next_entry windowMs now (rl_windows (cleanup windowMs now s) key) = next_entry windowMs now (live key now s)"
proof -
  have "next_entry windowMs now (rl_windows t key) = next_entry windowMs now (live key now t)" for t
    by (auto simp: next_entry_def live_def split: option.split)
  then show ?thesis using live_cleanup by metis
qed

lemma cleanup_keeps:
  "rl_windows s key = Some entry \<Longrightarrow> now < we_resetAt entry \<Longrightarrow> rl_windows (cleanup windowMs now s) key = Some entry"
  by (simp add: cleanup_def)

lemma accepted_live:
  assumes "rl_windows s key = Some entry" and "\<forall>(now, _) \<in> set es. now < we_resetAt entry"
  shows "accepted limit windowMs key es s = min (limit - we_count entry) (length (filter (\<lambda>e. snd e = key) es))"
  using assms
proof (induction es arbitrary: s entry)
  case (Cons e es)
  obtain now k where e: "e = (now, k)" by force
  have kept: "rl_windows (cleanup windowMs now s) key = Some entry"
    using Cons.prems e by (intro cleanup_keeps) auto
  show ?case
  proof (cases "k = key")
    case True
    let ?entry = "entry\<lparr>we_count := we_count entry + 1\<rparr>"
    have "next_entry windowMs now (Some entry) = ?entry"
      using Cons.prems(2) e by (auto simp: next_entry_def)
    with kept True have "accepted limit windowMs key (e # es) s =
        (if we_count ?entry > limit then 0 else 1) +
        accepted limit windowMs key es (cleanup windowMs now s
          \<lparr>rl_windows := (rl_windows (cleanup windowMs now s))(key \<mapsto> ?entry)\<rparr>)"
      by (simp add: e limit_request_def Let_def)
    also have "accepted limit windowMs key es (cleanup windowMs now s
          \<lparr>rl_windows := (rl_windows (cleanup windowMs now s))(key \<mapsto> ?entry)\<rparr>)
        = min (limit - we_count ?entry) (length (filter (\<lambda>e. snd e = key) es))"
      using Cons.prems(2) by (intro Cons.IH) auto
    finally show ?thesis
      using True e by (auto simp: min_def)
  next
    case False
    let ?t = "snd (limit_request limit windowMs now k s)"
    have "rl_windows ?t key = Some entry"
      using kept False by (simp add: limit_request_def Let_def)
    with Cons.prems(2) have "accepted limit windowMs key es ?t = min (limit - we_count entry) (length (filter (\<lambda>e. snd e = key) es))"
      by (intro Cons.IH) auto
    with False e show ?thesis
      by (simp add: limit_request_def Let_def)
  qed
qed simp

lemma database_accepted_step:
  "database_accepted limit windowSeconds key (ms # es) table =
     (if table (key, bucket_start windowSeconds ms) < limit then 1 else 0) +
     database_accepted limit windowSeconds key es
       (table((key, bucket_start windowSeconds ms) := Suc (table (key, bucket_start windowSeconds ms))))"
  by (simp add: databaseRateLimit_def Let_def)

declare database_accepted.simps(2) [simp del]

lemma database_accepted_slot:
  assumes "\<forall>ms \<in> set es. bucket_start windowSeconds ms = b"
  shows "database_accepted limit windowSeconds key es table = min (limit - table (key, b)) (length es)"
  using assms
proof (induction es arbitrary: table)
  case (Cons ms es)
  then have "database_accepted limit windowSeconds key es (table((key, b) := Suc (table (key, b))))
      = min (limit - Suc (table (key, b))) (length es)" by simp
  with Cons.prems show ?case
    unfolding database_accepted_step by (cases "table (key, b) < limit") simp_all
qed simp

lemma database_accepted_frame:
  assumes "\<forall>ms \<in> set fs. bucket_start windowSeconds ms \<noteq> b"
  shows "database_accepted limit windowSeconds key fs (table((key, b) := n)) = database_accepted limit windowSeconds key fs table"
  using assms
proof (induction fs arbitrary: table)
  case (Cons f fs)
  let ?slot = "(key, bucket_start windowSeconds f)"
  from Cons.prems have other: "?slot \<noteq> (key, b)" by simp
  then have "(table((key, b) := n))(?slot := v) = (table(?slot := v))((key, b) := n)" for v
    by (rule fun_upd_twist [symmetric])
  with Cons other show ?case
    unfolding database_accepted_step by (simp del: fun_upd_apply) (simp add: fun_upd_def)
qed simp

lemma database_accepted_append:
  assumes "\<forall>ms \<in> set es. bucket_start windowSeconds ms = b" and "\<forall>ms \<in> set fs. bucket_start windowSeconds ms \<noteq> b"
  shows "database_accepted limit windowSeconds key (es @ fs) table =
    database_accepted limit windowSeconds key es table + database_accepted limit windowSeconds key fs table"
  using assms(1)
proof (induction es arbitrary: table)
  case (Cons e es)
  with database_accepted_frame [OF assms(2)] show ?case
    by (simp add: database_accepted_step)
qed simp

section \<open>Properties\<close>

text \<open>
  The limiter in memory lets exactly the first \<^verbatim>\<open>limit\<close> requests of a window through. Whatever other
  addresses do and whenever the clean-up runs, of the requests of one address from the first one
  until its window ends the first \<^verbatim>\<open>limit\<close> pass and all others get the error 429.
\<close>

theorem memory_limit_is_exact:
  assumes "live key t0 s = None" and "0 < limit" and "\<forall>(now, _) \<in> set es. now < t0 + windowMs"
  shows "accepted limit windowMs key ((t0, key) # es) s = min limit (Suc (length (filter (\<lambda>e. snd e = key) es)))"
proof -
  let ?entry = "\<lparr>we_count = 1, we_resetAt = t0 + windowMs\<rparr>"
  let ?t = "snd (limit_request limit windowMs t0 key s)"
  have entry: "next_entry windowMs t0 (rl_windows (cleanup windowMs t0 s) key) = ?entry"
    unfolding entry_live assms(1) by (simp add: next_entry_def)
  then have "rl_windows ?t key = Some ?entry"
    by (simp add: limit_request_def Let_def)
  from accepted_live [OF this] assms(3)
  have "accepted limit windowMs key es ?t = min (limit - 1) (length (filter (\<lambda>e. snd e = key) es))" by simp
  with entry assms(2) show ?thesis
    by (cases limit) (simp_all add: limit_request_def Let_def)
qed

theorem memory_limit_is_exact_witness:
  "accepted 2 60000 ''a'' [(0, ''a''), (10, ''b''), (20, ''a''), (30, ''a''), (40, ''a'')] memoryRateLimit = 2"
proof -
  have "live ''a'' 0 memoryRateLimit = None"
    by (simp add: live_def memoryRateLimit_def)
  from memory_limit_is_exact [OF this, of 2 "[(10, ''b''), (20, ''a''), (30, ''a''), (40, ''a'')]" 60000] show ?thesis
    by simp
qed

text \<open>
  The limiter in the database counts one window in two buckets. Requests in the first half of a
  second and requests in its second half get different starts of the bucket, for every window of at
  least two seconds, because one part of the expression truncates the time and the other rounds it;
  so twice the limit passes, already within one second.
\<close>

theorem database_limit_is_doubled:
  assumes "2 \<le> windowSeconds"
  shows "database_accepted limit windowSeconds key (replicate limit (1000 * b) @ replicate limit (1000 * b + 600)) (\<lambda>_. 0)
    = 2 * limit"
proof -
  have "(1000 * b + 500) div 1000 = b" "(1000 * b + 600) div 1000 = b" "(1000 * b + 600 + 500) div 1000 = b + 1"
    by simp_all
  then have first: "bucket_start windowSeconds (1000 * b) = b - b mod windowSeconds"
    and second: "bucket_start windowSeconds (1000 * b + 600) = b - (b + 1) mod windowSeconds"
    by (simp_all add: bucket_start_def)
  have "(b + 1) mod windowSeconds \<noteq> b mod windowSeconds"
  proof
    assume "(b + 1) mod windowSeconds = b mod windowSeconds"
    then have "windowSeconds dvd (b + 1) - b" by (simp add: mod_eq_dvd_iff)
    with assms show False using zdvd_imp_le [of windowSeconds 1] by simp
  qed
  with first second have other: "\<forall>ms \<in> set (replicate limit (1000 * b + 600)). bucket_start windowSeconds ms \<noteq> bucket_start windowSeconds (1000 * b)"
    by simp
  have "database_accepted limit windowSeconds key (replicate limit ms) (\<lambda>_. 0) = limit" for ms
    using database_accepted_slot [of "replicate limit ms" windowSeconds "bucket_start windowSeconds ms"] by simp
  with database_accepted_append [OF _ other, of "replicate limit (1000 * b)" limit key "\<lambda>_. 0"] show ?thesis by simp
qed

theorem database_limit_is_doubled_witness:
  "database_accepted 5 60 ''k'' (replicate 5 1000 @ replicate 5 1600) (\<lambda>_. 0) = 10"
  using database_limit_is_doubled [of 60 5 "''k''" 1] by simp

end
