(* ===== verification/Billing_Lifecycle.thy ===== *)
theory Billing_Lifecycle
  imports Http_Validation
begin

text \<open>
  \<^verbatim>\<open>src/saas/billing/lifecycle.ts\<close> and \<^verbatim>\<open>src/saas/billing/renewals.ts\<close>: what a payment, a failed renewal
  and a refund do to a subscription, and the worker that renews, reconciles and expires.

  The tables \<^verbatim>\<open>subscriptions\<close>, \<^verbatim>\<open>billing_payments\<close> and \<^verbatim>\<open>billing_refunds\<close> are lists of rows with the columns
  these statements read (of the provider's snapshot only the address where a payment is confirmed; the timestamps
  that are only written are left out); a timestamp is a number of seconds, NULL is None, and \<open>now\<close> is the
  \<^verbatim>\<open>now()\<close> of the transaction. Adding a calendar month is an argument \<open>add_month\<close>, and the payment
  provider is an argument wherever a function calls it. A transaction that throws leaves the tables
  as they were.
\<close>

section \<open>Tables\<close>

datatype plan_id = FREE | PRO

datatype subscription_status = INACTIVE | ACTIVE | PAST_DUE | CANCELLED

record subscription =
  su_organization_id :: string
  su_plan :: plan_id
  su_status :: subscription_status
  su_current_period_end :: "int option"
  su_cancel_at_period_end :: bool
  su_payment_method_id :: "string option"
  su_auto_renew :: bool
  su_next_billing_at :: "int option"
  su_last_payment_id :: "string option"
  su_grace_period_end :: "int option"
  su_retry_count :: nat
  su_last_billing_error_code :: "string option"

datatype payment_status = Pending | WaitingForCapture | Succeeded | Canceled

datatype payment_kind = INITIAL | RENEWAL

record payment_row =
  pm_organization_id :: string
  pm_provider_payment_id :: string
  pm_idempotency_key :: string
  pm_kind :: payment_kind
  pm_status :: payment_status
  pm_amount_kopecks :: nat
  pm_attempt_number :: nat
  pm_reconcile_after :: "int option"
  pm_reconciliation_attempts :: nat
  pm_entitlement_applied_at :: "int option"
  pm_failure_applied_at :: "int option"
  pm_confirmation_url :: "string option"
  pm_created_at :: int

datatype refund_status = RefundRequested | RefundPending | RefundSucceeded | RefundCanceled

record refund_row =
  rf_organization_id :: string
  rf_idempotency_key :: string
  rf_reason :: string
  rf_created_at :: int
  rf_provider_refund_id :: "string option"
  rf_provider_payment_id :: string
  rf_status :: refund_status
  rf_amount_kopecks :: nat
  rf_lifecycle_applied_at :: "int option"
  rf_reconcile_after :: "int option"
  rf_reconciliation_attempts :: nat

record billing_db =
  bd_subscriptions :: "subscription list"
  bd_payments :: "payment_row list"
  bd_refunds :: "refund_row list"

section \<open>Values of the provider and of the configuration\<close>

record yoo_payment =
  yp_id :: string
  yp_status :: payment_status
  yp_paid :: bool
  yp_payment_method :: "(string \<times> bool) option"
  yp_reason :: "string option"

record yoo_refund =
  yr_id :: string
  yr_payment_id :: string
  yr_status :: refund_status

record local_payment =
  lp_organization_id :: string
  lp_kind :: payment_kind
  lp_attempt_number :: nat

record billing_config =
  bc_priceKopecks :: nat
  bc_gracePeriodDays :: int
  bc_retryScheduleHours :: "int list"
  bc_reconciliationMinutes :: int

text \<open>
  The checks of \<^verbatim>\<open>getBillingConfig\<close> (\<^verbatim>\<open>src/saas/billing/config.ts\<close>) on the dunning policy, once the
  environment variables are read as whole numbers.
\<close>

definition retry_schedule_accepted :: "int \<Rightarrow> int list \<Rightarrow> bool" where
  "retry_schedule_accepted gracePeriodDays schedule \<longleftrightarrow>
     schedule \<noteq> [] \<and> length schedule \<le> 10 \<and>
     list_all (\<lambda>i. 1 \<le> schedule ! i \<and> schedule ! i \<le> gracePeriodDays * 24 \<and> (i > 0 \<longrightarrow> schedule ! i > schedule ! (i - 1)))
       [0..<length schedule]"

definition billing_policy_accepted :: "billing_config \<Rightarrow> bool" where
  "billing_policy_accepted config \<longleftrightarrow>
     1 \<le> bc_gracePeriodDays config \<and> bc_gracePeriodDays config \<le> 30 \<and>
     retry_schedule_accepted (bc_gracePeriodDays config) (bc_retryScheduleHours config) \<and>
     1 \<le> bc_reconciliationMinutes config \<and> bc_reconciliationMinutes config \<le> 1440"

abbreviation minutes :: "int \<Rightarrow> int" where "minutes n \<equiv> 60 * n"
abbreviation hours :: "int \<Rightarrow> int" where "hours n \<equiv> 3600 * n"
abbreviation days :: "int \<Rightarrow> int" where "days n \<equiv> 86400 * n"

definition update_where :: "('r \<Rightarrow> bool) \<Rightarrow> ('r \<Rightarrow> 'r) \<Rightarrow> 'r list \<Rightarrow> 'r list" where
  "update_where p f rows = map (\<lambda>r. if p r then f r else r) rows"

section \<open>lifecycle.ts\<close>

text \<open>\<open>schedule[attempt - 1]\<close>; an index out of range is undefined.\<close>

definition retryDelayHours :: "nat \<Rightarrow> int list \<Rightarrow> int option" where
  "retryDelayHours attempt schedule =
     (if 1 \<le> attempt \<and> attempt \<le> length schedule then Some (schedule ! (attempt - 1)) else None)"

definition is_open :: "payment_status \<Rightarrow> bool" where
  "is_open s \<longleftrightarrow> s = Pending \<or> s = WaitingForCapture"

definition record_payment :: "billing_config \<Rightarrow> int \<Rightarrow> yoo_payment \<Rightarrow> payment_row \<Rightarrow> payment_row" where
  "record_payment config now payment r =
     r\<lparr>pm_status := yp_status payment,
       pm_reconcile_after := (if is_open (yp_status payment) then Some (now + minutes (bc_reconciliationMinutes config)) else None),
       pm_reconciliation_attempts := (if is_open (yp_status payment) then pm_reconciliation_attempts r + 1
                                      else pm_reconciliation_attempts r),
       pm_confirmation_url := None\<rparr>"

definition saved_method :: "yoo_payment \<Rightarrow> string option" where
  "saved_method payment = (case yp_payment_method payment of Some (m, True) \<Rightarrow> Some m | _ \<Rightarrow> None)"

text \<open>\<open>GREATEST(COALESCE(current_period_end, now()), now()) + interval '1 month'\<close>.\<close>

definition extended_period :: "(int \<Rightarrow> int) \<Rightarrow> int \<Rightarrow> subscription \<Rightarrow> int" where
  "extended_period add_month now s = add_month (max (nullish (su_current_period_end s) now) now)"

definition new_subscription :: "(int \<Rightarrow> int) \<Rightarrow> int \<Rightarrow> string \<Rightarrow> string \<Rightarrow> string option \<Rightarrow> subscription" where
  "new_subscription add_month now organization paymentId method =
     \<lparr>su_organization_id = organization, su_plan = PRO, su_status = ACTIVE, su_current_period_end = Some (add_month now),
      su_cancel_at_period_end = False, su_payment_method_id = method, su_auto_renew = (method \<noteq> None),
      su_next_billing_at = (if method \<noteq> None then Some (add_month now) else None), su_last_payment_id = Some paymentId,
      su_grace_period_end = None, su_retry_count = 0, su_last_billing_error_code = None\<rparr>"

definition renewed_subscription :: "(int \<Rightarrow> int) \<Rightarrow> int \<Rightarrow> string \<Rightarrow> string option \<Rightarrow> subscription \<Rightarrow> subscription" where
  "renewed_subscription add_month now paymentId method s =
     s\<lparr>su_plan := PRO, su_status := ACTIVE, su_current_period_end := Some (extended_period add_month now s),
       su_payment_method_id := nullish_opt method (su_payment_method_id s),
       su_auto_renew := (if method = None then su_auto_renew s else True),
       su_next_billing_at := (if nullish_opt method (su_payment_method_id s) = None then None
                              else Some (extended_period add_month now s)),
       su_cancel_at_period_end := False, su_last_payment_id := Some paymentId, su_grace_period_end := None,
       su_retry_count := 0, su_last_billing_error_code := None\<rparr>"

text \<open>The insert with its \<^verbatim>\<open>ON CONFLICT(organization_id)\<close>.\<close>

definition apply_success ::
    "(int \<Rightarrow> int) \<Rightarrow> int \<Rightarrow> string \<Rightarrow> string \<Rightarrow> string option \<Rightarrow> subscription list \<Rightarrow> subscription list" where
  "apply_success add_month now organization paymentId method rows =
     (if \<exists>s \<in> set rows. su_organization_id s = organization
      then update_where (\<lambda>s. su_organization_id s = organization) (renewed_subscription add_month now paymentId method) rows
      else rows @ [new_subscription add_month now organization paymentId method])"

text \<open>
  The update after a failed renewal. \<open>delay\<close> is the delay until the next attempt in hours; without
  one, or if the next attempt would come after the grace period, the subscription is cancelled.
\<close>

definition grace_deadline :: "billing_config \<Rightarrow> int \<Rightarrow> subscription \<Rightarrow> int" where
  "grace_deadline config now s =
     nullish (nullish_opt (su_grace_period_end s)
       (map_option (\<lambda>e. e + days (bc_gracePeriodDays config)) (su_current_period_end s))) now"

definition gives_up :: "billing_config \<Rightarrow> int \<Rightarrow> int option \<Rightarrow> subscription \<Rightarrow> bool" where
  "gives_up config now delay s =
     (case delay of None \<Rightarrow> True | Some h \<Rightarrow> now + hours h \<ge> grace_deadline config now s)"

definition failed_subscription ::
    "billing_config \<Rightarrow> int \<Rightarrow> int option \<Rightarrow> nat \<Rightarrow> bool \<Rightarrow> string \<Rightarrow> subscription \<Rightarrow> subscription" where
  "failed_subscription config now delay attempt revoked reason s =
     s\<lparr>su_status := (if gives_up config now delay s then CANCELLED else PAST_DUE),
       su_plan := (if gives_up config now delay s then FREE else su_plan s),
       su_grace_period_end := Some (nullish (nullish_opt (su_grace_period_end s)
         (map_option (\<lambda>e. e + days (bc_gracePeriodDays config)) (su_current_period_end s)))
         (now + days (bc_gracePeriodDays config))),
       su_retry_count := max (su_retry_count s) attempt,
       su_next_billing_at := (if gives_up config now delay s then None else Some (now + hours (the delay))),
       su_auto_renew := (if gives_up config now delay s then False else su_auto_renew s),
       su_payment_method_id := (if revoked then None else su_payment_method_id s),
       su_last_billing_error_code := Some reason\<rparr>"

definition applyPaymentLifecycle ::
    "(int \<Rightarrow> int) \<Rightarrow> billing_config \<Rightarrow> int \<Rightarrow> local_payment \<Rightarrow> yoo_payment \<Rightarrow> billing_db \<Rightarrow> billing_db" where
  "applyPaymentLifecycle add_month config now local payment db =
     (let mine = (\<lambda>r. pm_provider_payment_id r = yp_id payment);
          db1 = db\<lparr>bd_payments := update_where mine (record_payment config now payment) (bd_payments db)\<rparr>
      in if yp_status payment = Succeeded \<and> yp_paid payment
         then if \<exists>r \<in> set (bd_payments db1). mine r \<and> pm_entitlement_applied_at r = None
              then db1\<lparr>bd_payments := update_where (\<lambda>r. mine r \<and> pm_entitlement_applied_at r = None)
                         (\<lambda>r. r\<lparr>pm_entitlement_applied_at := Some now\<rparr>) (bd_payments db1),
                       bd_subscriptions := apply_success add_month now (lp_organization_id local) (yp_id payment)
                         (saved_method payment) (bd_subscriptions db1)\<rparr>
              else db1
         else if yp_status payment \<noteq> Canceled \<or> lp_kind local \<noteq> RENEWAL then db1
         else if \<exists>r \<in> set (bd_payments db1). mine r \<and> pm_failure_applied_at r = None
         then let reason = nullish (yp_reason payment) ''payment_canceled'';
                  revoked = (reason = ''permission_revoked'');
                  delay = (if revoked then None else retryDelayHours (lp_attempt_number local) (bc_retryScheduleHours config))
              in db1\<lparr>bd_payments := update_where (\<lambda>r. mine r \<and> pm_failure_applied_at r = None)
                       (\<lambda>r. r\<lparr>pm_failure_applied_at := Some now\<rparr>) (bd_payments db1),
                     bd_subscriptions := update_where (\<lambda>s. su_organization_id s = lp_organization_id local)
                       (failed_subscription config now delay (lp_attempt_number local) revoked reason) (bd_subscriptions db1)\<rparr>
         else db1)"

definition fully_refunded :: "yoo_refund \<Rightarrow> billing_db \<Rightarrow> bool" where
  "fully_refunded refund db \<longleftrightarrow>
     (\<exists>r \<in> set (bd_refunds db). rf_provider_refund_id r = Some (yr_id refund) \<and>
        (\<exists>p \<in> set (bd_payments db). pm_provider_payment_id p = rf_provider_payment_id r \<and>
           rf_amount_kopecks r = pm_amount_kopecks p))"

definition refunded_subscription :: "int \<Rightarrow> subscription \<Rightarrow> subscription" where
  "refunded_subscription now s =
     s\<lparr>su_plan := FREE, su_status := CANCELLED, su_current_period_end := Some now, su_grace_period_end := None,
       su_auto_renew := False, su_next_billing_at := None, su_cancel_at_period_end := True\<rparr>"

definition applyRefundLifecycle :: "int \<Rightarrow> yoo_refund \<Rightarrow> billing_db \<Rightarrow> billing_db" where
  "applyRefundLifecycle now refund db =
     (if yr_status refund \<noteq> RefundSucceeded then db
      else let mine = (\<lambda>r. rf_provider_refund_id r = Some (yr_id refund) \<and> rf_lifecycle_applied_at r = None)
           in if \<not> (\<exists>r \<in> set (bd_refunds db). mine r) then db
              else let db1 = db\<lparr>bd_refunds := update_where mine (\<lambda>r. r\<lparr>rf_lifecycle_applied_at := Some now\<rparr>) (bd_refunds db)\<rparr>
                   in if fully_refunded refund db1
                      then db1\<lparr>bd_subscriptions := update_where (\<lambda>s. su_last_payment_id s = Some (yr_payment_id refund))
                             (refunded_subscription now) (bd_subscriptions db1)\<rparr>
                      else db1)"

section \<open>renewals.ts\<close>

text \<open>The first row of a list with the least key, as \<^verbatim>\<open>ORDER BY key LIMIT 1\<close> gives one.\<close>

fun first_by :: "('r \<Rightarrow> int) \<Rightarrow> 'r list \<Rightarrow> 'r option" where
  "first_by key [] = None"
| "first_by key (r # rs) = (case first_by key rs of None \<Rightarrow> Some r | Some q \<Rightarrow> if key r \<le> key q then Some r else Some q)"

definition due :: "int \<Rightarrow> subscription \<Rightarrow> bool" where
  "due now s \<longleftrightarrow>
     su_auto_renew s \<and> su_payment_method_id s \<noteq> None \<and> su_current_period_end s \<noteq> None \<and>
     (case su_next_billing_at s of None \<Rightarrow> False | Some t \<Rightarrow> t \<le> now) \<and> su_status s \<in> {ACTIVE, PAST_DUE}"

record renewal =
  rn_organization_id :: string
  rn_payment_method_id :: string
  rn_current_period_end :: int
  rn_email :: string
  rn_retry_count :: nat

definition renewal_of :: "subscription \<Rightarrow> string \<Rightarrow> renewal" where
  "renewal_of s email =
     \<lparr>rn_organization_id = su_organization_id s, rn_payment_method_id = the (su_payment_method_id s),
      rn_current_period_end = the (su_current_period_end s), rn_email = email, rn_retry_count = su_retry_count s\<rparr>"

text \<open>\<open>owners\<close> are the pairs of organisation and e-mail address of the join over memberships and users.\<close>

definition due_renewals :: "int \<Rightarrow> (string \<times> string) list \<Rightarrow> subscription list \<Rightarrow> (subscription \<times> string) list" where
  "due_renewals now owners rows =
     concat (map (\<lambda>s. map (\<lambda>ow. (s, snd ow)) (filter (\<lambda>ow. fst ow = su_organization_id s) owners)) (filter (due now) rows))"

definition claimRenewal :: "int \<Rightarrow> (string \<times> string) list \<Rightarrow> billing_db \<Rightarrow> renewal option \<times> billing_db" where
  "claimRenewal now owners db =
     (case first_by (\<lambda>(s, _). nullish (su_next_billing_at s) 0) (due_renewals now owners (bd_subscriptions db)) of
        None \<Rightarrow> (None, db)
      | Some (s, email) \<Rightarrow> (Some (renewal_of s email),
          db\<lparr>bd_subscriptions := update_where (\<lambda>r. su_organization_id r = su_organization_id s)
               (\<lambda>r. r\<lparr>su_next_billing_at := Some (now + minutes 15)\<rparr>) (bd_subscriptions db)\<rparr>))"

text \<open>
  The insert with its \<^verbatim>\<open>ON CONFLICT(provider_payment_id)\<close>; None is the violation of
  \<^verbatim>\<open>UNIQUE(organization_id,idempotency_key)\<close>, which aborts the transaction.
\<close>

definition insert_payment :: "payment_row \<Rightarrow> payment_row list \<Rightarrow> payment_row list option" where
  "insert_payment row rows =
     (if \<exists>r \<in> set rows. pm_provider_payment_id r = pm_provider_payment_id row
      then Some (update_where (\<lambda>r. pm_provider_payment_id r = pm_provider_payment_id row)
             (\<lambda>r. r\<lparr>pm_status := pm_status row, pm_confirmation_url := None\<rparr>) rows)
      else if \<exists>r \<in> set rows. pm_organization_id r = pm_organization_id row \<and> pm_idempotency_key r = pm_idempotency_key row
      then None
      else Some (rows @ [row]))"

definition renewal_row :: "billing_config \<Rightarrow> int \<Rightarrow> string \<Rightarrow> nat \<Rightarrow> yoo_payment \<Rightarrow> renewal \<Rightarrow> payment_row" where
  "renewal_row config now key attempt payment item =
     \<lparr>pm_organization_id = rn_organization_id item, pm_provider_payment_id = yp_id payment, pm_idempotency_key = key,
      pm_kind = RENEWAL, pm_status = yp_status payment, pm_amount_kopecks = bc_priceKopecks config,
      pm_attempt_number = attempt,
      pm_reconcile_after = (if is_open (yp_status payment) then Some (now + minutes (bc_reconciliationMinutes config)) else None),
      pm_reconciliation_attempts = 0, pm_entitlement_applied_at = None, pm_failure_applied_at = None,
      pm_confirmation_url = None, pm_created_at = now\<rparr>"

text \<open>
  \<open>key_of\<close> is the SHA-256 of organisation, end of the period and attempt; \<open>provider\<close> is
  \<^verbatim>\<open>createRecurringPayment\<close>, which charges a method of an organisation under an idempotency key, or fails.
\<close>

type_synonym charge = "string \<Rightarrow> string \<Rightarrow> string \<Rightarrow> string \<Rightarrow> http_error + yoo_payment"

definition renew ::
    "(int \<Rightarrow> int) \<Rightarrow> billing_config \<Rightarrow> (string \<Rightarrow> int \<Rightarrow> nat \<Rightarrow> string) \<Rightarrow> charge \<Rightarrow> int \<Rightarrow> renewal \<Rightarrow> billing_db \<Rightarrow> billing_db" where
  "renew add_month config key_of provider now item db =
     (let attempt = rn_retry_count item + 1;
          idempotencyKey = key_of (rn_organization_id item) (rn_current_period_end item) attempt;
          failed = db\<lparr>bd_subscriptions := update_where (\<lambda>r. su_organization_id r = rn_organization_id item)
                      (\<lambda>r. r\<lparr>su_next_billing_at := Some (now + hours 1)\<rparr>) (bd_subscriptions db)\<rparr>
      in case provider (rn_organization_id item) (rn_email item) (rn_payment_method_id item) idempotencyKey of
           Inl _ \<Rightarrow> failed
         | Inr payment \<Rightarrow>
             (case insert_payment (renewal_row config now idempotencyKey attempt payment item) (bd_payments db) of
                None \<Rightarrow> failed
              | Some rows \<Rightarrow>
                  applyPaymentLifecycle add_month config now
                    \<lparr>lp_organization_id = rn_organization_id item, lp_kind = RENEWAL, lp_attempt_number = attempt\<rparr> payment
                    (db\<lparr>bd_payments := rows\<rparr>)))"

definition claimReconciliation :: "int \<Rightarrow> billing_db \<Rightarrow> payment_row option \<times> billing_db" where
  "claimReconciliation now db =
     (case first_by (\<lambda>r. nullish (pm_reconcile_after r) 0)
             (filter (\<lambda>r. (case pm_reconcile_after r of None \<Rightarrow> False | Some t \<Rightarrow> t \<le> now) \<and> is_open (pm_status r)) (bd_payments db)) of
        None \<Rightarrow> (None, db)
      | Some row \<Rightarrow> (Some row, db\<lparr>bd_payments := update_where (\<lambda>r. pm_provider_payment_id r = pm_provider_payment_id row)
                      (\<lambda>r. r\<lparr>pm_reconcile_after := Some (now + minutes 15)\<rparr>) (bd_payments db)\<rparr>))"

definition reconcile ::
    "(int \<Rightarrow> int) \<Rightarrow> billing_config \<Rightarrow> (string \<Rightarrow> http_error + yoo_payment) \<Rightarrow> int \<Rightarrow> payment_row \<Rightarrow> billing_db \<Rightarrow> billing_db" where
  "reconcile add_month config getPayment now item db =
     (case getPayment (pm_provider_payment_id item) of
        Inl _ \<Rightarrow> db\<lparr>bd_payments := update_where (\<lambda>r. pm_provider_payment_id r = pm_provider_payment_id item)
                   (\<lambda>r. r\<lparr>pm_reconcile_after := Some (now + hours 1),
                          pm_reconciliation_attempts := pm_reconciliation_attempts r + 1\<rparr>) (bd_payments db)\<rparr>
      | Inr payment \<Rightarrow> applyPaymentLifecycle add_month config now
          \<lparr>lp_organization_id = pm_organization_id item, lp_kind = pm_kind item, lp_attempt_number = pm_attempt_number item\<rparr>
          payment db)"

definition claimRefundReconciliation :: "int \<Rightarrow> billing_db \<Rightarrow> string option \<times> billing_db" where
  "claimRefundReconciliation now db =
     (case first_by (\<lambda>r. nullish (rf_reconcile_after r) 0)
             (filter (\<lambda>r. (case rf_reconcile_after r of None \<Rightarrow> False | Some t \<Rightarrow> t \<le> now) \<and> rf_status r = RefundPending \<and>
                rf_provider_refund_id r \<noteq> None) (bd_refunds db)) of
        None \<Rightarrow> (None, db)
      | Some row \<Rightarrow> (rf_provider_refund_id row,
          db\<lparr>bd_refunds := update_where (\<lambda>r. rf_provider_refund_id r = rf_provider_refund_id row)
               (\<lambda>r. r\<lparr>rf_reconcile_after := Some (now + minutes 15)\<rparr>) (bd_refunds db)\<rparr>))"

definition reconcileRefund ::
    "billing_config \<Rightarrow> (string \<Rightarrow> http_error + yoo_refund) \<Rightarrow> int \<Rightarrow> string \<Rightarrow> billing_db \<Rightarrow> billing_db" where
  "reconcileRefund config getRefund now refundId db =
     (case getRefund refundId of
        Inl _ \<Rightarrow> db\<lparr>bd_refunds := update_where (\<lambda>r. rf_provider_refund_id r = Some refundId)
                   (\<lambda>r. r\<lparr>rf_reconcile_after := Some (now + hours 1),
                          rf_reconciliation_attempts := rf_reconciliation_attempts r + 1\<rparr>) (bd_refunds db)\<rparr>
      | Inr refund \<Rightarrow> applyRefundLifecycle now refund
          (db\<lparr>bd_refunds := update_where (\<lambda>r. rf_provider_refund_id r = Some (yr_id refund))
                (\<lambda>r. r\<lparr>rf_status := yr_status refund,
                       rf_reconcile_after := (if yr_status refund = RefundPending
                         then Some (now + minutes (bc_reconciliationMinutes config)) else None),
                       rf_reconciliation_attempts := rf_reconciliation_attempts r + 1\<rparr>) (bd_refunds db)\<rparr>))"

definition expireGracePeriods :: "int \<Rightarrow> billing_db \<Rightarrow> billing_db" where
  "expireGracePeriods now db =
     db\<lparr>bd_subscriptions := update_where
          (\<lambda>s. su_status s = PAST_DUE \<and> (case su_grace_period_end s of None \<Rightarrow> False | Some g \<Rightarrow> g \<le> now))
          (\<lambda>s. s\<lparr>su_plan := FREE, su_status := CANCELLED, su_auto_renew := False, su_next_billing_at := None\<rparr>)
          (bd_subscriptions db)\<rparr>"

text \<open>One turn of the loop of the leader; False says that it had nothing to do and sleeps.\<close>

definition leader_turn ::
    "(int \<Rightarrow> int) \<Rightarrow> billing_config \<Rightarrow> (string \<Rightarrow> int \<Rightarrow> nat \<Rightarrow> string) \<Rightarrow> charge \<Rightarrow>
     (string \<Rightarrow> http_error + yoo_payment) \<Rightarrow> (string \<Rightarrow> http_error + yoo_refund) \<Rightarrow> (string \<times> string) list \<Rightarrow> int \<Rightarrow>
     billing_db \<Rightarrow> bool \<times> billing_db" where
  "leader_turn add_month config key_of provider getPayment getRefund owners now db =
     (let db1 = expireGracePeriods now db
      in case claimRefundReconciliation now db1 of
           (Some refund, db2) \<Rightarrow> (True, reconcileRefund config getRefund now refund db2)
         | (None, db2) \<Rightarrow>
             (case claimReconciliation now db2 of
                (Some pending, db3) \<Rightarrow> (True, reconcile add_month config getPayment now pending db3)
              | (None, db3) \<Rightarrow>
                  (case claimRenewal now owners db3 of
                     (Some item, db4) \<Rightarrow> (True, renew add_month config key_of provider now item db4)
                   | (None, db4) \<Rightarrow> (False, db4))))"

section \<open>Lemmas\<close>

lemma update_where_ex:
  "(\<exists>r \<in> set (update_where p f rows). q r) \<longleftrightarrow> (\<exists>r \<in> set rows. if p r then q (f r) else q r)"
  by (auto simp: update_where_def split: if_splits)

lemma update_where_all:
  "(\<forall>r \<in> set (update_where p f rows). q r) \<longleftrightarrow> (\<forall>r \<in> set rows. if p r then q (f r) else q r)"
  by (auto simp: update_where_def split: if_splits)

lemma record_payment_keeps [simp]:
  "pm_provider_payment_id (record_payment config now payment r) = pm_provider_payment_id r"
  "pm_entitlement_applied_at (record_payment config now payment r) = pm_entitlement_applied_at r"
  "pm_failure_applied_at (record_payment config now payment r) = pm_failure_applied_at r"
  by (simp_all add: record_payment_def)

text \<open>A notification about a payment: when it arrives, what the row says, what the provider says.\<close>

type_synonym notification = "int \<times> local_payment \<times> yoo_payment"

definition deliver :: "(int \<Rightarrow> int) \<Rightarrow> billing_config \<Rightarrow> notification \<Rightarrow> billing_db \<Rightarrow> billing_db" where
  "deliver add_month config n db = (case n of (now, local, payment) \<Rightarrow> applyPaymentLifecycle add_month config now local payment db)"

definition about :: "string \<Rightarrow> notification \<Rightarrow> bool" where
  "about pid n \<longleftrightarrow> (case n of (_, _, payment) \<Rightarrow> yp_id payment = pid \<and> yp_status payment \<noteq> Canceled)"

definition paid :: "notification \<Rightarrow> bool" where
  "paid n \<longleftrightarrow> (case n of (_, _, payment) \<Rightarrow> yp_status payment = Succeeded \<and> yp_paid payment)"

definition unapplied :: "string \<Rightarrow> billing_db \<Rightarrow> bool" where
  "unapplied pid db \<longleftrightarrow> (\<exists>r \<in> set (bd_payments db). pm_provider_payment_id r = pid \<and> pm_entitlement_applied_at r = None)"

lemma deliver_subscriptions:
  assumes "about pid (now, local, payment)"
  shows "bd_subscriptions (deliver add_month config (now, local, payment) db) =
    (if paid (now, local, payment) \<and> unapplied pid db
     then apply_success add_month now (lp_organization_id local) pid (saved_method payment) (bd_subscriptions db)
     else bd_subscriptions db)"
  using assms
  by (auto simp: deliver_def about_def paid_def unapplied_def applyPaymentLifecycle_def update_where_ex Let_def)

lemma deliver_unapplied:
  assumes "about pid n"
  shows "unapplied pid (deliver add_month config n db) \<longleftrightarrow> unapplied pid db \<and> \<not> paid n"
proof (cases n)
  case (fields now local payment)
  with assms show ?thesis
    by (simp add: deliver_def about_def paid_def unapplied_def applyPaymentLifecycle_def update_where_ex
        update_where_all Let_def) blast
qed

lemma deliveries_after:
  assumes "\<forall>n \<in> set ns. about pid n" and "\<not> unapplied pid db"
  shows "bd_subscriptions (fold (deliver add_month config) ns db) = bd_subscriptions db"
  using assms
proof (induction ns arbitrary: db)
  case (Cons n ns)
  obtain now local payment where n: "n = (now, local, payment)" by (cases n) auto
  have "\<not> unapplied pid (deliver add_month config n db)"
    using Cons.prems deliver_unapplied [of pid n] by simp
  with Cons show ?case
    using deliver_subscriptions [of pid now local payment] by (simp add: n)
qed simp

lemma deliveries_before:
  assumes "\<forall>n \<in> set ns. about pid n \<and> \<not> paid n"
  shows "bd_subscriptions (fold (deliver add_month config) ns db) = bd_subscriptions db"
    and "unapplied pid (fold (deliver add_month config) ns db) \<longleftrightarrow> unapplied pid db"
proof -
  have "bd_subscriptions (fold (deliver add_month config) ns db) = bd_subscriptions db \<and>
    (unapplied pid (fold (deliver add_month config) ns db) \<longleftrightarrow> unapplied pid db)"
    using assms
  proof (induction ns arbitrary: db)
    case (Cons n ns)
    obtain now local payment where n: "n = (now, local, payment)" by (cases n) auto
    have "bd_subscriptions (deliver add_month config n db) = bd_subscriptions db"
      using Cons.prems deliver_subscriptions [of pid now local payment] by (simp add: n)
    moreover have "unapplied pid (deliver add_month config n db) \<longleftrightarrow> unapplied pid db"
      using Cons.prems deliver_unapplied [of pid n] by simp
    ultimately show ?case
      using Cons.IH [of "deliver add_month config n db"] Cons.prems by simp
  qed simp
  then show "bd_subscriptions (fold (deliver add_month config) ns db) = bd_subscriptions db"
    and "unapplied pid (fold (deliver add_month config) ns db) \<longleftrightarrow> unapplied pid db" by simp_all
qed

lemma first_by_mem: "first_by key rs = Some r \<Longrightarrow> r \<in> set rs"
  by (induction rs arbitrary: r) (auto split: option.splits if_splits)

lemma first_by_None [simp]: "first_by key rs = None \<longleftrightarrow> rs = []"
  by (cases rs) (auto split: option.splits)

lemma due_renewals_mem:
  "(s, email) \<in> set (due_renewals now owners rows) \<longleftrightarrow> s \<in> set rows \<and> due now s \<and> (su_organization_id s, email) \<in> set owners"
  by (force simp: due_renewals_def)

lemma claimRenewal_Some:
  assumes "claimRenewal now owners db = (Some item, db')"
  obtains s where "s \<in> set (bd_subscriptions db)" and "due now s" and "item = renewal_of s (rn_email item)"
    and "db' = db\<lparr>bd_subscriptions := update_where (\<lambda>r. su_organization_id r = rn_organization_id item)
               (\<lambda>r. r\<lparr>su_next_billing_at := Some (now + minutes 15)\<rparr>) (bd_subscriptions db)\<rparr>"
  using assms
  by (auto simp: claimRenewal_def renewal_of_def due_renewals_mem dest!: first_by_mem split: option.splits)

text \<open>The update of a subscription after a declined charge, from the notification to the row.\<close>

definition declined :: "billing_config \<Rightarrow> int \<Rightarrow> local_payment \<Rightarrow> yoo_payment \<Rightarrow> subscription \<Rightarrow> subscription" where
  "declined config now local payment =
     (let reason = nullish (yp_reason payment) ''payment_canceled'';
          revoked = (reason = ''permission_revoked'')
      in failed_subscription config now
           (if revoked then None else retryDelayHours (lp_attempt_number local) (bc_retryScheduleHours config))
           (lp_attempt_number local) revoked reason)"

lemma declined_subscriptions:
  assumes "yp_status payment = Canceled" and "lp_kind local = RENEWAL"
    and "\<exists>r \<in> set (bd_payments db). pm_provider_payment_id r = yp_id payment \<and> pm_failure_applied_at r = None"
  shows "bd_subscriptions (applyPaymentLifecycle add_month config now local payment db) =
    update_where (\<lambda>s. su_organization_id s = lp_organization_id local) (declined config now local payment) (bd_subscriptions db)"
  using assms by (auto simp: applyPaymentLifecycle_def declined_def update_where_ex Let_def)

lemma gives_up_None [simp]: "gives_up config now None s"
  by (simp add: gives_up_def)

lemma failed_subscription_outcome:
  assumes "bc_gracePeriodDays config \<ge> 1" and "\<And>h. delay = Some h \<Longrightarrow> h \<ge> 1"
    and new_def: "new = failed_subscription config now delay attempt revoked reason s"
  shows "gives_up config now delay s \<Longrightarrow>
      su_status new = CANCELLED \<and> su_plan new = FREE \<and> su_next_billing_at new = None \<and> \<not> su_auto_renew new"
    and "\<not> gives_up config now delay s \<Longrightarrow> su_status new = PAST_DUE \<and> su_plan new = su_plan s \<and>
      (\<exists>t g. su_next_billing_at new = Some t \<and> su_grace_period_end new = Some g \<and> now < t \<and> t < g)"
proof -
  show "su_status new = CANCELLED \<and> su_plan new = FREE \<and> su_next_billing_at new = None \<and> \<not> su_auto_renew new"
    if "gives_up config now delay s"
    using that by (simp add: new_def failed_subscription_def)
  assume go: "\<not> gives_up config now delay s"
  then obtain h where h: "delay = Some h" and before: "now + hours h < grace_deadline config now s"
    by (cases delay) (auto simp: gives_up_def)
  have "h \<ge> 1" using assms(2) h by simp
  with before have "su_grace_period_end new = Some (grace_deadline config now s)"
    by (cases "su_grace_period_end s"; cases "su_current_period_end s")
       (simp_all add: new_def failed_subscription_def grace_deadline_def)
  with go h before \<open>h \<ge> 1\<close> show "su_status new = PAST_DUE \<and> su_plan new = su_plan s \<and>
      (\<exists>t g. su_next_billing_at new = Some t \<and> su_grace_period_end new = Some g \<and> now < t \<and> t < g)"
    by (simp add: new_def failed_subscription_def)
qed

lemma retryDelayHours_accepted:
  "retry_schedule_accepted d schedule \<Longrightarrow> retryDelayHours attempt schedule = Some h \<Longrightarrow> 1 \<le> h \<and> h \<le> d * 24"
  by (auto simp: retry_schedule_accepted_def retryDelayHours_def list_all_iff split: if_splits)

section \<open>Properties\<close>

text \<open>
  C14: a payment extends a subscription once. Whatever the webhook, the response to the charge and the
  reconciliation deliver about one payment, in whatever order and however often, the subscriptions
  end as the first notification of its success left them; without one they do not change.
\<close>

theorem payment_extends_once:
  assumes "\<forall>n \<in> set ns. about pid n"
  shows "bd_subscriptions (fold (deliver add_month config) ns db) =
    (case find paid ns of None \<Rightarrow> bd_subscriptions db | Some n \<Rightarrow> bd_subscriptions (deliver add_month config n db))"
proof (cases "find paid ns")
  case None
  with assms have "\<forall>n \<in> set ns. about pid n \<and> \<not> paid n" by (auto simp: find_None_iff)
  from deliveries_before(1) [OF this] None show ?thesis by simp
next
  case (Some n)
  then obtain i where i: "i < length ns" "paid (ns ! i)" "n = ns ! i" and first: "\<forall>j < i. \<not> paid (ns ! j)"
    by (auto simp: find_Some_iff)
  let ?pre = "take i ns" and ?post = "drop (Suc i) ns"
  have split: "ns = ?pre @ n # ?post" using i by (simp add: id_take_nth_drop [symmetric])
  have n: "about pid n" using assms i by simp
  have pre: "\<forall>m \<in> set ?pre. about pid m \<and> \<not> paid m"
    using assms first by (metis in_set_conv_nth in_set_takeD length_take min_less_iff_conj nth_take)
  let ?db = "fold (deliver add_month config) ?pre db"
  have "\<not> unapplied pid (deliver add_month config n ?db)"
    using deliver_unapplied [OF n] i by simp
  then have "bd_subscriptions (fold (deliver add_month config) ?post (deliver add_month config n ?db)) =
      bd_subscriptions (deliver add_month config n ?db)"
    using assms by (intro deliveries_after) (auto dest: in_set_dropD)
  also have "\<dots> = bd_subscriptions (deliver add_month config n db)"
    using n deliveries_before [OF pre, of add_month config db] by (cases n) (simp add: deliver_subscriptions)
  finally have "bd_subscriptions (fold (deliver add_month config) (?pre @ n # ?post) db) =
      bd_subscriptions (deliver add_month config n db)" by simp
  with Some split show ?thesis by simp
qed

definition sim_billing_config :: billing_config where
  "sim_billing_config = \<lparr>bc_priceKopecks = 99000, bc_gracePeriodDays = 7, bc_retryScheduleHours = [1, 24, 72, 120],
     bc_reconciliationMinutes = 10\<rparr>"

definition sim_subscription :: "int \<Rightarrow> subscription" where
  "sim_subscription period_end =
     \<lparr>su_organization_id = ''org'', su_plan = PRO, su_status = ACTIVE, su_current_period_end = Some period_end,
      su_cancel_at_period_end = False, su_payment_method_id = Some ''card'', su_auto_renew = True,
      su_next_billing_at = Some period_end, su_last_payment_id = Some ''p0'', su_grace_period_end = None,
      su_retry_count = 0, su_last_billing_error_code = None\<rparr>"

definition sim_payment :: "string \<Rightarrow> payment_status \<Rightarrow> yoo_payment" where
  "sim_payment pid status = \<lparr>yp_id = pid, yp_status = status, yp_paid = (status = Succeeded),
     yp_payment_method = None, yp_reason = None\<rparr>"

definition sim_payment_row :: "string \<Rightarrow> nat \<Rightarrow> payment_row" where
  "sim_payment_row pid attempt = \<lparr>pm_organization_id = ''org'', pm_provider_payment_id = pid, pm_idempotency_key = pid,
     pm_kind = RENEWAL, pm_status = Pending, pm_amount_kopecks = 99000, pm_attempt_number = attempt,
     pm_reconcile_after = None, pm_reconciliation_attempts = 0, pm_entitlement_applied_at = None,
     pm_failure_applied_at = None, pm_confirmation_url = None, pm_created_at = 0\<rparr>"

definition sim_local :: "nat \<Rightarrow> local_payment" where
  "sim_local attempt = \<lparr>lp_organization_id = ''org'', lp_kind = RENEWAL, lp_attempt_number = attempt\<rparr>"

definition sim_billing_db :: "int \<Rightarrow> billing_db" where
  "sim_billing_db period_end = \<lparr>bd_subscriptions = [sim_subscription period_end],
     bd_payments = [sim_payment_row ''p1'' 1, sim_payment_row ''p2'' 2, sim_payment_row ''p3'' 3, sim_payment_row ''p4'' 4],
     bd_refunds = []\<rparr>"

lemmas sim_billing_defs = sim_billing_config_def sim_subscription_def sim_payment_def sim_payment_row_def sim_local_def
  sim_billing_db_def

theorem payment_extends_once_witness:
  "let late = (100, sim_local 1, sim_payment ''p1'' Succeeded)
   in bd_subscriptions (fold (deliver (\<lambda>t. t + days 30) sim_billing_config)
        [(90, sim_local 1, sim_payment ''p1'' Pending), late, late, late] (sim_billing_db 50)) =
      bd_subscriptions (deliver (\<lambda>t. t + days 30) sim_billing_config late (sim_billing_db 50))"
  using payment_extends_once [of "[(90, sim_local 1, sim_payment ''p1'' Pending), (100, sim_local 1, sim_payment ''p1'' Succeeded),
      (100, sim_local 1, sim_payment ''p1'' Succeeded), (100, sim_local 1, sim_payment ''p1'' Succeeded)]" "''p1''"
      "\<lambda>t. t + days 30" sim_billing_config "sim_billing_db 50"]
  by (simp add: about_def paid_def sim_payment_def)

text \<open>
  What a declined renewal leaves. The subscription of the organisation is either cancelled, on the
  free plan, with no further charge planned, or past due on its plan with the next charge strictly
  before the end of the grace period. A grace period that has begun is never moved, and the number of
  attempts on record never falls; a charge after the end of the schedule or without permission always
  cancels.
\<close>

theorem declined_renewal_effect:
  assumes "billing_policy_accepted config" and "yp_status payment = Canceled" and "lp_kind local = RENEWAL"
    and "\<exists>r \<in> set (bd_payments db). pm_provider_payment_id r = yp_id payment \<and> pm_failure_applied_at r = None"
    and "i < length (bd_subscriptions db)" and "su_organization_id (bd_subscriptions db ! i) = lp_organization_id local"
  shows "let old = bd_subscriptions db ! i;
             new = bd_subscriptions (applyPaymentLifecycle add_month config now local payment db) ! i
    in (su_status new = CANCELLED \<and> su_plan new = FREE \<and> su_next_billing_at new = None \<and> \<not> su_auto_renew new \<or>
        su_status new = PAST_DUE \<and> su_plan new = su_plan old \<and>
          (\<exists>t g. su_next_billing_at new = Some t \<and> su_grace_period_end new = Some g \<and> now < t \<and> t < g)) \<and>
       (su_grace_period_end old \<noteq> None \<longrightarrow> su_grace_period_end new = su_grace_period_end old) \<and>
       su_retry_count new = max (su_retry_count old) (lp_attempt_number local) \<and>
       (lp_attempt_number local > length (bc_retryScheduleHours config) \<or> yp_reason payment = Some ''permission_revoked''
          \<longrightarrow> su_status new = CANCELLED)"
proof -
  let ?old = "bd_subscriptions db ! i"
  let ?new = "bd_subscriptions (applyPaymentLifecycle add_month config now local payment db) ! i"
  define revoked where "revoked = (nullish (yp_reason payment) ''payment_canceled'' = ''permission_revoked'')"
  define delay where "delay = (if revoked then None else retryDelayHours (lp_attempt_number local) (bc_retryScheduleHours config))"
  have new: "?new = failed_subscription config now delay (lp_attempt_number local) revoked
      (nullish (yp_reason payment) ''payment_canceled'') ?old"
    unfolding declined_subscriptions [OF assms(2-4)] using assms(5,6)
    by (simp add: update_where_def declined_def delay_def revoked_def)
  have policy: "bc_gracePeriodDays config \<ge> 1" "\<And>h. delay = Some h \<Longrightarrow> h \<ge> 1"
    using assms(1) retryDelayHours_accepted
    by (auto simp: billing_policy_accepted_def delay_def split: if_splits)
  have outcome: "su_status ?new = CANCELLED \<and> su_plan ?new = FREE \<and> su_next_billing_at ?new = None \<and> \<not> su_auto_renew ?new \<or>
        su_status ?new = PAST_DUE \<and> su_plan ?new = su_plan ?old \<and>
          (\<exists>t g. su_next_billing_at ?new = Some t \<and> su_grace_period_end ?new = Some g \<and> now < t \<and> t < g)"
    using failed_subscription_outcome [OF policy new] by blast
  have "su_status ?new = CANCELLED"
    if "lp_attempt_number local > length (bc_retryScheduleHours config) \<or> yp_reason payment = Some ''permission_revoked''"
  proof -
    from that have "delay = None" by (auto simp: delay_def revoked_def retryDelayHours_def)
    then show ?thesis by (simp add: new failed_subscription_def)
  qed
  moreover have "su_grace_period_end ?old \<noteq> None \<longrightarrow> su_grace_period_end ?new = su_grace_period_end ?old"
    "su_retry_count ?new = max (su_retry_count ?old) (lp_attempt_number local)"
    by (auto simp: new failed_subscription_def)
  ultimately show ?thesis using outcome unfolding Let_def by blast
qed

theorem declined_renewal_effect_witness:
  "su_status (bd_subscriptions (applyPaymentLifecycle (\<lambda>t. t + days 30) sim_billing_config 100 (sim_local 7)
     (sim_payment ''p1'' Canceled) (sim_billing_db 100)) ! 0) = CANCELLED"
  using declined_renewal_effect [of sim_billing_config "sim_payment ''p1'' Canceled" "sim_local 7" "sim_billing_db 100" 0
      "\<lambda>t. t + days 30" 100]
  by (simp add: sim_billing_defs billing_policy_accepted_def retry_schedule_accepted_def Let_def upt_rec)

definition decline :: "int \<Rightarrow> nat \<Rightarrow> string \<Rightarrow> billing_db \<Rightarrow> billing_db" where
  "decline now attempt pid = applyPaymentLifecycle (\<lambda>t. t + days 30) sim_billing_config now (sim_local attempt) (sim_payment pid Canceled)"

definition unmarked :: "string \<Rightarrow> billing_db \<Rightarrow> bool" where
  "unmarked pid db \<longleftrightarrow> (\<exists>r \<in> set (bd_payments db). pm_provider_payment_id r = pid \<and> pm_failure_applied_at r = None)"

lemma decline_subscriptions:
  "unmarked pid db \<Longrightarrow> bd_subscriptions (decline now attempt pid db) =
     update_where (\<lambda>s. su_organization_id s = ''org'')
       (declined sim_billing_config now (sim_local attempt) (sim_payment pid Canceled)) (bd_subscriptions db)"
  unfolding decline_def unmarked_def by (subst declined_subscriptions) (simp_all add: sim_payment_def sim_local_def)

lemma unmarked_decline:
  "pid \<noteq> pid' \<Longrightarrow> unmarked pid' (decline now attempt pid db) = unmarked pid' db"
  by (simp add: decline_def unmarked_def applyPaymentLifecycle_def sim_payment_def sim_local_def update_where_ex Let_def)
     (intro conjI impI bex_cong refl; auto)

lemmas declined_eval = declined_def failed_subscription_def gives_up_def grace_deadline_def retryDelayHours_def sim_billing_defs

text \<open>
  The default schedule stops early. With retries after 1, 24, 72 and 120 hours and a grace period of
  seven days, a card that is declined at every attempt is charged at the end \<open>T\<close> of the period and 1, 25
  and 97 hours later; the fourth decline cancels the subscription, because the delays add up and the
  last one would end after the grace period. The retry after 120 hours never happens, and the plan is
  lost 71 hours before the grace period ends.
\<close>

theorem default_schedule_stops_early:
  "let db1 = decline T 1 ''p1'' (sim_billing_db T);
       db2 = decline (T + hours 1) 2 ''p2'' db1;
       db3 = decline (T + hours 25) 3 ''p3'' db2;
       db4 = decline (T + hours 97) 4 ''p4'' db3
   in map su_next_billing_at (bd_subscriptions db1) = [Some (T + hours 1)] \<and>
      map su_next_billing_at (bd_subscriptions db2) = [Some (T + hours 25)] \<and>
      map su_next_billing_at (bd_subscriptions db3) = [Some (T + hours 97)] \<and>
      map su_grace_period_end (bd_subscriptions db4) = [Some (T + hours 168)] \<and>
      map su_status (bd_subscriptions db4) = [CANCELLED] \<and> map su_plan (bd_subscriptions db4) = [FREE] \<and>
      map su_next_billing_at (bd_subscriptions db4) = [None]"
proof -
  define db1 where "db1 = decline T 1 ''p1'' (sim_billing_db T)"
  define db2 where "db2 = decline (T + hours 1) 2 ''p2'' db1"
  define db3 where "db3 = decline (T + hours 25) 3 ''p3'' db2"
  define db4 where "db4 = decline (T + hours 97) 4 ''p4'' db3"
  have rows: "unmarked ''p1'' (sim_billing_db T)" "unmarked ''p2'' db1" "unmarked ''p3'' db2" "unmarked ''p4'' db3"
    by (simp_all add: db1_def db2_def db3_def unmarked_decline) (simp_all add: unmarked_def sim_billing_defs)
  have s1: "bd_subscriptions db1 = [declined sim_billing_config T (sim_local 1) (sim_payment ''p1'' Canceled) (sim_subscription T)]"
    using rows(1) by (simp add: db1_def decline_subscriptions update_where_def) (simp add: sim_billing_defs)
  have d1: "bd_subscriptions db1 = [(sim_subscription T)\<lparr>su_status := PAST_DUE, su_grace_period_end := Some (T + hours 168),
      su_retry_count := 1, su_next_billing_at := Some (T + hours 1), su_last_billing_error_code := Some ''payment_canceled''\<rparr>]"
    by (simp add: s1 declined_eval)
  have d2: "bd_subscriptions db2 = [(sim_subscription T)\<lparr>su_status := PAST_DUE, su_grace_period_end := Some (T + hours 168),
      su_retry_count := 2, su_next_billing_at := Some (T + hours 25), su_last_billing_error_code := Some ''payment_canceled''\<rparr>]"
    using rows(2) by (simp add: db2_def decline_subscriptions update_where_def d1) (simp add: declined_eval)
  have d3: "bd_subscriptions db3 = [(sim_subscription T)\<lparr>su_status := PAST_DUE, su_grace_period_end := Some (T + hours 168),
      su_retry_count := 3, su_next_billing_at := Some (T + hours 97), su_last_billing_error_code := Some ''payment_canceled''\<rparr>]"
    using rows(3) by (simp add: db3_def decline_subscriptions update_where_def d2) (simp add: declined_eval)
  have d4: "bd_subscriptions db4 = [(sim_subscription T)\<lparr>su_status := CANCELLED, su_plan := FREE, su_auto_renew := False,
      su_grace_period_end := Some (T + hours 168), su_retry_count := 4, su_next_billing_at := None,
      su_last_billing_error_code := Some ''payment_canceled''\<rparr>]"
    using rows(4) by (simp add: db4_def decline_subscriptions update_where_def d3) (simp add: declined_eval)
  show ?thesis
    unfolding Let_def db1_def [symmetric] db2_def [symmetric] db3_def [symmetric] db4_def [symmetric]
    by (simp add: d1 d2 d3 d4)
qed

text \<open>
  No charge is started twice. A subscription that the worker has claimed for renewal is not claimed
  again within the next 15 minutes, even if the worker dies before it records the outcome; it was due, it
  has a payment method, and the claim changes no other subscription.
\<close>

theorem renewal_claimed_once:
  assumes "claimRenewal now owners db = (Some item, db')"
  shows "(\<exists>s \<in> set (bd_subscriptions db). su_organization_id s = rn_organization_id item \<and> due now s \<and>
            su_payment_method_id s = Some (rn_payment_method_id item)) \<and>
    filter (\<lambda>s. su_organization_id s \<noteq> rn_organization_id item) (bd_subscriptions db') =
      filter (\<lambda>s. su_organization_id s \<noteq> rn_organization_id item) (bd_subscriptions db) \<and>
    (now' < now + minutes 15 \<longrightarrow> claimRenewal now' owners' db' = (Some item', db'') \<longrightarrow>
       rn_organization_id item' \<noteq> rn_organization_id item)"
proof -
  obtain s where s: "s \<in> set (bd_subscriptions db)" "due now s" "item = renewal_of s (rn_email item)"
    and db': "db' = db\<lparr>bd_subscriptions := update_where (\<lambda>r. su_organization_id r = rn_organization_id item)
               (\<lambda>r. r\<lparr>su_next_billing_at := Some (now + minutes 15)\<rparr>) (bd_subscriptions db)\<rparr>"
    by (rule claimRenewal_Some [OF assms])
  have item: "rn_organization_id item = su_organization_id s" "su_payment_method_id s = Some (rn_payment_method_id item)"
    using s(2) by (subst s(3), force simp: renewal_of_def due_def)+
  have "rn_organization_id item' \<noteq> rn_organization_id item"
    if soon: "now' < now + minutes 15" and again: "claimRenewal now' owners' db' = (Some item', db'')"
  proof -
    obtain r where r: "r \<in> set (bd_subscriptions db')" "due now' r" "item' = renewal_of r (rn_email item')"
      by (rule claimRenewal_Some [OF again])
    have "rn_organization_id item' = su_organization_id r" by (subst r(3)) (simp add: renewal_of_def)
    with r(1,2) soon show ?thesis
      by (auto simp: db' update_where_def due_def)
  qed
  moreover have "filter (\<lambda>s. su_organization_id s \<noteq> rn_organization_id item) (bd_subscriptions db') =
      filter (\<lambda>s. su_organization_id s \<noteq> rn_organization_id item) (bd_subscriptions db)"
    by (auto simp: db' update_where_def filter_map o_def if_distrib cong: if_cong intro!: map_idI filter_cong)
  moreover have "\<exists>s \<in> set (bd_subscriptions db). su_organization_id s = rn_organization_id item \<and> due now s \<and>
      su_payment_method_id s = Some (rn_payment_method_id item)"
    using s(1,2) item by metis
  ultimately show ?thesis by simp
qed

theorem renewal_claimed_once_witness:
  "\<exists>item db'. claimRenewal 100 [(''org'', ''owner@example.org'')] (sim_billing_db 100) = (Some item, db') \<and>
     rn_organization_id item = ''org'' \<and>
     (\<forall>item'' db''. claimRenewal 900 [(''org'', ''owner@example.org'')] db' = (Some item'', db'') \<longrightarrow>
        rn_organization_id item'' \<noteq> rn_organization_id item)"
proof -
  obtain item db' where c: "claimRenewal 100 [(''org'', ''owner@example.org'')] (sim_billing_db 100) = (Some item, db')"
    and org: "rn_organization_id item = ''org''"
    by (simp add: claimRenewal_def due_renewals_def due_def renewal_of_def sim_billing_defs)
  from renewal_claimed_once [OF c, of 900 "[(''org'', ''owner@example.org'')]"]
  have "\<forall>item'' db''. claimRenewal 900 [(''org'', ''owner@example.org'')] db' = (Some item'', db'') \<longrightarrow>
      rn_organization_id item'' \<noteq> rn_organization_id item" by auto
  with c org show ?thesis by blast
qed

end
