(* ===== verification/Saas_Tables.thy ===== *)
theory Saas_Tables
  imports Billing_Lifecycle
begin

text \<open>
  The PostgreSQL tables that the HTTP handlers and the bot worker of the SaaS share, and
  \<^verbatim>\<open>saasTransaction\<close> of \<^verbatim>\<open>src/saas/db/pool.ts\<close>. A table is the list of its rows in the order of their
  insertion, with the columns the modelled statements read or compare; timestamps that are only written
  (\<^verbatim>\<open>updated_at\<close>, \<^verbatim>\<open>heartbeat_at\<close> and the like) are left out. A column that may be NULL is an option.
\<close>

section \<open>Rows\<close>

datatype desired_state = DesiredRunning | DesiredStopped

datatype actual_state = STARTING | RUNNING | STOPPING | STOPPED | FAILED

datatype bot_command = START | STOP | RESTART | EMERGENCY_STOP | DELETE

datatype command_status = PENDING | PROCESSING | SUCCEEDED | COMMAND_FAILED

datatype log_level = INFO | WARN | ERROR

record connection_row =
  ec_id :: string
  ec_organization_id :: string
  ec_exchange_code :: string
  ec_label :: string
  ec_credentials_ciphertext :: string
  ec_encryption_key_id :: string
  ec_enabled :: bool
  ec_sandbox :: bool
  ec_last_verified_at :: "int option"

record bot_row =
  tb_id :: string
  tb_organization_id :: string
  tb_exchange_connection_id :: string
  tb_name :: string
  tb_strategy :: string
  tb_configuration :: json_object
  tb_desired_state :: desired_state
  tb_actual_state :: actual_state
  tb_last_error :: "string option"
  tb_worker_instance_id :: "string option"
  tb_worker_pid :: "nat option"

record command_row =
  cm_id :: string
  cm_organization_id :: string
  cm_bot_id :: string
  cm_command :: bot_command
  cm_idempotency_key :: string
  cm_requested_by :: string
  cm_status :: command_status
  cm_error :: "string option"

record saas_order =
  so_organization_id :: string
  so_bot_id :: string
  so_exchange_order_id :: string
  so_client_order_id :: string
  so_symbol :: string
  so_side :: string
  so_order_type :: string
  so_status :: string
  so_quantity :: rat
  so_price :: "jsnum option"
  so_raw_response :: string

record sqlite_row =
  sq_organization_id :: string
  sq_bot_id :: string
  sq_database_name :: string
  sq_relative_path :: string
  sq_is_delete :: bool

record log_row =
  lg_id :: nat
  lg_organization_id :: string
  lg_bot_id :: string
  lg_level :: log_level
  lg_message :: string
  lg_created_at :: int

datatype role = OWNER | ADMIN | TRADER | ANALYST | BILLING | VIEWER

record membership_row =
  mb_organization_id :: string
  mb_user_id :: string
  mb_role :: role

record invitation_row =
  iv_id :: string
  iv_organization_id :: string
  iv_email :: string
  iv_role :: role
  iv_token_hash :: string
  iv_invited_by :: string
  iv_accepted_at :: "int option"
  iv_revoked_at :: "int option"
  iv_expires_at :: int

record audit_row =
  ae_organization_id :: "string option"
  ae_actor_user_id :: "string option"
  ae_action :: string
  ae_entity_type :: "string option"
  ae_entity_id :: "string option"
  ae_metadata :: json

text \<open>Trading sessions by their bot, usage by organisation and month.\<close>

record saas_db =
  sd_billing :: billing_db
  sd_exchange_connections :: "connection_row list"
  sd_trading_bots :: "bot_row list"
  sd_bot_commands :: "command_row list"
  sd_orders :: "saas_order list"
  sd_trading_sessions :: "string list"
  sd_bot_sqlite_databases :: "sqlite_row list"
  sd_bot_runtime_logs :: "log_row list"
  sd_memberships :: "membership_row list"
  sd_invitations :: "invitation_row list"
  sd_usage :: "string \<times> int \<Rightarrow> nat option"
  sd_audit_events :: "audit_row list"

section \<open>pool.ts\<close>

text \<open>A transaction that throws is rolled back.\<close>

definition saasTransaction :: "('d \<Rightarrow> 'e + ('a \<times> 'd)) \<Rightarrow> 'd \<Rightarrow> ('e + 'a) \<times> 'd" where
  "saasTransaction work db = (case work db of Inl e \<Rightarrow> (Inl e, db) | Inr (x, db') \<Rightarrow> (Inr x, db'))"

lemma saasTransaction_Inl: "saasTransaction work db = (Inl e, db') \<longleftrightarrow> work db = Inl e \<and> db' = db"
  by (auto simp: saasTransaction_def split: sum.splits prod.splits)

lemma saasTransaction_Inr: "saasTransaction work db = (Inr x, db') \<longleftrightarrow> work db = Inr (x, db')"
  by (auto simp: saasTransaction_def split: sum.splits prod.splits)

section \<open>Updates\<close>

lemma update_where_none: "(\<And>r. r \<in> set rows \<Longrightarrow> \<not> p r) \<Longrightarrow> update_where p f rows = rows"
  unfolding update_where_def by (intro map_idI) auto

lemma length_update_where [simp]: "length (update_where p f rows) = length rows"
  by (simp add: update_where_def)

lemma map_update_where: "(\<And>r. g (f r) = g r) \<Longrightarrow> map g (update_where p f rows) = map g rows"
  by (simp add: update_where_def)

lemma list_all_update_where:
  "list_all q (update_where p f rows) \<longleftrightarrow> list_all (\<lambda>r. if p r then q (f r) else q r) rows"
  by (induction rows) (auto simp: update_where_def)

lemma filter_update_where: "(\<And>r. q (f r) = q r) \<Longrightarrow> filter q (update_where p f rows) = update_where p f (filter q rows)"
  by (induction rows) (auto simp: update_where_def)

lemma find_update_where:
  "(\<And>r. q (f r) = q r) \<Longrightarrow> find q (update_where p f rows) = map_option (\<lambda>r. if p r then f r else r) (find q rows)"
  by (induction rows) (auto simp: update_where_def)

lemma update_where_twice:
  "(\<And>r. p r \<Longrightarrow> p (f r)) \<Longrightarrow> (\<And>r. p r \<Longrightarrow> f (f r) = f r) \<Longrightarrow> update_where p f (update_where p f rows) = update_where p f rows"
  by (simp add: update_where_def)

end
