(* ===== verification/Entitlements.thy ===== *)
theory Entitlements
  imports Saas_Tables "HOL-Library.List_Lexorder"
begin

text \<open>
  \<^verbatim>\<open>src/saas/entitlements/catalog.ts\<close>, \<^verbatim>\<open>src/saas/entitlements/service.ts\<close> and
  \<^verbatim>\<open>src/saas/features/service.ts\<close>: the plan an organisation has, what it may create and spend under it,
  and which features are switched on for it.

  The advisory locks serialise the transactions of one organisation and resource, so each function is one
  step on the tables. A function that throws aborts the transaction of its caller. Metrics are left out.
\<close>

section \<open>catalog.ts\<close>

record entitlements =
  en_maxExchangeConnections :: nat
  en_maxBots :: nat
  en_maxMembers :: nat
  en_monthlyBotCommands :: nat
  en_liveTrading :: bool

definition planCatalog :: "plan_id \<Rightarrow> entitlements" where
  "planCatalog plan =
     (case plan of
        FREE \<Rightarrow> \<lparr>en_maxExchangeConnections = 1, en_maxBots = 1, en_maxMembers = 1, en_monthlyBotCommands = 0, en_liveTrading = False\<rparr>
      | PRO \<Rightarrow> \<lparr>en_maxExchangeConnections = 5, en_maxBots = 10, en_maxMembers = 10, en_monthlyBotCommands = 10000, en_liveTrading = True\<rparr>)"

section \<open>service.ts\<close>

definition entitled :: "int \<Rightarrow> string \<Rightarrow> subscription \<Rightarrow> bool" where
  "entitled now organizationId s \<longleftrightarrow>
     su_organization_id s = organizationId \<and> su_status s \<in> {ACTIVE, PAST_DUE} \<and>
     ((case su_current_period_end s of None \<Rightarrow> False | Some t \<Rightarrow> t > now) \<or>
      (case su_grace_period_end s of None \<Rightarrow> False | Some t \<Rightarrow> t > now))"

definition activePlan :: "int \<Rightarrow> string \<Rightarrow> billing_db \<Rightarrow> plan_id" where
  "activePlan now organizationId db =
     (case find (entitled now organizationId) (bd_subscriptions db) of
        Some s \<Rightarrow> if su_plan s = PRO then PRO else FREE
      | None \<Rightarrow> FREE)"

definition plan_text :: "plan_id \<Rightarrow> string" where
  "plan_text plan = (case plan of FREE \<Rightarrow> ''FREE'' | PRO \<Rightarrow> ''PRO'')"

definition exceeded :: "string \<Rightarrow> plan_id \<Rightarrow> nat \<Rightarrow> nat \<Rightarrow> http_error" where
  "exceeded resource plan limit current =
     SaasHttpError 409 ''QUOTA_EXCEEDED'' (resource @ '' quota is exceeded.'')
       (Some (JObj [(''resource'', JStr resource), (''plan'', JStr (plan_text plan)),
                    (''limit'', JNum (Fin (of_nat limit))), (''current'', JNum (Fin (of_nat current)))]))"

datatype resource = ExchangeConnections | Bots

definition resource_text :: "resource \<Rightarrow> string" where
  "resource_text resource = (case resource of ExchangeConnections \<Rightarrow> ''exchangeConnections'' | Bots \<Rightarrow> ''bots'')"

text \<open>\<open>SELECT count(*)\<close> of the table of the resource.\<close>

definition resource_count :: "resource \<Rightarrow> string \<Rightarrow> saas_db \<Rightarrow> nat" where
  "resource_count resource organizationId db =
     (case resource of
        Bots \<Rightarrow> length (filter (\<lambda>r. tb_organization_id r = organizationId) (sd_trading_bots db))
      | ExchangeConnections \<Rightarrow> length (filter (\<lambda>r. ec_organization_id r = organizationId) (sd_exchange_connections db)))"

definition resource_limit :: "resource \<Rightarrow> entitlements \<Rightarrow> nat" where
  "resource_limit resource e = (case resource of Bots \<Rightarrow> en_maxBots e | ExchangeConnections \<Rightarrow> en_maxExchangeConnections e)"

definition enforceResourceQuota :: "int \<Rightarrow> string \<Rightarrow> resource \<Rightarrow> saas_db \<Rightarrow> (plan_id \<times> entitlements) checked" where
  "enforceResourceQuota now organizationId resource db =
     (let plan = activePlan now organizationId (sd_billing db);
          limit = resource_limit resource (planCatalog plan);
          current = resource_count resource organizationId db
      in if current \<ge> limit then Inl (exceeded (resource_text resource) plan limit current)
         else Inr (plan, planCatalog plan))"

definition open_invitation :: "int \<Rightarrow> string \<Rightarrow> invitation_row \<Rightarrow> bool" where
  "open_invitation now organizationId r \<longleftrightarrow>
     iv_organization_id r = organizationId \<and> iv_accepted_at r = None \<and> iv_revoked_at r = None \<and> iv_expires_at r > now"

definition enforceMemberQuota :: "int \<Rightarrow> string \<Rightarrow> saas_db \<Rightarrow> unit checked" where
  "enforceMemberQuota now organizationId db =
     (let plan = activePlan now organizationId (sd_billing db);
          limit = en_maxMembers (planCatalog plan);
          current = length (filter (\<lambda>m. mb_organization_id m = organizationId) (sd_memberships db)) +
                    length (filter (open_invitation now organizationId) (sd_invitations db))
      in if current \<ge> limit then Inl (exceeded ''members'' plan limit current) else Inr ())"

text \<open>\<open>month\<close> is \<^verbatim>\<open>date_trunc('month', now())\<close>.\<close>

definition consumeBotCommand :: "(int \<Rightarrow> int) \<Rightarrow> int \<Rightarrow> string \<Rightarrow> saas_db \<Rightarrow> saas_db checked" where
  "consumeBotCommand month now organizationId db =
     (let plan = activePlan now organizationId (sd_billing db);
          e = planCatalog plan
      in if \<not> en_liveTrading e
         then Inl (SaasHttpError 402 ''ENTITLEMENT_REQUIRED'' ''Live trading is not included in the current plan.''
                (Some (JObj [(''feature'', JStr ''liveTrading''), (''plan'', JStr (plan_text plan))])))
         else let quantity = (case sd_usage db (organizationId, month now) of None \<Rightarrow> 1 | Some q \<Rightarrow> q + 1)
              in if quantity > en_monthlyBotCommands e
                 then Inl (exceeded ''monthlyBotCommands'' plan (en_monthlyBotCommands e) (quantity - 1))
                 else Inr (db\<lparr>sd_usage := (sd_usage db)((organizationId, month now) \<mapsto> quantity)\<rparr>))"

section \<open>features/service.ts\<close>

record flag_row =
  fl_key :: string
  fl_enabled :: bool
  fl_rollout_percentage :: nat
  fl_client_visible :: bool
  fl_override_enabled :: "bool option"

datatype decision_source = KillSwitch | OrganizationOverride | PercentageRollout

record feature_decision =
  fd_key :: string
  fd_enabled :: bool
  fd_source :: decision_source

text \<open>\<open>sha256\<close> gives the bytes of the digest.\<close>

definition readUInt32BE :: "nat list \<Rightarrow> nat" where
  "readUInt32BE bytes = bytes ! 0 * 2 ^ 24 + bytes ! 1 * 2 ^ 16 + bytes ! 2 * 2 ^ 8 + bytes ! 3"

definition rolloutBucket :: "(string \<Rightarrow> nat list) \<Rightarrow> string \<Rightarrow> string \<Rightarrow> nat" where
  "rolloutBucket sha256 flagKey organizationId = readUInt32BE (sha256 (flagKey @ '':'' @ organizationId)) mod 100"

definition decideFeature :: "(string \<Rightarrow> nat list) \<Rightarrow> flag_row \<Rightarrow> string \<Rightarrow> feature_decision" where
  "decideFeature sha256 row organizationId =
     (if \<not> fl_enabled row then \<lparr>fd_key = fl_key row, fd_enabled = False, fd_source = KillSwitch\<rparr>
      else case fl_override_enabled row of
             Some b \<Rightarrow> \<lparr>fd_key = fl_key row, fd_enabled = b, fd_source = OrganizationOverride\<rparr>
           | None \<Rightarrow> \<lparr>fd_key = fl_key row,
                      fd_enabled = (rolloutBucket sha256 (fl_key row) organizationId < fl_rollout_percentage row),
                      fd_source = PercentageRollout\<rparr>)"

text \<open>\<open>flags\<close> are the rows of \<^verbatim>\<open>feature_flags\<close>, \<open>overrides\<close> those of \<^verbatim>\<open>feature_flag_overrides\<close> by flag and organisation.\<close>

definition joined_flag :: "(string \<times> string \<Rightarrow> bool option) \<Rightarrow> string \<Rightarrow> flag_row \<Rightarrow> flag_row" where
  "joined_flag overrides organizationId row = row\<lparr>fl_override_enabled := overrides (fl_key row, organizationId)\<rparr>"

definition evaluateFeature ::
    "(string \<Rightarrow> nat list) \<Rightarrow> flag_row list \<Rightarrow> (string \<times> string \<Rightarrow> bool option) \<Rightarrow> string \<Rightarrow> string \<Rightarrow> feature_decision checked" where
  "evaluateFeature sha256 flags overrides flagKey organizationId =
     (case find (\<lambda>r. fl_key r = flagKey) flags of
        None \<Rightarrow> Inl (SaasHttpError 503 ''FEATURE_CONFIGURATION_MISSING'' ''Required feature configuration is missing.'' None)
      | Some row \<Rightarrow> Inr (decideFeature sha256 (joined_flag overrides organizationId row) organizationId))"

text \<open>The handler of \<^verbatim>\<open>requireFeature\<close>: what it passes to \<^verbatim>\<open>next\<close>; \<open>auth\<close> is the organisation of the request.\<close>

definition requireFeature ::
    "(string \<Rightarrow> nat list) \<Rightarrow> flag_row list \<Rightarrow> (string \<times> string \<Rightarrow> bool option) \<Rightarrow> string \<Rightarrow> string option \<Rightarrow> unit checked" where
  "requireFeature sha256 flags overrides flagKey auth =
     (case auth of
        None \<Rightarrow> Inl (SaasHttpError 401 ''AUTHENTICATION_REQUIRED'' ''Authentication is required.'' None)
      | Some organizationId \<Rightarrow>
          bindC (evaluateFeature sha256 flags overrides flagKey organizationId) (\<lambda>decision.
            if fd_enabled decision then Inr ()
            else Inl (SaasHttpError 503 ''FEATURE_DISABLED'' ''This feature is temporarily unavailable.''
                   (Some (JObj [(''feature'', JStr flagKey)])))))"

definition listClientFeatures ::
    "(string \<Rightarrow> nat list) \<Rightarrow> flag_row list \<Rightarrow> (string \<times> string \<Rightarrow> bool option) \<Rightarrow> string \<Rightarrow> feature_decision list" where
  "listClientFeatures sha256 flags overrides organizationId =
     map (\<lambda>row. decideFeature sha256 (joined_flag overrides organizationId row) organizationId)
       (sort_key (\<lambda>r. map (of_char :: char \<Rightarrow> nat) (fl_key r)) (filter fl_client_visible flags))"

section \<open>Quotas as bounded counters\<close>

text \<open>
  What every quota promises: as long as the state is \<open>valid\<close> and the request \<open>ok\<close>, an admitted request
  either does not touch what is counted or leaves it within the limit. \<open>requests\<close> runs a list of requests
  and returns how many were admitted.
\<close>

fun requests :: "('t \<Rightarrow> 'd \<Rightarrow> 'd option) \<Rightarrow> 't list \<Rightarrow> 'd \<Rightarrow> nat \<times> 'd" where
  "requests admit [] db = (0, db)"
| "requests admit (t # ts) db =
     (case admit t db of None \<Rightarrow> requests admit ts db | Some db' \<Rightarrow> map_prod Suc id (requests admit ts db'))"

locale bounded_quota =
  fixes used :: "'d \<Rightarrow> nat" and limit :: nat and admit :: "'t \<Rightarrow> 'd \<Rightarrow> 'd option"
    and ok :: "'t \<Rightarrow> bool" and valid :: "'d \<Rightarrow> bool"
  assumes within: "valid db \<Longrightarrow> ok t \<Longrightarrow> admit t db = Some db' \<Longrightarrow> valid db' \<and> (used db' = used db \<or> used db' \<le> limit)"
begin

lemma requests_bounded:
  "valid db \<Longrightarrow> list_all ok ts \<Longrightarrow>
     used (snd (requests admit ts db)) \<le> max limit (used db) \<and> valid (snd (requests admit ts db))"
proof (induction ts arbitrary: db)
  case (Cons t ts)
  show ?case
  proof (cases "admit t db")
    case None
    with Cons show ?thesis by simp
  next
    case (Some db')
    with within [of db t db'] Cons.prems have "valid db'" and "used db' \<le> max limit (used db)" by auto
    with Some Cons.IH [of db'] Cons.prems show ?thesis by auto
  qed
qed simp

end

text \<open>A quota that refuses for no other reason, and where every admitted request counts one, is exact.\<close>

locale quota =
  fixes used :: "'d \<Rightarrow> nat" and limit :: nat and admit :: "'t \<Rightarrow> 'd \<Rightarrow> 'd option"
    and ok :: "'t \<Rightarrow> bool" and valid :: "'d \<Rightarrow> bool"
  assumes admitted: "valid db \<Longrightarrow> ok t \<Longrightarrow> admit t db = Some db' \<Longrightarrow> used db < limit \<and> used db' = used db + 1 \<and> valid db'"
    and refused: "valid db \<Longrightarrow> ok t \<Longrightarrow> admit t db = None \<Longrightarrow> limit \<le> used db"
begin

lemma requests_exact:
  "valid db \<Longrightarrow> list_all ok ts \<Longrightarrow>
     fst (requests admit ts db) = min (length ts) (limit - used db) \<and>
     used (snd (requests admit ts db)) = used db + fst (requests admit ts db)"
proof (induction ts arbitrary: db)
  case (Cons t ts)
  show ?case
  proof (cases "admit t db")
    case None
    with refused [of db t] Cons show ?thesis by simp
  next
    case (Some db')
    with admitted [of db t db'] Cons.prems have "used db < limit" "used db' = used db + 1" "valid db'" by simp_all
    with Some Cons.IH [of db'] Cons.prems show ?thesis by simp
  qed
qed simp

end

sublocale quota \<subseteq> bounded_quota used limit admit ok valid
  using admitted by unfold_locales force

text \<open>The commands of one organisation in one month, on a subscription that keeps its plan.\<close>

definition spend :: "(int \<Rightarrow> int) \<Rightarrow> string \<Rightarrow> int \<Rightarrow> saas_db \<Rightarrow> saas_db option" where
  "spend month organizationId now db = (case consumeBotCommand month now organizationId db of Inl _ \<Rightarrow> None | Inr db' \<Rightarrow> Some db')"

definition spent :: "string \<Rightarrow> int \<Rightarrow> saas_db \<Rightarrow> nat" where
  "spent organizationId m db = nullish (sd_usage db (organizationId, m)) 0"

lemma consumeBotCommand_pro:
  assumes "activePlan now organizationId (sd_billing db) = PRO"
  shows "spend month organizationId now db =
    (if spent organizationId (month now) db < 10000
     then Some (db\<lparr>sd_usage := (sd_usage db)((organizationId, month now) \<mapsto> spent organizationId (month now) db + 1)\<rparr>)
     else None)"
  using assms
  by (cases "sd_usage db (organizationId, month now)")
     (auto simp: spend_def consumeBotCommand_def planCatalog_def spent_def Let_def)

interpretation command_quota: quota "spent organizationId m" 10000 "spend month organizationId"
    "\<lambda>t. month t = m \<and> activePlan t organizationId billing = PRO" "\<lambda>db. sd_billing db = billing"
  for organizationId m month billing
  by unfold_locales (auto simp: consumeBotCommand_pro spent_def split: if_splits)

section \<open>Lemmas\<close>

lemma activePlan_PRO:
  assumes "\<exists>s \<in> set (bd_subscriptions db). su_organization_id s = organizationId"
    and "\<And>s. s \<in> set (bd_subscriptions db) \<Longrightarrow> su_organization_id s = organizationId \<Longrightarrow> entitled now organizationId s \<and> su_plan s = PRO"
  shows "activePlan now organizationId db = PRO"
proof (cases "find (entitled now organizationId) (bd_subscriptions db)")
  case None
  with assms show ?thesis by (auto simp: find_None_iff)
next
  case (Some s)
  then have "s \<in> set (bd_subscriptions db)" "su_organization_id s = organizationId"
    by (auto simp: find_Some_iff entitled_def)
  with assms(2) Some show ?thesis by (simp add: activePlan_def)
qed

lemma activePlan_FREE:
  assumes "\<And>s. s \<in> set (bd_subscriptions db) \<Longrightarrow> su_organization_id s = organizationId \<Longrightarrow> su_plan s = FREE"
  shows "activePlan now organizationId db = FREE"
proof (cases "find (entitled now organizationId) (bd_subscriptions db)")
  case (Some s)
  then have "s \<in> set (bd_subscriptions db)" "su_organization_id s = organizationId"
    by (auto simp: find_Some_iff entitled_def)
  with assms Some show ?thesis by (simp add: activePlan_def)
qed (simp add: activePlan_def)

lemma paid_subscription:
  assumes "s \<in> set (apply_success add_month now organization pid method rows)" and "su_organization_id s = organization"
    and "mono add_month"
  shows "su_plan s = PRO \<and> su_status s = ACTIVE \<and> (\<exists>e. su_current_period_end s = Some e \<and> add_month now \<le> e)"
proof -
  have later: "add_month now \<le> extended_period add_month now r" for r
    unfolding extended_period_def by (rule monoD [OF assms(3)]) simp
  show ?thesis
  proof (cases "\<exists>s \<in> set rows. su_organization_id s = organization")
    case True
    with assms(1,2) obtain r where "s = renewed_subscription add_month now pid method r"
      by (auto simp: apply_success_def update_where_def)
    with later show ?thesis by (simp add: renewed_subscription_def)
  next
    case False
    with assms(1,2) have "s = new_subscription add_month now organization pid method"
      by (auto simp: apply_success_def)
    then show ?thesis by (simp add: new_subscription_def)
  qed
qed

section \<open>Properties\<close>

text \<open>
  A payment buys a month. Once the success of a payment is applied, whether by the webhook, by the
  charge or by the reconciliation, the organisation is on the plan PRO at every moment until a month after
  it, whatever its subscription was before.
\<close>

theorem payment_grants_pro:
  assumes "mono add_month" and "yp_status payment = Succeeded" and "yp_paid payment"
    and "unapplied (yp_id payment) db" and "t < add_month now"
  shows "activePlan t (lp_organization_id local) (applyPaymentLifecycle add_month config now local payment db) = PRO"
proof -
  let ?db = "applyPaymentLifecycle add_month config now local payment db" and ?org = "lp_organization_id local"
  have subs: "bd_subscriptions ?db =
      apply_success add_month now ?org (yp_id payment) (saved_method payment) (bd_subscriptions db)"
    using deliver_subscriptions [of "yp_id payment" now local payment add_month config db] assms(2-4)
    by (simp add: deliver_def about_def paid_def)
  show ?thesis
  proof (rule activePlan_PRO)
    show "\<exists>s \<in> set (bd_subscriptions ?db). su_organization_id s = ?org"
      unfolding subs by (simp add: apply_success_def update_where_ex renewed_subscription_def new_subscription_def)
  next
    fix s assume "s \<in> set (bd_subscriptions ?db)" "su_organization_id s = ?org"
    from paid_subscription [OF this(1) [unfolded subs] this(2) assms(1)] assms(5) this(2)
    show "entitled t ?org s \<and> su_plan s = PRO" by (auto simp: entitled_def)
  qed
qed

theorem payment_grants_pro_witness:
  "activePlan 2000 ''org'' (applyPaymentLifecycle (\<lambda>t. t + days 30) sim_billing_config 100 (sim_local 1)
     (sim_payment ''p1'' Succeeded) (sim_billing_db 50)) = PRO"
proof -
  have "unapplied (yp_id (sim_payment ''p1'' Succeeded)) (sim_billing_db 50)"
    by (simp add: unapplied_def sim_billing_defs)
  moreover have "mono (\<lambda>t. t + days 30)" by (simp add: monoI)
  ultimately show ?thesis
    using payment_grants_pro [of "\<lambda>t. t + days 30" "sim_payment ''p1'' Succeeded" "sim_billing_db 50" 2000 100
        "sim_local 1" sim_billing_config]
    by (simp add: sim_payment_def sim_local_def)
qed

text \<open>
  What a refund takes back. A refund that succeeded is applied once; if it covers the whole payment,
  every organisation whose last payment it was is on the free plan from then on and is not charged again,
  and the other subscriptions stay as they are, in particular one that a newer payment has extended.
\<close>

theorem full_refund_revokes:
  assumes "yr_status refund = RefundSucceeded"
    and "\<exists>r \<in> set (bd_refunds db). rf_provider_refund_id r = Some (yr_id refund) \<and> rf_lifecycle_applied_at r = None"
    and "fully_refunded refund db"
  shows "let db' = applyRefundLifecycle now refund db in
    ((\<forall>s \<in> set (bd_subscriptions db). su_organization_id s = organizationId \<longrightarrow> su_last_payment_id s = Some (yr_payment_id refund))
       \<longrightarrow> activePlan t organizationId db' = FREE) \<and>
    (\<forall>s \<in> set (bd_subscriptions db'). su_last_payment_id s = Some (yr_payment_id refund) \<longrightarrow> \<not> due t s) \<and>
    filter (\<lambda>s. su_last_payment_id s \<noteq> Some (yr_payment_id refund)) (bd_subscriptions db') =
      filter (\<lambda>s. su_last_payment_id s \<noteq> Some (yr_payment_id refund)) (bd_subscriptions db) \<and>
    applyRefundLifecycle now' refund db' = db'"
proof -
  let ?db = "applyRefundLifecycle now refund db"
  define mark where "mark = db\<lparr>bd_refunds := update_where (\<lambda>r. rf_provider_refund_id r = Some (yr_id refund) \<and> rf_lifecycle_applied_at r = None)
      (\<lambda>r. r\<lparr>rf_lifecycle_applied_at := Some now\<rparr>) (bd_refunds db)\<rparr>"
  have "fully_refunded refund mark = fully_refunded refund db"
    by (simp add: mark_def fully_refunded_def update_where_ex) (rule bex_cong [OF refl], auto)
  with assms have subs: "bd_subscriptions ?db =
      update_where (\<lambda>s. su_last_payment_id s = Some (yr_payment_id refund)) (refunded_subscription now) (bd_subscriptions db)"
    and refunds: "bd_refunds ?db = bd_refunds mark"
    by (auto simp: applyRefundLifecycle_def mark_def Let_def)
  have "activePlan t organizationId ?db = FREE"
    if "\<forall>s \<in> set (bd_subscriptions db). su_organization_id s = organizationId \<longrightarrow> su_last_payment_id s = Some (yr_payment_id refund)"
    using that by (intro activePlan_FREE) (auto simp: subs update_where_def refunded_subscription_def)
  moreover have "\<forall>s \<in> set (bd_subscriptions ?db). su_last_payment_id s = Some (yr_payment_id refund) \<longrightarrow> \<not> due t s"
    by (auto simp: subs update_where_def refunded_subscription_def due_def)
  moreover have "filter (\<lambda>s. su_last_payment_id s \<noteq> Some (yr_payment_id refund)) (bd_subscriptions ?db) =
      filter (\<lambda>s. su_last_payment_id s \<noteq> Some (yr_payment_id refund)) (bd_subscriptions db)"
    by (subst subs, subst filter_update_where) (auto simp: refunded_subscription_def intro: update_where_none)
  moreover have "\<not> (\<exists>r \<in> set (bd_refunds ?db). rf_provider_refund_id r = Some (yr_id refund) \<and> rf_lifecycle_applied_at r = None)"
    by (simp add: refunds mark_def update_where_ex)
  then have "applyRefundLifecycle now' refund ?db = ?db"
    by (simp add: applyRefundLifecycle_def [of now'] Let_def)
  ultimately show ?thesis by (simp add: Let_def)
qed

definition sim_refund :: yoo_refund where
  "sim_refund = \<lparr>yr_id = ''r1'', yr_payment_id = ''p0'', yr_status = RefundSucceeded\<rparr>"

definition sim_refund_db :: billing_db where
  "sim_refund_db = \<lparr>bd_subscriptions = [sim_subscription 5000], bd_payments = [sim_payment_row ''p0'' 1],
     bd_refunds = [\<lparr>rf_organization_id = ''org'', rf_idempotency_key = ''k1'', rf_reason = ''asked'', rf_created_at = 0,
       rf_provider_refund_id = Some ''r1'', rf_provider_payment_id = ''p0'', rf_status = RefundSucceeded,
       rf_amount_kopecks = 99000, rf_lifecycle_applied_at = None, rf_reconcile_after = None, rf_reconciliation_attempts = 0\<rparr>]\<rparr>"

theorem full_refund_revokes_witness:
  "activePlan 200 ''org'' sim_refund_db = PRO \<and> activePlan 200 ''org'' (applyRefundLifecycle 100 sim_refund sim_refund_db) = FREE"
proof -
  have "fully_refunded sim_refund sim_refund_db"
    by (simp add: fully_refunded_def sim_refund_db_def sim_refund_def sim_billing_defs)
  then have "activePlan 200 ''org'' (applyRefundLifecycle 100 sim_refund sim_refund_db) = FREE"
    using full_refund_revokes [of sim_refund sim_refund_db 100 "''org''" 200]
    by (simp add: sim_refund_db_def sim_refund_def sim_billing_defs Let_def)
  then show ?thesis
    by (simp add: activePlan_def entitled_def sim_refund_db_def sim_billing_defs)
qed

text \<open>
  C40: the command quota is exact. However many START and RESTART commands an organisation on the plan PRO
  asks for within a month, precisely the first 10000 of the month are admitted, and refused ones do not
  count; on the free plan every one is refused with 402 and nothing is recorded.
\<close>

theorem command_quota_is_exact:
  assumes "\<forall>t \<in> set ts. month t = m \<and> activePlan t organizationId (sd_billing db) = PRO"
  shows "fst (requests (spend month organizationId) ts db) = min (length ts) (10000 - spent organizationId m db) \<and>
    spent organizationId m (snd (requests (spend month organizationId) ts db)) =
      spent organizationId m db + fst (requests (spend month organizationId) ts db)"
  using command_quota.requests_exact [of db "sd_billing db" month m organizationId ts] assms
  by (simp add: list_all_iff)

definition sim_saas_db :: "billing_db \<Rightarrow> saas_db" where
  "sim_saas_db billing = \<lparr>sd_billing = billing, sd_exchange_connections = [], sd_trading_bots = [], sd_bot_commands = [],
     sd_orders = [], sd_trading_sessions = [], sd_bot_sqlite_databases = [], sd_bot_runtime_logs = [], sd_memberships = [],
     sd_invitations = [], sd_usage = (\<lambda>_. None), sd_audit_events = []\<rparr>"

theorem command_quota_is_exact_witness:
  "fst (requests (spend (\<lambda>t. t div 1000) ''org'') (replicate 10500 7) (sim_saas_db (sim_billing_db 50))) = 10000"
proof -
  have "activePlan 7 ''org'' (sd_billing (sim_saas_db (sim_billing_db 50))) = PRO"
    by (simp add: sim_saas_db_def activePlan_def entitled_def sim_billing_defs)
  then show ?thesis
    using command_quota_is_exact [of "replicate 10500 7" "\<lambda>t. t div 1000" 0 "''org''" "sim_saas_db (sim_billing_db 50)"]
    by (simp add: spent_def sim_saas_db_def)
qed

lemma free_plan_has_no_commands:
  assumes "activePlan now organizationId (sd_billing db) = FREE"
  shows "\<exists>e. consumeBotCommand month now organizationId db = Inl e \<and> he_status e = 402"
  using assms by (simp add: consumeBotCommand_def planCatalog_def SaasHttpError_def)

text \<open>
  The decision on a feature: the kill switch wins over everything, an override over the rollout; a rollout
  of 0 percent reaches nobody and one of 100 percent everybody, and raising the percentage never takes the
  feature from an organisation that has it.
\<close>

lemma rolloutBucket_lt: "rolloutBucket sha256 k org < 100"
  by (simp add: rolloutBucket_def)

lemma rollout_is_monotone:
  assumes "fl_enabled row" and "fl_override_enabled row = None" and "fl_rollout_percentage row \<le> p"
    and "fd_enabled (decideFeature sha256 row org)"
  shows "fd_enabled (decideFeature sha256 (row\<lparr>fl_rollout_percentage := p\<rparr>) org)"
  using assms by (simp add: decideFeature_def)

lemma rollout_extremes:
  assumes "fl_enabled row" and "fl_override_enabled row = None"
  shows "fl_rollout_percentage row = 0 \<Longrightarrow> \<not> fd_enabled (decideFeature sha256 row org)"
    and "fl_rollout_percentage row = 100 \<Longrightarrow> fd_enabled (decideFeature sha256 row org)"
  using assms rolloutBucket_lt by (simp_all add: decideFeature_def)

lemma kill_switch_wins:
  "\<not> fl_enabled row \<Longrightarrow> fl_key row = k \<Longrightarrow> find (\<lambda>r. fl_key r = k) flags = Some row \<Longrightarrow>
     \<exists>e. requireFeature sha256 flags overrides k (Some org) = Inl e \<and> he_status e = 503"
  by (simp add: requireFeature_def evaluateFeature_def decideFeature_def joined_flag_def SaasHttpError_def)

end
