(* ===== verification/Bots_Router.thy ===== *)
theory Bots_Router
  imports Entitlements
begin

text \<open>
  \<^verbatim>\<open>src/saas/trading/bots.router.ts\<close> with the guards of \<^verbatim>\<open>src/saas/http/authorization.ts\<close>, the consent check
  of \<^verbatim>\<open>src/saas/compliance/service.ts\<close> and \<^verbatim>\<open>src/saas/services/audit.ts\<close>: what the requests that create, edit,
  delete and command a bot do to the tables.

  A handler takes the context of the request and the tables and returns the error it passes to \<^verbatim>\<open>next\<close> or
  the row it answers with. \<open>api\<close> holds what the handlers read beside the tables: the identifier the next
  inserted row gets, the time, the month of a time, the texts of numbers, the versions of the legal
  documents and those each user has accepted. \<open>DbError code\<close> is an error of PostgreSQL.
\<close>

section \<open>Errors, requests and guards\<close>

datatype api_error = HttpError http_error | DbError string

type_synonym 'a handler = "saas_db \<Rightarrow> (api_error + 'a) \<times> saas_db"

record auth_context =
  au_userId :: string
  au_organizationId :: string
  au_role :: role

record api_request =
  ar_auth :: "auth_context option"
  ar_params_id :: string
  ar_body :: "json option"
  ar_idempotency_key :: "string option"

record api =
  ap_new_id :: string
  ap_now :: int
  ap_month :: "int \<Rightarrow> int"
  ap_num_text :: "rat \<Rightarrow> string"
  ap_documents :: "string \<times> string"
  ap_users :: "string \<Rightarrow> (string \<times> string) option"

definition authContext :: "api_request \<Rightarrow> auth_context checked" where
  "authContext req =
     (case ar_auth req of
        None \<Rightarrow> Inl (SaasHttpError 401 ''AUTHENTICATION_REQUIRED'' ''Authentication is required.'' None)
      | Some auth \<Rightarrow> Inr auth)"

definition requireRoles :: "role list \<Rightarrow> api_request \<Rightarrow> unit checked" where
  "requireRoles roles req =
     bindC (authContext req) (\<lambda>auth.
       if au_role auth \<notin> set roles then Inl (SaasHttpError 403 ''FORBIDDEN'' ''Insufficient permissions.'' None) else Inr ())"

definition requireActiveSubscription :: "int \<Rightarrow> api_request \<Rightarrow> saas_db \<Rightarrow> unit checked" where
  "requireActiveSubscription now req db =
     bindC (authContext req) (\<lambda>auth.
       if \<exists>s \<in> set (bd_subscriptions (sd_billing db)). su_organization_id s = au_organizationId auth \<and> su_status s = ACTIVE \<and>
            (case su_current_period_end s of None \<Rightarrow> False | Some t \<Rightarrow> t > now)
       then Inr ()
       else Inl (SaasHttpError 402 ''SUBSCRIPTION_REQUIRED'' ''An active subscription is required.'' None))"

text \<open>The documents in the details of the error are left out.\<close>

definition requireCurrentLegalConsent :: "api \<Rightarrow> api_request \<Rightarrow> unit checked" where
  "requireCurrentLegalConsent A req =
     bindC (authContext req) (\<lambda>auth.
       if ap_users A (au_userId auth) = Some (ap_documents A) then Inr ()
       else Inl (SaasHttpError 428 ''LEGAL_CONSENT_REQUIRED'' ''Current terms and privacy policy must be accepted.'' None))"

definition writeAuditEvent :: "api_request \<Rightarrow> string \<Rightarrow> string option \<Rightarrow> string option \<Rightarrow> json \<Rightarrow> saas_db \<Rightarrow> saas_db" where
  "writeAuditEvent req action entityType entityId metadata db =
     db\<lparr>sd_audit_events := sd_audit_events db @
          [\<lparr>ae_organization_id = map_option au_organizationId (ar_auth req), ae_actor_user_id = map_option au_userId (ar_auth req),
            ae_action = action, ae_entity_type = entityType, ae_entity_id = entityId, ae_metadata = metadata\<rparr>]\<rparr>"

text \<open>\<open>check\<close> a value before the rest of a handler runs, and the same inside a transaction.\<close>

definition guardH :: "'a checked \<Rightarrow> ('a \<Rightarrow> 'd \<Rightarrow> (api_error + 'b) \<times> 'd) \<Rightarrow> 'd \<Rightarrow> (api_error + 'b) \<times> 'd" where
  "guardH c k db = (case c of Inl e \<Rightarrow> (Inl (HttpError e), db) | Inr x \<Rightarrow> k x db)"

definition guardT :: "'a checked \<Rightarrow> ('a \<Rightarrow> api_error + 'b) \<Rightarrow> api_error + 'b" where
  "guardT c k = (case c of Inl e \<Rightarrow> Inl (HttpError e) | Inr x \<Rightarrow> k x)"

definition unique_violation :: string where
  "unique_violation = ''23505''"

text \<open>The \<^verbatim>\<open>catch\<close> of a handler that turns a violated uniqueness into an answer of its own.\<close>

definition on_unique_violation :: "http_error \<Rightarrow> (api_error + 'a) \<times> 'd \<Rightarrow> (api_error + 'a) \<times> 'd" where
  "on_unique_violation e result =
     (case result of (Inl (DbError code), db) \<Rightarrow> (Inl (if code = unique_violation then HttpError e else DbError code), db)
      | r \<Rightarrow> r)"

definition key_char :: "char \<Rightarrow> bool" where
  "key_char c \<longleftrightarrow> c \<in> set ''ABCDEFGHIJKLMNOPQRSTUVWXYZabcdefghijklmnopqrstuvwxyz0123456789._:-''"

definition idempotencyKey :: "api_request \<Rightarrow> string checked" where
  "idempotencyKey req =
     (let key = trim (nullish (ar_idempotency_key req) '''')
      in if 8 \<le> length key \<and> length key \<le> 128 \<and> list_all key_char key then Inr key
         else Inl (SaasHttpError 400 ''IDEMPOTENCY_KEY_REQUIRED'' ''A valid Idempotency-Key header is required.'' None))"

definition bot_of :: "string \<Rightarrow> string \<Rightarrow> bot_row \<Rightarrow> bool" where
  "bot_of botId organizationId b \<longleftrightarrow> tb_id b = botId \<and> tb_organization_id b = organizationId"

section \<open>Creating and editing\<close>

definition new_bot :: "string \<Rightarrow> string \<Rightarrow> string \<Rightarrow> string \<Rightarrow> string \<Rightarrow> json_object \<Rightarrow> bot_row" where
  "new_bot botId organizationId connectionId name strategy configuration =
     \<lparr>tb_id = botId, tb_organization_id = organizationId, tb_exchange_connection_id = connectionId, tb_name = name,
      tb_strategy = strategy, tb_configuration = configuration, tb_desired_state = DesiredStopped, tb_actual_state = STOPPED,
      tb_last_error = None, tb_worker_instance_id = None, tb_worker_pid = None\<rparr>"

definition insert_bot :: "bot_row \<Rightarrow> saas_db \<Rightarrow> api_error + bot_row \<times> saas_db" where
  "insert_bot row db =
     (if \<exists>b \<in> set (sd_trading_bots db). tb_organization_id b = tb_organization_id row \<and> tb_name b = tb_name row
      then Inl (DbError unique_violation)
      else Inr (row, db\<lparr>sd_trading_bots := sd_trading_bots db @ [row]\<rparr>))"

definition create_transaction ::
    "api \<Rightarrow> string \<Rightarrow> string \<Rightarrow> string \<Rightarrow> json_object \<Rightarrow> saas_db \<Rightarrow> api_error + bot_row \<times> saas_db" where
  "create_transaction A organizationId connectionId strategy body db =
     guardT (enforceResourceQuota (ap_now A) organizationId Bots db) (\<lambda>_.
       if \<not> (\<exists>c \<in> set (sd_exchange_connections db). ec_id c = connectionId \<and> ec_organization_id c = organizationId \<and> ec_enabled c)
       then Inl (HttpError (notFound ''Enabled exchange connection was not found.''))
       else guardT (stringValue (map_of body ''name'') ''name'' 100) (\<lambda>name.
            guardT (tradingConfiguration (ap_num_text A) (map_of body ''configuration'')) (\<lambda>configuration.
              insert_bot (new_bot (ap_new_id A) organizationId connectionId name strategy configuration) db)))"

definition strategyValue :: "json_object \<Rightarrow> string checked" where
  "strategyValue body =
     bindC (if map_of body ''strategy'' = None then Inr ''VECTOR_PROFIT''
            else stringValue (map_of body ''strategy'') ''strategy'' 40) (\<lambda>strategy.
       if strategy \<noteq> ''VECTOR_PROFIT'' then Inl (SaasHttpError 400 ''UNSUPPORTED_STRATEGY'' ''Strategy is not supported.'' None)
       else Inr strategy)"

definition createBot :: "api \<Rightarrow> api_request \<Rightarrow> bot_row handler" where
  "createBot A req db =
     guardH (requireRoles [OWNER, ADMIN, TRADER] req) (\<lambda>_.
     guardH (requireCurrentLegalConsent A req) (\<lambda>_.
     guardH (authContext req) (\<lambda>auth.
     guardH (objectValue (ar_body req) (Some [''exchangeConnectionId'', ''name'', ''strategy'', ''configuration''])) (\<lambda>body.
     guardH (uuidValue (map_of body ''exchangeConnectionId'') ''exchangeConnectionId'') (\<lambda>connectionId.
     guardH (strategyValue body) (\<lambda>strategy db.
       on_unique_violation (SaasHttpError 409 ''BOT_NAME_EXISTS'' ''Bot name already exists.'' None)
         (case saasTransaction (create_transaction A (au_organizationId auth) connectionId strategy body) db of
            (Inl e, db') \<Rightarrow> (Inl e, db')
          | (Inr row, db') \<Rightarrow>
              (Inr row, writeAuditEvent req ''BOT_CREATED'' (Some ''bot'') (Some (tb_id row)) (JObj []) db')))))))) db"

text \<open>
  The edit is two statements. A name that another bot of the organisation has violates uniqueness, and here
  the error is passed on as it is.
\<close>

definition edited_bot :: "string option \<Rightarrow> json_object \<Rightarrow> bot_row \<Rightarrow> bot_row" where
  "edited_bot name configuration b = b\<lparr>tb_name := nullish name (tb_name b), tb_configuration := configuration\<rparr>"

definition update_bot :: "string \<Rightarrow> string \<Rightarrow> string option \<Rightarrow> json_object \<Rightarrow> saas_db \<Rightarrow> api_error + unit \<times> saas_db" where
  "update_bot botId organizationId name configuration db =
     (if \<exists>b \<in> set (sd_trading_bots db). bot_of botId organizationId b \<and>
          (\<exists>c \<in> set (sd_trading_bots db). tb_id c \<noteq> tb_id b \<and> tb_organization_id c = organizationId \<and>
             tb_name c = nullish name (tb_name b))
      then Inl (DbError unique_violation)
      else Inr ((), db\<lparr>sd_trading_bots := update_where (bot_of botId organizationId) (edited_bot name configuration) (sd_trading_bots db)\<rparr>))"

definition editBot :: "api \<Rightarrow> api_request \<Rightarrow> unit handler" where
  "editBot A req db =
     guardH (requireRoles [OWNER, ADMIN, TRADER] req) (\<lambda>_.
     guardH (requireCurrentLegalConsent A req) (\<lambda>_.
     guardH (authContext req) (\<lambda>auth.
     guardH (uuidValue (Some (JStr (ar_params_id req))) ''id'') (\<lambda>botId.
     guardH (objectValue (ar_body req) (Some [''name'', ''configuration''])) (\<lambda>body db.
       case find (bot_of botId (au_organizationId auth)) (sd_trading_bots db) of
         None \<Rightarrow> (Inl (HttpError (notFound ''Bot was not found.'')), db)
       | Some current \<Rightarrow>
           if tb_actual_state current \<notin> {STOPPED, FAILED}
           then (Inl (HttpError (SaasHttpError 409 ''BOT_NOT_EDITABLE'' ''Stop the bot before editing it.'' None)), db)
           else guardH (if map_of body ''configuration'' = None then Inr (tb_configuration current)
                        else tradingConfiguration (ap_num_text A) (map_of body ''configuration'')) (\<lambda>configuration.
                guardH (optionalStringValue (map_of body ''name'') ''name'' 100) (\<lambda>name db.
                  case saasTransaction (update_bot botId (au_organizationId auth) name configuration) db of
                    (Inl e, db') \<Rightarrow> (Inl e, db')
                  | (Inr _, db') \<Rightarrow>
                      (Inr (), writeAuditEvent req ''BOT_UPDATED'' (Some ''bot'') (Some botId) (JObj []) db'))) db))))) db"

section \<open>Commands\<close>

definition new_command :: "string \<Rightarrow> auth_context \<Rightarrow> string \<Rightarrow> bot_command \<Rightarrow> string \<Rightarrow> command_row" where
  "new_command commandId auth botId command key =
     \<lparr>cm_id = commandId, cm_organization_id = au_organizationId auth, cm_bot_id = botId, cm_command = command,
      cm_idempotency_key = key, cm_requested_by = au_userId auth, cm_status = PENDING, cm_error = None\<rparr>"

definition same_key :: "string \<Rightarrow> string \<Rightarrow> command_row \<Rightarrow> bool" where
  "same_key organizationId key c \<longleftrightarrow> cm_organization_id c = organizationId \<and> cm_idempotency_key c = key"

definition set_states :: "string \<Rightarrow> string \<Rightarrow> desired_state \<Rightarrow> actual_state \<Rightarrow> saas_db \<Rightarrow> saas_db" where
  "set_states botId organizationId desired actual db =
     db\<lparr>sd_trading_bots := update_where (bot_of botId organizationId)
          (\<lambda>b. b\<lparr>tb_desired_state := desired, tb_actual_state := actual\<rparr>) (sd_trading_bots db)\<rparr>"

definition open_quantity :: "string \<Rightarrow> string \<Rightarrow> saas_order list \<Rightarrow> rat" where
  "open_quantity botId organizationId orders =
     sum_list (map (\<lambda>o'. if so_side o' = ''BUY'' then so_quantity o' else - so_quantity o')
       (filter (\<lambda>o'. so_bot_id o' = botId \<and> so_organization_id o' = organizationId \<and> so_status o' = ''FILLED'') orders))"

definition delete_transaction :: "api \<Rightarrow> auth_context \<Rightarrow> string \<Rightarrow> string \<Rightarrow> saas_db \<Rightarrow> api_error + command_row \<times> saas_db" where
  "delete_transaction A auth botId key db =
     (case find (bot_of botId (au_organizationId auth)) (sd_trading_bots db) of
        None \<Rightarrow> Inl (HttpError (notFound ''Bot was not found.''))
      | Some row \<Rightarrow>
          if tb_actual_state row \<notin> {STOPPED, FAILED}
          then Inl (HttpError (SaasHttpError 409 ''BOT_NOT_DELETABLE'' ''Stop the bot before deleting it.'' None))
          else if open_quantity botId (au_organizationId auth) (sd_orders db) \<noteq> 0
          then Inl (HttpError (SaasHttpError 409 ''BOT_HAS_OPEN_POSITION'' ''Close the filled position before deleting the bot.'' None))
          else if \<exists>c \<in> set (sd_bot_commands db). same_key (au_organizationId auth) key c
          then Inl (DbError unique_violation)
          else let inserted = new_command (ap_new_id A) auth botId DELETE key
               in Inr (inserted, set_states botId (au_organizationId auth) DesiredStopped STOPPING
                    (db\<lparr>sd_bot_commands := sd_bot_commands db @ [inserted]\<rparr>)))"

definition deleteBotRequest :: "api \<Rightarrow> api_request \<Rightarrow> command_row handler" where
  "deleteBotRequest A req db =
     guardH (requireRoles [OWNER, ADMIN, TRADER] req) (\<lambda>_.
     guardH (authContext req) (\<lambda>auth.
     guardH (uuidValue (Some (JStr (ar_params_id req))) ''id'') (\<lambda>botId.
     guardH (idempotencyKey req) (\<lambda>key db.
       on_unique_violation (SaasHttpError 409 ''IDEMPOTENCY_KEY_CONFLICT'' ''Idempotency key was already used.'' None)
         (case saasTransaction (delete_transaction A auth botId key) db of
            (Inl e, db') \<Rightarrow> (Inl e, db')
          | (Inr row, db') \<Rightarrow>
              (Inr row, writeAuditEvent req ''BOT_DELETE_REQUESTED'' (Some ''bot'') (Some botId) (JObj []) db')))))) db"

definition is_stopping :: "bot_command \<Rightarrow> bool" where
  "is_stopping command \<longleftrightarrow> command \<in> {STOP, EMERGENCY_STOP}"

definition command_transaction ::
    "api \<Rightarrow> auth_context \<Rightarrow> string \<Rightarrow> bot_command \<Rightarrow> string \<Rightarrow> saas_db \<Rightarrow> api_error + command_row \<times> saas_db" where
  "command_transaction A auth botId command key db =
     (let org = au_organizationId auth
      in case find (bot_of botId org) (sd_trading_bots db) of
           None \<Rightarrow> Inl (HttpError (notFound ''Bot was not found.''))
         | Some row \<Rightarrow>
             (case find (same_key org key) (sd_bot_commands db) of
                None \<Rightarrow>
                  (let inserted = new_command (ap_new_id A) auth botId command key;
                       db1 = db\<lparr>sd_bot_commands := sd_bot_commands db @ [inserted]\<rparr>
                   in guardT (if is_stopping command then Inr db1 else consumeBotCommand (ap_month A) (ap_now A) org db1) (\<lambda>db2.
                        Inr (inserted, set_states botId org (if is_stopping command then DesiredStopped else DesiredRunning)
                               (if is_stopping command then STOPPING else STARTING) db2)))
              | Some existing \<Rightarrow>
                  if cm_bot_id existing \<noteq> botId \<or> cm_command existing \<noteq> command
                  then Inl (HttpError (SaasHttpError 409 ''IDEMPOTENCY_KEY_CONFLICT'' ''Idempotency key was used for another command.'' None))
                  else Inr (existing, db)))"

definition audit_of :: "bot_command \<Rightarrow> string" where
  "audit_of command =
     (case command of
        START \<Rightarrow> ''BOT_START_REQUESTED'' | STOP \<Rightarrow> ''BOT_STOP_REQUESTED'' | RESTART \<Rightarrow> ''BOT_RESTART_REQUESTED''
      | EMERGENCY_STOP \<Rightarrow> ''BOT_EMERGENCY_STOP_REQUESTED'' | DELETE \<Rightarrow> ''BOT_DELETE_REQUESTED'')"

text \<open>The handler of \<^verbatim>\<open>commandRoutes\<close>, for one of the commands START, STOP, RESTART and EMERGENCY_STOP.\<close>

definition commandBot :: "api \<Rightarrow> bot_command \<Rightarrow> api_request \<Rightarrow> command_row handler" where
  "commandBot A command req db =
     guardH (requireRoles [OWNER, ADMIN, TRADER] req) (\<lambda>_.
     guardH (if command = STOP then Inr () else requireCurrentLegalConsent A req) (\<lambda>_.
     guardH (authContext req) (\<lambda>auth.
     guardH (uuidValue (Some (JStr (ar_params_id req))) ''id'') (\<lambda>botId.
     guardH (idempotencyKey req) (\<lambda>key db.
       case saasTransaction (command_transaction A auth botId command key) db of
         (Inl e, db') \<Rightarrow> (Inl e, db')
       | (Inr row, db') \<Rightarrow> (Inr row, writeAuditEvent req (audit_of command) (Some ''bot'') (Some botId) (JObj []) db')))))) db"

section \<open>What a handler leaves behind\<close>

lemma guardH_Inr: "guardH c k db = (Inr y, db') \<longleftrightarrow> (\<exists>x. c = Inr x \<and> k x db = (Inr y, db'))"
  by (cases c) (simp_all add: guardH_def)

lemma guardT_Inr: "guardT c k = Inr y \<longleftrightarrow> (\<exists>x. c = Inr x \<and> k x = Inr y)"
  by (cases c) (simp_all add: guardT_def)

lemma guardT_Inl: "guardT c k = Inl e \<longleftrightarrow> (\<exists>h. c = Inl h \<and> e = HttpError h) \<or> (\<exists>x. c = Inr x \<and> k x = Inl e)"
  by (cases c) (auto simp: guardT_def)

lemma guard_simps [simp]:
  "guardH (Inr x) k db = k x db" "guardH (Inl e) k db = (Inl (HttpError e), db)"
  "guardT (Inr x) f = f x" "guardT (Inl e) f = Inl (HttpError e)"
  by (simp_all add: guardH_def guardT_def)

text \<open>\<open>rolls_back m\<close>: an error of \<open>m\<close> leaves the tables as they were.\<close>

definition rolls_back :: "'a handler \<Rightarrow> bool" where
  "rolls_back m \<longleftrightarrow> (\<forall>db e db'. m db = (Inl e, db') \<longrightarrow> db' = db)"

lemma rolls_back_guard: "(\<And>x. rolls_back (k x)) \<Longrightarrow> rolls_back (guardH c k)"
  by (cases c) (auto simp: rolls_back_def guardH_def)

lemma rolls_back_transaction:
  "rolls_back (\<lambda>db. case saasTransaction work db of (Inl e, db') \<Rightarrow> (Inl e, db') | (Inr x, db') \<Rightarrow> (Inr (f x), g x db'))"
  by (auto simp: rolls_back_def saasTransaction_def split: sum.splits prod.splits)

lemma rolls_back_unique: "rolls_back m \<Longrightarrow> rolls_back (\<lambda>db. on_unique_violation e (m db))"
  by (fastforce simp: rolls_back_def on_unique_violation_def split: prod.splits sum.splits api_error.splits)

lemma on_unique_violation_Inr [simp]: "on_unique_violation e r = (Inr x, db) \<longleftrightarrow> r = (Inr x, db)"
  by (cases r) (auto simp: on_unique_violation_def split: sum.splits api_error.splits)

lemma committed:
  "(case saasTransaction work db of (Inl e, db') \<Rightarrow> (Inl e, db') | (Inr x, db') \<Rightarrow> (Inr x, g db')) = (Inr y, db'') \<longleftrightarrow>
     (\<exists>db'. work db = Inr (y, db') \<and> db'' = g db')"
  by (auto simp: saasTransaction_def split: sum.splits prod.splits)

lemma requireRoles_auth: "requireRoles roles req = Inr u \<Longrightarrow> \<exists>auth. authContext req = Inr auth \<and> au_role auth \<in> set roles"
  by (auto simp: requireRoles_def bindC_Inr split: if_splits)

lemma createBot_Inr:
  assumes "createBot A req db = (Inr row, db')"
  obtains auth connectionId strategy body db1 where "ar_auth req = Some auth" and "au_role auth \<in> {OWNER, ADMIN, TRADER}"
    and "create_transaction A (au_organizationId auth) connectionId strategy body db = Inr (row, db1)"
    and "db' = writeAuditEvent req ''BOT_CREATED'' (Some ''bot'') (Some (tb_id row)) (JObj []) db1"
proof -
  from assms obtain auth connectionId strategy body where a: "authContext req = Inr auth"
    and roles: "requireRoles [OWNER, ADMIN, TRADER] req = Inr ()"
    and t: "(case saasTransaction (create_transaction A (au_organizationId auth) connectionId strategy body) db of
            (Inl e, db') \<Rightarrow> (Inl e, db')
          | (Inr row, db') \<Rightarrow>
              (Inr row, writeAuditEvent req ''BOT_CREATED'' (Some ''bot'') (Some (tb_id row)) (JObj []) db')) = (Inr row, db')"
    unfolding createBot_def by (auto simp: guardH_Inr)
  from t obtain db1 where "create_transaction A (au_organizationId auth) connectionId strategy body db = Inr (row, db1)"
    "db' = writeAuditEvent req ''BOT_CREATED'' (Some ''bot'') (Some (tb_id row)) (JObj []) db1"
    by (auto simp: saasTransaction_def split: sum.splits prod.splits)
  moreover have "ar_auth req = Some auth" "au_role auth \<in> {OWNER, ADMIN, TRADER}"
    using a roles by (auto simp: authContext_def requireRoles_def split: option.splits if_splits)
  ultimately show ?thesis by (rule that [rotated 2])
qed

lemma create_transaction_Inr:
  assumes "create_transaction A org connectionId strategy body db = Inr (row, db')"
  obtains name configuration where "row = new_bot (ap_new_id A) org connectionId name strategy configuration"
    and "tradingConfiguration (ap_num_text A) (map_of body ''configuration'') = Inr configuration"
    and "db' = db\<lparr>sd_trading_bots := sd_trading_bots db @ [row]\<rparr>"
    and "\<not> (\<exists>b \<in> set (sd_trading_bots db). tb_organization_id b = org \<and> tb_name b = name)"
    and "resource_count Bots org db < en_maxBots (planCatalog (activePlan (ap_now A) org (sd_billing db)))"
  using assms
  by (auto simp: create_transaction_def guardT_Inr insert_bot_def new_bot_def enforceResourceQuota_def resource_limit_def Let_def
      split: if_splits)

lemma writeAuditEvent_tables [simp]:
  "sd_trading_bots (writeAuditEvent req a t i m db) = sd_trading_bots db"
  "sd_bot_commands (writeAuditEvent req a t i m db) = sd_bot_commands db"
  "sd_billing (writeAuditEvent req a t i m db) = sd_billing db"
  "sd_usage (writeAuditEvent req a t i m db) = sd_usage db"
  "sd_orders (writeAuditEvent req a t i m db) = sd_orders db"
  "sd_exchange_connections (writeAuditEvent req a t i m db) = sd_exchange_connections db"
  by (simp_all add: writeAuditEvent_def)

lemma set_states_tables [simp]:
  "sd_bot_commands (set_states botId org d a db) = sd_bot_commands db"
  "sd_usage (set_states botId org d a db) = sd_usage db"
  by (simp_all add: set_states_def)

section \<open>Quota of bots\<close>

definition create_request :: "api \<times> api_request \<Rightarrow> saas_db \<Rightarrow> saas_db option" where
  "create_request r db = (case createBot (fst r) (snd r) db of (Inl _, _) \<Rightarrow> None | (Inr _, db') \<Rightarrow> Some db')"

interpretation bot_quota: bounded_quota "resource_count Bots org" "en_maxBots (planCatalog plan)" create_request
    "\<lambda>(A, req). activePlan (ap_now A) org billing = plan" "\<lambda>db. sd_billing db = billing"
  for org plan billing
proof
  fix db db' and r :: "api \<times> api_request"
  assume valid: "sd_billing db = billing" and ok: "(\<lambda>(A, req). activePlan (ap_now A) org billing = plan) r"
    and r: "create_request r db = Some db'"
  obtain A req where r_def: "r = (A, req)" by (cases r)
  from r obtain row where c: "createBot A req db = (Inr row, db')"
    by (auto simp: create_request_def r_def split: prod.splits sum.splits)
  obtain auth connectionId strategy body db1 where "ar_auth req = Some auth" and "au_role auth \<in> {OWNER, ADMIN, TRADER}"
    and t: "create_transaction A (au_organizationId auth) connectionId strategy body db = Inr (row, db1)"
    and db': "db' = writeAuditEvent req ''BOT_CREATED'' (Some ''bot'') (Some (tb_id row)) (JObj []) db1"
    by (rule createBot_Inr [OF c])
  obtain name configuration where row: "row = new_bot (ap_new_id A) (au_organizationId auth) connectionId name strategy configuration"
    and "tradingConfiguration (ap_num_text A) (map_of body ''configuration'') = Inr configuration"
    and db1: "db1 = db\<lparr>sd_trading_bots := sd_trading_bots db @ [row]\<rparr>"
    and "\<not> (\<exists>b \<in> set (sd_trading_bots db). tb_organization_id b = au_organizationId auth \<and> tb_name b = name)"
    and below: "resource_count Bots (au_organizationId auth) db
      < en_maxBots (planCatalog (activePlan (ap_now A) (au_organizationId auth) (sd_billing db)))"
    by (rule create_transaction_Inr [OF t])
  show "sd_billing db' = billing \<and> (resource_count Bots org db' = resource_count Bots org db \<or>
      resource_count Bots org db' \<le> en_maxBots (planCatalog plan))"
    using below valid ok by (auto simp: db' db1 row resource_count_def new_bot_def r_def)
qed

section \<open>Invariant of the tables\<close>

definition accepted_configuration :: "(rat \<Rightarrow> string) \<Rightarrow> json_object \<Rightarrow> bool" where
  "accepted_configuration num_text configuration \<longleftrightarrow> tradingConfiguration num_text (Some (JObj configuration)) = Inr configuration"

definition tables_ok :: "(rat \<Rightarrow> string) \<Rightarrow> saas_db \<Rightarrow> bool" where
  "tables_ok num_text db \<longleftrightarrow>
     list_all (\<lambda>b. accepted_configuration num_text (tb_configuration b)) (sd_trading_bots db) \<and>
     distinct (map tb_id (sd_trading_bots db)) \<and>
     distinct (map (\<lambda>b. (tb_organization_id b, tb_name b)) (sd_trading_bots db)) \<and>
     distinct (map (\<lambda>c. (cm_organization_id c, cm_idempotency_key c)) (sd_bot_commands db))"

datatype bot_request = Create | Edit | Delete | Command bot_command

definition serve :: "api \<Rightarrow> bot_request \<Rightarrow> api_request \<Rightarrow> saas_db \<Rightarrow> saas_db" where
  "serve A r req db =
     (case r of
        Create \<Rightarrow> snd (createBot A req db)
      | Edit \<Rightarrow> snd (editBot A req db)
      | Delete \<Rightarrow> snd (deleteBotRequest A req db)
      | Command command \<Rightarrow> snd (commandBot A command req db))"

lemma distinct_update_where:
  assumes "distinct (map k rows)" and "distinct (map g rows)"
    and "\<And>r c. r \<in> set rows \<Longrightarrow> c \<in> set rows \<Longrightarrow> p r \<Longrightarrow> k c \<noteq> k r \<Longrightarrow> \<not> p c \<and> g c \<noteq> g (f r)"
  shows "distinct (map g (update_where p f rows))"
proof -
  have "g (if p (rows ! i) then f (rows ! i) else rows ! i) \<noteq> g (if p (rows ! j) then f (rows ! j) else rows ! j)"
    if "i < length rows" "j < length rows" "i \<noteq> j" for i j
  proof -
    have ne: "k (rows ! i) \<noteq> k (rows ! j)" "g (rows ! i) \<noteq> g (rows ! j)"
      using that assms(1,2) by (auto simp: distinct_conv_nth)
    show ?thesis
      using ne that assms(3) [of "rows ! i" "rows ! j"] assms(3) [of "rows ! j" "rows ! i"] by (auto dest: sym)
  qed
  then show ?thesis by (auto simp: distinct_conv_nth update_where_def)
qed

lemma set_states_ok [simp]: "tables_ok num_text (set_states botId org d a db) = tables_ok num_text db"
  by (simp add: tables_ok_def set_states_def list_all_update_where map_update_where)

lemma tables_ok_usage [simp]: "tables_ok num_text (db\<lparr>sd_usage := u\<rparr>) = tables_ok num_text db"
  by (simp add: tables_ok_def)

lemma tables_ok_audit [simp]: "tables_ok num_text (writeAuditEvent req a t i m db) = tables_ok num_text db"
  by (simp add: tables_ok_def)

lemma tables_ok_insert_command:
  "tables_ok num_text db \<Longrightarrow> \<not> (\<exists>c \<in> set (sd_bot_commands db). same_key (cm_organization_id c') (cm_idempotency_key c') c) \<Longrightarrow>
     tables_ok num_text (db\<lparr>sd_bot_commands := sd_bot_commands db @ [c']\<rparr>)"
  by (auto simp: tables_ok_def same_key_def)

lemma consumeBotCommand_usage: "consumeBotCommand month now org db = Inr db' \<Longrightarrow> \<exists>u. db' = db\<lparr>sd_usage := u\<rparr>"
  by (auto simp: consumeBotCommand_def Let_def split: if_splits)

lemma create_transaction_ok:
  assumes "create_transaction A org connectionId strategy body db = Inr (row, db')" and "tables_ok (ap_num_text A) db"
    and "ap_new_id A \<notin> tb_id ` set (sd_trading_bots db)"
  shows "tables_ok (ap_num_text A) db'"
proof -
  obtain name configuration where row: "row = new_bot (ap_new_id A) org connectionId name strategy configuration"
    and c: "tradingConfiguration (ap_num_text A) (map_of body ''configuration'') = Inr configuration"
    and db': "db' = db\<lparr>sd_trading_bots := sd_trading_bots db @ [row]\<rparr>"
    and fresh: "\<not> (\<exists>b \<in> set (sd_trading_bots db). tb_organization_id b = org \<and> tb_name b = name)"
    and "resource_count Bots org db < en_maxBots (planCatalog (activePlan (ap_now A) org (sd_billing db)))"
    by (rule create_transaction_Inr [OF assms(1)])
  from tradingConfiguration_idem [OF c] fresh assms(2,3) show ?thesis
    by (auto simp: tables_ok_def accepted_configuration_def db' row new_bot_def)
qed

lemma update_bot_ok:
  assumes "update_bot botId org name configuration db = Inr (u, db')" and "tables_ok num_text db"
    and "accepted_configuration num_text configuration"
  shows "tables_ok num_text db'"
proof -
  let ?bots = "sd_trading_bots db"
  from assms(1) have db': "db' = db\<lparr>sd_trading_bots := update_where (bot_of botId org) (edited_bot name configuration) ?bots\<rparr>"
    and free: "\<And>b c. b \<in> set ?bots \<Longrightarrow> c \<in> set ?bots \<Longrightarrow> bot_of botId org b \<Longrightarrow> tb_id c \<noteq> tb_id b \<Longrightarrow>
      tb_organization_id c = org \<Longrightarrow> tb_name c \<noteq> nullish name (tb_name b)"
    by (auto simp: update_bot_def split: if_splits)
  have "distinct (map (\<lambda>b. (tb_organization_id b, tb_name b)) (update_where (bot_of botId org) (edited_bot name configuration) ?bots))"
  proof (rule distinct_update_where [where k = tb_id])
    fix b c assume "b \<in> set ?bots" "c \<in> set ?bots" "bot_of botId org b" "tb_id c \<noteq> tb_id b"
    with free [of b c] show "\<not> bot_of botId org c \<and> (tb_organization_id c, tb_name c) \<noteq>
        (tb_organization_id (edited_bot name configuration b), tb_name (edited_bot name configuration b))"
      by (auto simp: bot_of_def edited_bot_def)
  qed (use assms(2) in \<open>auto simp: tables_ok_def\<close>)
  moreover have "map tb_id (update_where (bot_of botId org) (edited_bot name configuration) ?bots) = map tb_id ?bots"
    by (rule map_update_where) (simp add: edited_bot_def)
  ultimately show ?thesis
    using assms(2,3) by (simp add: tables_ok_def db' list_all_update_where) (simp add: list_all_iff edited_bot_def)
qed

lemma command_transaction_ok:
  assumes "command_transaction A auth botId command key db = Inr (row, db')" and "tables_ok num_text db"
  shows "tables_ok num_text db'"
proof (cases "find (same_key (au_organizationId auth) key) (sd_bot_commands db)")
  case None
  let ?db1 = "db\<lparr>sd_bot_commands := sd_bot_commands db @ [new_command (ap_new_id A) auth botId command key]\<rparr>"
  from None have "tables_ok num_text ?db1"
    by (intro tables_ok_insert_command [OF assms(2)]) (auto simp: find_None_iff new_command_def)
  moreover from assms(1) None obtain u d a where "db' = set_states botId (au_organizationId auth) d a (?db1\<lparr>sd_usage := u\<rparr>)"
    by (auto simp: command_transaction_def guardT_Inr Let_def split: option.splits if_splits dest!: consumeBotCommand_usage
        intro: that [of _ _ "sd_usage db"])
  ultimately show ?thesis by simp
next
  case (Some existing)
  with assms show ?thesis by (auto simp: command_transaction_def Let_def split: option.splits if_splits)
qed

lemma delete_transaction_ok:
  assumes "delete_transaction A auth botId key db = Inr (row, db')" and "tables_ok num_text db"
  shows "tables_ok num_text db'"
proof -
  from assms(1) have "\<not> (\<exists>c \<in> set (sd_bot_commands db). same_key (au_organizationId auth) key c)"
    and "db' = set_states botId (au_organizationId auth) DesiredStopped STOPPING
      (db\<lparr>sd_bot_commands := sd_bot_commands db @ [new_command (ap_new_id A) auth botId DELETE key]\<rparr>)"
    by (auto simp: delete_transaction_def Let_def split: option.splits if_splits)
  with assms(2) show ?thesis
    by (simp add: tables_ok_insert_command new_command_def)
qed

text \<open>
  \<open>ensures P Q m\<close>: from tables with \<open>P\<close> the handler \<open>m\<close> leads to tables with \<open>Q\<close>, whether it answers or
  fails; the rules push it to the transactions of a handler.
\<close>

definition ensures :: "(saas_db \<Rightarrow> bool) \<Rightarrow> (saas_db \<Rightarrow> bool) \<Rightarrow> 'a handler \<Rightarrow> bool" where
  "ensures P Q m \<longleftrightarrow> (\<forall>db. P db \<longrightarrow> Q (snd (m db)))"

lemma ensures_guard:
  "(\<And>db. P db \<Longrightarrow> Q db) \<Longrightarrow> (\<And>x. c = Inr x \<Longrightarrow> ensures P Q (k x)) \<Longrightarrow> ensures P Q (guardH c k)"
  by (cases c) (auto simp: ensures_def)

lemma ensures_unique: "ensures P Q m \<Longrightarrow> ensures P Q (\<lambda>db. on_unique_violation e (m db))"
  by (auto simp: ensures_def on_unique_violation_def split: prod.splits sum.splits api_error.splits)

lemma ensures_transaction:
  "(\<And>db. P db \<Longrightarrow> Q db) \<Longrightarrow> (\<And>db x db'. P db \<Longrightarrow> work db = Inr (x, db') \<Longrightarrow> Q (g x db')) \<Longrightarrow>
     ensures P Q (\<lambda>db. case saasTransaction work db of (Inl e, db') \<Rightarrow> (Inl e, db') | (Inr x, db') \<Rightarrow> (Inr (f x), g x db'))"
  by (auto simp: ensures_def saasTransaction_def split: sum.splits prod.splits)

lemma createBot_ok:
  "ensures (\<lambda>db. tables_ok (ap_num_text A) db \<and> ap_new_id A \<notin> tb_id ` set (sd_trading_bots db)) (tables_ok (ap_num_text A))
     (createBot A req)"
  unfolding createBot_def
  by (intro ensures_guard ensures_unique ensures_transaction) (auto dest: create_transaction_ok)

lemma editBot_ok: "ensures (tables_ok (ap_num_text A)) (tables_ok (ap_num_text A)) (editBot A req)"
proof -
  have stored: "accepted_configuration (ap_num_text A) (tb_configuration b)"
    if "tables_ok (ap_num_text A) db" "find q (sd_trading_bots db) = Some b" for q b db
    using that by (auto simp: tables_ok_def list_all_iff find_Some_iff)
  have new: "accepted_configuration (ap_num_text A) c" if "tradingConfiguration (ap_num_text A) v = Inr c" for v c
    using tradingConfiguration_idem [OF that] by (simp add: accepted_configuration_def)
  show ?thesis
    unfolding editBot_def
    by (intro ensures_guard)
       (auto simp: ensures_def guardH_def saasTransaction_def dest: stored new update_bot_ok
          split: option.splits sum.splits prod.splits if_splits)
qed

lemma deleteBotRequest_ok: "ensures (tables_ok num_text) (tables_ok num_text) (deleteBotRequest A req)"
  unfolding deleteBotRequest_def
  by (intro ensures_guard ensures_unique ensures_transaction) (auto dest: delete_transaction_ok)

lemma commandBot_ok: "ensures (tables_ok num_text) (tables_ok num_text) (commandBot A command req)"
  unfolding commandBot_def
  by (intro ensures_guard ensures_transaction) (auto dest: command_transaction_ok)

section \<open>Replayed commands\<close>

lemma command_recorded:
  assumes "command_transaction A auth botId command key db = Inr (row, db')"
  shows "find (same_key (au_organizationId auth) key) (sd_bot_commands db') = Some row" and "cm_bot_id row = botId"
    and "cm_command row = command" and "find (bot_of botId (au_organizationId auth)) (sd_trading_bots db') \<noteq> None"
proof -
  let ?org = "au_organizationId auth"
  have states: "find (bot_of botId ?org) (sd_trading_bots (set_states botId ?org d a db)) \<noteq> None \<longleftrightarrow>
      find (bot_of botId ?org) (sd_trading_bots db) \<noteq> None" for d a db
    by (simp add: set_states_def find_update_where bot_of_def)
  have "find (same_key ?org key) (sd_bot_commands db') = Some row \<and> cm_bot_id row = botId \<and> cm_command row = command \<and>
      find (bot_of botId ?org) (sd_trading_bots db') \<noteq> None"
    using assms
    by (auto simp: command_transaction_def guardT_Inr Let_def find_append new_command_def same_key_def
        states [unfolded not_None_eq] split: option.splits if_splits dest!: consumeBotCommand_usage)
  then show "find (same_key ?org key) (sd_bot_commands db') = Some row" "cm_bot_id row = botId" "cm_command row = command"
    "find (bot_of botId ?org) (sd_trading_bots db') \<noteq> None" by blast+
qed

lemma commandBot_Inr:
  assumes "commandBot A command req db = (Inr row, db')"
  obtains auth botId key db1 where "requireRoles [OWNER, ADMIN, TRADER] req = Inr ()"
    and "(if command = STOP then Inr () else requireCurrentLegalConsent A req) = Inr ()"
    and "authContext req = Inr auth" and "uuidValue (Some (JStr (ar_params_id req))) ''id'' = Inr botId"
    and "idempotencyKey req = Inr key" and "command_transaction A auth botId command key db = Inr (row, db1)"
    and "db' = writeAuditEvent req (audit_of command) (Some ''bot'') (Some botId) (JObj []) db1"
  using assms unfolding commandBot_def guardH_Inr committed by (elim exE conjE) (rule that, simp_all)

text \<open>A first STOP command: what it needs, and the tables it leaves.\<close>

definition stopped_tables :: "api \<Rightarrow> api_request \<Rightarrow> auth_context \<Rightarrow> string \<Rightarrow> string \<Rightarrow> saas_db \<Rightarrow> saas_db" where
  "stopped_tables A req auth botId key db =
     writeAuditEvent req ''BOT_STOP_REQUESTED'' (Some ''bot'') (Some botId) (JObj [])
       (set_states botId (au_organizationId auth) DesiredStopped STOPPING
          (db\<lparr>sd_bot_commands := sd_bot_commands db @ [new_command (ap_new_id A) auth botId STOP key]\<rparr>))"

lemma stop_accepted:
  assumes "ar_auth req = Some auth" and "au_role auth \<in> {OWNER, ADMIN, TRADER}"
    and "uuidValue (Some (JStr (ar_params_id req))) ''id'' = Inr botId" and "idempotencyKey req = Inr key"
    and "find (bot_of botId (au_organizationId auth)) (sd_trading_bots db) \<noteq> None"
    and "find (same_key (au_organizationId auth) key) (sd_bot_commands db) = None"
  shows "commandBot A STOP req db = (Inr (new_command (ap_new_id A) auth botId STOP key), stopped_tables A req auth botId key db)"
  using assms
  by (auto simp: commandBot_def requireRoles_def authContext_def saasTransaction_def command_transaction_def is_stopping_def
      audit_of_def stopped_tables_def Let_def)

section \<open>Properties\<close>

text \<open>
  C34: the requests keep the tables well formed. Whatever request is served, and whether it succeeds or
  fails, every stored configuration of a bot is one that validation accepts as it is, identifiers of bots
  and their names within an organisation are unique, and so are the idempotency keys of its commands.
\<close>

theorem requests_keep_tables:
  assumes "tables_ok (ap_num_text A) db" and "ap_new_id A \<notin> tb_id ` set (sd_trading_bots db)"
  shows "tables_ok (ap_num_text A) (serve A r req db)"
  using assms createBot_ok [of A req] editBot_ok [of A req] deleteBotRequest_ok [of "ap_num_text A" A req]
    commandBot_ok [of "ap_num_text A" A _ req]
  by (cases r) (auto simp: serve_def ensures_def)

definition sim_api :: api where
  "sim_api = \<lparr>ap_new_id = ''id-1'', ap_now = 10, ap_month = (\<lambda>t. t div 1000), ap_num_text = (\<lambda>_. []),
     ap_documents = (''1'', ''1''), ap_users = (\<lambda>_. None)\<rparr>"

definition sim_bot_id :: string where
  "sim_bot_id = ''00000000-0000-1000-8000-000000000000''"

definition sim_auth :: auth_context where
  "sim_auth = \<lparr>au_userId = ''user'', au_organizationId = ''org'', au_role = TRADER\<rparr>"

definition sim_request :: api_request where
  "sim_request = \<lparr>ar_auth = Some sim_auth, ar_params_id = sim_bot_id, ar_body = None, ar_idempotency_key = Some ''request-1''\<rparr>"

definition sim_bot :: bot_row where
  "sim_bot = new_bot sim_bot_id ''org'' ''connection'' ''bot'' ''VECTOR_PROFIT''
     [(''symbol'', JStr ''ETH/USDT''), (''percentProfit'', JNum (Fin (1 / 50))), (''isOnlyBuy'', JBool True),
      (''candlePriceRange'', JStr ''1h'')]"

definition sim_bots_db :: saas_db where
  "sim_bots_db = (sim_saas_db (sim_billing_db 50))\<lparr>sd_trading_bots := [sim_bot]\<rparr>"

lemma sim_bots_ok: "tables_ok (\<lambda>_. []) sim_bots_db"
  using tradingConfiguration_idem [OF sim_configuration_accepted]
  by (simp add: tables_ok_def accepted_configuration_def sim_bots_db_def sim_saas_db_def sim_bot_def new_bot_def)

lemma sim_request_valid:
  "uuidValue (Some (JStr sim_bot_id)) ''id'' = Inr sim_bot_id" "idempotencyKey sim_request = Inr ''request-1''"
  by code_simp+

lemma sim_stop_accepted:
  "commandBot sim_api STOP sim_request sim_bots_db =
   (Inr (new_command ''id-1'' sim_auth sim_bot_id STOP ''request-1''),
    stopped_tables sim_api sim_request sim_auth sim_bot_id ''request-1'' sim_bots_db)"
  using stop_accepted [of sim_request sim_auth sim_bot_id "''request-1''" sim_bots_db sim_api] sim_request_valid
  by (simp add: sim_request_def sim_auth_def sim_bots_db_def sim_saas_db_def sim_bot_def new_bot_def bot_of_def sim_api_def)

theorem requests_keep_tables_witness:
  "tables_ok (\<lambda>_. []) (serve sim_api (Command STOP) sim_request sim_bots_db) \<and>
   sd_bot_commands (serve sim_api (Command STOP) sim_request sim_bots_db) \<noteq> []"
proof
  show "tables_ok (\<lambda>_. []) (serve sim_api (Command STOP) sim_request sim_bots_db)"
    using requests_keep_tables [of sim_api sim_bots_db "Command STOP" sim_request] sim_bots_ok
    by (simp add: sim_api_def sim_bots_db_def sim_saas_db_def sim_bot_def new_bot_def sim_bot_id_def)
  show "sd_bot_commands (serve sim_api (Command STOP) sim_request sim_bots_db) \<noteq> []"
    by (simp add: serve_def sim_stop_accepted stopped_tables_def)
qed

text \<open>
  C35: commands are idempotent. A command that was accepted can be sent again under its key, at any time:
  the answer is the row of the first one, and apart from the audit nothing changes, so that neither a
  second command is queued nor the quota charged. The key is refused for any other command.
\<close>

theorem command_is_idempotent:
  assumes "commandBot A command req db = (Inr row, db1)"
  shows "(\<exists>events. commandBot (A\<lparr>ap_now := t, ap_new_id := i\<rparr>) command req db1 = (Inr row, db1\<lparr>sd_audit_events := events\<rparr>)) \<and>
    (command' \<noteq> command \<longrightarrow> (\<exists>e. commandBot (A\<lparr>ap_now := t, ap_new_id := i\<rparr>) command' req db1 = (Inl e, db1)))"
proof -
  let ?A = "A\<lparr>ap_now := t, ap_new_id := i\<rparr>"
  obtain auth botId key db2 where roles: "requireRoles [OWNER, ADMIN, TRADER] req = Inr ()"
    and consent: "(if command = STOP then Inr () else requireCurrentLegalConsent A req) = Inr ()"
    and auth: "authContext req = Inr auth" and id: "uuidValue (Some (JStr (ar_params_id req))) ''id'' = Inr botId"
    and key: "idempotencyKey req = Inr key" and t: "command_transaction A auth botId command key db = Inr (row, db2)"
    and db1: "db1 = writeAuditEvent req (audit_of command) (Some ''bot'') (Some botId) (JObj []) db2"
    by (rule commandBot_Inr [OF assms])
  note recorded = command_recorded [OF t]
  have consent': "requireCurrentLegalConsent ?A req = requireCurrentLegalConsent A req"
    by (simp add: requireCurrentLegalConsent_def)
  have replay: "command_transaction ?A auth botId command key db1 = Inr (row, db1)"
    using recorded by (auto simp: command_transaction_def db1)
  have other: "\<exists>e. command_transaction ?A auth botId command' key db1 = Inl e" if "command' \<noteq> command"
    using recorded that by (auto simp: command_transaction_def db1)
  have "\<exists>events. commandBot ?A command req db1 = (Inr row, db1\<lparr>sd_audit_events := events\<rparr>)"
    unfolding commandBot_def roles consent' consent auth id key
    by (auto simp: saasTransaction_def replay writeAuditEvent_def)
  moreover have "\<exists>e. commandBot ?A command' req db1 = (Inl e, db1)" if different: "command' \<noteq> command"
  proof -
    obtain e where e: "command_transaction ?A auth botId command' key db1 = Inl e"
      using other [OF different] by blast
    show ?thesis
      by (cases "if command' = STOP then Inr () else requireCurrentLegalConsent ?A req")
         (simp_all add: commandBot_def roles auth id key saasTransaction_def e)
  qed
  ultimately show ?thesis by blast
qed

theorem command_is_idempotent_witness:
  "\<exists>db1. commandBot sim_api STOP sim_request sim_bots_db =
       (Inr (new_command ''id-1'' sim_auth sim_bot_id STOP ''request-1''), db1) \<and>
     (\<exists>events. commandBot (sim_api\<lparr>ap_now := 99, ap_new_id := ''id-2''\<rparr>) STOP sim_request db1 =
        (Inr (new_command ''id-1'' sim_auth sim_bot_id STOP ''request-1''), db1\<lparr>sd_audit_events := events\<rparr>))"
  using command_is_idempotent [OF sim_stop_accepted] sim_stop_accepted by blast

text \<open>
  A bot can always be stopped. A STOP command of an owner, administrator or trader, under a new key, for
  a bot of the organisation is accepted whatever the subscription, the quota and the consent of the user
  are: it is queued, the bot is to be stopped, and no quota is charged. The emergency stop, which also
  closes the position, is refused to a user who has not accepted the current documents.
\<close>

theorem stop_is_always_accepted:
  assumes "ar_auth req = Some auth" and "au_role auth \<in> {OWNER, ADMIN, TRADER}"
    and "uuidValue (Some (JStr (ar_params_id req))) ''id'' = Inr botId" and "idempotencyKey req = Inr key"
    and "find (bot_of botId (au_organizationId auth)) (sd_trading_bots db) \<noteq> None"
    and "find (same_key (au_organizationId auth) key) (sd_bot_commands db) = None"
  shows "\<exists>row db'. commandBot A STOP req db = (Inr row, db') \<and>
    sd_bot_commands db' = sd_bot_commands db @ [row] \<and> cm_command row = STOP \<and> cm_status row = PENDING \<and> cm_bot_id row = botId \<and>
    (\<forall>b \<in> set (sd_trading_bots db'). bot_of botId (au_organizationId auth) b \<longrightarrow>
       tb_desired_state b = DesiredStopped \<and> tb_actual_state b = STOPPING) \<and>
    sd_usage db' = sd_usage db \<and>
    (ap_users A (au_userId auth) \<noteq> Some (ap_documents A) \<longrightarrow>
       (\<exists>e. commandBot A EMERGENCY_STOP req db = (Inl (HttpError e), db) \<and> he_status e = 428))"
proof -
  have "\<exists>e. commandBot A EMERGENCY_STOP req db = (Inl (HttpError e), db) \<and> he_status e = 428"
    if "ap_users A (au_userId auth) \<noteq> Some (ap_documents A)"
    using that assms(1,2)
    by (auto simp: commandBot_def requireRoles_def authContext_def requireCurrentLegalConsent_def SaasHttpError_def)
  moreover have "\<forall>b \<in> set (sd_trading_bots (stopped_tables A req auth botId key db)). bot_of botId (au_organizationId auth) b \<longrightarrow>
       tb_desired_state b = DesiredStopped \<and> tb_actual_state b = STOPPING"
    by (auto simp: stopped_tables_def set_states_def update_where_def)
  ultimately show ?thesis
    using stop_accepted [OF assms, of A] by (simp add: stopped_tables_def) (simp add: new_command_def)
qed

theorem stop_is_always_accepted_witness:
  "\<exists>row db'. commandBot sim_api STOP sim_request sim_bots_db = (Inr row, db') \<and> cm_status row = PENDING"
  using stop_is_always_accepted [of sim_request sim_auth sim_bot_id "''request-1''" sim_bots_db sim_api] sim_request_valid
  by (simp add: sim_request_def sim_auth_def sim_bots_db_def sim_saas_db_def sim_bot_def new_bot_def bot_of_def) blast

text \<open>
  The plan bounds the bots. However many requests to create bots are served, from whatever
  organisations, an organisation never gets beyond the number of bots of its plan by creating them.
\<close>

theorem bots_within_plan:
  assumes "\<forall>(A, req) \<in> set rs. activePlan (ap_now A) org (sd_billing db) = plan"
  shows "resource_count Bots org (snd (requests create_request rs db))
    \<le> max (en_maxBots (planCatalog plan)) (resource_count Bots org db)"
  using bot_quota.requests_bounded [of db "sd_billing db" org plan rs] assms
  by (simp add: list_all_iff)

theorem bots_within_plan_witness:
  "resource_count Bots ''org'' (snd (requests create_request (replicate 20 (sim_api, sim_request)) sim_bots_db)) \<le> 10"
proof -
  have "activePlan 10 ''org'' (sd_billing sim_bots_db) = PRO"
    by (simp add: sim_bots_db_def sim_saas_db_def activePlan_def entitled_def sim_billing_defs)
  moreover have "resource_count Bots ''org'' sim_bots_db = 1"
    by (simp add: resource_count_def sim_bots_db_def sim_saas_db_def sim_bot_def new_bot_def)
  ultimately show ?thesis
    using bots_within_plan [of "replicate 20 (sim_api, sim_request)" "''org''" sim_bots_db PRO]
    by (simp add: planCatalog_def sim_api_def)
qed

text \<open>
  Deletion: a request to delete a bot is only accepted for a bot that is stopped or failed and whose executed
  orders add up to nothing.
\<close>

lemma deleted_bots_are_flat:
  assumes "delete_transaction A auth botId key db = Inr (row, db')"
  shows "open_quantity botId (au_organizationId auth) (sd_orders db) = 0 \<and>
    (\<exists>b \<in> set (sd_trading_bots db). bot_of botId (au_organizationId auth) b \<and> tb_actual_state b \<in> {STOPPED, FAILED})"
  using assms by (auto simp: delete_transaction_def Let_def find_Some_iff split: option.splits if_splits)

end
