(* ===== verification/Saas_Worker.thy ===== *)
theory Saas_Worker
  imports Bots_Router Encryption_Service
begin

text \<open>
  \<^verbatim>\<open>src/saas/worker.ts\<close>: the leader process that runs the bots of the SaaS. It claims the commands of the
  table \<^verbatim>\<open>bot_commands\<close>, forks one trading process per bot, restarts it, stores the orders and the log lines
  the processes send, and hands the bots over when it is shut down.

  The state is the module's: the maps \<^verbatim>\<open>processes\<close>, \<^verbatim>\<open>restartAttempts\<close>, \<^verbatim>\<open>restartResetTimers\<close>, \<^verbatim>\<open>orderWrites\<close>,
  \<^verbatim>\<open>runtimeLogBuffers\<close>, \<^verbatim>\<open>runtimeLogTimers\<close>, \<^verbatim>\<open>runtimeLogCleanupAt\<close>, the flag \<^verbatim>\<open>stopping\<close>, and beside them the
  tables, the children forked so far (a child is its position in the list), the timers that will restart a
  bot, and the directories of bots that hold a database file.

  A query of the database may fail: \<open>sw_faults\<close> lists what the next queries throw, None or nothing left being
  success. \<open>leader\<close> holds the rest of the environment: the identifier of this worker, the platform with the
  ciphers, \<^verbatim>\<open>JSON.parse\<close>, the time, what becomes of a child that is asked to end, and the results of the
  file system. A function runs without interruption here; where an interleaving matters (two calls of
  \<^verbatim>\<open>startBot\<close> that overlap) the function is split at its first await. Console output is left out.
\<close>

section \<open>State\<close>

datatype child_message = SendStart config | SendStop | SendSuspend

record child =
  ch_bot :: string
  ch_exitCode :: "int option"
  ch_connected :: bool
  ch_sandbox :: bool
  ch_listening :: bool
  ch_sent :: "child_message list"
  ch_killed :: bool
  ch_failure :: "string option"

record runtime_log =
  rm_level :: log_level
  rm_message :: string
  rm_occurredAt :: int

record saas_worker =
  sw_db :: saas_db
  sw_faults :: "js_error option list"
  sw_children :: "child list"
  sw_processes :: "string \<Rightarrow> nat option"
  sw_restartAttempts :: "string \<Rightarrow> nat option"
  sw_restartResetTimers :: "string \<Rightarrow> nat option"
  sw_restartTimers :: "(string \<times> nat) list"
  sw_orderWrites :: "string \<Rightarrow> order_update list option"
  sw_runtimeLogBuffers :: "string \<Rightarrow> runtime_log list option"
  sw_runtimeLogTimers :: "string \<Rightarrow> bool"
  sw_runtimeLogCleanupAt :: "string \<Rightarrow> int option"
  sw_stopping :: bool
  sw_databases :: "string \<Rightarrow> bool"

text \<open>What a child does within the time a stop waits for it: it exits with a code or by a signal, or neither.\<close>

datatype child_end = Exits int | Killed | StillRunning

record 'x leader =
  ld_instanceId :: string
  ld_platform :: "'x platform"
  ld_parse :: "string \<Rightarrow> js_error + json"
  ld_now :: int
  ld_end :: "nat \<Rightarrow> child_end"
  ld_mkdir :: "string \<Rightarrow> js_error option"
  ld_writeFile :: "string \<Rightarrow> js_error option"
  ld_rename :: "string \<Rightarrow> js_error option"

type_synonym 'a run = "(saas_worker, 'a) eff"

text \<open>A transaction, which may also violate a constraint, and a query, which is a transaction of its own.\<close>

definition saasTransactionE :: "(saas_db \<Rightarrow> js_error + 'a \<times> saas_db) \<Rightarrow> 'a run" where
  "saasTransactionE f s =
     (case sw_faults s of
        Some e # fs \<Rightarrow> (Inl e, s\<lparr>sw_faults := fs\<rparr>)
      | fs \<Rightarrow> (case saasTransaction f (sw_db s) of (r, db) \<Rightarrow> (r, s\<lparr>sw_faults := tl fs, sw_db := db\<rparr>)))"

definition saasQueryE :: "(saas_db \<Rightarrow> 'a \<times> saas_db) \<Rightarrow> 'a run" where
  "saasQueryE f = saasTransactionE (\<lambda>db. Inr (f db))"

definition updateE :: "(saas_db \<Rightarrow> saas_db) \<Rightarrow> unit run" where
  "updateE f = saasQueryE (\<lambda>db. ((), f db))"

definition throw_if :: "js_error option \<Rightarrow> unit run" where
  "throw_if e = (case e of None \<Rightarrow> ret () | Some err \<Rightarrow> throwE err)"

definition update_bots :: "(bot_row \<Rightarrow> bool) \<Rightarrow> (bot_row \<Rightarrow> bot_row) \<Rightarrow> saas_db \<Rightarrow> saas_db" where
  "update_bots p f db = db\<lparr>sd_trading_bots := update_where p f (sd_trading_bots db)\<rparr>"

definition update_command :: "string \<Rightarrow> (command_row \<Rightarrow> command_row) \<Rightarrow> saas_db \<Rightarrow> saas_db" where
  "update_command commandId f db = db\<lparr>sd_bot_commands := update_where (\<lambda>c. cm_id c = commandId) f (sd_bot_commands db)\<rparr>"

definition update_child :: "nat \<Rightarrow> (child \<Rightarrow> child) \<Rightarrow> saas_worker \<Rightarrow> saas_worker" where
  "update_child n f s = s\<lparr>sw_children := (sw_children s)[n := f (sw_children s ! n)]\<rparr>"

text \<open>\<open>processes.get(botId)?.exitCode === null\<close>.\<close>

definition runs :: "string \<Rightarrow> saas_worker \<Rightarrow> bool" where
  "runs botId s = (case sw_processes s botId of None \<Rightarrow> False | Some n \<Rightarrow> ch_exitCode (sw_children s ! n) = None)"

section \<open>The configuration of a bot\<close>

definition numberOr :: "json option \<Rightarrow> jsnum \<Rightarrow> jsnum" where
  "numberOr v fallback = (case v of Some (JNum n) \<Rightarrow> if isFinite n then n else fallback | _ \<Rightarrow> fallback)"

definition booleanOr :: "json option \<Rightarrow> bool \<Rightarrow> bool" where
  "booleanOr v fallback = (case v of Some (JBool b) \<Rightarrow> b | _ \<Rightarrow> fallback)"

definition supported_exchanges :: "(string \<times> exchange_type) list" where
  "supported_exchanges =
     [(''okx'', okx), (''binance'', binance), (''bitget'', bitget), (''kucoin'', kucoin), (''mexc'', mexc),
      (''poloniex'', poloniex), (''gate'', gate), (''exmo'', exmo), (''bybit'', bybit)]"

text \<open>A bot with its connection, as \<^verbatim>\<open>loadBot\<close> returns it.\<close>

record bot_view =
  bv_id :: string
  bv_organization_id :: string
  bv_exchange_code :: string
  bv_credentials_ciphertext :: string
  bv_configuration :: json_object
  bv_sandbox :: bool

definition credential :: "json \<Rightarrow> string \<Rightarrow> string option" where
  "credential credentials field =
     (case credentials of JObj entries \<Rightarrow> (case map_of entries field of Some (JStr s) \<Rightarrow> Some s | _ \<Rightarrow> None) | _ \<Rightarrow> None)"

definition runtime_config :: "string \<Rightarrow> string \<Rightarrow> string \<Rightarrow> exchange_type \<Rightarrow> string \<Rightarrow> json_object \<Rightarrow> config" where
  "runtime_config apiKey privateKey password exchange symbol settings =
     (let number = (\<lambda>f d. numberOr (map_of settings f) (Fin d));
          flag = (\<lambda>f d. booleanOr (map_of settings f) d)
      in \<lparr>c_id = 1, c_apiKey = apiKey, c_privateKey = privateKey, c_password = password, c_symbol = symbol,
          c_positionSize = number ''positionSize'' (1 / 10), c_countGridSize = Some (number ''countGridSize'' 1),
          c_gridSize = Some (number ''gridSize'' 1), c_percentBuyBackStep = number ''percentBuyBackStep'' (1 / 1000),
          c_takeProfit = Some (number ''takeProfit'' (2 / 100)), c_stopLoss = Some (number ''stopLoss'' (1 / 100)),
          c_isEmergencyStop = False, c_isFibonacci = flag ''isFibonacci'' False,
          c_percentProfit = number ''percentProfit'' (2 / 100), c_percentFromBalance = number ''percentFromBalance'' (1 / 100),
          c_candlePriceRange = (case map_of settings ''candlePriceRange'' of Some (JStr t) \<Rightarrow> t | _ \<Rightarrow> ''1h''),
          c_isPercentTargetAfterTakeProfit = flag ''isPercentTargetAfterTakeProfit'' True,
          c_isCapitalizeDeltaFromSale = flag ''isCapitalizeDeltaFromSale'' False,
          c_isCoinAccumulation = flag ''isCoinAccumulation'' False, c_isConfigUpdated = False, c_isAutoStartTrading = False,
          c_isStopTrading = False, c_isOnlyBuy = flag ''isOnlyBuy'' False,
          c_percentTargetAfterTakeProfit = number ''percentTargetAfterTakeProfit'' (1 / 100),
          c_balanceDistribution = flag ''balanceDistribution'' False, c_exchange = exchange\<rparr>)"

definition legacyConfig :: "'x leader \<Rightarrow> bot_view \<Rightarrow> js_error + config" where
  "legacyConfig L bv =
     (case map_of supported_exchanges (bv_exchange_code bv) of
        None \<Rightarrow> Inl (newError (''Unsupported exchange: '' @ bv_exchange_code bv))
      | Some exchange \<Rightarrow>
          (case map_of (bv_configuration bv) ''symbol'' of
             Some (JStr symbol) \<Rightarrow>
               if CHR ''/'' \<notin> set symbol then Inl (newError ''Bot configuration must contain a valid symbol.'')
               else (case decrypt (ld_platform L) (bv_credentials_ciphertext bv) of
                       Inl e \<Rightarrow> Inl e
                     | Inr text \<Rightarrow>
                         (case ld_parse L text of
                            Inl e \<Rightarrow> Inl e
                          | Inr JNull \<Rightarrow> Inl (typeError ''Cannot read properties of null (reading 'apiKey')'')
                          | Inr credentials \<Rightarrow>
                              (case (credential credentials ''apiKey'', credential credentials ''privateKey'') of
                                 (Some apiKey, Some privateKey) \<Rightarrow>
                                   Inr (runtime_config apiKey privateKey (nullish (credential credentials ''password'') [])
                                          exchange symbol (bv_configuration bv))
                               | _ \<Rightarrow> Inl (newError ''Exchange credentials are incomplete.''))))
           | _ \<Rightarrow> Inl (newError ''Bot configuration must contain a valid symbol.'')))"

definition bot_view_of :: "bot_row \<Rightarrow> connection_row \<Rightarrow> bot_view" where
  "bot_view_of b c =
     \<lparr>bv_id = tb_id b, bv_organization_id = tb_organization_id b, bv_exchange_code = ec_exchange_code c,
      bv_credentials_ciphertext = ec_credentials_ciphertext c, bv_configuration = tb_configuration b, bv_sandbox = ec_sandbox c\<rparr>"

definition joined_bots :: "string \<Rightarrow> saas_db \<Rightarrow> bot_view list" where
  "joined_bots botId db =
     concat (map (\<lambda>b. map (bot_view_of b)
         (filter (\<lambda>c. ec_id c = tb_exchange_connection_id b \<and> ec_enabled c) (sd_exchange_connections db)))
       (filter (\<lambda>b. tb_id b = botId) (sd_trading_bots db)))"

definition loadBot :: "string \<Rightarrow> bot_view run" where
  "loadBot botId =
     bindE (saasQueryE (\<lambda>db. (joined_bots botId db, db))) (\<lambda>rows.
       case rows of [] \<Rightarrow> throwE (newError ''Bot or enabled exchange connection was not found.'') | bv # _ \<Rightarrow> ret bv)"

section \<open>The registry of SQLite databases\<close>

definition sqliteDatabaseName :: string where
  "sqliteDatabaseName = ''trading.sqlite''"

definition sqliteRelativePath :: "string \<Rightarrow> string" where
  "sqliteRelativePath botId = botId @ ''/databases/'' @ sqliteDatabaseName"

definition register_sqlite :: "string \<Rightarrow> bot_row \<Rightarrow> sqlite_row list \<Rightarrow> sqlite_row list" where
  "register_sqlite botId b rows =
     (let mine = (\<lambda>r. sq_bot_id r = botId \<and> sq_database_name r = sqliteDatabaseName)
      in if \<exists>r \<in> set rows. mine r
         then update_where mine (\<lambda>r. r\<lparr>sq_organization_id := tb_organization_id b,
                sq_relative_path := sqliteRelativePath botId, sq_is_delete := False\<rparr>) rows
         else rows @ [\<lparr>sq_organization_id = tb_organization_id b, sq_bot_id = botId, sq_database_name = sqliteDatabaseName,
                       sq_relative_path = sqliteRelativePath botId, sq_is_delete = False\<rparr>])"

definition registerSqliteDatabase :: "string \<Rightarrow> unit run" where
  "registerSqliteDatabase botId =
     updateE (\<lambda>db. case find (\<lambda>b. tb_id b = botId) (sd_trading_bots db) of
                None \<Rightarrow> db
              | Some b \<Rightarrow> db\<lparr>sd_bot_sqlite_databases := register_sqlite botId b (sd_bot_sqlite_databases db)\<rparr>)"

text \<open>\<open>entries\<close> are the names in the data directory, with whether each is a directory.\<close>

definition registerExistingSqliteDatabases :: "(string \<times> bool) list \<Rightarrow> unit run" where
  "registerExistingSqliteDatabases entries =
     forE entries (\<lambda>(name, isDirectory).
       if \<not> isDirectory \<or> \<not> matches (uuid_pattern ''12345'') name then ret ()
       else bindE (getsE (\<lambda>s. sw_databases s name)) (\<lambda>exists. if exists then registerSqliteDatabase name else ret ()))"

section \<open>Orders\<close>

definition order_row :: "bot_row \<Rightarrow> order_update \<Rightarrow> rat \<Rightarrow> saas_order" where
  "order_row b u quantity =
     \<lparr>so_organization_id = tb_organization_id b, so_bot_id = tb_id b, so_exchange_order_id = u_exchangeOrderId u,
      so_client_order_id = tb_id b @ '':'' @ u_clientOrderId u, so_symbol = u_symbol u, so_side = u_side u,
      so_order_type = u_orderType u, so_status = u_status u, so_quantity = quantity, so_price = u_price u,
      so_raw_response = u_rawResponse u\<rparr>"

definition same_order :: "saas_order \<Rightarrow> saas_order \<Rightarrow> bool" where
  "same_order o1 o2 \<longleftrightarrow> so_organization_id o1 = so_organization_id o2 \<and> so_client_order_id o1 = so_client_order_id o2"

text \<open>On a conflict the row keeps its organisation, its bot and its client order id.\<close>

definition upsert_order :: "saas_order \<Rightarrow> saas_order list \<Rightarrow> saas_order list" where
  "upsert_order row rows =
     (if \<exists>r \<in> set rows. same_order row r
      then update_where (same_order row)
             (\<lambda>r. row\<lparr>so_organization_id := so_organization_id r, so_bot_id := so_bot_id r,
                      so_client_order_id := so_client_order_id r\<rparr>) rows
      else rows @ [row])"

text \<open>The table admits the sides BUY and SELL only.\<close>

definition persistOrderUpdate :: "string \<Rightarrow> order_update \<Rightarrow> unit run" where
  "persistOrderUpdate botId u =
     (case u_quantity u of
        Fin quantity \<Rightarrow>
          if quantity \<le> 0 then throwE (newError ''Order update has an invalid quantity.'')
          else saasTransactionE (\<lambda>db. case find (\<lambda>b. tb_id b = botId) (sd_trading_bots db) of
                 None \<Rightarrow> Inr ((), db)
               | Some b \<Rightarrow>
                   if u_side u \<notin> {''BUY'', ''SELL''} then Inl (newError ''violates check constraint'')
                   else Inr ((), db\<lparr>sd_orders := upsert_order (order_row b u quantity) (sd_orders db)\<rparr>))
      | _ \<Rightarrow> throwE (newError ''Order update has an invalid quantity.''))"

text \<open>
  The promise of a bot in \<^verbatim>\<open>orderWrites\<close> is the queue of the updates still to be written: \<open>queueOrderUpdate\<close>
  chains one more, \<open>order_write\<close> is the next of the chain, which swallows its error and clears the entry
  when it was the last.
\<close>

definition queueOrderUpdate :: "string \<Rightarrow> order_update \<Rightarrow> saas_worker \<Rightarrow> saas_worker" where
  "queueOrderUpdate botId u s = s\<lparr>sw_orderWrites := (sw_orderWrites s)(botId \<mapsto> nullish (sw_orderWrites s botId) [] @ [u])\<rparr>"

definition order_write :: "string \<Rightarrow> unit run" where
  "order_write botId s =
     (case sw_orderWrites s botId of
        Some (u # us) \<Rightarrow>
          bindE (catchE (persistOrderUpdate botId u) (\<lambda>_. ret ())) (\<lambda>_.
            modifyE (\<lambda>s. s\<lparr>sw_orderWrites := (sw_orderWrites s)(botId := if us = [] then None else Some us)\<rparr>)) s
      | _ \<Rightarrow> (Inr (), s))"

text \<open>Waiting for the promise: the whole queue is written.\<close>

definition drainOrderWrites :: "string \<Rightarrow> unit run" where
  "drainOrderWrites botId s =
     forE (nullish (sw_orderWrites s botId) []) (\<lambda>_. order_write botId) s"

section \<open>Log lines\<close>

text \<open>
  The regular expression of \<^verbatim>\<open>redactRuntimeLog\<close>: a key word in any case, perhaps a quote, \<^verbatim>\<open>:\<close> or \<^verbatim>\<open>=\<close> with spaces
  around, perhaps a quote, and the value up to a quote, comma, brace or space. Its alternatives never
  overlap, so matching needs no backtracking.
\<close>

definition secret_words :: "string list" where
  "secret_words = [''APIKEY'', ''PRIVATEKEY'', ''PASSWORD'', ''SECRET'', ''TOKEN'']"

definition is_quote :: "char \<Rightarrow> bool" where
  "is_quote c \<longleftrightarrow> c = CHR 0x22 \<or> c = CHR 0x27"

definition value_char :: "char \<Rightarrow> bool" where
  "value_char c \<longleftrightarrow> \<not> (is_quote c \<or> c = CHR '','' \<or> c = CHR ''}'' \<or> is_space c)"

definition optional_quote :: "string \<Rightarrow> string" where
  "optional_quote s = (case s of c # cs \<Rightarrow> if is_quote c then cs else s | [] \<Rightarrow> [])"

text \<open>The text after the key word and the separator, if they are there and a value follows.\<close>

definition after_separator :: "string \<Rightarrow> string option" where
  "after_separator s =
     (case dropWhile is_space (optional_quote s) of
        c # cs \<Rightarrow>
          if c = CHR '':'' \<or> c = CHR ''=''
          then let rest = optional_quote (dropWhile is_space cs)
               in (case rest of v # _ \<Rightarrow> if value_char v then Some rest else None | [] \<Rightarrow> None)
          else None
      | [] \<Rightarrow> None)"

definition secret_at :: "string \<Rightarrow> string option" where
  "secret_at s =
     (case find (\<lambda>w. take (length w) (toUpperCase s) = w) secret_words of
        None \<Rightarrow> None
      | Some w \<Rightarrow> after_separator (drop (length w) s))"

lemma optional_quote_length: "length (optional_quote s) \<le> length s"
  by (cases s) (auto simp: optional_quote_def)

lemma after_separator_length:
  assumes "after_separator s = Some rest"
  shows "length rest < length s"
proof -
  from assms obtain c cs where c: "dropWhile is_space (optional_quote s) = c # cs"
    and rest: "rest = optional_quote (dropWhile is_space cs)"
    by (auto simp: after_separator_def Let_def split: list.splits if_splits)
  have "length (c # cs) \<le> length s"
    using length_dropWhile_le [of is_space "optional_quote s"] optional_quote_length [of s] c by simp
  moreover have "length rest \<le> length cs"
    using optional_quote_length [of "dropWhile is_space cs"] length_dropWhile_le [of is_space cs] rest by simp
  ultimately show ?thesis by simp
qed

lemma secret_at_length: "secret_at s = Some rest \<Longrightarrow> length rest < length s"
  by (auto simp: secret_at_def dest!: after_separator_length split: option.splits)

function redact :: "string \<Rightarrow> string" where
  "redact [] = []"
| "redact (c # cs) =
     (case secret_at (c # cs) of
        None \<Rightarrow> c # redact cs
      | Some rest \<Rightarrow> take (length (c # cs) - length rest) (c # cs) @ ''[REDACTED]'' @ redact (dropWhile value_char rest))"
  by pat_completeness auto

termination
  by (relation "measure length")
     (auto dest!: secret_at_length intro: le_less_trans [OF length_dropWhile_le])

definition redactRuntimeLog :: "string \<Rightarrow> string" where
  "redactRuntimeLog message = take 4000 (redact message)"

definition scheduleRuntimeLogFlush :: "string \<Rightarrow> saas_worker \<Rightarrow> saas_worker" where
  "scheduleRuntimeLogFlush botId s =
     (if sw_runtimeLogTimers s botId then s else s\<lparr>sw_runtimeLogTimers := (sw_runtimeLogTimers s)(botId := True)\<rparr>)"

definition queueRuntimeLog :: "string \<Rightarrow> runtime_log \<Rightarrow> saas_worker \<Rightarrow> saas_worker" where
  "queueRuntimeLog botId m s =
     (let buffer = nullish (sw_runtimeLogBuffers s botId) [];
          room = (if length buffer \<ge> 1000 then tl buffer else buffer)
      in scheduleRuntimeLogFlush botId (s\<lparr>sw_runtimeLogBuffers := (sw_runtimeLogBuffers s)(botId \<mapsto> room @ [m])\<rparr>))"

text \<open>New rows get identifiers above all existing ones; the table admits no empty message.\<close>

fun log_rows :: "nat \<Rightarrow> bot_row \<Rightarrow> runtime_log list \<Rightarrow> log_row list" where
  "log_rows i b [] = []"
| "log_rows i b (m # ms) =
     \<lparr>lg_id = i, lg_organization_id = tb_organization_id b, lg_bot_id = tb_id b, lg_level = rm_level m,
      lg_message = redactRuntimeLog (rm_message m), lg_created_at = rm_occurredAt m\<rparr> # log_rows (Suc i) b ms"

definition next_log_id :: "log_row list \<Rightarrow> nat" where
  "next_log_id rows = fold (\<lambda>r n. max n (Suc (lg_id r))) rows 0"

definition insert_logs :: "string \<Rightarrow> runtime_log list \<Rightarrow> saas_db \<Rightarrow> js_error + unit \<times> saas_db" where
  "insert_logs botId entries db =
     (case find (\<lambda>b. tb_id b = botId) (sd_trading_bots db) of
        None \<Rightarrow> Inr ((), db)
      | Some b \<Rightarrow>
          if \<exists>m \<in> set entries. redactRuntimeLog (rm_message m) = [] then Inl (newError ''violates check constraint'')
          else Inr ((), db\<lparr>sd_bot_runtime_logs := sd_bot_runtime_logs db @
                           log_rows (next_log_id (sd_bot_runtime_logs db)) b entries\<rparr>))"

definition newer_log :: "log_row \<Rightarrow> log_row \<Rightarrow> bool" where
  "newer_log q r \<longleftrightarrow> lg_created_at q > lg_created_at r \<or> lg_created_at q = lg_created_at r \<and> lg_id q > lg_id r"

definition prune_logs :: "int \<Rightarrow> string \<Rightarrow> saas_db \<Rightarrow> saas_db" where
  "prune_logs now botId db =
     (let mine = filter (\<lambda>r. lg_bot_id r = botId) (sd_bot_runtime_logs db)
      in db\<lparr>sd_bot_runtime_logs := filter (\<lambda>r. lg_bot_id r \<noteq> botId \<or>
            \<not> (lg_created_at r < now - 604800000 \<or> length (filter (\<lambda>q. newer_log q r) mine) \<ge> 2000)) (sd_bot_runtime_logs db)\<rparr>)"

definition cleanup_logs :: "'x leader \<Rightarrow> string \<Rightarrow> unit run" where
  "cleanup_logs L botId =
     bindE (getsE (\<lambda>s. nullish (sw_runtimeLogCleanupAt s botId) 0 < ld_now L - 60000)) (\<lambda>expired.
       if expired
       then bindE (modifyE (\<lambda>s. s\<lparr>sw_runtimeLogCleanupAt := (sw_runtimeLogCleanupAt s)(botId \<mapsto> ld_now L)\<rparr>)) (\<lambda>_.
              updateE (prune_logs (ld_now L) botId))
       else ret ())"

definition flushRuntimeLogs :: "'x leader \<Rightarrow> string \<Rightarrow> unit run" where
  "flushRuntimeLogs L botId =
     bindE (getsE (\<lambda>s. take 100 (nullish (sw_runtimeLogBuffers s botId) []))) (\<lambda>entries.
     bindE (modifyE (\<lambda>s. s\<lparr>sw_runtimeLogTimers := (sw_runtimeLogTimers s)(botId := False),
              sw_runtimeLogBuffers := (sw_runtimeLogBuffers s)(botId := map_option (drop 100) (sw_runtimeLogBuffers s botId))\<rparr>)) (\<lambda>_.
       if entries = [] then ret ()
       else bindE (saasTransactionE (insert_logs botId entries)) (\<lambda>_.
            bindE (cleanup_logs L botId) (\<lambda>_.
            modifyE (\<lambda>s. if nullish (sw_runtimeLogBuffers s botId) [] \<noteq> [] then scheduleRuntimeLogFlush botId s else s)))))"

section \<open>Starting and failing\<close>

definition owned :: "'x leader \<Rightarrow> string \<Rightarrow> bot_row \<Rightarrow> bool" where
  "owned L botId b \<longleftrightarrow> tb_id b = botId \<and> tb_worker_instance_id b = Some (ld_instanceId L)"

definition failBot :: "'x leader \<Rightarrow> string \<Rightarrow> string \<Rightarrow> unit run" where
  "failBot L botId message =
     catchE (updateE (update_bots (owned L botId)
       (\<lambda>b. b\<lparr>tb_actual_state := FAILED, tb_worker_pid := None, tb_last_error := Some (take 1000 message)\<rparr>))) (\<lambda>_. ret ())"

text \<open>The process is forked, entered into the map and sent its configuration; its pid is its number.\<close>

definition fork_child :: "string \<Rightarrow> bool \<Rightarrow> config \<Rightarrow> nat run" where
  "fork_child botId sandbox config s =
     (let n = length (sw_children s)
      in (Inr n, s\<lparr>sw_children := sw_children s @ [\<lparr>ch_bot = botId, ch_exitCode = None, ch_connected = True, ch_sandbox = sandbox,
                     ch_listening = False, ch_sent = [SendStart config], ch_killed = False, ch_failure = None\<rparr>],
                   sw_processes := (sw_processes s)(botId \<mapsto> n)\<rparr>))"

definition mark_starting :: "'x leader \<Rightarrow> string \<Rightarrow> nat \<Rightarrow> unit run" where
  "mark_starting L botId n =
     updateE (update_bots (\<lambda>b. tb_id b = botId)
       (\<lambda>b. b\<lparr>tb_actual_state := STARTING, tb_worker_instance_id := Some (ld_instanceId L), tb_worker_pid := Some n,
               tb_last_error := None\<rparr>))"

text \<open>
  \<^verbatim>\<open>startBot\<close> after its first test. The listeners are attached after the last query, so a child whose query
  fails has none.
\<close>

definition startBot_rest :: "'x leader \<Rightarrow> string \<Rightarrow> unit run" where
  "startBot_rest L botId =
     bindE (loadBot botId) (\<lambda>bv.
     bindE (liftE (legacyConfig L bv)) (\<lambda>config.
     bindE (throw_if (ld_mkdir L botId)) (\<lambda>_.
     bindE (throw_if (ld_writeFile L botId)) (\<lambda>_.
     bindE (registerSqliteDatabase botId) (\<lambda>_.
     bindE (fork_child botId (bv_sandbox bv) config) (\<lambda>n.
     bindE (mark_starting L botId n) (\<lambda>_.
     modifyE (update_child n (\<lambda>c. c\<lparr>ch_listening := True\<rparr>)))))))))"

definition startBot :: "'x leader \<Rightarrow> string \<Rightarrow> unit run" where
  "startBot L botId = bindE (getsE (runs botId)) (\<lambda>running. if running then ret () else startBot_rest L botId)"

definition error_text :: "js_error \<Rightarrow> string" where
  "error_text e = (case e of JsError name code message \<Rightarrow> message | NonError \<Rightarrow> ''undefined'')"

text \<open>\<open>String(error)\<close>.\<close>

definition error_string :: "js_error \<Rightarrow> string" where
  "error_string e = (case e of JsError name code message \<Rightarrow> name @ '': '' @ message | NonError \<Rightarrow> ''undefined'')"

definition startBot_or_fail :: "'x leader \<Rightarrow> string \<Rightarrow> unit run" where
  "startBot_or_fail L botId = catchE (startBot L botId) (\<lambda>e. failBot L botId (error_string e))"

section \<open>What a child reports\<close>

datatype child_report = Started | Failed "string option" | OrderUpdate order_update | RuntimeLog runtime_log

definition on_child_message :: "'x leader \<Rightarrow> nat \<Rightarrow> child_report \<Rightarrow> unit run" where
  "on_child_message L n m s =
     (let botId = ch_bot (sw_children s ! n)
      in if \<not> ch_listening (sw_children s ! n) then (Inr (), s)
         else case m of
           Started \<Rightarrow>
             bindE (modifyE (\<lambda>s. s\<lparr>sw_restartResetTimers := (sw_restartResetTimers s)(botId \<mapsto> n)\<rparr>)) (\<lambda>_.
               updateE (update_bots (owned L botId) (\<lambda>b. b\<lparr>tb_actual_state := RUNNING\<rparr>))) s
         | Failed message \<Rightarrow>
             (let failure = nullish message ''Trading process failed.''
              in bindE (modifyE (update_child n (\<lambda>c. c\<lparr>ch_failure := Some failure\<rparr>))) (\<lambda>_. failBot L botId failure) s)
         | OrderUpdate u \<Rightarrow> (Inr (), queueOrderUpdate botId u s)
         | RuntimeLog l \<Rightarrow> (Inr (), queueRuntimeLog botId l s))"

text \<open>The timer of 60 seconds that forgives earlier restarts.\<close>

definition reset_timer_fires :: "string \<Rightarrow> saas_worker \<Rightarrow> saas_worker" where
  "reset_timer_fires botId s =
     (case sw_restartResetTimers s botId of
        None \<Rightarrow> s
      | Some n \<Rightarrow>
          (let s1 = (if sw_processes s botId = Some n \<and> ch_exitCode (sw_children s ! n) = None
                     then s\<lparr>sw_restartAttempts := (sw_restartAttempts s)(botId := None)\<rparr> else s)
           in s1\<lparr>sw_restartResetTimers := (sw_restartResetTimers s1)(botId := None)\<rparr>))"

definition scheduleRestart :: "string \<Rightarrow> saas_worker \<Rightarrow> saas_worker" where
  "scheduleRestart botId s =
     (let attempt = nullish (sw_restartAttempts s botId) 0 + 1;
          s1 = s\<lparr>sw_restartAttempts := (sw_restartAttempts s)(botId \<mapsto> attempt)\<rparr>
      in if attempt > 3 then s1
         else s1\<lparr>sw_restartTimers := sw_restartTimers s1 @ [(botId, 1000 * 2 ^ (attempt - 1))]\<rparr>)"

text \<open>A restart timer fires; a failing query counts as no answer.\<close>

definition restart_timer_fires :: "'x leader \<Rightarrow> string \<times> nat \<Rightarrow> unit run" where
  "restart_timer_fires L timer =
     (let botId = fst timer
      in bindE (modifyE (\<lambda>s. s\<lparr>sw_restartTimers := remove1 timer (sw_restartTimers s)\<rparr>)) (\<lambda>_.
         bindE (catchE (saasQueryE (\<lambda>db. (map_option tb_desired_state (find (\<lambda>b. tb_id b = botId) (sd_trading_bots db)), db)))
                  (\<lambda>_. ret None)) (\<lambda>desired.
         bindE (getsE sw_stopping) (\<lambda>stopping.
           if \<not> stopping \<and> desired = Some DesiredRunning then startBot_or_fail L botId else ret ()))))"

text \<open>\<open>code\<close> is None if a signal ended the child, and \<open>describe\<close> prints code and signal.\<close>

definition on_child_exit :: "'x leader \<Rightarrow> (int option \<Rightarrow> string) \<Rightarrow> nat \<Rightarrow> int option \<Rightarrow> unit run" where
  "on_child_exit L describe n code s =
     (let s1 = update_child n (\<lambda>c. c\<lparr>ch_exitCode := code, ch_connected := False\<rparr>) s;
          botId = ch_bot (sw_children s ! n)
      in if \<not> ch_listening (sw_children s ! n) \<or> sw_processes s1 botId \<noteq> Some n then (Inr (), s1)
         else let s2 = s1\<lparr>sw_processes := (sw_processes s1)(botId := None),
                          sw_restartResetTimers := (sw_restartResetTimers s1)(botId := None)\<rparr>
              in if sw_stopping s2 then (Inr (), s2)
                 else bindE (failBot L botId (nullish (ch_failure (sw_children s ! n)) (describe code))) (\<lambda>_.
                        modifyE (scheduleRestart botId)) s2)"

section \<open>Stopping\<close>

definition send_child :: "nat \<Rightarrow> child_message \<Rightarrow> unit run" where
  "send_child n m = modifyE (update_child n (\<lambda>c. c\<lparr>ch_sent := ch_sent c @ [m]\<rparr>))"

text \<open>
  Waiting for a child to end: the result says whether it exited with code 0. A child that is still running
  after the timeout gets a signal (SIGTERM from a stop, SIGKILL from a suspension).
\<close>

definition await_child :: "'x leader \<Rightarrow> nat \<Rightarrow> bool run" where
  "await_child L n =
     (case ld_end L n of
        Exits code \<Rightarrow> bindE (modifyE (update_child n (\<lambda>c. c\<lparr>ch_exitCode := Some code, ch_connected := False\<rparr>))) (\<lambda>_. ret (code = 0))
      | Killed \<Rightarrow> bindE (modifyE (update_child n (\<lambda>c. c\<lparr>ch_connected := False\<rparr>))) (\<lambda>_. ret False)
      | StillRunning \<Rightarrow> bindE (modifyE (update_child n (\<lambda>c. c\<lparr>ch_killed := True\<rparr>))) (\<lambda>_. ret False))"

definition forget_bot :: "string \<Rightarrow> saas_worker \<Rightarrow> saas_worker" where
  "forget_bot botId s =
     s\<lparr>sw_processes := (sw_processes s)(botId := None), sw_restartAttempts := (sw_restartAttempts s)(botId := None),
       sw_restartResetTimers := (sw_restartResetTimers s)(botId := None)\<rparr>"

definition stop_failure :: "bool \<Rightarrow> string" where
  "stop_failure closePosition =
     (if closePosition then ''Trading process did not close its filled position cleanly during emergency stop.''
      else ''Trading process did not suspend cleanly.'')"

definition stopBot :: "'x leader \<Rightarrow> string \<Rightarrow> bool \<Rightarrow> unit run" where
  "stopBot L botId closePosition =
     bindE (getsE (\<lambda>s. (sw_processes s botId, runs botId s))) (\<lambda>(child, running).
     bindE (modifyE (forget_bot botId)) (\<lambda>_.
     bindE (if running
            then bindE (send_child (the child) (if closePosition then SendStop else SendSuspend)) (\<lambda>_. await_child L (the child))
            else ret True) (\<lambda>stoppedCleanly.
       if \<not> stoppedCleanly
       then bindE (flushRuntimeLogs L botId) (\<lambda>_.
            bindE (failBot L botId (stop_failure closePosition)) (\<lambda>_.
            throwE (newError (stop_failure closePosition))))
       else bindE (flushRuntimeLogs L botId) (\<lambda>_.
            updateE (update_bots (\<lambda>b. tb_id b = botId)
              (\<lambda>b. b\<lparr>tb_actual_state := STOPPED, tb_worker_instance_id := None, tb_worker_pid := None, tb_last_error := None\<rparr>))))))"

definition suspendBot :: "'x leader \<Rightarrow> string \<Rightarrow> unit run" where
  "suspendBot L botId =
     bindE (getsE (\<lambda>s. (sw_processes s botId, runs botId s))) (\<lambda>(child, running).
     bindE (modifyE (\<lambda>s. s\<lparr>sw_processes := (sw_processes s)(botId := None)\<rparr>)) (\<lambda>_.
     bindE (if running
            then bindE (getsE (\<lambda>s. ch_connected (sw_children s ! the child))) (\<lambda>connected.
                 bindE (if connected then send_child (the child) SendSuspend else ret ()) (\<lambda>_.
                 bindE (await_child L (the child)) (\<lambda>_. ret ())))
            else ret ()) (\<lambda>_.
     bindE (flushRuntimeLogs L botId) (\<lambda>_.
       updateE (update_bots (\<lambda>b. tb_id b = botId \<and> tb_desired_state b = DesiredRunning)
         (\<lambda>b. b\<lparr>tb_actual_state := STARTING, tb_worker_instance_id := None, tb_worker_pid := None, tb_last_error := None\<rparr>))))))"

text \<open>The rows of a bot; commands and log lines go with it by \<^verbatim>\<open>ON DELETE CASCADE\<close>.\<close>

definition delete_rows :: "string \<Rightarrow> saas_db \<Rightarrow> saas_db" where
  "delete_rows botId db =
     db\<lparr>sd_bot_sqlite_databases := update_where (\<lambda>r. sq_bot_id r = botId \<and> \<not> sq_is_delete r)
          (\<lambda>r. r\<lparr>sq_is_delete := True\<rparr>) (sd_bot_sqlite_databases db),
        sd_orders := filter (\<lambda>r. so_bot_id r \<noteq> botId) (sd_orders db),
        sd_trading_sessions := filter (\<lambda>r. r \<noteq> botId) (sd_trading_sessions db),
        sd_trading_bots := filter (\<lambda>b. tb_id b \<noteq> botId) (sd_trading_bots db),
        sd_bot_commands := filter (\<lambda>c. cm_bot_id c \<noteq> botId) (sd_bot_commands db),
        sd_bot_runtime_logs := filter (\<lambda>r. lg_bot_id r \<noteq> botId) (sd_bot_runtime_logs db)\<rparr>"

definition has_code :: "string \<Rightarrow> js_error \<Rightarrow> bool" where
  "has_code code e = (case e of JsError _ c _ \<Rightarrow> c = Some code | NonError \<Rightarrow> False)"

text \<open>Moving the data directory aside; True if there was one.\<close>

definition stage_data :: "'x leader \<Rightarrow> string \<Rightarrow> bool run" where
  "stage_data L botId =
     (case ld_rename L botId of
        None \<Rightarrow> bindE (modifyE (\<lambda>s. s\<lparr>sw_databases := (sw_databases s)(botId := False)\<rparr>)) (\<lambda>_. ret True)
      | Some e \<Rightarrow> if has_code ''ENOENT'' e then ret False else throwE e)"

definition deleteBot :: "'x leader \<Rightarrow> string \<Rightarrow> unit run" where
  "deleteBot L botId =
     bindE (getsE (runs botId)) (\<lambda>running.
     bindE (if running then stopBot L botId False else ret ()) (\<lambda>_.
     bindE (drainOrderWrites botId) (\<lambda>_.
     bindE (flushRuntimeLogs L botId) (\<lambda>_.
     bindE (getsE (\<lambda>s. sw_databases s botId)) (\<lambda>databaseExists.
     bindE (if databaseExists then registerSqliteDatabase botId else ret ()) (\<lambda>_.
     bindE (stage_data L botId) (\<lambda>staged.
       catchE (updateE (delete_rows botId)) (\<lambda>e.
         bindE (if staged then modifyE (\<lambda>s. s\<lparr>sw_databases := (sw_databases s)(botId := databaseExists)\<rparr>) else ret ()) (\<lambda>_.
           throwE e)))))))))"

section \<open>Commands\<close>

definition claimCommand :: "command_row option run" where
  "claimCommand =
     saasQueryE (\<lambda>db.
       case find (\<lambda>c. cm_status c = PENDING) (sd_bot_commands db) of
         None \<Rightarrow> (None, db)
       | Some c \<Rightarrow> (Some c, update_command (cm_id c) (\<lambda>r. r\<lparr>cm_status := PROCESSING\<rparr>) db))"

definition run_command :: "'x leader \<Rightarrow> command_row \<Rightarrow> unit run" where
  "run_command L c =
     (case cm_command c of
        DELETE \<Rightarrow> deleteBot L (cm_bot_id c)
      | STOP \<Rightarrow> stopBot L (cm_bot_id c) False
      | EMERGENCY_STOP \<Rightarrow> stopBot L (cm_bot_id c) True
      | RESTART \<Rightarrow> bindE (stopBot L (cm_bot_id c) False) (\<lambda>_. startBot L (cm_bot_id c))
      | START \<Rightarrow> startBot L (cm_bot_id c))"

definition handleCommand :: "'x leader \<Rightarrow> command_row \<Rightarrow> unit run" where
  "handleCommand L c =
     (let isStopping = (cm_command c \<in> {STOP, EMERGENCY_STOP, DELETE});
          desired = (if isStopping then DesiredStopped else DesiredRunning)
      in catchE
           (bindE (updateE (update_bots (\<lambda>b. tb_id b = cm_bot_id c) (\<lambda>b. b\<lparr>tb_desired_state := desired\<rparr>))) (\<lambda>_.
            bindE (run_command L c) (\<lambda>_.
            updateE (update_command (cm_id c) (\<lambda>r. r\<lparr>cm_status := SUCCEEDED\<rparr>)))))
           (\<lambda>e. bindE (updateE (update_command (cm_id c)
                    (\<lambda>r. r\<lparr>cm_status := COMMAND_FAILED, cm_error := Some (take 1000 (error_text e))\<rparr>))) (\<lambda>_.
                  failBot L (cm_bot_id c) (error_text e))))"

section \<open>The leader\<close>

definition reconcile_stopped :: "saas_db \<Rightarrow> saas_db" where
  "reconcile_stopped =
     update_bots (\<lambda>b. tb_desired_state b = DesiredStopped \<and>
          (tb_actual_state b \<noteq> STOPPED \<or> tb_worker_instance_id b \<noteq> None \<or> tb_worker_pid b \<noteq> None \<or> tb_last_error b \<noteq> None))
       (\<lambda>b. b\<lparr>tb_actual_state := STOPPED, tb_worker_instance_id := None, tb_worker_pid := None, tb_last_error := None\<rparr>)"

definition reconcileBots :: "'x leader \<Rightarrow> unit run" where
  "reconcileBots L =
     bindE (updateE reconcile_stopped) (\<lambda>_.
     bindE (saasQueryE (\<lambda>db. (map tb_id (filter (\<lambda>b. tb_desired_state b = DesiredRunning) (sd_trading_bots db)), db))) (\<lambda>ids.
       forE ids (\<lambda>botId. bindE (getsE (\<lambda>s. sw_processes s botId)) (\<lambda>p.
         if p = None then startBot_or_fail L botId else ret ()))))"

definition bots_with_process :: "saas_worker \<Rightarrow> string list" where
  "bots_with_process s =
     remdups (map (\<lambda>n. ch_bot (sw_children s ! n))
       (filter (\<lambda>n. sw_processes s (ch_bot (sw_children s ! n)) = Some n) [0..<length (sw_children s)]))"

text \<open>One turn of the loop; the heartbeat only writes a timestamp, but its query may fail.\<close>

definition leader_step :: "'x leader \<Rightarrow> unit run" where
  "leader_step L =
     bindE claimCommand (\<lambda>command.
     bindE (case command of None \<Rightarrow> ret () | Some c \<Rightarrow> handleCommand L c) (\<lambda>_.
     bindE (getsE bots_with_process) (\<lambda>bots. if bots \<noteq> [] then updateE (\<lambda>db. db) else ret ())))"

text \<open>The beginning of \<^verbatim>\<open>runLeader\<close>.\<close>

definition leader_start :: "'x leader \<Rightarrow> (string \<times> bool) list \<Rightarrow> unit run" where
  "leader_start L entries = bindE (registerExistingSqliteDatabases entries) (\<lambda>_. reconcileBots L)"

text \<open>\<open>Promise.all\<close>: every element runs, the first error is the result.\<close>

fun allE :: "('b \<Rightarrow> unit run) \<Rightarrow> 'b list \<Rightarrow> unit run" where
  "allE f [] = ret ()"
| "allE f (x # xs) =
     (\<lambda>s. case f x s of
            (Inl e, t) \<Rightarrow> (Inl e, snd (allE f xs t))
          | (Inr _, t) \<Rightarrow> allE f xs t)"

text \<open>What \<^verbatim>\<open>runLeader\<close> does after its loop; \<open>bots\<close> are the keys of \<^verbatim>\<open>orderWrites\<close> and \<^verbatim>\<open>runtimeLogBuffers\<close>.\<close>

definition shutdown :: "'x leader \<Rightarrow> string list \<Rightarrow> unit run" where
  "shutdown L bots =
     bindE (getsE bots_with_process) (\<lambda>running.
     bindE (allE (suspendBot L) running) (\<lambda>_.
     bindE (allE drainOrderWrites bots) (\<lambda>_.
       allE (flushRuntimeLogs L) bots)))"

end
