(* ===== verification/Worker_Frame.thy ===== *)
theory Worker_Frame
  imports Saas_Worker
begin

text \<open>
  What the functions of the leader (\<^verbatim>\<open>src/saas/worker.ts\<close>) leave alone. The locale \<open>worker_frame\<close> assumes of a
  predicate that the atomic steps keep it (a query that does not touch the commands, the deletion of one
  bot, the bookkeeping of the module's maps, a message other than \<^verbatim>\<open>stop\<close> to a child, a fork), and shows that
  every function keeps it; \<open>message_frame\<close> adds the messages. They are interpreted for three observations: the
  \<^verbatim>\<open>stop\<close> messages sent, the commands of other bots, and the absence of database faults.
\<close>

section \<open>Queries\<close>

lemma saasTransactionE_cases:
  assumes "saasTransactionE f s = (r, t)"
  obtains (fault) e fs where "sw_faults s = Some e # fs" and "r = Inl e" and "t = s\<lparr>sw_faults := fs\<rparr>"
    | (refused) e where "f (sw_db s) = Inl e" and "r = Inl e" and "t = s\<lparr>sw_faults := tl (sw_faults s)\<rparr>"
        and "\<And>e fs. sw_faults s \<noteq> Some e # fs"
    | (finished) x db where "f (sw_db s) = Inr (x, db)" and "r = Inr x" and "t = s\<lparr>sw_faults := tl (sw_faults s), sw_db := db\<rparr>"
        and "\<And>e fs. sw_faults s \<noteq> Some e # fs"
  using assms
  by (auto simp: saasTransactionE_def saasTransaction_def split: list.splits option.splits sum.splits prod.splits)

lemma updateE_cases:
  assumes "updateE f s = (r, t)"
  obtains (fault) e fs where "sw_faults s = Some e # fs" and "r = Inl e" and "t = s\<lparr>sw_faults := fs\<rparr>"
    | (finished) "r = Inr ()" and "t = s\<lparr>sw_faults := tl (sw_faults s), sw_db := f (sw_db s)\<rparr>"
        and "\<And>e fs. sw_faults s \<noteq> Some e # fs"
  using assms unfolding updateE_def saasQueryE_def by (cases rule: saasTransactionE_cases) auto

lemma updateE_faultless [simp]: "sw_faults s = [] \<Longrightarrow> updateE f s = (Inr (), s\<lparr>sw_db := f (sw_db s)\<rparr>)"
  by (simp add: updateE_def saasQueryE_def saasTransactionE_def saasTransaction_def)

definition commands :: "saas_worker \<Rightarrow> command_row list" where
  "commands s = sd_bot_commands (sw_db s)"

section \<open>Frames\<close>

locale worker_frame =
  fixes P :: "saas_worker \<Rightarrow> bool" and subject :: string
  assumes query: "P s \<Longrightarrow> sd_bot_commands db = commands s \<Longrightarrow> P (s\<lparr>sw_faults := tl (sw_faults s), sw_db := db\<rparr>)"
    and deletion: "P s \<Longrightarrow> P (s\<lparr>sw_faults := tl (sw_faults s), sw_db := delete_rows subject (sw_db s)\<rparr>)"
    and bookkeeping: "P s \<Longrightarrow> P (s\<lparr>sw_processes := a\<rparr>)" "P s \<Longrightarrow> P (s\<lparr>sw_restartAttempts := a\<rparr>)"
      "P s \<Longrightarrow> P (s\<lparr>sw_restartResetTimers := a\<rparr>)" "P s \<Longrightarrow> P (s\<lparr>sw_restartTimers := b\<rparr>)"
      "P s \<Longrightarrow> P (s\<lparr>sw_orderWrites := c\<rparr>)" "P s \<Longrightarrow> P (s\<lparr>sw_runtimeLogBuffers := d\<rparr>)"
      "P s \<Longrightarrow> P (s\<lparr>sw_runtimeLogTimers := e\<rparr>)" "P s \<Longrightarrow> P (s\<lparr>sw_runtimeLogCleanupAt := g\<rparr>)"
      "P s \<Longrightarrow> P (s\<lparr>sw_databases := e\<rparr>)"
    and children: "P s \<Longrightarrow> (\<And>c. ch_sent (f c) = ch_sent c \<or> ch_sent (f c) = ch_sent c @ [SendSuspend]) \<Longrightarrow> P (update_child n f s)"
    and forked: "P s \<Longrightarrow> ch_sent c' = [SendStart config] \<Longrightarrow> P (s\<lparr>sw_children := sw_children s @ [c']\<rparr>)"
begin

lemma frame_transaction:
  assumes "\<And>db x db'. f db = Inr (x, db') \<Longrightarrow> sd_bot_commands db' = sd_bot_commands db"
  shows "keeps P (saasTransactionE f)"
proof (rule keepsI)
  fix s r t assume "P s" and run: "saasTransactionE f s = (r, t)"
  have faults: "P (s\<lparr>sw_faults := tl (sw_faults s)\<rparr>)"
    using query [OF \<open>P s\<close>, of "sw_db s"] by (simp add: commands_def)
  from run show "P t"
    by (cases rule: saasTransactionE_cases) (use faults \<open>P s\<close> query assms in \<open>auto simp: commands_def\<close>)
qed

lemma frame_update: "(\<And>db. sd_bot_commands (f db) = sd_bot_commands db) \<Longrightarrow> keeps P (updateE f)"
  unfolding updateE_def saasQueryE_def by (rule frame_transaction) auto

lemma frame_query: "(\<And>db. sd_bot_commands (snd (f db)) = sd_bot_commands db) \<Longrightarrow> keeps P (saasQueryE f)"
  unfolding saasQueryE_def by (rule frame_transaction) (metis snd_conv sum.inject(2))

lemma frame_bots: "keeps P (updateE (update_bots p f))"
  by (rule frame_update) (simp add: update_bots_def)

lemmas frame_rules = keeps_rules frame_bots

lemma frame_fail: "keeps P (failBot L botId message)"
  unfolding failBot_def by (intro frame_rules)

lemma frame_register: "keeps P (registerSqliteDatabase botId)"
  unfolding registerSqliteDatabase_def by (rule frame_update) (simp split: option.split)

lemma frame_throw_if: "keeps P (throw_if e)"
  unfolding throw_if_def by (intro frame_rules)

lemma frame_load: "keeps P (loadBot botId)"
  unfolding loadBot_def by (intro frame_rules frame_query) simp

lemma frame_fork: "keeps P (fork_child botId sandbox config)"
proof (rule keepsI)
  fix s r t assume "P s" and run: "fork_child botId sandbox config s = (r, t)"
  let ?c = "\<lparr>ch_bot = botId, ch_exitCode = None, ch_connected = True, ch_sandbox = sandbox,
      ch_listening = False, ch_sent = [SendStart config], ch_killed = False, ch_failure = None\<rparr>"
  have "P (s\<lparr>sw_children := sw_children s @ [?c]\<rparr>)"
    using \<open>P s\<close> by (rule forked) simp
  from bookkeeping(1) [OF this, of "(sw_processes s)(botId \<mapsto> length (sw_children s))"] run show "P t"
    by (auto simp: fork_child_def Let_def)
qed

lemma frame_child: "(\<And>c. ch_sent (f c) = ch_sent c) \<Longrightarrow> keeps P (modifyE (update_child n f))"
  using children by (intro keeps_modify) simp

lemma frame_startBot: "keeps P (startBot L botId)" "keeps P (startBot_or_fail L botId)"
proof -
  show start: "keeps P (startBot L botId)"
    unfolding startBot_def startBot_rest_def mark_starting_def
    by (intro frame_rules frame_load frame_throw_if frame_register frame_fork frame_child) simp
  then show "keeps P (startBot_or_fail L botId)"
    unfolding startBot_or_fail_def by (intro frame_rules frame_fail)
qed

lemma frame_logs: "keeps P (flushRuntimeLogs L botId)"
proof -
  have "keeps P (saasTransactionE (insert_logs botId entries))" for entries
    by (rule frame_transaction) (auto simp: insert_logs_def split: option.splits if_splits)
  moreover have "keeps P (updateE (prune_logs now botId))" for now
    by (rule frame_update) (simp add: prune_logs_def Let_def)
  ultimately show ?thesis
    unfolding flushRuntimeLogs_def cleanup_logs_def
    by (intro frame_rules keeps_modify) (auto simp: scheduleRuntimeLogFlush_def intro: bookkeeping)
qed

lemma frame_order_write: "keeps P (order_write botId)"
proof -
  have persist: "keeps P (persistOrderUpdate botId u)" for u
    unfolding persistOrderUpdate_def
    by (cases "u_quantity u")
       (auto intro!: keeps_basic frame_transaction split: option.splits if_splits)
  have "keeps P (bindE (catchE (persistOrderUpdate botId u) (\<lambda>_. ret ())) (\<lambda>_.
      modifyE (\<lambda>s. s\<lparr>sw_orderWrites := (sw_orderWrites s)(botId := w)\<rparr>)))" for u w
    by (intro frame_rules keeps_modify persist) (rule bookkeeping)
  then show ?thesis
    unfolding keeps_def order_write_def by (auto split: option.split list.split)
qed

lemma frame_drain: "keeps P (drainOrderWrites botId)"
proof (rule keepsI)
  fix s r t assume "P s" "drainOrderWrites botId s = (r, t)"
  then show "P t"
    unfolding drainOrderWrites_def by (rule keepsD [OF keeps_for [OF frame_order_write]])
qed

lemma frame_await: "keeps P (await_child L n)"
  unfolding await_child_def
  by (cases "ld_end L n") (auto intro!: keeps_bind keeps_basic frame_child)

lemma frame_suspend_message: "keeps P (send_child n SendSuspend)"
  unfolding send_child_def by (rule keeps_modify) (auto intro: children)

lemma frame_forget: "P s \<Longrightarrow> P (forget_bot botId s)"
  unfolding forget_bot_def by (intro bookkeeping)

lemma keeps_prod: "(\<And>x y. keeps P (f x y)) \<Longrightarrow> keeps P (case z of (x, y) \<Rightarrow> f x y)"
  by (cases z) simp

lemma frame_stopBot: "keeps P (stopBot L botId False)"
  unfolding stopBot_def if_False
  by (intro frame_rules keeps_prod frame_logs frame_fail frame_await frame_suspend_message keeps_modify) (rule frame_forget)

lemma frame_suspendBot: "keeps P (suspendBot L botId)"
  unfolding suspendBot_def
  by (intro frame_rules keeps_prod frame_logs frame_await frame_suspend_message keeps_modify) (rule bookkeeping)

lemma frame_deleteBot: "keeps P (deleteBot L subject)"
proof -
  have delete: "keeps P (updateE (delete_rows subject))"
  proof (rule keepsI)
    fix s r t assume "P s" and run: "updateE (delete_rows subject) s = (r, t)"
    have "P (s\<lparr>sw_faults := tl (sw_faults s)\<rparr>)"
      using query [OF \<open>P s\<close>, of "sw_db s"] by (simp add: commands_def)
    with run deletion [OF \<open>P s\<close>] show "P t" by (cases rule: updateE_cases) auto
  qed
  show ?thesis
    unfolding deleteBot_def stage_data_def
    by (intro frame_rules frame_stopBot frame_drain frame_logs frame_register delete keeps_modify)
       (auto intro: bookkeeping)
qed

lemma frame_command:
  assumes "cm_bot_id c = subject" and "cm_command c \<noteq> EMERGENCY_STOP"
  shows "keeps P (run_command L c)"
  using assms frame_deleteBot frame_stopBot frame_startBot keeps_bind [OF frame_stopBot frame_startBot(1)]
  by (cases "cm_command c") (auto simp: run_command_def)

lemma frame_all: "(\<And>x. keeps P (f x)) \<Longrightarrow> keeps P (allE f xs)"
proof (induction xs)
  case (Cons x xs)
  then show ?case
    unfolding keeps_def allE.simps by (auto split: prod.split sum.split) (metis snd_conv)+
qed (simp add: keeps_basic)

lemma frame_shutdown: "keeps P (shutdown L bots)"
  unfolding shutdown_def
  by (intro frame_rules frame_all frame_suspendBot frame_drain frame_logs)

lemma frame_leader_start: "keeps P (leader_start L entries)"
  unfolding leader_start_def registerExistingSqliteDatabases_def reconcileBots_def reconcile_stopped_def
  by (intro frame_rules keeps_prod frame_register frame_query frame_startBot) simp

lemma frame_restart: "keeps P (restart_timer_fires L timer)"
  unfolding restart_timer_fires_def Let_def
  by (intro frame_rules frame_query frame_startBot keeps_modify) (auto intro: bookkeeping)

lemma frame_exit: "keeps P (on_child_exit L describe n code)"
proof (rule keepsI)
  fix s r t assume "P s" and run: "on_child_exit L describe n code s = (r, t)"
  let ?s1 = "update_child n (\<lambda>c. c\<lparr>ch_exitCode := code, ch_connected := False\<rparr>) s"
  let ?s2 = "?s1\<lparr>sw_processes := (sw_processes ?s1)(ch_bot (sw_children s ! n) := None),
      sw_restartResetTimers := (sw_restartResetTimers ?s1)(ch_bot (sw_children s ! n) := None)\<rparr>"
  have "P ?s1" using \<open>P s\<close> by (rule children) simp
  then have "P ?s2" by (intro bookkeeping)
  have "P (scheduleRestart b u)" if "P u" for b u
    using that by (auto simp: scheduleRestart_def Let_def intro: bookkeeping)
  then have "keeps P (bindE (failBot L b m) (\<lambda>_. modifyE (scheduleRestart b)))" for b m
    by (intro frame_rules frame_fail keeps_modify)
  with \<open>P ?s1\<close> \<open>P ?s2\<close> run show "P t"
    unfolding on_child_exit_def Let_def by (auto split: if_splits dest: keepsD)
qed

lemma frame_message: "keeps P (on_child_message L n m)"
proof (rule keepsI)
  fix s r t assume "P s" and run: "on_child_message L n m s = (r, t)"
  have started: "keeps P (bindE (modifyE (\<lambda>s. s\<lparr>sw_restartResetTimers := (sw_restartResetTimers s)(b \<mapsto> n)\<rparr>)) (\<lambda>_.
      updateE (update_bots p f)))" for b p f
    by (intro frame_rules keeps_modify) (rule bookkeeping)
  have failed: "keeps P (bindE (modifyE (update_child n (\<lambda>c. c\<lparr>ch_failure := Some x\<rparr>))) (\<lambda>_. failBot L b y))" for x b y
    by (intro frame_rules frame_child frame_fail) simp
  show "P t"
  proof (cases m)
    case Started
    with \<open>P s\<close> run keepsD [OF started] show ?thesis by (auto simp: on_child_message_def Let_def split: if_splits)
  next
    case (Failed message)
    with \<open>P s\<close> run keepsD [OF failed] show ?thesis by (auto simp: on_child_message_def Let_def split: if_splits)
  qed (use \<open>P s\<close> run in \<open>auto simp: on_child_message_def Let_def queueOrderUpdate_def queueRuntimeLog_def
        scheduleRuntimeLogFlush_def intro: bookkeeping split: if_splits\<close>)
qed

end

text \<open>Observations that no message to a child changes.\<close>

locale message_frame = worker_frame +
  assumes messages: "P s \<Longrightarrow> P (update_child n (\<lambda>c. c\<lparr>ch_sent := ch_sent c @ [m]\<rparr>) s)"
begin

lemma frame_any_stop: "keeps P (stopBot L botId closePosition)"
proof -
  have send: "keeps P (send_child n m)" for n m
    unfolding send_child_def by (rule keeps_modify) (rule messages)
  show ?thesis
    unfolding stopBot_def
    by (intro frame_rules keeps_prod frame_logs frame_fail frame_await send keeps_modify) (rule frame_forget)
qed

lemma frame_any_command: "cm_bot_id c = subject \<Longrightarrow> keeps P (run_command L c)"
  using frame_command [of c L] frame_any_stop by (cases "cm_command c") (auto simp: run_command_def)

end

subsection \<open>Messages that make a child trade\<close>

definition stop_messages :: "saas_worker \<Rightarrow> nat" where
  "stop_messages s = sum_list (map (\<lambda>c. count_list (ch_sent c) SendStop) (sw_children s))"

lemma map_list_update_same: "(\<And>x. h (f x) = h x) \<Longrightarrow> map h (xs[n := f (xs ! n)]) = map h xs"
  by (cases "n < length xs") (auto intro!: nth_equalityI simp: nth_list_update)

lemma stop_messages_update:
  assumes "\<And>c. ch_sent (f c) = ch_sent c \<or> ch_sent (f c) = ch_sent c @ [SendSuspend]"
  shows "stop_messages (update_child n f s) = stop_messages s"
proof -
  have "count_list (ch_sent (f c)) SendStop = count_list (ch_sent c) SendStop" for c
    using assms [of c] by auto
  then show ?thesis
    by (simp add: stop_messages_def update_child_def map_list_update_same)
qed

interpretation no_stop: worker_frame "\<lambda>s. stop_messages s = k" subject for k subject
proof
  fix s :: saas_worker and f :: "child \<Rightarrow> child" and n
  assume "stop_messages s = k" "\<And>c. ch_sent (f c) = ch_sent c \<or> ch_sent (f c) = ch_sent c @ [SendSuspend]"
  then show "stop_messages (update_child n f s) = k" using stop_messages_update [of f n s] by simp
qed (simp_all add: stop_messages_def)

lemma no_stop_update: "keeps (\<lambda>s. stop_messages s = k) (updateE f)"
proof (rule keepsI)
  fix s r t assume "stop_messages s = k" "updateE f s = (r, t)"
  then show "stop_messages t = k" by (auto simp: stop_messages_def elim!: updateE_cases)
qed

subsection \<open>Commands of others\<close>

definition commands_of_others :: "string \<Rightarrow> string \<Rightarrow> saas_worker \<Rightarrow> command_row list" where
  "commands_of_others commandId botId s = filter (\<lambda>r. cm_bot_id r \<noteq> botId \<and> cm_id r \<noteq> commandId) (commands s)"

interpretation others: message_frame "\<lambda>s. commands_of_others commandId subject s = cs" subject for commandId subject cs
  by unfold_locales
     (auto simp: commands_of_others_def commands_def update_child_def delete_rows_def conj_commute cong: filter_cong)

subsection \<open>Absence of faults\<close>

interpretation faultless: message_frame "\<lambda>s. sw_faults s = []" subject for subject
  by unfold_locales (auto simp: update_child_def)

end
