(* ===== verification/Bot_Supervision.thy ===== *)
theory Bot_Supervision
  imports Worker_Frame
begin

text \<open>
  What the leader of \<^verbatim>\<open>src/saas/worker.ts\<close> guarantees: commands are settled, only the emergency stop makes a
  child trade, log buffers and restarts are bounded, order updates are stored once; and what it does not
  guarantee: a bot that fails to start can be left in the state STARTING, and two starts that overlap fork
  two processes.
\<close>

section \<open>Commands\<close>

definition settled :: "string \<Rightarrow> saas_worker \<Rightarrow> bool" where
  "settled commandId s \<longleftrightarrow> (\<forall>r \<in> set (commands s). cm_id r = commandId \<longrightarrow> cm_status r \<in> {SUCCEEDED, COMMAND_FAILED})"

lemma update_command_settles:
  assumes "\<And>r. cm_id (f r) = cm_id r \<and> cm_status (f r) \<in> {SUCCEEDED, COMMAND_FAILED}"
    and "updateE (update_command commandId f) s = (Inr (), t)"
  shows "settled commandId t"
  using assms(2)
  by (cases rule: updateE_cases)
     (use assms(1) in \<open>auto simp: settled_def commands_def update_command_def update_where_def split: if_splits\<close>)

lemma failBot_commands: "failBot L botId message s = (r, t) \<Longrightarrow> commands t = commands s"
  unfolding failBot_def catchE_def commands_def
  by (auto simp: update_bots_def ret_def split: prod.splits sum.splits elim!: updateE_cases)

lemma failBot_returns: "\<exists>t. failBot L botId message s = (Inr (), t)"
  unfolding failBot_def catchE_def by (auto simp: ret_def split: prod.splits sum.splits)

lemma keeps_others_update:
  assumes "\<And>r. cm_id (f r) = cm_id r \<and> cm_bot_id (f r) = cm_bot_id r"
  shows "keeps (\<lambda>s. commands_of_others commandId botId s = cs) (updateE (update_command commandId f))"
proof (rule keepsI)
  fix s r t assume cs: "commands_of_others commandId botId s = cs" and run: "updateE (update_command commandId f) s = (r, t)"
  have "filter (\<lambda>r. cm_bot_id r \<noteq> botId \<and> cm_id r \<noteq> commandId) (update_where (\<lambda>c. cm_id c = commandId) f rows) =
      filter (\<lambda>r. cm_bot_id r \<noteq> botId \<and> cm_id r \<noteq> commandId) rows" for rows
    by (subst filter_update_where) (use assms in \<open>auto intro: update_where_none\<close>)
  with run cs show "commands_of_others commandId botId t = cs"
    by (cases rule: updateE_cases) (auto simp: commands_of_others_def commands_def update_command_def)
qed

lemma handleCommand_others:
  "keeps (\<lambda>s. commands_of_others (cm_id c) (cm_bot_id c) s = cs) (handleCommand L c)"
  unfolding handleCommand_def Let_def
  by (intro others.frame_rules others.frame_fail keeps_others_update others.frame_any_command) simp_all

text \<open>An emergency stop: the one message, and then nothing that sends another.\<close>

lemma stop_messages_send: "stop_messages (update_child n (\<lambda>c. c\<lparr>ch_sent := ch_sent c @ [m]\<rparr>) s) \<le> stop_messages s + 1"
proof (cases "n < length (sw_children s)")
  case True
  then have "sw_children s = take n (sw_children s) @ sw_children s ! n # drop (Suc n) (sw_children s)"
    by (rule id_take_nth_drop)
  from arg_cong [OF this, of "\<lambda>cs. sum_list (map (\<lambda>c. count_list (ch_sent c) SendStop) cs)"] True show ?thesis
    by (simp add: stop_messages_def update_child_def upd_conv_take_nth_drop)
next
  case False
  then have "length (sw_children s) \<le> n" by simp
  then show ?thesis by (simp add: stop_messages_def update_child_def list_update_beyond)
qed

lemma emergency_sends_once: "stop_messages (snd (stopBot L botId True s)) \<le> stop_messages s + 1"
proof -
  define close where "close stoppedCleanly =
      (if \<not> stoppedCleanly
       then bindE (flushRuntimeLogs L botId) (\<lambda>_.
            bindE (failBot L botId (stop_failure True)) (\<lambda>_. throwE (newError (stop_failure True))))
       else bindE (flushRuntimeLogs L botId) (\<lambda>_.
            updateE (update_bots (\<lambda>b. tb_id b = botId)
              (\<lambda>b. b\<lparr>tb_actual_state := STOPPED, tb_worker_instance_id := None, tb_worker_pid := None, tb_last_error := None\<rparr>))))"
    for stoppedCleanly
  have quiet: "keeps (\<lambda>s. stop_messages s = k) (close b)" "keeps (\<lambda>s. stop_messages s = k) (bindE (await_child L n) close)" for k b n
  proof -
    show c: "keeps (\<lambda>s. stop_messages s = k) (close b)" for b
      unfolding close_def by (intro no_stop.frame_rules no_stop.frame_logs no_stop.frame_fail)
    show "keeps (\<lambda>s. stop_messages s = k) (bindE (await_child L n) close)"
      by (intro keeps_bind no_stop.frame_await c)
  qed
  have same: "stop_messages (snd (close b u)) = stop_messages u" "stop_messages (snd (bindE (await_child L n) close u)) = stop_messages u" for b n u
    using quiet [of "stop_messages u"] by (auto simp: keeps_def)
  let ?s = "forget_bot botId s"
  have start: "stop_messages ?s = stop_messages s"
    by (simp add: stop_messages_def forget_bot_def)
  show ?thesis
  proof (cases "runs botId s")
    case False
    then have "stopBot L botId True s = close True ?s"
      by (simp add: stopBot_def close_def)
    with same(1) [of True ?s] start show ?thesis by simp
  next
    case True
    let ?n = "the (sw_processes s botId)"
    let ?u = "update_child ?n (\<lambda>c. c\<lparr>ch_sent := ch_sent c @ [SendStop]\<rparr>) ?s"
    from True have "stopBot L botId True s = bindE (await_child L ?n) close ?u"
      by (simp add: stopBot_def close_def [abs_def] send_child_def bindE_def [of "bindE _ _"] bindE_def [of "modifyE _"] modifyE_def
          bindE_def [of "await_child L ?n"])
    with same(2) [of ?n ?u] stop_messages_send [of ?n SendStop ?s] start show ?thesis by simp
  qed
qed

section \<open>Properties\<close>


text \<open>
  C12: only the emergency stop trades. Starting, stopping, restarting and deleting bots, the start and the
  shutdown of the leader, restarts after a crash and everything a child reports send no child the message
  \<^verbatim>\<open>stop\<close>, on which a trading process closes its position; suspended bots keep theirs. The command
  EMERGENCY_STOP sends it at most once.
\<close>

theorem only_emergency_stop_trades:
  assumes "cm_command c \<noteq> EMERGENCY_STOP"
  shows "unchanged stop_messages (handleCommand L c) \<and> unchanged stop_messages (shutdown L bots) \<and>
    unchanged stop_messages (leader_start L entries) \<and> unchanged stop_messages (restart_timer_fires L timer) \<and>
    unchanged stop_messages (on_child_exit L describe n code) \<and> unchanged stop_messages (on_child_message L n m) \<and>
    stop_messages (snd (stopBot L botId True s)) \<le> stop_messages s + 1"
proof -
  have "stop_messages (snd (stopBot L botId True s)) \<le> stop_messages s + 1"
    by (rule emergency_sends_once)
  moreover have "keeps (\<lambda>s. stop_messages s = k) (handleCommand L c)" for k
    unfolding handleCommand_def Let_def
    by (intro no_stop.frame_rules no_stop.frame_fail no_stop_update no_stop.frame_command) (simp_all add: assms)
  ultimately show ?thesis
    unfolding unchanged_iff_keeps
    by (intro conjI allI no_stop.frame_shutdown no_stop.frame_leader_start no_stop.frame_restart no_stop.frame_exit
        no_stop.frame_message)
qed

definition sim_leader :: "sim leader" where
  "sim_leader = \<lparr>ld_instanceId = ''worker'', ld_platform = sim_platform Desktop, ld_parse = (\<lambda>_. Inr JNull), ld_now = 0,
     ld_end = (\<lambda>_. Exits 0), ld_mkdir = (\<lambda>_. None), ld_writeFile = (\<lambda>_. None), ld_rename = (\<lambda>_. None)\<rparr>"

definition sim_worker :: "saas_db \<Rightarrow> saas_worker" where
  "sim_worker db = \<lparr>sw_db = db, sw_faults = [], sw_children = [], sw_processes = (\<lambda>_. None), sw_restartAttempts = (\<lambda>_. None),
     sw_restartResetTimers = (\<lambda>_. None), sw_restartTimers = [], sw_orderWrites = (\<lambda>_. None), sw_runtimeLogBuffers = (\<lambda>_. None),
     sw_runtimeLogTimers = (\<lambda>_. False), sw_runtimeLogCleanupAt = (\<lambda>_. None), sw_stopping = False, sw_databases = (\<lambda>_. False)\<rparr>"


theorem only_emergency_stop_trades_witness:
  "unchanged stop_messages (handleCommand sim_leader (new_command ''id-1'' sim_auth sim_bot_id RESTART ''request-1''))"
  using only_emergency_stop_trades [of "new_command ''id-1'' sim_auth sim_bot_id RESTART ''request-1''" sim_leader]
  by (simp add: new_command_def)

section \<open>Log lines and restarts\<close>

lemma queueRuntimeLog_buffer:
  "nullish (sw_runtimeLogBuffers (queueRuntimeLog botId m s) botId) [] =
     (let buffer = nullish (sw_runtimeLogBuffers s botId) [] in (if length buffer \<ge> 1000 then tl buffer else buffer) @ [m])"
  by (simp add: queueRuntimeLog_def scheduleRuntimeLogFlush_def Let_def)

text \<open>The last \<open>k\<close> elements of a list.\<close>

definition latest :: "nat \<Rightarrow> 'a list \<Rightarrow> 'a list" where
  "latest k xs = drop (length xs - k) xs"

lemma latest_snoc: "k > 0 \<Longrightarrow> latest k (xs @ [x]) = (if length (latest k xs) \<ge> k then tl (latest k xs) else latest k xs) @ [x]"
  by (auto simp: latest_def Suc_diff_le drop_Suc tl_drop)

lemma queueRuntimeLogs_latest:
  assumes "nullish (sw_runtimeLogBuffers s botId) [] = latest 1000 xs"
  shows "nullish (sw_runtimeLogBuffers (fold (queueRuntimeLog botId) ms s) botId) [] = latest 1000 (xs @ ms)"
  using assms
proof (induction ms arbitrary: s xs)
  case (Cons m ms)
  have "nullish (sw_runtimeLogBuffers (queueRuntimeLog botId m s) botId) [] = latest 1000 (xs @ [m])"
    using Cons.prems by (simp add: queueRuntimeLog_buffer latest_snoc)
  from Cons.IH [OF this] show ?case by simp
qed simp

lemma scheduleRestarts:
  "sw_restartAttempts ((scheduleRestart botId ^^ n) s) botId =
     (if n = 0 then sw_restartAttempts s botId else Some (nullish (sw_restartAttempts s botId) 0 + n)) \<and>
   (nullish (sw_restartAttempts s botId) 0 = 0 \<longrightarrow>
     sw_restartTimers ((scheduleRestart botId ^^ n) s) = sw_restartTimers s @ map (\<lambda>k. (botId, 1000 * 2 ^ k)) [0..<min n 3])"
proof (induction n)
  case (Suc n)
  let ?s = "(scheduleRestart botId ^^ n) s"
  have attempts: "nullish (sw_restartAttempts ?s botId) 0 = nullish (sw_restartAttempts s botId) 0 + n"
    using Suc by auto
  have "sw_restartTimers (scheduleRestart botId ?s) =
      sw_restartTimers ?s @ (if nullish (sw_restartAttempts s botId) 0 + n + 1 > 3 then []
        else [(botId, 1000 * 2 ^ (nullish (sw_restartAttempts s botId) 0 + n))])"
    by (simp add: scheduleRestart_def attempts Let_def)
  moreover have "sw_restartAttempts (scheduleRestart botId ?s) botId = Some (nullish (sw_restartAttempts s botId) 0 + Suc n)"
    by (simp add: scheduleRestart_def attempts Let_def)
  ultimately show ?case using Suc by (auto simp: min_def le_Suc_eq numeral_3_eq_3)
qed simp

text \<open>
  Bounded memory and bounded restarts. Whatever a bot logs between two flushes, exactly the latest 1000
  lines are kept for it, in order. A bot that keeps crashing is restarted after 1, 2 and 4 seconds and then
  no more, until a stop or a minute of running clears its attempts.
\<close>

theorem logs_and_restarts_bounded:
  assumes "sw_runtimeLogBuffers s botId = None" and "sw_restartAttempts s botId = None" and "sw_restartTimers s = []"
  shows "nullish (sw_runtimeLogBuffers (fold (queueRuntimeLog botId) ms s) botId) [] = latest 1000 ms \<and>
    sw_restartTimers ((scheduleRestart botId ^^ n) s) = map (\<lambda>k. (botId, 1000 * 2 ^ k)) [0..<min n 3]"
  using queueRuntimeLogs_latest [of s botId "[]" ms] scheduleRestarts [of n botId s] assms
  by (simp add: latest_def)

theorem logs_and_restarts_bounded_witness:
  "sw_restartTimers ((scheduleRestart ''b'' ^^ 7) (sim_worker sim_bots_db)) = [(''b'', 1000), (''b'', 2000), (''b'', 4000)]"
  using logs_and_restarts_bounded [of "sim_worker sim_bots_db" "''b''" "[]" 7]
  by (simp add: sim_worker_def upt_rec)

section \<open>Orders\<close>

definition order_key :: "saas_order \<Rightarrow> string \<times> string" where
  "order_key r = (so_organization_id r, so_client_order_id r)"

lemma same_order_key: "same_order r q \<longleftrightarrow> order_key r = order_key q"
  by (simp add: same_order_def order_key_def)

lemma upsert_keeps_keys: "distinct (map order_key rows) \<Longrightarrow> distinct (map order_key (upsert_order row rows))"
proof -
  assume d: "distinct (map order_key rows)"
  have "map order_key (update_where (same_order row)
             (\<lambda>r. row\<lparr>so_organization_id := so_organization_id r, so_bot_id := so_bot_id r,
                      so_client_order_id := so_client_order_id r\<rparr>) rows) = map order_key rows"
    by (rule map_update_where) (simp add: order_key_def)
  with d show ?thesis by (auto simp: upsert_order_def same_order_key)
qed

lemma upsert_idem: "upsert_order row (upsert_order row rows) = upsert_order row rows"
proof (cases "\<exists>r \<in> set rows. same_order row r")
  case True
  let ?f = "\<lambda>r. row\<lparr>so_organization_id := so_organization_id r, so_bot_id := so_bot_id r,
      so_client_order_id := so_client_order_id r\<rparr>"
  have "\<exists>r \<in> set (update_where (same_order row) ?f rows). same_order row r"
    using True unfolding update_where_ex by (auto simp: same_order_def)
  moreover have "update_where (same_order row) ?f (update_where (same_order row) ?f rows) = update_where (same_order row) ?f rows"
    by (rule update_where_twice) (simp_all add: same_order_def)
  ultimately show ?thesis using True by (simp add: upsert_order_def)
next
  case False
  then have "update_where (same_order row) f rows = rows" for f
    by (intro update_where_none) blast
  with False show ?thesis
    by (simp add: upsert_order_def update_where_def same_order_def)
qed

lemma upsert_row: "r \<in> set (upsert_order row rows) \<Longrightarrow> same_order row r \<Longrightarrow>
    so_status r = so_status row \<and> so_quantity r = so_quantity row \<and> so_price r = so_price row"
  by (auto simp: upsert_order_def same_order_def update_where_def split: if_splits)

lemma upsert_others: "filter (\<lambda>r. \<not> same_order row r) (upsert_order row rows) = filter (\<lambda>r. \<not> same_order row r) rows"
proof -
  have "filter (\<lambda>r. \<not> same_order row r) (update_where (same_order row)
      (\<lambda>r. row\<lparr>so_organization_id := so_organization_id r, so_bot_id := so_bot_id r,
        so_client_order_id := so_client_order_id r\<rparr>) rows) = filter (\<lambda>r. \<not> same_order row r) rows"
    by (subst filter_update_where) (auto simp: same_order_def intro: update_where_none)
  then show ?thesis by (simp add: upsert_order_def same_order_def)
qed

lemma persist_returns:
  assumes "sw_faults s = []" and "u_quantity u = Fin q" and "q > 0" and "u_side u \<in> {''BUY'', ''SELL''}"
    and "find (\<lambda>b. tb_id b = botId) (sd_trading_bots (sw_db s)) = Some b"
  shows "persistOrderUpdate botId u s =
    (Inr (), s\<lparr>sw_db := (sw_db s)\<lparr>sd_orders := upsert_order (order_row b u q) (sd_orders (sw_db s))\<rparr>\<rparr>)"
  using assms by (simp add: persistOrderUpdate_def saasTransactionE_def saasTransaction_def)

section \<open>What goes wrong\<close>

lemma joined_bots_update:
  assumes "\<And>b. bot_view_of (f b) = bot_view_of b" and "\<And>b. tb_exchange_connection_id (f b) = tb_exchange_connection_id b"
    and "\<And>b. tb_id (f b) = tb_id b"
  shows "joined_bots botId (update_bots p f db) = joined_bots botId db"
proof -
  have "concat (map (\<lambda>b. map (bot_view_of b) (filter (\<lambda>c. ec_id c = tb_exchange_connection_id b \<and> ec_enabled c) cs))
        (filter (\<lambda>b. tb_id b = botId) (update_where p f rows))) =
      concat (map (\<lambda>b. map (bot_view_of b) (filter (\<lambda>c. ec_id c = tb_exchange_connection_id b \<and> ec_enabled c) cs))
        (filter (\<lambda>b. tb_id b = botId) rows))" for cs rows
    by (induction rows) (auto simp: update_where_def assms)
  then show ?thesis by (simp add: joined_bots_def update_bots_def)
qed

lemma bot_view_states [simp]:
  "bot_view_of (b\<lparr>tb_desired_state := d\<rparr>) = bot_view_of b"
  "bot_view_of (b\<lparr>tb_actual_state := st, tb_worker_instance_id := i, tb_worker_pid := pid, tb_last_error := e\<rparr>) = bot_view_of b"
  by (simp_all add: bot_view_of_def fun_eq_iff)

lemma joined_bots_desired: "joined_bots botId (update_bots p (\<lambda>b. b\<lparr>tb_desired_state := d\<rparr>) db) = joined_bots botId db"
  by (rule joined_bots_update) simp_all

text \<open>A START that fails before the fork: the command fails, and of the bots only the desired state changes.\<close>

lemma failBot_not_mine:
  assumes "\<forall>b \<in> set (sd_trading_bots (sw_db s)). tb_id b = botId \<longrightarrow> tb_worker_instance_id b \<noteq> Some (ld_instanceId L)"
    and "sw_faults s = []"
  shows "failBot L botId message s = (Inr (), s)"
proof -
  have "update_where (owned L botId) f (sd_trading_bots (sw_db s)) = sd_trading_bots (sw_db s)" for f
    using assms(1) by (intro update_where_none) (auto simp: owned_def)
  with assms(2) show ?thesis by (simp add: failBot_def catchE_def update_bots_def)
qed

lemma start_without_connection:
  assumes "sw_faults s = []" and "\<not> runs botId s" and "joined_bots botId (sw_db s) = []"
  shows "startBot L botId s = (Inl (newError ''Bot or enabled exchange connection was not found.''), s)"
proof -
  have load: "loadBot botId s = (Inl (newError ''Bot or enabled exchange connection was not found.''), s)"
    using assms(1,3)
    by (cases s) (simp add: loadBot_def saasQueryE_def bindE_def saasTransactionE_def saasTransaction_def throwE_def)
  with assms(2) show ?thesis
    by (simp add: startBot_def startBot_rest_def bindE_of_Inl [where m = "loadBot botId" and s = s, OF load])
qed

lemma failed_start:
  assumes "sw_faults s = []" and "\<not> runs (cm_bot_id c) s" and "cm_command c = START"
    and "joined_bots (cm_bot_id c) (sw_db s) = []"
    and "\<forall>b \<in> set (sd_trading_bots (sw_db s)). tb_id b = cm_bot_id c \<longrightarrow> tb_worker_instance_id b \<noteq> Some (ld_instanceId L)"
  shows "handleCommand L c s = (Inr (), s\<lparr>sw_db := update_command (cm_id c) (\<lambda>r. r\<lparr>cm_status := COMMAND_FAILED,
      cm_error := Some ''Bot or enabled exchange connection was not found.''\<rparr>)
    (update_bots (\<lambda>b. tb_id b = cm_bot_id c) (\<lambda>b. b\<lparr>tb_desired_state := DesiredRunning\<rparr>) (sw_db s))\<rparr>)"
proof -
  let ?db = "update_bots (\<lambda>b. tb_id b = cm_bot_id c) (\<lambda>b. b\<lparr>tb_desired_state := DesiredRunning\<rparr>) (sw_db s)"
  let ?u = "s\<lparr>sw_db := ?db\<rparr>"
  have start: "startBot L (cm_bot_id c) ?u = (Inl (newError ''Bot or enabled exchange connection was not found.''), ?u)"
    using assms(1-4) by (intro start_without_connection) (simp_all add: joined_bots_desired runs_def split: option.splits)
  let ?f = "\<lambda>r. r\<lparr>cm_status := COMMAND_FAILED, cm_error := Some ''Bot or enabled exchange connection was not found.''\<rparr>"
  let ?v = "s\<lparr>sw_db := update_command (cm_id c) ?f ?db\<rparr>"
  have fail: "failBot L (cm_bot_id c) ''Bot or enabled exchange connection was not found.'' ?v = (Inr (), ?v)"
    using assms(1,5)
    by (intro failBot_not_mine) (auto simp: update_bots_def update_command_def update_where_def)
  from assms(1) have u: "updateE (update_bots (\<lambda>b. tb_id b = cm_bot_id c) (\<lambda>b. b\<lparr>tb_desired_state := DesiredRunning\<rparr>)) s = (Inr (), ?u)"
    and v: "updateE (update_command (cm_id c) ?f) ?u = (Inr (), ?v)"
    by simp_all
  have msg: "error_text (newError m) = m" for m by (simp add: error_text_def newError_def)
  show ?thesis
    by (simp add: handleCommand_def run_command_def assms(3) catchE_def bindE_def u start msg v fail del: updateE_faultless)
qed

section \<open>Findings\<close>

text \<open>
  A bot that cannot start stays STARTING. The router has set its state to STARTING; if its connection is
  disabled the START fails before the worker has written its instance into the row, and \<^verbatim>\<open>failBot\<close>, which only
  updates rows of its own instance, finds nothing: the command is FAILED, but the bot keeps its state and has
  no error, and it can neither be edited nor deleted.
\<close>

theorem failed_start_stays_starting:
  assumes "sw_faults s = []" and "\<not> runs (cm_bot_id c) s" and "cm_command c = START"
    and "joined_bots (cm_bot_id c) (sw_db s) = []"
    and "\<forall>b \<in> set (sd_trading_bots (sw_db s)). tb_id b = cm_bot_id c \<longrightarrow> tb_worker_instance_id b = None"
    and "find (bot_of (cm_bot_id c) (au_organizationId auth)) (sd_trading_bots (sw_db s)) = Some b" and "tb_actual_state b = STARTING"
  shows "\<exists>t. handleCommand L c s = (Inr (), t) \<and>
    (\<forall>r \<in> set (commands t). cm_id r = cm_id c \<longrightarrow> cm_status r = COMMAND_FAILED) \<and>
    find (bot_of (cm_bot_id c) (au_organizationId auth)) (sd_trading_bots (sw_db t)) = Some (b\<lparr>tb_desired_state := DesiredRunning\<rparr>) \<and>
    (\<exists>e. delete_transaction A auth (cm_bot_id c) key (sw_db t) = Inl (HttpError e) \<and> he_code e = ''BOT_NOT_DELETABLE'')"
proof -
  let ?t = "s\<lparr>sw_db := update_command (cm_id c) (\<lambda>r. r\<lparr>cm_status := COMMAND_FAILED,
      cm_error := Some ''Bot or enabled exchange connection was not found.''\<rparr>)
    (update_bots (\<lambda>b. tb_id b = cm_bot_id c) (\<lambda>b. b\<lparr>tb_desired_state := DesiredRunning\<rparr>) (sw_db s))\<rparr>"
  have bots: "find (bot_of (cm_bot_id c) (au_organizationId auth)) (sd_trading_bots (sw_db ?t)) = Some (b\<lparr>tb_desired_state := DesiredRunning\<rparr>)"
    using assms(6)
    by (simp add: update_command_def update_bots_def find_update_where bot_of_def) (auto simp: find_Some_iff bot_of_def)
  then have "\<exists>e. delete_transaction A auth (cm_bot_id c) key (sw_db ?t) = Inl (HttpError e) \<and> he_code e = ''BOT_NOT_DELETABLE''"
    using assms(7) by (simp add: delete_transaction_def SaasHttpError_def)
  moreover have "\<forall>r \<in> set (commands ?t). cm_id r = cm_id c \<longrightarrow> cm_status r = COMMAND_FAILED"
    by (auto simp: commands_def update_command_def update_where_def)
  moreover have "handleCommand L c s = (Inr (), ?t)"
    using assms(1-5) by (intro failed_start) auto
  ultimately show ?thesis using bots by blast
qed

definition sim_starting :: saas_worker where
  "sim_starting = sim_worker (sim_bots_db\<lparr>sd_trading_bots := [sim_bot\<lparr>tb_actual_state := STARTING\<rparr>]\<rparr>)"

theorem failed_start_stays_starting_witness:
  "\<exists>t. handleCommand sim_leader (new_command ''id-1'' sim_auth sim_bot_id START ''request-1'') sim_starting = (Inr (), t) \<and>
     map tb_actual_state (filter (bot_of sim_bot_id ''org'') (sd_trading_bots (sw_db t))) \<noteq> [FAILED]"
proof -
  let ?c = "new_command ''id-1'' sim_auth sim_bot_id START ''request-1''"
  have "\<exists>t. handleCommand sim_leader ?c sim_starting = (Inr (), t) \<and>
    (\<forall>r \<in> set (commands t). cm_id r = cm_id ?c \<longrightarrow> cm_status r = COMMAND_FAILED) \<and>
    find (bot_of (cm_bot_id ?c) (au_organizationId sim_auth)) (sd_trading_bots (sw_db t)) =
      Some (sim_bot\<lparr>tb_actual_state := STARTING, tb_desired_state := DesiredRunning\<rparr>) \<and>
    (\<exists>e. delete_transaction sim_api sim_auth (cm_bot_id ?c) ''request-2'' (sw_db t) = Inl (HttpError e) \<and> he_code e = ''BOT_NOT_DELETABLE'')"
    by (rule failed_start_stays_starting)
       (simp_all add: sim_starting_def sim_worker_def sim_bots_db_def sim_saas_db_def runs_def joined_bots_def new_command_def
          sim_bot_def new_bot_def bot_of_def sim_auth_def)
  then obtain t where run: "handleCommand sim_leader ?c sim_starting = (Inr (), t)"
    and "find (bot_of sim_bot_id ''org'') (sd_trading_bots (sw_db t)) =
      Some (sim_bot\<lparr>tb_actual_state := STARTING, tb_desired_state := DesiredRunning\<rparr>)"
    by (auto simp: new_command_def sim_auth_def)
  then have "filter (bot_of sim_bot_id ''org'') (sd_trading_bots (sw_db t)) \<noteq> [] \<and>
      hd (filter (bot_of sim_bot_id ''org'') (sd_trading_bots (sw_db t))) = sim_bot\<lparr>tb_actual_state := STARTING, tb_desired_state := DesiredRunning\<rparr>"
    by (auto dest: find_Some_filter)
  then show ?thesis using run by (auto simp: Cons_eq_map_conv map_eq_Cons_conv)
qed

definition processes_of :: "saas_worker \<Rightarrow> child list \<times> (string \<Rightarrow> nat option)" where
  "processes_of s = (sw_children s, sw_processes s)"

lemma transaction_forks_nothing: "unchanged processes_of (saasTransactionE f)"
  by (rule unchangedI) (auto simp: processes_of_def elim!: saasTransactionE_cases)

lemma startBot_rest_forks:
  assumes "startBot_rest L botId s = (Inr (), t)"
  obtains c where "sw_children t = sw_children s @ [c]" and "ch_bot c = botId" and "ch_exitCode c = None"
    and "sw_processes t = (sw_processes s)(botId \<mapsto> length (sw_children s))"
proof -
  have load: "unchanged processes_of (loadBot botId)"
    unfolding loadBot_def saasQueryE_def by (intro unchanged_rules transaction_forks_nothing)
  have register: "unchanged processes_of (registerSqliteDatabase botId)"
    unfolding registerSqliteDatabase_def updateE_def saasQueryE_def by (rule transaction_forks_nothing)
  have throw: "unchanged processes_of (throw_if e)" for e
    unfolding throw_if_def by (intro unchanged_rules)
  have mark: "unchanged processes_of (mark_starting L botId n)" for n
    unfolding mark_starting_def updateE_def saasQueryE_def by (rule transaction_forks_nothing)
  from assms obtain bv config s1 s2 s3 s4 s5 s6 n where
    1: "loadBot botId s = (Inr bv, s1)" and 2: "throw_if (ld_mkdir L botId) s1 = (Inr (), s2)"
    and 3: "throw_if (ld_writeFile L botId) s2 = (Inr (), s3)" and 4: "registerSqliteDatabase botId s3 = (Inr (), s4)"
    and 5: "fork_child botId (bv_sandbox bv) config s4 = (Inr n, s5)" and 6: "mark_starting L botId n s5 = (Inr (), s6)"
    and t: "t = update_child n (\<lambda>c. c\<lparr>ch_listening := True\<rparr>) s6"
    unfolding startBot_rest_def bindE_Inr by auto
  have same: "sw_children s4 = sw_children s" "sw_processes s4 = sw_processes s"
    using unchangedD [OF load 1] unchangedD [OF throw 2] unchangedD [OF throw 3] unchangedD [OF register 4]
    by (simp_all add: processes_of_def)
  have "sw_children s6 = sw_children s5" "sw_processes s6 = sw_processes s5"
    using unchangedD [OF mark 6] by (simp_all add: processes_of_def)
  with 5 same t show ?thesis
    by (intro that) (auto simp: fork_child_def update_child_def Let_def)
qed

text \<open>
  Two starts that overlap fork two processes. \<^verbatim>\<open>startBot\<close> tests whether the bot runs, and forks only after
  several awaits; a restart timer and a START command that both pass the test before either has forked end
  with two running processes of one bot. The map knows the second one; the first is in no entry, so that
  neither a stop nor the shutdown reaches it. Run one after the other, the second start does nothing.
\<close>

theorem overlapping_starts_fork_twice:
  assumes "startBot_rest L botId s = (Inr (), s1)" and "startBot_rest L botId s1 = (Inr (), s2)"
    and "\<forall>b n. sw_processes s b = Some n \<longrightarrow> n < length (sw_children s)"
  shows "\<exists>n m. n \<noteq> m \<and> n < length (sw_children s2) \<and> m < length (sw_children s2) \<and>
    ch_bot (sw_children s2 ! n) = botId \<and> ch_exitCode (sw_children s2 ! n) = None \<and>
    ch_bot (sw_children s2 ! m) = botId \<and> ch_exitCode (sw_children s2 ! m) = None \<and>
    sw_processes s2 botId = Some m \<and> (\<forall>b. sw_processes s2 b \<noteq> Some n) \<and>
    startBot L botId s1 = (Inr (), s1)"
proof -
  obtain c1 where c1: "sw_children s1 = sw_children s @ [c1]" "ch_bot c1 = botId" "ch_exitCode c1 = None"
    "sw_processes s1 = (sw_processes s)(botId \<mapsto> length (sw_children s))"
    by (rule startBot_rest_forks [OF assms(1)])
  obtain c2 where c2: "sw_children s2 = sw_children s1 @ [c2]" "ch_bot c2 = botId" "ch_exitCode c2 = None"
    "sw_processes s2 = (sw_processes s1)(botId \<mapsto> length (sw_children s1))"
    by (rule startBot_rest_forks [OF assms(2)])
  have "startBot L botId s1 = (Inr (), s1)"
    using c1 by (simp add: startBot_def runs_def ret_def)
  moreover have "\<forall>b. sw_processes s2 b \<noteq> Some (length (sw_children s))"
    using assms(3) c1 c2 by auto
  ultimately show ?thesis
    using c1 c2 by (intro exI [of _ "length (sw_children s)"] exI [of _ "length (sw_children s1)"]) (simp add: nth_append)
qed

lemma startBot_rest_succeeds:
  assumes "sw_faults s = []" and "joined_bots botId (sw_db s) = bv # bvs" and "legacyConfig L bv = Inr config"
    and "ld_mkdir L botId = None" and "ld_writeFile L botId = None"
  shows "\<exists>t. startBot_rest L botId s = (Inr (), t) \<and> sw_faults t = [] \<and> joined_bots botId (sw_db t) = bv # bvs"
proof -
  have load: "loadBot botId s = (Inr bv, s)"
    using assms(1,2)
    by (cases s) (simp add: loadBot_def saasQueryE_def bindE_def saasTransactionE_def saasTransaction_def ret_def)
  have throw: "throw_if None u = (Inr (), u)" for u :: saas_worker
    by (simp add: throw_if_def ret_def)
  obtain s1 where register: "registerSqliteDatabase botId s = (Inr (), s1)" and s1: "sw_faults s1 = []"
    "joined_bots botId (sw_db s1) = bv # bvs"
    using assms(1,2) by (auto simp: registerSqliteDatabase_def joined_bots_def split: option.splits)
  obtain n s2 where fork: "fork_child botId (bv_sandbox bv) config s1 = (Inr n, s2)" and s2: "sw_faults s2 = []" "sw_db s2 = sw_db s1"
    using s1 by (auto simp: fork_child_def Let_def)
  obtain s3 where mark: "mark_starting L botId n s2 = (Inr (), s3)" and s3: "sw_faults s3 = []"
    "joined_bots botId (sw_db s3) = bv # bvs"
    using s1 s2 by (auto simp: mark_starting_def joined_bots_update)
  show ?thesis
    by (simp add: startBot_rest_def bindE_def load assms(3-5) liftE_def throw register fork mark modifyE_def)
       (simp add: update_child_def s3)
qed

definition sim_credentials :: "sim leader" where
  "sim_credentials = sim_leader\<lparr>ld_parse := \<lambda>_. Inr (JObj [(''apiKey'', JStr ''key''), (''privateKey'', JStr ''secret'')])\<rparr>"

definition sim_connection :: connection_row where
  "sim_connection = \<lparr>ec_id = ''connection'', ec_organization_id = ''org'', ec_exchange_code = ''okx'', ec_label = ''main'',
     ec_credentials_ciphertext = [], ec_encryption_key_id = ''primary-v1'', ec_enabled = True, ec_sandbox = False,
     ec_last_verified_at = None\<rparr>"

definition sim_connected :: saas_worker where
  "sim_connected = sim_worker (sim_bots_db\<lparr>sd_exchange_connections := [sim_connection]\<rparr>)"

lemma sim_legacyConfig: "\<exists>config. legacyConfig sim_credentials (bot_view_of sim_bot sim_connection) = Inr config"
  by (simp add: legacyConfig_def bot_view_of_def sim_connection_def sim_credentials_def sim_bot_def new_bot_def supported_exchanges_def
      decrypt_def credential_def)

theorem overlapping_starts_fork_twice_witness:
  "\<exists>s1 s2 n m. startBot_rest sim_credentials sim_bot_id sim_connected = (Inr (), s1) \<and>
     startBot_rest sim_credentials sim_bot_id s1 = (Inr (), s2) \<and> n \<noteq> m \<and>
     ch_exitCode (sw_children s2 ! n) = None \<and> ch_exitCode (sw_children s2 ! m) = None \<and>
     sw_processes s2 sim_bot_id = Some m \<and> (\<forall>b. sw_processes s2 b \<noteq> Some n)"
proof -
  obtain config where config: "legacyConfig sim_credentials (bot_view_of sim_bot sim_connection) = Inr config"
    using sim_legacyConfig by blast
  have joined: "joined_bots sim_bot_id (sw_db sim_connected) = [bot_view_of sim_bot sim_connection]"
    by (simp add: joined_bots_def sim_connected_def sim_worker_def sim_bots_db_def sim_saas_db_def sim_bot_def new_bot_def
        sim_connection_def)
  have env: "ld_mkdir sim_credentials sim_bot_id = None" "ld_writeFile sim_credentials sim_bot_id = None" "sw_faults sim_connected = []"
    by (simp_all add: sim_credentials_def sim_leader_def sim_connected_def sim_worker_def)
  obtain s1 where s1: "startBot_rest sim_credentials sim_bot_id sim_connected = (Inr (), s1)" "sw_faults s1 = []"
    "joined_bots sim_bot_id (sw_db s1) = [bot_view_of sim_bot sim_connection]"
    using startBot_rest_succeeds [OF env(3) joined config env(1,2)] by blast
  obtain s2 where s2: "startBot_rest sim_credentials sim_bot_id s1 = (Inr (), s2)"
    using startBot_rest_succeeds [OF s1(2,3) config env(1,2)] by blast
  have "\<forall>b n. sw_processes sim_connected b = Some n \<longrightarrow> n < length (sw_children sim_connected)"
    by (simp add: sim_connected_def sim_worker_def)
  from overlapping_starts_fork_twice [OF s1(1) s2 this] s1(1) s2 show ?thesis by blast
qed

end
