(* ===== verification/Order_Book.thy ===== *)
theory Order_Book
  imports Bot_Supervision Orders_Operation
begin

text \<open>
  What the table \<^verbatim>\<open>orders\<close> promises: it is a finite map from the organisation and the client order id to the
  last state published for that order. The statement of \<^verbatim>\<open>persistOrderUpdate\<close> (\<^verbatim>\<open>src/saas/worker.ts\<close>, insert or,
  on a conflict, update) implements the update of that map, and so does the queue of writes of a bot.
\<close>

section \<open>The book\<close>

type_synonym book = "(string \<times> string) \<rightharpoonup> saas_order"

text \<open>A row without the bot it belongs to, which the key carries and an update leaves alone.\<close>

definition order_entry :: "saas_order \<Rightarrow> saas_order" where
  "order_entry r = r\<lparr>so_bot_id := []\<rparr>"

definition order_book :: "saas_order list \<Rightarrow> book" where
  "order_book rows = map_of (map (\<lambda>r. (order_key r, order_entry r)) rows)"

text \<open>One published update, on the map.\<close>

definition book_update :: "bot_row \<Rightarrow> book \<Rightarrow> order_update \<Rightarrow> book" where
  "book_update b book u =
     (case u_quantity u of
        Fin q \<Rightarrow> book(order_key (order_row b u q) \<mapsto> order_entry (order_row b u q))
      | _ \<Rightarrow> book)"

section \<open>Refinement\<close>

lemma book_update_where:
  assumes key: "\<And>r. order_key (f r) = order_key r" and entry: "\<And>r. order_key r = k \<Longrightarrow> order_entry (f r) = e"
    and p: "p = (\<lambda>r. order_key r = k)" and ex: "k \<in> order_key ` set rows"
  shows "order_book (update_where p f rows) = (order_book rows)(k \<mapsto> e)"
proof
  fix key
  have "order_book (update_where p f rows) key =
      (if key = k \<and> k \<in> order_key ` set rows then Some e else order_book rows key)" for rows
  proof (induction rows)
    case (Cons r rows)
    then show ?case by (cases "order_key r = k") (auto simp: order_book_def update_where_def p key entry)
  qed (simp add: order_book_def update_where_def)
  then show "order_book (update_where p f rows) key = ((order_book rows)(k \<mapsto> e)) key"
    using ex by simp
qed

lemma book_append:
  assumes "order_key row \<notin> order_key ` set rows"
  shows "order_book (rows @ [row]) = (order_book rows)(order_key row \<mapsto> order_entry row)"
proof -
  have "map_of (map (\<lambda>r. (order_key r, order_entry r)) rows) (order_key row) = None"
    using assms by (auto simp: map_of_eq_None_iff image_image)
  then show ?thesis by (auto simp: order_book_def fun_eq_iff map_add_def split: option.splits)
qed

lemma book_upsert: "order_book (upsert_order row rows) = (order_book rows)(order_key row \<mapsto> order_entry row)"
proof (cases "\<exists>r \<in> set rows. same_order row r")
  case True
  have "order_book (update_where (same_order row)
      (\<lambda>r. row\<lparr>so_organization_id := so_organization_id r, so_bot_id := so_bot_id r,
        so_client_order_id := so_client_order_id r\<rparr>) rows) = (order_book rows)(order_key row \<mapsto> order_entry row)"
    using True by (intro book_update_where) (auto simp: order_key_def order_entry_def same_order_def fun_eq_iff)
  with True show ?thesis by (simp add: upsert_order_def)
next
  case False
  then have "order_key row \<notin> order_key ` set rows"
    by (auto simp: same_order_key)
  with False show ?thesis by (simp add: upsert_order_def book_append)
qed

text \<open>A valid update is written, whatever the table holds.\<close>

lemma persist_valid:
  assumes "valid_update u" and "sw_faults s = []" and "find (\<lambda>b. tb_id b = botId) (sd_trading_bots (sw_db s)) = Some b"
  obtains rows where "persistOrderUpdate botId u s = (Inr (), s\<lparr>sw_db := (sw_db s)\<lparr>sd_orders := rows\<rparr>\<rparr>)"
    and "order_book rows = book_update b (order_book (sd_orders (sw_db s))) u"
    and "distinct (map order_key (sd_orders (sw_db s))) \<longrightarrow> distinct (map order_key rows)"
proof -
  from assms(1) obtain q where q: "u_quantity u = Fin q" "q > 0" and side: "u_side u \<in> {''BUY'', ''SELL''}"
    by (cases "u_quantity u") (auto simp: valid_update_def finite_positive_def)
  show thesis
    using persist_returns [OF assms(2) q side assms(3)] q(1) book_upsert upsert_keeps_keys
    by (intro that [of "upsert_order (order_row b u q) (sd_orders (sw_db s))"]) (auto simp: book_update_def)
qed

lemma order_writes:
  assumes "list_all valid_update us" and "sw_faults s = []"
    and "find (\<lambda>b. tb_id b = botId) (sd_trading_bots (sw_db s)) = Some b"
    and "sw_orderWrites s botId = (if us = [] then None else Some us)"
  shows "\<exists>t. forE us (\<lambda>_. order_write botId) s = (Inr (), t) \<and> sw_orderWrites t botId = None \<and>
    order_book (sd_orders (sw_db t)) = foldl (book_update b) (order_book (sd_orders (sw_db s))) us \<and>
    (distinct (map order_key (sd_orders (sw_db s))) \<longrightarrow> distinct (map order_key (sd_orders (sw_db t))))"
  using assms
proof (induction us arbitrary: s)
  case (Cons u us)
  obtain rows where run: "persistOrderUpdate botId u s = (Inr (), s\<lparr>sw_db := (sw_db s)\<lparr>sd_orders := rows\<rparr>\<rparr>)"
    and book: "order_book rows = book_update b (order_book (sd_orders (sw_db s))) u"
    and keys: "distinct (map order_key (sd_orders (sw_db s))) \<longrightarrow> distinct (map order_key rows)"
    using persist_valid [OF _ Cons.prems(2,3), of u] Cons.prems(1) by auto
  let ?s = "s\<lparr>sw_db := (sw_db s)\<lparr>sd_orders := rows\<rparr>,
      sw_orderWrites := (sw_orderWrites s)(botId := if us = [] then None else Some us)\<rparr>"
  have "order_write botId s = (Inr (), ?s)"
    using run Cons.prems(4) by (simp add: order_write_def bindE_def catchE_def modifyE_def)
  moreover obtain t where "forE us (\<lambda>_. order_write botId) ?s = (Inr (), t)" "sw_orderWrites t botId = None"
    "order_book (sd_orders (sw_db t)) = foldl (book_update b) (order_book rows) us"
    "distinct (map order_key rows) \<longrightarrow> distinct (map order_key (sd_orders (sw_db t)))"
    using Cons.IH [of ?s] Cons.prems by auto
  ultimately show ?case using book keys by (auto simp: bindE_def)
qed simp

section \<open>Properties\<close>

text \<open>
  C13: the queue of order writes implements the map. For an existing bot and a database that answers, draining
  the queued updates never fails, empties the queue, and leaves a table with one row per order that represents
  the map obtained by applying the updates in the order they were sent: per order the last one wins and no
  other order changes. The hypothesis on the updates is what the engine guarantees of those it publishes.
\<close>

theorem order_queue_refines_book:
  assumes "list_all valid_update us" and "sw_faults s = []"
    and "find (\<lambda>b. tb_id b = botId) (sd_trading_bots (sw_db s)) = Some b"
    and "distinct (map order_key (sd_orders (sw_db s)))" and "sw_orderWrites s botId = None"
  shows "\<exists>t. drainOrderWrites botId (fold (queueOrderUpdate botId) us s) = (Inr (), t) \<and>
    sw_orderWrites t botId = None \<and> distinct (map order_key (sd_orders (sw_db t))) \<and>
    order_book (sd_orders (sw_db t)) = foldl (book_update b) (order_book (sd_orders (sw_db s))) us"
proof -
  have queue: "fold (queueOrderUpdate botId) us s =
      s\<lparr>sw_orderWrites := (sw_orderWrites s)(botId := if us = [] then sw_orderWrites s botId
        else Some (nullish (sw_orderWrites s botId) [] @ us))\<rparr>" for s
    by (induction us arbitrary: s) (auto simp: queueOrderUpdate_def fun_upd_idem)
  show ?thesis
    unfolding drainOrderWrites_def queue
    using order_writes [OF assms(1), of "s\<lparr>sw_orderWrites := (sw_orderWrites s)(botId := if us = [] then None else Some us)\<rparr>"
        botId b] assms(2-5)
    by (cases "us = []") auto
qed

text \<open>An order that is published as open and then as filled is stored as filled.\<close>

definition sim_update :: "string \<Rightarrow> order_update" where
  "sim_update status = \<lparr>u_exchangeOrderId = ''7'', u_clientOrderId = ''client'', u_symbol = ''BTC/USDT'', u_side = ''BUY'',
     u_orderType = ''MARKET'', u_status = status, u_quantity = Fin 2, u_price = None, u_rawResponse = ''{}''\<rparr>"

theorem order_queue_refines_book_witness:
  "\<exists>t. drainOrderWrites sim_bot_id
       (fold (queueOrderUpdate sim_bot_id) [sim_update ''OPEN'', sim_update ''FILLED''] (sim_worker sim_bots_db)) = (Inr (), t) \<and>
     map_option so_status (order_book (sd_orders (sw_db t)) (''org'', sim_bot_id @ '':client'')) = Some ''FILLED''"
proof -
  have "find (\<lambda>b. tb_id b = sim_bot_id) (sd_trading_bots (sw_db (sim_worker sim_bots_db))) = Some sim_bot"
    by (simp add: sim_worker_def sim_bots_db_def sim_bot_def new_bot_def)
  moreover have "list_all valid_update [sim_update ''OPEN'', sim_update ''FILLED'']"
    by (simp add: sim_update_def valid_update_def finite_positive_def)
  ultimately obtain t where
    "drainOrderWrites sim_bot_id
       (fold (queueOrderUpdate sim_bot_id) [sim_update ''OPEN'', sim_update ''FILLED''] (sim_worker sim_bots_db)) = (Inr (), t)"
    "order_book (sd_orders (sw_db t)) =
      foldl (book_update sim_bot) (order_book (sd_orders (sw_db (sim_worker sim_bots_db)))) [sim_update ''OPEN'', sim_update ''FILLED'']"
    using order_queue_refines_book [of "[sim_update ''OPEN'', sim_update ''FILLED'']" "sim_worker sim_bots_db" sim_bot_id sim_bot]
    by (auto simp: sim_worker_def sim_bots_db_def sim_saas_db_def)
  then show ?thesis
    by (simp add: book_update_def sim_update_def order_row_def order_key_def order_entry_def sim_bot_def new_bot_def)
qed

end
