(* ===== verification/Exchanges_Router.thy ===== *)
theory Exchanges_Router
  imports Saas_Worker
begin

text \<open>
  \<^verbatim>\<open>src/saas/trading/exchanges.router.ts\<close>: the connections of an organisation to its exchange accounts, whose
  credentials are stored encrypted and are read again by the worker when it starts a bot. The cipher, JSON and
  the answer of the exchange are arguments; an error that is not a \<^verbatim>\<open>SaasHttpError\<close> is a \<open>DbError\<close>.
\<close>

section \<open>The environment\<close>

text \<open>
  \<open>en_balance\<close> tells whether \<^verbatim>\<open>fetchBalance\<close> succeeds for an exchange, the key, the secret and the passphrase,
  and the choice of the sandbox; \<open>en_constructor\<close> whether ccxt has a class of this name.
\<close>

record 'x exchange_env =
  en_platform :: "'x platform"
  en_stringify :: "json \<Rightarrow> string"
  en_parse :: "string \<Rightarrow> js_error + json"
  en_key_id :: "string option"
  en_constructor :: "string \<Rightarrow> bool"
  en_balance :: "string \<Rightarrow> json option \<times> json option \<times> json option \<Rightarrow> bool \<Rightarrow> bool"

text \<open>What \<^verbatim>\<open>EncryptionService.encrypt\<close> returns when it draws \<open>iv\<close>.\<close>

definition envelope :: "'x platform \<Rightarrow> string \<Rightarrow> string \<Rightarrow> string" where
  "envelope P iv data = join '':'' [''v2'', iv, fst (p_gcm_seal P iv data), snd (p_gcm_seal P iv data)]"

definition keyId :: "'x exchange_env \<Rightarrow> string" where
  "keyId E = nullish (en_key_id E) ''primary-v1''"

definition encrypt_credentials :: "'x exchange_env \<Rightarrow> string \<Rightarrow> json \<Rightarrow> string" where
  "encrypt_credentials E iv credentials = envelope (en_platform E) iv (en_stringify E credentials)"

definition internal :: "js_error \<Rightarrow> api_error" where
  "internal e = DbError (case e of JsError name _ _ \<Rightarrow> name | NonError \<Rightarrow> [])"

definition stored_credentials :: "'x exchange_env \<Rightarrow> string \<Rightarrow> api_error + json" where
  "stored_credentials E ciphertext =
     (case decrypt (en_platform E) ciphertext of
        Inl e \<Rightarrow> Inl (internal e)
      | Inr text \<Rightarrow> (case en_parse E text of Inl e \<Rightarrow> Inl (internal e) | Inr v \<Rightarrow> Inr v))"

section \<open>Credentials\<close>

definition credentials_object :: "json option \<Rightarrow> json option \<Rightarrow> json option \<Rightarrow> json" where
  "credentials_object apiKey privateKey password =
     JObj (List.map_filter (\<lambda>(field, v). map_option (Pair field) v)
       [(''apiKey'', apiKey), (''privateKey'', privateKey), (''password'', password)])"

definition credentialsFrom :: "json_object \<Rightarrow> json checked" where
  "credentialsFrom body =
     bindC (stringValue (map_of body ''apiKey'') ''apiKey'' 512) (\<lambda>apiKey.
     bindC (stringValue (map_of body ''secret'') ''secret'' 512) (\<lambda>secret.
     bindC (optionalStringValue (map_of body ''password'') ''password'' 512) (\<lambda>password.
       Inr (credentials_object (Some (JStr apiKey)) (Some (JStr secret)) (Some (JStr (nullish password [])))))))"

text \<open>A property of a parsed value; null has none.\<close>

definition property_of :: "json \<Rightarrow> string \<Rightarrow> api_error + json option" where
  "property_of v field = (case v of JNull \<Rightarrow> Inl (DbError ''TypeError'') | JObj entries \<Rightarrow> Inr (map_of entries field) | _ \<Rightarrow> Inr None)"

definition field_of :: "json \<Rightarrow> string \<Rightarrow> json option" where
  "field_of v field = (case v of JObj entries \<Rightarrow> map_of entries field | _ \<Rightarrow> None)"

text \<open>\<open>optionalStringValue(body.name) ?? old.field\<close>.\<close>

definition given_or_old :: "json_object \<Rightarrow> json \<Rightarrow> string \<Rightarrow> string \<Rightarrow> api_error + json option" where
  "given_or_old body old name field =
     guardT (optionalStringValue (map_of body name) name 512) (\<lambda>v.
       case v of Some s \<Rightarrow> Inr (Some (JStr s)) | None \<Rightarrow> property_of old field)"

definition changesCredentials :: "json_object \<Rightarrow> bool" where
  "changesCredentials body \<longleftrightarrow>
     map_of body ''apiKey'' \<noteq> None \<or> map_of body ''secret'' \<noteq> None \<or> map_of body ''password'' \<noteq> None"

definition changed_credentials :: "json_object \<Rightarrow> json \<Rightarrow> api_error + json" where
  "changed_credentials body old =
     (if \<not> changesCredentials body then Inr old
      else case given_or_old body old ''apiKey'' ''apiKey'' of Inl e \<Rightarrow> Inl e | Inr apiKey \<Rightarrow>
          (case given_or_old body old ''secret'' ''privateKey'' of Inl e \<Rightarrow> Inl e | Inr privateKey \<Rightarrow>
          (case given_or_old body old ''password'' ''password'' of Inl e \<Rightarrow> Inl e | Inr password \<Rightarrow>
             Inr (credentials_object apiKey privateKey password))))"

section \<open>Verification\<close>

definition verifyCredentials :: "'x exchange_env \<Rightarrow> string \<Rightarrow> json \<Rightarrow> bool \<Rightarrow> api_error + unit" where
  "verifyCredentials E exchangeCode credentials sandbox =
     (if \<not> en_constructor E exchangeCode
      then Inl (HttpError (SaasHttpError 400 ''UNSUPPORTED_EXCHANGE'' ''Exchange is not supported.'' None))
      else if credentials = JNull then Inl (DbError ''TypeError'')
      else if en_balance E exchangeCode
                (field_of credentials ''apiKey'', field_of credentials ''privateKey'', field_of credentials ''password'') sandbox
      then Inr ()
      else Inl (HttpError (SaasHttpError 422 ''EXCHANGE_VERIFICATION_FAILED'' ''Exchange credentials could not be verified.'' None)))"

section \<open>Requests\<close>

definition exchangeValue :: "json_object \<Rightarrow> string checked" where
  "exchangeValue body =
     bindC (stringValue (map_of body ''exchange'') ''exchange'' 30) (\<lambda>s.
       let exchange = toLowerCase s
       in if exchange \<notin> set (map fst supported_exchanges)
          then Inl (SaasHttpError 400 ''UNSUPPORTED_EXCHANGE'' ''Exchange is not supported.'' None) else Inr exchange)"

definition flagValue :: "json_object \<Rightarrow> string \<Rightarrow> bool checked" where
  "flagValue body field = (if map_of body field = None then Inr False else booleanValue (map_of body field) field)"

text \<open>The primary key and \<^verbatim>\<open>UNIQUE(organization_id, label)\<close>.\<close>

definition insert_connection :: "connection_row \<Rightarrow> saas_db \<Rightarrow> api_error + connection_row \<times> saas_db" where
  "insert_connection row db =
     (if \<exists>c \<in> set (sd_exchange_connections db). ec_id c = ec_id row \<or>
           ec_organization_id c = ec_organization_id row \<and> ec_label c = ec_label row
      then Inl (DbError unique_violation)
      else Inr (row, db\<lparr>sd_exchange_connections := sd_exchange_connections db @ [row]\<rparr>))"

definition new_connection ::
    "'x exchange_env \<Rightarrow> api \<Rightarrow> string \<Rightarrow> string \<Rightarrow> string \<Rightarrow> string \<Rightarrow> json \<Rightarrow> bool \<Rightarrow> bool \<Rightarrow> connection_row" where
  "new_connection E A iv organizationId exchange label credentials sandbox shouldVerify =
     \<lparr>ec_id = ap_new_id A, ec_organization_id = organizationId, ec_exchange_code = exchange, ec_label = label,
      ec_credentials_ciphertext = encrypt_credentials E iv credentials, ec_encryption_key_id = keyId E, ec_enabled = True,
      ec_sandbox = sandbox, ec_last_verified_at = (if shouldVerify then Some (ap_now A) else None)\<rparr>"

definition connection_transaction ::
    "'x exchange_env \<Rightarrow> api \<Rightarrow> string \<Rightarrow> string \<Rightarrow> string \<Rightarrow> json_object \<Rightarrow> json \<Rightarrow> bool \<Rightarrow> bool \<Rightarrow> saas_db \<Rightarrow>
     api_error + connection_row \<times> saas_db" where
  "connection_transaction E A iv organizationId exchange body credentials sandbox shouldVerify db =
     guardT (enforceResourceQuota (ap_now A) organizationId ExchangeConnections db) (\<lambda>_.
     guardT (stringValue (map_of body ''label'') ''label'' 100) (\<lambda>label.
       insert_connection (new_connection E A iv organizationId exchange label credentials sandbox shouldVerify) db))"

definition createConnection :: "'x exchange_env \<Rightarrow> api \<Rightarrow> string \<Rightarrow> api_request \<Rightarrow> connection_row handler" where
  "createConnection E A iv req =
     guardH (requireRoles [OWNER, ADMIN] req) (\<lambda>_.
     guardH (requireCurrentLegalConsent A req) (\<lambda>_.
     guardH (authContext req) (\<lambda>auth.
     guardH (objectValue (ar_body req)
       (Some [''exchange'', ''label'', ''apiKey'', ''secret'', ''password'', ''sandbox'', ''verify''])) (\<lambda>body.
     guardH (exchangeValue body) (\<lambda>exchange.
     guardH (flagValue body ''sandbox'') (\<lambda>sandbox.
     guardH (flagValue body ''verify'') (\<lambda>shouldVerify.
     guardH (credentialsFrom body) (\<lambda>credentials db.
       on_unique_violation (SaasHttpError 409 ''LABEL_EXISTS'' ''Connection label already exists.'' None)
         (case if shouldVerify then verifyCredentials E exchange credentials sandbox else Inr () of
            Inl e \<Rightarrow> (Inl e, db)
          | Inr _ \<Rightarrow>
              (case saasTransaction (connection_transaction E A iv (au_organizationId auth) exchange body credentials sandbox shouldVerify) db of
                 (Inl e, db') \<Rightarrow> (Inl e, db')
               | (Inr row, db') \<Rightarrow>
                   (Inr row, writeAuditEvent req ''EXCHANGE_CONNECTION_CREATED'' (Some ''exchange_connection'') (Some (ec_id row))
                      (JObj [(''exchange'', JStr exchange), (''sandbox'', JBool sandbox)]) db')))))))))))"

definition connection_of :: "string \<Rightarrow> string \<Rightarrow> connection_row \<Rightarrow> bool" where
  "connection_of id' organizationId c \<longleftrightarrow> ec_id c = id' \<and> ec_organization_id c = organizationId"

definition verifyConnection :: "'x exchange_env \<Rightarrow> api \<Rightarrow> api_request \<Rightarrow> unit handler" where
  "verifyConnection E A req =
     guardH (requireRoles [OWNER, ADMIN] req) (\<lambda>_.
     guardH (requireCurrentLegalConsent A req) (\<lambda>_.
     guardH (authContext req) (\<lambda>auth.
     guardH (uuidValue (Some (JStr (ar_params_id req))) ''id'') (\<lambda>id' db.
       case find (connection_of id' (au_organizationId auth)) (sd_exchange_connections db) of
         None \<Rightarrow> (Inl (HttpError (notFound ''Exchange connection was not found.'')), db)
       | Some row \<Rightarrow>
           (case stored_credentials E (ec_credentials_ciphertext row) of
              Inl e \<Rightarrow> (Inl e, db)
            | Inr credentials \<Rightarrow>
                (case verifyCredentials E (ec_exchange_code row) credentials (ec_sandbox row) of
                   Inl e \<Rightarrow> (Inl e, db)
                 | Inr _ \<Rightarrow>
                     (Inr (), writeAuditEvent req ''EXCHANGE_CONNECTION_VERIFIED'' (Some ''exchange_connection'') (Some id') (JObj [])
                        (db\<lparr>sd_exchange_connections := update_where (\<lambda>c. ec_id c = id')
                          (\<lambda>c. c\<lparr>ec_last_verified_at := Some (ap_now A)\<rparr>) (sd_exchange_connections db)\<rparr>))))))))"

definition patched_connection :: "'x exchange_env \<Rightarrow> string \<Rightarrow> string option \<Rightarrow> bool option \<Rightarrow> json \<Rightarrow> bool \<Rightarrow> connection_row \<Rightarrow> connection_row" where
  "patched_connection E iv label enabled credentials changed c =
     c\<lparr>ec_label := nullish label (ec_label c), ec_enabled := nullish enabled (ec_enabled c),
       ec_credentials_ciphertext := encrypt_credentials E iv credentials, ec_encryption_key_id := keyId E,
       ec_last_verified_at := (if changed then None else ec_last_verified_at c)\<rparr>"

definition update_connection ::
    "string \<Rightarrow> string \<Rightarrow> (connection_row \<Rightarrow> connection_row) \<Rightarrow> saas_db \<Rightarrow> api_error + unit \<times> saas_db" where
  "update_connection id' organizationId f db =
     (if \<exists>c \<in> set (sd_exchange_connections db). connection_of id' organizationId c \<and>
          (\<exists>o' \<in> set (sd_exchange_connections db). ec_id o' \<noteq> ec_id c \<and> ec_organization_id o' = organizationId \<and> ec_label o' = ec_label (f c))
      then Inl (DbError unique_violation)
      else Inr ((), db\<lparr>sd_exchange_connections := update_where (connection_of id' organizationId) f (sd_exchange_connections db)\<rparr>))"

definition patchConnection :: "'x exchange_env \<Rightarrow> api \<Rightarrow> string \<Rightarrow> api_request \<Rightarrow> unit handler" where
  "patchConnection E A iv req =
     guardH (requireRoles [OWNER, ADMIN] req) (\<lambda>_.
     guardH (requireCurrentLegalConsent A req) (\<lambda>_.
     guardH (authContext req) (\<lambda>auth.
     guardH (uuidValue (Some (JStr (ar_params_id req))) ''id'') (\<lambda>id'.
     guardH (objectValue (ar_body req) (Some [''label'', ''enabled'', ''apiKey'', ''secret'', ''password''])) (\<lambda>body db.
       case find (connection_of id' (au_organizationId auth)) (sd_exchange_connections db) of
         None \<Rightarrow> (Inl (HttpError (notFound ''Resource was not found.'')), db)
       | Some current \<Rightarrow>
           (case stored_credentials E (ec_credentials_ciphertext current) of
              Inl e \<Rightarrow> (Inl e, db)
            | Inr old \<Rightarrow>
                (case changed_credentials body old of
                   Inl e \<Rightarrow> (Inl e, db)
                 | Inr credentials \<Rightarrow>
                     guardH (optionalStringValue (map_of body ''label'') ''label'' 100) (\<lambda>label.
                     guardH (if map_of body ''enabled'' = None then Inr None
                             else map_sum id Some (booleanValue (map_of body ''enabled'') ''enabled'')) (\<lambda>enabled db.
                       case saasTransaction (update_connection id' (au_organizationId auth)
                              (patched_connection E iv label enabled credentials (changesCredentials body))) db of
                         (Inl e, db') \<Rightarrow> (Inl e, db')
                       | (Inr _, db') \<Rightarrow>
                           (Inr (), writeAuditEvent req ''EXCHANGE_CONNECTION_UPDATED'' (Some ''exchange_connection'') (Some id')
                              (JObj [(''credentialsChanged'', JBool (changesCredentials body))]) db'))) db)))))))"

end
