(* ===== verification/Connections.thy ===== *)
theory Connections
  imports Exchanges_Router Bot_Supervision
begin

text \<open>
  What the stored connections promise: every one of them can be opened again, holds three strings, belongs to
  an exchange the worker knows, and is marked verified only when the exchange accepted exactly these
  credentials; and the credentials of a request are those the bot of the worker is started with.
\<close>

section \<open>The store of secrets\<close>

definition keys :: "string \<Rightarrow> string \<Rightarrow> string \<Rightarrow> json" where
  "keys apiKey privateKey password = credentials_object (Some (JStr apiKey)) (Some (JStr privateKey)) (Some (JStr password))"

text \<open>The cipher of \<^verbatim>\<open>crypto\<close>, and \<^verbatim>\<open>JSON.parse\<close> as the inverse of \<^verbatim>\<open>JSON.stringify\<close> on the object of three strings.\<close>

locale secret_store =
  fixes E :: "'x exchange_env"
  assumes cipher: "gcm (p_gcm_seal (en_platform E)) (p_gcm_open (en_platform E))"
    and parse: "en_parse E (en_stringify E (keys a b c)) = Inr (keys a b c)"
    and text_nonempty: "en_stringify E (keys a b c) \<noteq> []"
begin

lemma decrypt_encrypt:
  "iv \<noteq> [] \<Longrightarrow> CHR '':'' \<notin> set iv \<Longrightarrow>
   decrypt (en_platform E) (encrypt_credentials E iv (keys a b c)) = Inr (en_stringify E (keys a b c))"
  by (simp add: encrypt_credentials_def envelope_def decrypt_envelope [OF cipher] text_nonempty del: join.simps)

lemma stored_encrypt:
  "iv \<noteq> [] \<Longrightarrow> CHR '':'' \<notin> set iv \<Longrightarrow> stored_credentials E (encrypt_credentials E iv (keys a b c)) = Inr (keys a b c)"
  by (simp add: stored_credentials_def decrypt_encrypt parse)

end

text \<open>A codec that computes: every character behind a mark, every string closed by a dot.\<close>

fun sim_write :: "string \<Rightarrow> string" where
  "sim_write [] = ''.''"
| "sim_write (c # s) = CHR ''c'' # c # sim_write s"

fun sim_read :: "string \<Rightarrow> string \<times> string" where
  "sim_read (m # rest) =
     (if m = CHR ''.'' then ([], rest)
      else case rest of [] \<Rightarrow> ([], []) | c # rest' \<Rightarrow> (case sim_read rest' of (s, r) \<Rightarrow> (c # s, r)))"
| "sim_read [] = ([], [])"

definition sim_stringify :: "json \<Rightarrow> string" where
  "sim_stringify v =
     (case v of JObj [(_, JStr a), (_, JStr b), (_, JStr c)] \<Rightarrow> sim_write a @ sim_write b @ sim_write c | _ \<Rightarrow> ''null'')"

definition sim_parse :: "string \<Rightarrow> js_error + json" where
  "sim_parse text = (let (a, r) = sim_read text; (b, r) = sim_read r; (c, r) = sim_read r in Inr (keys a b c))"

definition sim_env :: "sim exchange_env" where
  "sim_env =
     \<lparr>en_platform = sim_platform Web, en_stringify = sim_stringify, en_parse = sim_parse, en_key_id = None,
      en_constructor = (\<lambda>_. True), en_balance = (\<lambda>_ k _. k = (Some (JStr ''k''), Some (JStr ''s''), Some (JStr ''p'')))\<rparr>"

lemma sim_read_write: "sim_read (sim_write s @ r) = (s, r)"
  by (induction s) auto

lemma credentials_object_strings:
  "credentials_object (Some a) (Some b) (Some c) = JObj [(''apiKey'', a), (''privateKey'', b), (''password'', c)]"
  by (simp add: credentials_object_def List.map_filter_simps)

interpretation sim_store: secret_store sim_env
proof (rule secret_store.intro)
  show "gcm (p_gcm_seal (en_platform sim_env)) (p_gcm_open (en_platform sim_env))"
    unfolding sim_env_def by (simp add: sim_cipher.gcm_axioms)
  fix a b c
  show "en_parse sim_env (en_stringify sim_env (keys a b c)) = Inr (keys a b c)"
    using sim_read_write [of a "sim_write b @ sim_write c"] sim_read_write [of b "sim_write c"] sim_read_write [of c "[]"]
    by (simp add: sim_env_def sim_parse_def sim_stringify_def keys_def credentials_object_strings)
  have "sim_write a \<noteq> []" by (cases a) auto
  then show "en_stringify sim_env (keys a b c) \<noteq> []"
    by (simp add: sim_env_def sim_stringify_def keys_def credentials_object_strings)
qed

section \<open>Invariant\<close>

definition accepted_keys :: "'x exchange_env \<Rightarrow> string \<Rightarrow> string \<Rightarrow> string \<Rightarrow> string \<Rightarrow> bool \<Rightarrow> bool" where
  "accepted_keys E exchange a b c sandbox \<longleftrightarrow> en_balance E exchange (Some (JStr a), Some (JStr b), Some (JStr c)) sandbox"

definition connection_ok :: "'x exchange_env \<Rightarrow> connection_row \<Rightarrow> bool" where
  "connection_ok E c \<longleftrightarrow> ec_exchange_code c \<in> set (map fst supported_exchanges) \<and>
     (\<exists>apiKey privateKey password. stored_credentials E (ec_credentials_ciphertext c) = Inr (keys apiKey privateKey password) \<and>
        (ec_last_verified_at c \<noteq> None \<longrightarrow> accepted_keys E (ec_exchange_code c) apiKey privateKey password (ec_sandbox c)))"

definition connections_ok :: "'x exchange_env \<Rightarrow> saas_db \<Rightarrow> bool" where
  "connections_ok E db \<longleftrightarrow> (\<forall>c \<in> set (sd_exchange_connections db). connection_ok E c) \<and> distinct (map ec_id (sd_exchange_connections db))"

lemma keys_eq [simp]: "keys a b c = keys a' b' c' \<longleftrightarrow> a = a' \<and> b = b' \<and> c = c'"
  by (simp add: keys_def credentials_object_strings)

lemma field_of_keys [simp]:
  "field_of (keys a b c) ''apiKey'' = Some (JStr a)" "field_of (keys a b c) ''privateKey'' = Some (JStr b)"
  "field_of (keys a b c) ''password'' = Some (JStr c)"
  by (simp_all add: field_of_def keys_def credentials_object_strings)

lemma credentialsFrom_Inr:
  "credentialsFrom body = Inr v \<longleftrightarrow> (\<exists>a b p. stringValue (map_of body ''apiKey'') ''apiKey'' 512 = Inr a \<and>
     stringValue (map_of body ''secret'') ''secret'' 512 = Inr b \<and>
     optionalStringValue (map_of body ''password'') ''password'' 512 = Inr p \<and> v = keys a b (nullish p []))"
  by (auto simp: credentialsFrom_def bindC_Inr keys_def)

lemma changed_credentials_keys:
  assumes "changed_credentials body (keys a b c) = Inr v"
  obtains a' b' c' where "v = keys a' b' c'" and "\<not> changesCredentials body \<Longrightarrow> a' = a \<and> b' = b \<and> c' = c"
    and "map_of body ''apiKey'' = None \<Longrightarrow> a' = a" and "map_of body ''secret'' = None \<Longrightarrow> b' = b"
    and "map_of body ''password'' = None \<Longrightarrow> c' = c"
proof (cases "changesCredentials body")
  case False
  with assms show thesis by (intro that) (auto simp: changed_credentials_def)
next
  case True
  have old: "property_of (keys a b c) ''apiKey'' = Inr (Some (JStr a))" "property_of (keys a b c) ''privateKey'' = Inr (Some (JStr b))"
    "property_of (keys a b c) ''password'' = Inr (Some (JStr c))"
    by (simp_all add: property_of_def keys_def credentials_object_strings)
  have kept: "\<exists>s'. x = Some (JStr s') \<and> (map_of body name = None \<longrightarrow> s' = s)"
    if "given_or_old body (keys a b c) name field = Inr x" "property_of (keys a b c) field = Inr (Some (JStr s))" for x name field s
    using that by (auto simp: given_or_old_def guardT_Inr optionalStringValue_def split: option.split_asm)
  from assms True obtain x y z where "given_or_old body (keys a b c) ''apiKey'' ''apiKey'' = Inr x"
      "given_or_old body (keys a b c) ''secret'' ''privateKey'' = Inr y" "given_or_old body (keys a b c) ''password'' ''password'' = Inr z"
    and v: "v = credentials_object x y z"
    by (auto simp: changed_credentials_def split: sum.split_asm)
  from kept [OF this(1) old(1)] kept [OF this(2) old(2)] kept [OF this(3) old(3)] show thesis
    using that True by (auto simp: v keys_def)
qed

section \<open>Requests keep the invariant\<close>

text \<open>A successful answer passed every test on its way.\<close>

lemma reply_Inr:
  "(case r of None \<Rightarrow> (Inl e, db0) | Some x \<Rightarrow> k x) = (Inr y, db') \<longleftrightarrow> (\<exists>x. r = Some x \<and> k x = (Inr y, db'))"
  "(case s of Inl e \<Rightarrow> (Inl (f e), db0) | Inr x \<Rightarrow> h x) = (Inr y, db') \<longleftrightarrow> (\<exists>x. s = Inr x \<and> h x = (Inr y, db'))"
  "(case saasTransaction work db of (Inl e, db1) \<Rightarrow> (Inl e, db1) | (Inr x, db1) \<Rightarrow> (Inr (u x), g x db1)) = (Inr y, db') \<longleftrightarrow>
     (\<exists>x db1. work db = Inr (x, db1) \<and> y = u x \<and> db' = g x db1)"
  by (auto simp: saasTransaction_def split: option.split sum.split prod.split)

lemma insert_connection_Inr: "insert_connection row db = Inr (r, db') \<Longrightarrow>
    r = row \<and> sd_exchange_connections db' = sd_exchange_connections db @ [row] \<and> ec_id row \<notin> ec_id ` set (sd_exchange_connections db)"
  by (auto simp: insert_connection_def split: if_split_asm)

lemma createConnection_Inr:
  assumes "createConnection E A iv req db = (Inr row, db')"
  obtains auth body exchange sandbox shouldVerify a b p label where
    "authContext req = Inr auth" "exchange \<in> set (map fst supported_exchanges)"
    "objectValue (ar_body req) (Some [''exchange'', ''label'', ''apiKey'', ''secret'', ''password'', ''sandbox'', ''verify'']) = Inr body"
    "stringValue (map_of body ''apiKey'') ''apiKey'' 512 = Inr a" "stringValue (map_of body ''secret'') ''secret'' 512 = Inr b"
    "optionalStringValue (map_of body ''password'') ''password'' 512 = Inr p"
    "row = new_connection E A iv (au_organizationId auth) exchange label (keys a b (nullish p [])) sandbox shouldVerify"
    "shouldVerify \<Longrightarrow> accepted_keys E exchange a b (nullish p []) sandbox"
    "sd_exchange_connections db' = sd_exchange_connections db @ [row]"
    "ec_id row \<notin> ec_id ` set (sd_exchange_connections db)"
proof -
  from assms obtain auth body exchange sandbox shouldVerify a b p
    where a: "authContext req = Inr auth" "exchangeValue body = Inr exchange"
      "objectValue (ar_body req) (Some [''exchange'', ''label'', ''apiKey'', ''secret'', ''password'', ''sandbox'', ''verify'']) = Inr body"
      "stringValue (map_of body ''apiKey'') ''apiKey'' 512 = Inr a" "stringValue (map_of body ''secret'') ''secret'' 512 = Inr b"
      "optionalStringValue (map_of body ''password'') ''password'' 512 = Inr p"
    and run: "(case if shouldVerify then verifyCredentials E exchange (keys a b (nullish p [])) sandbox else Inr () of
            Inl e \<Rightarrow> (Inl e, db)
          | Inr _ \<Rightarrow>
              (case saasTransaction (connection_transaction E A iv (au_organizationId auth) exchange body (keys a b (nullish p [])) sandbox shouldVerify) db of
                 (Inl e, db') \<Rightarrow> (Inl e, db')
               | (Inr row, db') \<Rightarrow>
                   (Inr row, writeAuditEvent req ''EXCHANGE_CONNECTION_CREATED'' (Some ''exchange_connection'') (Some (ec_id row))
                      (JObj [(''exchange'', JStr exchange), (''sandbox'', JBool sandbox)]) db'))) = (Inr row, db')"
    unfolding createConnection_def guardH_Inr credentialsFrom_Inr on_unique_violation_Inr by blast
  from run obtain db1 where verified: "shouldVerify \<Longrightarrow> verifyCredentials E exchange (keys a b (nullish p [])) sandbox = Inr ()"
    and t: "connection_transaction E A iv (au_organizationId auth) exchange body (keys a b (nullish p [])) sandbox shouldVerify db = Inr (row, db1)"
    and db': "sd_exchange_connections db' = sd_exchange_connections db1"
    by (auto simp: saasTransaction_Inr split: sum.split_asm prod.split_asm if_split_asm)
  from verified have ver: "shouldVerify \<Longrightarrow> accepted_keys E exchange a b (nullish p []) sandbox"
    by (auto simp: verifyCredentials_def accepted_keys_def split: if_split_asm)
  from a(2) have ex: "exchange \<in> set (map fst supported_exchanges)"
    by (auto simp: exchangeValue_def bindC_Inr Let_def split: if_split_asm)
  from t obtain label where row:
      "row = new_connection E A iv (au_organizationId auth) exchange label (keys a b (nullish p [])) sandbox shouldVerify"
      "sd_exchange_connections db1 = sd_exchange_connections db @ [row]" "ec_id row \<notin> ec_id ` set (sd_exchange_connections db)"
    by (auto simp: connection_transaction_def guardT_Inr dest!: insert_connection_Inr)
  show thesis by (rule that [OF a(1) ex a(3-6) row(1) ver]) (simp_all add: db' row(2,3))
qed

text \<open>An initialisation vector: twelve bytes in hexadecimal digits.\<close>

definition proper_iv :: "string \<Rightarrow> bool" where
  "proper_iv iv \<longleftrightarrow> length iv = 24 \<and> list_all is_hex iv"

lemma proper_ivD: "proper_iv iv \<Longrightarrow> iv \<noteq> [] \<and> CHR '':'' \<notin> set iv"
proof -
  have "\<not> is_hex CHR '':''" by (simp add: is_hex_def)
  then show "proper_iv iv \<Longrightarrow> iv \<noteq> [] \<and> CHR '':'' \<notin> set iv" by (auto simp: proper_iv_def list_all_iff)
qed

lemma createConnection_ok:
  assumes "secret_store E" and "proper_iv iv" and "createConnection E A iv req db = (Inr row, db')" and "connections_ok E db"
  shows "connections_ok E db'"
proof -
  from createConnection_Inr [OF assms(3)] obtain org exchange label a b p sandbox shouldVerify where
      ex: "exchange \<in> set (map fst supported_exchanges)"
      and row: "row = new_connection E A iv org exchange label (keys a b (nullish p [])) sandbox shouldVerify"
      and v: "shouldVerify \<Longrightarrow> accepted_keys E exchange a b (nullish p []) sandbox"
      and db': "sd_exchange_connections db' = sd_exchange_connections db @ [row]"
      and new: "ec_id row \<notin> ec_id ` set (sd_exchange_connections db)"
    by metis
  have "stored_credentials E (ec_credentials_ciphertext row) = Inr (keys a b (nullish p []))"
    using secret_store.stored_encrypt [OF assms(1)] proper_ivD [OF assms(2)] by (simp add: row new_connection_def)
  with ex v have "connection_ok E row" by (auto simp: connection_ok_def row new_connection_def)
  with assms(4) db' new show ?thesis by (simp add: connections_ok_def)
qed

lemma verifyConnection_Inr:
  assumes "verifyConnection E A req db = (Inr u, db')"
  obtains org id' row credentials where
    "find (connection_of id' org) (sd_exchange_connections db) = Some row"
    "stored_credentials E (ec_credentials_ciphertext row) = Inr credentials"
    "verifyCredentials E (ec_exchange_code row) credentials (ec_sandbox row) = Inr ()"
    "sd_exchange_connections db' =
       update_where (\<lambda>c. ec_id c = id') (\<lambda>c. c\<lparr>ec_last_verified_at := Some (ap_now A)\<rparr>) (sd_exchange_connections db)"
proof -
  from assms obtain auth :: auth_context and id' row credentials v where
      a: "find (connection_of id' (au_organizationId auth)) (sd_exchange_connections db) = Some row"
      "stored_credentials E (ec_credentials_ciphertext row) = Inr credentials"
      "verifyCredentials E (ec_exchange_code row) credentials (ec_sandbox row) = Inr v"
    and db': "writeAuditEvent req ''EXCHANGE_CONNECTION_VERIFIED'' (Some ''exchange_connection'') (Some id') (JObj [])
        (db\<lparr>sd_exchange_connections := update_where (\<lambda>c. ec_id c = id') (\<lambda>c. c\<lparr>ec_last_verified_at := Some (ap_now A)\<rparr>)
          (sd_exchange_connections db)\<rparr>) = db'"
    unfolding verifyConnection_def guardH_Inr reply_Inr prod.inject by blast
  from a(3) have "verifyCredentials E (ec_exchange_code row) credentials (ec_sandbox row) = Inr ()" by simp
  with a(1,2) show thesis by (rule that) (simp flip: db')
qed

lemma verifyConnection_ok:
  assumes "verifyConnection E A req db = (Inr u, db')" and "connections_ok E db"
  shows "connections_ok E db'"
proof -
  from verifyConnection_Inr [OF assms(1)] obtain org id' row credentials where
      row: "find (connection_of id' org) (sd_exchange_connections db) = Some row"
      and stored: "stored_credentials E (ec_credentials_ciphertext row) = Inr credentials"
      and v: "verifyCredentials E (ec_exchange_code row) credentials (ec_sandbox row) = Inr ()"
      and db': "sd_exchange_connections db' =
        update_where (\<lambda>c. ec_id c = id') (\<lambda>c. c\<lparr>ec_last_verified_at := Some (ap_now A)\<rparr>) (sd_exchange_connections db)"
    by metis
  from row have r: "row \<in> set (sd_exchange_connections db)" "ec_id row = id'" by (auto simp: find_Some_iff connection_of_def)
  with assms(2) stored obtain a b c where keys: "credentials = keys a b c"
    unfolding connections_ok_def connection_ok_def by fastforce
  with v have accepted: "accepted_keys E (ec_exchange_code row) a b c (ec_sandbox row)"
    by (auto simp: verifyCredentials_def accepted_keys_def split: if_split_asm)
  have only: "q = row" if "q \<in> set (sd_exchange_connections db)" "ec_id q = id'" for q
    using assms(2) that r by (auto simp: connections_ok_def distinct_map dest: inj_onD)
  have "connection_ok E (c'\<lparr>ec_last_verified_at := Some (ap_now A)\<rparr>)" if "c' \<in> set (sd_exchange_connections db)" "ec_id c' = id'" for c'
    using assms(2) stored accepted only [OF that] r(1) keys by (auto simp: connections_ok_def connection_ok_def)
  with assms(2) have "\<forall>c \<in> set (sd_exchange_connections db'). connection_ok E c"
    by (auto simp: connections_ok_def db' update_where_def)
  moreover have "map ec_id (sd_exchange_connections db') = map ec_id (sd_exchange_connections db)"
    unfolding db' by (rule map_update_where) simp
  ultimately show ?thesis using assms(2) by (simp add: connections_ok_def)
qed

lemma patchConnection_Inr:
  assumes "patchConnection E A iv req db = (Inr (), db')"
  obtains auth id' body current old credentials label enabled where
    "authContext req = Inr auth" "uuidValue (Some (JStr (ar_params_id req))) ''id'' = Inr id'"
    "objectValue (ar_body req) (Some [''label'', ''enabled'', ''apiKey'', ''secret'', ''password'']) = Inr body"
    "find (connection_of id' (au_organizationId auth)) (sd_exchange_connections db) = Some current"
    "stored_credentials E (ec_credentials_ciphertext current) = Inr old" "changed_credentials body old = Inr credentials"
    "sd_exchange_connections db' = update_where (connection_of id' (au_organizationId auth))
       (patched_connection E iv label enabled credentials (changesCredentials body)) (sd_exchange_connections db)"
proof -
  from assms obtain auth id' body current old credentials where
    a: "authContext req = Inr auth" "uuidValue (Some (JStr (ar_params_id req))) ''id'' = Inr id'"
    "objectValue (ar_body req) (Some [''label'', ''enabled'', ''apiKey'', ''secret'', ''password'']) = Inr body"
    "find (connection_of id' (au_organizationId auth)) (sd_exchange_connections db) = Some current"
    "stored_credentials E (ec_credentials_ciphertext current) = Inr old" "changed_credentials body old = Inr credentials"
    and run: "guardH (optionalStringValue (map_of body ''label'') ''label'' 100) (\<lambda>label.
        guardH (if map_of body ''enabled'' = None then Inr None
                else map_sum id Some (booleanValue (map_of body ''enabled'') ''enabled'')) (\<lambda>enabled db.
          case saasTransaction (update_connection id' (au_organizationId auth)
                 (patched_connection E iv label enabled credentials (changesCredentials body))) db of
            (Inl e, db') \<Rightarrow> (Inl e, db')
          | (Inr _, db') \<Rightarrow>
              (Inr (), writeAuditEvent req ''EXCHANGE_CONNECTION_UPDATED'' (Some ''exchange_connection'') (Some id')
                 (JObj [(''credentialsChanged'', JBool (changesCredentials body))]) db'))) db = (Inr (), db')"
    unfolding patchConnection_def guardH_Inr reply_Inr by blast
  from run obtain label enabled db1 where "update_connection id' (au_organizationId auth)
        (patched_connection E iv label enabled credentials (changesCredentials body)) db = Inr ((), db1)"
      and "db' = writeAuditEvent req ''EXCHANGE_CONNECTION_UPDATED'' (Some ''exchange_connection'') (Some id')
        (JObj [(''credentialsChanged'', JBool (changesCredentials body))]) db1"
    unfolding guardH_Inr reply_Inr by (metis (full_types) unit_eq)
  with a that show thesis by (auto simp: update_connection_def split: if_split_asm)
qed

lemma patchConnection_ok:
  assumes "secret_store E" and "proper_iv iv" and "patchConnection E A iv req db = (Inr (), db')" and "connections_ok E db"
  shows "connections_ok E db'"
proof -
  from patchConnection_Inr [OF assms(3)] obtain org id' body current old credentials label enabled where
      current: "find (connection_of id' org) (sd_exchange_connections db) = Some current"
      and stored: "stored_credentials E (ec_credentials_ciphertext current) = Inr old"
      and changed: "changed_credentials body old = Inr credentials"
      and db': "sd_exchange_connections db' = update_where (connection_of id' org)
        (patched_connection E iv label enabled credentials (changesCredentials body)) (sd_exchange_connections db)"
    by metis
  from current have c: "current \<in> set (sd_exchange_connections db)" "ec_id current = id'" by (auto simp: find_Some_iff connection_of_def)
  with assms(4) stored obtain a b p where old: "old = keys a b p"
    unfolding connections_ok_def connection_ok_def by fastforce
  obtain a' b' p' where new: "credentials = keys a' b' p'" and same: "\<not> changesCredentials body \<Longrightarrow> a' = a \<and> b' = b \<and> p' = p"
    using changed_credentials_keys [OF changed [unfolded old]] by metis
  have only: "q = current" if "q \<in> set (sd_exchange_connections db)" "connection_of id' org q" for q
    using assms(4) that c by (auto simp: connections_ok_def distinct_map connection_of_def dest: inj_onD)
  have "stored_credentials E (encrypt_credentials E iv credentials) = Inr (keys a' b' p')"
    using secret_store.stored_encrypt [OF assms(1)] proper_ivD [OF assms(2)] by (simp add: new)
  then have "connection_ok E (patched_connection E iv label enabled credentials (changesCredentials body) current)"
    using assms(4) stored old same c(1) by (auto simp: connections_ok_def connection_ok_def patched_connection_def)
  with only assms(4) have "\<forall>c \<in> set (sd_exchange_connections db'). connection_ok E c"
    by (auto simp: connections_ok_def db' update_where_def)
  moreover have "map ec_id (sd_exchange_connections db') = map ec_id (sd_exchange_connections db)"
    unfolding db' by (rule map_update_where) (simp add: patched_connection_def)
  ultimately show ?thesis using assms(4) by (simp add: connections_ok_def)
qed

text \<open>
  A change of the label to one in use violates the uniqueness of the table. Only the creation turns this error
  into an answer of its own; the update leaves it to become an internal error.
\<close>

lemma label_in_use:
  assumes "c \<in> set (sd_exchange_connections db)" and "connection_of id' organizationId c"
    and "d \<in> set (sd_exchange_connections db)" and "ec_id d \<noteq> id'" and "ec_organization_id d = organizationId" and "ec_label d = label"
  shows "update_connection id' organizationId (patched_connection E iv (Some label) enabled credentials changed) db =
    Inl (DbError unique_violation)"
  using assms by (auto simp: update_connection_def patched_connection_def connection_of_def)

section \<open>Properties\<close>

datatype exchange_request = CreateConnection | VerifyConnection | PatchConnection

text \<open>A request is served with the time and the identifier of its \<^typ>\<open>api\<close> and the vector drawn for it.\<close>

definition serve_exchange :: "'x exchange_env \<Rightarrow> exchange_request \<times> api \<times> string \<times> api_request \<Rightarrow> saas_db \<Rightarrow> saas_db" where
  "serve_exchange E r db =
     (case r of (kind, A, iv, req) \<Rightarrow>
        (case kind of
           CreateConnection \<Rightarrow> snd (createConnection E A iv req db)
         | VerifyConnection \<Rightarrow> snd (verifyConnection E A req db)
         | PatchConnection \<Rightarrow> snd (patchConnection E A iv req db)))"

lemma rolls_back_cases:
  "(\<And>x. rolls_back (k x)) \<Longrightarrow> rolls_back (\<lambda>db. case r db of None \<Rightarrow> (Inl e, db) | Some x \<Rightarrow> k x db)"
  "(\<And>x. rolls_back (h x)) \<Longrightarrow> rolls_back (\<lambda>db. case q db of Inl e \<Rightarrow> (Inl (f e), db) | Inr x \<Rightarrow> h x db)"
  by (auto simp: rolls_back_def split: option.split sum.split)

lemma exchange_rolls_back:
  "rolls_back (createConnection E A iv req)" "rolls_back (verifyConnection E A req)" "rolls_back (patchConnection E A iv req)"
proof -
  have finished: "rolls_back (\<lambda>db. (Inr (), g db))" for g by (simp add: rolls_back_def)
  show "rolls_back (createConnection E A iv req)"
    unfolding createConnection_def
    by (intro rolls_back_guard rolls_back_unique rolls_back_cases rolls_back_transaction)
  show "rolls_back (verifyConnection E A req)"
    unfolding verifyConnection_def by (intro rolls_back_guard rolls_back_cases finished)
  show "rolls_back (patchConnection E A iv req)"
    unfolding patchConnection_def by (intro rolls_back_guard rolls_back_cases rolls_back_transaction)
qed

lemma serve_exchange_ok:
  assumes "secret_store E" and "proper_iv iv" and "connections_ok E db"
  shows "connections_ok E (serve_exchange E (kind, A, iv, req) db)"
proof -
  have kept: "connections_ok E (snd (m db))"
    if "rolls_back m" "\<And>x db'. m db = (Inr x, db') \<Longrightarrow> connections_ok E db'" for m :: "'b handler"
    using that assms(3) by (cases "m db"; cases "fst (m db)") (auto simp: rolls_back_def)
  show ?thesis
    by (cases kind)
       (auto simp: serve_exchange_def intro!: kept exchange_rolls_back
         intro: createConnection_ok [OF assms(1,2) _ assms(3)] verifyConnection_ok [OF _ assms(3)] patchConnection_ok [OF assms(1,2) _ assms(3)])
qed


text \<open>
  C23: The credentials of a request are those a bot trades with: what \<^verbatim>\<open>POST /exchanges\<close> accepted is stored
  encrypted, and the worker that opens it starts its process on the same exchange with exactly this key,
  secret and passphrase.
\<close>
theorem connection_credentials_reach_the_bot:
  assumes "secret_store E" and "proper_iv iv" and "createConnection E A iv req db = (Inr row, db')"
    and "objectValue (ar_body req) (Some [''exchange'', ''label'', ''apiKey'', ''secret'', ''password'', ''sandbox'', ''verify'']) = Inr body"
    and "stringValue (map_of body ''apiKey'') ''apiKey'' 512 = Inr apiKey" and "stringValue (map_of body ''secret'') ''secret'' 512 = Inr secret"
    and "optionalStringValue (map_of body ''password'') ''password'' 512 = Inr password"
    and "ld_platform L = en_platform E" and "ld_parse L = en_parse E"
    and "map_of (tb_configuration b) ''symbol'' = Some (JStr symbol)" and "CHR ''/'' \<in> set symbol"
  shows "row \<in> set (sd_exchange_connections db') \<and> (\<exists>exchange. map_of supported_exchanges (ec_exchange_code row) = Some exchange \<and>
    legacyConfig L (bot_view_of b row) = Inr (runtime_config apiKey secret (nullish password []) exchange symbol (tb_configuration b)))"
proof -
  obtain org body' exchange sandbox shouldVerify k x p label where ex: "exchange \<in> set (map fst supported_exchanges)"
    and same: "objectValue (ar_body req) (Some [''exchange'', ''label'', ''apiKey'', ''secret'', ''password'', ''sandbox'', ''verify'']) = Inr body'"
      "stringValue (map_of body' ''apiKey'') ''apiKey'' 512 = Inr k" "stringValue (map_of body' ''secret'') ''secret'' 512 = Inr x"
      "optionalStringValue (map_of body' ''password'') ''password'' 512 = Inr p"
    and row0: "row = new_connection E A iv org exchange label (keys k x (nullish p [])) sandbox shouldVerify"
    and db': "sd_exchange_connections db' = sd_exchange_connections db @ [row]"
    by (rule createConnection_Inr [OF assms(3)]) blast
  have row: "row = new_connection E A iv org exchange label (keys apiKey secret (nullish password [])) sandbox shouldVerify"
    using same assms(4-7) by (simp add: row0)
  from ex obtain known where known: "map_of supported_exchanges exchange = Some known"
    by (metis list.set_map map_of_eq_None_iff not_Some_eq)
  have code: "ec_exchange_code row = exchange" by (simp add: row new_connection_def)
  have "decrypt (en_platform E) (ec_credentials_ciphertext row) = Inr (en_stringify E (keys apiKey secret (nullish password [])))"
    using secret_store.decrypt_encrypt [OF assms(1)] proper_ivD [OF assms(2)] by (simp add: row new_connection_def)
  then have "legacyConfig L (bot_view_of b row) = Inr (runtime_config apiKey secret (nullish password []) known symbol (tb_configuration b))"
    using known assms(8-11) secret_store.parse [OF assms(1)]
    by (simp add: legacyConfig_def bot_view_of_def code keys_def credentials_object_strings credential_def)
  with known db' show ?thesis by (auto simp: code)
qed

text \<open>An owner connects his account with a verification.\<close>

definition sim_connect_body :: json_object where
  "sim_connect_body = [(''exchange'', JStr ''OKX''), (''label'', JStr ''main''), (''apiKey'', JStr ''k''), (''secret'', JStr ''s''),
     (''password'', JStr ''p''), (''verify'', JBool True)]"

definition sim_connect :: api_request where
  "sim_connect = sim_request\<lparr>ar_auth := Some (sim_auth\<lparr>au_role := OWNER\<rparr>), ar_body := Some (JObj sim_connect_body)\<rparr>"

definition sim_consent_api :: api where
  "sim_consent_api = sim_api\<lparr>ap_users := \<lambda>_. Some (''1'', ''1'')\<rparr>"

definition sim_iv :: string where
  "sim_iv = replicate 24 CHR ''0''"

definition sim_connected_row :: connection_row where
  "sim_connected_row = new_connection sim_env sim_consent_api sim_iv ''org'' ''okx'' ''main'' (keys ''k'' ''s'' ''p'') False True"

lemma sim_iv_proper: "proper_iv sim_iv"
  by (simp add: proper_iv_def sim_iv_def list_all_iff is_hex_def)

lemma sim_connect_fields:
  "objectValue (ar_body sim_connect) (Some [''exchange'', ''label'', ''apiKey'', ''secret'', ''password'', ''sandbox'', ''verify'']) = Inr sim_connect_body"
  "stringValue (map_of sim_connect_body ''apiKey'') ''apiKey'' 512 = Inr ''k''"
  "stringValue (map_of sim_connect_body ''secret'') ''secret'' 512 = Inr ''s''"
  "optionalStringValue (map_of sim_connect_body ''password'') ''password'' 512 = Inr (Some ''p'')"
  "stringValue (map_of sim_connect_body ''label'') ''label'' 100 = Inr ''main''"
  "exchangeValue sim_connect_body = Inr ''okx''" "flagValue sim_connect_body ''sandbox'' = Inr False"
  "flagValue sim_connect_body ''verify'' = Inr True"
proof -
  have "toLowerCase ''OKX'' = ''okx''" by code_simp
  then show "exchangeValue sim_connect_body = Inr ''okx''"
    by (simp add: exchangeValue_def sim_connect_body_def stringValue_def trim_def is_space_def supported_exchanges_def)
qed (simp_all add: sim_connect_def sim_connect_body_def objectValue_def stringValue_def optionalStringValue_def trim_def is_space_def
    flagValue_def booleanValue_def)

lemma sim_connect_runs:
  "\<exists>db'. createConnection sim_env sim_consent_api sim_iv sim_connect sim_bots_db = (Inr sim_connected_row, db')"
proof -
  have guards: "requireRoles [OWNER, ADMIN] sim_connect = Inr ()" "requireCurrentLegalConsent sim_consent_api sim_connect = Inr ()"
    "authContext sim_connect = Inr (sim_auth\<lparr>au_role := OWNER\<rparr>)"
    by (simp_all add: requireRoles_def requireCurrentLegalConsent_def authContext_def sim_connect_def sim_request_def sim_auth_def sim_api_def
        sim_consent_api_def)
  have creds: "credentialsFrom sim_connect_body = Inr (keys ''k'' ''s'' ''p'')"
    by (simp add: credentialsFrom_Inr sim_connect_fields)
  have ok: "verifyCredentials sim_env ''okx'' (keys ''k'' ''s'' ''p'') False = Inr ()"
    by (simp add: verifyCredentials_def sim_env_def) (simp add: keys_def credentials_object_strings)
  have quota: "enforceResourceQuota (ap_now sim_consent_api) ''org'' ExchangeConnections sim_bots_db = Inr (PRO, planCatalog PRO)"
    by (simp add: enforceResourceQuota_def resource_limit_def resource_count_def planCatalog_def activePlan_def entitled_def sim_bots_db_def
        sim_saas_db_def sim_billing_defs sim_consent_api_def sim_api_def Let_def)
  have none: "sd_exchange_connections sim_bots_db = []" by (simp add: sim_bots_db_def sim_saas_db_def)
  show ?thesis
    by (simp add: createConnection_def guards sim_connect_fields creds ok guardH_def connection_transaction_def guardT_def quota none
        sim_auth_def insert_connection_def saasTransaction_def on_unique_violation_def sim_connected_row_def)
qed

lemma sim_connections_ok: "connections_ok sim_env sim_bots_db"
  by (simp add: connections_ok_def sim_bots_db_def sim_saas_db_def)


theorem connection_credentials_reach_the_bot_witness:
  "\<exists>exchange. legacyConfig (sim_leader\<lparr>ld_platform := sim_platform Web, ld_parse := sim_parse\<rparr>) (bot_view_of sim_bot sim_connected_row) =
     Inr (runtime_config ''k'' ''s'' ''p'' exchange ''ETH/USDT'' (tb_configuration sim_bot))"
proof -
  obtain db' where run: "createConnection sim_env sim_consent_api sim_iv sim_connect sim_bots_db = (Inr sim_connected_row, db')"
    using sim_connect_runs by blast
  have "ld_platform (sim_leader\<lparr>ld_platform := sim_platform Web, ld_parse := sim_parse\<rparr>) = en_platform sim_env"
      "ld_parse (sim_leader\<lparr>ld_platform := sim_platform Web, ld_parse := sim_parse\<rparr>) = en_parse sim_env"
      "map_of (tb_configuration sim_bot) ''symbol'' = Some (JStr ''ETH/USDT'')" "CHR ''/'' \<in> set ''ETH/USDT''"
    by (simp_all add: sim_env_def sim_bot_def new_bot_def)
  from connection_credentials_reach_the_bot [OF sim_store.secret_store_axioms sim_iv_proper run sim_connect_fields(1-4) this]
  show ?thesis by auto
qed

end
