(* ===== verification/Account_Tables.thy ===== *)
theory Account_Tables
  imports Bots_Router
begin

text \<open>
  The PostgreSQL tables of the accounts: users, organisations, refresh tokens, the tokens sent by e-mail, the
  outbox, the consent evidence and the data subject requests. Memberships, invitations and everything that
  belongs to an organisation are in the \<^typ>\<open>saas_db\<close> beside them. Times are seconds.
\<close>

section \<open>Rows\<close>

datatype user_status = PendingUser | ActiveUser | SuspendedUser | DeletionPending | DeletedUser

datatype platform_role = PlatformUser | PlatformAdmin

record user_row =
  us_id :: string
  us_email :: string
  us_password_hash :: "string option"
  us_display_name :: string
  us_status :: user_status
  us_terms_version :: string
  us_privacy_version :: string
  us_scheduled_deletion_at :: "int option"
  us_platform_role :: platform_role

datatype organization_status = OrgActive | OrgSuspended | OrgClosed

record organization_row =
  og_id :: string
  og_name :: string
  og_status :: organization_status

record refresh_row =
  rt_id :: string
  rt_user_id :: string
  rt_organization_id :: string
  rt_family_id :: string
  rt_token_hash :: string
  rt_expires_at :: int
  rt_revoked_at :: "int option"
  rt_replaced_by :: "string option"

datatype account_token_kind = VERIFY_EMAIL | RESET_PASSWORD

record account_token_row =
  at_id :: string
  at_user_id :: string
  at_kind :: account_token_kind
  at_token_hash :: string
  at_expires_at :: int
  at_consumed_at :: "int option"

datatype email_template = AccountEmail account_token_kind | INVITE_MEMBER

datatype email_locale = RU | EN

datatype mail_status = MailPending | MailProcessing | MailSent | MailDelivered | MailBounced | MailSuppressed | MailDeadLetter

record outbox_row =
  eo_id :: string
  eo_recipient :: string
  eo_template :: email_template
  eo_locale :: email_locale
  eo_encrypted_payload :: string
  eo_status :: mail_status
  eo_attempts :: nat
  eo_next_attempt_at :: int
  eo_last_attempt_at :: "int option"
  eo_last_error :: "string option"
  eo_provider_message_id :: "string option"
  eo_created_at :: int
  eo_sent_at :: "int option"

datatype consent_source = REGISTRATION | RECONSENT

record consent_row =
  cs_user_id :: string
  cs_subject_hash :: string
  cs_document_type :: string
  cs_document_version :: string
  cs_source :: consent_source

datatype data_request_status = REQUESTED | IN_PROGRESS | COMPLETED | REJECTED

record data_request_row =
  dq_id :: string
  dq_user_id :: string
  dq_subject_hash :: string
  dq_kind :: string
  dq_status :: data_request_status
  dq_requested_at :: int
  dq_completed_at :: "int option"
  dq_assigned_to :: "string option"
  dq_rejection_reason :: "string option"

record account_db =
  ad_saas :: saas_db
  ad_users :: "user_row list"
  ad_organizations :: "organization_row list"
  ad_refresh_tokens :: "refresh_row list"
  ad_account_tokens :: "account_token_row list"
  ad_email_outbox :: "outbox_row list"
  ad_consents :: "consent_row list"
  ad_data_requests :: "data_request_row list"

section \<open>The environment of a request\<close>

text \<open>
  What the server takes from its libraries and its configuration: the hash functions, the JSON web tokens, the
  cipher, the decoding of a cookie, the life times, the current legal documents (type and version) and the language of the messages. And
  what one request draws: the time and its random values.
\<close>

record access_payload =
  pl_sub :: string
  pl_org :: string
  pl_role :: role

record auth_server =
  sv_sha256 :: "string \<Rightarrow> string"
  sv_scrypt :: "string \<Rightarrow> string \<Rightarrow> string"
  sv_hmac :: "string \<Rightarrow> string"
  sv_sign :: "access_payload \<Rightarrow> string"
  sv_verify :: "string \<Rightarrow> json_object option"
  sv_seal :: "string \<Rightarrow> string"
  sv_decode :: "string \<Rightarrow> string option"
  sv_encode :: "string \<Rightarrow> string"
  sv_secure :: bool
  sv_access_ttl :: nat
  sv_refresh_ttl :: nat
  sv_terms :: string
  sv_privacy :: string
  sv_locale :: email_locale

record draw =
  dw_now :: int
  dw_id :: string
  dw_id2 :: string
  dw_mail_id :: string
  dw_token :: string
  dw_salt :: string

section \<open>Queries and updates\<close>

definition check_violation :: string where
  "check_violation = ''23514''"

definition active_user :: "account_db \<Rightarrow> string \<Rightarrow> bool" where
  "active_user db userId \<longleftrightarrow> (\<exists>u \<in> set (ad_users db). us_id u = userId \<and> us_status u = ActiveUser)"

definition active_organization :: "account_db \<Rightarrow> string \<Rightarrow> bool" where
  "active_organization db organizationId \<longleftrightarrow>
     (\<exists>g \<in> set (ad_organizations db). og_id g = organizationId \<and> og_status g = OrgActive)"

definition is_member :: "string \<Rightarrow> string \<Rightarrow> membership_row \<Rightarrow> bool" where
  "is_member userId organizationId m \<longleftrightarrow> mb_user_id m = userId \<and> mb_organization_id m = organizationId"

text \<open>The join of memberships, users and organisations that a session rests on.\<close>

definition active_membership :: "account_db \<Rightarrow> string \<Rightarrow> string \<Rightarrow> membership_row option" where
  "active_membership db userId organizationId =
     (if active_user db userId \<and> active_organization db organizationId
      then find (is_member userId organizationId) (sd_memberships (ad_saas db)) else None)"

text \<open>\<open>SET revoked_at=COALESCE(revoked_at,now())\<close> for the tokens that satisfy a condition.\<close>

definition revoke_tokens :: "(refresh_row \<Rightarrow> bool) \<Rightarrow> int \<Rightarrow> account_db \<Rightarrow> account_db" where
  "revoke_tokens p now db =
     db\<lparr>ad_refresh_tokens := update_where p (\<lambda>r. r\<lparr>rt_revoked_at := Some (nullish (rt_revoked_at r) now)\<rparr>) (ad_refresh_tokens db)\<rparr>"

text \<open>The primary key and \<^verbatim>\<open>UNIQUE(token_hash)\<close>.\<close>

definition insert_refresh :: "refresh_row \<Rightarrow> account_db \<Rightarrow> api_error + unit \<times> account_db" where
  "insert_refresh row db =
     (if \<exists>r \<in> set (ad_refresh_tokens db). rt_id r = rt_id row \<or> rt_token_hash r = rt_token_hash row
      then Inl (DbError unique_violation)
      else Inr ((), db\<lparr>ad_refresh_tokens := ad_refresh_tokens db @ [row]\<rparr>))"

text \<open>A message put into the outbox, with the defaults of its columns.\<close>

definition new_mail :: "auth_server \<Rightarrow> draw \<Rightarrow> string \<Rightarrow> email_template \<Rightarrow> string \<Rightarrow> outbox_row" where
  "new_mail A d recipient template payload =
     \<lparr>eo_id = dw_mail_id d, eo_recipient = recipient, eo_template = template, eo_locale = sv_locale A, eo_encrypted_payload = payload,
      eo_status = MailPending, eo_attempts = 0, eo_next_attempt_at = dw_now d, eo_last_attempt_at = None,
      eo_last_error = None, eo_provider_message_id = None, eo_created_at = dw_now d, eo_sent_at = None\<rparr>"

definition update_users :: "(user_row \<Rightarrow> bool) \<Rightarrow> (user_row \<Rightarrow> user_row) \<Rightarrow> account_db \<Rightarrow> account_db" where
  "update_users p f db = db\<lparr>ad_users := update_where p f (ad_users db)\<rparr>"

end
