(* ===== verification/Accounts.thy ===== *)
theory Accounts
  imports Account_Tables Encryption_Service
begin

text \<open>
  \<^verbatim>\<open>src/saas/auth/router.ts\<close> with the tokens and passwords of \<^verbatim>\<open>src/saas/security\<close>, the authentication of
  \<^verbatim>\<open>src/saas/http/middleware.ts\<close> and the consent of \<^verbatim>\<open>src/saas/compliance\<close>. Every request that changes state is
  one function from the tables to an answer and the tables. The rate limiters in front of the routes are those
  of the theory \<open>Rate_Limit\<close>; the texts of responses are left out, except for the tokens and the cookie. An
  error that is not a \<^verbatim>\<open>SaasHttpError\<close> is a \<open>DbError\<close> with its code.
\<close>

section \<open>Passwords and tokens\<close>

definition hashPassword :: "auth_server \<Rightarrow> string \<Rightarrow> string \<Rightarrow> string checked" where
  "hashPassword A salt password =
     (if length password < 12 \<or> length password > 128
      then Inl (validationError ''Password must contain between 12 and 128 characters.'' None)
      else Inr (''scrypt$'' @ salt @ ''$'' @ sv_scrypt A password salt))"

text \<open>Missing parts of the split are empty here; two buffers of hexadecimal digits are equal up to case.\<close>

definition hex_of_length :: "nat \<Rightarrow> string \<Rightarrow> bool" where
  "hex_of_length n s \<longleftrightarrow> length s = n \<and> list_all is_hex s"

definition verifyPassword :: "auth_server \<Rightarrow> string \<Rightarrow> string \<Rightarrow> bool" where
  "verifyPassword A password encoded =
     (let parts = split_on CHR ''$'' encoded;
          part = (\<lambda>i. if i < length parts then parts ! i else []);
          saltHex = part 1; keyHex = part 2
      in part 0 = ''scrypt'' \<and> hex_of_length 32 saltHex \<and> hex_of_length 128 keyHex \<and>
         toLowerCase keyHex = toLowerCase (sv_scrypt A password saltHex))"

definition dummyPasswordHash :: string where
  "dummyPasswordHash = ''scrypt$01010101010101010101010101010101$ffb601a03950e409b51a01307ea013f1294b4dd0d841f26a2105d4a31e825bea6c32a145a5a6c75963225d2bc95ac1dc5999f6c3f22dfe5c83cae2762e4b9f56''"

definition role_names :: "(string \<times> role) list" where
  "role_names = [(''OWNER'', OWNER), (''ADMIN'', ADMIN), (''TRADER'', TRADER), (''ANALYST'', ANALYST), (''BILLING'', BILLING),
     (''VIEWER'', VIEWER)]"

text \<open>\<open>sv_verify\<close> is \<^verbatim>\<open>jwt.verify\<close>; None is any reason to reject the token.\<close>

definition verifyAccessToken :: "auth_server \<Rightarrow> string \<Rightarrow> access_payload option" where
  "verifyAccessToken A token =
     (case sv_verify A token of
        None \<Rightarrow> None
      | Some value \<Rightarrow>
          (case (map_of value ''typ'', map_of value ''sub'', map_of value ''org'', map_of value ''role'') of
             (Some (JStr typ), Some (JStr sub), Some (JStr org), Some (JStr r)) \<Rightarrow>
               if typ \<noteq> ''access'' then None
               else map_option (\<lambda>r. \<lparr>pl_sub = sub, pl_org = org, pl_role = r\<rparr>) (map_of role_names r)
           | _ \<Rightarrow> None))"

text \<open>The header \<^verbatim>\<open>Authorization\<close>; the role is the one of the membership now, not the one of the token.\<close>

definition authenticate :: "auth_server \<Rightarrow> string option \<Rightarrow> account_db \<Rightarrow> auth_context checked" where
  "authenticate A authorization db =
     (if take 7 (nullish authorization []) \<noteq> ''Bearer ''
      then Inl (SaasHttpError 401 ''AUTHENTICATION_REQUIRED'' ''Authentication is required.'' None)
      else case verifyAccessToken A (drop 7 (nullish authorization [])) of
        None \<Rightarrow> Inl (SaasHttpError 401 ''INVALID_ACCESS_TOKEN'' ''Access token is invalid or expired.'' None)
      | Some payload \<Rightarrow>
          (case active_membership db (pl_sub payload) (pl_org payload) of
             None \<Rightarrow> Inl (SaasHttpError 401 ''ACCOUNT_ACCESS_REVOKED'' ''Account or organization access was revoked.'' None)
           | Some m \<Rightarrow> Inr \<lparr>au_userId = pl_sub payload, au_organizationId = pl_org payload, au_role = mb_role m\<rparr>))"

section \<open>Cookies\<close>

record auth_request =
  rq_body :: "json option"
  rq_cookie :: "string option"
  rq_csrf :: "string option"
  rq_auth :: "auth_context option"

definition refreshCookieName :: string where
  "refreshCookieName = ''tonatiuh_refresh''"

text \<open>One part of the header \<^verbatim>\<open>Cookie\<close>, split at its first \<^verbatim>\<open>=\<close>, if there is one.\<close>

definition cookie_pair :: "string \<Rightarrow> (string \<times> string) option" where
  "cookie_pair item =
     (case split_on CHR ''='' item of
        name # value # rest \<Rightarrow> Some (trim name, trim (join ''='' (value # rest)))
      | _ \<Rightarrow> None)"

fun cookie_search :: "auth_server \<Rightarrow> string \<Rightarrow> string list \<Rightarrow> string option" where
  "cookie_search A name [] = None"
| "cookie_search A name (item # items) =
     (case cookie_pair item of
        None \<Rightarrow> cookie_search A name items
      | Some (n, v) \<Rightarrow> if n \<noteq> name then cookie_search A name items else sv_decode A v)"

definition cookieValue :: "auth_server \<Rightarrow> auth_request \<Rightarrow> string \<Rightarrow> string option" where
  "cookieValue A req name =
     (case rq_cookie req of
        None \<Rightarrow> None
      | Some header \<Rightarrow> if header = [] then None else cookie_search A name (split_on CHR '';'' header))"

definition refreshCookie :: "auth_server \<Rightarrow> string \<Rightarrow> nat \<Rightarrow> string" where
  "refreshCookie A token maxAgeSeconds =
     refreshCookieName @ ''='' @ sv_encode A token @ ''; HttpOnly'' @ (if sv_secure A then ''; Secure'' else []) @
     ''; SameSite=Lax; Path=/api/v1/auth; Max-Age='' @ show_nat maxAgeSeconds @ ''; Priority=High''"

definition setRefreshCookie :: "auth_server \<Rightarrow> string \<Rightarrow> string" where
  "setRefreshCookie A token = refreshCookie A token (sv_refresh_ttl A)"

definition clearRefreshCookie :: "auth_server \<Rightarrow> string" where
  "clearRefreshCookie A = refreshCookie A [] 0"

definition refreshTokenFromRequest :: "auth_server \<Rightarrow> auth_request \<Rightarrow> string option" where
  "refreshTokenFromRequest A req = cookieValue A req refreshCookieName"

text \<open>An empty cookie is falsy.\<close>

definition requireCookieCsrfHeader :: "auth_request \<Rightarrow> string option \<Rightarrow> unit checked" where
  "requireCookieCsrfHeader req cookieToken =
     (if nullish cookieToken [] \<noteq> [] \<and> rq_csrf req \<noteq> Some ''1''
      then Inl (SaasHttpError 403 ''CSRF_PROTECTION_REQUIRED'' ''CSRF protection header is required.'' None) else Inr ())"

section \<open>Addresses, sessions and e-mail\<close>

text \<open>\<^verbatim>\<open>^[^\s@]+@[^\s@]+\.[^\s@]+$\<close>: one \<^verbatim>\<open>@\<close>, and a dot inside the part behind it.\<close>

definition email_format :: "string \<Rightarrow> bool" where
  "email_format s \<longleftrightarrow> \<not> list_ex is_space s \<and>
     (case split_on CHR ''@'' s of
        [local, domain] \<Rightarrow> local \<noteq> [] \<and> CHR ''.'' \<in> set (butlast (drop 1 domain))
      | _ \<Rightarrow> False)"

definition emailValue :: "json option \<Rightarrow> string checked" where
  "emailValue v =
     bindC (stringValue v ''email'' 320) (\<lambda>s.
       let email = toLowerCase s
       in if \<not> email_format email then Inl (SaasHttpError 400 ''VALIDATION_ERROR'' ''Email address is invalid.'' None)
          else Inr email)"

record session =
  ss_accessToken :: string
  ss_refreshToken :: string
  ss_expiresIn :: nat

definition tokens :: "auth_server \<Rightarrow> draw \<Rightarrow> string \<Rightarrow> string \<Rightarrow> role \<Rightarrow> session" where
  "tokens A d userId organizationId r =
     \<lparr>ss_accessToken = sv_sign A \<lparr>pl_sub = userId, pl_org = organizationId, pl_role = r\<rparr>, ss_refreshToken = dw_token d,
      ss_expiresIn = sv_access_ttl A\<rparr>"

definition new_refresh :: "auth_server \<Rightarrow> draw \<Rightarrow> string \<Rightarrow> string \<Rightarrow> string \<Rightarrow> refresh_row" where
  "new_refresh A d userId organizationId familyId =
     \<lparr>rt_id = dw_id d, rt_user_id = userId, rt_organization_id = organizationId, rt_family_id = familyId,
      rt_token_hash = sv_sha256 A (dw_token d), rt_expires_at = dw_now d + int (sv_refresh_ttl A), rt_revoked_at = None,
      rt_replaced_by = None\<rparr>"

text \<open>The family of a new session is drawn with it.\<close>

definition saveRefresh :: "auth_server \<Rightarrow> draw \<Rightarrow> string \<Rightarrow> string \<Rightarrow> account_db \<Rightarrow> (api_error + unit) \<times> account_db" where
  "saveRefresh A d userId organizationId =
     saasTransaction (insert_refresh (new_refresh A d userId organizationId (dw_id2 d)))"

definition open_token :: "account_token_kind \<Rightarrow> int \<Rightarrow> string \<Rightarrow> account_token_row \<Rightarrow> bool" where
  "open_token kind now hash r \<longleftrightarrow>
     at_token_hash r = hash \<and> at_kind r = kind \<and> at_consumed_at r = None \<and> at_expires_at r > now"

definition consume_tokens :: "(account_token_row \<Rightarrow> bool) \<Rightarrow> int \<Rightarrow> account_db \<Rightarrow> account_db" where
  "consume_tokens p now db =
     db\<lparr>ad_account_tokens := update_where p (\<lambda>r. r\<lparr>at_consumed_at := Some now\<rparr>) (ad_account_tokens db)\<rparr>"

text \<open>\<open>JSON.stringify({token})\<close>; the token is base64url, so nothing in it is escaped.\<close>

definition token_json :: "string \<Rightarrow> string" where
  "token_json token =
     (let quote = [CHR 0x22] in ''{'' @ quote @ ''token'' @ quote @ '':'' @ quote @ token @ quote @ ''}'')"

definition queueAccountEmail ::
    "auth_server \<Rightarrow> draw \<Rightarrow> string \<Rightarrow> string \<Rightarrow> account_token_kind \<Rightarrow> account_db \<Rightarrow> api_error + unit \<times> account_db" where
  "queueAccountEmail A d userId email kind db =
     (let ttl = (case kind of VERIFY_EMAIL \<Rightarrow> hours 24 | RESET_PASSWORD \<Rightarrow> hours 1);
          hash = sv_sha256 A (dw_token d);
          db1 = consume_tokens (\<lambda>r. at_user_id r = userId \<and> at_kind r = kind \<and> at_consumed_at r = None) (dw_now d) db
      in if \<exists>r \<in> set (ad_account_tokens db1). at_token_hash r = hash then Inl (DbError unique_violation)
         else Inr ((), db1\<lparr>ad_account_tokens := ad_account_tokens db1 @
                 [\<lparr>at_id = dw_id d, at_user_id = userId, at_kind = kind, at_token_hash = hash, at_expires_at = dw_now d + ttl,
                   at_consumed_at = None\<rparr>],
               ad_email_outbox := ad_email_outbox db1 @
                 [new_mail A d email (AccountEmail kind) (sv_seal A (token_json (dw_token d)))]\<rparr>))"

section \<open>Consent\<close>

definition assertCurrentVersions :: "auth_server \<Rightarrow> json option \<Rightarrow> json option \<Rightarrow> unit checked" where
  "assertCurrentVersions A termsVersion privacyVersion =
     (if termsVersion \<noteq> None \<and> termsVersion \<noteq> Some (JStr (sv_terms A))
      then Inl (SaasHttpError 409 ''LEGAL_DOCUMENT_VERSION_CHANGED'' ''Terms changed before consent was recorded.'' None)
      else if privacyVersion \<noteq> None \<and> privacyVersion \<noteq> Some (JStr (sv_privacy A))
      then Inl (SaasHttpError 409 ''LEGAL_DOCUMENT_VERSION_CHANGED'' ''Privacy policy changed before consent was recorded.'' None)
      else Inr ())"

definition insert_consent :: "consent_row \<Rightarrow> account_db \<Rightarrow> account_db" where
  "insert_consent row db =
     (if \<exists>r \<in> set (ad_consents db). cs_user_id r = cs_user_id row \<and> cs_document_type r = cs_document_type row \<and>
           cs_document_version r = cs_document_version row
      then db else db\<lparr>ad_consents := ad_consents db @ [row]\<rparr>)"

text \<open>The hashes of the address and of the browser of the client, which are only written, are left out.\<close>

definition recordLegalConsent :: "auth_server \<Rightarrow> string \<Rightarrow> string \<Rightarrow> consent_source \<Rightarrow> account_db \<Rightarrow> account_db" where
  "recordLegalConsent A userId email source db =
     fold (\<lambda>(documentType, version).
            insert_consent \<lparr>cs_user_id = userId, cs_subject_hash = sv_hmac A (toLowerCase (trim email)),
              cs_document_type = documentType, cs_document_version = version, cs_source = source\<rparr>)
       [(''TERMS'', sv_terms A), (''PRIVACY'', sv_privacy A)] db"

definition consentGiven :: "json_object \<Rightarrow> unit checked" where
  "consentGiven body =
     (let refused = SaasHttpError 400 ''CONSENT_REQUIRED'' ''Terms and privacy policy consent are required.'' None
      in bindC (booleanValue (map_of body ''acceptTerms'') ''acceptTerms'') (\<lambda>terms.
           if \<not> terms then Inl refused
           else bindC (booleanValue (map_of body ''acceptPrivacy'') ''acceptPrivacy'') (\<lambda>privacy.
             if \<not> privacy then Inl refused else Inr ())))"

definition authOf :: "auth_request \<Rightarrow> auth_context checked" where
  "authOf req =
     (case rq_auth req of
        None \<Rightarrow> Inl (SaasHttpError 401 ''AUTHENTICATION_REQUIRED'' ''Authentication is required.'' None)
      | Some auth \<Rightarrow> Inr auth)"

definition reconsent :: "auth_server \<Rightarrow> auth_request \<Rightarrow> account_db \<Rightarrow> (api_error + unit) \<times> account_db" where
  "reconsent A req =
     guardH (authOf req) (\<lambda>auth.
     guardH (objectValue (rq_body req) (Some [''acceptTerms'', ''acceptPrivacy'', ''termsVersion'', ''privacyVersion''])) (\<lambda>body.
     guardH (consentGiven body) (\<lambda>_.
     guardH (stringValue (map_of body ''termsVersion'') ''termsVersion'' 100) (\<lambda>termsVersion.
     guardH (stringValue (map_of body ''privacyVersion'') ''privacyVersion'' 100) (\<lambda>privacyVersion.
     guardH (assertCurrentVersions A (Some (JStr termsVersion)) (Some (JStr privacyVersion))) (\<lambda>_.
       saasTransaction (\<lambda>db. case find (\<lambda>u. us_id u = au_userId auth) (ad_users db) of
           None \<Rightarrow> Inl (HttpError (notFound ''User was not found.''))
         | Some u \<Rightarrow>
             Inr ((), update_users (\<lambda>r. us_id r = us_id u)
               (\<lambda>r. r\<lparr>us_terms_version := sv_terms A, us_privacy_version := sv_privacy A\<rparr>)
               (recordLegalConsent A (us_id u) (us_email u) RECONSENT db)))))))))"

section \<open>Registration and login\<close>

text \<open>The constraint \<^verbatim>\<open>users_display_name_length\<close>, then the primary key and \<^verbatim>\<open>UNIQUE(email)\<close>.\<close>

definition insert_user :: "user_row \<Rightarrow> account_db \<Rightarrow> api_error + unit \<times> account_db" where
  "insert_user row db =
     (if length (us_display_name row) < 2 \<or> length (us_display_name row) > 120 then Inl (DbError check_violation)
      else if \<exists>u \<in> set (ad_users db). us_id u = us_id row \<or> us_email u = us_email row then Inl (DbError unique_violation)
      else Inr ((), db\<lparr>ad_users := ad_users db @ [row]\<rparr>))"

text \<open>The new user and the new organisation have the two identifiers drawn.\<close>

definition new_user :: "auth_server \<Rightarrow> draw \<Rightarrow> string \<Rightarrow> string \<Rightarrow> string \<Rightarrow> user_row" where
  "new_user A d email passwordHash displayName =
     \<lparr>us_id = dw_id d, us_email = email, us_password_hash = Some passwordHash, us_display_name = displayName,
      us_status = PendingUser, us_terms_version = sv_terms A, us_privacy_version = sv_privacy A,
      us_scheduled_deletion_at = None, us_platform_role = PlatformUser\<rparr>"

definition insert_workspace :: "draw \<Rightarrow> string \<Rightarrow> account_db \<Rightarrow> account_db" where
  "insert_workspace d organizationName db =
     db\<lparr>ad_organizations := ad_organizations db @ [\<lparr>og_id = dw_id2 d, og_name = organizationName, og_status = OrgActive\<rparr>],
        ad_saas := (ad_saas db)\<lparr>sd_memberships := sd_memberships (ad_saas db) @
          [\<lparr>mb_organization_id = dw_id2 d, mb_user_id = dw_id d, mb_role = OWNER\<rparr>]\<rparr>\<rparr>"

definition register_transaction ::
    "auth_server \<Rightarrow> draw \<Rightarrow> string \<Rightarrow> string \<Rightarrow> string \<Rightarrow> string \<Rightarrow> account_db \<Rightarrow> api_error + user_row \<times> account_db" where
  "register_transaction A d email password displayName organizationName db =
     guardT (hashPassword A (dw_salt d) password) (\<lambda>passwordHash.
       let user = new_user A d email passwordHash displayName
       in case insert_user user db of
            Inl e \<Rightarrow> Inl e
          | Inr (_, db1) \<Rightarrow>
              (case queueAccountEmail A d (us_id user) (us_email user) VERIFY_EMAIL
                      (recordLegalConsent A (us_id user) (us_email user) REGISTRATION (insert_workspace d organizationName db1)) of
                 Inl e \<Rightarrow> Inl e
               | Inr (_, db2) \<Rightarrow> Inr (user, db2)))"

definition register_fields :: "string list" where
  "register_fields = [''email'', ''password'', ''displayName'', ''organizationName'', ''acceptTerms'', ''acceptPrivacy'',
     ''termsVersion'', ''privacyVersion'']"

definition register :: "auth_server \<Rightarrow> draw \<Rightarrow> auth_request \<Rightarrow> account_db \<Rightarrow> (api_error + user_row) \<times> account_db" where
  "register A d req =
     guardH (objectValue (rq_body req) (Some register_fields)) (\<lambda>body.
     guardH (emailValue (map_of body ''email'')) (\<lambda>email.
     guardH (stringValue (map_of body ''password'') ''password'' 128) (\<lambda>password.
     guardH (stringValue (map_of body ''displayName'') ''displayName'' 120) (\<lambda>displayName.
     guardH (if map_of body ''organizationName'' = None then Inr (displayName @ [CHR 0x27] @ ''s workspace'')
             else stringValue (map_of body ''organizationName'') ''organizationName'' 120) (\<lambda>organizationName.
     guardH (consentGiven body) (\<lambda>_.
     guardH (assertCurrentVersions A (map_of body ''termsVersion'') (map_of body ''privacyVersion'')) (\<lambda>_ db.
       on_unique_violation (SaasHttpError 409 ''EMAIL_EXISTS'' ''Email is already registered.'' None)
         (saasTransaction (register_transaction A d email password displayName organizationName) db))))))))"

text \<open>The rows of the join in the order of the memberships, of which the first is taken.\<close>

definition login_accounts :: "string \<Rightarrow> account_db \<Rightarrow> (user_row \<times> membership_row) list" where
  "login_accounts email db =
     concat (map (\<lambda>m. map (\<lambda>u. (u, m))
         (filter (\<lambda>u. us_id u = mb_user_id m \<and> us_email u = email \<and> us_status u \<in> {ActiveUser, PendingUser}) (ad_users db)))
       (filter (\<lambda>m. active_organization db (mb_organization_id m)) (sd_memberships (ad_saas db))))"

text \<open>An answer with the header \<^verbatim>\<open>Set-Cookie\<close>, if one is set.\<close>

type_synonym 'a reply = "string option \<times> (api_error + 'a)"

definition login :: "auth_server \<Rightarrow> draw \<Rightarrow> auth_request \<Rightarrow> account_db \<Rightarrow> (api_error + session) \<times> account_db" where
  "login A d req =
     guardH (objectValue (rq_body req) (Some [''email'', ''password''])) (\<lambda>body.
     guardH (emailValue (map_of body ''email'')) (\<lambda>email.
     guardH (stringValue (map_of body ''password'') ''password'' 128) (\<lambda>password db.
       let invalid = HttpError (SaasHttpError 401 ''INVALID_CREDENTIALS'' ''Invalid email or password.'' None)
       in case login_accounts email db of
            [] \<Rightarrow> (Inl invalid, db)
          | (user, m) # _ \<Rightarrow>
              (case us_password_hash user of
                 None \<Rightarrow> (Inl invalid, db)
               | Some encoded \<Rightarrow>
                   if \<not> verifyPassword A password encoded then (Inl invalid, db)
                   else if us_status user = PendingUser
                   then (Inl (HttpError (SaasHttpError 403 ''EMAIL_NOT_VERIFIED'' ''Email verification is required.'' None)), db)
                   else (case saveRefresh A d (us_id user) (mb_organization_id m) db of
                           (Inl e, db') \<Rightarrow> (Inl e, db')
                         | (Inr _, db') \<Rightarrow> (Inr (tokens A d (us_id user) (mb_organization_id m) (mb_role m)), db'))))))"

section \<open>Account tokens\<close>

definition invalid_token :: "string \<Rightarrow> api_error" where
  "invalid_token message = HttpError (SaasHttpError 400 ''INVALID_ACCOUNT_TOKEN'' message None)"

definition verify_transaction :: "auth_server \<Rightarrow> draw \<Rightarrow> string \<Rightarrow> account_db \<Rightarrow> api_error + unit \<times> account_db" where
  "verify_transaction A d hash db =
     (case find (open_token VERIFY_EMAIL (dw_now d) hash) (ad_account_tokens db) of
        None \<Rightarrow> Inl (invalid_token ''Verification token is invalid or expired.'')
      | Some row \<Rightarrow>
          Inr ((), update_users (\<lambda>u. us_id u = at_user_id row) (\<lambda>u. u\<lparr>us_status := ActiveUser\<rparr>)
            (consume_tokens (\<lambda>r. at_id r = at_id row) (dw_now d) db)))"

definition verifyEmail :: "auth_server \<Rightarrow> draw \<Rightarrow> auth_request \<Rightarrow> account_db \<Rightarrow> (api_error + unit) \<times> account_db" where
  "verifyEmail A d req =
     guardH (objectValue (rq_body req) (Some [''token''])) (\<lambda>body.
     guardH (stringValue (map_of body ''token'') ''token'' 200) (\<lambda>token.
       saasTransaction (verify_transaction A d (sv_sha256 A token))))"

text \<open>\<^verbatim>\<open>resend-verification\<close> and \<^verbatim>\<open>forgot-password\<close> differ in the status they ask for and the kind they send.\<close>

definition send_token ::
    "user_status \<Rightarrow> account_token_kind \<Rightarrow> auth_server \<Rightarrow> draw \<Rightarrow> auth_request \<Rightarrow> account_db \<Rightarrow> (api_error + unit) \<times> account_db" where
  "send_token status kind A d req =
     guardH (objectValue (rq_body req) (Some [''email''])) (\<lambda>body.
     guardH (emailValue (map_of body ''email'')) (\<lambda>email.
       saasTransaction (\<lambda>db. case find (\<lambda>u. us_email u = email \<and> us_status u = status) (ad_users db) of
           None \<Rightarrow> Inr ((), db)
         | Some user \<Rightarrow> queueAccountEmail A d (us_id user) email kind db)))"

definition resendVerification :: "auth_server \<Rightarrow> draw \<Rightarrow> auth_request \<Rightarrow> account_db \<Rightarrow> (api_error + unit) \<times> account_db" where
  "resendVerification = send_token PendingUser VERIFY_EMAIL"

definition forgotPassword :: "auth_server \<Rightarrow> draw \<Rightarrow> auth_request \<Rightarrow> account_db \<Rightarrow> (api_error + unit) \<times> account_db" where
  "forgotPassword = send_token ActiveUser RESET_PASSWORD"

definition reset_transaction :: "draw \<Rightarrow> string \<Rightarrow> string \<Rightarrow> account_db \<Rightarrow> api_error + unit \<times> account_db" where
  "reset_transaction d hash passwordHash db =
     (case find (open_token RESET_PASSWORD (dw_now d) hash) (ad_account_tokens db) of
        None \<Rightarrow> Inl (invalid_token ''Password reset token is invalid or expired.'')
      | Some row \<Rightarrow>
          Inr ((), revoke_tokens (\<lambda>r. rt_user_id r = at_user_id row) (dw_now d)
            (consume_tokens (\<lambda>r. at_user_id r = at_user_id row \<and> at_consumed_at r = None) (dw_now d)
              (update_users (\<lambda>u. us_id u = at_user_id row) (\<lambda>u. u\<lparr>us_password_hash := Some passwordHash\<rparr>) db))))"

definition resetPassword :: "auth_server \<Rightarrow> draw \<Rightarrow> auth_request \<Rightarrow> account_db \<Rightarrow> (api_error + unit) \<times> account_db" where
  "resetPassword A d req =
     guardH (objectValue (rq_body req) (Some [''token'', ''password''])) (\<lambda>body.
     guardH (stringValue (map_of body ''token'') ''token'' 200) (\<lambda>token.
     guardH (stringValue (map_of body ''password'') ''password'' 128) (\<lambda>password.
     guardH (hashPassword A (dw_salt d) password) (\<lambda>passwordHash.
       saasTransaction (reset_transaction d (sv_sha256 A token) passwordHash)))))"

section \<open>Refresh and logout\<close>

definition invalid_refresh :: "string \<Rightarrow> api_error" where
  "invalid_refresh message = HttpError (SaasHttpError 401 ''INVALID_REFRESH_TOKEN'' message None)"

text \<open>A reused token revokes its family; that is the answer None, which commits.\<close>

definition refresh_transaction :: "auth_server \<Rightarrow> draw \<Rightarrow> string \<Rightarrow> account_db \<Rightarrow> api_error + session option \<times> account_db" where
  "refresh_transaction A d oldToken db =
     (case find (\<lambda>r. rt_token_hash r = sv_sha256 A oldToken) (ad_refresh_tokens db) of
        None \<Rightarrow> Inl (invalid_refresh ''Refresh token is invalid.'')
      | Some stored \<Rightarrow>
          if rt_revoked_at stored \<noteq> None
          then Inr (None, revoke_tokens (\<lambda>r. rt_family_id r = rt_family_id stored) (dw_now d) db)
          else if rt_expires_at stored \<le> dw_now d then Inl (invalid_refresh ''Refresh token is expired.'')
          else (case active_membership db (rt_user_id stored) (rt_organization_id stored) of
                  None \<Rightarrow> Inl (invalid_refresh ''Account access is unavailable.'')
                | Some m \<Rightarrow>
                    (case insert_refresh (new_refresh A d (rt_user_id stored) (rt_organization_id stored) (rt_family_id stored)) db of
                       Inl e \<Rightarrow> Inl e
                     | Inr (_, db1) \<Rightarrow>
                         Inr (Some (tokens A d (rt_user_id stored) (mb_organization_id m) (mb_role m)),
                           db1\<lparr>ad_refresh_tokens := update_where (\<lambda>r. rt_id r = rt_id stored)
                             (\<lambda>r. r\<lparr>rt_revoked_at := Some (dw_now d), rt_replaced_by := Some (dw_id d)\<rparr>)
                             (ad_refresh_tokens db1)\<rparr>))))"

text \<open>\<open>req.body ?? {}\<close>.\<close>

definition bodyOf :: "auth_request \<Rightarrow> json" where
  "bodyOf req = (if rq_body req \<in> {None, Some JNull} then JObj [] else the (rq_body req))"

definition refresh_session :: "auth_server \<Rightarrow> draw \<Rightarrow> auth_request \<Rightarrow> account_db \<Rightarrow> (api_error + session) \<times> account_db" where
  "refresh_session A d req =
     (let cookieToken = refreshTokenFromRequest A req
      in guardH (requireCookieCsrfHeader req cookieToken) (\<lambda>_.
         guardH (objectValue (Some (bodyOf req)) (Some [''refreshToken''])) (\<lambda>body.
         guardH (case cookieToken of Some t \<Rightarrow> Inr t | None \<Rightarrow> stringValue (map_of body ''refreshToken'') ''refreshToken'' 500) (\<lambda>oldToken db.
           case saasTransaction (refresh_transaction A d oldToken) db of
             (Inl e, db') \<Rightarrow> (Inl e, db')
           | (Inr None, db') \<Rightarrow>
               (Inl (HttpError (SaasHttpError 401 ''REFRESH_TOKEN_REUSED'' ''Refresh token reuse was detected.'' None)), db')
           | (Inr (Some session), db') \<Rightarrow> (Inr session, db')))))"

text \<open>Every failure clears the cookie.\<close>

definition refresh :: "auth_server \<Rightarrow> draw \<Rightarrow> auth_request \<Rightarrow> account_db \<Rightarrow> session reply \<times> account_db" where
  "refresh A d req db =
     (case refresh_session A d req db of
        (Inl e, db') \<Rightarrow> ((Some (clearRefreshCookie A), Inl e), db')
      | (Inr session, db') \<Rightarrow> ((Some (setRefreshCookie A (ss_refreshToken session)), Inr session), db'))"

definition logout_session :: "auth_server \<Rightarrow> draw \<Rightarrow> auth_request \<Rightarrow> account_db \<Rightarrow> (api_error + unit) \<times> account_db" where
  "logout_session A d req =
     (let cookieToken = refreshTokenFromRequest A req
      in guardH (requireCookieCsrfHeader req cookieToken) (\<lambda>_.
         guardH (objectValue (Some (bodyOf req)) (Some [''refreshToken''])) (\<lambda>body.
         guardH (case cookieToken of
                   Some t \<Rightarrow> Inr t
                 | None \<Rightarrow> if map_of body ''refreshToken'' = None then Inr []
                           else stringValue (map_of body ''refreshToken'') ''refreshToken'' 500) (\<lambda>token db.
           (Inr (), if token = [] then db else revoke_tokens (\<lambda>r. rt_token_hash r = sv_sha256 A token) (dw_now d) db)))))"

definition logout :: "auth_server \<Rightarrow> draw \<Rightarrow> auth_request \<Rightarrow> account_db \<Rightarrow> unit reply \<times> account_db" where
  "logout A d req db =
     (case logout_session A d req db of
        (Inl e, db') \<Rightarrow> ((None, Inl e), db')
      | (Inr _, db') \<Rightarrow> ((Some (clearRefreshCookie A), Inr ()), db'))"

section \<open>Deletion and data requests\<close>

definition add_request :: "auth_server \<Rightarrow> draw \<Rightarrow> string \<Rightarrow> string \<Rightarrow> string \<Rightarrow> data_request_status \<Rightarrow> account_db \<Rightarrow> account_db" where
  "add_request A d userId email kind status db =
     db\<lparr>ad_data_requests := ad_data_requests db @
          [\<lparr>dq_id = dw_id d, dq_user_id = userId, dq_subject_hash = sv_hmac A (toLowerCase email), dq_kind = kind,
            dq_status = status, dq_requested_at = dw_now d, dq_completed_at = (if status = COMPLETED then Some (dw_now d) else None),
            dq_assigned_to = None, dq_rejection_reason = None\<rparr>]\<rparr>"

definition cancelDeletion :: "auth_server \<Rightarrow> draw \<Rightarrow> auth_request \<Rightarrow> account_db \<Rightarrow> (api_error + unit) \<times> account_db" where
  "cancelDeletion A d req =
     guardH (objectValue (rq_body req) (Some [''email'', ''password''])) (\<lambda>body.
     guardH (emailValue (map_of body ''email'')) (\<lambda>email.
     guardH (stringValue (map_of body ''password'') ''password'' 128) (\<lambda>password db.
       let account = find (\<lambda>u. us_email u = email \<and> us_status u = DeletionPending) (ad_users db);
           encoded = (case account of None \<Rightarrow> dummyPasswordHash | Some u \<Rightarrow> nullish (us_password_hash u) dummyPasswordHash)
       in case account of
            Some u \<Rightarrow>
              if \<not> verifyPassword A password encoded
              then (Inl (HttpError (SaasHttpError 401 ''INVALID_CREDENTIALS'' ''Invalid email or password.'' None)), db)
              else saasTransaction (\<lambda>db. Inr ((), add_request A d (us_id u) email ''CANCEL_DELETE'' COMPLETED
                     (update_users (\<lambda>r. us_id r = us_id u)
                       (\<lambda>r. r\<lparr>us_status := ActiveUser, us_scheduled_deletion_at := None\<rparr>) db))) db
          | None \<Rightarrow> (Inl (HttpError (SaasHttpError 401 ''INVALID_CREDENTIALS'' ''Invalid email or password.'' None)), db))))"

text \<open>\<^verbatim>\<open>GET /me/export\<close>: what is returned is left out, the request is recorded.\<close>

definition exportAccount :: "auth_server \<Rightarrow> draw \<Rightarrow> auth_request \<Rightarrow> account_db \<Rightarrow> (api_error + unit) \<times> account_db" where
  "exportAccount A d req =
     guardH (authOf req) (\<lambda>auth db.
       case find (\<lambda>u. us_id u = au_userId auth) (ad_users db) of
         None \<Rightarrow> (Inl (DbError ''TypeError''), db)
       | Some user \<Rightarrow> (Inr (), add_request A d (au_userId auth) (us_email user) ''EXPORT'' COMPLETED db))"

definition createDataRequest :: "auth_server \<Rightarrow> draw \<Rightarrow> auth_request \<Rightarrow> account_db \<Rightarrow> (api_error + unit) \<times> account_db" where
  "createDataRequest A d req =
     guardH (authOf req) (\<lambda>auth.
     guardH (objectValue (rq_body req) (Some [''kind'', ''details''])) (\<lambda>body.
     guardH (stringValue (map_of body ''kind'') ''kind'' 20) (\<lambda>kind.
     guardH (if kind \<notin> {''ACCESS'', ''RECTIFY'', ''RESTRICT'', ''OBJECT''}
             then Inl (SaasHttpError 400 ''INVALID_DATA_REQUEST'' ''Data request kind is invalid.'' None) else Inr ()) (\<lambda>_.
     guardH (stringValue (map_of body ''details'') ''details'' 2000) (\<lambda>details db.
       case find (\<lambda>u. us_id u = au_userId auth) (ad_users db) of
         None \<Rightarrow> (Inl (HttpError (notFound ''User was not found.'')), db)
       | Some user \<Rightarrow> (Inr (), add_request A d (au_userId auth) (us_email user) kind REQUESTED db))))))"

definition other_admin :: "string \<Rightarrow> user_row \<Rightarrow> bool" where
  "other_admin userId u \<longleftrightarrow> us_platform_role u = PlatformAdmin \<and> us_status u = ActiveUser \<and> us_id u \<noteq> userId"

text \<open>The user owns an organisation that has other members.\<close>

definition owns_shared :: "string \<Rightarrow> membership_row list \<Rightarrow> bool" where
  "owns_shared userId ms \<longleftrightarrow>
     (\<exists>m \<in> set ms. mb_user_id m = userId \<and> mb_role m = OWNER \<and>
        (\<exists>n \<in> set ms. mb_organization_id n = mb_organization_id m \<and> mb_user_id n \<noteq> userId))"

definition schedule_deletion :: "auth_server \<Rightarrow> draw \<Rightarrow> string \<Rightarrow> string \<Rightarrow> account_db \<Rightarrow> account_db" where
  "schedule_deletion A d userId email db =
     add_request A d userId email ''DELETE'' REQUESTED
       (revoke_tokens (\<lambda>r. rt_user_id r = userId) (dw_now d)
         (update_users (\<lambda>u. us_id u = userId)
           (\<lambda>u. u\<lparr>us_status := DeletionPending, us_scheduled_deletion_at := Some (dw_now d + days 30)\<rparr>) db))"

definition deleteAccount :: "auth_server \<Rightarrow> draw \<Rightarrow> auth_request \<Rightarrow> account_db \<Rightarrow> (api_error + unit) \<times> account_db" where
  "deleteAccount A d req =
     guardH (authOf req) (\<lambda>auth.
     guardH (objectValue (rq_body req) (Some [''password''])) (\<lambda>body.
     guardH (stringValue (map_of body ''password'') ''password'' 128) (\<lambda>password db.
       let invalid = HttpError (SaasHttpError 401 ''INVALID_CREDENTIALS'' ''Invalid password.'' None)
       in case find (\<lambda>u. us_id u = au_userId auth \<and> us_status u = ActiveUser) (ad_users db) of
            None \<Rightarrow> (Inl invalid, db)
          | Some user \<Rightarrow>
              (case us_password_hash user of
                 None \<Rightarrow> (Inl (DbError ''TypeError''), db)
               | Some encoded \<Rightarrow>
                   if \<not> verifyPassword A password encoded then (Inl invalid, db)
                   else if us_platform_role user = PlatformAdmin \<and> \<not> list_ex (other_admin (au_userId auth)) (ad_users db)
                   then (Inl (HttpError (SaasHttpError 409 ''LAST_PLATFORM_ADMIN''
                           ''Assign another active platform administrator before deleting this account.'' None)), db)
                   else if owns_shared (au_userId auth) (sd_memberships (ad_saas db))
                   then (Inl (HttpError (SaasHttpError 409 ''OWNERSHIP_TRANSFER_REQUIRED''
                           ''Transfer workspace ownership or remove other members before deleting the account.'' None)), db)
                   else saasTransaction (\<lambda>db. Inr ((), schedule_deletion A d (au_userId auth) (us_email user) db)) db))))"

end
