(* ===== verification/Organizations.thy ===== *)
theory Organizations
  imports Accounts
begin

text \<open>
  \<^verbatim>\<open>src/saas/organizations/router.ts\<close> and the account part of \<^verbatim>\<open>src/saas/admin/router.ts\<close>: members, roles,
  invitations, the switch between organisations, and the suspension of users and organisations by a platform
  administrator. A request is the \<^typ>\<open>api_request\<close> of the bots router; \<open>ar_params_id\<close> is its path parameter.
\<close>

section \<open>Helpers\<close>

definition audit :: "api_request \<Rightarrow> string \<Rightarrow> string \<Rightarrow> string \<Rightarrow> json_object \<Rightarrow> account_db \<Rightarrow> account_db" where
  "audit req action entityType entityId metadata db =
     db\<lparr>ad_saas := writeAuditEvent req action (Some entityType) (Some entityId) (JObj metadata) (ad_saas db)\<rparr>"

definition set_memberships :: "membership_row list \<Rightarrow> account_db \<Rightarrow> account_db" where
  "set_memberships ms db = db\<lparr>ad_saas := (ad_saas db)\<lparr>sd_memberships := ms\<rparr>\<rparr>"

definition set_invitations :: "invitation_row list \<Rightarrow> account_db \<Rightarrow> account_db" where
  "set_invitations is db = db\<lparr>ad_saas := (ad_saas db)\<lparr>sd_invitations := is\<rparr>\<rparr>"

text \<open>A role that may be given: every one but OWNER.\<close>

definition assignable_role :: "string \<Rightarrow> role option" where
  "assignable_role name = (case map_of role_names name of Some r \<Rightarrow> if r = OWNER then None else Some r | None \<Rightarrow> None)"

section \<open>Sessions\<close>

definition switchOrganization :: "auth_server \<Rightarrow> draw \<Rightarrow> api_request \<Rightarrow> account_db \<Rightarrow> (api_error + session) \<times> account_db" where
  "switchOrganization A d req =
     guardH (authContext req) (\<lambda>auth.
     guardH (objectValue (ar_body req) (Some [''organizationId''])) (\<lambda>body.
     guardH (uuidValue (map_of body ''organizationId'') ''organizationId'') (\<lambda>organizationId db.
       case (if active_organization db organizationId
             then find (is_member (au_userId auth) organizationId) (sd_memberships (ad_saas db)) else None) of
         None \<Rightarrow> (Inl (HttpError (notFound ''Organization membership was not found.'')), db)
       | Some m \<Rightarrow>
           (case saveRefresh A d (au_userId auth) organizationId db of
              (Inl e, db') \<Rightarrow> (Inl e, db')
            | (Inr _, db') \<Rightarrow>
                (Inr (tokens A d (au_userId auth) organizationId (mb_role m)),
                 audit req ''ORGANIZATION_SWITCHED'' ''organization'' organizationId [] db')))))"

section \<open>Members\<close>

text \<open>The owner's membership is neither changed nor removed; a change revokes the sessions in the organisation.\<close>

definition editable :: "string \<Rightarrow> string \<Rightarrow> membership_row \<Rightarrow> bool" where
  "editable userId organizationId m \<longleftrightarrow> is_member userId organizationId m \<and> mb_role m \<noteq> OWNER"

definition session_in :: "string \<Rightarrow> string \<Rightarrow> refresh_row \<Rightarrow> bool" where
  "session_in userId organizationId r \<longleftrightarrow> rt_user_id r = userId \<and> rt_organization_id r = organizationId"

definition change_members ::
    "(membership_row list \<Rightarrow> membership_row list) \<Rightarrow> string \<Rightarrow> string \<Rightarrow> string \<Rightarrow> string \<Rightarrow> draw \<Rightarrow> account_db \<Rightarrow>
     api_error + unit \<times> account_db" where
  "change_members change userId organizationId code message d db =
     (let ms = sd_memberships (ad_saas db)
      in if list_ex (editable userId organizationId) ms
         then Inr ((), revoke_tokens (session_in userId organizationId) (dw_now d) (set_memberships (change ms) db))
         else Inl (HttpError (SaasHttpError 409 code message None)))"

definition changeRole :: "draw \<Rightarrow> api_request \<Rightarrow> account_db \<Rightarrow> (api_error + unit) \<times> account_db" where
  "changeRole d req =
     guardH (requireRoles [OWNER] req) (\<lambda>_.
     guardH (authContext req) (\<lambda>auth.
     guardH (uuidValue (Some (JStr (ar_params_id req))) ''userId'') (\<lambda>userId.
     guardH (objectValue (ar_body req) (Some [''role''])) (\<lambda>body.
     guardH (stringValue (map_of body ''role'') ''role'' 20) (\<lambda>name.
     guardH (case assignable_role name of
               None \<Rightarrow> Inl (SaasHttpError 400 ''INVALID_ROLE'' ''Role cannot be assigned.'' None) | Some r \<Rightarrow> Inr r) (\<lambda>r db.
       case saasTransaction (change_members
              (update_where (editable userId (au_organizationId auth)) (\<lambda>m. m\<lparr>mb_role := r\<rparr>)) userId (au_organizationId auth)
              ''MEMBER_NOT_EDITABLE'' ''Owner membership cannot be changed.'' d) db of
         (Inl e, db') \<Rightarrow> (Inl e, db')
       | (Inr _, db') \<Rightarrow> (Inr (), audit req ''MEMBER_ROLE_UPDATED'' ''user'' userId [(''role'', JStr name)] db')))))))"

definition removeMember :: "draw \<Rightarrow> api_request \<Rightarrow> account_db \<Rightarrow> (api_error + unit) \<times> account_db" where
  "removeMember d req =
     guardH (requireRoles [OWNER] req) (\<lambda>_.
     guardH (authContext req) (\<lambda>auth.
     guardH (uuidValue (Some (JStr (ar_params_id req))) ''userId'') (\<lambda>userId db.
       case saasTransaction (change_members (filter (\<lambda>m. \<not> editable userId (au_organizationId auth) m)) userId
              (au_organizationId auth) ''MEMBER_NOT_REMOVABLE'' ''Owner membership cannot be removed.'' d) db of
         (Inl e, db') \<Rightarrow> (Inl e, db')
       | (Inr _, db') \<Rightarrow> (Inr (), audit req ''MEMBER_REMOVED'' ''user'' userId [] db'))))"

section \<open>Invitations\<close>

definition invitation_for :: "string \<Rightarrow> string \<Rightarrow> invitation_row \<Rightarrow> bool" where
  "invitation_for organizationId email i \<longleftrightarrow> iv_organization_id i = organizationId \<and> iv_email i = email"

definition new_invitation :: "auth_server \<Rightarrow> draw \<Rightarrow> auth_context \<Rightarrow> string \<Rightarrow> role \<Rightarrow> invitation_row" where
  "new_invitation A d auth email r =
     \<lparr>iv_id = dw_id d, iv_organization_id = au_organizationId auth, iv_email = email, iv_role = r,
      iv_token_hash = sv_sha256 A (dw_token d), iv_invited_by = au_userId auth, iv_accepted_at = None, iv_revoked_at = None,
      iv_expires_at = dw_now d + days 7\<rparr>"

text \<open>On a conflict the row of the address is used again, under its identifier.\<close>

definition upsert_invitation :: "invitation_row \<Rightarrow> invitation_row list \<Rightarrow> invitation_row list" where
  "upsert_invitation row rows =
     (let same = invitation_for (iv_organization_id row) (iv_email row)
      in if list_ex same rows then update_where same (\<lambda>i. row\<lparr>iv_id := iv_id i\<rparr>) rows else rows @ [row])"

definition has_member :: "string \<Rightarrow> string \<Rightarrow> account_db \<Rightarrow> bool" where
  "has_member organizationId email db \<longleftrightarrow>
     (\<exists>m \<in> set (sd_memberships (ad_saas db)). mb_organization_id m = organizationId \<and>
        (\<exists>u \<in> set (ad_users db). us_id u = mb_user_id m \<and> us_email u = email))"

definition invite_transaction ::
    "auth_server \<Rightarrow> draw \<Rightarrow> auth_context \<Rightarrow> string \<Rightarrow> role \<Rightarrow> account_db \<Rightarrow> api_error + invitation_row \<times> account_db" where
  "invite_transaction A d auth email r db =
     (let org = au_organizationId auth;
          row = new_invitation A d auth email r;
          rows = sd_invitations (ad_saas db)
      in if has_member org email db
         then Inl (HttpError (SaasHttpError 409 ''ALREADY_MEMBER'' ''User is already a member.'' None))
         else guardT (if list_ex (\<lambda>i. open_invitation (dw_now d) org i \<and> iv_email i = email) rows then Inr ()
                      else enforceMemberQuota (dw_now d) org (ad_saas db)) (\<lambda>_.
                if \<exists>i \<in> set rows. iv_token_hash i = iv_token_hash row \<and> \<not> invitation_for org email i
                then Inl (DbError unique_violation)
                else Inr (row, (set_invitations (upsert_invitation row rows) db)
                       \<lparr>ad_email_outbox := ad_email_outbox db @
                          [new_mail A d email INVITE_MEMBER (sv_seal A (token_json (dw_token d)))]\<rparr>)))"

definition invite :: "auth_server \<Rightarrow> draw \<Rightarrow> api_request \<Rightarrow> account_db \<Rightarrow> (api_error + unit) \<times> account_db" where
  "invite A d req =
     guardH (requireRoles [OWNER, ADMIN] req) (\<lambda>_.
     guardH (authContext req) (\<lambda>auth.
     guardH (objectValue (ar_body req) (Some [''email'', ''role''])) (\<lambda>body.
     guardH (emailValue (map_of body ''email'')) (\<lambda>email.
     guardH (stringValue (map_of body ''role'') ''role'' 20) (\<lambda>name.
     guardH (case assignable_role name of
               Some r \<Rightarrow> if au_role auth = ADMIN \<and> r = ADMIN
                         then Inl (SaasHttpError 403 ''INVALID_ROLE'' ''Role cannot be invited.'' None) else Inr r
             | None \<Rightarrow> Inl (SaasHttpError 403 ''INVALID_ROLE'' ''Role cannot be invited.'' None)) (\<lambda>r db.
       case saasTransaction (invite_transaction A d auth email r) db of
         (Inl e, db') \<Rightarrow> (Inl e, db')
       | (Inr row, db') \<Rightarrow> (Inr (), audit req ''MEMBER_INVITED'' ''invitation'' (iv_id row) [(''role'', JStr name)] db')))))))"

definition open_for :: "int \<Rightarrow> string \<Rightarrow> invitation_row \<Rightarrow> bool" where
  "open_for now hash i \<longleftrightarrow>
     iv_token_hash i = hash \<and> iv_accepted_at i = None \<and> iv_revoked_at i = None \<and> iv_expires_at i > now"

definition accept_transaction :: "auth_server \<Rightarrow> draw \<Rightarrow> auth_context \<Rightarrow> string \<Rightarrow> account_db \<Rightarrow> api_error + string \<times> account_db" where
  "accept_transaction A d auth hash db =
     (let invalid = HttpError (SaasHttpError 400 ''INVALID_INVITATION'' ''Invitation is invalid or expired.'' None);
          rows = sd_invitations (ad_saas db);
          ms = sd_memberships (ad_saas db)
      in case (find (\<lambda>u. us_id u = au_userId auth \<and> us_status u = ActiveUser) (ad_users db), find (open_for (dw_now d) hash) rows) of
           (Some user, Some i) \<Rightarrow>
             if toLowerCase (us_email user) \<noteq> toLowerCase (iv_email i) then Inl invalid
             else Inr (iv_organization_id i,
                    set_invitations (update_where (\<lambda>j. iv_id j = iv_id i) (\<lambda>j. j\<lparr>iv_accepted_at := Some (dw_now d)\<rparr>) rows)
                      (if list_ex (is_member (au_userId auth) (iv_organization_id i)) ms then db
                       else set_memberships (ms @ [\<lparr>mb_organization_id = iv_organization_id i, mb_user_id = au_userId auth,
                              mb_role = iv_role i\<rparr>]) db))
         | _ \<Rightarrow> Inl invalid)"

definition acceptInvitation :: "auth_server \<Rightarrow> draw \<Rightarrow> api_request \<Rightarrow> account_db \<Rightarrow> (api_error + unit) \<times> account_db" where
  "acceptInvitation A d req =
     guardH (authContext req) (\<lambda>auth.
     guardH (objectValue (ar_body req) (Some [''token''])) (\<lambda>body.
     guardH (stringValue (map_of body ''token'') ''token'' 200) (\<lambda>token db.
       case saasTransaction (accept_transaction A d auth (sv_sha256 A token)) db of
         (Inl e, db') \<Rightarrow> (Inl e, db')
       | (Inr organizationId, db') \<Rightarrow> (Inr (), audit req ''INVITATION_ACCEPTED'' ''organization'' organizationId [] db'))))"

definition revokeInvitation :: "draw \<Rightarrow> api_request \<Rightarrow> account_db \<Rightarrow> (api_error + unit) \<times> account_db" where
  "revokeInvitation d req =
     guardH (requireRoles [OWNER, ADMIN] req) (\<lambda>_.
     guardH (authContext req) (\<lambda>auth.
     guardH (uuidValue (Some (JStr (ar_params_id req))) ''id'') (\<lambda>id' db.
       let mine = (\<lambda>i. iv_id i = id' \<and> iv_organization_id i = au_organizationId auth \<and> iv_accepted_at i = None);
           rows = sd_invitations (ad_saas db)
       in if \<not> list_ex mine rows then (Inl (HttpError (notFound ''Invitation was not found.'')), db)
          else (Inr (), audit req ''INVITATION_REVOKED'' ''invitation'' id' []
                 (set_invitations (update_where mine (\<lambda>i. i\<lparr>iv_revoked_at := Some (dw_now d)\<rparr>) rows) db)))))"

section \<open>Platform administration of accounts\<close>

definition requirePlatformAdmin :: "api_request \<Rightarrow> account_db \<Rightarrow> unit checked" where
  "requirePlatformAdmin req db =
     bindC (authContext req) (\<lambda>auth.
       if \<exists>u \<in> set (ad_users db). us_id u = au_userId auth \<and> us_status u = ActiveUser \<and> us_platform_role u = PlatformAdmin
       then Inr ()
       else Inl (SaasHttpError 403 ''PLATFORM_ADMIN_REQUIRED'' ''Platform administrator access is required.'' None))"

definition statusValue :: "json_object \<Rightarrow> string checked" where
  "statusValue body =
     bindC (stringValue (map_of body ''status'') ''status'' 20) (\<lambda>status.
       if status \<notin> {''ACTIVE'', ''SUSPENDED''} then Inl (SaasHttpError 400 ''INVALID_STATUS'' ''Status is invalid.'' None)
       else Inr status)"

definition user_status_transaction :: "draw \<Rightarrow> string \<Rightarrow> string \<Rightarrow> account_db \<Rightarrow> api_error + unit \<times> account_db" where
  "user_status_transaction d userId status db =
     (let editable = (\<lambda>u. us_id u = userId \<and> us_status u \<in> {ActiveUser, SuspendedUser});
          status' = (if status = ''ACTIVE'' then ActiveUser else SuspendedUser);
          db1 = update_users editable (\<lambda>u. u\<lparr>us_status := status'\<rparr>) db
      in if \<not> list_ex editable (ad_users db) then Inl (HttpError (notFound ''User was not found.''))
         else Inr ((), if status = ''SUSPENDED'' then revoke_tokens (\<lambda>r. rt_user_id r = userId) (dw_now d) db1 else db1))"

definition setUserStatus :: "draw \<Rightarrow> api_request \<Rightarrow> account_db \<Rightarrow> (api_error + unit) \<times> account_db" where
  "setUserStatus d req db =
     guardH (requirePlatformAdmin req db) (\<lambda>_.
     guardH (authContext req) (\<lambda>auth.
     guardH (uuidValue (Some (JStr (ar_params_id req))) ''id'') (\<lambda>userId.
     guardH (if userId = au_userId auth
             then Inl (SaasHttpError 409 ''SELF_MODIFICATION_FORBIDDEN'' ''Administrator cannot change their own status.'' None)
             else Inr ()) (\<lambda>_.
     guardH (objectValue (ar_body req) (Some [''status''])) (\<lambda>body.
     guardH (statusValue body) (\<lambda>status db.
       case saasTransaction (user_status_transaction d userId status) db of
         (Inl e, db') \<Rightarrow> (Inl e, db')
       | (Inr _, db') \<Rightarrow>
           (Inr (), audit req ''PLATFORM_USER_STATUS_CHANGED'' ''user'' userId [(''status'', JStr status)] db'))))))) db"

definition revokeSessions :: "draw \<Rightarrow> api_request \<Rightarrow> account_db \<Rightarrow> (api_error + nat) \<times> account_db" where
  "revokeSessions d req db =
     guardH (requirePlatformAdmin req db) (\<lambda>_.
     guardH (uuidValue (Some (JStr (ar_params_id req))) ''id'') (\<lambda>userId db.
       if \<not> list_ex (\<lambda>u. us_id u = userId) (ad_users db) then (Inl (HttpError (notFound ''User was not found.'')), db)
       else let mine = (\<lambda>r. rt_user_id r = userId \<and> rt_revoked_at r = None);
                revoked = length (filter mine (ad_refresh_tokens db))
            in (Inr revoked, audit req ''PLATFORM_USER_SESSIONS_REVOKED'' ''user'' userId
                  [(''sessions'', JNum (Fin (rat_of_nat revoked)))] (revoke_tokens mine (dw_now d) db)))) db"

definition organization_status_transaction :: "draw \<Rightarrow> string \<Rightarrow> string \<Rightarrow> account_db \<Rightarrow> api_error + unit \<times> account_db" where
  "organization_status_transaction d organizationId status db =
     (let status' = (if status = ''ACTIVE'' then OrgActive else OrgSuspended);
          db1 = db\<lparr>ad_organizations := update_where (\<lambda>g. og_id g = organizationId) (\<lambda>g. g\<lparr>og_status := status'\<rparr>) (ad_organizations db)\<rparr>
      in if \<not> list_ex (\<lambda>g. og_id g = organizationId) (ad_organizations db)
         then Inl (HttpError (notFound ''Organization was not found.''))
         else Inr ((), if status = ''SUSPENDED'' then revoke_tokens (\<lambda>r. rt_organization_id r = organizationId) (dw_now d) db1
                       else db1))"

definition setOrganizationStatus :: "draw \<Rightarrow> api_request \<Rightarrow> account_db \<Rightarrow> (api_error + unit) \<times> account_db" where
  "setOrganizationStatus d req db =
     guardH (requirePlatformAdmin req db) (\<lambda>_.
     guardH (uuidValue (Some (JStr (ar_params_id req))) ''id'') (\<lambda>organizationId.
     guardH (objectValue (ar_body req) (Some [''status''])) (\<lambda>body.
     guardH (statusValue body) (\<lambda>status db.
       case saasTransaction (organization_status_transaction d organizationId status) db of
         (Inl e, db') \<Rightarrow> (Inl e, db')
       | (Inr _, db') \<Rightarrow>
           (Inr (), audit req ''PLATFORM_ORGANIZATION_STATUS_CHANGED'' ''organization'' organizationId
              [(''status'', JStr status)] db'))))) db"

end
