(* ===== verification/Account_Sessions.thy ===== *)
theory Account_Sessions
  imports Organizations
begin

text \<open>
  Sessions as a protocol. Whatever a request does to the table of refresh tokens is one step of a small
  transition system: tokens are revoked, a session is opened under a new family, or a live token is rotated
  within its family. The invariants of the protocol are proved on those steps by rule induction; every
  handler of the accounts and organisations is then shown to make only such steps.
\<close>

section \<open>The protocol\<close>

definition live_token :: "refresh_row \<Rightarrow> bool" where
  "live_token r \<longleftrightarrow> rt_revoked_at r = None"

definition revoked :: "int \<Rightarrow> refresh_row \<Rightarrow> refresh_row" where
  "revoked now r = r\<lparr>rt_revoked_at := Some (nullish (rt_revoked_at r) now)\<rparr>"

definition replaced :: "int \<Rightarrow> string \<Rightarrow> refresh_row \<Rightarrow> refresh_row" where
  "replaced now newId r = r\<lparr>rt_revoked_at := Some now, rt_replaced_by := Some newId\<rparr>"

definition is_new :: "refresh_row \<Rightarrow> refresh_row list \<Rightarrow> bool" where
  "is_new row ts \<longleftrightarrow> live_token row \<and> rt_id row \<notin> rt_id ` set ts \<and> rt_token_hash row \<notin> rt_token_hash ` set ts"

inductive token_step :: "refresh_row list \<Rightarrow> refresh_row list \<Rightarrow> bool" where
  revoke: "token_step ts (update_where p (revoked now) ts)"
| open_session: "is_new row ts \<Longrightarrow> rt_family_id row \<notin> rt_family_id ` set ts \<Longrightarrow> token_step ts (ts @ [row])"
| rotate: "is_new row ts \<Longrightarrow> stored \<in> set ts \<Longrightarrow> live_token stored \<Longrightarrow> rt_family_id row = rt_family_id stored \<Longrightarrow>
    rt_user_id row = rt_user_id stored \<Longrightarrow> rt_organization_id row = rt_organization_id stored \<Longrightarrow>
    token_step ts (update_where (\<lambda>r. rt_id r = rt_id stored) (replaced now (rt_id row)) ts @ [row])"

text \<open>
  One row per identifier and hash, at most one live token per family, and one user and organisation per family.
\<close>

definition same_owner :: "refresh_row list \<Rightarrow> bool" where
  "same_owner ts \<longleftrightarrow> (\<forall>r \<in> set ts. \<forall>q \<in> set ts. rt_family_id r = rt_family_id q \<longrightarrow>
     rt_user_id r = rt_user_id q \<and> rt_organization_id r = rt_organization_id q)"

definition tokens_ok :: "refresh_row list \<Rightarrow> bool" where
  "tokens_ok ts \<longleftrightarrow> distinct (map rt_id ts) \<and> distinct (map rt_token_hash ts) \<and>
     distinct (map rt_family_id (filter live_token ts)) \<and> same_owner ts"

text \<open>A family whose tokens are all revoked.\<close>

definition dead_family :: "string \<Rightarrow> refresh_row list \<Rightarrow> bool" where
  "dead_family f ts \<longleftrightarrow> f \<in> rt_family_id ` set ts \<and> (\<forall>r \<in> set ts. rt_family_id r = f \<longrightarrow> \<not> live_token r)"

lemma revoked_simps [simp]:
  "rt_id (revoked now r) = rt_id r" "rt_token_hash (revoked now r) = rt_token_hash r" "rt_family_id (revoked now r) = rt_family_id r"
  "rt_user_id (revoked now r) = rt_user_id r" "rt_organization_id (revoked now r) = rt_organization_id r"
  "\<not> live_token (revoked now r)"
  by (simp_all add: revoked_def live_token_def)

lemma replaced_simps [simp]:
  "rt_id (replaced now i r) = rt_id r" "rt_token_hash (replaced now i r) = rt_token_hash r"
  "rt_family_id (replaced now i r) = rt_family_id r" "rt_user_id (replaced now i r) = rt_user_id r"
  "rt_organization_id (replaced now i r) = rt_organization_id r" "\<not> live_token (replaced now i r)"
  by (simp_all add: replaced_def live_token_def)

lemma set_update_where: "set (update_where p f rows) = (\<lambda>r. if p r then f r else r) ` set rows"
  by (simp add: update_where_def)

lemma image_update_where: "(\<And>r. g (f r) = g r) \<Longrightarrow> g ` set (update_where p f ts) = g ` set ts"
  by (auto simp: set_update_where image_comp intro!: image_cong simp del: if_image_distrib)

lemma filter_update_gone:
  "(\<And>r. \<not> q (f r)) \<Longrightarrow> filter q (update_where p f ts) = filter (\<lambda>r. q r \<and> \<not> p r) ts"
  by (induction ts) (auto simp: update_where_def)

lemma distinct_filter_conj: "distinct (map g (filter q ts)) \<Longrightarrow> distinct (map g (filter (\<lambda>r. q r \<and> p r) ts))"
  by (induction ts) (auto split: if_splits)

lemma same_owner_update:
  assumes "\<And>r. rt_family_id (f r) = rt_family_id r" "\<And>r. rt_user_id (f r) = rt_user_id r"
    "\<And>r. rt_organization_id (f r) = rt_organization_id r"
  shows "same_owner (update_where p f ts) = same_owner ts"
proof -
  have "rt_family_id (if p r then f r else r) = rt_family_id r" "rt_user_id (if p r then f r else r) = rt_user_id r"
    "rt_organization_id (if p r then f r else r) = rt_organization_id r" for r
    by (simp_all add: assms)
  then show ?thesis by (simp add: same_owner_def set_update_where del: if_image_distrib)
qed

lemma same_owner_append:
  "same_owner (ts @ [row]) \<longleftrightarrow> same_owner ts \<and> (\<forall>r \<in> set ts. rt_family_id r = rt_family_id row \<longrightarrow>
     rt_user_id r = rt_user_id row \<and> rt_organization_id r = rt_organization_id row)"
  by (simp add: same_owner_def ball_conj_distrib) fastforce

lemma tokens_ok_update:
  assumes "f = revoked now \<or> f = replaced now i" and "tokens_ok ts"
  shows "tokens_ok (update_where p f ts)"
proof -
  have "distinct (map rt_family_id (filter live_token (update_where p f ts)))"
    using assms by (auto simp: filter_update_gone tokens_ok_def intro: distinct_filter_conj)
  with assms show ?thesis
    by (auto simp: tokens_ok_def map_update_where same_owner_update)
qed

lemma token_step_ok:
  assumes "token_step ts ts'" and "tokens_ok ts"
  shows "tokens_ok ts'"
  using assms
proof cases
  case (revoke p now)
  with assms(2) show ?thesis by (auto intro: tokens_ok_update)
next
  case (open_session row)
  have "\<forall>r \<in> set ts. rt_family_id r \<noteq> rt_family_id row" using open_session(3) by (metis imageI)
  moreover have "rt_family_id row \<notin> rt_family_id ` set (filter live_token ts)" using open_session(3) by auto
  ultimately show ?thesis
    using assms(2) open_session(1,2) by (simp add: tokens_ok_def is_new_def same_owner_append)
next
  case (rotate row stored now)
  let ?us = "update_where (\<lambda>r. rt_id r = rt_id stored) (replaced now (rt_id row)) ts"
  have ok: "tokens_ok ?us" using assms(2) by (auto intro: tokens_ok_update)
  have "rt_family_id row \<notin> rt_family_id ` set (filter live_token ?us)"
  proof
    assume "rt_family_id row \<in> rt_family_id ` set (filter live_token ?us)"
    then obtain q where q: "q \<in> set ts" "rt_id q \<noteq> rt_id stored" "live_token q" "rt_family_id q = rt_family_id stored"
      using rotate(5) by (auto simp: filter_update_gone)
    have "inj_on rt_family_id (set (filter live_token ts))"
      using assms(2) by (simp add: tokens_ok_def distinct_map)
    then have "q = stored" by (rule inj_onD) (use q rotate in auto)
    with q(2) show False by simp
  qed
  moreover have "same_owner (?us @ [row])"
  proof -
    have "\<forall>r \<in> set ts. rt_family_id r = rt_family_id stored \<longrightarrow>
        rt_user_id r = rt_user_id stored \<and> rt_organization_id r = rt_organization_id stored"
      using assms(2) rotate(3) unfolding tokens_ok_def same_owner_def by blast
    then have "same_owner (ts @ [row])"
      using assms(2) rotate(5-7) by (simp add: same_owner_append tokens_ok_def)
    then have "same_owner (update_where (\<lambda>r. rt_id r = rt_id stored) (replaced now (rt_id row)) (ts @ [row]))"
      by (simp add: same_owner_update)
    moreover have "set (?us @ [row]) = set (update_where (\<lambda>r. rt_id r = rt_id stored) (replaced now (rt_id row)) (ts @ [row]))"
      using rotate(2,3) by (auto simp: update_where_def is_new_def)
    ultimately show ?thesis by (simp only: same_owner_def)
  qed
  ultimately show ?thesis
    unfolding rotate(1) using rotate(2) ok by (simp add: tokens_ok_def is_new_def image_update_where)
qed

lemma token_step_dead:
  assumes "token_step ts ts'" and "dead_family f ts"
  shows "dead_family f ts'"
  using assms
proof cases
  case (rotate row stored now)
  then have "rt_family_id row \<noteq> f" using assms(2) by (auto simp: dead_family_def)
  with rotate assms(2) show ?thesis
    by (auto simp: dead_family_def image_update_where) (auto simp: set_update_where split: if_splits)
next
  case (revoke p now)
  with assms(2) show ?thesis
    by (auto simp: dead_family_def image_update_where) (auto simp: set_update_where split: if_splits)
qed (auto simp: dead_family_def)

text \<open>A token once in the table keeps its family and its hash.\<close>

lemma token_step_row:
  assumes "token_step ts ts'"
  shows "(\<lambda>r. (rt_token_hash r, rt_family_id r)) ` set ts \<subseteq> (\<lambda>r. (rt_token_hash r, rt_family_id r)) ` set ts'"
  using assms by cases (auto simp: image_update_where [where g = "\<lambda>r. (rt_token_hash r, rt_family_id r)"])

section \<open>Requests\<close>

datatype account_event =
  Register auth_request | Login auth_request | VerifyEmail auth_request | ResendVerification auth_request
  | ForgotPassword auth_request | ResetPassword auth_request | Refresh auth_request | Logout auth_request
  | CancelDeletion auth_request | DeleteAccount auth_request | DataRequest auth_request | Export auth_request
  | Reconsent auth_request | Switch api_request | ChangeRole api_request | RemoveMember api_request
  | Invite api_request | AcceptInvitation api_request | RevokeInvitation api_request | SetUserStatus api_request
  | RevokeSessions api_request | SetOrganizationStatus api_request

text \<open>What is kept of an answer is the session it carries.\<close>

definition issued :: "(api_error + session) \<times> account_db \<Rightarrow> session option \<times> account_db" where
  "issued = map_prod (case_sum (\<lambda>_. None) Some) id"

definition silent :: "'a \<times> account_db \<Rightarrow> session option \<times> account_db" where
  "silent r = (None, snd r)"

definition serve_account :: "auth_server \<Rightarrow> draw \<Rightarrow> account_event \<Rightarrow> account_db \<Rightarrow> session option \<times> account_db" where
  "serve_account A d ev db =
     (case ev of
        Register req \<Rightarrow> silent (register A d req db)
      | Login req \<Rightarrow> issued (login A d req db)
      | VerifyEmail req \<Rightarrow> silent (verifyEmail A d req db)
      | ResendVerification req \<Rightarrow> silent (resendVerification A d req db)
      | ForgotPassword req \<Rightarrow> silent (forgotPassword A d req db)
      | ResetPassword req \<Rightarrow> silent (resetPassword A d req db)
      | Refresh req \<Rightarrow> issued (refresh_session A d req db)
      | Logout req \<Rightarrow> silent (logout A d req db)
      | CancelDeletion req \<Rightarrow> silent (cancelDeletion A d req db)
      | DeleteAccount req \<Rightarrow> silent (deleteAccount A d req db)
      | DataRequest req \<Rightarrow> silent (createDataRequest A d req db)
      | Export req \<Rightarrow> silent (exportAccount A d req db)
      | Reconsent req \<Rightarrow> silent (reconsent A req db)
      | Switch req \<Rightarrow> issued (switchOrganization A d req db)
      | ChangeRole req \<Rightarrow> silent (changeRole d req db)
      | RemoveMember req \<Rightarrow> silent (removeMember d req db)
      | Invite req \<Rightarrow> silent (invite A d req db)
      | AcceptInvitation req \<Rightarrow> silent (acceptInvitation A d req db)
      | RevokeInvitation req \<Rightarrow> silent (revokeInvitation d req db)
      | SetUserStatus req \<Rightarrow> silent (setUserStatus d req db)
      | RevokeSessions req \<Rightarrow> silent (revokeSessions d req db)
      | SetOrganizationStatus req \<Rightarrow> silent (setOrganizationStatus d req db))"

text \<open>The family of a new session is a random UUID: it is not in use.\<close>

definition families :: "account_db \<Rightarrow> string set" where
  "families db = rt_family_id ` set (ad_refresh_tokens db)"

inductive account_step :: "auth_server \<Rightarrow> account_db \<Rightarrow> account_db \<Rightarrow> bool" for A where
  "dw_id2 d \<notin> families db \<Longrightarrow> account_step A db (snd (serve_account A d ev db))"

section \<open>Every request follows the protocol\<close>

definition protocol :: "refresh_row list \<Rightarrow> refresh_row list \<Rightarrow> bool" where
  "protocol ts ts' \<longleftrightarrow> token_step ts ts' \<or> ts = ts'"

lemma protocol_refl [simp]: "protocol ts ts"
  by (simp add: protocol_def)

definition follows :: "string \<Rightarrow> (account_db \<Rightarrow> 'a \<times> account_db) \<Rightarrow> bool" where
  "follows f h \<longleftrightarrow> (\<forall>db. f \<notin> families db \<longrightarrow> protocol (ad_refresh_tokens db) (ad_refresh_tokens (snd (h db))))"

lemma followsI: "(\<And>db. f \<notin> families db \<Longrightarrow> protocol (ad_refresh_tokens db) (ad_refresh_tokens (snd (h db)))) \<Longrightarrow> follows f h"
  by (simp add: follows_def)

lemma follows_quiet: "(\<And>db. ad_refresh_tokens (snd (h db)) = ad_refresh_tokens db) \<Longrightarrow> follows f h"
  by (simp add: follows_def)

lemma follows_guardH: "(\<And>x. follows f (k x)) \<Longrightarrow> follows f (guardH c k)"
  by (cases c) (auto simp: follows_def guardH_def)

lemma follows_transaction:
  "(\<And>db x db'. f \<notin> families db \<Longrightarrow> work db = Inr (x, db') \<Longrightarrow> protocol (ad_refresh_tokens db) (ad_refresh_tokens db')) \<Longrightarrow>
   follows f (saasTransaction work)"
  by (fastforce simp: follows_def saasTransaction_def split: sum.splits prod.splits)

lemma follows_read: "(\<And>db0. follows f (h db0)) \<Longrightarrow> follows f (\<lambda>db. h db db)"
  by (simp add: follows_def)

text \<open>What follows a transaction only writes the audit.\<close>

lemma follows_then:
  assumes "follows f h" and "\<And>x db. ad_refresh_tokens (snd (g x db)) = ad_refresh_tokens db"
  shows "follows f (\<lambda>db. case h db of (Inl e, db') \<Rightarrow> (Inl e, db') | (Inr x, db') \<Rightarrow> g x db')"
  using assms by (fastforce simp: follows_def split: sum.splits prod.splits)

lemma revoke_tokens_tokens: "ad_refresh_tokens (revoke_tokens p now db) = update_where p (revoked now) (ad_refresh_tokens db)"
  by (simp add: revoke_tokens_def revoked_def [abs_def])

lemma revoke_tokens_step [simp]:
  "ad_refresh_tokens db0 = ad_refresh_tokens db \<Longrightarrow> protocol (ad_refresh_tokens db) (ad_refresh_tokens (revoke_tokens p now db0))"
  by (simp add: protocol_def revoke_tokens_tokens token_step.revoke)

lemma audit_tokens [simp]: "ad_refresh_tokens (audit req action entityType entityId metadata db) = ad_refresh_tokens db"
  by (simp add: audit_def)

lemma table_updates [simp]:
  "ad_refresh_tokens (set_memberships ms db) = ad_refresh_tokens db"
  "ad_refresh_tokens (set_invitations is' db) = ad_refresh_tokens db"
  "ad_refresh_tokens (update_users p f db) = ad_refresh_tokens db"
  "ad_refresh_tokens (consume_tokens q now db) = ad_refresh_tokens db"
  "ad_refresh_tokens (add_request A d userId email kind status db) = ad_refresh_tokens db"
  "ad_refresh_tokens (insert_consent row db) = ad_refresh_tokens db"
  "ad_refresh_tokens (recordLegalConsent A userId email source db) = ad_refresh_tokens db"
  by (simp_all add: set_memberships_def set_invitations_def update_users_def consume_tokens_def add_request_def insert_consent_def
      recordLegalConsent_def)

lemma insert_refresh_Inr: "insert_refresh row db = Inr (x, db') \<longleftrightarrow>
    rt_id row \<notin> rt_id ` set (ad_refresh_tokens db) \<and> rt_token_hash row \<notin> rt_token_hash ` set (ad_refresh_tokens db) \<and>
    db' = db\<lparr>ad_refresh_tokens := ad_refresh_tokens db @ [row]\<rparr>"
  by (auto simp: insert_refresh_def image_iff) metis+

lemma new_refresh_simps [simp]:
  "rt_id (new_refresh A d userId organizationId familyId) = dw_id d"
  "rt_family_id (new_refresh A d userId organizationId familyId) = familyId"
  "rt_user_id (new_refresh A d userId organizationId familyId) = userId"
  "rt_organization_id (new_refresh A d userId organizationId familyId) = organizationId"
  "rt_token_hash (new_refresh A d userId organizationId familyId) = sv_sha256 A (dw_token d)"
  "rt_expires_at (new_refresh A d userId organizationId familyId) = dw_now d + int (sv_refresh_ttl A)"
  "live_token (new_refresh A d userId organizationId familyId)"
  by (simp_all add: new_refresh_def live_token_def)

lemma saveRefresh_step:
  "saveRefresh A d userId organizationId db = (r, db') \<Longrightarrow> dw_id2 d \<notin> families db \<Longrightarrow>
   protocol (ad_refresh_tokens db) (ad_refresh_tokens db')"
  by (auto simp: saveRefresh_def saasTransaction_def insert_refresh_Inr families_def is_new_def protocol_def
      split: sum.splits prod.splits intro!: token_step.open_session)

lemma refresh_transaction_cases:
  assumes "refresh_transaction A d oldToken db = Inr (s, db')"
  obtains (reused) stored where "stored \<in> set (ad_refresh_tokens db)" "rt_token_hash stored = sv_sha256 A oldToken"
      "\<not> live_token stored" "s = None" "db' = revoke_tokens (\<lambda>r. rt_family_id r = rt_family_id stored) (dw_now d) db"
  | (rotated) stored m where "stored \<in> set (ad_refresh_tokens db)" "rt_token_hash stored = sv_sha256 A oldToken" "live_token stored"
      "rt_expires_at stored > dw_now d" "active_membership db (rt_user_id stored) (rt_organization_id stored) = Some m"
      "s = Some (tokens A d (rt_user_id stored) (mb_organization_id m) (mb_role m))"
      "is_new (new_refresh A d (rt_user_id stored) (rt_organization_id stored) (rt_family_id stored)) (ad_refresh_tokens db)"
      "ad_refresh_tokens db' = update_where (\<lambda>r. rt_id r = rt_id stored) (replaced (dw_now d) (dw_id d)) (ad_refresh_tokens db) @
         [new_refresh A d (rt_user_id stored) (rt_organization_id stored) (rt_family_id stored)]"
proof -
  from assms obtain stored where found: "find (\<lambda>r. rt_token_hash r = sv_sha256 A oldToken) (ad_refresh_tokens db) = Some stored"
    by (auto simp: refresh_transaction_def split: option.splits)
  then have stored: "stored \<in> set (ad_refresh_tokens db)" "rt_token_hash stored = sv_sha256 A oldToken"
    by (auto simp: find_Some_iff)
  show thesis
  proof (cases "live_token stored")
    case False
    with assms found show thesis
      by (intro reused [OF stored]) (auto simp: refresh_transaction_def live_token_def)
  next
    case True
    let ?row = "new_refresh A d (rt_user_id stored) (rt_organization_id stored) (rt_family_id stored)"
    from assms found True obtain m db1 where m: "active_membership db (rt_user_id stored) (rt_organization_id stored) = Some m"
      and run: "insert_refresh ?row db = Inr ((), db1)" and t: "rt_expires_at stored > dw_now d"
      and s: "s = Some (tokens A d (rt_user_id stored) (mb_organization_id m) (mb_role m))"
      and db': "ad_refresh_tokens db' = update_where (\<lambda>r. rt_id r = rt_id stored) (replaced (dw_now d) (dw_id d)) (ad_refresh_tokens db1)"
      by (auto simp: refresh_transaction_def live_token_def replaced_def [abs_def] split: if_splits option.splits sum.splits)
    from run have new: "is_new ?row (ad_refresh_tokens db)" "ad_refresh_tokens db1 = ad_refresh_tokens db @ [?row]"
      by (auto simp: insert_refresh_Inr is_new_def)
    have "update_where (\<lambda>r. rt_id r = rt_id stored) (replaced (dw_now d) (dw_id d)) (ad_refresh_tokens db1) =
        update_where (\<lambda>r. rt_id r = rt_id stored) (replaced (dw_now d) (dw_id d)) (ad_refresh_tokens db) @ [?row]"
      using new stored(1) by (auto simp: update_where_def is_new_def)
    with db' show thesis by (intro rotated [OF stored True t m s new(1)]) simp
  qed
qed

lemma refresh_transaction_step:
  assumes "refresh_transaction A d oldToken db = Inr (s, db')"
  shows "protocol (ad_refresh_tokens db) (ad_refresh_tokens db')"
  using assms
proof (cases rule: refresh_transaction_cases)
  case (reused stored)
  then show ?thesis by simp
next
  case (rotated stored m)
  then show ?thesis
    using token_step.rotate [OF rotated(7,1,3), of "dw_now d"] by (simp add: protocol_def)
qed

lemma follows_quiet_transaction:
  "(\<And>db x db'. work db = Inr (x, db') \<Longrightarrow> ad_refresh_tokens db' = ad_refresh_tokens db) \<Longrightarrow> follows f (saasTransaction work)"
  by (rule follows_transaction) simp

lemma queueAccountEmail_tokens:
  "queueAccountEmail A d userId email kind db = Inr (x, db') \<Longrightarrow> ad_refresh_tokens db' = ad_refresh_tokens db"
  by (auto simp: queueAccountEmail_def Let_def split: if_splits)

lemma insert_user_tokens: "insert_user row db = Inr (x, db') \<Longrightarrow> ad_refresh_tokens db' = ad_refresh_tokens db"
  by (auto simp: insert_user_def split: if_splits)

lemma insert_workspace_tokens [simp]: "ad_refresh_tokens (insert_workspace d name db) = ad_refresh_tokens db"
  by (simp add: insert_workspace_def)

lemma sequence_Inr:
  "(case r of Inl e \<Rightarrow> Inl e | Inr p \<Rightarrow> f p) = Inr y \<longleftrightarrow> (\<exists>p. r = Inr p \<and> f p = Inr y)"
  by (auto split: sum.splits)

lemma register_transaction_tokens:
  assumes "register_transaction A d email password displayName organizationName db = Inr (x, db')"
  shows "ad_refresh_tokens db' = ad_refresh_tokens db"
  using assms
  by (auto simp: register_transaction_def guardT_Inr Let_def sequence_Inr dest!: queueAccountEmail_tokens insert_user_tokens)

lemma on_unique_violation_state [simp]: "snd (on_unique_violation e r) = snd r"
  by (simp add: on_unique_violation_def split: prod.split sum.split api_error.split)

lemma follows_unique: "follows f h \<Longrightarrow> follows f (\<lambda>db. on_unique_violation e (h db))"
  by (simp add: follows_def)

lemma send_token_follows: "follows f (send_token status kind A d req)"
  unfolding send_token_def
  by (intro follows_guardH follows_quiet_transaction) (auto split: option.splits dest: queueAccountEmail_tokens)

lemma account_handlers_quiet:
  "follows f (register A d req)" "follows f (verifyEmail A d req)" "follows f (resendVerification A d req)"
  "follows f (forgotPassword A d req)" "follows f (cancelDeletion A d req)" "follows f (createDataRequest A d req)"
  "follows f (exportAccount A d req)" "follows f (reconsent A req)"
proof -
  show "follows f (register A d req)"
    unfolding register_def
    by (intro follows_guardH follows_unique follows_quiet_transaction) (rule register_transaction_tokens)
  show "follows f (verifyEmail A d req)"
    unfolding verifyEmail_def
    by (intro follows_guardH follows_quiet_transaction) (auto simp: verify_transaction_def split: option.splits)
  show "follows f (resendVerification A d req)" "follows f (forgotPassword A d req)"
    by (simp_all add: resendVerification_def forgotPassword_def send_token_follows)
  show "follows f (cancelDeletion A d req)"
    unfolding cancelDeletion_def
    by (intro follows_guardH follows_quiet) (auto simp: Let_def saasTransaction_def split: option.split)
  show "follows f (createDataRequest A d req)" "follows f (exportAccount A d req)"
    unfolding createDataRequest_def exportAccount_def
    by (intro follows_guardH follows_quiet; auto split: option.split)+
  show "follows f (reconsent A req)"
    unfolding reconsent_def
    by (intro follows_guardH follows_quiet_transaction) (auto split: option.splits)
qed

lemma reset_transaction_step:
  "reset_transaction d hash passwordHash db = Inr (x, db') \<Longrightarrow> protocol (ad_refresh_tokens db) (ad_refresh_tokens db')"
  by (auto simp: reset_transaction_def split: option.splits)

lemma account_handlers_follow:
  "follows (dw_id2 d) (login A d req)" "follows f (resetPassword A d req)" "follows f (refresh_session A d req)"
  "follows f (logout A d req)" "follows f (deleteAccount A d req)"
proof -
  show "follows (dw_id2 d) (login A d req)"
    unfolding login_def Let_def
    by (intro follows_guardH followsI)
       (auto split: list.split option.split sum.split prod.splits dest: saveRefresh_step)
  show "follows f (resetPassword A d req)"
    unfolding resetPassword_def
    by (intro follows_guardH follows_transaction) (rule reset_transaction_step)
  show "follows f (refresh_session A d req)"
    unfolding refresh_session_def Let_def
    by (intro follows_guardH followsI)
       (auto simp: saasTransaction_def split: sum.split prod.split option.split dest: refresh_transaction_step)
  have "follows f (logout_session A d req)"
    unfolding logout_session_def Let_def by (intro follows_guardH followsI) auto
  then show "follows f (logout A d req)"
    unfolding logout_def follows_def by (auto split: prod.split sum.split)
  show "follows f (deleteAccount A d req)"
    unfolding deleteAccount_def Let_def schedule_deletion_def
    by (intro follows_guardH followsI) (auto simp: saasTransaction_def split: option.split)
qed

lemma change_members_step:
  "change_members change userId organizationId code message d db = Inr (x, db') \<Longrightarrow>
   protocol (ad_refresh_tokens db) (ad_refresh_tokens db')"
  by (auto simp: change_members_def Let_def split: if_splits)

lemma invite_transaction_tokens:
  "invite_transaction A d auth email r db = Inr (x, db') \<Longrightarrow> ad_refresh_tokens db' = ad_refresh_tokens db"
  by (auto simp: invite_transaction_def guardT_Inr Let_def split: if_splits)

lemma accept_transaction_tokens:
  "accept_transaction A d auth hash db = Inr (x, db') \<Longrightarrow> ad_refresh_tokens db' = ad_refresh_tokens db"
  by (auto simp: accept_transaction_def Let_def split: if_splits option.splits)

lemma user_status_step:
  "user_status_transaction d userId status db = Inr (x, db') \<Longrightarrow> protocol (ad_refresh_tokens db) (ad_refresh_tokens db')"
  by (auto simp: user_status_transaction_def Let_def split: if_splits)

lemma organization_status_step:
  "organization_status_transaction d organizationId status db = Inr (x, db') \<Longrightarrow>
   protocol (ad_refresh_tokens db) (ad_refresh_tokens db')"
  by (auto simp: organization_status_transaction_def Let_def split: if_splits)

lemma organization_handlers_follow:
  "follows (dw_id2 d) (switchOrganization A d req)" "follows f (changeRole d req)" "follows f (removeMember d req)"
  "follows f (invite A d req)" "follows f (acceptInvitation A d req)" "follows f (revokeInvitation d req)"
  "follows f (setUserStatus d req)" "follows f (revokeSessions d req)" "follows f (setOrganizationStatus d req)"
proof -
  show "follows (dw_id2 d) (switchOrganization A d req)"
    unfolding switchOrganization_def
    by (intro follows_guardH followsI) (auto split: option.split sum.split prod.split dest: saveRefresh_step)
  show "follows f (changeRole d req)" "follows f (removeMember d req)"
    unfolding changeRole_def removeMember_def
    by (intro follows_guardH follows_then follows_transaction; simp add: change_members_step)+
  show "follows f (invite A d req)" "follows f (acceptInvitation A d req)"
    unfolding invite_def acceptInvitation_def
    by (intro follows_guardH follows_then follows_quiet_transaction;
        simp add: invite_transaction_tokens accept_transaction_tokens)+
  show "follows f (revokeInvitation d req)"
    unfolding revokeInvitation_def Let_def by (intro follows_guardH follows_quiet) simp
  show "follows f (setUserStatus d req)"
    unfolding setUserStatus_def [abs_def]
    by (rule follows_read) (intro follows_guardH follows_then follows_transaction; simp add: user_status_step)
  show "follows f (revokeSessions d req)"
    unfolding revokeSessions_def [abs_def] Let_def
    by (rule follows_read) (intro follows_guardH followsI; simp)
  show "follows f (setOrganizationStatus d req)"
    unfolding setOrganizationStatus_def [abs_def]
    by (rule follows_read) (intro follows_guardH follows_then follows_transaction; simp add: organization_status_step)
qed

lemma serve_account_follows: "follows (dw_id2 d) (serve_account A d ev)"
proof -
  have silent: "follows f (\<lambda>db. silent (h db))" if "follows f h" for f and h :: "account_db \<Rightarrow> 'a \<times> account_db"
    using that by (simp add: follows_def silent_def)
  have issued: "follows f (\<lambda>db. issued (h db))" if "follows f h" for f and h :: "account_db \<Rightarrow> (api_error + session) \<times> account_db"
    using that by (simp add: follows_def issued_def)
  show ?thesis
    unfolding serve_account_def
    by (cases ev)
       (simp_all add: silent issued account_handlers_quiet account_handlers_follow organization_handlers_follow)
qed

lemma account_step_protocol:
  assumes "account_step A db db'"
  shows "protocol (ad_refresh_tokens db) (ad_refresh_tokens db')"
  using assms by cases (use serve_account_follows in \<open>auto simp: follows_def\<close>)

end
