(* ===== verification/Email_Delivery.thy ===== *)
theory Email_Delivery
  imports Account_Sessions
begin

text \<open>
  \<^verbatim>\<open>src/saas/email\<close>: the worker that sends the messages of the outbox, the templates it renders, the events the
  mail provider reports, and the retry of a dead letter by an administrator (\<^verbatim>\<open>src/saas/admin/router.ts\<close>).

  The cipher, JSON, the URL and the SMTP server are arguments. Characters of HOL have eight bits, so the Russian
  texts are arguments as well. What the worker hands to \<^verbatim>\<open>transport.sendMail\<close> is a \<open>letter\<close>.
\<close>

section \<open>Tables and environment\<close>

record suppression_row =
  sp_email_hash :: string
  sp_reason :: string
  sp_provider_message_id :: string

record provider_event_row =
  pe_event_id :: string
  pe_outbox_id :: "string option"
  pe_message_id :: string
  pe_type :: string

record mail_db =
  ml_accounts :: account_db
  ml_suppressions :: "suppression_row list"
  ml_events :: "provider_event_row list"

record letter =
  lt_from :: string
  lt_to :: string
  lt_subject :: string
  lt_text :: string
  lt_html :: string

text \<open>
  \<open>me_link\<close> is the public address of the application with a path and the token in its query, \<open>me_string\<close> is
  \<^verbatim>\<open>String\<close> of a JSON value, \<open>me_thrown\<close> of a thrown value that is no error; \<open>me_russian\<close> gives the two texts of
  a template.
\<close>

record mail_env =
  me_open :: "string \<Rightarrow> js_error + string"
  me_parse :: "string \<Rightarrow> js_error + json"
  me_string :: "json \<Rightarrow> string"
  me_thrown :: string
  me_link :: "string \<Rightarrow> string \<Rightarrow> js_error + string"
  me_from :: "string option"
  me_russian :: "email_template \<Rightarrow> string \<times> string"
  me_russian_note :: string
  me_webhook_token :: "string option"

definition set_outbox :: "outbox_row list \<Rightarrow> mail_db \<Rightarrow> mail_db" where
  "set_outbox rows db = db\<lparr>ml_accounts := (ml_accounts db)\<lparr>ad_email_outbox := rows\<rparr>\<rparr>"

abbreviation outbox :: "mail_db \<Rightarrow> outbox_row list" where
  "outbox db \<equiv> ad_email_outbox (ml_accounts db)"

definition update_mail :: "string \<Rightarrow> (outbox_row \<Rightarrow> outbox_row) \<Rightarrow> mail_db \<Rightarrow> mail_db" where
  "update_mail mailId f db = set_outbox (update_where (\<lambda>r. eo_id r = mailId) f (outbox db)) db"

definition emailHash :: "auth_server \<Rightarrow> string \<Rightarrow> string" where
  "emailHash A email = sv_hmac A (toLowerCase (trim email))"

definition suppressed :: "string \<Rightarrow> mail_db \<Rightarrow> bool" where
  "suppressed hash db \<longleftrightarrow> (\<exists>s \<in> set (ml_suppressions db). sp_email_hash s = hash)"

section \<open>templates.ts\<close>

definition escapeChar :: "char \<Rightarrow> string" where
  "escapeChar c =
     (if c = CHR ''&'' then ''&amp;'' else if c = CHR ''<'' then ''&lt;'' else if c = CHR ''>'' then ''&gt;''
      else if c = CHR 0x22 then ''&quot;'' else if c = CHR 0x27 then ''&#39;'' else [c])"

definition escapeHtml :: "string \<Rightarrow> string" where
  "escapeHtml value = concat (map escapeChar value)"

definition english_copy :: "email_template \<Rightarrow> string \<times> string" where
  "english_copy template =
     (case template of
        AccountEmail VERIFY_EMAIL \<Rightarrow> (''Verify your Tonatiuh email'', ''Verify email'')
      | AccountEmail RESET_PASSWORD \<Rightarrow> (''Reset your Tonatiuh password'', ''Reset password'')
      | INVITE_MEMBER \<Rightarrow> (''Tonatiuh workspace invitation'', ''Accept invitation''))"

definition copy_of :: "mail_env \<Rightarrow> email_locale \<Rightarrow> email_template \<Rightarrow> string \<times> string" where
  "copy_of E locale template = (case locale of RU \<Rightarrow> me_russian E template | EN \<Rightarrow> english_copy template)"

definition note_of :: "mail_env \<Rightarrow> email_locale \<Rightarrow> string" where
  "note_of E locale =
     (case locale of RU \<Rightarrow> me_russian_note E | EN \<Rightarrow> ''If you did not request this action, ignore this email.'')"

definition locale_name :: "email_locale \<Rightarrow> string" where
  "locale_name locale = (case locale of RU \<Rightarrow> ''ru'' | EN \<Rightarrow> ''en'')"

definition renderText :: "mail_env \<Rightarrow> email_template \<Rightarrow> email_locale \<Rightarrow> string \<Rightarrow> string" where
  "renderText E template locale url =
     (let newline = [CHR 0x0A]; (subject, action) = copy_of E locale template
      in subject @ newline @ newline @ action @ '': '' @ url @ newline @ newline @ note_of E locale)"

definition renderHtml :: "mail_env \<Rightarrow> email_template \<Rightarrow> email_locale \<Rightarrow> string \<Rightarrow> string" where
  "renderHtml E template locale url =
     (let quote = [CHR 0x22]; (subject, action) = copy_of E locale template
      in ''<!doctype html><html lang='' @ quote @ locale_name locale @ quote @ ''><body><main><h1>'' @ escapeHtml subject @
         ''</h1><p><a href='' @ quote @ escapeHtml url @ quote @ ''>'' @ escapeHtml action @ ''</a></p><p>'' @
         note_of E locale @ ''</p></main></body></html>'')"

section \<open>worker.ts\<close>

text \<open>Statements compare with NULL as with nothing: a message that was never attempted is not recovered.\<close>

definition interrupted :: "int \<Rightarrow> outbox_row \<Rightarrow> bool" where
  "interrupted now r \<longleftrightarrow>
     eo_status r = MailProcessing \<and> (case eo_last_attempt_at r of None \<Rightarrow> False | Some t \<Rightarrow> t < now - minutes 15)"

definition recovered :: "int \<Rightarrow> outbox_row \<Rightarrow> outbox_row" where
  "recovered now r =
     r\<lparr>eo_status := MailPending, eo_next_attempt_at := now, eo_last_error := Some ''Recovered after interrupted delivery.''\<rparr>"

definition due_mail :: "int \<Rightarrow> outbox_row \<Rightarrow> bool" where
  "due_mail now r \<longleftrightarrow> eo_status r = MailPending \<and> eo_next_attempt_at r \<le> now"

definition taken :: "int \<Rightarrow> outbox_row \<Rightarrow> outbox_row" where
  "taken now r = r\<lparr>eo_status := MailProcessing, eo_attempts := eo_attempts r + 1, eo_last_attempt_at := Some now\<rparr>"

definition claimMail :: "int \<Rightarrow> mail_db \<Rightarrow> outbox_row option \<times> mail_db" where
  "claimMail now db =
     (let db1 = set_outbox (update_where (interrupted now) (recovered now) (outbox db)) db
      in case first_by eo_created_at (filter (due_mail now) (outbox db1)) of
           None \<Rightarrow> (None, db1)
         | Some row \<Rightarrow> (Some row, update_mail (eo_id row) (taken now) db1))"

definition payload_token :: "mail_env \<Rightarrow> json \<Rightarrow> js_error + string" where
  "payload_token E payload =
     (case payload of
        JNull \<Rightarrow> Inl (typeError ''Cannot read properties of null (reading 'token')'')
      | JObj entries \<Rightarrow>
          Inr (case map_of entries ''token'' of None \<Rightarrow> ''undefined'' | Some (JStr t) \<Rightarrow> t | Some v \<Rightarrow> me_string E v)
      | _ \<Rightarrow> Inr ''undefined'')"

definition mail_path :: "email_template \<Rightarrow> string" where
  "mail_path template =
     (case template of AccountEmail VERIFY_EMAIL \<Rightarrow> ''/verify-email'' | AccountEmail RESET_PASSWORD \<Rightarrow> ''/reset-password''
      | INVITE_MEMBER \<Rightarrow> ''/invitations/accept'')"

definition letter_for :: "mail_env \<Rightarrow> outbox_row \<Rightarrow> js_error + letter" where
  "letter_for E item =
     (case me_open E (eo_encrypted_payload item) of Inl e \<Rightarrow> Inl e | Inr text \<Rightarrow>
     (case me_parse E text of Inl e \<Rightarrow> Inl e | Inr payload \<Rightarrow>
     (case payload_token E payload of Inl e \<Rightarrow> Inl e | Inr token \<Rightarrow>
     (case me_link E (mail_path (eo_template item)) token of Inl e \<Rightarrow> Inl e | Inr url \<Rightarrow>
     (case me_from E of
        None \<Rightarrow> Inl (newError ''SMTP_FROM is required.'')
      | Some sender \<Rightarrow>
          Inr \<lparr>lt_from = sender, lt_to = eo_recipient item, lt_subject = fst (copy_of E (eo_locale item) (eo_template item)),
               lt_text = renderText E (eo_template item) (eo_locale item) url,
               lt_html = renderHtml E (eo_template item) (eo_locale item) url\<rparr>)))))"

text \<open>
  The statement that records a sent message; the index on \<^verbatim>\<open>provider_message_id\<close> is unique. \<open>fault\<close> is an
  error of the database that it meets.
\<close>

definition record_sent :: "js_error option \<Rightarrow> int \<Rightarrow> string \<Rightarrow> string \<Rightarrow> mail_db \<Rightarrow> js_error + mail_db" where
  "record_sent fault now mailId messageId db =
     (case fault of Some e \<Rightarrow> Inl e | None \<Rightarrow>
        if \<exists>r \<in> set (outbox db). eo_id r \<noteq> mailId \<and> eo_provider_message_id r = Some messageId
        then Inl (JsError ''error'' (Some unique_violation)
               ''duplicate key value violates unique constraint \"email_outbox_provider_message_idx\"'')
        else Inr (update_mail mailId (\<lambda>r. r\<lparr>eo_status := MailSent, eo_sent_at := Some now,
               eo_provider_message_id := Some messageId, eo_last_error := None\<rparr>) db))"

definition mail_error_text :: "mail_env \<Rightarrow> js_error \<Rightarrow> string" where
  "mail_error_text E e = (case e of JsError _ _ message \<Rightarrow> message | NonError \<Rightarrow> me_thrown E)"

definition mail_delay :: "nat \<Rightarrow> int" where
  "mail_delay attempt = min 3600 (30 * 2 ^ attempt)"

definition failed_mail :: "mail_env \<Rightarrow> int \<Rightarrow> nat \<Rightarrow> js_error \<Rightarrow> outbox_row \<Rightarrow> outbox_row" where
  "failed_mail E now attempt e r =
     r\<lparr>eo_status := (if attempt \<ge> 8 then MailDeadLetter else MailPending), eo_next_attempt_at := now + mail_delay attempt,
       eo_last_error := Some (take 1000 (mail_error_text E e))\<rparr>"

text \<open>\<open>smtp\<close> answers a letter with the identifier of the message or an error.\<close>

type_synonym smtp = "letter \<Rightarrow> js_error + string"

definition send :: "auth_server \<Rightarrow> mail_env \<Rightarrow> smtp \<Rightarrow> js_error option \<Rightarrow> int \<Rightarrow> outbox_row \<Rightarrow> mail_db \<Rightarrow> letter option \<times> mail_db" where
  "send A E smtp fault now item db =
     (let fail = (\<lambda>e. update_mail (eo_id item) (failed_mail E now (eo_attempts item + 1) e) db)
      in if suppressed (emailHash A (eo_recipient item)) db
         then (None, update_mail (eo_id item)
                (\<lambda>r. r\<lparr>eo_status := MailSuppressed, eo_last_error := Some ''Recipient is suppressed.''\<rparr>) db)
         else (case letter_for E item of
                 Inl e \<Rightarrow> (None, fail e)
               | Inr l \<Rightarrow> (Some l,
                   case smtp l of
                     Inl e \<Rightarrow> fail e
                   | Inr messageId \<Rightarrow> (case record_sent fault now (eo_id item) messageId db of Inl e \<Rightarrow> fail e | Inr db' \<Rightarrow> db'))))"

text \<open>One turn of the loop of \<^verbatim>\<open>main\<close>: whether it had a message, the letter it sent, the tables after it.\<close>

definition mail_turn :: "auth_server \<Rightarrow> mail_env \<Rightarrow> smtp \<Rightarrow> js_error option \<Rightarrow> int \<Rightarrow> mail_db \<Rightarrow> bool \<times> letter option \<times> mail_db" where
  "mail_turn A E smtp fault now db =
     (case claimMail now db of
        (None, db1) \<Rightarrow> (False, None, db1)
      | (Some item, db1) \<Rightarrow> (True, send A E smtp fault now item db1))"

section \<open>router.ts\<close>

definition authorized :: "string option \<Rightarrow> string \<Rightarrow> bool" where
  "authorized provided expected \<longleftrightarrow>
     (case provided of None \<Rightarrow> False | Some p \<Rightarrow> p \<noteq> [] \<and> p = ''Bearer '' @ expected)"

definition suppress :: "suppression_row \<Rightarrow> suppression_row list \<Rightarrow> suppression_row list" where
  "suppress row rows =
     (let same = (\<lambda>s. sp_email_hash s = sp_email_hash row)
      in if list_ex same rows then update_where same (\<lambda>_. row) rows else rows @ [row])"

definition apply_provider_event :: "auth_server \<Rightarrow> string \<Rightarrow> string \<Rightarrow> string \<Rightarrow> mail_db \<Rightarrow> mail_db" where
  "apply_provider_event A eventId messageId type db =
     (let mail = find (\<lambda>r. eo_provider_message_id r = Some messageId) (outbox db)
      in if \<exists>e \<in> set (ml_events db). pe_event_id e = eventId then db
         else let db1 = db\<lparr>ml_events := ml_events db @
                    [\<lparr>pe_event_id = eventId, pe_outbox_id = map_option eo_id mail, pe_message_id = messageId, pe_type = type\<rparr>]\<rparr>
              in case mail of
                   None \<Rightarrow> db1
                 | Some row \<Rightarrow>
                     if type = ''DELIVERED''
                     then update_mail (eo_id row) (\<lambda>r. if eo_status r = MailSent then r\<lparr>eo_status := MailDelivered\<rparr> else r) db1
                     else (update_mail (eo_id row) (\<lambda>r. r\<lparr>eo_status := MailBounced\<rparr>) db1)
                       \<lparr>ml_suppressions := suppress \<lparr>sp_email_hash = emailHash A (eo_recipient row),
                          sp_reason = (if type = ''COMPLAINT'' then ''COMPLAINT'' else ''HARD_BOUNCE''),
                          sp_provider_message_id = messageId\<rparr> (ml_suppressions db1)\<rparr>)"

definition event_types :: "string list" where
  "event_types = [''DELIVERED'', ''HARD_BOUNCE'', ''COMPLAINT'']"

definition providerEvents :: "auth_server \<Rightarrow> mail_env \<Rightarrow> string option \<Rightarrow> json option \<Rightarrow> mail_db \<Rightarrow> (api_error + unit) \<times> mail_db" where
  "providerEvents A E authorization body =
     guardH (case me_webhook_token E of
               None \<Rightarrow> Inl (SaasHttpError 503 ''EMAIL_WEBHOOK_NOT_CONFIGURED'' ''Email webhook is not configured.'' None)
             | Some secret \<Rightarrow>
                 if \<not> authorized authorization secret
                 then Inl (SaasHttpError 401 ''INVALID_EMAIL_WEBHOOK_TOKEN'' ''Webhook token is invalid.'' None) else Inr ()) (\<lambda>_.
     guardH (objectValue body (Some [''eventId'', ''messageId'', ''type''])) (\<lambda>body.
     guardH (stringValue (map_of body ''eventId'') ''eventId'' 200) (\<lambda>eventId.
     guardH (stringValue (map_of body ''messageId'') ''messageId'' 500) (\<lambda>messageId.
     guardH (stringValue (map_of body ''type'') ''type'' 20) (\<lambda>type.
     guardH (if type \<notin> set event_types
             then Inl (SaasHttpError 400 ''INVALID_EMAIL_EVENT'' ''Email event type is invalid.'' None) else Inr ()) (\<lambda>_ db.
       (Inr (), apply_provider_event A eventId messageId type db)))))))"

section \<open>The retry of a dead letter\<close>

definition retryDeadLetter :: "draw \<Rightarrow> api_request \<Rightarrow> mail_db \<Rightarrow> (api_error + unit) \<times> mail_db" where
  "retryDeadLetter d req db =
     guardH (requirePlatformAdmin req (ml_accounts db)) (\<lambda>_.
     guardH (uuidValue (Some (JStr (ar_params_id req))) ''id'') (\<lambda>mailId db.
       let dead = (\<lambda>r. eo_id r = mailId \<and> eo_status r = MailDeadLetter)
       in if \<not> list_ex dead (outbox db) then (Inl (HttpError (notFound ''Dead-letter email was not found.'')), db)
          else let db1 = set_outbox (update_where dead (\<lambda>r. r\<lparr>eo_status := MailPending, eo_attempts := 0,
                       eo_next_attempt_at := dw_now d, eo_last_error := None\<rparr>) (outbox db)) db
               in (Inr (), db1\<lparr>ml_accounts := audit req ''EMAIL_DEAD_LETTER_RETRIED'' ''email_outbox'' mailId [] (ml_accounts db1)\<rparr>))) db"

section \<open>Everything that touches the outbox\<close>

datatype mail_event =
    MailTurn smtp "js_error option" int
  | ProviderEvent "string option" "json option"
  | RetryDeadLetter draw api_request
  | AccountRequest draw account_event

definition serve_mail :: "auth_server \<Rightarrow> mail_env \<Rightarrow> mail_event \<Rightarrow> mail_db \<Rightarrow> letter option \<times> mail_db" where
  "serve_mail A E ev db =
     (case ev of
        MailTurn smtp fault now \<Rightarrow> snd (mail_turn A E smtp fault now db)
      | ProviderEvent authorization body \<Rightarrow> (None, snd (providerEvents A E authorization body db))
      | RetryDeadLetter d req \<Rightarrow> (None, snd (retryDeadLetter d req db))
      | AccountRequest d request \<Rightarrow> (None, db\<lparr>ml_accounts := snd (serve_account A d request (ml_accounts db))\<rparr>))"

fun serve_mails :: "auth_server \<Rightarrow> mail_env \<Rightarrow> mail_event list \<Rightarrow> mail_db \<Rightarrow> letter list \<times> mail_db" where
  "serve_mails A E [] db = ([], db)"
| "serve_mails A E (ev # evs) db =
     (let (l, db1) = serve_mail A E ev db; (ls, db2) = serve_mails A E evs db1
      in (case l of None \<Rightarrow> ls | Some x \<Rightarrow> x # ls, db2))"

end
