(* ===== verification/Account_Security.thy ===== *)
theory Account_Security
  imports Account_Sessions
begin

text \<open>
  What the protocol of \<open>Account_Sessions\<close> gives the accounts: consistent session tables, the detection of a
  replayed refresh token and its refinement of a table of live sessions, what a session may claim, the reset of
  a password and the immediate effect of removing a member.
\<close>

section \<open>Invariants of every sequence of requests\<close>

lemma account_steps_ok:
  assumes "(account_step A)\<^sup>*\<^sup>* db db'" and "tokens_ok (ad_refresh_tokens db)"
  shows "tokens_ok (ad_refresh_tokens db')"
  using assms by induction (use account_step_protocol in \<open>fastforce simp: protocol_def dest: token_step_ok\<close>)+

lemma account_steps_dead:
  assumes "(account_step A)\<^sup>*\<^sup>* db db'" and "dead_family f (ad_refresh_tokens db)"
  shows "dead_family f (ad_refresh_tokens db')"
  using assms by induction (use account_step_protocol in \<open>fastforce simp: protocol_def dest: token_step_dead\<close>)+

definition token_family :: "refresh_row \<Rightarrow> string \<times> string" where
  "token_family r = (rt_token_hash r, rt_family_id r)"

lemma account_steps_row:
  assumes "(account_step A)\<^sup>*\<^sup>* db db'"
  shows "token_family ` set (ad_refresh_tokens db) \<subseteq> token_family ` set (ad_refresh_tokens db')"
  using assms
proof induction
  case (step db1 db2)
  have "token_family ` set (ad_refresh_tokens db1) \<subseteq> token_family ` set (ad_refresh_tokens db2)"
    using account_step_protocol [OF step(2)] token_step_row by (fastforce simp: protocol_def token_family_def)
  with step(3) show ?case by blast
qed simp

section \<open>Presenting a refresh token\<close>

text \<open>A request that reaches the transaction of \<^verbatim>\<open>POST /auth/refresh\<close> with a token.\<close>

definition presents :: "auth_server \<Rightarrow> auth_request \<Rightarrow> string \<Rightarrow> bool" where
  "presents A req t \<longleftrightarrow> refreshTokenFromRequest A req = Some t \<and> rq_csrf req = Some ''1'' \<and> rq_body req = None"

lemma refresh_session_presents:
  assumes "presents A req t"
  shows "refresh_session A d req db =
     (case refresh_transaction A d t db of
        Inl e \<Rightarrow> (Inl e, db)
      | Inr (None, db') \<Rightarrow>
          (Inl (HttpError (SaasHttpError 401 ''REFRESH_TOKEN_REUSED'' ''Refresh token reuse was detected.'' None)), db')
      | Inr (Some session, db') \<Rightarrow> (Inr session, db'))"
  using assms
  by (auto simp: presents_def refresh_session_def Let_def requireCookieCsrfHeader_def guardH_def bodyOf_def objectValue_def
      saasTransaction_def split: sum.split prod.split option.split)

section \<open>A table of live sessions\<close>

text \<open>
  The abstract state: for every family its live token, the hash with the owner and the expiry. The
  specification of a refresh knows nothing of rows and revocations: a token is used against the entry of its
  family; anything but the entry itself empties it.
\<close>

type_synonym live_entry = "string \<times> string \<times> string \<times> int"

definition live_entry :: "refresh_row \<Rightarrow> live_entry" where
  "live_entry r = (rt_token_hash r, rt_user_id r, rt_organization_id r, rt_expires_at r)"

definition live_sessions :: "refresh_row list \<Rightarrow> (string \<rightharpoonup> live_entry)" where
  "live_sessions ts f =
     (case filter (\<lambda>r. live_token r \<and> rt_family_id r = f) ts of [] \<Rightarrow> None | r # _ \<Rightarrow> Some (live_entry r))"

definition issued_in :: "refresh_row list \<Rightarrow> (string \<rightharpoonup> string)" where
  "issued_in ts h = map_option rt_family_id (find (\<lambda>r. rt_token_hash r = h) ts)"

datatype verdict = Granted string | Refused | Replayed

definition use_session ::
    "auth_server \<Rightarrow> draw \<Rightarrow> (string \<Rightarrow> string \<Rightarrow> membership_row option) \<Rightarrow> (string \<rightharpoonup> string) \<Rightarrow> string \<Rightarrow>
     (string \<rightharpoonup> live_entry) \<Rightarrow> verdict \<times> (string \<rightharpoonup> live_entry)" where
  "use_session A d admits family h S =
     (case family h of
        None \<Rightarrow> (Refused, S)
      | Some f \<Rightarrow>
          (case S f of
             None \<Rightarrow> (Replayed, S)
           | Some (h', userId, organizationId, expires) \<Rightarrow>
               if h' \<noteq> h then (Replayed, S(f := None))
               else if expires \<le> dw_now d then (Refused, S)
               else (case admits userId organizationId of
                       None \<Rightarrow> (Refused, S)
                     | Some m \<Rightarrow>
                         (Granted (sv_sign A \<lparr>pl_sub = userId, pl_org = organizationId, pl_role = mb_role m\<rparr>),
                          S(f \<mapsto> (sv_sha256 A (dw_token d), userId, organizationId, dw_now d + int (sv_refresh_ttl A)))))))"

definition verdict_of :: "api_error + session \<Rightarrow> verdict" where
  "verdict_of r =
     (case r of
        Inr s \<Rightarrow> Granted (ss_accessToken s)
      | Inl (HttpError e) \<Rightarrow> if he_code e = ''REFRESH_TOKEN_REUSED'' then Replayed else Refused
      | Inl _ \<Rightarrow> Refused)"

lemma tokens_ok_row: "tokens_ok ts \<Longrightarrow> r \<in> set ts \<Longrightarrow> q \<in> set ts \<Longrightarrow> rt_id r = rt_id q \<Longrightarrow> r = q"
  by (auto simp: tokens_ok_def distinct_map dest: inj_onD)

lemma tokens_ok_hash: "tokens_ok ts \<Longrightarrow> r \<in> set ts \<Longrightarrow> q \<in> set ts \<Longrightarrow> rt_token_hash r = rt_token_hash q \<Longrightarrow> r = q"
  by (auto simp: tokens_ok_def distinct_map dest: inj_onD)

lemma tokens_ok_live:
  assumes "tokens_ok ts" "r \<in> set ts" "q \<in> set ts" "live_token r" "live_token q" "rt_family_id r = rt_family_id q"
  shows "r = q"
proof -
  have "inj_on rt_family_id (set (filter live_token ts))" using assms(1) by (simp add: tokens_ok_def distinct_map)
  then show ?thesis by (rule inj_onD) (use assms in auto)
qed

lemma live_sessions_None: "live_sessions ts f = None \<longleftrightarrow> (\<forall>r \<in> set ts. live_token r \<longrightarrow> rt_family_id r \<noteq> f)"
  by (auto simp: live_sessions_def filter_empty_conv split: list.split)
     (metis (mono_tags, lifting) list.set_intros(1) mem_Collect_eq set_filter)

lemma live_sessions_Some:
  assumes "tokens_ok ts"
  shows "live_sessions ts f = Some e \<longleftrightarrow> (\<exists>r \<in> set ts. live_token r \<and> rt_family_id r = f \<and> e = live_entry r)"
proof (cases "filter (\<lambda>r. live_token r \<and> rt_family_id r = f) ts")
  case Nil
  then show ?thesis by (auto simp: live_sessions_def filter_empty_conv)
next
  case (Cons r rs)
  then have r: "r \<in> set ts" "live_token r" "rt_family_id r = f"
    by (metis (mono_tags, lifting) list.set_intros(1) mem_Collect_eq set_filter)+
  with Cons tokens_ok_live [OF assms] show ?thesis by (auto simp: live_sessions_def)
qed

lemma live_sessions_revoke:
  "live_sessions (update_where (\<lambda>r. rt_family_id r = f) (revoked now) ts) = (live_sessions ts)(f := None)"
proof
  fix g
  show "live_sessions (update_where (\<lambda>r. rt_family_id r = f) (revoked now) ts) g = ((live_sessions ts)(f := None)) g"
  proof (cases "g = f")
    case True
    then show ?thesis by (simp add: live_sessions_def filter_update_gone)
  next
    case False
    then have "(\<lambda>r. (live_token r \<and> rt_family_id r = g) \<and> rt_family_id r \<noteq> f) = (\<lambda>r. live_token r \<and> rt_family_id r = g)" by auto
    with False show ?thesis by (simp add: live_sessions_def filter_update_gone)
  qed
qed

lemma live_sessions_rotate:
  assumes ok: "tokens_ok ts" and stored: "stored \<in> set ts" "live_token stored"
    and row: "live_token row" "rt_family_id row = rt_family_id stored"
  shows "live_sessions (update_where (\<lambda>r. rt_id r = rt_id stored) (replaced now i) ts @ [row]) =
    (live_sessions ts)(rt_family_id stored \<mapsto> live_entry row)"
proof
  fix g
  let ?us = "update_where (\<lambda>r. rt_id r = rt_id stored) (replaced now i) ts"
  show "live_sessions (?us @ [row]) g = ((live_sessions ts)(rt_family_id stored \<mapsto> live_entry row)) g"
  proof (cases "g = rt_family_id stored")
    case True
    have "filter (\<lambda>r. (live_token r \<and> rt_family_id r = g) \<and> rt_id r \<noteq> rt_id stored) ts = []"
      using tokens_ok_live [OF ok _ stored(1) _ stored(2)] True by (auto simp: filter_empty_conv)
    with True row show ?thesis by (simp add: live_sessions_def filter_update_gone)
  next
    case False
    have "filter (\<lambda>r. (live_token r \<and> rt_family_id r = g) \<and> rt_id r \<noteq> rt_id stored) ts =
        filter (\<lambda>r. live_token r \<and> rt_family_id r = g) ts"
      by (rule filter_cong) (use tokens_ok_row [OF ok _ stored(1)] False in auto)
    with False row show ?thesis by (simp add: live_sessions_def filter_update_gone)
  qed
qed

lemma find_hash: "tokens_ok ts \<Longrightarrow> r \<in> set ts \<Longrightarrow> rt_token_hash r = h \<Longrightarrow> find (\<lambda>q. rt_token_hash q = h) ts = Some r"
  by (metis (mono_tags, lifting) find_None_iff find_Some_iff nth_mem option.exhaust tokens_ok_hash)

lemma refresh_live:
  assumes "find (\<lambda>r. rt_token_hash r = sv_sha256 A t) (ad_refresh_tokens db) = Some stored" and "live_token stored"
    and "dw_id d \<notin> rt_id ` set (ad_refresh_tokens db)" and "sv_sha256 A (dw_token d) \<notin> rt_token_hash ` set (ad_refresh_tokens db)"
  shows "refresh_transaction A d t db =
    (if rt_expires_at stored \<le> dw_now d then Inl (invalid_refresh ''Refresh token is expired.'')
     else case active_membership db (rt_user_id stored) (rt_organization_id stored) of
            None \<Rightarrow> Inl (invalid_refresh ''Account access is unavailable.'')
          | Some m \<Rightarrow> Inr (Some (tokens A d (rt_user_id stored) (mb_organization_id m) (mb_role m)),
              db\<lparr>ad_refresh_tokens := update_where (\<lambda>r. rt_id r = rt_id stored) (replaced (dw_now d) (dw_id d)) (ad_refresh_tokens db) @
                 [new_refresh A d (rt_user_id stored) (rt_organization_id stored) (rt_family_id stored)]\<rparr>))"
proof -
  let ?row = "new_refresh A d (rt_user_id stored) (rt_organization_id stored) (rt_family_id stored)"
  have "insert_refresh ?row db = Inr ((), db\<lparr>ad_refresh_tokens := ad_refresh_tokens db @ [?row]\<rparr>)"
    using assms(3,4) by (simp add: insert_refresh_Inr)
  moreover have "rt_id ?row \<noteq> rt_id stored" using assms(1,3) by (force simp: find_Some_iff)
  ultimately show ?thesis
    using assms(1,2) by (simp add: refresh_transaction_def live_token_def replaced_def [abs_def] update_where_def split: option.split)
qed

lemma refresh_revoked:
  assumes "find (\<lambda>r. rt_token_hash r = sv_sha256 A t) (ad_refresh_tokens db) = Some stored" and "\<not> live_token stored"
  shows "refresh_transaction A d t db = Inr (None, revoke_tokens (\<lambda>r. rt_family_id r = rt_family_id stored) (dw_now d) db)"
  using assms by (simp add: refresh_transaction_def live_token_def)

lemma active_membership_organization: "active_membership db userId organizationId = Some m \<Longrightarrow> mb_organization_id m = organizationId"
  by (auto simp: active_membership_def is_member_def find_Some_iff split: if_splits)

lemma use_live_session:
  assumes "find (\<lambda>r. rt_token_hash r = h) ts = Some stored" and "live_sessions ts (rt_family_id stored) = Some (live_entry stored)"
    and "rt_token_hash stored = h"
  shows "use_session A d admits (issued_in ts) h (live_sessions ts) =
    (if rt_expires_at stored \<le> dw_now d then (Refused, live_sessions ts)
     else case admits (rt_user_id stored) (rt_organization_id stored) of
            None \<Rightarrow> (Refused, live_sessions ts)
          | Some m \<Rightarrow> (Granted (sv_sign A \<lparr>pl_sub = rt_user_id stored, pl_org = rt_organization_id stored, pl_role = mb_role m\<rparr>),
              (live_sessions ts)(rt_family_id stored \<mapsto>
                live_entry (new_refresh A d (rt_user_id stored) (rt_organization_id stored) (rt_family_id stored)))))"
  using assms by (simp add: use_session_def issued_in_def live_entry_def split: option.split)

lemma use_dead_session:
  assumes "tokens_ok ts" and "find (\<lambda>r. rt_token_hash r = h) ts = Some stored" and "\<not> live_token stored"
  shows "use_session A d admits (issued_in ts) h (live_sessions ts) = (Replayed, (live_sessions ts)(rt_family_id stored := None))"
proof -
  from assms(2) have stored: "stored \<in> set ts" "rt_token_hash stored = h" by (auto simp: find_Some_iff)
  have "h' \<noteq> h" if "live_sessions ts (rt_family_id stored) = Some (h', e)" for h' e
  proof -
    from that obtain r where r: "r \<in> set ts" "live_token r" "h' = rt_token_hash r"
      unfolding live_sessions_Some [OF assms(1)] live_entry_def by blast
    with assms(3) tokens_ok_hash [OF assms(1) r(1) stored(1)] stored(2) show ?thesis by metis
  qed
  then show ?thesis
    by (cases "live_sessions ts (rt_family_id stored)") (auto simp: use_session_def issued_in_def assms(2))
qed

lemma refresh_live_refines:
  assumes "tokens_ok (ad_refresh_tokens db)" and "presents A req t"
    and "dw_id d \<notin> rt_id ` set (ad_refresh_tokens db)" and "sv_sha256 A (dw_token d) \<notin> rt_token_hash ` set (ad_refresh_tokens db)"
    and found: "find (\<lambda>r. rt_token_hash r = sv_sha256 A t) (ad_refresh_tokens db) = Some stored" and live: "live_token stored"
  shows "map_prod verdict_of (\<lambda>db'. live_sessions (ad_refresh_tokens db')) (refresh_session A d req db) =
    use_session A d (active_membership db) (issued_in (ad_refresh_tokens db)) (sv_sha256 A t) (live_sessions (ad_refresh_tokens db))"
proof -
  from found have stored: "stored \<in> set (ad_refresh_tokens db)" "rt_token_hash stored = sv_sha256 A t" by (auto simp: find_Some_iff)
  have S: "live_sessions (ad_refresh_tokens db) (rt_family_id stored) = Some (live_entry stored)"
    using live_sessions_Some [OF assms(1)] stored live by blast
  have rotated: "live_sessions (update_where (\<lambda>r. rt_id r = rt_id stored) (replaced (dw_now d) (dw_id d)) (ad_refresh_tokens db) @
        [new_refresh A d (rt_user_id stored) (rt_organization_id stored) (rt_family_id stored)]) =
      (live_sessions (ad_refresh_tokens db))(rt_family_id stored \<mapsto>
        live_entry (new_refresh A d (rt_user_id stored) (rt_organization_id stored) (rt_family_id stored)))"
    by (rule live_sessions_rotate [OF assms(1) stored(1) live]) simp_all
  note run = refresh_session_presents [OF assms(2)] refresh_live [OF found live assms(3,4)] use_live_session [OF found S stored(2)]
  show ?thesis
  proof (cases "active_membership db (rt_user_id stored) (rt_organization_id stored)")
    case None
    then show ?thesis by (simp add: run verdict_of_def invalid_refresh_def SaasHttpError_def)
  next
    case (Some m)
    then show ?thesis
      by (simp add: run rotated verdict_of_def invalid_refresh_def SaasHttpError_def tokens_def active_membership_organization [OF Some])
  qed
qed


section \<open>Witnesses\<close>

text \<open>
  A server whose functions compute: the hash marks its argument, the key only depends on the parity of the
  length of the password and the tokens name the user, the organisation and the role.
\<close>

definition sim_role :: "role \<Rightarrow> string" where
  "sim_role r = (case r of OWNER \<Rightarrow> ''OWNER'' | ADMIN \<Rightarrow> ''ADMIN'' | TRADER \<Rightarrow> ''TRADER'' | ANALYST \<Rightarrow> ''ANALYST''
     | BILLING \<Rightarrow> ''BILLING'' | VIEWER \<Rightarrow> ''VIEWER'')"

definition sim_sign :: "access_payload \<Rightarrow> string" where
  "sim_sign p = pl_sub p @ ''.'' @ pl_org p @ ''.'' @ sim_role (pl_role p)"

definition sim_claims :: "string \<Rightarrow> json_object option" where
  "sim_claims token =
     (case split_on CHR ''.'' token of
        [sub, org, r] \<Rightarrow> Some [(''typ'', JStr ''access''), (''sub'', JStr sub), (''org'', JStr org), (''role'', JStr r)]
      | _ \<Rightarrow> None)"

definition sim_server :: auth_server where
  "sim_server =
     \<lparr>sv_sha256 = (\<lambda>s. CHR ''#'' # s), sv_scrypt = (\<lambda>password salt. replicate 127 CHR ''0'' @ (if even (length password) then ''a'' else ''b'')),
      sv_hmac = id, sv_sign = sim_sign, sv_verify = sim_claims, sv_seal = id, sv_decode = Some, sv_encode = id, sv_secure = True,
      sv_access_ttl = 900, sv_refresh_ttl = 2592000, sv_terms = ''2026-01'', sv_privacy = ''2026-02'', sv_locale = EN\<rparr>"

definition sim_draw :: "int \<Rightarrow> string \<Rightarrow> draw" where
  "sim_draw now x = \<lparr>dw_now = now, dw_id = x @ ''i'', dw_id2 = x @ ''f'', dw_mail_id = x @ ''m'', dw_token = x @ ''t'', dw_salt = replicate 32 CHR ''5''\<rparr>"

definition sim_account :: user_row where
  "sim_account =
     \<lparr>us_id = ''u1'', us_email = ''a@b.io'', us_password_hash = None, us_display_name = ''A'', us_status = ActiveUser,
      us_terms_version = ''2026-01'', us_privacy_version = ''2026-02'', us_scheduled_deletion_at = None,
      us_platform_role = PlatformUser\<rparr>"

definition sim_refresh_row :: "string \<Rightarrow> int option \<Rightarrow> refresh_row" where
  "sim_refresh_row x revokedAt =
     \<lparr>rt_id = x, rt_user_id = ''u1'', rt_organization_id = ''o1'', rt_family_id = ''f1'', rt_token_hash = CHR ''#'' # x,
      rt_expires_at = 1000, rt_revoked_at = revokedAt, rt_replaced_by = None\<rparr>"

definition sim_accounts :: "refresh_row list \<Rightarrow> account_db" where
  "sim_accounts ts =
     \<lparr>ad_saas = (sim_saas_db (sim_billing_db 50))\<lparr>sd_memberships := [\<lparr>mb_organization_id = ''o1'', mb_user_id = ''u1'', mb_role = TRADER\<rparr>]\<rparr>,
      ad_users = [sim_account], ad_organizations = [\<lparr>og_id = ''o1'', og_name = ''O'', og_status = OrgActive\<rparr>], ad_refresh_tokens = ts,
      ad_account_tokens = [], ad_email_outbox = [], ad_consents = [], ad_data_requests = []\<rparr>"

definition sim_refresh_request :: "string \<Rightarrow> auth_request" where
  "sim_refresh_request t = \<lparr>rq_body = None, rq_cookie = Some (''tonatiuh_refresh='' @ t), rq_csrf = Some ''1'', rq_auth = None\<rparr>"

lemmas sim_account_defs = sim_server_def sim_draw_def sim_account_def sim_refresh_row_def sim_accounts_def sim_refresh_request_def

lemma sim_presents:
  "presents sim_server (sim_refresh_request ''t0'') ''t0''"
  "presents sim_server (sim_refresh_request ''t1'') ''t1''"
  by (simp_all add: presents_def refreshTokenFromRequest_def cookieValue_def sim_refresh_request_def cookie_pair_def trim_def is_space_def
      refreshCookieName_def sim_server_def)

lemma sim_tokens_ok: "tokens_ok [sim_refresh_row ''t0'' (Some 5), sim_refresh_row ''t1'' None]"
  by (simp add: tokens_ok_def same_owner_def live_token_def) (simp add: sim_refresh_row_def)

definition sim_rotated :: account_db where
  "sim_rotated = sim_accounts [sim_refresh_row ''t0'' (Some 5), sim_refresh_row ''t1'' None]"

lemma sim_rotated_ok: "tokens_ok (ad_refresh_tokens sim_rotated)"
  using sim_tokens_ok by (simp add: sim_rotated_def sim_accounts_def)

lemmas sim_rotated_defs = sim_rotated_def sim_account_defs


section \<open>Invariants and reuse\<close>

text \<open>
  C16: The invariant of the session table: after any sequence of requests, of any users and organisations, every
  family of refresh tokens has at most one live token and one owner, and no identifier or hash occurs twice.
\<close>
theorem sessions_stay_consistent:
  assumes "(account_step A)\<^sup>*\<^sup>* db db'" and "tokens_ok (ad_refresh_tokens db)"
  shows "tokens_ok (ad_refresh_tokens db')"
  using assms by (rule account_steps_ok)

theorem sessions_stay_consistent_witness:
  "tokens_ok (ad_refresh_tokens (snd (serve_account sim_server (sim_draw 10 ''n'') (Refresh (sim_refresh_request ''t1''))
     sim_rotated)))"
proof (rule sessions_stay_consistent [OF r_into_rtranclp])
  show "account_step sim_server sim_rotated
     (snd (serve_account sim_server (sim_draw 10 ''n'') (Refresh (sim_refresh_request ''t1''))
       sim_rotated))"
    by (rule account_step.intros) (simp add: families_def sim_rotated_defs)
qed (rule sim_rotated_ok)

lemma refresh_dead_family:
  assumes "tokens_ok (ad_refresh_tokens db)" and "row \<in> set (ad_refresh_tokens db)" and "\<not> live_token row"
    and "rt_token_hash row = sv_sha256 A t" and "presents A req t"
  shows "refresh_session A d req db =
    (Inl (HttpError (SaasHttpError 401 ''REFRESH_TOKEN_REUSED'' ''Refresh token reuse was detected.'' None)),
     revoke_tokens (\<lambda>r. rt_family_id r = rt_family_id row) (dw_now d) db)"
  using assms find_hash [OF assms(1,2,4)] by (simp add: refresh_session_presents refresh_revoked)



section \<open>What a session may claim\<close>

lemma find_member: "find (is_member userId organizationId) ms = Some m \<Longrightarrow>
    m \<in> set ms \<and> mb_user_id m = userId \<and> mb_organization_id m = organizationId"
  by (auto simp: find_Some_iff is_member_def)

lemma active_membership_Some: "active_membership db userId organizationId = Some m \<Longrightarrow>
    active_user db userId \<and> active_organization db organizationId \<and> m \<in> set (sd_memberships (ad_saas db)) \<and>
    mb_user_id m = userId \<and> mb_organization_id m = organizationId"
  by (auto simp: active_membership_def split: if_splits dest: find_member)

lemma login_accounts_row: "login_accounts email db = (user, m) # rest \<Longrightarrow>
    user \<in> set (ad_users db) \<and> us_id user = mb_user_id m \<and> us_status user \<in> {ActiveUser, PendingUser} \<and>
    m \<in> set (sd_memberships (ad_saas db)) \<and> active_organization db (mb_organization_id m)"
proof -
  assume "login_accounts email db = (user, m) # rest"
  then have "(user, m) \<in> set (login_accounts email db)" by simp
  then show ?thesis by (auto simp: login_accounts_def)
qed

text \<open>The member a session speaks for: its access token carries the user, the organisation and the role of a row.\<close>

definition speaks_for :: "auth_server \<Rightarrow> session \<Rightarrow> membership_row \<Rightarrow> bool" where
  "speaks_for A s m \<longleftrightarrow>
     ss_accessToken s = sv_sign A \<lparr>pl_sub = mb_user_id m, pl_org = mb_organization_id m, pl_role = mb_role m\<rparr>"

definition admitted :: "auth_server \<Rightarrow> account_db \<Rightarrow> session \<Rightarrow> bool" where
  "admitted A db s \<longleftrightarrow> (\<exists>m \<in> set (sd_memberships (ad_saas db)).
     speaks_for A s m \<and> active_organization db (mb_organization_id m) \<and> active_user db (mb_user_id m))"

lemma login_admitted: "login A d req db = (Inr s, db') \<Longrightarrow> admitted A db s"
  unfolding login_def Let_def guardH_Inr
  by (elim exE conjE)
     (auto simp: admitted_def speaks_for_def tokens_def active_user_def dest!: login_accounts_row
      split: list.split_asm option.split_asm if_split_asm sum.split_asm prod.split_asm)

lemma refresh_session_Inr:
  "refresh_session A d req db = (Inr s, db') \<Longrightarrow> \<exists>t. refresh_transaction A d t db = Inr (Some s, db')"
proof -
  have "(case saasTransaction (refresh_transaction A d t) db of
      (Inl e, db') \<Rightarrow> (Inl e, db')
    | (Inr None, db') \<Rightarrow> (Inl reused, db')
    | (Inr (Some session), db') \<Rightarrow> (Inr session, db')) = (Inr s, db') \<Longrightarrow> refresh_transaction A d t db = Inr (Some s, db')"
    for t and reused :: api_error
    by (cases "refresh_transaction A d t db") (auto simp: saasTransaction_def split: prod.split_asm option.split_asm)
  then show "refresh_session A d req db = (Inr s, db') \<Longrightarrow> \<exists>t. refresh_transaction A d t db = Inr (Some s, db')"
    unfolding refresh_session_def Let_def guardH_Inr by blast
qed

lemma refresh_admitted: "refresh_session A d req db = (Inr s, db') \<Longrightarrow> admitted A db s"
proof -
  assume "refresh_session A d req db = (Inr s, db')"
  then obtain t where "refresh_transaction A d t db = Inr (Some s, db')" by (auto dest: refresh_session_Inr)
  then show "admitted A db s"
  proof (cases rule: refresh_transaction_cases)
    case (rotated stored m)
    from active_membership_Some [OF rotated(5)] rotated(6) show ?thesis
      by (auto simp: admitted_def speaks_for_def tokens_def intro!: bexI [of _ m])
  qed simp
qed

lemma switch_member:
  "switchOrganization A d req db = (Inr s, db') \<Longrightarrow> \<exists>auth m. authContext req = Inr auth \<and> m \<in> set (sd_memberships (ad_saas db)) \<and>
     mb_user_id m = au_userId auth \<and> active_organization db (mb_organization_id m) \<and> speaks_for A s m"
  unfolding switchOrganization_def guardH_Inr
  by (elim exE conjE)
     (auto simp: speaks_for_def tokens_def dest!: find_member split: option.split_asm sum.split_asm prod.split_asm if_split_asm)

text \<open>
  C18: A session is only given to a member: whatever the request, an access token that is issued names the user,
  the organisation and the role of a membership in the tables, the organisation is active, and the user is
  active or is the authenticated user who switches between organisations.
\<close>
theorem sessions_speak_for_members:
  assumes "serve_account A d ev db = (Some s, db')"
  shows "\<exists>m \<in> set (sd_memberships (ad_saas db)). speaks_for A s m \<and> active_organization db (mb_organization_id m) \<and>
    (active_user db (mb_user_id m) \<or> (\<exists>req auth. ev = Switch req \<and> authContext req = Inr auth \<and> au_userId auth = mb_user_id m))"
proof -
  have never: "silent r = (Some s, db') \<Longrightarrow> P" for r :: "'b \<times> account_db" and P by (simp add: silent_def)
  have from_issued: "issued r = (Some s, db') \<Longrightarrow> r = (Inr s, db')" for r
    by (cases r; cases "fst r") (auto simp: issued_def)
  have "(\<exists>req. ev = Login req \<and> login A d req db = (Inr s, db')) \<or> (\<exists>req. ev = Refresh req \<and> refresh_session A d req db = (Inr s, db')) \<or>
      (\<exists>req. ev = Switch req \<and> switchOrganization A d req db = (Inr s, db'))"
    using assms by (cases ev) (auto simp: serve_account_def silent_def dest!: from_issued)
  then show ?thesis
  proof (elim disjE exE conjE)
    fix req assume "ev = Switch req" "switchOrganization A d req db = (Inr s, db')"
    then show ?thesis by (auto dest!: switch_member)
  qed (auto simp: admitted_def dest!: login_admitted refresh_admitted)
qed

theorem sessions_speak_for_members_witness:
  "\<exists>m \<in> set (sd_memberships (ad_saas sim_rotated)).
     speaks_for sim_server \<lparr>ss_accessToken = ''u1.o1.TRADER'', ss_refreshToken = ''nt'', ss_expiresIn = 900\<rparr> m \<and>
     active_user sim_rotated (mb_user_id m)"
proof -
  have "serve_account sim_server (sim_draw 10 ''n'') (Refresh (sim_refresh_request ''t1'')) sim_rotated =
      (Some \<lparr>ss_accessToken = ''u1.o1.TRADER'', ss_refreshToken = ''nt'', ss_expiresIn = 900\<rparr>,
       snd (serve_account sim_server (sim_draw 10 ''n'') (Refresh (sim_refresh_request ''t1'')) sim_rotated))"
    by (simp add: serve_account_def issued_def refresh_session_presents [OF sim_presents(2)])
       (simp add: refresh_transaction_def insert_refresh_def new_refresh_def active_membership_def active_user_def active_organization_def
        is_member_def tokens_def sim_sign_def sim_role_def sim_rotated_defs)
  from sessions_speak_for_members [OF this] show ?thesis by blast
qed

section \<open>Passwords\<close>

text \<open>The lengths of the keys of \<^verbatim>\<open>scrypt\<close> and of the salt, in hexadecimal digits.\<close>

definition hex_keys :: "auth_server \<Rightarrow> bool" where
  "hex_keys A \<longleftrightarrow> (\<forall>password salt. hex_of_length 128 (sv_scrypt A password salt))"

lemma hex_no_dollar: "hex_of_length n s \<Longrightarrow> CHR ''$'' \<notin> set s"
proof -
  have "\<not> is_hex CHR ''$''" by (simp add: is_hex_def)
  then show "hex_of_length n s \<Longrightarrow> CHR ''$'' \<notin> set s" by (auto simp: hex_of_length_def list_all_iff)
qed

lemma hashPassword_verifies:
  assumes "hashPassword A salt password = Inr encoded" and "hex_of_length 32 salt" and "hex_keys A"
  shows "verifyPassword A attempt encoded \<longleftrightarrow> toLowerCase (sv_scrypt A password salt) = toLowerCase (sv_scrypt A attempt salt)"
proof -
  have key: "hex_of_length 128 (sv_scrypt A password salt)" using assms(3) by (simp add: hex_keys_def)
  have "encoded = join ''$'' [''scrypt'', salt, sv_scrypt A password salt]"
    using assms(1) by (auto simp: hashPassword_def split: if_splits)
  then have "split_on CHR ''$'' encoded = [''scrypt'', salt, sv_scrypt A password salt]"
    using assms(2) key by (simp only:) (rule split_on_join, auto dest: hex_no_dollar)
  with assms(2) key show ?thesis by (simp add: verifyPassword_def Let_def)
qed

text \<open>
  A password that was hashed verifies, and another one does only when \<^verbatim>\<open>scrypt\<close> derives the same key from
  it under the same salt; the encoded form is parsed back exactly.
\<close>
theorem hashed_password_verifies:
  assumes "hashPassword A salt password = Inr encoded" and "hex_of_length 32 salt" and "hex_keys A"
  shows "verifyPassword A password encoded \<and>
    (verifyPassword A attempt encoded \<longleftrightarrow> toLowerCase (sv_scrypt A password salt) = toLowerCase (sv_scrypt A attempt salt))"
  using hashPassword_verifies [OF assms] by simp

lemma sim_hex_keys: "hex_keys sim_server"
  by (auto simp: hex_keys_def hex_of_length_def sim_server_def list_all_iff is_hex_def)

lemma sim_salt: "hex_of_length 32 (dw_salt (sim_draw now x))"
  by (auto simp: hex_of_length_def sim_draw_def list_all_iff is_hex_def)

theorem hashed_password_verifies_witness:
  "\<not> verifyPassword sim_server ''another password'' (''scrypt$'' @ replicate 32 CHR ''5'' @ ''$'' @ sv_scrypt sim_server ''a long password'' [])"
proof -
  have hashed: "hashPassword sim_server (dw_salt (sim_draw 0 [])) ''a long password'' =
      Inr (''scrypt$'' @ replicate 32 CHR ''5'' @ ''$'' @ sv_scrypt sim_server ''a long password'' [])"
    by (simp add: hashPassword_def sim_draw_def sim_server_def)
  have "toLowerCase (sv_scrypt sim_server ''a long password'' (dw_salt (sim_draw 0 []))) \<noteq>
      toLowerCase (sv_scrypt sim_server ''another password'' (dw_salt (sim_draw 0 [])))"
    by (simp add: sim_server_def toLowerCase_def toLowerCase_char_def)
  with hashed_password_verifies [OF hashed sim_salt sim_hex_keys, of "''another password''"] show ?thesis by simp
qed

text \<open>What a transaction of a reset leaves.\<close>

lemma reset_transaction_effect:
  assumes "reset_transaction d hash passwordHash db = Inr (x, db')" and "distinct (map at_token_hash (ad_account_tokens db))"
  obtains row where "row \<in> set (ad_account_tokens db)" "open_token RESET_PASSWORD (dw_now d) hash row"
    "\<forall>u \<in> set (ad_users db'). us_id u = at_user_id row \<longrightarrow> us_password_hash u = Some passwordHash"
    "\<forall>r \<in> set (ad_refresh_tokens db'). rt_user_id r = at_user_id row \<longrightarrow> \<not> live_token r"
    "\<And>now. find (open_token RESET_PASSWORD now hash) (ad_account_tokens db') = None"
proof -
  from assms(1) obtain row where found: "find (open_token RESET_PASSWORD (dw_now d) hash) (ad_account_tokens db) = Some row"
    and db': "db' = revoke_tokens (\<lambda>r. rt_user_id r = at_user_id row) (dw_now d)
      (consume_tokens (\<lambda>r. at_user_id r = at_user_id row \<and> at_consumed_at r = None) (dw_now d)
        (update_users (\<lambda>u. us_id u = at_user_id row) (\<lambda>u. u\<lparr>us_password_hash := Some passwordHash\<rparr>) db))"
    by (auto simp: reset_transaction_def split: option.split_asm)
  from found have row: "row \<in> set (ad_account_tokens db)" "open_token RESET_PASSWORD (dw_now d) hash row"
    by (auto simp: find_Some_iff)
  have only: "r = row" if "r \<in> set (ad_account_tokens db)" "at_token_hash r = hash" for r
    using assms(2) row that by (auto simp: distinct_map open_token_def dest: inj_onD)
  show thesis
  proof (rule that [OF row])
    show "\<forall>u \<in> set (ad_users db'). us_id u = at_user_id row \<longrightarrow> us_password_hash u = Some passwordHash"
      by (auto simp: db' revoke_tokens_def consume_tokens_def update_users_def set_update_where)
    show "\<forall>r \<in> set (ad_refresh_tokens db'). rt_user_id r = at_user_id row \<longrightarrow> \<not> live_token r"
      by (auto simp: db' revoke_tokens_tokens set_update_where)
    show "find (open_token RESET_PASSWORD now hash) (ad_account_tokens db') = None" for now
      using only by (auto simp: db' revoke_tokens_def consume_tokens_def update_users_def set_update_where find_None_iff open_token_def)
  qed
qed

text \<open>
  C19: A password reset hands the account over: the token belonged to a user, the new password, and what \<^verbatim>\<open>scrypt\<close>
  cannot tell from it, is the one that now verifies for this user, all the user's sessions are revoked, and
  the token is spent: no later reset with it succeeds.
\<close>
theorem reset_password_takes_over:
  assumes "resetPassword A d req db = (Inr (), db')" and "objectValue (rq_body req) (Some [''token'', ''password'']) = Inr body"
    and "stringValue (map_of body ''token'') ''token'' 200 = Inr token"
    and "stringValue (map_of body ''password'') ''password'' 128 = Inr password"
    and "distinct (map at_token_hash (ad_account_tokens db))" and "hex_of_length 32 (dw_salt d)" and "hex_keys A"
  shows "\<exists>userId. (\<exists>row \<in> set (ad_account_tokens db). at_user_id row = userId \<and> open_token RESET_PASSWORD (dw_now d) (sv_sha256 A token) row) \<and>
    (\<forall>u \<in> set (ad_users db'). us_id u = userId \<longrightarrow> (\<exists>encoded. us_password_hash u = Some encoded \<and> verifyPassword A password encoded)) \<and>
    (\<forall>r \<in> set (ad_refresh_tokens db'). rt_user_id r = userId \<longrightarrow> \<not> live_token r) \<and>
    (\<forall>d'. snd (resetPassword A d' req db') = db' \<and> isl (fst (resetPassword A d' req db')))"
proof -
  from assms(1-4) obtain encoded where hashed: "hashPassword A (dw_salt d) password = Inr encoded"
    and run: "reset_transaction d (sv_sha256 A token) encoded db = Inr ((), db')"
    by (auto simp: resetPassword_def guardH_Inr saasTransaction_Inr)
  from reset_transaction_effect [OF run assms(5)] obtain row where row: "row \<in> set (ad_account_tokens db)"
      "open_token RESET_PASSWORD (dw_now d) (sv_sha256 A token) row"
    and user: "\<forall>u \<in> set (ad_users db'). us_id u = at_user_id row \<longrightarrow> us_password_hash u = Some encoded"
    and gone: "\<forall>r \<in> set (ad_refresh_tokens db'). rt_user_id r = at_user_id row \<longrightarrow> \<not> live_token r"
    and spent: "\<And>now. find (open_token RESET_PASSWORD now (sv_sha256 A token)) (ad_account_tokens db') = None"
    by metis
  have "snd (resetPassword A d' req db') = db' \<and> isl (fst (resetPassword A d' req db'))" for d'
    by (cases "hashPassword A (dw_salt d') password")
       (simp_all add: resetPassword_def guardH_def assms(2-4) saasTransaction_def reset_transaction_def spent)
  with row user gone hashPassword_verifies [OF hashed assms(6,7), of password] show ?thesis by blast
qed

definition sim_reset_request :: auth_request where
  "sim_reset_request =
     \<lparr>rq_body = Some (JObj [(''token'', JStr ''k''), (''password'', JStr ''a-long-password'')]), rq_cookie = None, rq_csrf = None, rq_auth = None\<rparr>"

definition sim_resettable :: account_db where
  "sim_resettable = sim_rotated\<lparr>ad_account_tokens :=
     [\<lparr>at_id = ''k'', at_user_id = ''u1'', at_kind = RESET_PASSWORD, at_token_hash = ''#k'', at_expires_at = 100, at_consumed_at = None\<rparr>]\<rparr>"

theorem reset_password_takes_over_witness:
  "isl (fst (resetPassword sim_server (sim_draw 20 ''m'') sim_reset_request
     (snd (resetPassword sim_server (sim_draw 10 ''n'') sim_reset_request sim_resettable))))"
proof -
  have body: "objectValue (rq_body sim_reset_request) (Some [''token'', ''password'']) =
      Inr [(''token'', JStr ''k''), (''password'', JStr ''a-long-password'')]"
    by (simp add: sim_reset_request_def objectValue_def)
  have strings: "stringValue (Some (JStr ''k'')) ''token'' 200 = Inr ''k''"
      "stringValue (Some (JStr ''a-long-password'')) ''password'' 128 = Inr ''a-long-password''"
    by (simp_all add: stringValue_def trim_def is_space_def)
  then have fields: "stringValue (map_of [(''token'', JStr ''k''), (''password'', JStr ''a-long-password'')] ''token'') ''token'' 200 = Inr ''k''"
      "stringValue (map_of [(''token'', JStr ''k''), (''password'', JStr ''a-long-password'')] ''password'') ''password'' 128 = Inr ''a-long-password''"
    by simp_all
  have run: "resetPassword sim_server (sim_draw 10 ''n'') sim_reset_request sim_resettable =
      (Inr (), snd (resetPassword sim_server (sim_draw 10 ''n'') sim_reset_request sim_resettable))"
    by (simp add: resetPassword_def guardH_def body strings hashPassword_def saasTransaction_def reset_transaction_def open_token_def
        sim_resettable_def sim_rotated_defs)
  have "distinct (map at_token_hash (ad_account_tokens sim_resettable))" by (simp add: sim_resettable_def)
  from reset_password_takes_over [OF run body fields this sim_salt sim_hex_keys] show ?thesis by blast
qed

section \<open>Locking out\<close>

text \<open>
  A user is barred from an organisation when neither an access token nor a refresh token for it works, however
  long they were issued for.
\<close>

definition barred :: "auth_server \<Rightarrow> account_db \<Rightarrow> string \<Rightarrow> string \<Rightarrow> bool" where
  "barred A db userId organizationId \<longleftrightarrow>
     (\<forall>token p. verifyAccessToken A token = Some p \<longrightarrow> pl_sub p = userId \<longrightarrow> pl_org p = organizationId \<longrightarrow>
        isl (authenticate A (Some (''Bearer '' @ token)) db)) \<and>
     (\<forall>r \<in> set (ad_refresh_tokens db). session_in userId organizationId r \<longrightarrow> \<not> live_token r)"

lemma barredI:
  assumes "active_membership db userId organizationId = None"
    and "\<And>r. r \<in> set (ad_refresh_tokens db) \<Longrightarrow> session_in userId organizationId r \<Longrightarrow> \<not> live_token r"
  shows "barred A db userId organizationId"
  using assms by (auto simp: barred_def authenticate_def)

definition one_membership :: "account_db \<Rightarrow> bool" where
  "one_membership db \<longleftrightarrow> distinct (map (\<lambda>m. (mb_user_id m, mb_organization_id m)) (sd_memberships (ad_saas db)))"

lemma change_members_bars:
  assumes "change_members change userId organizationId code message d db = Inr (x, db')"
    and "\<And>m. m \<in> set (change (sd_memberships (ad_saas db))) \<Longrightarrow> \<not> is_member userId organizationId m"
  shows "barred A db' userId organizationId"
proof -
  from assms(1) have db': "db' = revoke_tokens (session_in userId organizationId) (dw_now d) (set_memberships (change (sd_memberships (ad_saas db))) db)"
    by (auto simp: change_members_def Let_def split: if_split_asm)
  then have "find (is_member userId organizationId) (sd_memberships (ad_saas db')) = None"
    using assms(2) by (auto simp: revoke_tokens_def set_memberships_def find_None_iff)
  then have "active_membership db' userId organizationId = None" by (simp add: active_membership_def)
  then show ?thesis
    by (rule barredI) (auto simp: db' revoke_tokens_tokens set_update_where)
qed

lemma audit_membership [simp]: "active_membership (audit req action entityType entityId metadata db) = active_membership db"
  by (intro ext) (auto simp: active_membership_def active_user_def active_organization_def audit_def writeAuditEvent_def)

lemma audit_barred [simp]: "barred A (audit req action entityType entityId metadata db) = barred A db"
  by (intro ext) (simp add: barred_def authenticate_def)

text \<open>
  C20: Removing a member takes effect at once: the request either changes nothing, or the member's access tokens
  are refused although they have not expired, and all refresh tokens for the organisation are revoked.
\<close>
theorem removed_member_is_barred:
  assumes "one_membership db" and "removeMember d req db = (Inr (), db')" and "authContext req = Inr auth"
    and "uuidValue (Some (JStr (ar_params_id req))) ''userId'' = Inr userId"
  shows "barred A db' userId (au_organizationId auth)"
proof -
  from assms(2-4) obtain db1 where run: "change_members (filter (\<lambda>m. \<not> editable userId (au_organizationId auth) m)) userId (au_organizationId auth)
      ''MEMBER_NOT_REMOVABLE'' ''Owner membership cannot be removed.'' d db = Inr ((), db1)"
    and db': "db' = audit req ''MEMBER_REMOVED'' ''user'' userId [] db1"
    unfolding removeMember_def guardH_Inr
    by (auto simp: saasTransaction_Inr split: sum.split_asm prod.split_asm)
  from run obtain m where m: "m \<in> set (sd_memberships (ad_saas db))" "editable userId (au_organizationId auth) m"
    by (auto simp: change_members_def Let_def list_ex_iff split: if_split_asm)
  have "n = m" if "n \<in> set (sd_memberships (ad_saas db))" "is_member userId (au_organizationId auth) n" for n
    using assms(1) m that by (auto simp: one_membership_def distinct_map editable_def is_member_def dest: inj_onD)
  with m have "barred A db1 userId (au_organizationId auth)"
    by (intro change_members_bars [OF run]) auto
  then show ?thesis by (simp add: db')
qed

text \<open>A request of the owner to remove a trader, and of an administrator to suspend him.\<close>

definition sim_member_id :: string where
  "sim_member_id = ''5c2a7b8e-1f0d-4c3b-9a6e-0d1c2b3a4f5e''"

definition sim_admin_request :: "json option \<Rightarrow> api_request" where
  "sim_admin_request body =
     \<lparr>ar_auth = Some \<lparr>au_userId = ''admin'', au_organizationId = ''o1'', au_role = OWNER\<rparr>, ar_params_id = sim_member_id, ar_body = body,
      ar_idempotency_key = None\<rparr>"

definition sim_member_token :: refresh_row where
  "sim_member_token = (sim_refresh_row ''t1'' None)\<lparr>rt_user_id := sim_member_id\<rparr>"

definition sim_shared :: account_db where
  "sim_shared =
     \<lparr>ad_saas = (sim_saas_db (sim_billing_db 50))\<lparr>sd_memberships := [\<lparr>mb_organization_id = ''o1'', mb_user_id = ''admin'', mb_role = OWNER\<rparr>,
        \<lparr>mb_organization_id = ''o1'', mb_user_id = sim_member_id, mb_role = TRADER\<rparr>]\<rparr>,
      ad_users = [sim_account\<lparr>us_id := ''admin'', us_platform_role := PlatformAdmin\<rparr>, sim_account\<lparr>us_id := sim_member_id, us_email := ''b@b.io''\<rparr>],
      ad_organizations = [\<lparr>og_id = ''o1'', og_name = ''O'', og_status = OrgActive\<rparr>], ad_refresh_tokens = [sim_member_token],
      ad_account_tokens = [], ad_email_outbox = [], ad_consents = [], ad_data_requests = []\<rparr>"

lemma sim_member_uuid: "uuidValue (Some (JStr sim_member_id)) field = Inr sim_member_id"
  by (simp add: uuidValue_def stringValue_def trim_def is_space_def sim_member_id_def uuid_pattern_def matches_def is_hex_def Let_def
      numeral_eq_Suc)

lemma sim_member_other: "sim_member_id \<noteq> ''admin''" "''admin'' \<noteq> sim_member_id"
  by (simp_all add: sim_member_id_def)

lemmas sim_shared_defs = sim_shared_def sim_admin_request_def sim_member_token_def sim_account_defs

theorem removed_member_is_barred_witness:
  "barred sim_server (snd (removeMember (sim_draw 10 ''n'') (sim_admin_request None) sim_shared)) sim_member_id ''o1''"
proof -
  have one: "one_membership sim_shared" by (simp add: one_membership_def sim_shared_def sim_member_id_def)
  have id': "uuidValue (Some (JStr (ar_params_id (sim_admin_request None)))) ''userId'' = Inr sim_member_id"
    by (simp add: sim_admin_request_def sim_member_uuid)
  have auth: "authContext (sim_admin_request None) = Inr \<lparr>au_userId = ''admin'', au_organizationId = ''o1'', au_role = OWNER\<rparr>"
    by (simp add: authContext_def sim_admin_request_def)
  have run: "removeMember (sim_draw 10 ''n'') (sim_admin_request None) sim_shared =
      (Inr (), snd (removeMember (sim_draw 10 ''n'') (sim_admin_request None) sim_shared))"
    by (simp add: removeMember_def requireRoles_def auth id' guardH_def saasTransaction_def change_members_def sim_shared_def
        editable_def is_member_def)
  from removed_member_is_barred [OF one run auth id'] show ?thesis by simp
qed

text \<open>
  Suspending a user bars him from every organisation at once, and a platform administrator cannot suspend
  himself.
\<close>
theorem suspended_user_is_barred:
  assumes "setUserStatus d req db = (Inr (), db')" and "uuidValue (Some (JStr (ar_params_id req))) ''id'' = Inr userId"
    and "objectValue (ar_body req) (Some [''status'']) = Inr body" and "statusValue body = Inr ''SUSPENDED''"
  shows "barred A db' userId organizationId \<and> (\<exists>auth. authContext req = Inr auth \<and> au_userId auth \<noteq> userId)"
proof -
  from assms obtain auth db1 where auth: "authContext req = Inr auth" "au_userId auth \<noteq> userId"
    and run: "user_status_transaction d userId ''SUSPENDED'' db = Inr ((), db1)"
    and db': "db' = audit req ''PLATFORM_USER_STATUS_CHANGED'' ''user'' userId [(''status'', JStr ''SUSPENDED'')] db1"
    unfolding setUserStatus_def guardH_Inr
    by (auto simp: saasTransaction_Inr split: sum.split_asm prod.split_asm if_split_asm)
  from run have db1: "db1 = revoke_tokens (\<lambda>r. rt_user_id r = userId) (dw_now d)
      (update_users (\<lambda>u. us_id u = userId \<and> us_status u \<in> {ActiveUser, SuspendedUser}) (\<lambda>u. u\<lparr>us_status := SuspendedUser\<rparr>) db)"
    by (auto simp: user_status_transaction_def Let_def split: if_split_asm)
  then have "\<not> active_user db1 userId"
    by (simp add: active_user_def revoke_tokens_def update_users_def set_update_where del: if_image_distrib)
  then have "active_membership db1 userId organizationId = None" by (simp add: active_membership_def)
  then have "barred A db1 userId organizationId"
    by (rule barredI) (auto simp: db1 revoke_tokens_tokens set_update_where session_in_def)
  with auth show ?thesis by (simp add: db')
qed

theorem suspended_user_is_barred_witness:
  "barred sim_server (snd (setUserStatus (sim_draw 10 ''n'') (sim_admin_request (Some (JObj [(''status'', JStr ''SUSPENDED'')]))) sim_shared))
     sim_member_id ''o1''"
proof -
  let ?req = "sim_admin_request (Some (JObj [(''status'', JStr ''SUSPENDED'')]))"
  have id': "uuidValue (Some (JStr (ar_params_id ?req))) ''id'' = Inr sim_member_id"
    by (simp add: sim_admin_request_def sim_member_uuid)
  have body: "objectValue (ar_body ?req) (Some [''status'']) = Inr [(''status'', JStr ''SUSPENDED'')]"
    by (simp add: objectValue_def sim_admin_request_def)
  have status: "statusValue [(''status'', JStr ''SUSPENDED'')] = Inr ''SUSPENDED''"
    by (simp add: statusValue_def stringValue_def trim_def is_space_def)
  have auth: "authContext ?req = Inr \<lparr>au_userId = ''admin'', au_organizationId = ''o1'', au_role = OWNER\<rparr>"
    by (simp add: authContext_def sim_admin_request_def)
  have run: "setUserStatus (sim_draw 10 ''n'') ?req sim_shared = (Inr (), snd (setUserStatus (sim_draw 10 ''n'') ?req sim_shared))"
    by (simp add: setUserStatus_def requirePlatformAdmin_def auth id' body status guardH_def saasTransaction_def user_status_transaction_def
        sim_shared_def sim_account_def sim_member_other)
  from suspended_user_is_barred [OF run id' body status] show ?thesis by simp
qed

section \<open>Registration\<close>

text \<open>
  A display name of one letter passes the validation of the request and violates the constraint of the table:
  the error is not the unique violation the handler knows, so the answer is an internal error.
\<close>

lemma one_letter_name_fails_in_the_table:
  assumes "length displayName = 1" and "12 \<le> length password" and "length password \<le> 128"
  shows "on_unique_violation e (saasTransaction (register_transaction A d email password displayName organizationName) db) =
    (Inl (DbError check_violation), db)"
  using assms
  by (simp add: register_transaction_def guardT_def hashPassword_def insert_user_def new_user_def saasTransaction_def
      on_unique_violation_def check_violation_def unique_violation_def Let_def)

end
