(* ===== verification/Mail_Queue.thy ===== *)
theory Mail_Queue
  imports Email_Delivery Account_Security
begin

text \<open>
  Properties of the outbox: the worker runs out of work, a recipient that bounced is left alone, and the token of
  a forgotten password reaches its owner and opens the account.
\<close>

section \<open>The outbox under a turn\<close>

lemma set_outbox_simps [simp]:
  "ad_email_outbox (ml_accounts (set_outbox rows db)) = rows" "ml_suppressions (set_outbox rows db) = ml_suppressions db"
  "ml_events (set_outbox rows db) = ml_events db"
  "ad_account_tokens (ml_accounts (set_outbox rows db)) = ad_account_tokens (ml_accounts db)"
  by (simp_all add: set_outbox_def)

lemma update_mail_simps [simp]:
  "ad_email_outbox (ml_accounts (update_mail i f db)) = update_where (\<lambda>r. eo_id r = i) f (outbox db)"
  "ml_suppressions (update_mail i f db) = ml_suppressions db" "ml_events (update_mail i f db) = ml_events db"
  "ad_account_tokens (ml_accounts (update_mail i f db)) = ad_account_tokens (ml_accounts db)"
  by (simp_all add: update_mail_def)

definition open_mail :: "outbox_row \<Rightarrow> bool" where
  "open_mail r \<longleftrightarrow> eo_status r = MailPending \<or> eo_status r = MailProcessing"

text \<open>How many times a message may still be taken from the queue.\<close>

definition tries_left :: "outbox_row \<Rightarrow> nat" where
  "tries_left r = (if open_mail r then max 1 (8 - eo_attempts r) else 0)"

definition tries :: "outbox_row list \<Rightarrow> nat" where
  "tries rows = sum_list (map tries_left rows)"

lemma tries_bound: "tries rows \<le> 8 * length (filter open_mail rows)"
  by (induction rows) (auto simp: tries_def tries_left_def)

lemma recovered_simps [simp]: "eo_id (recovered now r) = eo_id r"
  by (simp add: recovered_def)

lemma tries_recovered: "tries (update_where (interrupted now) (recovered now) rows) = tries rows"
proof -
  have "tries_left (if interrupted now r then recovered now r else r) = tries_left r" for r
    by (simp add: tries_left_def open_mail_def interrupted_def recovered_def)
  then show ?thesis by (simp add: tries_def update_where_def comp_def)
qed

lemma tries_update_one:
  assumes "distinct (map eo_id rows)" and "x \<in> set rows"
  shows "tries (update_where (\<lambda>r. eo_id r = eo_id x) f rows) + tries_left x = tries rows + tries_left (f x)"
  using assms
proof (induction rows)
  case (Cons r rows)
  have unchanged: "update_where (\<lambda>q. eo_id q = i) f rows = rows" if "i \<notin> eo_id ` set rows" for i
    using that by (auto intro!: update_where_none)
  show ?case
  proof (cases "x = r")
    case True
    with Cons.prems unchanged [of "eo_id r"] show ?thesis by (simp add: update_where_def tries_def)
  next
    case False
    then have "x \<in> set rows" "eo_id r \<noteq> eo_id x" using Cons.prems by auto
    with Cons show ?thesis by (simp add: update_where_def tries_def)
  qed
qed simp

lemma claimMail_Some:
  assumes "claimMail now db = (Some item, db1)"
  shows "item \<in> set (update_where (interrupted now) (recovered now) (outbox db))" and "due_mail now item"
    and "outbox db1 = update_where (\<lambda>r. eo_id r = eo_id item) (taken now) (update_where (interrupted now) (recovered now) (outbox db))"
    and "ml_suppressions db1 = ml_suppressions db"
proof -
  from assms have "first_by eo_created_at (filter (due_mail now) (update_where (interrupted now) (recovered now) (outbox db))) = Some item"
    and db1: "db1 = update_mail (eo_id item) (taken now) (set_outbox (update_where (interrupted now) (recovered now) (outbox db)) db)"
    by (auto simp: claimMail_def Let_def split: option.splits)
  from first_by_mem [OF this(1)] show "item \<in> set (update_where (interrupted now) (recovered now) (outbox db))" "due_mail now item"
    by auto
  from db1 show "outbox db1 = update_where (\<lambda>r. eo_id r = eo_id item) (taken now) (update_where (interrupted now) (recovered now) (outbox db))"
    "ml_suppressions db1 = ml_suppressions db" by simp_all
qed

lemma claimMail_None:
  "claimMail now db = (None, db1) \<Longrightarrow> outbox db1 = update_where (interrupted now) (recovered now) (outbox db) \<and>
     ml_suppressions db1 = ml_suppressions db"
  by (auto simp: claimMail_def Let_def split: option.splits)

text \<open>What sending a message does to its row: it is settled, or waits with less than eight attempts made.\<close>

definition settles :: "outbox_row \<Rightarrow> (outbox_row \<Rightarrow> outbox_row) \<Rightarrow> bool" where
  "settles item g \<longleftrightarrow> (\<forall>r. eo_id (g r) = eo_id r \<and> eo_attempts (g r) = eo_attempts r \<and>
     (open_mail (g r) \<longrightarrow> eo_status (g r) = MailPending \<and> eo_attempts item + 1 < 8))"

lemma send_settles:
  "\<exists>g. outbox (snd (send A E smtp fault now item db)) = update_where (\<lambda>r. eo_id r = eo_id item) g (outbox db) \<and> settles item g"
proof -
  have failed: "settles item (failed_mail E now (eo_attempts item + 1) e)" for e
    by (simp add: settles_def failed_mail_def open_mail_def)
  have "settles item (\<lambda>r. r\<lparr>eo_status := MailSuppressed, eo_last_error := Some x\<rparr>)"
    and "settles item (\<lambda>r. r\<lparr>eo_status := MailSent, eo_sent_at := Some now, eo_provider_message_id := Some m, eo_last_error := None\<rparr>)" for x m
    by (simp_all add: settles_def open_mail_def)
  with failed show ?thesis
    by (auto simp: send_def Let_def record_sent_def split: sum.split option.split)
qed

lemma send_suppressions: "ml_suppressions (snd (send A E smtp fault now item db)) = ml_suppressions db"
  by (auto simp: send_def Let_def record_sent_def split: sum.split option.split)

lemma send_letter:
  "fst (send A E smtp fault now item db) = Some l \<Longrightarrow> lt_to l = eo_recipient item \<and> \<not> suppressed (emailHash A (eo_recipient item)) db"
  by (auto simp: send_def letter_for_def Let_def split: if_splits sum.splits option.splits)

lemma mail_turn_ids: "map eo_id (outbox (snd (snd (mail_turn A E smtp fault now db)))) = map eo_id (outbox db)"
proof (cases "claimMail now db")
  case (Pair c db1)
  show ?thesis
  proof (cases c)
    case None
    with Pair claimMail_None show ?thesis by (auto simp: mail_turn_def map_update_where)
  next
    case (Some item)
    note claimed = claimMail_Some [OF Pair [unfolded Some]]
    obtain g where "outbox (snd (send A E smtp fault now item db1)) = update_where (\<lambda>r. eo_id r = eo_id item) g (outbox db1)"
      "settles item g" using send_settles by blast
    with Pair Some claimed(3) show ?thesis by (simp add: mail_turn_def map_update_where settles_def taken_def)
  qed
qed

lemma mail_turn_tries:
  assumes "distinct (map eo_id (outbox db))"
  shows "tries (outbox (snd (snd (mail_turn A E smtp fault now db)))) + (if fst (mail_turn A E smtp fault now db) then 1 else 0)
    \<le> tries (outbox db)"
proof (cases "claimMail now db")
  case (Pair c db1)
  show ?thesis
  proof (cases c)
    case None
    with Pair claimMail_None show ?thesis by (auto simp: mail_turn_def tries_recovered)
  next
    case (Some item)
    let ?rows = "update_where (interrupted now) (recovered now) (outbox db)"
    note claimed = claimMail_Some [OF Pair [unfolded Some]]
    obtain g where g: "outbox (snd (send A E smtp fault now item db1)) = update_where (\<lambda>r. eo_id r = eo_id item) g (outbox db1)"
      "settles item g" using send_settles by blast
    have combined: "update_where (\<lambda>r. eo_id r = eo_id item) g (update_where (\<lambda>r. eo_id r = eo_id item) (taken now) ?rows) =
        update_where (\<lambda>r. eo_id r = eo_id item) (g \<circ> taken now) ?rows"
      by (simp add: update_where_def taken_def)
    have "distinct (map eo_id ?rows)" using assms by (simp add: map_update_where)
    from tries_update_one [OF this claimed(1), of "g \<circ> taken now"]
    have "tries (update_where (\<lambda>r. eo_id r = eo_id item) (g \<circ> taken now) ?rows) + tries_left item =
        tries (outbox db) + tries_left (g (taken now item))" by (simp add: tries_recovered)
    moreover have "tries_left (g (taken now item)) < tries_left item"
    proof -
      have "eo_attempts (g (taken now item)) = eo_attempts item + 1" "open_mail item"
        "open_mail (g (taken now item)) \<Longrightarrow> eo_attempts item + 1 < 8"
        using g(2) claimed(2) by (auto simp: settles_def taken_def due_mail_def open_mail_def)
      then show ?thesis by (auto simp: tries_left_def)
    qed
    ultimately show ?thesis using Pair Some g(1) claimed(3) combined by (simp add: mail_turn_def)
  qed
qed

section \<open>The worker runs out of work\<close>

type_synonym worker_turn = "smtp \<times> js_error option \<times> int"

fun busy_turns :: "auth_server \<Rightarrow> mail_env \<Rightarrow> worker_turn list \<Rightarrow> mail_db \<Rightarrow> nat" where
  "busy_turns A E [] db = 0"
| "busy_turns A E ((smtp, fault, now) # ts) db =
     (let (busy, _, db1) = mail_turn A E smtp fault now db in (if busy then 1 else 0) + busy_turns A E ts db1)"


section \<open>Suppression\<close>

lemma suppress_mono: "s \<in> set rows \<Longrightarrow> \<exists>q \<in> set (suppress row rows). sp_email_hash q = sp_email_hash s"
proof (cases "sp_email_hash s = sp_email_hash row")
  case True
  then show "s \<in> set rows \<Longrightarrow> \<exists>q \<in> set (suppress row rows). sp_email_hash q = sp_email_hash s"
    by (auto simp: suppress_def Let_def update_where_ex)
next
  case False
  then show "s \<in> set rows \<Longrightarrow> \<exists>q \<in> set (suppress row rows). sp_email_hash q = sp_email_hash s"
    by (auto simp: suppress_def Let_def update_where_ex intro!: bexI [of _ s])
qed

lemma suppress_adds: "\<exists>q \<in> set (suppress row rows). sp_email_hash q = sp_email_hash row"
  by (auto simp: suppress_def Let_def update_where_ex list_ex_iff)

lemma bounce_suppresses:
  assumes "eventId \<notin> pe_event_id ` set (ml_events db)" and "find (\<lambda>r. eo_provider_message_id r = Some messageId) (outbox db) = Some row"
    and "type \<noteq> ''DELIVERED''"
  shows "suppressed (emailHash A (eo_recipient row)) (apply_provider_event A eventId messageId type db)"
proof -
  have fresh: "\<not> (\<exists>e \<in> set (ml_events db). pe_event_id e = eventId)" using assms(1) by auto
  show ?thesis
    using suppress_adds [of "\<lparr>sp_email_hash = emailHash A (eo_recipient row), sp_reason = _, sp_provider_message_id = messageId\<rparr>"]
    by (simp add: apply_provider_event_def Let_def fresh assms(2,3) suppressed_def)
qed

lemma apply_provider_event_suppressed: "suppressed h db \<Longrightarrow> suppressed h (apply_provider_event A e m t db)"
  using suppress_mono by (fastforce simp: apply_provider_event_def Let_def suppressed_def split: option.split)

lemma guardH_keeps: "(\<And>x db. P db \<Longrightarrow> P (snd (k x db))) \<Longrightarrow> P db \<Longrightarrow> P (snd (guardH c k db))"
  by (cases c) (simp_all add: guardH_def)

lemma serve_mail_suppressed: "suppressed h db \<Longrightarrow> suppressed h (snd (serve_mail A E ev db))"
proof (cases ev)
  case (MailTurn smtp fault now)
  assume "suppressed h db"
  moreover have "ml_suppressions (snd (snd (mail_turn A E smtp fault now db))) = ml_suppressions db"
    using claimMail_None claimMail_Some(4) send_suppressions
    by (cases "claimMail now db") (auto simp: mail_turn_def split: option.split; metis)
  ultimately show ?thesis using MailTurn by (simp add: serve_mail_def suppressed_def)
next
  case (ProviderEvent authorization body)
  assume "suppressed h db"
  then show ?thesis unfolding ProviderEvent serve_mail_def providerEvents_def
    by simp (intro guardH_keeps [where P = "suppressed h"]; simp add: apply_provider_event_suppressed)
next
  case (RetryDeadLetter d req)
  assume "suppressed h db"
  then show ?thesis unfolding RetryDeadLetter serve_mail_def retryDeadLetter_def
    by simp (intro guardH_keeps [where P = "suppressed h"]; simp add: suppressed_def Let_def)
qed (simp add: serve_mail_def suppressed_def)

lemma serve_mail_letter: "fst (serve_mail A E ev db) = Some l \<Longrightarrow> \<not> suppressed (emailHash A (lt_to l)) db"
proof -
  assume sent: "fst (serve_mail A E ev db) = Some l"
  then obtain smtp fault now where ev: "ev = MailTurn smtp fault now" by (cases ev) (auto simp: serve_mail_def)
  with sent obtain item db1 where claimed: "claimMail now db = (Some item, db1)" and "fst (send A E smtp fault now item db1) = Some l"
    by (auto simp: serve_mail_def mail_turn_def split: option.splits prod.splits)
  from send_letter [OF this(2)] claimMail_Some(4) [OF claimed] show ?thesis by (simp add: suppressed_def)
qed

lemma serve_mails_letters:
  "suppressed h db \<Longrightarrow> l \<in> set (fst (serve_mails A E evs db)) \<Longrightarrow> emailHash A (lt_to l) \<noteq> h"
proof (induction evs arbitrary: db)
  case (Cons ev evs)
  obtain x db1 where one: "serve_mail A E ev db = (x, db1)" by (cases "serve_mail A E ev db")
  obtain ls db2 where rest: "serve_mails A E evs db1 = (ls, db2)" by (cases "serve_mails A E evs db1")
  from serve_mail_suppressed [OF Cons.prems(1), of A E ev] one have "suppressed h db1" by simp
  from Cons.IH [OF this] rest have "l' \<in> set ls \<Longrightarrow> emailHash A (lt_to l') \<noteq> h" if "l' = l" for l' using that by simp
  moreover have "x = Some l \<Longrightarrow> emailHash A (lt_to l) \<noteq> h" using serve_mail_letter [of A E ev db l] one Cons.prems(1) by auto
  ultimately show ?case using Cons.prems(2) one rest by (auto split: option.splits)
qed simp

text \<open>
  C30: Once the provider reports that a message bounced or that its recipient complained, no letter is sent to this
  recipient any more, whatever requests, retries, events and turns of the worker follow.
\<close>
theorem bounced_recipient_is_left_alone:
  assumes "providerEvents A E authorization (Some (JObj body)) db = (Inr (), db')"
    and "map_of body ''eventId'' = Some (JStr eventId)" "map_of body ''messageId'' = Some (JStr messageId)" "map_of body ''type'' = Some (JStr type)"
    and "stringValue (Some (JStr eventId)) ''eventId'' 200 = Inr eventId" "stringValue (Some (JStr messageId)) ''messageId'' 500 = Inr messageId"
    and "type = ''HARD_BOUNCE'' \<or> type = ''COMPLAINT''"
    and "eventId \<notin> pe_event_id ` set (ml_events db)" and "find (\<lambda>r. eo_provider_message_id r = Some messageId) (outbox db) = Some row"
    and "l \<in> set (fst (serve_mails A E evs db'))"
  shows "emailHash A (lt_to l) \<noteq> emailHash A (eo_recipient row)"
proof -
  have type: "stringValue (Some (JStr type)) ''type'' 20 = Inr type" using assms(7) by (auto simp: stringValue_def trim_def is_space_def)
  from assms(1) have "db' = apply_provider_event A eventId messageId type db"
    unfolding providerEvents_def guardH_Inr
    by (auto simp: objectValue_def Let_def assms(2-6) type split: if_split_asm)
  moreover have "type \<noteq> ''DELIVERED''" using assms(7) by auto
  ultimately have "suppressed (emailHash A (eo_recipient row)) db'" using bounce_suppresses assms(8,9) by simp
  from serve_mails_letters [OF this assms(10)] show ?thesis .
qed

text \<open>
  An event that arrives before the worker has stored the identifier of its message finds no row, but it is
  recorded as processed: the same event is ignored when it is delivered again.
\<close>

lemma early_event_is_lost:
  assumes "eventId \<notin> pe_event_id ` set (ml_events db)" and "\<forall>r \<in> set (outbox db). eo_provider_message_id r \<noteq> Some messageId"
    and "ml_events db' = ml_events (apply_provider_event A eventId messageId type db)"
  shows "apply_provider_event A eventId messageId type db' = db'"
proof -
  have "find (\<lambda>r. eo_provider_message_id r = Some messageId) (outbox db) = None" using assms(2) by (simp add: find_None_iff)
  moreover have "\<not> (\<exists>e \<in> set (ml_events db). pe_event_id e = eventId)" using assms(1) by auto
  ultimately have "\<exists>e \<in> set (ml_events db'). pe_event_id e = eventId"
    using assms(3) by (simp add: apply_provider_event_def Let_def)
  then show ?thesis by (simp add: apply_provider_event_def Let_def)
qed

section \<open>From the forgotten password to the new one\<close>

text \<open>The cipher opens what it sealed, and \<^verbatim>\<open>JSON.parse\<close> reads back the object of a token in base64url.\<close>

definition base64url :: "char \<Rightarrow> bool" where
  "base64url c \<longleftrightarrow> c \<in> set ''ABCDEFGHIJKLMNOPQRSTUVWXYZabcdefghijklmnopqrstuvwxyz0123456789-_''"

locale mail_channel =
  fixes A :: auth_server and E :: mail_env
  assumes opens: "me_open E (sv_seal A text) = Inr text"
    and parses: "list_all base64url token \<Longrightarrow> me_parse E (token_json token) = Inr (JObj [(''token'', JStr token)])"
begin

lemma letter_carries_token:
  assumes "list_all base64url token" and "eo_encrypted_payload item = sv_seal A (token_json token)"
    and "me_link E (mail_path (eo_template item)) token = Inr url" and "me_from E = Some sender"
  shows "\<exists>l. letter_for E item = Inr l \<and> lt_to l = eo_recipient item \<and> lt_text l = renderText E (eo_template item) (eo_locale item) url"
  using assms by (simp add: letter_for_def opens parses payload_token_def)

end

lemma mail_turn_accounts:
  "\<exists>rows. ml_accounts (snd (snd (mail_turn A E smtp fault now db))) = (ml_accounts db)\<lparr>ad_email_outbox := rows\<rparr>"
proof -
  have claimed: "\<exists>rows. ml_accounts (snd (claimMail now db)) = (ml_accounts db)\<lparr>ad_email_outbox := rows\<rparr>"
    by (auto simp: claimMail_def Let_def set_outbox_def update_mail_def split: option.split)
  have sending: "\<exists>rows. ml_accounts (snd (send A E smtp fault now item db')) = (ml_accounts db')\<lparr>ad_email_outbox := rows\<rparr>" for item db'
    by (auto simp: send_def Let_def record_sent_def set_outbox_def update_mail_def split: sum.split option.split)
  from claimed obtain rows where rows: "ml_accounts (snd (claimMail now db)) = (ml_accounts db)\<lparr>ad_email_outbox := rows\<rparr>" ..
  show ?thesis
  proof (cases "fst (claimMail now db)")
    case None
    with rows show ?thesis by (auto simp: mail_turn_def split: prod.split)
  next
    case (Some item)
    then have "snd (snd (mail_turn A E smtp fault now db)) = snd (send A E smtp fault now item (snd (claimMail now db)))"
      by (simp add: mail_turn_def case_prod_unfold)
    with sending [of item "snd (claimMail now db)"] rows show ?thesis by auto
  qed
qed

lemma queueAccountEmail_Inr:
  assumes "queueAccountEmail A d userId email kind db = Inr (x, db')"
  shows "ad_users db' = ad_users db" and "ad_email_outbox db' = ad_email_outbox db @
      [new_mail A d email (AccountEmail kind) (sv_seal A (token_json (dw_token d)))]"
    and "\<exists>ts. ad_account_tokens db' = ts @ [\<lparr>at_id = dw_id d, at_user_id = userId, at_kind = kind,
        at_token_hash = sv_sha256 A (dw_token d),
        at_expires_at = dw_now d + (case kind of VERIFY_EMAIL \<Rightarrow> hours 24 | RESET_PASSWORD \<Rightarrow> hours 1), at_consumed_at = None\<rparr>] \<and>
      (\<forall>t \<in> set ts. at_token_hash t \<noteq> sv_sha256 A (dw_token d))"
  using assms by (auto simp: queueAccountEmail_def Let_def consume_tokens_def split: if_split_asm)

text \<open>A request for a new password, and the request that sets it.\<close>

definition asks_for :: "auth_request \<Rightarrow> string \<Rightarrow> bool" where
  "asks_for req email \<longleftrightarrow> (\<exists>body. objectValue (rq_body req) (Some [''email'']) = Inr body \<and> emailValue (map_of body ''email'') = Inr email)"

definition offers :: "auth_request \<Rightarrow> string \<Rightarrow> string \<Rightarrow> bool" where
  "offers req token password \<longleftrightarrow>
     (\<exists>body. objectValue (rq_body req) (Some [''token'', ''password'']) = Inr body \<and>
        stringValue (map_of body ''token'') ''token'' 200 = Inr token \<and>
        stringValue (map_of body ''password'') ''password'' 128 = Inr password)"

lemma forgotPassword_queues:
  assumes "forgotPassword A d req db = (Inr (), db')" and "asks_for req email"
    and "find (\<lambda>u. us_email u = email \<and> us_status u = ActiveUser) (ad_users db) = Some user"
  shows "queueAccountEmail A d (us_id user) email RESET_PASSWORD db = Inr ((), db')"
  using assms by (auto simp: asks_for_def forgotPassword_def send_token_def guardH_def saasTransaction_Inr)

lemma first_claimed:
  assumes "\<forall>r \<in> set rows. \<not> open_mail r" and "due_mail now row" and "outbox db = rows @ [row]"
  shows "claimMail now db = (Some row, snd (claimMail now db))"
proof -
  have "update_where (interrupted now) (recovered now) (rows @ [row]) = rows @ [row]"
    using assms(1,2) by (intro update_where_none) (auto simp: interrupted_def open_mail_def due_mail_def)
  moreover have "filter (due_mail now) (rows @ [row]) = [row]" using assms(1,2) by (auto simp: due_mail_def open_mail_def filter_empty_conv)
  ultimately show ?thesis using assms(3) by (simp add: claimMail_def Let_def)
qed

lemma mail_turn_claimed:
  "claimMail now db = (Some item, db1) \<Longrightarrow> mail_turn A E smtp fault now db = (True, send A E smtp fault now item db1)"
  by (simp add: mail_turn_def)

lemma resetPassword_of_token:
  assumes "offers req token password" and "hashPassword A (dw_salt d) password = Inr encoded"
    and "ad_account_tokens db = ts @ [row]" and "\<forall>t \<in> set ts. at_token_hash t \<noteq> sv_sha256 A token"
    and "open_token RESET_PASSWORD (dw_now d) (sv_sha256 A token) row"
  shows "\<exists>db'. resetPassword A d req db = (Inr (), db') \<and> (\<forall>u \<in> set (ad_users db'). us_id u = at_user_id row \<longrightarrow> us_password_hash u = Some encoded)"
proof -
  have "find (open_token RESET_PASSWORD (dw_now d) (sv_sha256 A token)) ts = None"
    using assms(4) by (auto simp: find_None_iff open_token_def)
  then have found: "find (open_token RESET_PASSWORD (dw_now d) (sv_sha256 A token)) (ad_account_tokens db) = Some row"
    using assms(3,5) by (simp add: find_append)
  then show ?thesis
    using assms(1,2) by (auto simp: offers_def resetPassword_def guardH_def saasTransaction_def reset_transaction_def update_where_all
        revoke_tokens_def consume_tokens_def update_users_def)
qed

text \<open>
  C28: Who asks for a new password with the address of an active account gets a letter at this address with a link
  that holds the token, and within the hour a request with this token sets the password of this account.
\<close>
theorem forgotten_password_is_restored:
  assumes "mail_channel A E" and "list_all base64url (dw_token d)"
    and "forgotPassword A d req (ml_accounts db) = (Inr (), accounts)" and "asks_for req email"
    and "find (\<lambda>u. us_email u = email \<and> us_status u = ActiveUser) (ad_users (ml_accounts db)) = Some user"
    and "\<forall>r \<in> set (outbox db). \<not> open_mail r" and "\<not> suppressed (emailHash A email) db"
    and "me_link E ''/reset-password'' (dw_token d) = Inr url" and "me_from E = Some sender"
    and "mail_turn A E smtp fault now (db\<lparr>ml_accounts := accounts\<rparr>) = (busy, posted, db')" and "dw_now d \<le> now"
    and "offers reset (dw_token d) password" and "hashPassword A (dw_salt d2) password = Inr encoded" and "dw_now d2 < dw_now d + hours 1"
  shows "(\<exists>l. posted = Some l \<and> lt_to l = email \<and> lt_text l = renderText E (AccountEmail RESET_PASSWORD) (sv_locale A) url) \<and>
    (\<exists>db''. resetPassword A d2 reset (ml_accounts db') = (Inr (), db'') \<and>
       (\<forall>u \<in> set (ad_users db''). us_id u = us_id user \<longrightarrow> us_password_hash u = Some encoded))"
proof -
  let ?mail = "new_mail A d email (AccountEmail RESET_PASSWORD) (sv_seal A (token_json (dw_token d)))"
  let ?db = "db\<lparr>ml_accounts := accounts\<rparr>"
  note queued = queueAccountEmail_Inr [OF forgotPassword_queues [OF assms(3-5)]]
  have claimed: "claimMail now ?db = (Some ?mail, snd (claimMail now ?db))"
    using assms(6,11) queued(2) by (intro first_claimed [of "outbox db"]) (simp_all add: due_mail_def new_mail_def)
  with assms(10) have posted: "posted = fst (send A E smtp fault now ?mail (snd (claimMail now ?db)))"
    unfolding mail_turn_claimed [OF claimed] by simp
  have supp: "ml_suppressions (snd (claimMail now ?db)) = ml_suppressions db" using claimMail_Some(4) [OF claimed] by simp
  obtain l where l: "letter_for E ?mail = Inr l" "lt_to l = email" "lt_text l = renderText E (AccountEmail RESET_PASSWORD) (sv_locale A) url"
    using mail_channel.letter_carries_token [OF assms(1,2), of ?mail url sender] assms(8,9) by (auto simp: new_mail_def mail_path_def)
  have "\<not> suppressed (emailHash A (eo_recipient ?mail)) (snd (claimMail now ?db))"
    using assms(7) supp by (simp add: suppressed_def new_mail_def)
  with posted l(1) have letter: "posted = Some l" by (simp add: send_def Let_def)
  obtain rows where rows: "ml_accounts db' = accounts\<lparr>ad_email_outbox := rows\<rparr>"
    using mail_turn_accounts [of A E smtp fault now ?db] assms(10) by auto
  obtain ts row where row: "ad_account_tokens accounts = ts @ [row]" "at_user_id row = us_id user"
    "\<forall>t \<in> set ts. at_token_hash t \<noteq> sv_sha256 A (dw_token d)" "open_token RESET_PASSWORD (dw_now d2) (sv_sha256 A (dw_token d)) row"
    using queued(3) assms(14) by (auto simp: open_token_def)
  have "ad_account_tokens (ml_accounts db') = ts @ [row]" using rows row(1) by simp
  from resetPassword_of_token [OF assms(12,13) this row(3,4)] row(2) letter l(2,3) show ?thesis by simp
qed

section \<open>Concrete runs\<close>

definition sim_mail_env :: mail_env where
  "sim_mail_env =
     \<lparr>me_open = Inr, me_parse = (\<lambda>text. Inr (JObj [(''token'', JStr (drop 10 (butlast (butlast text))))])), me_string = (\<lambda>_. []),
      me_thrown = [], me_link = (\<lambda>path token. Inr (''https://app.io'' @ path @ ''?token='' @ token)), me_from = Some ''no-reply@app.io'',
      me_russian = english_copy, me_russian_note = [], me_webhook_token = Some ''hook''\<rparr>"

interpretation sim_channel: mail_channel sim_server sim_mail_env
  by unfold_locales (simp_all add: sim_server_def sim_mail_env_def token_json_def Let_def butlast_append)

definition sim_mail_row :: "nat \<Rightarrow> mail_status \<Rightarrow> outbox_row" where
  "sim_mail_row attempts status =
     \<lparr>eo_id = ''m1'', eo_recipient = ''a@b.io'', eo_template = AccountEmail VERIFY_EMAIL, eo_locale = EN,
      eo_encrypted_payload = token_json ''t'', eo_status = status, eo_attempts = attempts, eo_next_attempt_at = 0,
      eo_last_attempt_at = None, eo_last_error = None, eo_provider_message_id = Some ''p1'', eo_created_at = 0, eo_sent_at = None\<rparr>"

definition sim_mail_db :: "outbox_row list \<Rightarrow> mail_db" where
  "sim_mail_db rows = \<lparr>ml_accounts = (sim_accounts [])\<lparr>ad_email_outbox := rows\<rparr>, ml_suppressions = [], ml_events = []\<rparr>"

lemma sim_mail_db_simps [simp]:
  "ad_email_outbox (ml_accounts (sim_mail_db rows)) = rows" "ml_events (sim_mail_db rows) = []"
  "ml_suppressions (sim_mail_db rows) = []" "ad_users (ml_accounts (sim_mail_db rows)) = [sim_account]"
  "ad_account_tokens (ml_accounts (sim_mail_db rows)) = []"
  by (simp_all add: sim_mail_db_def sim_accounts_def)


definition sim_bounce :: json_object where
  "sim_bounce = [(''eventId'', JStr ''e1''), (''messageId'', JStr ''p1''), (''type'', JStr ''HARD_BOUNCE'')]"

theorem bounced_recipient_is_left_alone_witness:
  "emailHash sim_server ''a@b.io'' \<notin> (\<lambda>l. emailHash sim_server (lt_to l)) ` set (fst (serve_mails sim_server sim_mail_env
      [MailTurn (\<lambda>_. Inr ''p2'') None 5000]
      (snd (providerEvents sim_server sim_mail_env (Some ''Bearer hook'') (Some (JObj sim_bounce)) (sim_mail_db [sim_mail_row 1 MailSent])))))"
proof -
  let ?db = "sim_mail_db [sim_mail_row 1 MailSent]"
  have strings: "stringValue (Some (JStr ''e1'')) ''eventId'' 200 = Inr ''e1''" "stringValue (Some (JStr ''p1'')) ''messageId'' 500 = Inr ''p1''"
      "stringValue (Some (JStr ''HARD_BOUNCE'')) ''type'' 20 = Inr ''HARD_BOUNCE''"
    by (simp_all add: stringValue_def trim_def is_space_def)
  have run: "providerEvents sim_server sim_mail_env (Some ''Bearer hook'') (Some (JObj sim_bounce)) ?db =
      (Inr (), snd (providerEvents sim_server sim_mail_env (Some ''Bearer hook'') (Some (JObj sim_bounce)) ?db))"
    by (simp add: providerEvents_def guardH_def authorized_def sim_mail_env_def sim_bounce_def objectValue_def Let_def strings event_types_def)
  have row: "find (\<lambda>r. eo_provider_message_id r = Some ''p1'') (outbox ?db) = Some (sim_mail_row 1 MailSent)"
      "eo_recipient (sim_mail_row 1 MailSent) = ''a@b.io''"
    by (simp_all add: sim_mail_row_def)
  have other: "emailHash sim_server (lt_to l) \<noteq> emailHash sim_server ''a@b.io''"
    if "l \<in> set (fst (serve_mails sim_server sim_mail_env [MailTurn (\<lambda>_. Inr ''p2'') None 5000]
      (snd (providerEvents sim_server sim_mail_env (Some ''Bearer hook'') (Some (JObj sim_bounce)) ?db))))" for l
    using bounced_recipient_is_left_alone [OF run _ _ _ strings(1,2) _ _ row(1) that] by (simp add: sim_bounce_def sim_mail_row_def)
  show ?thesis by (rule notI, elim imageE) (drule other, erule notE, erule sym)
qed

definition sim_forgot :: auth_request where
  "sim_forgot = \<lparr>rq_body = Some (JObj [(''email'', JStr ''a@b.io'')]), rq_cookie = None, rq_csrf = None, rq_auth = None\<rparr>"

definition sim_reset :: auth_request where
  "sim_reset =
     \<lparr>rq_body = Some (JObj [(''token'', JStr ''xt''), (''password'', JStr ''a-long-password'')]), rq_cookie = None, rq_csrf = None, rq_auth = None\<rparr>"

lemma sim_reset_offers: "offers sim_reset ''xt'' ''a-long-password''"
proof -
  have "stringValue (Some (JStr ''xt'')) ''token'' 200 = Inr ''xt''"
      "stringValue (Some (JStr ''a-long-password'')) ''password'' 128 = Inr ''a-long-password''"
    by (simp_all add: stringValue_def trim_def is_space_def)
  then show ?thesis by (simp add: offers_def sim_reset_def objectValue_def)
qed

lemma sim_forgot_asks: "asks_for sim_forgot ''a@b.io''"
  by (simp add: asks_for_def sim_forgot_def objectValue_def emailValue_def bindC_def stringValue_def trim_def is_space_def toLowerCase_def
      toLowerCase_char_def email_format_def)

theorem forgotten_password_is_restored_witness:
  "\<exists>db''. resetPassword sim_server (sim_draw 20 ''y'') sim_reset
     (ml_accounts (snd (snd (mail_turn sim_server sim_mail_env (\<lambda>_. Inr ''p1'') None 11
        ((sim_mail_db [])\<lparr>ml_accounts := snd (forgotPassword sim_server (sim_draw 10 ''x'') sim_forgot (ml_accounts (sim_mail_db [])))\<rparr>))))) =
     (Inr (), db'')"
proof -
  let ?d = "sim_draw 10 ''x''" and ?db = "sim_mail_db []"
  let ?turn = "mail_turn sim_server sim_mail_env (\<lambda>_. Inr ''p1'') None 11
     (?db\<lparr>ml_accounts := snd (forgotPassword sim_server ?d sim_forgot (ml_accounts ?db))\<rparr>)"
  have user: "find (\<lambda>u. us_email u = ''a@b.io'' \<and> us_status u = ActiveUser) (ad_users (ml_accounts ?db)) = Some sim_account"
    by (simp add: sim_account_def)
  have run: "forgotPassword sim_server ?d sim_forgot (ml_accounts ?db) = (Inr (), snd (forgotPassword sim_server ?d sim_forgot (ml_accounts ?db)))"
    using sim_forgot_asks user
    by (auto simp: asks_for_def forgotPassword_def send_token_def guardH_def saasTransaction_def queueAccountEmail_def Let_def
        consume_tokens_def update_where_def)
  have token: "list_all base64url (dw_token ?d)" "dw_token ?d = ''xt''" "dw_now ?d = 10" by (simp_all add: sim_draw_def base64url_def)
  have link: "me_link sim_mail_env ''/reset-password'' (dw_token ?d) = Inr ''https://app.io/reset-password?token=xt''"
      "me_from sim_mail_env = Some ''no-reply@app.io''" by (simp_all add: sim_mail_env_def token)
  have idle: "\<forall>r \<in> set (outbox ?db). \<not> open_mail r" "\<not> suppressed (emailHash sim_server ''a@b.io'') ?db"
    by (simp_all add: suppressed_def)
  have turn: "?turn = (fst ?turn, fst (snd ?turn), snd (snd ?turn))" by simp
  obtain encoded where hashed: "hashPassword sim_server (dw_salt (sim_draw 20 ''y'')) ''a-long-password'' = Inr encoded"
    by (simp add: hashPassword_def)
  from forgotten_password_is_restored [OF sim_channel.mail_channel_axioms token(1) run sim_forgot_asks user idle link turn _ _ hashed]
    sim_reset_offers token show ?thesis by (auto simp: sim_draw_def)
qed

end
