(* ===== verification/Billing_Router.thy ===== *)
theory Billing_Router
  imports Account_Sessions Sql_Builder
begin

text \<open>
  \<^verbatim>\<open>src/saas/billing/router.ts\<close>: the notifications of the payment provider, the checkout, the cancellation and the
  resumption of a subscription, and what a customer sees of the plan and its use. The requests to the provider
  (\<^verbatim>\<open>src/saas/billing/yookassa.ts\<close>) are arguments; the texts of the amounts it exchanges are modelled.
\<close>

section \<open>Tables and environment\<close>

text \<open>
  \<open>pf_billing_events\<close> are the keys of the table \<^verbatim>\<open>billing_events\<close>. The primary key of a payment is a random UUID;
  \<open>be_payment_id\<close> gives the one drawn for the payment with a provider's identifier, which is unique too.
\<close>

record stored_flag = flag_row +
  fl_version :: nat

record platform_db =
  pf_accounts :: account_db
  pf_billing_events :: "string list"
  pf_flags :: "stored_flag list"
  pf_overrides :: "string \<times> string \<Rightarrow> bool option"

text \<open>What the provider tells of a payment and of a refund beside what the lifecycle reads.\<close>

record provider_payment = yoo_payment +
  yp_value :: string
  yp_currency :: string
  yp_confirmation_url :: "string option"
  yp_metadata :: "(string \<times> string) list"

record provider_refund = yoo_refund +
  yr_value :: string
  yr_currency :: string

record billing_env =
  be_config :: billing_config
  be_plan_name :: string
  be_add_month :: "int \<Rightarrow> int"
  be_sha256 :: "string \<Rightarrow> nat list"
  be_string :: "json option \<Rightarrow> string"
  be_get_payment :: "string \<Rightarrow> http_error + provider_payment"
  be_get_refund :: "string \<Rightarrow> http_error + provider_refund"
  be_create_payment :: "string \<Rightarrow> string \<Rightarrow> string \<Rightarrow> string \<Rightarrow> http_error + provider_payment"
  be_create_refund :: "string \<Rightarrow> string \<Rightarrow> string \<Rightarrow> string \<Rightarrow> string \<Rightarrow> http_error + provider_refund"
  be_payment_id :: "string \<Rightarrow> string"

abbreviation billing :: "platform_db \<Rightarrow> billing_db" where
  "billing db \<equiv> sd_billing (ad_saas (pf_accounts db))"

definition set_saas :: "saas_db \<Rightarrow> platform_db \<Rightarrow> platform_db" where
  "set_saas s db = db\<lparr>pf_accounts := (pf_accounts db)\<lparr>ad_saas := s\<rparr>\<rparr>"

definition set_billing :: "billing_db \<Rightarrow> platform_db \<Rightarrow> platform_db" where
  "set_billing b db = set_saas ((ad_saas (pf_accounts db))\<lparr>sd_billing := b\<rparr>) db"

definition audit_platform :: "api_request \<Rightarrow> string \<Rightarrow> string \<Rightarrow> string \<Rightarrow> json_object \<Rightarrow> platform_db \<Rightarrow> platform_db" where
  "audit_platform req action entityType entityId metadata db =
     db\<lparr>pf_accounts := audit req action entityType entityId metadata (pf_accounts db)\<rparr>"

text \<open>Rows outside a selection are not touched by an update that keeps to the rest.\<close>

lemma filter_update_where_out: "(\<And>r. p r \<Longrightarrow> \<not> q r \<and> \<not> q (f r)) \<Longrightarrow> filter q (update_where p f rows) = filter q rows"
  by (induction rows) (auto simp: update_where_def)

section \<open>Amounts\<close>

text \<open>\<open>(kopecks / 100).toFixed(2)\<close>, which is exact for the integers of the column.\<close>

definition amountValue :: "nat \<Rightarrow> string" where
  "amountValue n = show_nat (n div 100) @ ''.'' @ [digit_char (n mod 100 div 10), digit_char (n mod 10)]"

text \<open>The expression \<^verbatim>\<open>^\d+\.\d{2}$\<close>, and the number without the point.\<close>

definition kopecks :: "string \<Rightarrow> nat checked" where
  "kopecks value =
     (case split_on CHR ''.'' value of
        [whole, cents] \<Rightarrow>
          if whole \<noteq> [] \<and> list_all is_digit whole \<and> length cents = 2 \<and> list_all is_digit cents
          then Inr (read_nat (whole @ cents))
          else Inl (SaasHttpError 400 ''INVALID_PAYMENT'' ''Invalid payment amount.'' None)
      | _ \<Rightarrow> Inl (SaasHttpError 400 ''INVALID_PAYMENT'' ''Invalid payment amount.'' None))"

section \<open>Notifications\<close>

definition payment_status_name :: "payment_status \<Rightarrow> string" where
  "payment_status_name s =
     (case s of Pending \<Rightarrow> ''pending'' | WaitingForCapture \<Rightarrow> ''waiting_for_capture'' | Succeeded \<Rightarrow> ''succeeded''
      | Canceled \<Rightarrow> ''canceled'')"

definition payment_kind_name :: "payment_kind \<Rightarrow> string" where
  "payment_kind_name k = (case k of INITIAL \<Rightarrow> ''INITIAL'' | RENEWAL \<Rightarrow> ''RENEWAL'')"

definition event_names :: "string list" where
  "event_names = [''payment.waiting_for_capture'', ''payment.succeeded'', ''payment.canceled'', ''refund.succeeded'']"

definition event_name :: "billing_env \<Rightarrow> json option \<Rightarrow> string" where
  "event_name E v = (case v of Some (JStr s) \<Rightarrow> s | _ \<Rightarrow> be_string E v)"

text \<open>\<open>event.object?.id\<close>.\<close>

definition object_id :: "json_object \<Rightarrow> json option" where
  "object_id event = (case map_of event ''object'' of Some (JObj entries) \<Rightarrow> map_of entries ''id'' | _ \<Rightarrow> None)"

definition checked_notification :: "billing_env \<Rightarrow> json_object \<Rightarrow> (string \<times> string) checked" where
  "checked_notification E event =
     (let eventType = event_name E (map_of event ''event'')
      in if eventType \<notin> set event_names
         then Inl (SaasHttpError 400 ''INVALID_NOTIFICATION'' ''Unsupported notification event.'' None)
         else (case object_id event of
                 Some (JStr i) \<Rightarrow>
                   if length i > 128 then Inl (SaasHttpError 400 ''INVALID_NOTIFICATION'' ''Provider object id is required.'' None)
                   else Inr (eventType, i)
               | _ \<Rightarrow> Inl (SaasHttpError 400 ''INVALID_NOTIFICATION'' ''Provider object id is required.'' None)))"

text \<open>The insert into \<^verbatim>\<open>billing_events\<close> with \<^verbatim>\<open>ON CONFLICT DO NOTHING\<close>: a known event changes nothing.\<close>

definition once :: "string \<Rightarrow> (billing_db \<Rightarrow> billing_db) \<Rightarrow> platform_db \<Rightarrow> platform_db" where
  "once eventId work db =
     (if eventId \<in> set (pf_billing_events db) then db
      else set_billing (work (billing db)) (db\<lparr>pf_billing_events := pf_billing_events db @ [eventId]\<rparr>))"

definition payment_matches :: "payment_row \<Rightarrow> provider_payment \<Rightarrow> unit checked" where
  "payment_matches local payment =
     (let mismatch = SaasHttpError 409 ''PAYMENT_MISMATCH'' ''Payment verification failed.'' None
      in if map_of (yp_metadata payment) ''organizationId'' \<noteq> Some (pm_organization_id local) \<or>
            map_of (yp_metadata payment) ''kind'' \<noteq> Some (payment_kind_name (pm_kind local)) \<or> yp_currency payment \<noteq> ''RUB''
         then Inl mismatch
         else bindC (kopecks (yp_value payment)) (\<lambda>amount. if amount \<noteq> pm_amount_kopecks local then Inl mismatch else Inr ()))"

definition local_of :: "payment_row \<Rightarrow> local_payment" where
  "local_of r = \<lparr>lp_organization_id = pm_organization_id r, lp_kind = pm_kind r, lp_attempt_number = pm_attempt_number r\<rparr>"

definition payment_webhook :: "billing_env \<Rightarrow> int \<Rightarrow> string \<Rightarrow> string \<Rightarrow> platform_db \<Rightarrow> (api_error + unit) \<times> platform_db" where
  "payment_webhook E now eventType paymentId =
     guardH (be_get_payment E paymentId) (\<lambda>payment.
     guardH (if eventType \<noteq> ''payment.'' @ payment_status_name (yp_status payment)
             then Inl (SaasHttpError 409 ''PAYMENT_MISMATCH'' ''Notification status does not match payment status.'' None)
             else Inr ()) (\<lambda>_ db.
       case find (\<lambda>r. pm_provider_payment_id r = yp_id payment) (bd_payments (billing db)) of
         None \<Rightarrow> (Inl (HttpError (SaasHttpError 404 ''PAYMENT_NOT_FOUND'' ''Payment is unknown.'' None)), db)
       | Some local \<Rightarrow>
           guardH (payment_matches local payment) (\<lambda>_ db.
             (Inr (), once (eventType @ '':'' @ yp_id payment)
               (applyPaymentLifecycle (be_add_month E) (be_config E) now (local_of local) (yoo_payment.truncate payment)) db)) db))"

definition refund_matches :: "refund_row \<Rightarrow> provider_refund \<Rightarrow> unit checked" where
  "refund_matches local refund =
     (let mismatch = SaasHttpError 409 ''REFUND_MISMATCH'' ''Refund verification failed.'' None
      in if yr_status refund \<noteq> RefundSucceeded \<or> yr_payment_id refund \<noteq> rf_provider_payment_id local \<or> yr_currency refund \<noteq> ''RUB''
         then Inl mismatch
         else bindC (kopecks (yr_value refund)) (\<lambda>amount. if amount \<noteq> rf_amount_kopecks local then Inl mismatch else Inr ()))"

definition settle_refund :: "int \<Rightarrow> provider_refund \<Rightarrow> billing_db \<Rightarrow> billing_db" where
  "settle_refund now refund db =
     applyRefundLifecycle now (yoo_refund.truncate refund)
       (db\<lparr>bd_refunds := update_where (\<lambda>r. rf_provider_refund_id r = Some (yr_id refund))
             (\<lambda>r. r\<lparr>rf_status := yr_status refund, rf_reconcile_after := None\<rparr>) (bd_refunds db)\<rparr>)"

definition refund_webhook :: "billing_env \<Rightarrow> int \<Rightarrow> string \<Rightarrow> platform_db \<Rightarrow> (api_error + unit) \<times> platform_db" where
  "refund_webhook E now refundId =
     guardH (be_get_refund E refundId) (\<lambda>refund db.
       case find (\<lambda>r. rf_provider_refund_id r = Some (yr_id refund)) (bd_refunds (billing db)) of
         None \<Rightarrow> (Inl (HttpError (SaasHttpError 404 ''REFUND_NOT_FOUND'' ''Refund is unknown.'' None)), db)
       | Some local \<Rightarrow>
           guardH (refund_matches local refund) (\<lambda>_ db.
             (Inr (), once (''refund.succeeded:'' @ yr_id refund) (settle_refund now refund) db)) db)"

definition webhook :: "billing_env \<Rightarrow> int \<Rightarrow> json option \<Rightarrow> platform_db \<Rightarrow> (api_error + unit) \<times> platform_db" where
  "webhook E now body db =
     (case body of
        None \<Rightarrow> (Inl (DbError ''TypeError''), db)
      | Some JNull \<Rightarrow> (Inl (DbError ''TypeError''), db)
      | Some v \<Rightarrow>
          guardH (checked_notification E (case v of JObj entries \<Rightarrow> entries | _ \<Rightarrow> [])) (\<lambda>(eventType, i).
            if eventType = ''refund.succeeded'' then refund_webhook E now i else payment_webhook E now eventType i) db)"

section \<open>Requests of a customer\<close>

definition billingAccess :: "api_request \<Rightarrow> unit checked" where
  "billingAccess req =
     (case ar_auth req of
        None \<Rightarrow> Inl (SaasHttpError 403 ''FORBIDDEN'' ''Billing access is required.'' None)
      | Some auth \<Rightarrow>
          if au_role auth \<notin> {OWNER, BILLING} then Inl (SaasHttpError 403 ''FORBIDDEN'' ''Billing access is required.'' None)
          else Inr ())"

definition plans :: "billing_env \<Rightarrow> (string \<times> string \<times> nat \<times> entitlements) list" where
  "plans E = [(''FREE'', ''Free'', 0, planCatalog FREE), (''PRO'', be_plan_name E, bc_priceKopecks (be_config E), planCatalog PRO)]"

text \<open>The subscription of an organisation, with whether a payment method is saved; None stands for the answer without one.\<close>

definition subscription_answer :: "string \<Rightarrow> platform_db \<Rightarrow> (subscription \<times> bool) option" where
  "subscription_answer organizationId db =
     map_option (\<lambda>s. (s, su_payment_method_id s \<noteq> None)) (find (\<lambda>s. su_organization_id s = organizationId) (bd_subscriptions (billing db)))"

record usage_answer =
  ua_plan :: plan_id
  ua_entitlements :: entitlements
  ua_exchangeConnections :: nat
  ua_bots :: nat
  ua_members :: nat
  ua_monthlyBotCommands :: nat

definition usage :: "api \<Rightarrow> string \<Rightarrow> saas_db \<Rightarrow> usage_answer" where
  "usage A organizationId db =
     (let plan = activePlan (ap_now A) organizationId (sd_billing db)
      in \<lparr>ua_plan = plan, ua_entitlements = planCatalog plan,
          ua_exchangeConnections = resource_count ExchangeConnections organizationId db, ua_bots = resource_count Bots organizationId db,
          ua_members = length (filter (\<lambda>m. mb_organization_id m = organizationId) (sd_memberships db)),
          ua_monthlyBotCommands = nullish (sd_usage db (organizationId, ap_month A (ap_now A))) 0\<rparr>)"

definition existing_checkout :: "string \<Rightarrow> string \<Rightarrow> payment_row \<Rightarrow> bool" where
  "existing_checkout organizationId key r \<longleftrightarrow> pm_organization_id r = organizationId \<and> pm_idempotency_key r = key"

definition checkout_row :: "billing_env \<Rightarrow> int \<Rightarrow> string \<Rightarrow> string \<Rightarrow> provider_payment \<Rightarrow> string \<Rightarrow> payment_row" where
  "checkout_row E now organizationId key payment url =
     \<lparr>pm_organization_id = organizationId, pm_provider_payment_id = yp_id payment, pm_idempotency_key = key, pm_kind = INITIAL,
      pm_status = yp_status payment, pm_amount_kopecks = bc_priceKopecks (be_config E), pm_attempt_number = 1,
      pm_reconcile_after = (if is_open (yp_status payment) then Some (now + minutes (bc_reconciliationMinutes (be_config E))) else None),
      pm_reconciliation_attempts = 0, pm_entitlement_applied_at = None, pm_failure_applied_at = None,
      pm_confirmation_url = Some url, pm_created_at = now\<rparr>"

text \<open>\<^verbatim>\<open>ON CONFLICT(organization_id,idempotency_key) DO NOTHING\<close>; the provider's identifier is unique.\<close>

definition insert_checkout :: "payment_row \<Rightarrow> billing_db \<Rightarrow> api_error + unit \<times> billing_db" where
  "insert_checkout row db =
     (if \<exists>r \<in> set (bd_payments db). existing_checkout (pm_organization_id row) (pm_idempotency_key row) r then Inr ((), db)
      else if \<exists>r \<in> set (bd_payments db). pm_provider_payment_id r = pm_provider_payment_id row then Inl (DbError unique_violation)
      else Inr ((), db\<lparr>bd_payments := bd_payments db @ [row]\<rparr>))"

definition new_checkout :: "billing_env \<Rightarrow> api \<Rightarrow> api_request \<Rightarrow> auth_context \<Rightarrow> string \<Rightarrow> platform_db \<Rightarrow> (api_error + string \<times> string) \<times> platform_db" where
  "new_checkout E A req auth key db =
     (case find (\<lambda>u. us_id u = au_userId auth) (ad_users (pf_accounts db)) of
        None \<Rightarrow> (Inl (HttpError (SaasHttpError 404 ''NOT_FOUND'' ''User was not found.'' None)), db)
      | Some user \<Rightarrow>
          guardH (be_create_payment E (au_organizationId auth) (us_email user) key (amountValue (bc_priceKopecks (be_config E)))) (\<lambda>payment db.
            case yp_confirmation_url payment of
              Some (c # cs) \<Rightarrow>
                (case insert_checkout (checkout_row E (ap_now A) (au_organizationId auth) key payment (c # cs)) (billing db) of
                   Inl e \<Rightarrow> (Inl e, db)
                 | Inr (_, b) \<Rightarrow> (Inr (yp_id payment, c # cs), audit_platform req ''CHECKOUT_CREATED'' ''payment'' (yp_id payment) [] (set_billing b db)))
            | _ \<Rightarrow> (Inl (HttpError (SaasHttpError 502 ''PAYMENT_PROVIDER_ERROR'' ''Payment confirmation URL is unavailable.'' None)), db)) db)"

definition checkout :: "billing_env \<Rightarrow> api \<Rightarrow> api_request \<Rightarrow> platform_db \<Rightarrow> (api_error + string \<times> string) \<times> platform_db" where
  "checkout E A req db =
     guardH (billingAccess req) (\<lambda>_.
     guardH (requireCurrentLegalConsent A req) (\<lambda>_.
     guardH (requireFeature (be_sha256 E) (map flag_row.truncate (pf_flags db)) (pf_overrides db) ''billing_checkout''
               (map_option au_organizationId (ar_auth req))) (\<lambda>_.
     guardH (authContext req) (\<lambda>auth.
     guardH (idempotencyKey req) (\<lambda>key db.
       case find (existing_checkout (au_organizationId auth) key) (bd_payments (billing db)) of
         Some r \<Rightarrow>
           (case pm_confirmation_url r of
              Some (c # cs) \<Rightarrow> (Inr (pm_provider_payment_id r, c # cs), db)
            | _ \<Rightarrow> new_checkout E A req auth key db)
       | None \<Rightarrow> new_checkout E A req auth key db))))) db"

definition cancelSubscription :: "api_request \<Rightarrow> platform_db \<Rightarrow> (api_error + unit) \<times> platform_db" where
  "cancelSubscription req =
     guardH (billingAccess req) (\<lambda>_.
     guardH (authContext req) (\<lambda>auth db.
       (Inr (), audit_platform req ''SUBSCRIPTION_CANCELLED'' ''organization'' (au_organizationId auth) []
          (set_billing ((billing db)\<lparr>bd_subscriptions := update_where (\<lambda>s. su_organization_id s = au_organizationId auth)
             (\<lambda>s. s\<lparr>su_auto_renew := False, su_cancel_at_period_end := True, su_next_billing_at := None\<rparr>)
             (bd_subscriptions (billing db))\<rparr>) db))))"

definition resumable :: "int \<Rightarrow> string \<Rightarrow> subscription \<Rightarrow> bool" where
  "resumable now organizationId s \<longleftrightarrow>
     su_organization_id s = organizationId \<and> su_payment_method_id s \<noteq> None \<and>
     (case su_current_period_end s of None \<Rightarrow> False | Some t \<Rightarrow> t > now)"

definition resumeSubscription :: "api \<Rightarrow> api_request \<Rightarrow> platform_db \<Rightarrow> (api_error + unit) \<times> platform_db" where
  "resumeSubscription A req =
     guardH (billingAccess req) (\<lambda>_.
     guardH (requireCurrentLegalConsent A req) (\<lambda>_.
     guardH (authContext req) (\<lambda>auth db.
       if \<not> list_ex (resumable (ap_now A) (au_organizationId auth)) (bd_subscriptions (billing db))
       then (Inl (HttpError (SaasHttpError 409 ''PAYMENT_METHOD_REQUIRED''
               ''An active subscription with a saved payment method is required.'' None)), db)
       else (Inr (), audit_platform req ''SUBSCRIPTION_RESUMED'' ''organization'' (au_organizationId auth) []
               (set_billing ((billing db)\<lparr>bd_subscriptions := update_where (resumable (ap_now A) (au_organizationId auth))
                  (\<lambda>s. s\<lparr>su_auto_renew := True, su_cancel_at_period_end := False, su_next_billing_at := su_current_period_end s\<rparr>)
                  (bd_subscriptions (billing db))\<rparr>) db)))))"

end
