(* ===== verification/Admin_Router.thy ===== *)
theory Admin_Router
  imports Billing_Router
begin

text \<open>
  The requests of \<^verbatim>\<open>src/saas/admin/router.ts\<close> that are not about the status of accounts: the feature flags with
  their optimistic versions, the data subject requests, and the refunds. All stand behind \<open>requirePlatformAdmin\<close>.
\<close>

section \<open>Parameters\<close>

definition integer_part :: "jsnum \<Rightarrow> nat" where
  "integer_part n = (case n of Fin q \<Rightarrow> nat \<lfloor>q\<rfloor> | _ \<Rightarrow> 0)"

text \<open>The two numbers are the values of \<^verbatim>\<open>Number\<close> for the parameters of the query that are present.\<close>

definition pagination :: "jsnum option \<Rightarrow> jsnum option \<Rightarrow> (nat \<times> nat) checked" where
  "pagination limit offset =
     (let rawLimit = nullish limit (Fin 50); rawOffset = nullish offset (Fin 0)
      in if \<not> isInteger rawLimit \<or> \<not> isInteger rawOffset \<or> rawLimit < Fin 1 \<or> rawOffset < Fin 0
         then Inl (SaasHttpError 400 ''VALIDATION_ERROR'' ''Pagination values must be positive integers.'' None)
         else Inr (min 100 (integer_part rawLimit), integer_part rawOffset))"

definition flag_first :: "char \<Rightarrow> bool" where
  "flag_first c \<longleftrightarrow> c \<in> set ''abcdefghijklmnopqrstuvwxyz''"

definition flag_rest :: "char \<Rightarrow> bool" where
  "flag_rest c \<longleftrightarrow> c \<in> set ''abcdefghijklmnopqrstuvwxyz0123456789_''"

definition flagKey :: "string \<Rightarrow> string checked" where
  "flagKey value =
     bindC (stringValue (Some (JStr value)) ''key'' 64) (\<lambda>key.
       case key of
         c # cs \<Rightarrow> if flag_first c \<and> 2 \<le> length cs \<and> length cs \<le> 63 \<and> list_all flag_rest cs then Inr key
                   else Inl (SaasHttpError 400 ''INVALID_FEATURE_FLAG'' ''Feature flag key is invalid.'' None)
       | [] \<Rightarrow> Inl (SaasHttpError 400 ''INVALID_FEATURE_FLAG'' ''Feature flag key is invalid.'' None))"

definition expectedVersion :: "(rat \<Rightarrow> string) \<Rightarrow> json_object \<Rightarrow> nat checked" where
  "expectedVersion num_text body =
     bindC (numberValue num_text (map_of body ''expectedVersion'') ''expectedVersion'' 1 9007199254740991) (\<lambda>version.
       if \<not> isInteger version then Inl (SaasHttpError 400 ''VALIDATION_ERROR'' ''expectedVersion must be an integer.'' None)
       else Inr (integer_part version))"

definition asAdmin :: "api_request \<Rightarrow> (auth_context \<Rightarrow> platform_db \<Rightarrow> (api_error + 'a) \<times> platform_db) \<Rightarrow> platform_db \<Rightarrow> (api_error + 'a) \<times> platform_db" where
  "asAdmin req k db = guardH (requirePlatformAdmin req (pf_accounts db)) (\<lambda>_. guardH (authContext req) k) db"

section \<open>Feature flags\<close>

definition flag_at :: "string \<Rightarrow> nat \<Rightarrow> stored_flag \<Rightarrow> bool" where
  "flag_at key version f \<longleftrightarrow> fl_key f = key \<and> fl_version f = version"

definition patchFlag :: "(rat \<Rightarrow> string) \<Rightarrow> string \<Rightarrow> api_request \<Rightarrow> platform_db \<Rightarrow> (api_error + unit) \<times> platform_db" where
  "patchFlag num_text param req =
     asAdmin req (\<lambda>auth.
     guardH (flagKey param) (\<lambda>key.
     guardH (objectValue (ar_body req) (Some [''enabled'', ''rolloutPercentage'', ''expectedVersion'', ''changeReason''])) (\<lambda>body.
     guardH (booleanValue (map_of body ''enabled'') ''enabled'') (\<lambda>enabled.
     guardH (numberValue num_text (map_of body ''rolloutPercentage'') ''rolloutPercentage'' 0 100) (\<lambda>percentage.
     guardH (if \<not> isInteger percentage
             then Inl (SaasHttpError 400 ''VALIDATION_ERROR'' ''rolloutPercentage must be an integer.'' None) else Inr ()) (\<lambda>_.
     guardH (expectedVersion num_text body) (\<lambda>version.
     guardH (stringValue (map_of body ''changeReason'') ''changeReason'' 500) (\<lambda>reason db.
       if list_ex (flag_at key version) (pf_flags db)
       then (Inr (), audit_platform req ''FEATURE_FLAG_CHANGED'' ''feature_flag'' key
               [(''enabled'', JBool enabled), (''rolloutPercentage'', JNum percentage),
                (''previousVersion'', JNum (Fin (of_nat version))), (''changeReason'', JStr reason)]
               (db\<lparr>pf_flags := update_where (flag_at key version) (\<lambda>f. f\<lparr>fl_enabled := enabled,
                     fl_rollout_percentage := integer_part percentage, fl_version := fl_version f + 1\<rparr>) (pf_flags db)\<rparr>))
       else if \<not> list_ex (\<lambda>f. fl_key f = key) (pf_flags db) then (Inl (HttpError (notFound ''Feature flag was not found.'')), db)
       else (Inl (HttpError (SaasHttpError 409 ''FEATURE_FLAG_VERSION_CONFLICT''
               ''Feature flag was changed by another administrator.'' None)), db)))))))))"

definition bump_flag :: "string \<Rightarrow> nat \<Rightarrow> string \<Rightarrow> platform_db \<Rightarrow> api_error + unit \<times> platform_db" where
  "bump_flag key version message db =
     (if \<not> list_ex (flag_at key version) (pf_flags db)
      then Inl (HttpError (SaasHttpError 409 ''FEATURE_FLAG_VERSION_CONFLICT'' message None))
      else Inr ((), db\<lparr>pf_flags := update_where (flag_at key version) (\<lambda>f. f\<lparr>fl_version := fl_version f + 1\<rparr>) (pf_flags db)\<rparr>))"

definition override_transaction :: "string \<Rightarrow> nat \<Rightarrow> string \<Rightarrow> bool \<Rightarrow> platform_db \<Rightarrow> api_error + unit \<times> platform_db" where
  "override_transaction key version organizationId enabled db =
     (case bump_flag key version ''Feature flag was not found or changed by another administrator.'' db of
        Inl e \<Rightarrow> Inl e
      | Inr (_, db1) \<Rightarrow>
          if \<not> list_ex (\<lambda>g. og_id g = organizationId) (ad_organizations (pf_accounts db1))
          then Inl (HttpError (notFound ''Organization was not found.''))
          else Inr ((), db1\<lparr>pf_overrides := (pf_overrides db1)((key, organizationId) \<mapsto> enabled)\<rparr>))"

definition setOverride :: "(rat \<Rightarrow> string) \<Rightarrow> string \<Rightarrow> string \<Rightarrow> api_request \<Rightarrow> platform_db \<Rightarrow> (api_error + unit) \<times> platform_db" where
  "setOverride num_text param organizationParam req =
     asAdmin req (\<lambda>auth.
     guardH (flagKey param) (\<lambda>key.
     guardH (uuidValue (Some (JStr organizationParam)) ''organizationId'') (\<lambda>organizationId.
     guardH (objectValue (ar_body req) (Some [''enabled'', ''expectedVersion'', ''changeReason''])) (\<lambda>body.
     guardH (booleanValue (map_of body ''enabled'') ''enabled'') (\<lambda>enabled.
     guardH (expectedVersion num_text body) (\<lambda>version.
     guardH (stringValue (map_of body ''changeReason'') ''changeReason'' 500) (\<lambda>reason db.
       case saasTransaction (override_transaction key version organizationId enabled) db of
         (Inl e, db') \<Rightarrow> (Inl e, db')
       | (Inr _, db') \<Rightarrow> (Inr (), audit_platform req ''FEATURE_FLAG_OVERRIDE_SET'' ''feature_flag'' key
           [(''organizationId'', JStr organizationId), (''enabled'', JBool enabled),
            (''previousVersion'', JNum (Fin (of_nat version))), (''changeReason'', JStr reason)] db'))))))))"

definition remove_override_transaction :: "string \<Rightarrow> nat \<Rightarrow> string \<Rightarrow> platform_db \<Rightarrow> api_error + unit \<times> platform_db" where
  "remove_override_transaction key version organizationId db =
     (case bump_flag key version ''Feature flag was changed by another administrator.'' db of
        Inl e \<Rightarrow> Inl e
      | Inr (_, db1) \<Rightarrow>
          if pf_overrides db1 (key, organizationId) = None then Inl (HttpError (notFound ''Feature flag override was not found.''))
          else Inr ((), db1\<lparr>pf_overrides := (pf_overrides db1)((key, organizationId) := None)\<rparr>))"

definition removeOverride :: "(rat \<Rightarrow> string) \<Rightarrow> string \<Rightarrow> string \<Rightarrow> api_request \<Rightarrow> platform_db \<Rightarrow> (api_error + unit) \<times> platform_db" where
  "removeOverride num_text param organizationParam req =
     asAdmin req (\<lambda>auth.
     guardH (flagKey param) (\<lambda>key.
     guardH (uuidValue (Some (JStr organizationParam)) ''organizationId'') (\<lambda>organizationId.
     guardH (objectValue (ar_body req) (Some [''expectedVersion'', ''changeReason''])) (\<lambda>body.
     guardH (expectedVersion num_text body) (\<lambda>version.
     guardH (stringValue (map_of body ''changeReason'') ''changeReason'' 500) (\<lambda>reason db.
       case saasTransaction (remove_override_transaction key version organizationId) db of
         (Inl e, db') \<Rightarrow> (Inl e, db')
       | (Inr _, db') \<Rightarrow> (Inr (), audit_platform req ''FEATURE_FLAG_OVERRIDE_REMOVED'' ''feature_flag'' key
           [(''organizationId'', JStr organizationId), (''previousVersion'', JNum (Fin (of_nat version))),
            (''changeReason'', JStr reason)] db')))))))"

section \<open>Data subject requests\<close>

definition requestStatus :: "json_object \<Rightarrow> (string \<times> data_request_status) checked" where
  "requestStatus body =
     bindC (stringValue (map_of body ''status'') ''status'' 20) (\<lambda>status.
       case map_of [(''IN_PROGRESS'', IN_PROGRESS), (''COMPLETED'', COMPLETED), (''REJECTED'', REJECTED)] status of
         None \<Rightarrow> Inl (SaasHttpError 400 ''INVALID_STATUS'' ''Status is invalid.'' None)
       | Some s \<Rightarrow> Inr (status, s))"

definition actionable :: "string \<Rightarrow> data_request_row \<Rightarrow> bool" where
  "actionable requestId r \<longleftrightarrow> dq_id r = requestId \<and> dq_status r \<in> {REQUESTED, IN_PROGRESS}"

definition decided :: "int \<Rightarrow> string \<Rightarrow> data_request_status \<Rightarrow> string option \<Rightarrow> data_request_row \<Rightarrow> data_request_row" where
  "decided now adminId status reason r =
     r\<lparr>dq_status := status, dq_assigned_to := Some adminId, dq_rejection_reason := reason,
       dq_completed_at := (if status \<in> {COMPLETED, REJECTED} then Some now else None)\<rparr>"

definition patchDataRequest :: "int \<Rightarrow> api_request \<Rightarrow> platform_db \<Rightarrow> (api_error + unit) \<times> platform_db" where
  "patchDataRequest now req =
     asAdmin req (\<lambda>auth.
     guardH (uuidValue (Some (JStr (ar_params_id req))) ''id'') (\<lambda>requestId.
     guardH (objectValue (ar_body req) (Some [''status'', ''rejectionReason''])) (\<lambda>body.
     guardH (requestStatus body) (\<lambda>(name, status).
     guardH (if status = REJECTED then map_sum id Some (stringValue (map_of body ''rejectionReason'') ''rejectionReason'' 1000)
             else Inr None) (\<lambda>reason db.
       if \<not> list_ex (actionable requestId) (ad_data_requests (pf_accounts db))
       then (Inl (HttpError (SaasHttpError 409 ''DATA_REQUEST_NOT_ACTIONABLE'' ''Data request was not found or is already final.'' None)), db)
       else (Inr (), audit_platform req ''DATA_SUBJECT_REQUEST_STATUS_CHANGED'' ''data_subject_request'' requestId [(''status'', JStr name)]
               (db\<lparr>pf_accounts := (pf_accounts db)\<lparr>ad_data_requests := update_where (actionable requestId)
                 (decided now (au_userId auth) status reason) (ad_data_requests (pf_accounts db))\<rparr>\<rparr>)))))))"

section \<open>Refunds\<close>

text \<open>The owner of an organisation that joined first, with the e-mail address of the user.\<close>

definition owner_email :: "string \<Rightarrow> platform_db \<Rightarrow> string option" where
  "owner_email organizationId db =
     (case List.map_filter (\<lambda>m. if mb_organization_id m = organizationId \<and> mb_role m = OWNER
                                 then map_option us_email (find (\<lambda>u. us_id u = mb_user_id m) (ad_users (pf_accounts db))) else None)
             (sd_memberships (ad_saas (pf_accounts db))) of
        [] \<Rightarrow> None | email # _ \<Rightarrow> Some email)"

definition holds_money :: "refund_row \<Rightarrow> bool" where
  "holds_money r \<longleftrightarrow> rf_status r \<in> {RefundRequested, RefundPending, RefundSucceeded}"

definition reserved_total :: "string \<Rightarrow> refund_row list \<Rightarrow> nat" where
  "reserved_total paymentId rows =
     sum_list (map rf_amount_kopecks (filter (\<lambda>r. rf_provider_payment_id r = paymentId \<and> holds_money r) rows))"

definition new_refund :: "int \<Rightarrow> payment_row \<Rightarrow> string \<Rightarrow> string \<Rightarrow> refund_row" where
  "new_refund now payment key reason =
     \<lparr>rf_organization_id = pm_organization_id payment, rf_idempotency_key = key, rf_reason = reason, rf_created_at = now,
      rf_provider_refund_id = None, rf_provider_payment_id = pm_provider_payment_id payment, rf_status = RefundRequested,
      rf_amount_kopecks = pm_amount_kopecks payment, rf_lifecycle_applied_at = None, rf_reconcile_after = None,
      rf_reconciliation_attempts = 0\<rparr>"

text \<open>The successful payment with an identifier, and the address of its owner.\<close>

definition refundable :: "billing_env \<Rightarrow> string \<Rightarrow> platform_db \<Rightarrow> (payment_row \<times> string) option" where
  "refundable E paymentId db =
     (case find (\<lambda>p. be_payment_id E (pm_provider_payment_id p) = paymentId \<and> pm_status p = Succeeded) (bd_payments (billing db)) of
        None \<Rightarrow> None
      | Some p \<Rightarrow> map_option (Pair p) (owner_email (pm_organization_id p) db))"

definition refund_of_key :: "string \<Rightarrow> string \<Rightarrow> refund_row \<Rightarrow> bool" where
  "refund_of_key organizationId key r \<longleftrightarrow> rf_organization_id r = organizationId \<and> rf_idempotency_key r = key"

definition reserve_refund :: "billing_env \<Rightarrow> int \<Rightarrow> string \<Rightarrow> string \<Rightarrow> string \<Rightarrow> platform_db \<Rightarrow> api_error + (refund_row \<times> string) \<times> platform_db" where
  "reserve_refund E now paymentId key reason db =
     (case refundable E paymentId db of
        None \<Rightarrow> Inl (HttpError (notFound ''Successful payment was not found.''))
      | Some (payment, email) \<Rightarrow>
          (case find (refund_of_key (pm_organization_id payment) key) (bd_refunds (billing db)) of
             Some existing \<Rightarrow>
               if rf_provider_payment_id existing \<noteq> pm_provider_payment_id payment
               then Inl (HttpError (SaasHttpError 409 ''IDEMPOTENCY_KEY_REUSED'' ''Idempotency key belongs to another payment.'' None))
               else Inr ((existing, email), db)
           | None \<Rightarrow>
               if reserved_total (pm_provider_payment_id payment) (bd_refunds (billing db)) > 0
               then Inl (HttpError (SaasHttpError 409 ''PAYMENT_ALREADY_REFUNDED'' ''A full refund is already reserved or completed.'' None))
               else Inr ((new_refund now payment key reason, email),
                      set_billing ((billing db)\<lparr>bd_refunds := bd_refunds (billing db) @ [new_refund now payment key reason]\<rparr>) db)))"

text \<open>What the provider answered is stored under the key; its identifier of a refund is unique.\<close>

definition answer_refund :: "billing_env \<Rightarrow> int \<Rightarrow> string \<Rightarrow> string \<Rightarrow> provider_refund \<Rightarrow> platform_db \<Rightarrow> api_error + unit \<times> platform_db" where
  "answer_refund E now organizationId key refund db =
     (if \<exists>r \<in> set (bd_refunds (billing db)). \<not> refund_of_key organizationId key r \<and> rf_provider_refund_id r = Some (yr_id refund)
      then Inl (DbError unique_violation)
      else Inr ((), set_billing (applyRefundLifecycle now (yoo_refund.truncate refund)
             ((billing db)\<lparr>bd_refunds := update_where (refund_of_key organizationId key)
                (\<lambda>r. r\<lparr>rf_provider_refund_id := Some (yr_id refund), rf_status := yr_status refund,
                       rf_reconcile_after := (if yr_status refund = RefundPending
                         then Some (now + minutes (bc_reconciliationMinutes (be_config E))) else None)\<rparr>) (bd_refunds (billing db))\<rparr>)) db))"

definition refundPayment :: "billing_env \<Rightarrow> int \<Rightarrow> api_request \<Rightarrow> platform_db \<Rightarrow> (api_error + string) \<times> platform_db" where
  "refundPayment E now req =
     asAdmin req (\<lambda>auth.
     guardH (uuidValue (Some (JStr (ar_params_id req))) ''id'') (\<lambda>paymentId.
     guardH (idempotencyKey req) (\<lambda>key.
     guardH (objectValue (ar_body req) (Some [''reason''])) (\<lambda>body.
     guardH (stringValue (map_of body ''reason'') ''reason'' 500) (\<lambda>reason db.
       case saasTransaction (reserve_refund E now paymentId key reason) db of
         (Inl e, db1) \<Rightarrow> (Inl e, db1)
       | (Inr (row, email), db1) \<Rightarrow>
           guardH (be_create_refund E (rf_provider_payment_id row) (amountValue (rf_amount_kopecks row)) email key (rf_reason row)) (\<lambda>refund db1.
             case saasTransaction (answer_refund E now (rf_organization_id row) key refund) db1 of
               (Inl e, db2) \<Rightarrow> (Inl e, db2)
             | (Inr _, db2) \<Rightarrow>
                 (Inr (yr_id refund), audit_platform req ''PAYMENT_REFUND_REQUESTED'' ''payment'' paymentId
                    [(''refundId'', JStr (yr_id refund)), (''reason'', JStr (rf_reason row))] db2)) db1)))))"

end
