(* ===== verification/Billing_Flow.thy ===== *)
theory Billing_Flow
  imports Billing_Router Account_Security
begin

text \<open>
  Properties of the billing requests: the amounts, what a notification may change, that it is applied once, and
  the way from the checkout to the plan.
\<close>

section \<open>Amounts\<close>

lemma digit_is_no_point: "is_digit c \<Longrightarrow> c \<noteq> CHR ''.''"
  by (auto simp: is_digit_def)

lemma read_nat_two: "read_nat (s @ [a, b]) = 100 * read_nat s + 10 * (of_char a - 48) + (of_char b - 48)"
  by (simp add: read_nat_def)

lemma kopecks_amountValue [simp]: "kopecks (amountValue n) = Inr n"
proof -
  let ?a = "digit_char (n mod 100 div 10)" and ?b = "digit_char (n mod 10)"
  have small: "n mod 100 div 10 < 10" "n mod 10 < 10" by auto
  have digits: "is_digit ?a" "is_digit ?b" using small by simp_all
  have point: "CHR ''.'' \<notin> set (show_nat (n div 100))" using show_nat_is_digit digit_is_no_point by blast
  have "split_on CHR ''.'' (amountValue n) = [show_nat (n div 100), [?a, ?b]]"
    using point digits digit_is_no_point by (simp add: amountValue_def split_on_append_sep split_on_no_sep)
  moreover have "show_nat (n div 100) \<noteq> []" by (subst show_nat.simps) simp
  moreover have "list_all is_digit (show_nat (n div 100))" by (auto simp: list_all_iff show_nat_is_digit)
  moreover have "read_nat (show_nat (n div 100) @ [?a, ?b]) = n" 
  proof -
    have "n mod 10 = n mod 100 mod 10" by (simp add: mod_mod_cancel)
    then show ?thesis using small div_mult_mod_eq [of n 100] div_mult_mod_eq [of "n mod 100" 10] by (simp add: read_nat_two)
  qed
  ultimately show ?thesis using digits by (simp add: kopecks_def)
qed

section \<open>Events\<close>

lemma set_billing_simps [simp]:
  "sd_billing (ad_saas (pf_accounts (set_billing b db))) = b" "pf_billing_events (set_billing b db) = pf_billing_events db"
  "set_billing (billing db) db = db"
  by (simp_all add: set_billing_def set_saas_def)

lemma once_known: "e \<in> set (pf_billing_events db) \<Longrightarrow> once e work db = db"
  by (simp add: once_def)

lemma once_recorded: "e \<in> set (pf_billing_events (once e work db))"
  by (simp add: once_def)

lemma payment_webhook_Inr:
  assumes "payment_webhook E now eventType i db = (Inr (), db')"
  shows "\<exists>payment. be_get_payment E i = Inr payment \<and> eventType @ '':'' @ yp_id payment \<in> set (pf_billing_events db')"
  using assms unfolding payment_webhook_def guardH_Inr
  by (auto split: option.split_asm if_split_asm simp: guardH_Inr once_recorded)

lemma refund_webhook_Inr:
  assumes "refund_webhook E now i db = (Inr (), db')"
  shows "\<exists>refund. be_get_refund E i = Inr refund \<and> ''refund.succeeded:'' @ yr_id refund \<in> set (pf_billing_events db')"
  using assms unfolding refund_webhook_def guardH_Inr
  by (auto split: option.split_asm simp: guardH_Inr once_recorded)

lemma payment_webhook_known:
  "be_get_payment E i = Inr payment \<Longrightarrow> eventType @ '':'' @ yp_id payment \<in> set (pf_billing_events db) \<Longrightarrow>
   snd (payment_webhook E now eventType i db) = db"
  by (auto simp: payment_webhook_def guardH_def once_known split: option.split sum.split)

lemma refund_webhook_known:
  "be_get_refund E i = Inr refund \<Longrightarrow> ''refund.succeeded:'' @ yr_id refund \<in> set (pf_billing_events db) \<Longrightarrow>
   snd (refund_webhook E now i db) = db"
  by (auto simp: refund_webhook_def guardH_def once_known split: option.split sum.split)

lemma webhook_cases:
  obtains (rejected) e where "\<And>now db. webhook E now body db = (Inl e, db)"
  | (refund) i where "\<And>now db. webhook E now body db = refund_webhook E now i db"
  | (payment) eventType i where "\<And>now db. webhook E now body db = payment_webhook E now eventType i db"
proof -
  define entries where "entries = (case body of Some (JObj es) \<Rightarrow> es | _ \<Rightarrow> [])"
  show thesis
  proof (cases "body = None \<or> body = Some JNull")
    case True
    then have "webhook E now body db = (Inl (DbError ''TypeError''), db)" for now db by (auto simp: webhook_def)
    then show thesis by (rule rejected)
  next
    case False
    then have run: "webhook E now body db = guardH (checked_notification E entries) (\<lambda>(eventType, i).
        if eventType = ''refund.succeeded'' then refund_webhook E now i else payment_webhook E now eventType i) db" for now db
      by (auto simp: webhook_def entries_def split: option.split json.split)
    show thesis
    proof (cases "checked_notification E entries")
      case (Inl e)
      then have "webhook E now body db = (Inl (HttpError e), db)" for now db by (simp add: run guardH_def)
      then show thesis by (rule rejected)
    next
      case (Inr p)
      obtain eventType i where "p = (eventType, i)" by (cases p)
      with Inr have "webhook E now body db =
          (if eventType = ''refund.succeeded'' then refund_webhook E now i else payment_webhook E now eventType i) db" for now db
        by (simp add: run guardH_def)
      then show thesis using refund payment by (cases "eventType = ''refund.succeeded''") auto
    qed
  qed
qed

text \<open>
  C26: A notification of the provider is applied once: whatever happened since it was accepted, delivering it again
  changes no table, be it answered as received or refused.
\<close>
theorem notification_applied_once:
  assumes "webhook E now body db = (Inr (), db')" and "set (pf_billing_events db') \<subseteq> set (pf_billing_events later)"
  shows "snd (webhook E now' body later) = later"
proof (rule webhook_cases [of E body])
  fix e assume "\<And>now db. webhook E now body db = (Inl e, db)"
  then show ?thesis by simp
next
  fix i assume run: "\<And>now db. webhook E now body db = refund_webhook E now i db"
  with assms(1) obtain refund where "be_get_refund E i = Inr refund" "''refund.succeeded:'' @ yr_id refund \<in> set (pf_billing_events db')"
    using refund_webhook_Inr by metis
  with refund_webhook_known assms(2) run show ?thesis by auto
next
  fix eventType i assume run: "\<And>now db. webhook E now body db = payment_webhook E now eventType i db"
  with assms(1) obtain payment where "be_get_payment E i = Inr payment" "eventType @ '':'' @ yp_id payment \<in> set (pf_billing_events db')"
    using payment_webhook_Inr by metis
  with payment_webhook_known assms(2) run show ?thesis by auto
qed

section \<open>What a notification changes\<close>

lemma apply_success_others:
  "filter (\<lambda>s. su_organization_id s \<noteq> org) (apply_success add_month now org pid method rows) = filter (\<lambda>s. su_organization_id s \<noteq> org) rows"
  by (auto simp: apply_success_def new_subscription_def renewed_subscription_def intro!: filter_update_where_out)

lemma lifecycle_others:
  "filter (\<lambda>s. su_organization_id s \<noteq> lp_organization_id local)
     (bd_subscriptions (applyPaymentLifecycle add_month config now local payment db)) =
   filter (\<lambda>s. su_organization_id s \<noteq> lp_organization_id local) (bd_subscriptions db)"
  by (auto simp: applyPaymentLifecycle_def Let_def apply_success_others failed_subscription_def intro!: filter_update_where_out)

lemma lifecycle_changes:
  "bd_subscriptions (applyPaymentLifecycle add_month config now local payment db) \<noteq> bd_subscriptions db \<Longrightarrow>
   yp_status payment = Succeeded \<and> yp_paid payment \<or> yp_status payment = Canceled \<and> lp_kind local = RENEWAL"
  by (auto simp: applyPaymentLifecycle_def Let_def split: if_split_asm)

lemma refund_others:
  "filter (\<lambda>s. su_last_payment_id s \<noteq> Some (yr_payment_id refund)) (bd_subscriptions (applyRefundLifecycle now refund db)) =
   filter (\<lambda>s. su_last_payment_id s \<noteq> Some (yr_payment_id refund)) (bd_subscriptions db)"
  by (auto simp: applyRefundLifecycle_def Let_def refunded_subscription_def intro!: filter_update_where_out)

lemma payment_matches_Inr:
  "payment_matches local payment = Inr () \<longleftrightarrow>
     map_of (yp_metadata payment) ''organizationId'' = Some (pm_organization_id local) \<and>
     map_of (yp_metadata payment) ''kind'' = Some (payment_kind_name (pm_kind local)) \<and> yp_currency payment = ''RUB'' \<and>
     kopecks (yp_value payment) = Inr (pm_amount_kopecks local)"
  by (auto simp: payment_matches_def Let_def bindC_def split: sum.split)

lemma refund_matches_Inr:
  "refund_matches local refund = Inr () \<longleftrightarrow>
     yr_status refund = RefundSucceeded \<and> yr_payment_id refund = rf_provider_payment_id local \<and> yr_currency refund = ''RUB'' \<and>
     kopecks (yr_value refund) = Inr (rf_amount_kopecks local)"
  by (auto simp: refund_matches_def Let_def bindC_def split: sum.split)

lemma truncated [simp]:
  "yp_id (yoo_payment.truncate p) = yp_id p" "yp_status (yoo_payment.truncate p) = yp_status p"
  "yp_paid (yoo_payment.truncate p) = yp_paid p" "yr_payment_id (yoo_refund.truncate r) = yr_payment_id r"
  "yr_id (yoo_refund.truncate r) = yr_id r" "yr_status (yoo_refund.truncate r) = yr_status r"
  by (simp_all add: yoo_payment.truncate_def yoo_refund.truncate_def)

text \<open>The provider confirmed this payment of the organisation, at the price of its row; or this refund, at its amount.\<close>

definition confirmed_payment :: "billing_env \<Rightarrow> platform_db \<Rightarrow> string \<Rightarrow> bool" where
  "confirmed_payment E db organizationId \<longleftrightarrow>
     (\<exists>i payment. be_get_payment E i = Inr payment \<and>
        (\<exists>r \<in> set (bd_payments (billing db)). pm_provider_payment_id r = yp_id payment \<and> pm_organization_id r = organizationId \<and>
           map_of (yp_metadata payment) ''organizationId'' = Some organizationId \<and> kopecks (yp_value payment) = Inr (pm_amount_kopecks r) \<and>
           (yp_status payment = Succeeded \<and> yp_paid payment \<or> yp_status payment = Canceled \<and> pm_kind r = RENEWAL)))"

definition confirmed_refund :: "billing_env \<Rightarrow> platform_db \<Rightarrow> string \<Rightarrow> bool" where
  "confirmed_refund E db paymentId \<longleftrightarrow>
     (\<exists>i refund. be_get_refund E i = Inr refund \<and> yr_status refund = RefundSucceeded \<and> yr_payment_id refund = paymentId \<and>
        (\<exists>r \<in> set (bd_refunds (billing db)). rf_provider_refund_id r = Some (yr_id refund) \<and> rf_provider_payment_id r = paymentId \<and>
           kopecks (yr_value refund) = Inr (rf_amount_kopecks r)))"

abbreviation subscriptions_but :: "(subscription \<Rightarrow> bool) \<Rightarrow> platform_db \<Rightarrow> subscription list" where
  "subscriptions_but p db \<equiv> filter (\<lambda>s. \<not> p s) (bd_subscriptions (billing db))"

lemma once_subscriptions:
  "bd_subscriptions (billing (once e work db)) \<noteq> bd_subscriptions (billing db) \<Longrightarrow>
   bd_subscriptions (billing (once e work db)) = bd_subscriptions (work (billing db))"
  by (auto simp: once_def set_billing_def set_saas_def split: if_split_asm)

lemma payment_webhook_effect:
  assumes "payment_webhook E now eventType i db = (r, db')" and "db' \<noteq> db"
  shows "\<exists>payment row. be_get_payment E i = Inr payment \<and>
    find (\<lambda>r. pm_provider_payment_id r = yp_id payment) (bd_payments (billing db)) = Some row \<and> payment_matches row payment = Inr () \<and>
    db' = once (eventType @ '':'' @ yp_id payment) (applyPaymentLifecycle (be_add_month E) (be_config E) now (local_of row)
      (yoo_payment.truncate payment)) db"
proof (cases "be_get_payment E i")
  case (Inl e)
  with assms show ?thesis by (simp add: payment_webhook_def guardH_def)
next
  case (Inr payment)
  show ?thesis
  proof (cases "find (\<lambda>r. pm_provider_payment_id r = yp_id payment) (bd_payments (billing db))")
    case None
    with Inr assms show ?thesis by (simp add: payment_webhook_def guardH_def split: if_split_asm)
  next
    case (Some row)
    with Inr assms show ?thesis
      by (cases "payment_matches row payment") (simp_all add: payment_webhook_def guardH_def split: if_split_asm)
  qed
qed

lemma refund_webhook_effect:
  assumes "refund_webhook E now i db = (r, db')" and "db' \<noteq> db"
  shows "\<exists>refund row. be_get_refund E i = Inr refund \<and>
    find (\<lambda>r. rf_provider_refund_id r = Some (yr_id refund)) (bd_refunds (billing db)) = Some row \<and> refund_matches row refund = Inr () \<and>
    db' = once (''refund.succeeded:'' @ yr_id refund) (settle_refund now refund) db"
proof (cases "be_get_refund E i")
  case (Inl e)
  with assms show ?thesis by (simp add: refund_webhook_def guardH_def)
next
  case (Inr refund)
  show ?thesis
  proof (cases "find (\<lambda>r. rf_provider_refund_id r = Some (yr_id refund)) (bd_refunds (billing db))")
    case None
    with Inr assms show ?thesis by (simp add: refund_webhook_def guardH_def)
  next
    case (Some row)
    with Inr assms show ?thesis
      by (cases "refund_matches row refund") (simp_all add: refund_webhook_def guardH_def)
  qed
qed

lemma payment_webhook_changes:
  assumes "payment_webhook E now eventType i db = (r, db')" and "bd_subscriptions (billing db') \<noteq> bd_subscriptions (billing db)"
  shows "\<exists>org. confirmed_payment E db org \<and>
    subscriptions_but (\<lambda>s. su_organization_id s = org) db' = subscriptions_but (\<lambda>s. su_organization_id s = org) db"
proof -
  have "db' \<noteq> db" using assms(2) by auto
  then obtain payment row where answer: "be_get_payment E i = Inr payment"
    and row: "find (\<lambda>r. pm_provider_payment_id r = yp_id payment) (bd_payments (billing db)) = Some row"
    and matches: "payment_matches row payment = Inr ()"
    and db': "db' = once (eventType @ '':'' @ yp_id payment) (applyPaymentLifecycle (be_add_month E) (be_config E) now (local_of row)
      (yoo_payment.truncate payment)) db"
    using payment_webhook_effect [OF assms(1)] by blast
  have subs: "bd_subscriptions (billing db') =
      bd_subscriptions (applyPaymentLifecycle (be_add_month E) (be_config E) now (local_of row) (yoo_payment.truncate payment) (billing db))"
    using assms(2) unfolding db' by (rule once_subscriptions)
  with assms(2) lifecycle_changes [of "be_add_month E" "be_config E" now "local_of row" "yoo_payment.truncate payment" "billing db"]
  have "yp_status payment = Succeeded \<and> yp_paid payment \<or> yp_status payment = Canceled \<and> pm_kind row = RENEWAL"
    by (simp add: local_of_def)
  moreover from row have "row \<in> set (bd_payments (billing db))" "pm_provider_payment_id row = yp_id payment" by (auto simp: find_Some_iff)
  ultimately have "confirmed_payment E db (pm_organization_id row)"
    using matches answer by (auto simp: confirmed_payment_def payment_matches_Inr)
  with lifecycle_others [of "local_of row" "be_add_month E" "be_config E" now "yoo_payment.truncate payment" "billing db"] subs
  show ?thesis by (auto simp: local_of_def)
qed

lemma refund_webhook_changes:
  assumes "refund_webhook E now i db = (r, db')" and "bd_subscriptions (billing db') \<noteq> bd_subscriptions (billing db)"
  shows "\<exists>pid. confirmed_refund E db pid \<and>
    subscriptions_but (\<lambda>s. su_last_payment_id s = Some pid) db' = subscriptions_but (\<lambda>s. su_last_payment_id s = Some pid) db"
proof -
  have "db' \<noteq> db" using assms(2) by auto
  then obtain refund row where answer: "be_get_refund E i = Inr refund"
    and row: "find (\<lambda>r. rf_provider_refund_id r = Some (yr_id refund)) (bd_refunds (billing db)) = Some row"
    and matches: "refund_matches row refund = Inr ()"
    and db': "db' = once (''refund.succeeded:'' @ yr_id refund) (settle_refund now refund) db"
    using refund_webhook_effect [OF assms(1)] by blast
  have "bd_subscriptions (billing db') = bd_subscriptions (settle_refund now refund (billing db))"
    using assms(2) unfolding db' by (rule once_subscriptions)
  moreover from row have "row \<in> set (bd_refunds (billing db))" "rf_provider_refund_id row = Some (yr_id refund)" by (auto simp: find_Some_iff)
  then have "confirmed_refund E db (yr_payment_id refund)"
    using matches answer by (auto simp: confirmed_refund_def refund_matches_Inr)
  ultimately show ?thesis
    using refund_others [of "yoo_refund.truncate refund" now] by (auto simp: settle_refund_def)
qed


section \<open>From the checkout to the plan\<close>

text \<open>The notification of the provider about a payment that succeeded.\<close>

definition payment_succeeded :: "string \<Rightarrow> json" where
  "payment_succeeded i = JObj [(''event'', JStr ''payment.succeeded''), (''object'', JObj [(''id'', JStr i)])]"

lemma payment_succeeded_webhook:
  assumes "length i \<le> 128"
  shows "webhook E now (Some (payment_succeeded i)) db = payment_webhook E now ''payment.succeeded'' i db"
  using assms by (simp add: webhook_def payment_succeeded_def checked_notification_def event_name_def event_names_def object_id_def guardH_def Let_def)

text \<open>The provider tells of the payment it created: paid in full for the plan of this organisation.\<close>

definition paid_in_full :: "billing_env \<Rightarrow> string \<Rightarrow> provider_payment \<Rightarrow> bool" where
  "paid_in_full E organizationId payment \<longleftrightarrow>
     yp_status payment = Succeeded \<and> yp_paid payment \<and> yp_currency payment = ''RUB'' \<and>
     yp_value payment = amountValue (bc_priceKopecks (be_config E)) \<and>
     map_of (yp_metadata payment) ''organizationId'' = Some organizationId \<and> map_of (yp_metadata payment) ''kind'' = Some ''INITIAL''"

lemma new_checkout_row:
  assumes "new_checkout E A req auth key db = (Inr (i, url), db')"
    and "\<not> (\<exists>r \<in> set (bd_payments (billing db)). existing_checkout (au_organizationId auth) key r)"
  shows "\<exists>payment. bd_payments (billing db') = bd_payments (billing db) @ [checkout_row E (ap_now A) (au_organizationId auth) key payment url] \<and>
    yp_id payment = i \<and> (\<forall>r \<in> set (bd_payments (billing db)). pm_provider_payment_id r \<noteq> i) \<and> pf_billing_events db' = pf_billing_events db"
proof -
  from assms(1) obtain user where user: "find (\<lambda>u. us_id u = au_userId auth) (ad_users (pf_accounts db)) = Some user"
    by (cases "find (\<lambda>u. us_id u = au_userId auth) (ad_users (pf_accounts db))") (simp_all add: new_checkout_def)
  from assms(1) obtain payment where created: "be_create_payment E (au_organizationId auth) (us_email user) key
      (amountValue (bc_priceKopecks (be_config E))) = Inr payment"
    by (cases "be_create_payment E (au_organizationId auth) (us_email user) key (amountValue (bc_priceKopecks (be_config E)))")
       (simp_all add: new_checkout_def user guardH_def)
  let ?row = "\<lambda>url. checkout_row E (ap_now A) (au_organizationId auth) key payment url"
  have org: "pm_organization_id (?row u) = au_organizationId auth" "pm_idempotency_key (?row u) = key"
    "pm_provider_payment_id (?row u) = yp_id payment" for u
    by (simp_all add: checkout_row_def)
  from assms show ?thesis
    by (auto simp: new_checkout_def user created guardH_def insert_checkout_def org audit_platform_def audit_def writeAuditEvent_def
        set_billing_def set_saas_def split: option.split_asm list.split_asm if_split_asm)
qed

lemma checkout_row_stored:
  assumes "checkout E A req db = (Inr (i, url), db')" and "ar_auth req = Some auth" and "idempotencyKey req = Inr key"
    and "\<not> (\<exists>r \<in> set (bd_payments (billing db)). existing_checkout (au_organizationId auth) key r)"
  shows "\<exists>payment. bd_payments (billing db') = bd_payments (billing db) @ [checkout_row E (ap_now A) (au_organizationId auth) key payment url] \<and>
    yp_id payment = i \<and> (\<forall>r \<in> set (bd_payments (billing db)). pm_provider_payment_id r \<noteq> i) \<and> pf_billing_events db' = pf_billing_events db"
proof -
  have none: "find (existing_checkout (au_organizationId auth) key) (bd_payments (billing db)) = None"
    using assms(4) by (auto simp: find_None_iff)
  from assms(1) have "new_checkout E A req auth key db = (Inr (i, url), db')"
    unfolding checkout_def guardH_Inr by (auto simp: authContext_def assms(2,3) none)
  from new_checkout_row [OF this assms(4)] show ?thesis .
qed

lemma find_snoc: "\<forall>r \<in> set rows. \<not> p r \<Longrightarrow> p row \<Longrightarrow> find p (rows @ [row]) = Some row"
  by (induction rows) auto

text \<open>
  C25: A customer who checks out and pays gets what was paid for: when the provider confirms the payment it created,
  at the amount the checkout asked for, its notification is accepted and the organisation is on the plan PRO at
  every moment until a month after it.
\<close>
theorem paid_checkout_grants_pro:
  assumes "checkout E A req db = (Inr (i, url), db')" and "ar_auth req = Some auth" and "idempotencyKey req = Inr key"
    and "\<not> (\<exists>r \<in> set (bd_payments (billing db)). existing_checkout (au_organizationId auth) key r)"
    and "be_get_payment E i = Inr payment" and "yp_id payment = i" and "paid_in_full E (au_organizationId auth) payment"
    and "length i \<le> 128" and "''payment.succeeded:'' @ i \<notin> set (pf_billing_events db)" and "mono (be_add_month E)" and "t < be_add_month E now"
  shows "\<exists>db''. webhook E now (Some (payment_succeeded i)) db' = (Inr (), db'') \<and> activePlan t (au_organizationId auth) (billing db'') = PRO"
proof -
  from checkout_row_stored [OF assms(1-4)] obtain row where rows: "bd_payments (billing db') = bd_payments (billing db) @ [row]"
    and row: "pm_provider_payment_id row = i" "pm_organization_id row = au_organizationId auth" "pm_kind row = INITIAL"
      "pm_amount_kopecks row = bc_priceKopecks (be_config E)" "pm_entitlement_applied_at row = None"
    and fresh: "\<forall>r \<in> set (bd_payments (billing db)). pm_provider_payment_id r \<noteq> i" and events: "pf_billing_events db' = pf_billing_events db"
    by (auto simp: checkout_row_def)
  have found: "find (\<lambda>r. pm_provider_payment_id r = i) (bd_payments (billing db')) = Some row"
    unfolding rows using fresh row(1) by (intro find_snoc) auto
  have matches: "payment_matches row payment = Inr ()"
    using assms(7) row by (simp add: payment_matches_Inr paid_in_full_def payment_kind_name_def)
  let ?lifecycle = "applyPaymentLifecycle (be_add_month E) (be_config E) now (local_of row) (yoo_payment.truncate payment)"
  have "webhook E now (Some (payment_succeeded i)) db' = (Inr (), once (''payment.succeeded:'' @ i) ?lifecycle db')"
    unfolding payment_succeeded_webhook [OF assms(8)]
    using assms(5-7) found matches by (simp add: payment_webhook_def guardH_def paid_in_full_def payment_status_name_def)
  moreover have "billing (once (''payment.succeeded:'' @ i) ?lifecycle db') = ?lifecycle (billing db')"
    using assms(9) events by (simp add: once_def set_billing_def set_saas_def)
  moreover have "unapplied (yp_id (yoo_payment.truncate payment)) (billing db')"
    using assms(6) row rows by (simp add: unapplied_def)
  with payment_grants_pro [of "be_add_month E" "yoo_payment.truncate payment" "billing db'" t now "local_of row" "be_config E"] assms(7,10,11)
  have "activePlan t (au_organizationId auth) (?lifecycle (billing db')) = PRO" by (simp add: paid_in_full_def local_of_def row(2))
  ultimately show ?thesis by simp
qed

section \<open>Findings\<close>

text \<open>
  A cancellation leaves nothing to renew, but it does not hold: a payment under way when the customer cancels that
  succeeds afterwards with a saved method switches the renewal on again.
\<close>

lemma cancelled_is_not_due:
  assumes "cancelSubscription req db = (Inr (), db')" and "ar_auth req = Some auth"
    and "s \<in> set (bd_subscriptions (billing db'))" and "su_organization_id s = au_organizationId auth"
  shows "\<not> su_auto_renew s \<and> \<not> due now s"
proof -
  from assms(1) have "bd_subscriptions (billing db') = update_where (\<lambda>s. su_organization_id s = au_organizationId auth)
      (\<lambda>s. s\<lparr>su_auto_renew := False, su_cancel_at_period_end := True, su_next_billing_at := None\<rparr>) (bd_subscriptions (billing db))"
    unfolding cancelSubscription_def guardH_Inr
    by (auto simp: authContext_def assms(2) audit_platform_def audit_def writeAuditEvent_def set_billing_def set_saas_def)
  with assms(3,4) show ?thesis by (auto simp: update_where_def due_def)
qed

lemma cancellation_is_undone:
  assumes "yp_status payment = Succeeded" and "yp_paid payment" and "yp_payment_method payment = Some (m, True)"
    and "unapplied (yp_id payment) db" and "s \<in> set (bd_subscriptions db)" and "su_organization_id s = lp_organization_id local"
  shows "\<exists>s' \<in> set (bd_subscriptions (applyPaymentLifecycle add_month config now local payment db)).
    su_organization_id s' = lp_organization_id local \<and> su_auto_renew s' \<and> \<not> su_cancel_at_period_end s' \<and> su_next_billing_at s' \<noteq> None"
proof -
  have "bd_subscriptions (applyPaymentLifecycle add_month config now local payment db) =
      apply_success add_month now (lp_organization_id local) (yp_id payment) (Some m) (bd_subscriptions db)"
    using deliver_subscriptions [of "yp_id payment" now local payment add_month config db] assms(1-4)
    by (simp add: deliver_def about_def paid_def saved_method_def)
  with assms(5,6) show ?thesis by (auto simp: apply_success_def update_where_ex renewed_subscription_def)
qed

text \<open>
  A checkout repeated under its key after the address of its first payment is gone pays with a payment that is not
  recorded: the notification about it is refused.
\<close>

lemma repeated_checkout_is_unknown:
  assumes "new_checkout E A req auth key db = (Inr (i, url), db')"
    and "r \<in> set (bd_payments (billing db))" and "existing_checkout (au_organizationId auth) key r"
    and "\<forall>r \<in> set (bd_payments (billing db)). pm_provider_payment_id r \<noteq> i"
    and "be_get_payment E i = Inr payment" and "yp_id payment = i" and "yp_status payment = Succeeded"
  shows "fst (payment_webhook E now ''payment.succeeded'' i db') =
    Inl (HttpError (SaasHttpError 404 ''PAYMENT_NOT_FOUND'' ''Payment is unknown.'' None))"
proof -
  from assms(1-3) have "bd_payments (billing db') = bd_payments (billing db)"
    by (auto simp: new_checkout_def guardH_def insert_checkout_def audit_platform_def audit_def writeAuditEvent_def checkout_row_def
        set_billing_def set_saas_def split: option.split_asm list.split_asm if_split_asm sum.split_asm)
  with assms(4) have "find (\<lambda>r. pm_provider_payment_id r = i) (bd_payments (billing db')) = None" by (auto simp: find_None_iff)
  with assms(5-7) show ?thesis by (simp add: payment_webhook_def guardH_def payment_status_name_def)
qed

section \<open>Concrete runs\<close>

definition sim_buyer :: auth_context where
  "sim_buyer = \<lparr>au_userId = ''u1'', au_organizationId = ''o1'', au_role = OWNER\<rparr>"

definition sim_checkout :: api_request where
  "sim_checkout = \<lparr>ar_auth = Some sim_buyer, ar_params_id = [], ar_body = None, ar_idempotency_key = Some ''request-1''\<rparr>"

definition sim_paid :: "payment_status \<Rightarrow> provider_payment" where
  "sim_paid status =
     \<lparr>yp_id = ''pay1'', yp_status = status, yp_paid = (status = Succeeded), yp_payment_method = None, yp_reason = None,
      yp_value = amountValue 99000, yp_currency = ''RUB'', yp_confirmation_url = Some ''url'',
      yp_metadata = [(''organizationId'', ''o1''), (''kind'', ''INITIAL'')]\<rparr>"

definition sim_billing_env :: billing_env where
  "sim_billing_env =
     \<lparr>be_config = sim_billing_config, be_plan_name = ''Pro'', be_add_month = (\<lambda>t. t + days 30), be_sha256 = (\<lambda>_. [0, 0, 0, 0]),
      be_string = (\<lambda>_. ''undefined''), be_get_payment = (\<lambda>_. Inr (sim_paid Succeeded)),
      be_get_refund = (\<lambda>_. Inl (SaasHttpError 502 [] [] None)), be_create_payment = (\<lambda>_ _ _ _. Inr (sim_paid Pending)),
      be_create_refund = (\<lambda>_ _ _ _ _. Inl (SaasHttpError 502 [] [] None)), be_payment_id = id\<rparr>"

definition sim_buyer_api :: api where
  "sim_buyer_api = sim_api\<lparr>ap_users := \<lambda>_. Some (ap_documents sim_api)\<rparr>"

definition sim_platform_db :: platform_db where
  "sim_platform_db =
     \<lparr>pf_accounts = sim_accounts [], pf_billing_events = [],
      pf_flags = [\<lparr>fl_key = ''billing_checkout'', fl_enabled = True, fl_rollout_percentage = 100, fl_client_visible = True,
        fl_override_enabled = None, fl_version = 1\<rparr>],
      pf_overrides = (\<lambda>_. None)\<rparr>"

lemma sim_platform_simps [simp]:
  "billing sim_platform_db = sim_billing_db 50" "ad_users (pf_accounts sim_platform_db) = [sim_account]"
  "pf_billing_events sim_platform_db = []" "bd_payments (sim_billing_db 50) = map (\<lambda>(i, n). sim_payment_row i n) [(''p1'', 1), (''p2'', 2), (''p3'', 3), (''p4'', 4)]"
  "bd_subscriptions (sim_billing_db 50) = [sim_subscription 50]"
  by (simp_all add: sim_platform_db_def sim_accounts_def sim_saas_db_def sim_billing_db_def)

lemma sim_checkout_run:
  "checkout sim_billing_env sim_buyer_api sim_checkout sim_platform_db =
     (Inr (''pay1'', ''url''), snd (checkout sim_billing_env sim_buyer_api sim_checkout sim_platform_db))"
proof -
  have key: "idempotencyKey sim_checkout = Inr ''request-1''"
    by (simp add: idempotencyKey_def sim_checkout_def trim_def is_space_def key_char_def)
  have feature: "requireFeature (be_sha256 sim_billing_env) (map flag_row.truncate (pf_flags sim_platform_db)) (pf_overrides sim_platform_db)
      ''billing_checkout'' (Some ''o1'') = Inr ()"
    by (simp add: requireFeature_def evaluateFeature_def decideFeature_def joined_flag_def sim_platform_db_def flag_row.truncate_def
        sim_billing_env_def rolloutBucket_def readUInt32BE_def)
  have checks: "billingAccess sim_checkout = Inr ()" "requireCurrentLegalConsent sim_buyer_api sim_checkout = Inr ()"
      "authContext sim_checkout = Inr sim_buyer" "ar_auth sim_checkout = Some sim_buyer"
    by (simp_all add: billingAccess_def requireCurrentLegalConsent_def authContext_def sim_checkout_def sim_buyer_def sim_buyer_api_def)
  have org: "au_organizationId sim_buyer = ''o1''" "au_userId sim_buyer = ''u1''" by (simp_all add: sim_buyer_def)
  have none: "find (existing_checkout ''o1'' ''request-1'') (bd_payments (billing sim_platform_db)) = None"
    by (simp add: existing_checkout_def sim_payment_row_def)
  have new: "new_checkout sim_billing_env sim_buyer_api sim_checkout sim_buyer ''request-1'' sim_platform_db =
      (Inr (''pay1'', ''url''), snd (new_checkout sim_billing_env sim_buyer_api sim_checkout sim_buyer ''request-1'' sim_platform_db))"
    by (simp add: new_checkout_def sim_account_def org guardH_def sim_billing_env_def sim_paid_def insert_checkout_def checkout_row_def
        existing_checkout_def sim_payment_row_def)
  have "checkout sim_billing_env sim_buyer_api sim_checkout sim_platform_db =
      new_checkout sim_billing_env sim_buyer_api sim_checkout sim_buyer ''request-1'' sim_platform_db"
    unfolding checkout_def using none by (simp add: guardH_def checks org key feature)
  then show ?thesis using new by (rule ssubst)
qed

theorem paid_checkout_grants_pro_witness:
  "\<exists>db''. webhook sim_billing_env 7 (Some (payment_succeeded ''pay1''))
      (snd (checkout sim_billing_env sim_buyer_api sim_checkout sim_platform_db)) = (Inr (), db'') \<and> activePlan 100 ''o1'' (billing db'') = PRO"
proof -
  have key: "idempotencyKey sim_checkout = Inr ''request-1''"
    by (simp add: idempotencyKey_def sim_checkout_def trim_def is_space_def key_char_def)
  have auth: "ar_auth sim_checkout = Some sim_buyer" "au_organizationId sim_buyer = ''o1''" by (simp_all add: sim_checkout_def sim_buyer_def)
  have fresh: "\<not> (\<exists>r \<in> set (bd_payments (billing sim_platform_db)). existing_checkout (au_organizationId sim_buyer) ''request-1'' r)"
    by (simp add: auth existing_checkout_def sim_payment_row_def)
  have paid: "be_get_payment sim_billing_env ''pay1'' = Inr (sim_paid Succeeded)" "yp_id (sim_paid Succeeded) = ''pay1''"
      "paid_in_full sim_billing_env (au_organizationId sim_buyer) (sim_paid Succeeded)"
    by (simp_all add: sim_billing_env_def sim_paid_def paid_in_full_def auth sim_billing_config_def)
  have month: "mono (be_add_month sim_billing_env)" "100 < be_add_month sim_billing_env 7" by (simp_all add: sim_billing_env_def monoI)
  show ?thesis
    using paid_checkout_grants_pro [OF sim_checkout_run auth(1) key fresh paid _ _ month] by (simp add: auth(2))
qed

definition sim_paid_db :: platform_db where
  "sim_paid_db = set_billing (sim_billing_db 50 \<lparr>bd_payments := [checkout_row sim_billing_env 5 ''o1'' ''request-1'' (sim_paid Pending) ''url'']\<rparr>)
     sim_platform_db"

lemma sim_paid_run:
  "webhook sim_billing_env 7 (Some (payment_succeeded ''pay1'')) sim_paid_db =
     (Inr (), snd (webhook sim_billing_env 7 (Some (payment_succeeded ''pay1'')) sim_paid_db))"
  "bd_subscriptions (billing (snd (webhook sim_billing_env 7 (Some (payment_succeeded ''pay1'')) sim_paid_db))) \<noteq>
     bd_subscriptions (billing sim_paid_db)"
proof -
  let ?row = "checkout_row sim_billing_env 5 ''o1'' ''request-1'' (sim_paid Pending) ''url''"
  have row: "find (\<lambda>r. pm_provider_payment_id r = yp_id (sim_paid Succeeded)) (bd_payments (billing sim_paid_db)) = Some ?row"
    by (simp add: sim_paid_db_def checkout_row_def sim_paid_def)
  have matches: "payment_matches ?row (sim_paid Succeeded) = Inr ()"
    by (simp add: payment_matches_Inr sim_paid_def checkout_row_def payment_kind_name_def sim_billing_env_def sim_billing_config_def)
  have payment: "be_get_payment sim_billing_env ''pay1'' = Inr (sim_paid Succeeded)" "yp_status (sim_paid Succeeded) = Succeeded"
      "yp_id (sim_paid Succeeded) = ''pay1''"
    by (simp_all add: sim_billing_env_def sim_paid_def)
  let ?lifecycle = "applyPaymentLifecycle (be_add_month sim_billing_env) (be_config sim_billing_env) 7 (local_of ?row) (yoo_payment.truncate (sim_paid Succeeded))"
  have run: "webhook sim_billing_env 7 (Some (payment_succeeded ''pay1'')) sim_paid_db = (Inr (), once ''payment.succeeded:pay1'' ?lifecycle sim_paid_db)"
    using row by (simp add: payment_succeeded_webhook payment_webhook_def guardH_def payment payment_status_name_def matches)
  then show "webhook sim_billing_env 7 (Some (payment_succeeded ''pay1'')) sim_paid_db =
     (Inr (), snd (webhook sim_billing_env 7 (Some (payment_succeeded ''pay1'')) sim_paid_db))" by simp
  have "length (bd_subscriptions (?lifecycle (billing sim_paid_db))) = 2" "length (bd_subscriptions (billing sim_paid_db)) = 1"
    by (simp_all add: applyPaymentLifecycle_def Let_def sim_paid_db_def checkout_row_def sim_paid_def update_where_def record_payment_def
        apply_success_def local_of_def sim_subscription_def yoo_payment.truncate_def)
  then have "bd_subscriptions (?lifecycle (billing sim_paid_db)) \<noteq> bd_subscriptions (billing sim_paid_db)" by force
  moreover have "pf_billing_events sim_paid_db = []" by (simp add: sim_paid_db_def)
  ultimately show "bd_subscriptions (billing (snd (webhook sim_billing_env 7 (Some (payment_succeeded ''pay1'')) sim_paid_db))) \<noteq>
     bd_subscriptions (billing sim_paid_db)"
    unfolding run by (simp add: once_def set_billing_def set_saas_def)
qed

theorem notification_applied_once_witness:
  "snd (webhook sim_billing_env 900 (Some (payment_succeeded ''pay1''))
      (snd (webhook sim_billing_env 7 (Some (payment_succeeded ''pay1'')) sim_paid_db))) =
    snd (webhook sim_billing_env 7 (Some (payment_succeeded ''pay1'')) sim_paid_db)"
  by (rule notification_applied_once [OF sim_paid_run(1) order_refl])


end
