(* ===== verification/Admin_Flow.thy ===== *)
theory Admin_Flow
  imports Admin_Router Billing_Flow
begin

text \<open>
  Properties of the administration: a payment is never refunded beyond its amount, a feature flag is never changed
  on the ground of a version that is gone, and the switch of the checkout stops it.
\<close>

section \<open>Refunds\<close>

definition refund_key :: "refund_row \<Rightarrow> string \<times> string \<times> string \<times> nat" where
  "refund_key r = (rf_organization_id r, rf_idempotency_key r, rf_provider_payment_id r, rf_amount_kopecks r)"

definition payment_key :: "payment_row \<Rightarrow> string \<times> nat" where
  "payment_key p = (pm_provider_payment_id p, pm_amount_kopecks p)"

definition live_for :: "string \<Rightarrow> refund_row \<Rightarrow> bool" where
  "live_for paymentId r \<longleftrightarrow> rf_provider_payment_id r = paymentId \<and> holds_money r"

text \<open>The constraints of the tables, and at most one refund that holds money for each payment.\<close>

definition refunds_ok :: "(string \<times> nat) list \<Rightarrow> refund_row list \<Rightarrow> bool" where
  "refunds_ok payments rows \<longleftrightarrow>
     distinct (map fst payments) \<and> (\<forall>p \<in> set payments. snd p > 0) \<and> distinct (map (\<lambda>r. (rf_organization_id r, rf_idempotency_key r)) rows) \<and>
     (\<forall>r \<in> set rows. (rf_provider_payment_id r, rf_amount_kopecks r) \<in> set payments) \<and>
     (\<forall>pid. length (filter (live_for pid) rows) \<le> 1)"

definition refund_inv :: "platform_db \<Rightarrow> bool" where
  "refund_inv db \<longleftrightarrow> refunds_ok (map payment_key (bd_payments (billing db))) (bd_refunds (billing db))"

text \<open>Rows that change without a refund that held no money beginning to hold some.\<close>

definition settled_from :: "refund_row \<Rightarrow> refund_row \<Rightarrow> bool" where
  "settled_from r r' \<longleftrightarrow> refund_key r' = refund_key r \<and> (holds_money r' \<longrightarrow> holds_money r)"

lemma settled_rows:
  assumes "list_all2 settled_from rows rows'"
  shows "map refund_key rows' = map refund_key rows" and "length (filter (live_for pid) rows') \<le> length (filter (live_for pid) rows)"
  using assms by (induction rows rows') (auto simp: settled_from_def live_for_def refund_key_def)

lemma refunds_ok_settled:
  assumes "refunds_ok payments rows" and "list_all2 settled_from rows rows'"
  shows "refunds_ok payments rows'"
proof -
  note same = settled_rows(1) [OF assms(2)]
  have "map (\<lambda>r. (rf_organization_id r, rf_idempotency_key r)) rows' = map (\<lambda>r. (rf_organization_id r, rf_idempotency_key r)) rows"
    using arg_cong [OF same, of "map (\<lambda>(a, b, c, d). (a, b))"] by (simp add: refund_key_def comp_def)
  moreover have "set (map (\<lambda>r. (rf_provider_payment_id r, rf_amount_kopecks r)) rows') = set (map (\<lambda>r. (rf_provider_payment_id r, rf_amount_kopecks r)) rows)"
    using arg_cong [OF same, of "\<lambda>xs. set (map (\<lambda>(a, b, c, d). (c, d)) xs)"] by (simp add: refund_key_def comp_def del: set_map)
  moreover have "length (filter (live_for pid) rows') \<le> 1" for pid
    using settled_rows(2) [OF assms(2), of pid] assms(1) by (auto simp: refunds_ok_def intro: order_trans)
  ultimately show ?thesis using assms(1) unfolding refunds_ok_def by (metis (no_types, lifting) image_iff image_set list.set_map)
qed

lemma settled_refl: "list_all2 settled_from rows rows"
  by (simp add: list.rel_refl settled_from_def)

lemma settled_trans: "list_all2 settled_from a b \<Longrightarrow> list_all2 settled_from b c \<Longrightarrow> list_all2 settled_from a c"
  by (rule list_all2_trans [of settled_from settled_from]) (auto simp: settled_from_def)

lemma settled_update: "(\<And>r. r \<in> set rows \<Longrightarrow> p r \<Longrightarrow> settled_from r (f r)) \<Longrightarrow> list_all2 settled_from rows (update_where p f rows)"
  by (auto simp: update_where_def list_all2_map2 settled_from_def intro!: list.rel_refl_strong)

lemma applyRefund_settles:
  "list_all2 settled_from (bd_refunds db) (bd_refunds (applyRefundLifecycle now refund db))"
  "bd_payments (applyRefundLifecycle now refund db) = bd_payments db"
  by (auto simp: applyRefundLifecycle_def Let_def settled_refl settled_from_def refund_key_def holds_money_def intro!: settled_update)

lemma refund_lifecycle_ok:
  "refunds_ok payments rows \<Longrightarrow> list_all2 settled_from rows (bd_refunds b) \<Longrightarrow>
   refunds_ok payments (bd_refunds (applyRefundLifecycle now refund b))"
  by (rule refunds_ok_settled [OF refunds_ok_settled applyRefund_settles(1)])

lemma applyPayment_keeps:
  "bd_refunds (applyPaymentLifecycle add_month config now local payment db) = bd_refunds db"
  "map payment_key (bd_payments (applyPaymentLifecycle add_month config now local payment db)) = map payment_key (bd_payments db)"
  by (simp_all add: applyPaymentLifecycle_def Let_def map_update_where payment_key_def record_payment_def)

subsection \<open>Reservation\<close>

lemma reserved_nothing:
  assumes "refunds_ok payments rows" and "reserved_total pid rows = 0"
  shows "filter (live_for pid) rows = []"
proof -
  have "rf_amount_kopecks r > 0" if "r \<in> set rows" for r using assms(1) that unfolding refunds_ok_def by (metis snd_conv)
  with assms(2) show ?thesis by (fastforce simp: reserved_total_def live_for_def filter_empty_conv)
qed

lemma refunds_ok_append:
  assumes "refunds_ok payments rows" and "reserved_total (rf_provider_payment_id row) rows = 0"
    and "find (refund_of_key (rf_organization_id row) (rf_idempotency_key row)) rows = None"
    and "(rf_provider_payment_id row, rf_amount_kopecks row) \<in> set payments"
  shows "refunds_ok payments (rows @ [row])"
proof -
  have "length (filter (live_for pid) (rows @ [row])) \<le> 1" for pid
    using assms(1) reserved_nothing [OF assms(1,2)] by (auto simp: refunds_ok_def live_for_def)
  moreover have "(rf_organization_id row, rf_idempotency_key row) \<notin> (\<lambda>r. (rf_organization_id r, rf_idempotency_key r)) ` set rows"
    using assms(3) by (auto simp: find_None_iff refund_of_key_def)
  ultimately show ?thesis using assms(1,4) by (auto simp: refunds_ok_def)
qed

lemma reserve_refund_ok:
  assumes "refund_inv db" and "reserve_refund E now paymentId key reason db = Inr ((row, email), db')"
  shows "refund_inv db' \<and> row \<in> set (bd_refunds (billing db')) \<and> rf_idempotency_key row = key"
proof -
  from assms(2) obtain payment where payment: "refundable E paymentId db = Some (payment, email)"
    by (cases "refundable E paymentId db") (auto simp: reserve_refund_def split: option.split_asm if_split_asm)
  then have stored: "payment \<in> set (bd_payments (billing db))"
    by (auto simp: refundable_def find_Some_iff split: option.split_asm)
  show ?thesis
  proof (cases "find (refund_of_key (pm_organization_id payment) key) (bd_refunds (billing db))")
    case (Some existing)
    with assms payment show ?thesis by (auto simp: reserve_refund_def find_Some_iff refund_of_key_def split: if_split_asm)
  next
    case None
    let ?row = "new_refund now payment key reason"
    from assms(2) payment None have none: "reserved_total (pm_provider_payment_id payment) (bd_refunds (billing db)) = 0" and row: "row = ?row"
      and db': "db' = set_billing ((billing db)\<lparr>bd_refunds := bd_refunds (billing db) @ [?row]\<rparr>) db"
      by (auto simp: reserve_refund_def split: if_split_asm)
    have fields: "rf_provider_payment_id ?row = pm_provider_payment_id payment" "rf_organization_id ?row = pm_organization_id payment"
      "rf_idempotency_key ?row = key" "rf_amount_kopecks ?row = pm_amount_kopecks payment" by (simp_all add: new_refund_def)
    have "refunds_ok (map payment_key (bd_payments (billing db))) (bd_refunds (billing db) @ [?row])"
      using assms(1) none None stored by (intro refunds_ok_append) (auto simp: refund_inv_def fields payment_key_def)
    then show ?thesis by (simp add: refund_inv_def db' row fields)
  qed
qed

subsection \<open>The provider and the steps\<close>

text \<open>
  What is relied on of the provider: a refund it has cancelled stays cancelled, whether it is asked for its status or,
  with the same idempotency key, for the same refund again.
\<close>

definition consistent_provider :: "billing_env \<Rightarrow> refund_row list \<Rightarrow> bool" where
  "consistent_provider E rows \<longleftrightarrow>
     (\<forall>i refund r. be_get_refund E i = Inr refund \<and> r \<in> set rows \<and> rf_provider_refund_id r = Some (yr_id refund) \<and>
        rf_status r = RefundCanceled \<longrightarrow> yr_status refund = RefundCanceled) \<and>
     (\<forall>pid a e key reason refund r. be_create_refund E pid a e key reason = Inr refund \<and> r \<in> set rows \<and> rf_provider_payment_id r = pid \<and>
        rf_idempotency_key r = key \<and> rf_status r = RefundCanceled \<longrightarrow> yr_status refund = RefundCanceled)"

lemma consistent_get: "consistent_provider E rows \<Longrightarrow> be_get_refund E i = Inr refund \<Longrightarrow> r \<in> set rows \<Longrightarrow>
    rf_provider_refund_id r = Some (yr_id refund) \<Longrightarrow> rf_status r = RefundCanceled \<Longrightarrow> yr_status refund = RefundCanceled"
  unfolding consistent_provider_def by blast

lemma consistent_create: "consistent_provider E rows \<Longrightarrow> be_create_refund E (rf_provider_payment_id r) a e (rf_idempotency_key r) reason = Inr refund \<Longrightarrow>
    r \<in> set rows \<Longrightarrow> rf_status r = RefundCanceled \<Longrightarrow> yr_status refund = RefundCanceled"
  unfolding consistent_provider_def by blast

inductive money_step :: "platform_db \<Rightarrow> platform_db \<Rightarrow> bool" where
  refund: "consistent_provider E (bd_refunds (billing db)) \<Longrightarrow> money_step db (snd (refundPayment E now req db))"
| notify: "consistent_provider E (bd_refunds (billing db)) \<Longrightarrow> money_step db (snd (webhook E now body db))"

lemma answer_refund_ok:
  assumes "refund_inv db" and "answer_refund E now org key refund db = Inr (x, db')" and "rf_organization_id row = org"
    and "row \<in> set (bd_refunds (billing db))" and "rf_idempotency_key row = key" and "rf_status row = RefundCanceled \<longrightarrow> yr_status refund = RefundCanceled"
  shows "refund_inv db'"
proof -
  let ?rows = "bd_refunds (billing db)"
  let ?f = "\<lambda>r. r\<lparr>rf_provider_refund_id := Some (yr_id refund), rf_status := yr_status refund,
      rf_reconcile_after := (if yr_status refund = RefundPending then Some (now + minutes (bc_reconciliationMinutes (be_config E))) else None)\<rparr>"
  have "r = row" if "r \<in> set ?rows" "refund_of_key org key r" for r
    using assms(1,3-5) that by (auto simp: refund_inv_def refunds_ok_def refund_of_key_def distinct_map dest: inj_onD)
  moreover have "settled_from row (?f row)"
    using assms(6) by (cases "rf_status row"; cases "yr_status refund") (simp_all add: settled_from_def refund_key_def holds_money_def)
  ultimately have "list_all2 settled_from ?rows (update_where (refund_of_key org key) ?f ?rows)"
    by (intro settled_update) metis
  moreover from assms(2) have "db' = set_billing (applyRefundLifecycle now (yoo_refund.truncate refund)
      ((billing db)\<lparr>bd_refunds := update_where (refund_of_key org key) ?f ?rows\<rparr>)) db"
    by (simp add: answer_refund_def split: if_split_asm)
  moreover have "refunds_ok (map payment_key (bd_payments (billing db))) ?rows" using assms(1) by (simp add: refund_inv_def)
  ultimately show ?thesis by (simp add: refund_inv_def applyRefund_settles(2) refund_lifecycle_ok)
qed

lemma refund_inv_audit [simp]: "refund_inv (audit_platform req a t i m db) = refund_inv db"
  by (simp add: refund_inv_def audit_platform_def audit_def writeAuditEvent_def)

lemma settle_refund_ok:
  assumes "refunds_ok payments (bd_refunds b)" and "\<And>r. r \<in> set (bd_refunds b) \<Longrightarrow> rf_provider_refund_id r = Some (yr_id refund) \<Longrightarrow> holds_money r"
  shows "refunds_ok payments (bd_refunds (settle_refund now refund b))" and "bd_payments (settle_refund now refund b) = bd_payments b"
proof -
  have "list_all2 settled_from (bd_refunds b) (update_where (\<lambda>r. rf_provider_refund_id r = Some (yr_id refund))
      (\<lambda>r. r\<lparr>rf_status := yr_status refund, rf_reconcile_after := None\<rparr>) (bd_refunds b))"
    using assms(2) by (intro settled_update) (auto simp: settled_from_def refund_key_def)
  then show "refunds_ok payments (bd_refunds (settle_refund now refund b))"
    unfolding settle_refund_def by (intro refund_lifecycle_ok [OF assms(1)]) simp
  show "bd_payments (settle_refund now refund b) = bd_payments b" by (simp add: settle_refund_def applyRefund_settles(2))
qed

lemma guardH_state: "(\<And>x. c = Inr x \<Longrightarrow> P (snd (k x db))) \<Longrightarrow> P db \<Longrightarrow> P (snd (guardH c k db))"
  by (cases c) (simp_all add: guardH_def)

lemma asAdmin_state: "(\<And>auth. P (snd (k auth db))) \<Longrightarrow> P db \<Longrightarrow> P (snd (asAdmin req k db))"
  by (simp add: asAdmin_def guardH_def split: sum.split)

text \<open>A reservation leaves the refunds that were there, and adds none that is cancelled.\<close>

lemma reserve_refund_rows:
  assumes "reserve_refund E now paymentId key reason db = Inr ((row, email), db')"
  shows "r \<in> set (bd_refunds (billing db')) \<Longrightarrow> rf_status r = RefundCanceled \<Longrightarrow> r \<in> set (bd_refunds (billing db))"
  using assms by (auto simp: reserve_refund_def new_refund_def split: option.split_asm if_split_asm)

lemma refundPayment_ok:
  assumes "refund_inv db" and "consistent_provider E (bd_refunds (billing db))"
  shows "refund_inv (snd (refundPayment E now req db))"
  unfolding refundPayment_def
proof (intro asAdmin_state [where P = refund_inv] guardH_state [where P = refund_inv])
  fix auth paymentId key body reason
  show "refund_inv (snd (case saasTransaction (reserve_refund E now paymentId key reason) db of
         (Inl e, db1) \<Rightarrow> (Inl e, db1)
       | (Inr (row, email), db1) \<Rightarrow>
           guardH (be_create_refund E (rf_provider_payment_id row) (amountValue (rf_amount_kopecks row)) email key (rf_reason row)) (\<lambda>refund db1.
             case saasTransaction (answer_refund E now (rf_organization_id row) key refund) db1 of
               (Inl e, db2) \<Rightarrow> (Inl e, db2)
             | (Inr _, db2) \<Rightarrow>
                 (Inr (yr_id refund), audit_platform req ''PAYMENT_REFUND_REQUESTED'' ''payment'' paymentId
                    [(''refundId'', JStr (yr_id refund)), (''reason'', JStr (rf_reason row))] db2)) db1))"
  proof (cases "reserve_refund E now paymentId key reason db")
    case (Inl e)
    then show ?thesis using assms(1) by (simp add: saasTransaction_def)
  next
    case (Inr p)
    obtain row email db1 where p: "p = ((row, email), db1)" by (metis prod.exhaust)
    note reserved = reserve_refund_ok [OF assms(1) Inr [unfolded p]]
    have answered: "refund_inv (snd (saasTransaction (answer_refund E now (rf_organization_id row) key refund) db1))"
      if created: "be_create_refund E (rf_provider_payment_id row) a e key (rf_reason row) = Inr refund" for a e refund
    proof (cases "answer_refund E now (rf_organization_id row) key refund db1")
      case (Inl x)
      with reserved show ?thesis by (simp add: saasTransaction_def)
    next
      case (Inr q)
      have "rf_status row = RefundCanceled \<longrightarrow> yr_status refund = RefundCanceled"
        using reserve_refund_rows [OF \<open>reserve_refund E now paymentId key reason db = Inr p\<close> [unfolded p], of row] reserved
          consistent_create [OF assms(2), of row] created by auto
      with answer_refund_ok [of db1 E now "rf_organization_id row" key refund "fst q" "snd q" row] Inr reserved
      show ?thesis by (cases q) (simp add: saasTransaction_def)
    qed
    have first: "saasTransaction (reserve_refund E now paymentId key reason) db = (Inr (row, email), db1)"
      by (simp add: saasTransaction_Inr Inr p)
    show ?thesis
    proof (cases "be_create_refund E (rf_provider_payment_id row) (amountValue (rf_amount_kopecks row)) email key (rf_reason row)")
      case (Inl e)
      with reserved show ?thesis by (simp add: first guardH_def)
    next
      case (Inr refund)
      with answered [OF Inr] show ?thesis
        by (cases "saasTransaction (answer_refund E now (rf_organization_id row) key refund) db1")
           (simp add: first guardH_def split: sum.split)
    qed
  qed
qed (rule assms(1))+

lemma refund_inv_once:
  assumes "refund_inv db" and "map payment_key (bd_payments (work (billing db))) = map payment_key (bd_payments (billing db))"
    and "refunds_ok (map payment_key (bd_payments (billing db))) (bd_refunds (work (billing db)))"
  shows "refund_inv (once e work db)"
  using assms by (simp add: once_def refund_inv_def set_billing_def set_saas_def)

lemma webhook_refunds_ok:
  assumes "refund_inv db" and "consistent_provider E (bd_refunds (billing db))"
  shows "refund_inv (snd (webhook E now body db))"
proof (rule webhook_cases [of E body])
  fix e assume "\<And>now db. webhook E now body db = (Inl e, db)"
  with assms(1) show ?thesis by simp
next
  fix i assume run: "\<And>now db. webhook E now body db = refund_webhook E now i db"
  show ?thesis
  proof (cases "snd (refund_webhook E now i db) = db")
    case False
    then obtain refund row where answer: "be_get_refund E i = Inr refund" and matches: "refund_matches row refund = Inr ()"
      and db': "snd (refund_webhook E now i db) = once (''refund.succeeded:'' @ yr_id refund) (settle_refund now refund) db"
      using refund_webhook_effect [of E now i db "fst (refund_webhook E now i db)" "snd (refund_webhook E now i db)"] by auto
    from matches have "yr_status refund = RefundSucceeded" by (simp add: refund_matches_Inr)
    then have "holds_money r" if "r \<in> set (bd_refunds (billing db))" "rf_provider_refund_id r = Some (yr_id refund)" for r
      using consistent_get [OF assms(2) answer that] by (cases "rf_status r") (simp_all add: holds_money_def)
    with settle_refund_ok [of _ "billing db" refund now] assms(1) show ?thesis
      unfolding run db' by (intro refund_inv_once) (simp_all add: refund_inv_def)
  qed (use run assms(1) in simp)
next
  fix eventType i assume run: "\<And>now db. webhook E now body db = payment_webhook E now eventType i db"
  show ?thesis
  proof (cases "snd (payment_webhook E now eventType i db) = db")
    case False
    then obtain payment :: provider_payment and row where "snd (payment_webhook E now eventType i db) = once (eventType @ '':'' @ yp_id payment)
        (applyPaymentLifecycle (be_add_month E) (be_config E) now (local_of row) (yoo_payment.truncate payment)) db"
      using payment_webhook_effect [OF prod.collapse [symmetric] False] by blast
    moreover from assms(1) have "refunds_ok (map payment_key (bd_payments (billing db))) (bd_refunds (billing db))" by (simp add: refund_inv_def)
    ultimately show ?thesis unfolding run using assms(1) by (metis refund_inv_once applyPayment_keeps)
  qed (use run assms(1) in simp)
qed

lemma money_step_inv: "money_step db db' \<Longrightarrow> refund_inv db \<Longrightarrow> refund_inv db'"
  by (induction rule: money_step.induct) (simp_all add: refundPayment_ok webhook_refunds_ok)

lemma at_most_one: "length (filter p rows) \<le> 1 \<Longrightarrow> (\<And>r. r \<in> set rows \<Longrightarrow> p r \<Longrightarrow> h r = n) \<Longrightarrow> sum_list (map h (filter p rows)) \<le> (n :: nat)"
  by (cases "filter p rows") (auto simp: filter_eq_Cons_iff)


section \<open>Feature flags\<close>

datatype flag_event =
    PatchFlag string api_request
  | SetOverride string string api_request
  | RemoveOverride string string api_request

definition serve_flag :: "(rat \<Rightarrow> string) \<Rightarrow> flag_event \<Rightarrow> platform_db \<Rightarrow> (api_error + unit) \<times> platform_db" where
  "serve_flag num_text ev =
     (case ev of
        PatchFlag param req \<Rightarrow> patchFlag num_text param req
      | SetOverride param organization req \<Rightarrow> setOverride num_text param organization req
      | RemoveOverride param organization req \<Rightarrow> removeOverride num_text param organization req)"

text \<open>The flag and the version a request names.\<close>

definition flag_param :: "flag_event \<Rightarrow> string" where
  "flag_param ev = (case ev of PatchFlag param _ \<Rightarrow> param | SetOverride param _ _ \<Rightarrow> param | RemoveOverride param _ _ \<Rightarrow> param)"

definition flag_body :: "flag_event \<Rightarrow> json option" where
  "flag_body ev = (case ev of PatchFlag _ req \<Rightarrow> ar_body req | SetOverride _ _ req \<Rightarrow> ar_body req | RemoveOverride _ _ req \<Rightarrow> ar_body req)"

definition names :: "(rat \<Rightarrow> string) \<Rightarrow> flag_event \<Rightarrow> string \<Rightarrow> nat \<Rightarrow> bool" where
  "names num_text ev key version \<longleftrightarrow>
     flagKey (flag_param ev) = Inr key \<and> (\<exists>body. flag_body ev = Some (JObj body) \<and> expectedVersion num_text body = Inr version)"

lemma objectValue_Some: "objectValue (Some (JObj body)) allowed = Inr b \<Longrightarrow> b = body"
  by (auto simp: objectValue_def Let_def split: option.split_asm if_split_asm)

lemma objectValue_object: "objectValue v allowed = Inr b \<Longrightarrow> v = Some (JObj b)"
  by (auto simp: objectValue_def Let_def split: option.split_asm json.split_asm if_split_asm)

text \<open>A step on the flags: the flags of one key and version, if there are any, get the next version.\<close>

definition next_version :: "string \<Rightarrow> nat \<Rightarrow> stored_flag list \<Rightarrow> stored_flag list \<Rightarrow> bool" where
  "next_version key version fs fs' \<longleftrightarrow>
     (\<exists>g. fs' = update_where (flag_at key version) g fs \<and> (\<forall>f. fl_key (g f) = fl_key f \<and> fl_version (g f) = fl_version f + 1)) \<and>
     list_ex (flag_at key version) fs"

lemma bump_flag_Inr: "bump_flag key version message db = Inr (x, db') \<Longrightarrow> next_version key version (pf_flags db) (pf_flags db')"
  by (auto simp: bump_flag_def next_version_def split: if_split_asm)

lemma audit_platform_simps [simp]:
  "pf_flags (audit_platform req a t i m db) = pf_flags db" "pf_overrides (audit_platform req a t i m db) = pf_overrides db"
  by (simp_all add: audit_platform_def)

lemma asAdmin_Inr: "asAdmin req k db = (Inr y, db') \<Longrightarrow> \<exists>auth. k auth db = (Inr y, db')"
  unfolding asAdmin_def guardH_Inr by blast

lemma override_transactions_Inr:
  "override_transaction key version organizationId enabled db = Inr (x, db') \<Longrightarrow> next_version key version (pf_flags db) (pf_flags db')"
  "remove_override_transaction key version organizationId db = Inr (x, db') \<Longrightarrow> next_version key version (pf_flags db) (pf_flags db')"
  by (auto simp: override_transaction_def remove_override_transaction_def split: sum.split_asm prod.split_asm if_split_asm
      dest!: bump_flag_Inr)

lemma transaction_Inr:
  "(case saasTransaction work db of (Inl e, d) \<Rightarrow> (Inl e, d) | (Inr x, d) \<Rightarrow> (Inr y, f d)) = (Inr z, db') \<longleftrightarrow>
   (\<exists>x d. work db = Inr (x, d) \<and> z = y \<and> db' = f d)"
  by (cases "work db") (auto simp: saasTransaction_def)

lemma patchFlag_Inr:
  "patchFlag num_text param req db = (Inr (), db') \<Longrightarrow>
   \<exists>key body version. flagKey param = Inr key \<and> ar_body req = Some (JObj body) \<and> expectedVersion num_text body = Inr version \<and>
     next_version key version (pf_flags db) (pf_flags db')"
  unfolding patchFlag_def
  by (drule asAdmin_Inr)
     (force simp: guardH_Inr next_version_def dest!: objectValue_object split: if_split_asm)

lemma setOverride_Inr:
  "setOverride num_text param organization req db = (Inr (), db') \<Longrightarrow>
   \<exists>key body version. flagKey param = Inr key \<and> ar_body req = Some (JObj body) \<and> expectedVersion num_text body = Inr version \<and>
     next_version key version (pf_flags db) (pf_flags db')"
  unfolding setOverride_def
  by (drule asAdmin_Inr, unfold guardH_Inr transaction_Inr, elim exE conjE)
     (drule objectValue_object, drule override_transactions_Inr, simp)

lemma removeOverride_Inr:
  "removeOverride num_text param organization req db = (Inr (), db') \<Longrightarrow>
   \<exists>key body version. flagKey param = Inr key \<and> ar_body req = Some (JObj body) \<and> expectedVersion num_text body = Inr version \<and>
     next_version key version (pf_flags db) (pf_flags db')"
  unfolding removeOverride_def
  by (drule asAdmin_Inr, unfold guardH_Inr transaction_Inr, elim exE conjE)
     (drule objectValue_object, drule override_transactions_Inr, simp)

lemma serve_flag_Inr:
  assumes "serve_flag num_text ev db = (Inr (), db')"
  shows "\<exists>key version. names num_text ev key version \<and> next_version key version (pf_flags db) (pf_flags db')"
  using assms
  by (cases ev) (auto simp: serve_flag_def names_def flag_param_def flag_body_def dest!: patchFlag_Inr setOverride_Inr removeOverride_Inr)

text \<open>A request that is refused leaves the tables as they were.\<close>

definition atomic_at :: "'d \<Rightarrow> ('e + 'a) \<times> 'd \<Rightarrow> bool" where
  "atomic_at db r \<longleftrightarrow> (isl (fst r) \<longrightarrow> snd r = db)"

lemma atomic_guardH: "(\<And>x. atomic_at db (k x db)) \<Longrightarrow> atomic_at db (guardH c k db)"
  by (cases c) (simp_all add: guardH_def atomic_at_def)

lemma atomic_asAdmin: "(\<And>auth. atomic_at db (k auth db)) \<Longrightarrow> atomic_at db (asAdmin req k db)"
  unfolding asAdmin_def by (intro atomic_guardH)

lemma atomic_transaction: "atomic_at db (case saasTransaction work db of (Inl e, db') \<Rightarrow> (Inl e, db') | (Inr x, db') \<Rightarrow> (Inr y, f db'))"
  by (cases "work db") (auto simp: saasTransaction_def atomic_at_def)

lemma serve_flag_atomic: "atomic_at db (serve_flag num_text ev db)"
proof (cases ev)
  case (PatchFlag param req)
  then show ?thesis unfolding serve_flag_def patchFlag_def flag_event.case
    by simp (intro atomic_asAdmin atomic_guardH, simp add: atomic_at_def)
next
  case (SetOverride param organization req)
  then show ?thesis unfolding serve_flag_def setOverride_def
    by simp (intro atomic_asAdmin atomic_guardH atomic_transaction)
next
  case (RemoveOverride param organization req)
  then show ?thesis unfolding serve_flag_def removeOverride_def
    by simp (intro atomic_asAdmin atomic_guardH atomic_transaction)
qed

lemma serve_flag_cases:
  obtains (refused) e where "serve_flag num_text ev db = (Inl e, db)"
  | (served) db' key version where "serve_flag num_text ev db = (Inr (), db')" and "names num_text ev key version"
      and "next_version key version (pf_flags db) (pf_flags db')"
proof (cases "serve_flag num_text ev db")
  case (Pair r db')
  show thesis
  proof (cases r)
    case (Inl e)
    with Pair serve_flag_atomic [of db num_text ev] show thesis by (intro refused) (simp add: atomic_at_def)
  next
    case (Inr x)
    with Pair have run: "serve_flag num_text ev db = (Inr (), db')" by simp
    from serve_flag_Inr [OF this] served [OF run] show thesis by blast
  qed
qed

definition newer :: "string \<Rightarrow> nat \<Rightarrow> stored_flag list \<Rightarrow> bool" where
  "newer key version fs \<longleftrightarrow> (\<forall>f \<in> set fs. fl_key f = key \<longrightarrow> fl_version f > version)"

lemma newer_kept: "newer key version fs \<Longrightarrow> next_version k v fs fs' \<Longrightarrow> newer key version fs'"
  unfolding newer_def next_version_def by (elim exE conjE) (auto simp: update_where_all less_SucI)

lemma version_gone:
  assumes "distinct (map fl_key fs)" and "next_version key version fs fs'"
  shows "newer key version fs'"
proof -
  from assms(2) obtain f where f: "f \<in> set fs" "fl_key f = key" "fl_version f = version"
    by (auto simp: next_version_def list_ex_iff flag_at_def)
  have "f' = f" if "f' \<in> set fs" "fl_key f' = key" for f'
    using assms(1) that f by (auto simp: distinct_map dest: inj_onD)
  moreover from assms(2) obtain g where "fs' = update_where (flag_at key version) g fs" "\<forall>f. fl_key (g f) = fl_key f \<and> fl_version (g f) = fl_version f + 1"
    by (auto simp: next_version_def)
  moreover have "flag_at key version f" using f by (simp add: flag_at_def)
  ultimately show ?thesis unfolding newer_def by (simp add: update_where_all) (metis f(3) lessI)
qed

lemma names_unique: "names num_text ev key v \<Longrightarrow> names num_text ev key' v' \<Longrightarrow> key' = key \<and> v' = v"
  by (auto simp: names_def)

inductive flag_step :: "(rat \<Rightarrow> string) \<Rightarrow> platform_db \<Rightarrow> platform_db \<Rightarrow> bool" for num_text where
  "flag_step num_text db (snd (serve_flag num_text ev db))"

lemma flag_step_newer: "flag_step num_text db db' \<Longrightarrow> newer key version (pf_flags db) \<Longrightarrow> newer key version (pf_flags db')"
proof (induction rule: flag_step.induct)
  case (1 db ev)
  then show ?case by (cases rule: serve_flag_cases [of num_text ev db]) (auto intro: newer_kept)
qed

text \<open>
  No update is lost. Of all changes that administrators base on the same version of a flag, only one succeeds:
  whatever happens after it, every other one is refused and changes nothing.
\<close>
theorem stale_version_is_refused:
  assumes "distinct (map fl_key (pf_flags db))" and "serve_flag num_text ev db = (Inr (), db1)" and "names num_text ev key version"
    and "(flag_step num_text)\<^sup>*\<^sup>* db1 db2" and "names num_text ev' key version"
  shows "\<exists>e. serve_flag num_text ev' db2 = (Inl e, db2)"
proof -
  from serve_flag_Inr [OF assms(2)] names_unique [OF assms(3)] have "next_version key version (pf_flags db) (pf_flags db1)" by blast
  from assms(4) version_gone [OF assms(1) this] have gone: "newer key version (pf_flags db2)"
    by (induction rule: rtranclp_induct) (auto intro: flag_step_newer)
  show ?thesis
  proof (cases rule: serve_flag_cases [of num_text ev' db2])
    case (refused e)
    then show ?thesis by blast
  next
    case (served db' key' version')
    with names_unique [OF assms(5) served(2)] gone show ?thesis by (auto simp: next_version_def newer_def list_ex_iff flag_at_def)
  qed
qed

section \<open>The switch of the checkout\<close>

definition switched_off :: "string \<Rightarrow> platform_db \<Rightarrow> bool" where
  "switched_off key db \<longleftrightarrow> (\<exists>f \<in> set (pf_flags db). fl_key f = key) \<and> (\<forall>f \<in> set (pf_flags db). fl_key f = key \<longrightarrow> \<not> fl_enabled f)"

inductive override_step :: "(rat \<Rightarrow> string) \<Rightarrow> platform_db \<Rightarrow> platform_db \<Rightarrow> bool" for num_text where
  set_override: "override_step num_text db (snd (setOverride num_text param organization req db))"
| remove_override: "override_step num_text db (snd (removeOverride num_text param organization req db))"

lemma switched_off_bump: "switched_off key db \<Longrightarrow> bump_flag k v m db = Inr (x, db') \<Longrightarrow> switched_off key db'"
proof -
  assume off: "switched_off key db" and "bump_flag k v m db = Inr (x, db')"
  then have "pf_flags db' = update_where (flag_at k v) (\<lambda>f. f\<lparr>fl_version := fl_version f + 1\<rparr>) (pf_flags db)"
    by (auto simp: bump_flag_def split: if_split_asm)
  with off show ?thesis by (simp add: switched_off_def update_where_ex update_where_all)
qed

lemma switched_off_flags: "pf_flags db' = pf_flags db \<Longrightarrow> switched_off key db' = switched_off key db"
  by (simp add: switched_off_def)

lemma switched_off_override:
  "switched_off key db \<Longrightarrow> override_transaction k v organizationId enabled db = Inr (x, db') \<Longrightarrow> switched_off key db'"
  "switched_off key db \<Longrightarrow> remove_override_transaction k v organizationId db = Inr (x, db') \<Longrightarrow> switched_off key db'"
proof -
  assume "switched_off key db" "override_transaction k v organizationId enabled db = Inr (x, db')"
  then obtain m y db1 where "bump_flag k v m db = Inr (y, db1)" "pf_flags db' = pf_flags db1"
    by (auto simp: override_transaction_def split: sum.split_asm prod.split_asm if_split_asm)
  with switched_off_bump [OF \<open>switched_off key db\<close>] switched_off_flags show "switched_off key db'" by metis
next
  assume "switched_off key db" "remove_override_transaction k v organizationId db = Inr (x, db')"
  then obtain m y db1 where "bump_flag k v m db = Inr (y, db1)" "pf_flags db' = pf_flags db1"
    by (auto simp: remove_override_transaction_def split: sum.split_asm prod.split_asm if_split_asm)
  with switched_off_bump [OF \<open>switched_off key db\<close>] switched_off_flags show "switched_off key db'" by metis
qed

lemma switched_off_audit: "switched_off key (audit_platform req a t i m db) = switched_off key db"
  by (rule switched_off_flags) simp

lemma transaction_state:
  "(\<And>x d. work db = Inr (x, d) \<Longrightarrow> P (f d)) \<Longrightarrow> P db \<Longrightarrow>
   P (snd (case saasTransaction work db of (Inl e, d) \<Rightarrow> (Inl e, d) | (Inr x, d) \<Rightarrow> (Inr y, f d)))"
  by (cases "work db") (auto simp: saasTransaction_def)

lemma override_step_off: "override_step num_text db db' \<Longrightarrow> switched_off key db \<Longrightarrow> switched_off key db'"
proof (induction rule: override_step.induct)
  case (set_override db param organization req)
  then show ?case unfolding setOverride_def
    by (intro asAdmin_state [where P = "switched_off key"] guardH_state [where P = "switched_off key"]
        transaction_state [where P = "switched_off key"])
       (simp_all add: switched_off_audit switched_off_override(1))
next
  case (remove_override db param organization req)
  then show ?case unfolding removeOverride_def
    by (intro asAdmin_state [where P = "switched_off key"] guardH_state [where P = "switched_off key"]
        transaction_state [where P = "switched_off key"])
       (simp_all add: switched_off_audit switched_off_override(2))
qed

lemma patchFlag_switches_off:
  assumes "patchFlag num_text param req db = (Inr (), db')" and "flagKey param = Inr key" and "ar_body req = Some (JObj body)"
    and "map_of body ''enabled'' = Some (JBool False)" and "distinct (map fl_key (pf_flags db))"
  shows "switched_off key db'"
proof -
  from asAdmin_Inr [OF assms(1) [unfolded patchFlag_def]] obtain version percentage where stored: "list_ex (flag_at key version) (pf_flags db)"
    and db': "pf_flags db' = update_where (flag_at key version) (\<lambda>f. f\<lparr>fl_enabled := False, fl_rollout_percentage := integer_part percentage,
      fl_version := fl_version f + 1\<rparr>) (pf_flags db)"
    unfolding guardH_Inr assms(2,3)
    by (elim exE conjE) (auto simp: assms(4) booleanValue_def dest!: objectValue_Some split: if_split_asm)
  then obtain f where f: "f \<in> set (pf_flags db)" "fl_key f = key" "flag_at key version f" by (auto simp: list_ex_iff flag_at_def)
  have only: "f' = f" if "f' \<in> set (pf_flags db)" "fl_key f' = key" for f'
    using assms(5) that f by (auto simp: distinct_map dest: inj_onD)
  show ?thesis unfolding switched_off_def db' update_where_ex update_where_all
  proof (intro conjI bexI ballI)
    fix f' assume "f' \<in> set (pf_flags db)"
    with only [OF this] f(3)
    show "if flag_at key version f' then fl_key (f'\<lparr>fl_enabled := False, fl_rollout_percentage := integer_part percentage, fl_version := fl_version f' + 1\<rparr>) = key \<longrightarrow>
        \<not> fl_enabled (f'\<lparr>fl_enabled := False, fl_rollout_percentage := integer_part percentage, fl_version := fl_version f' + 1\<rparr>)
      else fl_key f' = key \<longrightarrow> \<not> fl_enabled f'" by auto
  qed (use f in simp_all)
qed

lemma checkout_switched_off:
  assumes "switched_off ''billing_checkout'' db"
  shows "\<exists>e. checkout E A req db = (Inl e, db)"
proof -
  let ?flags = "map flag_row.truncate (pf_flags db)"
  from assms obtain g where g: "g \<in> set (pf_flags db)" "fl_key g = ''billing_checkout''" by (auto simp: switched_off_def)
  then have "find (\<lambda>r. fl_key r = ''billing_checkout'') ?flags \<noteq> None"
    by (auto simp: find_None_iff flag_row.truncate_def)
  then obtain f where f: "find (\<lambda>r. fl_key r = ''billing_checkout'') ?flags = Some f" by blast
  then have "f \<in> set ?flags" "fl_key f = ''billing_checkout''" by (auto simp: find_Some_iff)
  then have "\<not> fl_enabled f" using assms by (auto simp: switched_off_def flag_row.truncate_def)
  with f \<open>fl_key f = _\<close> have "\<exists>e. requireFeature (be_sha256 E) ?flags (pf_overrides db) ''billing_checkout'' org = Inl e" for org
    by (auto simp: requireFeature_def evaluateFeature_def decideFeature_def joined_flag_def split: option.split)
  then obtain e where "requireFeature (be_sha256 E) ?flags (pf_overrides db) ''billing_checkout'' (map_option au_organizationId (ar_auth req)) = Inl e"
    by blast
  then show ?thesis by (auto simp: checkout_def guardH_def split: sum.split)
qed

text \<open>
  The switch of an administrator stops the checkout: once the flag \<^verbatim>\<open>billing_checkout\<close> is switched off, no request of
  any organisation is let through, whatever exceptions are made for organisations, and nothing is stored.
\<close>
theorem kill_switch_stops_checkout:
  assumes "patchFlag num_text param admin db = (Inr (), db1)" and "flagKey param = Inr ''billing_checkout''"
    and "ar_body admin = Some (JObj body)" and "map_of body ''enabled'' = Some (JBool False)"
    and "distinct (map fl_key (pf_flags db))" and "(override_step num_text)\<^sup>*\<^sup>* db1 db2"
  shows "\<exists>e. checkout E A req db2 = (Inl e, db2)"
proof -
  from assms(6) patchFlag_switches_off [OF assms(1-5)] have "switched_off ''billing_checkout'' db2"
    by (induction rule: rtranclp_induct) (auto intro: override_step_off)
  then show ?thesis by (rule checkout_switched_off)
qed

section \<open>Data subject requests and listings\<close>

text \<open>A request that was completed or rejected is final: no later decision changes it.\<close>

lemma decided_is_final:
  assumes "patchDataRequest now req db = (r, db')" and "q \<in> set (ad_data_requests (pf_accounts db))" and "dq_status q \<in> {COMPLETED, REJECTED}"
  shows "q \<in> set (ad_data_requests (pf_accounts db'))"
proof -
  let ?P = "\<lambda>d. q \<in> set (ad_data_requests (pf_accounts d))"
  have kept: "q \<in> set (update_where (actionable i) f rows)" if "q \<in> set rows" for i f rows
    using that assms(3) by (force simp: update_where_def actionable_def)
  have "?P (snd (patchDataRequest now req db))" unfolding patchDataRequest_def
    using assms(2)
    by (intro asAdmin_state [where P = ?P] guardH_state [where P = ?P])
       (auto simp: kept audit_platform_def audit_def split: prod.split intro!: guardH_state [where P = ?P])
  with assms(1) show ?thesis by simp
qed

lemma page_is_bounded: "pagination limit offset = Inr (n, m) \<Longrightarrow> 1 \<le> n \<and> n \<le> 100"
  by (auto simp: pagination_def Let_def integer_part_def isInteger_def Suc_le_eq split: if_split_asm jsnum.split_asm)

section \<open>Concrete runs\<close>

definition sim_platform_request :: "json_object \<Rightarrow> api_request" where
  "sim_platform_request body = \<lparr>ar_auth = Some sim_buyer, ar_params_id = sim_bot_id, ar_body = Some (JObj body), ar_idempotency_key = Some ''refund-01''\<rparr>"

definition sim_switch :: json_object where
  "sim_switch = [(''enabled'', JBool False), (''rolloutPercentage'', JNum (Fin 0)), (''expectedVersion'', JNum (Fin 1)), (''changeReason'', JStr ''stop'')]"

definition sim_managed_db :: platform_db where
  "sim_managed_db = sim_platform_db\<lparr>pf_accounts := (sim_accounts [])\<lparr>ad_users := [sim_account\<lparr>us_platform_role := PlatformAdmin\<rparr>]\<rparr>\<rparr>"

lemma sim_managed_flags: "distinct (map fl_key (pf_flags sim_managed_db))" "list_ex (flag_at ''billing_checkout'' 1) (pf_flags sim_managed_db)"
  by (simp_all add: sim_managed_db_def sim_platform_db_def flag_at_def)

lemma sim_flag_key: "flagKey ''billing_checkout'' = Inr ''billing_checkout''"
  by (simp add: flagKey_def stringValue_def trim_def is_space_def flag_first_def flag_rest_def)

lemma sim_version: "expectedVersion num_text sim_switch = Inr 1"
  by (simp add: expectedVersion_def sim_switch_def numberValue_def isInteger_def integer_part_def js_simps)

lemma sim_patch_run:
  "patchFlag (\<lambda>_. []) ''billing_checkout'' (sim_platform_request sim_switch) sim_managed_db =
     (Inr (), snd (patchFlag (\<lambda>_. []) ''billing_checkout'' (sim_platform_request sim_switch) sim_managed_db))"
proof -
  have admin: "requirePlatformAdmin (sim_platform_request sim_switch) (pf_accounts sim_managed_db) = Inr ()"
      "authContext (sim_platform_request sim_switch) = Inr sim_buyer"
    by (simp_all add: requirePlatformAdmin_def authContext_def sim_platform_request_def sim_buyer_def sim_managed_db_def sim_account_def)
  have body: "objectValue (ar_body (sim_platform_request sim_switch)) (Some [''enabled'', ''rolloutPercentage'', ''expectedVersion'', ''changeReason'']) = Inr sim_switch"
    by (simp add: sim_platform_request_def objectValue_def sim_switch_def)
  have fields: "booleanValue (map_of sim_switch ''enabled'') ''enabled'' = Inr False"
      "numberValue (\<lambda>_. []) (map_of sim_switch ''rolloutPercentage'') ''rolloutPercentage'' 0 100 = Inr (Fin 0)"
      "stringValue (map_of sim_switch ''changeReason'') ''changeReason'' 500 = Inr ''stop''" "isInteger (Fin 0)"
    by (simp_all add: sim_switch_def booleanValue_def numberValue_def stringValue_def trim_def is_space_def isInteger_def js_simps)
  show ?thesis
    using sim_managed_flags(2) by (simp add: patchFlag_def asAdmin_def guardH_def admin sim_flag_key body fields sim_version)
qed

theorem kill_switch_stops_checkout_witness:
  "\<exists>e. checkout sim_billing_env sim_buyer_api sim_checkout (snd (patchFlag (\<lambda>_. []) ''billing_checkout'' (sim_platform_request sim_switch) sim_managed_db)) =
     (Inl e, snd (patchFlag (\<lambda>_. []) ''billing_checkout'' (sim_platform_request sim_switch) sim_managed_db))"
  by (rule kill_switch_stops_checkout [OF sim_patch_run sim_flag_key _ _ sim_managed_flags(1) rtranclp.rtrancl_refl, of sim_switch])
     (simp_all add: sim_platform_request_def sim_switch_def)

theorem stale_version_is_refused_witness:
  "\<exists>e. serve_flag (\<lambda>_. []) (PatchFlag ''billing_checkout'' (sim_platform_request sim_switch))
      (snd (patchFlag (\<lambda>_. []) ''billing_checkout'' (sim_platform_request sim_switch) sim_managed_db)) =
     (Inl e, snd (patchFlag (\<lambda>_. []) ''billing_checkout'' (sim_platform_request sim_switch) sim_managed_db))"
proof -
  let ?ev = "PatchFlag ''billing_checkout'' (sim_platform_request sim_switch)"
  have run: "serve_flag (\<lambda>_. []) ?ev sim_managed_db =
      (Inr (), snd (patchFlag (\<lambda>_. []) ''billing_checkout'' (sim_platform_request sim_switch) sim_managed_db))"
    unfolding serve_flag_def flag_event.case by (rule sim_patch_run)
  have named: "names (\<lambda>_. []) ?ev ''billing_checkout'' 1"
    by (simp add: names_def flag_param_def flag_body_def sim_flag_key sim_platform_request_def sim_version)
  show ?thesis by (rule stale_version_is_refused [OF sim_managed_flags(1) run named rtranclp.rtrancl_refl named])
qed

definition sim_refund_env :: billing_env where
  "sim_refund_env = sim_billing_env\<lparr>be_create_refund := \<lambda>_ amount _ _ _. Inr
     \<lparr>yr_id = ''r1'', yr_payment_id = ''pay1'', yr_status = RefundSucceeded, yr_value = amount, yr_currency = ''RUB''\<rparr>\<rparr>"

definition sim_sold_db :: platform_db where
  "sim_sold_db = set_billing (sim_billing_db 50 \<lparr>bd_payments := [checkout_row sim_billing_env 5 ''o1'' ''request-1'' (sim_paid Succeeded) ''url'']\<rparr>)
     sim_managed_db"

lemma sim_sold_ok: "refund_inv sim_sold_db"
  by (simp add: refund_inv_def refunds_ok_def sim_sold_db_def payment_key_def checkout_row_def sim_billing_env_def sim_billing_config_def
      sim_billing_db_def)

lemma refundPayment_payments: "bd_payments (billing (snd (refundPayment E now req db))) = bd_payments (billing db)"
proof -
  let ?P = "\<lambda>d. bd_payments (billing d) = bd_payments (billing db)"
  have reserved: "?P db'" if "reserve_refund E now i key reason db = Inr (x, db')" for i key reason x db'
    using that by (auto simp: reserve_refund_def split: option.split_asm if_split_asm)
  have answered: "?P d'" if "answer_refund E now org key refund d = Inr (x, d')" "?P d" for org key refund d x d'
    using that by (auto simp: answer_refund_def applyRefund_settles(2) split: if_split_asm)
  have audited: "?P (audit_platform req a t i m d) = ?P d" for a t i m d
    by (simp add: audit_platform_def audit_def writeAuditEvent_def)
  have rest: "?P (snd (case saasTransaction (reserve_refund E now i key reason) db of
         (Inl e, db1) \<Rightarrow> (Inl e, db1)
       | (Inr (row, email), db1) \<Rightarrow>
           guardH (c row email) (\<lambda>refund db1.
             case saasTransaction (answer_refund E now (rf_organization_id row) key refund) db1 of
               (Inl e, db2) \<Rightarrow> (Inl e, db2)
             | (Inr _, db2) \<Rightarrow> (Inr (yr_id refund), audit_platform req a t u (m refund row) db2)) db1))"
    for i key reason c a t u m
    using reserved [of i key reason] answered
    by (auto simp: saasTransaction_def guardH_def audited split: sum.split prod.split)
  show ?thesis unfolding refundPayment_def
    by (intro asAdmin_state [where P = ?P] guardH_state [where P = ?P] rest refl)
qed


end
