(* ===== verification/Retention.thy ===== *)
theory Retention
  imports Admin_Router
begin

text \<open>
  \<^verbatim>\<open>src/saas/retention/worker.ts\<close>: the deletion of the accounts whose time has come, and the removal of old rows.
  The rows of audit events, provider events, rate limits and consents that the worker also ages have no dates in
  the model; those statements are left out.
\<close>

section \<open>Deletion of an account\<close>

definition due_deletion :: "int \<Rightarrow> user_row \<Rightarrow> bool" where
  "due_deletion now u \<longleftrightarrow>
     us_status u = DeletionPending \<and> (case us_scheduled_deletion_at u of None \<Rightarrow> False | Some t \<Rightarrow> t \<le> now)"

text \<open>The organisations a user owns alone.\<close>

definition owned_alone :: "string \<Rightarrow> membership_row list \<Rightarrow> string list" where
  "owned_alone userId ms =
     map mb_organization_id (filter (\<lambda>m. mb_user_id m = userId \<and> mb_role m = OWNER \<and>
       \<not> (\<exists>n \<in> set ms. mb_organization_id n = mb_organization_id m \<and> mb_user_id n \<noteq> mb_user_id m)) ms)"

text \<open>
  The statements for one organisation, in their order. A trading session belongs to the organisation of its bot; the
  runtime logs and the commands of a bot go with it (\<^verbatim>\<open>ON DELETE CASCADE\<close>).
\<close>

definition has_bot :: "string \<Rightarrow> saas_db \<Rightarrow> string \<Rightarrow> bool" where
  "has_bot organizationId db botId \<longleftrightarrow> (\<exists>b \<in> set (sd_trading_bots db). tb_id b = botId \<and> tb_organization_id b = organizationId)"

definition delete_trading :: "string \<Rightarrow> saas_db \<Rightarrow> saas_db" where
  "delete_trading organizationId db =
     db\<lparr>sd_orders := filter (\<lambda>r. so_organization_id r \<noteq> organizationId) (sd_orders db),
        sd_trading_sessions := filter (\<lambda>b. \<not> has_bot organizationId db b) (sd_trading_sessions db),
        sd_bot_commands := filter (\<lambda>c. cm_organization_id c \<noteq> organizationId) (sd_bot_commands db),
        sd_bot_runtime_logs := filter (\<lambda>l. \<not> has_bot organizationId db (lg_bot_id l)) (sd_bot_runtime_logs db),
        sd_trading_bots := filter (\<lambda>b. tb_organization_id b \<noteq> organizationId) (sd_trading_bots db),
        sd_exchange_connections := filter (\<lambda>c. ec_organization_id c \<noteq> organizationId) (sd_exchange_connections db)\<rparr>"

definition end_billing :: "string \<Rightarrow> billing_db \<Rightarrow> billing_db" where
  "end_billing organizationId db =
     db\<lparr>bd_subscriptions := update_where (\<lambda>s. su_organization_id s = organizationId)
          (\<lambda>s. s\<lparr>su_payment_method_id := None, su_auto_renew := False, su_next_billing_at := None, su_cancel_at_period_end := True\<rparr>)
          (bd_subscriptions db),
        bd_payments := update_where (\<lambda>p. pm_organization_id p = organizationId) (\<lambda>p. p\<lparr>pm_confirmation_url := None\<rparr>) (bd_payments db)\<rparr>"

definition close_workspace :: "string \<Rightarrow> account_db \<Rightarrow> account_db" where
  "close_workspace organizationId db =
     db\<lparr>ad_saas := (delete_trading organizationId (ad_saas db))\<lparr>sd_billing := end_billing organizationId (sd_billing (ad_saas db))\<rparr>,
        ad_organizations := update_where (\<lambda>g. og_id g = organizationId)
          (\<lambda>g. g\<lparr>og_name := ''Deleted workspace'', og_status := OrgClosed\<rparr>) (ad_organizations db)\<rparr>"

definition anonymous_email :: "string \<Rightarrow> string" where
  "anonymous_email userId = ''deleted+'' @ userId @ ''@invalid.local''"

definition anonymous_user :: "user_row \<Rightarrow> user_row" where
  "anonymous_user u =
     u\<lparr>us_email := anonymous_email (us_id u), us_password_hash := None, us_display_name := ''Deleted user'', us_status := DeletedUser,
       us_platform_role := PlatformUser, us_scheduled_deletion_at := None\<rparr>"

definition forget_user :: "int \<Rightarrow> user_row \<Rightarrow> account_db \<Rightarrow> account_db" where
  "forget_user now u db =
     db\<lparr>ad_refresh_tokens := filter (\<lambda>r. rt_user_id r \<noteq> us_id u) (ad_refresh_tokens db),
        ad_account_tokens := filter (\<lambda>t. at_user_id t \<noteq> us_id u) (ad_account_tokens db),
        ad_email_outbox := filter (\<lambda>m. eo_recipient m \<noteq> us_email u) (ad_email_outbox db),
        ad_saas := (ad_saas db)\<lparr>sd_memberships := filter (\<lambda>m. mb_user_id m \<noteq> us_id u) (sd_memberships (ad_saas db))\<rparr>,
        ad_users := update_where (\<lambda>v. us_id v = us_id u) anonymous_user (ad_users db),
        ad_data_requests := update_where (\<lambda>q. dq_user_id q = us_id u \<and> dq_kind q = ''DELETE'' \<and> dq_status q = REQUESTED)
          (\<lambda>q. q\<lparr>dq_status := COMPLETED, dq_completed_at := Some now\<rparr>) (ad_data_requests db)\<rparr>"

text \<open>The update of the user violates \<^verbatim>\<open>UNIQUE(email)\<close> when the new address is taken.\<close>

definition anonymize_transaction :: "int \<Rightarrow> account_db \<Rightarrow> api_error + bool \<times> account_db" where
  "anonymize_transaction now db =
     (case first_by (\<lambda>u. nullish (us_scheduled_deletion_at u) 0) (filter (due_deletion now) (ad_users db)) of
        None \<Rightarrow> Inr (False, db)
      | Some u \<Rightarrow>
          let db1 = fold close_workspace (owned_alone (us_id u) (sd_memberships (ad_saas db))) db
          in if \<exists>v \<in> set (ad_users db1). us_id v \<noteq> us_id u \<and> us_email v = anonymous_email (us_id u)
             then Inl (DbError unique_violation)
             else Inr (True, forget_user now u db1))"

definition anonymizeOne :: "int \<Rightarrow> account_db \<Rightarrow> (api_error + bool) \<times> account_db" where
  "anonymizeOne now = saasTransaction (anonymize_transaction now)"

section \<open>The loop\<close>

definition pending_deletions :: "account_db \<Rightarrow> nat" where
  "pending_deletions db = length (filter (\<lambda>u. us_status u = DeletionPending) (ad_users db))"

lemma fold_close_users: "ad_users (fold close_workspace orgs db) = ad_users db"
  by (induction orgs arbitrary: db) (simp_all add: close_workspace_def)

lemma anonymous_user_simps [simp]:
  "us_status (anonymous_user u) = DeletedUser" "us_id (anonymous_user u) = us_id u" "us_email (anonymous_user u) = anonymous_email (us_id u)"
  "us_password_hash (anonymous_user u) = None"
  by (simp_all add: anonymous_user_def)

lemma pending_update:
  assumes "u \<in> set us" and "us_status u = DeletionPending"
  shows "length (filter (\<lambda>v. us_status v = DeletionPending) (update_where (\<lambda>v. us_id v = us_id u) anonymous_user us))
    < length (filter (\<lambda>v. us_status v = DeletionPending) us)"
proof -
  have le: "length (filter (\<lambda>v. us_status v = DeletionPending) (update_where p anonymous_user xs))
      \<le> length (filter (\<lambda>v. us_status v = DeletionPending) xs)" for p xs
    by (induction xs) (auto simp: update_where_def)
  from assms show ?thesis
  proof (induction us)
    case (Cons v us)
    show ?case
    proof (cases "v = u")
      case True
      with Cons.prems le [of "\<lambda>v. us_id v = us_id u" us] show ?thesis by (simp add: update_where_def less_Suc_eq_le)
    next
      case False
      with Cons have "length (filter (\<lambda>v. us_status v = DeletionPending) (update_where (\<lambda>v. us_id v = us_id u) anonymous_user us))
          < length (filter (\<lambda>v. us_status v = DeletionPending) us)" by simp
      then show ?thesis by (simp add: update_where_def)
    qed
  qed simp
qed

lemma anonymizeOne_True:
  assumes "anonymizeOne now db = (Inr True, db')"
  shows "\<exists>u. u \<in> set (ad_users db) \<and> due_deletion now u \<and>
    \<not> (\<exists>v \<in> set (ad_users db). us_id v \<noteq> us_id u \<and> us_email v = anonymous_email (us_id u)) \<and>
    db' = forget_user now u (fold close_workspace (owned_alone (us_id u) (sd_memberships (ad_saas db))) db)"
proof -
  from assms have run: "anonymize_transaction now db = Inr (True, db')" by (simp add: anonymizeOne_def saasTransaction_Inr)
  then obtain u where found: "first_by (\<lambda>u. nullish (us_scheduled_deletion_at u) 0) (filter (due_deletion now) (ad_users db)) = Some u"
    by (cases "first_by (\<lambda>u. nullish (us_scheduled_deletion_at u) 0) (filter (due_deletion now) (ad_users db))")
       (simp_all add: anonymize_transaction_def)
  from first_by_mem [OF this] run show ?thesis
    by (intro exI [of _ u]) (auto simp: anonymize_transaction_def found Let_def fold_close_users split: if_split_asm)
qed

lemma anonymizeOne_pending: "anonymizeOne now db = (Inr True, db') \<Longrightarrow> pending_deletions db' < pending_deletions db"
  using anonymizeOne_True [of now db db'] pending_update
  by (auto simp: pending_deletions_def forget_user_def fold_close_users due_deletion_def)

text \<open>\<^verbatim>\<open>while(await anonymizeOne()) anonymized++\<close>, the n-th transaction at the time \<open>clock n\<close>.\<close>

function anonymizeAll :: "(nat \<Rightarrow> int) \<Rightarrow> nat \<Rightarrow> account_db \<Rightarrow> (api_error + nat) \<times> account_db" where
  "anonymizeAll clock n db =
     (case anonymizeOne (clock n) db of
        (Inl e, db') \<Rightarrow> (Inl e, db')
      | (Inr False, db') \<Rightarrow> (Inr n, db')
      | (Inr True, db') \<Rightarrow> anonymizeAll clock (n + 1) db')"
  by pat_completeness auto
termination
  by (relation "measure (\<lambda>(_, _, db). pending_deletions db)") (auto dest: sym intro: anonymizeOne_pending)

declare anonymizeAll.simps [simp del]

section \<open>Old rows\<close>

definition old_refresh :: "int \<Rightarrow> refresh_row \<Rightarrow> bool" where
  "old_refresh now r \<longleftrightarrow>
     rt_expires_at r < now - days 30 \<or> (case rt_revoked_at r of None \<Rightarrow> False | Some t \<Rightarrow> t < now - days 30)"

definition old_token :: "int \<Rightarrow> account_token_row \<Rightarrow> bool" where
  "old_token now t \<longleftrightarrow>
     at_expires_at t < now - days 7 \<or> (case at_consumed_at t of None \<Rightarrow> False | Some c \<Rightarrow> c < now - days 30)"

definition old_mail :: "int \<Rightarrow> outbox_row \<Rightarrow> bool" where
  "old_mail now m \<longleftrightarrow>
     eo_status m \<in> {MailSent, MailDelivered, MailSuppressed} \<and> nullish (eo_sent_at m) (eo_created_at m) < now - days 30 \<or>
     eo_status m \<in> {MailDeadLetter, MailBounced} \<and> eo_created_at m < now - days 90"

definition old_request :: "int \<Rightarrow> data_request_row \<Rightarrow> bool" where
  "old_request sixYearsAgo q \<longleftrightarrow> dq_requested_at q < sixYearsAgo"

definition retained_refund :: "refund_row \<Rightarrow> refund_row" where
  "retained_refund r = r\<lparr>rf_reason := ''retained financial record''\<rparr>"

text \<open>The statements of the cycle, each at the same time; \<open>sixYearsAgo\<close> is \<^verbatim>\<open>now()-interval '6 years'\<close>.\<close>

definition remove_old :: "int \<Rightarrow> int \<Rightarrow> account_db \<Rightarrow> account_db" where
  "remove_old now sixYearsAgo db =
     db\<lparr>ad_refresh_tokens := filter (\<lambda>r. \<not> old_refresh now r) (ad_refresh_tokens db),
        ad_account_tokens := filter (\<lambda>t. \<not> old_token now t) (ad_account_tokens db),
        ad_email_outbox := filter (\<lambda>m. \<not> old_mail now m) (ad_email_outbox db),
        ad_data_requests := filter (\<lambda>q. \<not> old_request sixYearsAgo q) (ad_data_requests db),
        ad_saas := (ad_saas db)\<lparr>sd_billing := (sd_billing (ad_saas db))\<lparr>
          bd_payments := update_where (\<lambda>p. pm_created_at p < now - days 90) (\<lambda>p. p\<lparr>pm_confirmation_url := None\<rparr>)
            (bd_payments (sd_billing (ad_saas db))),
          bd_refunds := update_where (\<lambda>r. rf_created_at r < now - days 90) retained_refund (bd_refunds (sd_billing (ad_saas db)))\<rparr>\<rparr>\<rparr>"

definition retention_cycle :: "(nat \<Rightarrow> int) \<Rightarrow> int \<Rightarrow> int \<Rightarrow> account_db \<Rightarrow> (api_error + nat) \<times> account_db" where
  "retention_cycle clock now sixYearsAgo db =
     (case anonymizeAll clock 0 db of
        (Inl e, db') \<Rightarrow> (Inl e, db')
      | (Inr n, db') \<Rightarrow> (Inr n, remove_old now sixYearsAgo db'))"

end
