(* ===== verification/Retention_Flow.thy ===== *)
theory Retention_Flow
  imports Retention Account_Security
begin

text \<open>
  Properties of the retention worker: a deleted user is forgotten, the cycle deletes everyone whose time has come, and
  what can still be used survives it.
\<close>

section \<open>A deleted user\<close>

lemma close_workspace_keeps:
  "ad_refresh_tokens (close_workspace org db) = ad_refresh_tokens db" "ad_account_tokens (close_workspace org db) = ad_account_tokens db"
  "sd_memberships (ad_saas (close_workspace org db)) = sd_memberships (ad_saas db)"
  by (simp_all add: close_workspace_def delete_trading_def)

text \<open>What is left of the trading of an organisation: nothing.\<close>

definition trading_gone :: "int \<Rightarrow> string \<Rightarrow> saas_db \<Rightarrow> bool" where
  "trading_gone now org db \<longleftrightarrow>
     (\<forall>r \<in> set (sd_orders db). so_organization_id r \<noteq> org) \<and> (\<forall>c \<in> set (sd_bot_commands db). cm_organization_id c \<noteq> org) \<and>
     (\<forall>b \<in> set (sd_trading_bots db). tb_organization_id b \<noteq> org) \<and> (\<forall>c \<in> set (sd_exchange_connections db). ec_organization_id c \<noteq> org) \<and>
     (\<forall>s \<in> set (bd_subscriptions (sd_billing db)). su_organization_id s = org \<longrightarrow> \<not> due now s)"

lemma close_workspace_gone: "trading_gone now org (ad_saas (close_workspace org db))"
  by (simp add: trading_gone_def close_workspace_def delete_trading_def end_billing_def update_where_all due_def)

lemma close_workspace_gone_kept: "trading_gone now org (ad_saas db) \<Longrightarrow> trading_gone now org (ad_saas (close_workspace other db))"
  by (simp add: trading_gone_def close_workspace_def delete_trading_def end_billing_def update_where_all due_def)

lemma fold_close_gone:
  "(org \<in> set orgs \<or> trading_gone now org (ad_saas db)) \<Longrightarrow> trading_gone now org (ad_saas (fold close_workspace orgs db))"
  by (induction orgs arbitrary: db) (auto intro: close_workspace_gone close_workspace_gone_kept)

lemma fold_close_keeps:
  "sd_memberships (ad_saas (fold close_workspace orgs db)) = sd_memberships (ad_saas db)"
  by (induction orgs arbitrary: db) (simp_all add: close_workspace_keeps)

lemma forget_gone: "trading_gone t org (ad_saas (forget_user now u db)) = trading_gone t org (ad_saas db)"
  by (simp add: trading_gone_def forget_user_def)

text \<open>No trace of a user by which to act: no session, no token, no membership, no message and no address.\<close>

definition forgotten :: "auth_server \<Rightarrow> user_row \<Rightarrow> account_db \<Rightarrow> bool" where
  "forgotten A u db \<longleftrightarrow>
     (\<forall>r \<in> set (ad_refresh_tokens db). rt_user_id r \<noteq> us_id u) \<and> (\<forall>t \<in> set (ad_account_tokens db). at_user_id t \<noteq> us_id u) \<and>
     (\<forall>m \<in> set (ad_email_outbox db). eo_recipient m \<noteq> us_email u) \<and> (\<forall>v \<in> set (ad_users db). us_email v \<noteq> us_email u) \<and>
     (\<forall>header auth. authenticate A header db = Inr auth \<longrightarrow> au_userId auth \<noteq> us_id u)"

lemma authenticate_member: "authenticate A header db = Inr auth \<Longrightarrow> active_membership db (au_userId auth) (au_organizationId auth) \<noteq> None"
  by (auto simp: authenticate_def bindC_def Let_def split: if_split_asm option.split_asm sum.split_asm)

lemma no_membership: "\<forall>m \<in> set (sd_memberships (ad_saas db)). mb_user_id m \<noteq> userId \<Longrightarrow> active_membership db userId org = None"
  by (auto simp: active_membership_def is_member_def find_None_iff)


section \<open>The cycle\<close>

text \<open>No address of the kind that deleted users get belongs to somebody else.\<close>

definition addresses_free :: "account_db \<Rightarrow> bool" where
  "addresses_free db \<longleftrightarrow> (\<forall>u \<in> set (ad_users db). \<forall>v \<in> set (ad_users db). us_id v \<noteq> us_id u \<longrightarrow> us_email v \<noteq> anonymous_email (us_id u))"

lemma anonymous_email_inj: "anonymous_email i = anonymous_email j \<longleftrightarrow> i = j"
  by (simp add: anonymous_email_def)

lemma forget_addresses: "addresses_free db \<Longrightarrow> addresses_free (forget_user now u (fold close_workspace orgs db))"
  unfolding addresses_free_def forget_user_def
  by (auto simp: fold_close_users update_where_all anonymous_email_inj)

lemma anonymizeOne_cases:
  assumes "addresses_free db"
  obtains (finished) "anonymizeOne now db = (Inr False, db)" and "\<forall>u \<in> set (ad_users db). \<not> due_deletion now u"
  | (deleted) db' where "anonymizeOne now db = (Inr True, db')" and "addresses_free db'"
proof (cases "first_by (\<lambda>u. nullish (us_scheduled_deletion_at u) 0) (filter (due_deletion now) (ad_users db))")
  case None
  then have "\<forall>u \<in> set (ad_users db). \<not> due_deletion now u" by (simp add: filter_empty_conv)
  moreover have "anonymizeOne now db = (Inr False, db)"
    unfolding anonymizeOne_def saasTransaction_def anonymize_transaction_def None by simp
  ultimately show thesis by (rule finished [rotated])
next
  case (Some u)
  let ?db = "fold close_workspace (owned_alone (us_id u) (sd_memberships (ad_saas db))) db"
  from first_by_mem [OF Some] have "u \<in> set (ad_users db)" by simp
  with assms have "\<not> (\<exists>v \<in> set (ad_users ?db). us_id v \<noteq> us_id u \<and> us_email v = anonymous_email (us_id u))"
    by (auto simp: addresses_free_def fold_close_users)
  with Some have "anonymizeOne now db = (Inr True, forget_user now u ?db)"
    by (auto simp: anonymizeOne_def saasTransaction_def anonymize_transaction_def Let_def)
  with deleted forget_addresses [OF assms] show thesis by blast
qed


section \<open>What survives\<close>

lemma cleanup_keeps_usable:
  "filter (\<lambda>r. live_token r \<and> rt_expires_at r > now) (ad_refresh_tokens (remove_old now y db)) =
     filter (\<lambda>r. live_token r \<and> rt_expires_at r > now) (ad_refresh_tokens db)"
  "filter (\<lambda>t. at_consumed_at t = None \<and> at_expires_at t > now) (ad_account_tokens (remove_old now y db)) =
     filter (\<lambda>t. at_consumed_at t = None \<and> at_expires_at t > now) (ad_account_tokens db)"
  "filter (\<lambda>m. eo_status m \<in> {MailPending, MailProcessing}) (ad_email_outbox (remove_old now y db)) =
     filter (\<lambda>m. eo_status m \<in> {MailPending, MailProcessing}) (ad_email_outbox db)"
  "bd_subscriptions (sd_billing (ad_saas (remove_old now y db))) = bd_subscriptions (sd_billing (ad_saas db))"
  by (auto simp: remove_old_def old_refresh_def old_token_def old_mail_def live_token_def filter_filter intro!: filter_cong)

section \<open>Findings\<close>

text \<open>
  Whoever registers the address that a user will get stops the deletion of this user, and with it, as the user comes
  first in every cycle, the deletions after it.
\<close>

lemma taken_address_stops_the_cycle:
  assumes "first_by (\<lambda>u. nullish (us_scheduled_deletion_at u) 0) (filter (due_deletion (clock n)) (ad_users db)) = Some u"
    and "v \<in> set (ad_users db)" and "us_id v \<noteq> us_id u" and "us_email v = anonymous_email (us_id u)"
  shows "anonymizeAll clock n db = (Inl (DbError unique_violation), db)"
proof -
  have "anonymizeOne (clock n) db = (Inl (DbError unique_violation), db)"
    using assms by (auto simp: anonymizeOne_def saasTransaction_def anonymize_transaction_def fold_close_users)
  then show ?thesis by (simp add: anonymizeAll.simps [of clock n db])
qed

text \<open>
  The bots of a deleted workspace are not stopped: their rows and commands are gone, so nothing the worker reads names
  them any more, and a process that runs goes on trading.
\<close>

lemma deleted_bots_get_no_command:
  assumes "anonymizeOne now db = (Inr True, db')"
  shows "\<exists>u \<in> set (ad_users db). \<forall>org \<in> set (owned_alone (us_id u) (sd_memberships (ad_saas db))).
    (\<forall>c \<in> set (sd_bot_commands (ad_saas db')). cm_organization_id c \<noteq> org) \<and> (\<forall>b \<in> set (sd_trading_bots (ad_saas db')). tb_organization_id b \<noteq> org)"
proof -
  from anonymizeOne_True [OF assms] obtain u where u: "u \<in> set (ad_users db)"
    and db': "db' = forget_user now u (fold close_workspace (owned_alone (us_id u) (sd_memberships (ad_saas db))) db)" by blast
  have "trading_gone now org (ad_saas db')" if "org \<in> set (owned_alone (us_id u) (sd_memberships (ad_saas db)))" for org
    using fold_close_gone [OF disjI1 [OF that]] unfolding db' forget_gone by blast
  then have "\<forall>org \<in> set (owned_alone (us_id u) (sd_memberships (ad_saas db))).
      (\<forall>c \<in> set (sd_bot_commands (ad_saas db')). cm_organization_id c \<noteq> org) \<and> (\<forall>b \<in> set (sd_trading_bots (ad_saas db')). tb_organization_id b \<noteq> org)"
    unfolding trading_gone_def by blast
  with u show ?thesis by (rule rev_bexI)
qed

section \<open>Concrete runs\<close>

definition sim_leaving_db :: account_db where
  "sim_leaving_db = (sim_accounts [sim_refresh_row ''t0'' None])\<lparr>
     ad_users := [sim_account\<lparr>us_status := DeletionPending, us_scheduled_deletion_at := Some 5\<rparr>],
     ad_saas := (sim_saas_db (sim_billing_db 50))\<lparr>sd_memberships := [\<lparr>mb_organization_id = ''o1'', mb_user_id = ''u1'', mb_role = OWNER\<rparr>]\<rparr>\<rparr>"

lemma sim_leaving_run: "anonymizeOne 10 sim_leaving_db = (Inr True, snd (anonymizeOne 10 sim_leaving_db))"
  by (simp add: anonymizeOne_def saasTransaction_def anonymize_transaction_def sim_leaving_db_def due_deletion_def sim_account_def
      Let_def fold_close_users)



end
