(* ===== verification/Environment.thy ===== *)
theory Environment
  imports Account_Tables Sql_Builder Billing_Lifecycle Encryption_Service
begin

text \<open>
  \<^verbatim>\<open>src/plugins/Environment\<close>, \<^verbatim>\<open>src/saas/config.ts\<close>, \<^verbatim>\<open>src/saas/billing/config.ts\<close>,
  \<^verbatim>\<open>src/saas/compliance/config.ts\<close> and the locale of \<^verbatim>\<open>src/saas/email/delivery.ts\<close>: the settings, read
  from the environment and from secret files.

  The state holds the variables (after \<^verbatim>\<open>dotenv.config()\<close>), the files that \<^verbatim>\<open>readFileSync\<close> would read now
  and the two caches of the modules. \<^verbatim>\<open>path.resolve\<close> and the protocol that \<^verbatim>\<open>new URL\<close> finds (none when it
  throws) are arguments.
\<close>

section \<open>Numbers written as text\<close>

text \<open>
  \<^verbatim>\<open>Number(text)\<close>: white space around is ignored, no text is 0, a prefix selects the base 16, 8 or 2,
  otherwise the text is a decimal number with an optional sign, point and exponent or \<open>Infinity\<close>.
\<close>

definition digit_of :: "char \<Rightarrow> nat" where
  "digit_of c =
     (if is_digit c then of_char c - 48
      else let l = of_char (toLowerCase_char c) :: nat in if 97 \<le> l \<and> l \<le> 122 then l - 87 else 36)"

definition digits_value :: "nat \<Rightarrow> string \<Rightarrow> nat" where
  "digits_value base = foldl (\<lambda>n c. base * n + digit_of c) 0"

definition in_base :: "nat \<Rightarrow> string \<Rightarrow> jsnum" where
  "in_base base s =
     (if s \<noteq> [] \<and> list_all (\<lambda>c. digit_of c < base) s then Fin (of_nat (digits_value base s)) else NaN)"

definition split_sign :: "string \<Rightarrow> bool \<times> string" where
  "split_sign s =
     (case s of [] \<Rightarrow> (False, []) | c # cs \<Rightarrow> if c = CHR ''-'' then (True, cs) else if c = CHR ''+'' then (False, cs) else (False, s))"

definition exponent_of :: "string \<Rightarrow> int option" where
  "exponent_of s =
     (case s of
        [] \<Rightarrow> Some 0
      | e # t \<Rightarrow>
          let (negative, ds) = split_sign t
          in if toLowerCase_char e = CHR ''e'' \<and> ds \<noteq> [] \<and> list_all is_digit ds
             then Some (if negative then - int (digits_value 10 ds) else int (digits_value 10 ds)) else None)"

definition unsigned_decimal :: "string \<Rightarrow> jsnum" where
  "unsigned_decimal s =
     (if s = ''Infinity'' then PInf
      else let whole = takeWhile is_digit s; rest = dropWhile is_digit s;
               fraction = (case rest of c # t \<Rightarrow> if c = CHR ''.'' then takeWhile is_digit t else [] | [] \<Rightarrow> []);
               tail = (case rest of c # t \<Rightarrow> if c = CHR ''.'' then dropWhile is_digit t else rest | [] \<Rightarrow> [])
           in if whole = [] \<and> fraction = [] then NaN
              else case exponent_of tail of
                None \<Rightarrow> NaN
              | Some e \<Rightarrow>
                  let m = of_nat (digits_value 10 (whole @ fraction)) / 10 ^ length fraction
                  in Fin (if e < 0 then m / 10 ^ nat (- e) else m * 10 ^ nat e))"

definition Number_text :: "string \<Rightarrow> jsnum" where
  "Number_text text =
     (let s = trim text; prefix = toLowerCase (take 2 s)
      in if s = [] then Fin 0
         else if prefix = ''0x'' then in_base 16 (drop 2 s)
         else if prefix = ''0o'' then in_base 8 (drop 2 s)
         else if prefix = ''0b'' then in_base 2 (drop 2 s)
         else let (negative, u) = split_sign s in if negative then - unsigned_decimal u else unsigned_decimal u)"

text \<open>\<^verbatim>\<open>Number.isInteger(value)\<close>, with the integer.\<close>

definition integer_of :: "jsnum \<Rightarrow> int option" where
  "integer_of x = (case x of Fin a \<Rightarrow> if of_int \<lfloor>a\<rfloor> = a then Some \<lfloor>a\<rfloor> else None | _ \<Rightarrow> None)"

lemma integer_of_Some: "integer_of x = Some n \<longleftrightarrow> x = Fin (of_int n)"
  by (auto simp: integer_of_def split: jsnum.split)

text \<open>The decimal text of a number is read back.\<close>

lemma digits_value_read: "list_all is_digit s \<Longrightarrow> digits_value 10 s = read_nat s"
proof -
  have "foldl (\<lambda>n c. 10 * n + digit_of c) a s = foldl (\<lambda>n c. 10 * n + (of_char c - 48)) a s"
    if "list_all is_digit s" for a
    using that by (induction s arbitrary: a) (simp_all add: digit_of_def)
  then show "list_all is_digit s \<Longrightarrow> digits_value 10 s = read_nat s"
    by (simp add: digits_value_def read_nat_def)
qed

lemma show_nat_not_Nil [simp]: "show_nat n \<noteq> []"
  by (subst show_nat.simps) simp

lemma dropWhile_none: "list_all (\<lambda>c. \<not> p c) s \<Longrightarrow> dropWhile p s = s"
  by (cases s) simp_all

lemma trim_digits: "list_all is_digit s \<Longrightarrow> trim s = s"
proof -
  assume "list_all is_digit s"
  then have "list_all (\<lambda>c. \<not> is_space c) s" by (auto simp: list_all_iff is_digit_def is_space_def Let_def)
  then show ?thesis by (simp add: trim_def dropWhile_none)
qed

lemma Number_text_show_nat [simp]: "Number_text (show_nat n) = Fin (of_nat n)"
proof -
  let ?s = "show_nat n"
  have digits: "list_all is_digit ?s" by (auto simp: list_all_iff show_nat_is_digit)
  have span: "takeWhile is_digit ?s = ?s" "dropWhile is_digit ?s = []"
    using digits by (auto simp: takeWhile_eq_all_conv list_all_iff)
  obtain c cs where s: "?s = c # cs" by (cases ?s) auto
  have c: "is_digit c" and cs: "list_all is_digit cs" using digits s by simp_all
  have prefix: "toLowerCase (take 2 ?s) \<noteq> [CHR ''0'', d]" if "\<not> is_digit d" for d
    using that cs by (cases cs) (auto simp: s toLowerCase_def toLowerCase_char_def is_digit_def Let_def)
  have sign: "split_sign ?s = (False, ?s)"
    using c by (auto simp: split_sign_def s is_digit_def)
  have "unsigned_decimal ?s = Fin (of_nat n)"
    using digits c unfolding unsigned_decimal_def Let_def span
    by (auto simp: exponent_of_def digits_value_read s is_digit_def) (simp_all flip: s)
  with prefix sign digits show ?thesis
    by (simp add: Number_text_def trim_digits Let_def is_digit_def)
qed

section \<open>environment.ts\<close>

record saas_config =
  sc_databaseUrl :: string
  sc_databasePoolSize :: int
  sc_databaseIdleTimeoutMs :: int
  sc_databaseConnectionTimeoutMs :: int
  sc_databaseRole :: "string option"
  sc_jwtSecret :: string
  sc_jwtIssuer :: string
  sc_jwtAudience :: string
  sc_accessTokenTtlSeconds :: int
  sc_refreshTokenTtlSeconds :: int

record env_state =
  es_vars :: "string \<Rightarrow> string option"
  es_files :: "string \<Rightarrow> js_error + string"
  es_fileValues :: "string \<Rightarrow> string option"
  es_saas :: "saas_config option"

type_synonym 'a env_eff = "(env_state, 'a) eff"

definition nonempty :: "string option \<Rightarrow> string option" where
  "nonempty v = (if v = Some [] then None else v)"

text \<open>\<^verbatim>\<open>replace(/[\r\n]+$/,'')\<close>.\<close>

definition without_line_end :: "string \<Rightarrow> string" where
  "without_line_end s = rev (dropWhile (\<lambda>c. c = CHR 0x0D \<or> c = CHR 0x0A) (rev s))"

definition read_secret :: "string \<Rightarrow> string \<Rightarrow> string env_eff" where
  "read_secret name path =
     bindE (getsE (\<lambda>s. es_fileValues s path)) (\<lambda>known. case known of
       Some v \<Rightarrow> ret v
     | None \<Rightarrow>
         bindE (\<lambda>s. (es_files s path, s)) (\<lambda>text.
           let v = without_line_end text
           in if v = [] then throwE (newError (''Secret file for '' @ name @ '' is empty.''))
              else bindE (modifyE (\<lambda>s. s\<lparr>es_fileValues := (es_fileValues s)(path \<mapsto> v)\<rparr>)) (\<lambda>_. ret v)))"

definition optionalEnvConfig :: "string \<Rightarrow> string option env_eff" where
  "optionalEnvConfig name =
     bindE (getsE (\<lambda>s. nonempty (es_vars s name))) (\<lambda>direct.
     bindE (getsE (\<lambda>s. nonempty (es_vars s (name @ ''_FILE'')))) (\<lambda>file.
       case (direct, file) of
         (Some _, Some _) \<Rightarrow> throwE (newError (''Only one of '' @ name @ '' and '' @ name @ ''_FILE may be set.''))
       | (Some d, None) \<Rightarrow> ret (Some d)
       | (None, None) \<Rightarrow> ret None
       | (None, Some f) \<Rightarrow> bindE (read_secret name f) (\<lambda>v. ret (Some v))))"

definition envConfig :: "string \<Rightarrow> string env_eff" where
  "envConfig name =
     bindE (optionalEnvConfig name) (\<lambda>v. case nonempty v of
       None \<Rightarrow> throwE (newError (''Environment variable '' @ name @ '' was not found.''))
     | Some e \<Rightarrow> ret e)"

definition numericEnvConfig :: "string \<Rightarrow> int option \<Rightarrow> int env_eff" where
  "numericEnvConfig name fallback =
     bindE (optionalEnvConfig name) (\<lambda>raw.
       if raw = None \<and> fallback \<noteq> None then ret (the fallback)
       else case integer_of (case raw of None \<Rightarrow> NaN | Some t \<Rightarrow> Number_text t) of
         Some v \<Rightarrow>
           if v \<le> 0 \<or> v > 65535 then throwE (newError (''Environment variable '' @ name @ '' must be a valid port number.''))
           else ret v
       | None \<Rightarrow> throwE (newError (''Environment variable '' @ name @ '' must be a valid port number.'')))"

definition setting :: "string \<Rightarrow> string \<Rightarrow> string env_eff" where
  "setting name fallback = bindE (optionalEnvConfig name) (\<lambda>v. ret (nullish v fallback))"

section \<open>const.ts\<close>

record runtime_settings =
  en_TRADING_HOST :: string
  en_TRADING_PORT :: int
  en_TRADING_USER :: string
  en_TRADING_PASSWORD :: string
  en_ENCRYPTION_KEY :: string
  en_PORT :: int
  en_ENV_RELEASE :: string
  en_APP_MODE :: app_mode
  en_DATA_DIR :: string
  en_API_TOKEN :: "string option"
  en_HOST :: string

definition app_mode_setting :: "app_mode env_eff" where
  "app_mode_setting =
     bindE (setting ''APP_MODE'' ''desktop'') (\<lambda>mode.
       if mode = ''desktop'' then ret Desktop else if mode = ''web'' then ret Web
       else throwE (newError (''Unsupported APP_MODE: '' @ mode)))"

definition webEnv :: "app_mode \<Rightarrow> string \<Rightarrow> string env_eff" where
  "webEnv mode name = (if mode = Web then envConfig name else setting name '''')"

definition ENV :: "(string \<Rightarrow> string) \<Rightarrow> string \<Rightarrow> runtime_settings env_eff" where
  "ENV resolve cwd =
     bindE app_mode_setting (\<lambda>mode.
     bindE (webEnv mode ''TRADING_HOST'') (\<lambda>host.
     bindE (if mode = Web then numericEnvConfig ''TRADING_PORT'' None else ret 0) (\<lambda>tradingPort.
     bindE (webEnv mode ''TRADING_USER'') (\<lambda>user.
     bindE (webEnv mode ''TRADING_PASSWORD'') (\<lambda>password.
     bindE (envConfig ''ENCRYPTION_KEY'') (\<lambda>key.
     bindE (numericEnvConfig ''PORT'' (Some 3131)) (\<lambda>port.
     bindE (setting ''ENV_RELEASE'' ''prod'') (\<lambda>release.
     bindE (setting ''TONATIUH_DATA_DIR'' cwd) (\<lambda>dataDir.
     bindE (optionalEnvConfig ''TONATIUH_API_TOKEN'') (\<lambda>token.
     bindE (setting ''HOST'' (if mode = Web then ''0.0.0.0'' else ''127.0.0.1'')) (\<lambda>listen.
       ret \<lparr>en_TRADING_HOST = host, en_TRADING_PORT = tradingPort, en_TRADING_USER = user,
            en_TRADING_PASSWORD = password, en_ENCRYPTION_KEY = key, en_PORT = port, en_ENV_RELEASE = release,
            en_APP_MODE = mode, en_DATA_DIR = resolve dataDir, en_API_TOKEN = token, en_HOST = listen\<rparr>)))))))))))"

section \<open>saas/config.ts\<close>

definition positiveInteger :: "string \<Rightarrow> int \<Rightarrow> int env_eff" where
  "positiveInteger name fallback =
     bindE (optionalEnvConfig name) (\<lambda>raw. case raw of
       None \<Rightarrow> ret fallback
     | Some t \<Rightarrow>
         (case integer_of (Number_text t) of
            Some v \<Rightarrow> if v \<le> 0 then throwE (newError (name @ '' must be a positive integer.'')) else ret v
          | None \<Rightarrow> throwE (newError (name @ '' must be a positive integer.''))))"

text \<open>\<^verbatim>\<open>Buffer.byteLength\<close> in UTF-8, for the code points of a character.\<close>

definition byteLength :: "string \<Rightarrow> nat" where
  "byteLength s = sum_list (map (\<lambda>c. if (of_char c :: nat) < 128 then 1 else 2) s)"

definition database_roles :: "string list" where
  "database_roles = [''tonatiuh_api'', ''tonatiuh_worker'']"

definition jwt_secret :: "string env_eff" where
  "jwt_secret =
     bindE (optionalEnvConfig ''JWT_SECRET'') (\<lambda>secret. case secret of
       None \<Rightarrow> throwE (newError ''JWT_SECRET must contain at least 32 bytes.'')
     | Some s \<Rightarrow>
         if byteLength s < 32 then throwE (newError ''JWT_SECRET must contain at least 32 bytes.'') else ret s)"

definition database_role :: "string option env_eff" where
  "database_role =
     bindE (optionalEnvConfig ''DATABASE_ROLE'') (\<lambda>role.
       if (case role of None \<Rightarrow> False | Some r \<Rightarrow> r \<notin> set database_roles)
       then throwE (newError ''DATABASE_ROLE must be tonatiuh_api or tonatiuh_worker.'') else ret role)"

definition saas_config_from :: "string \<Rightarrow> string \<Rightarrow> saas_config env_eff" where
  "saas_config_from databaseUrl jwtSecret =
     bindE database_role (\<lambda>role.
     bindE (positiveInteger ''DATABASE_POOL_SIZE'' 20) (\<lambda>poolSize.
     bindE (positiveInteger ''DATABASE_IDLE_TIMEOUT_MS'' 30000) (\<lambda>idleTimeout.
     bindE (positiveInteger ''DATABASE_CONNECTION_TIMEOUT_MS'' 5000) (\<lambda>connectionTimeout.
     bindE (setting ''JWT_ISSUER'' ''tonatiuh-trading-saas'') (\<lambda>issuer.
     bindE (setting ''JWT_AUDIENCE'' ''tonatiuh-trading-api'') (\<lambda>audience.
     bindE (positiveInteger ''ACCESS_TOKEN_TTL_SECONDS'' 900) (\<lambda>accessTtl.
     bindE (positiveInteger ''REFRESH_TOKEN_TTL_SECONDS'' 2592000) (\<lambda>refreshTtl.
       ret \<lparr>sc_databaseUrl = databaseUrl, sc_databasePoolSize = poolSize, sc_databaseIdleTimeoutMs = idleTimeout,
            sc_databaseConnectionTimeoutMs = connectionTimeout, sc_databaseRole = role, sc_jwtSecret = jwtSecret,
            sc_jwtIssuer = issuer, sc_jwtAudience = audience, sc_accessTokenTtlSeconds = accessTtl,
            sc_refreshTokenTtlSeconds = refreshTtl\<rparr>))))))))"

definition read_saas_config :: "saas_config env_eff" where
  "read_saas_config =
     bindE (optionalEnvConfig ''DATABASE_URL'') (\<lambda>url. case url of
       None \<Rightarrow> throwE (newError ''Environment variable DATABASE_URL was not found.'')
     | Some databaseUrl \<Rightarrow>
     bindE jwt_secret (saas_config_from databaseUrl))"

definition getSaasConfig :: "saas_config env_eff" where
  "getSaasConfig =
     bindE (getsE es_saas) (\<lambda>cached. case cached of
       Some c \<Rightarrow> ret c
     | None \<Rightarrow> bindE read_saas_config (\<lambda>c. bindE (modifyE (\<lambda>s. s\<lparr>es_saas := Some c\<rparr>)) (\<lambda>_. ret c)))"

definition defaultEmailLocale :: "email_locale env_eff" where
  "defaultEmailLocale =
     bindE (setting ''DEFAULT_EMAIL_LOCALE'' ''ru'') (\<lambda>locale.
       if locale = ''ru'' then ret RU else if locale = ''en'' then ret EN
       else throwE (newError ''DEFAULT_EMAIL_LOCALE must be ru or en.''))"

section \<open>billing/config.ts\<close>

record payment_config =
  pc_shopId :: string
  pc_secretKey :: string
  pc_returnUrl :: string
  pc_planName :: string
  pc_sendReceipt :: bool
  pc_vatCode :: int
  pc_savePaymentMethod :: bool
  pc_policy :: billing_config

definition check_integer :: "string \<Rightarrow> jsnum \<Rightarrow> int \<Rightarrow> int \<Rightarrow> string \<Rightarrow> int env_eff" where
  "check_integer name v low high message =
     (case integer_of v of
        Some n \<Rightarrow> if n < low \<or> n > high then throwE (newError message) else ret n
      | None \<Rightarrow> throwE (newError message))"

definition whole_text :: "int \<Rightarrow> string" where
  "whole_text n = (if n < 0 then ''-'' @ show_nat (nat (- n)) else show_nat (nat n))"

definition number_setting :: "string \<Rightarrow> jsnum \<Rightarrow> jsnum env_eff" where
  "number_setting name fallback =
     bindE (optionalEnvConfig name) (\<lambda>v. ret (case v of None \<Rightarrow> fallback | Some t \<Rightarrow> Number_text t))"

definition integer_setting :: "string \<Rightarrow> int \<Rightarrow> int \<Rightarrow> int \<Rightarrow> int env_eff" where
  "integer_setting name fallback low high =
     bindE (number_setting name (Fin (of_int fallback))) (\<lambda>v.
       check_integer name v low high (name @ '' must be between '' @ whole_text low @ '' and '' @ whole_text high @ ''.''))"

definition MAX_SAFE_INTEGER :: int where
  "MAX_SAFE_INTEGER = 9007199254740991"

definition retry_schedule :: "int \<Rightarrow> int list env_eff" where
  "retry_schedule gracePeriodDays =
     bindE (setting ''BILLING_RETRY_SCHEDULE_HOURS'' ''1,24,72,120'') (\<lambda>text.
       let hours = map Number_text (split_on CHR '','' text)
       in if list_all (\<lambda>v. integer_of v \<noteq> None) hours \<and>
             retry_schedule_accepted gracePeriodDays (map (\<lambda>v. the (integer_of v)) hours)
          then ret (map (\<lambda>v. the (integer_of v)) hours)
          else throwE (newError ''BILLING_RETRY_SCHEDULE_HOURS must be a strictly increasing list within the grace period.''))"

definition return_url :: "(string \<Rightarrow> js_error + string) \<Rightarrow> string \<Rightarrow> unit env_eff" where
  "return_url protocol url =
     bindE (liftE (protocol url)) (\<lambda>p.
       if p = ''https:'' then ret ()
       else bindE (optionalEnvConfig ''ENV_RELEASE'') (\<lambda>release.
         if release \<noteq> Some ''dev'' then throwE (newError ''YOOKASSA_RETURN_URL must use HTTPS.'') else ret ()))"

definition getBillingConfig :: "(string \<Rightarrow> js_error + string) \<Rightarrow> payment_config env_eff" where
  "getBillingConfig protocol =
     bindE (optionalEnvConfig ''YOOKASSA_SHOP_ID'') (\<lambda>shop.
     bindE (optionalEnvConfig ''YOOKASSA_SECRET_KEY'') (\<lambda>secret.
     bindE (optionalEnvConfig ''YOOKASSA_RETURN_URL'') (\<lambda>url.
     case (shop, secret, url) of
       (Some shopId, Some secretKey, Some returnUrl) \<Rightarrow>
         bindE (return_url protocol returnUrl) (\<lambda>_.
         bindE (number_setting ''PRO_PRICE_KOPECKS'' NaN) (\<lambda>price.
         bindE (check_integer ''PRO_PRICE_KOPECKS'' price 1 MAX_SAFE_INTEGER ''PRO_PRICE_KOPECKS must be a positive integer.'') (\<lambda>priceKopecks.
         bindE (number_setting ''YOOKASSA_VAT_CODE'' (Fin 1)) (\<lambda>vat.
         bindE (check_integer ''YOOKASSA_VAT_CODE'' vat 1 6 ''YOOKASSA_VAT_CODE must be between 1 and 6.'') (\<lambda>vatCode.
         bindE (integer_setting ''BILLING_GRACE_PERIOD_DAYS'' 7 1 30) (\<lambda>gracePeriodDays.
         bindE (retry_schedule gracePeriodDays) (\<lambda>retryScheduleHours.
         bindE (setting ''PRO_PLAN_NAME'' ''Tonatiuh Pro'') (\<lambda>planName.
         bindE (optionalEnvConfig ''YOOKASSA_SEND_RECEIPT'') (\<lambda>receipt.
         bindE (optionalEnvConfig ''YOOKASSA_SAVE_PAYMENT_METHOD'') (\<lambda>saveMethod.
         bindE (integer_setting ''BILLING_RECONCILIATION_MINUTES'' 10 1 1440) (\<lambda>reconciliationMinutes.
           ret \<lparr>pc_shopId = shopId, pc_secretKey = secretKey, pc_returnUrl = returnUrl, pc_planName = planName,
                pc_sendReceipt = (receipt = Some ''true''), pc_vatCode = vatCode,
                pc_savePaymentMethod = (saveMethod = Some ''true''),
                pc_policy = \<lparr>bc_priceKopecks = nat priceKopecks, bc_gracePeriodDays = gracePeriodDays,
                  bc_retryScheduleHours = retryScheduleHours, bc_reconciliationMinutes = reconciliationMinutes\<rparr>\<rparr>)))))))))))
     | _ \<Rightarrow> throwE (newError ''YooKassa billing is not configured.''))))"

section \<open>compliance/config.ts\<close>

record legal_document =
  ld_version :: string
  ld_url :: string
  ld_sha256 :: string

record compliance_config =
  cc_terms :: legal_document
  cc_privacy :: legal_document
  cc_evidenceSecret :: string
  cc_evidenceKeyId :: string

definition version_start :: "char \<Rightarrow> bool" where
  "version_start c \<longleftrightarrow> is_digit c \<or> (let n = of_char (toLowerCase_char c) :: nat in 97 \<le> n \<and> n \<le> 122)"

definition version_char :: "char \<Rightarrow> bool" where
  "version_char c \<longleftrightarrow> version_start c \<or> c \<in> set ''._-''"

definition version_format :: "string \<Rightarrow> bool" where
  "version_format s \<longleftrightarrow>
     (case s of [] \<Rightarrow> False | c # cs \<Rightarrow> version_start c \<and> length cs \<le> 99 \<and> list_all version_char cs)"

definition document_version :: "string \<Rightarrow> string \<Rightarrow> string env_eff" where
  "document_version name fallback =
     bindE (setting name fallback) (\<lambda>v.
       if \<not> version_format v \<or> v = ''legacy'' then throwE (newError (name @ '' must be an immutable non-legacy version.''))
       else ret v)"

definition sha256_format :: "string \<Rightarrow> bool" where
  "sha256_format s \<longleftrightarrow> length s = 64 \<and> list_all (\<lambda>c. c \<in> set ''0123456789abcdef'') s"

definition zeros :: "string \<Rightarrow> bool" where
  "zeros s \<longleftrightarrow> s \<noteq> [] \<and> list_all (\<lambda>c. c = CHR ''0'') s"

definition document_digest :: "string \<Rightarrow> string \<Rightarrow> bool \<Rightarrow> string env_eff" where
  "document_digest name fallback production =
     bindE (setting name fallback) (\<lambda>v.
       let digest = toLowerCase v
       in if \<not> sha256_format digest \<or> production \<and> zeros digest
          then throwE (newError (name @ '' must be a non-placeholder SHA-256 digest.'')) else ret digest)"

definition document_url :: "(string \<Rightarrow> js_error + string) \<Rightarrow> string \<Rightarrow> string \<Rightarrow> bool \<Rightarrow> string env_eff" where
  "document_url protocol name fallback production =
     bindE (setting name fallback) (\<lambda>v. case protocol v of
       Inl _ \<Rightarrow> throwE (newError (name @ '' must be an absolute URL.''))
     | Inr p \<Rightarrow>
         if production \<and> p \<noteq> ''https:'' then throwE (newError (name @ '' must use HTTPS in production.'')) else ret v)"

definition legal_document_of :: "(string \<Rightarrow> js_error + string) \<Rightarrow> string \<Rightarrow> string \<Rightarrow> bool \<Rightarrow> legal_document env_eff" where
  "legal_document_of protocol prefix fallback production =
     bindE (document_version (prefix @ ''_VERSION'') ''2026-01'') (\<lambda>v.
     bindE (document_url protocol (prefix @ ''_URL'') fallback production) (\<lambda>u.
     bindE (document_digest (prefix @ ''_SHA256'') (replicate 64 CHR ''0'') production) (\<lambda>d.
       ret \<lparr>ld_version = v, ld_url = u, ld_sha256 = d\<rparr>)))"

definition evidence_secret :: "bool \<Rightarrow> string env_eff" where
  "evidence_secret production =
     bindE (optionalEnvConfig ''CONSENT_EVIDENCE_SECRET'') (\<lambda>v. case v of
       Some s \<Rightarrow> ret s
     | None \<Rightarrow> if production then ret '''' else bindE getSaasConfig (\<lambda>c. ret (sc_jwtSecret c)))"

definition getComplianceConfig :: "(string \<Rightarrow> js_error + string) \<Rightarrow> compliance_config env_eff" where
  "getComplianceConfig protocol =
     bindE (optionalEnvConfig ''ENV_RELEASE'') (\<lambda>release.
     let production = (release = Some ''prod'') in
     bindE (evidence_secret production) (\<lambda>secret.
     if byteLength secret < 32
     then throwE (newError ''CONSENT_EVIDENCE_SECRET must contain at least 32 bytes in production.'') else
     bindE (document_version ''CONSENT_EVIDENCE_KEY_ID'' (if production then '''' else ''development-v1'')) (\<lambda>keyId.
     bindE (legal_document_of protocol ''TERMS'' ''http://localhost/legal/terms'' production) (\<lambda>terms.
     bindE (legal_document_of protocol ''PRIVACY'' ''http://localhost/legal/privacy'' production) (\<lambda>privacy.
       ret \<lparr>cc_terms = terms, cc_privacy = privacy, cc_evidenceSecret = secret, cc_evidenceKeyId = keyId\<rparr>)))))"

section \<open>What accepted settings promise\<close>

lemma check_integer_Inr [simp]:
  "check_integer name v low high message s = (Inr n, t) \<longleftrightarrow> integer_of v = Some n \<and> low \<le> n \<and> n \<le> high \<and> t = s"
  by (auto simp: check_integer_def split: option.split)

lemma integer_setting_range: "integer_setting name d low high s = (Inr n, t) \<Longrightarrow> low \<le> n \<and> n \<le> high"
  by (auto simp: integer_setting_def bindE_Inr)

lemma retry_schedule_Inr: "retry_schedule g s = (Inr hs, t) \<Longrightarrow> retry_schedule_accepted g hs"
  by (auto simp: retry_schedule_def bindE_Inr Let_def split: if_splits)

lemma getBillingConfig_accepted:
  assumes "getBillingConfig protocol s = (Inr c, t)"
  shows "billing_policy_accepted (pc_policy c)" and "1 \<le> bc_priceKopecks (pc_policy c)"
    and "1 \<le> pc_vatCode c" and "pc_vatCode c \<le> 6"
proof -
  obtain price u1 u2 where price: "check_integer ''PRO_PRICE_KOPECKS'' price 1 MAX_SAFE_INTEGER
        ''PRO_PRICE_KOPECKS must be a positive integer.'' u1 = (Inr (int (bc_priceKopecks (pc_policy c))), u2)"
    and vat: "1 \<le> pc_vatCode c" "pc_vatCode c \<le> 6"
    and grace: "1 \<le> bc_gracePeriodDays (pc_policy c)" "bc_gracePeriodDays (pc_policy c) \<le> 30"
    and hours: "retry_schedule_accepted (bc_gracePeriodDays (pc_policy c)) (bc_retryScheduleHours (pc_policy c))"
    and minutes: "1 \<le> bc_reconciliationMinutes (pc_policy c)" "bc_reconciliationMinutes (pc_policy c) \<le> 1440"
    using assms unfolding getBillingConfig_def
    by (fastforce simp: bindE_Inr dest: integer_setting_range retry_schedule_Inr split: option.splits prod.splits)
  show "billing_policy_accepted (pc_policy c)"
    using grace hours minutes by (simp add: billing_policy_accepted_def)
  show "1 \<le> bc_priceKopecks (pc_policy c)" using price by simp
  show "1 \<le> pc_vatCode c" "pc_vatCode c \<le> 6" by fact+
qed

text \<open>The values of the configuration of the API.\<close>

definition saas_config_ok :: "saas_config \<Rightarrow> bool" where
  "saas_config_ok c \<longleftrightarrow>
     32 \<le> byteLength (sc_jwtSecret c) \<and> 1 \<le> sc_databasePoolSize c \<and> 1 \<le> sc_databaseIdleTimeoutMs c \<and>
     1 \<le> sc_databaseConnectionTimeoutMs c \<and> 1 \<le> sc_accessTokenTtlSeconds c \<and> 1 \<le> sc_refreshTokenTtlSeconds c \<and>
     (case sc_databaseRole c of None \<Rightarrow> True | Some r \<Rightarrow> r \<in> set database_roles)"

definition cached_ok :: "env_state \<Rightarrow> bool" where
  "cached_ok s \<longleftrightarrow> (case es_saas s of None \<Rightarrow> True | Some c \<Rightarrow> saas_config_ok c)"

lemma positiveInteger_positive:
  assumes "positiveInteger name d s = (Inr n, t)"
  shows "1 \<le> n \<or> d < 1"
proof -
  from assms(1) obtain raw u where "(case raw of None \<Rightarrow> ret d | Some text \<Rightarrow> (case integer_of (Number_text text) of
      Some v \<Rightarrow> if v \<le> 0 then throwE (newError (name @ '' must be a positive integer.'')) else ret v
    | None \<Rightarrow> throwE (newError (name @ '' must be a positive integer.'')))) u = (Inr n, t)"
    unfolding positiveInteger_def bindE_Inr by blast
  then show ?thesis by (auto split: option.splits if_splits)
qed

lemma jwt_secret_long: "jwt_secret s = (Inr v, t) \<Longrightarrow> 32 \<le> byteLength v"
  by (auto simp: jwt_secret_def bindE_Inr split: option.splits if_splits)

lemma database_role_known: "database_role s = (Inr r, t) \<Longrightarrow> (case r of None \<Rightarrow> True | Some r \<Rightarrow> r \<in> set database_roles)"
  by (auto simp: database_role_def bindE_Inr split: option.splits if_splits)

lemma if_throw_Inr: "(if b then throwE e else m) s = (Inr x, t) \<longleftrightarrow> \<not> b \<and> m s = (Inr x, t)"
  by simp

lemma read_saas_config_ok:
  assumes "read_saas_config s = (Inr c, t)"
  shows "saas_config_ok c"
proof -
  from assms obtain url u0 where "(case url of None \<Rightarrow> throwE (newError ''Environment variable DATABASE_URL was not found.'')
      | Some databaseUrl \<Rightarrow> bindE jwt_secret (saas_config_from databaseUrl)) u0 = (Inr c, t)"
    unfolding read_saas_config_def bindE_Inr [of "optionalEnvConfig _"] by blast
  then obtain databaseUrl jwtSecret u1 u2 where secret: "jwt_secret u1 = (Inr jwtSecret, u2)"
    and rest: "saas_config_from databaseUrl jwtSecret u2 = (Inr c, t)"
    by (auto simp: bindE_Inr split: option.splits)
  from rest show ?thesis
    unfolding saas_config_from_def bindE_Inr
    by (elim exE conjE)
      (drule positiveInteger_positive, drule positiveInteger_positive, drule positiveInteger_positive,
       drule positiveInteger_positive, drule positiveInteger_positive, drule database_role_known,
       simp add: saas_config_ok_def jwt_secret_long [OF secret])
qed

lemma reads_keep_cached:
  "unchanged es_saas (optionalEnvConfig name)"
  unfolding optionalEnvConfig_def read_secret_def Let_def
  by (auto simp: unchanged_def eff_defs split: option.split sum.split if_splits)

lemma read_saas_config_cached: "unchanged es_saas read_saas_config"
  unfolding read_saas_config_def saas_config_from_def jwt_secret_def database_role_def positiveInteger_def setting_def
  by (intro unchanged_rules reads_keep_cached)

lemma getSaasConfig_ok: "cached_ok s \<Longrightarrow> getSaasConfig s = (Inr c, t) \<Longrightarrow> saas_config_ok c \<and> cached_ok t"
  by (auto simp: getSaasConfig_def bindE_Inr cached_ok_def dest: read_saas_config_ok split: option.splits)

lemma getSaasConfig_keeps: "keeps cached_ok getSaasConfig"
proof (rule keepsI)
  fix s t :: env_state and r
  assume ok: "cached_ok s" and step: "getSaasConfig s = (r, t)"
  show "cached_ok t"
  proof (cases r)
    case (Inr c)
    with ok step getSaasConfig_ok show ?thesis by blast
  next
    case (Inl e)
    then have "read_saas_config s = (Inl e, t) \<and> es_saas s = None"
      using step by (auto simp: getSaasConfig_def bindE_Inl split: option.splits)
    with unchangedD [OF read_saas_config_cached] show ?thesis by (auto simp: cached_ok_def)
  qed
qed

text \<open>A secret that was read from a file stays the same while the process runs, whatever happens to the file.\<close>

theorem secret_is_read_once:
  assumes "optionalEnvConfig name s = (Inr v, t)"
  shows "optionalEnvConfig name (t\<lparr>es_files := files\<rparr>) = (Inr v, t\<lparr>es_files := files\<rparr>)"
  using assms
  by (auto simp: optionalEnvConfig_def read_secret_def eff_defs Let_def split: option.splits sum.splits prod.splits if_splits)

text \<open>
  Settings the API accepts are usable: the signing secret has 32 bytes or more and the dunning
  policy is one that the billing worker can follow; the terms it shows in production are real documents
  under HTTPS, kept apart from the signing secret.
\<close>

lemma document_digest_real: "document_digest name d True s = (Inr v, t) \<Longrightarrow> sha256_format v \<and> \<not> zeros v"
  by (auto simp: document_digest_def bindE_Inr Let_def split: if_splits)

lemma document_url_https:
  assumes "document_url protocol name d True s = (Inr v, t)"
  shows "protocol v = Inr ''https:''"
proof -
  from assms obtain x u where "(case protocol x of
      Inl _ \<Rightarrow> throwE (newError (name @ '' must be an absolute URL.''))
    | Inr p \<Rightarrow> if True \<and> p \<noteq> ''https:'' then throwE (newError (name @ '' must use HTTPS in production.'')) else ret x) u = (Inr v, t)"
    unfolding document_url_def bindE_Inr by blast
  then show ?thesis by (auto split: sum.splits if_splits)
qed

definition real_document :: "(string \<Rightarrow> js_error + string) \<Rightarrow> legal_document \<Rightarrow> bool" where
  "real_document protocol d \<longleftrightarrow> protocol (ld_url d) = Inr ''https:'' \<and> sha256_format (ld_sha256 d) \<and> \<not> zeros (ld_sha256 d)"

lemma legal_document_real: "legal_document_of protocol p d True s = (Inr v, t) \<Longrightarrow> real_document protocol v"
  by (auto simp: legal_document_of_def bindE_Inr real_document_def dest: document_digest_real document_url_https)

lemma vars_unchanged: "unchanged es_vars (optionalEnvConfig name)"
  unfolding optionalEnvConfig_def read_secret_def Let_def
  by (auto simp: unchanged_def eff_defs split: option.split sum.split if_splits)

theorem accepted_settings_are_usable:
  assumes "cached_ok s"
  shows "getSaasConfig s = (Inr c, t) \<Longrightarrow> saas_config_ok c \<and> cached_ok t"
    and "getBillingConfig protocol s = (Inr p, t) \<Longrightarrow> billing_policy_accepted (pc_policy p) \<and> 1 \<le> bc_priceKopecks (pc_policy p)"
    and "getComplianceConfig protocol s = (Inr l, t) \<Longrightarrow> 32 \<le> byteLength (cc_evidenceSecret l) \<and>
           (es_vars s ''ENV_RELEASE'' = Some ''prod'' \<longrightarrow> real_document protocol (cc_terms l) \<and> real_document protocol (cc_privacy l))"
proof -
  show "getSaasConfig s = (Inr c, t) \<Longrightarrow> saas_config_ok c \<and> cached_ok t" using getSaasConfig_ok [OF assms] .
  show "getBillingConfig protocol s = (Inr p, t) \<Longrightarrow> billing_policy_accepted (pc_policy p) \<and> 1 \<le> bc_priceKopecks (pc_policy p)"
    using getBillingConfig_accepted by blast
  assume compliance: "getComplianceConfig protocol s = (Inr l, t)"
  then obtain release u secret u1 keyId u2 terms u3 privacy where release: "optionalEnvConfig ''ENV_RELEASE'' s = (Inr release, u)"
    and long: "\<not> byteLength secret < 32"
    and terms: "legal_document_of protocol ''TERMS'' ''http://localhost/legal/terms'' (release = Some ''prod'') u2 = (Inr terms, u3)"
    and privacy: "legal_document_of protocol ''PRIVACY'' ''http://localhost/legal/privacy'' (release = Some ''prod'') u3 = (Inr privacy, t)"
    and l: "l = \<lparr>cc_terms = terms, cc_privacy = privacy, cc_evidenceSecret = secret, cc_evidenceKeyId = keyId\<rparr>"
    unfolding getComplianceConfig_def Let_def bindE_Inr if_throw_Inr ret_Inr by blast
  then have documents: "real_document protocol (cc_terms l) \<and> real_document protocol (cc_privacy l)"
    if "release = Some ''prod''"
    using that legal_document_real by simp
  have "release = Some ''prod''" if "es_vars s ''ENV_RELEASE'' = Some ''prod''"
    using release that by (auto simp: optionalEnvConfig_def eff_defs nonempty_def split: option.splits if_splits)
  with long documents l show "32 \<le> byteLength (cc_evidenceSecret l) \<and>
      (es_vars s ''ENV_RELEASE'' = Some ''prod'' \<longrightarrow> real_document protocol (cc_terms l) \<and> real_document protocol (cc_privacy l))"
    by simp
qed

section \<open>The release without a name\<close>

text \<open>An environment with what the engine and the terms need, and no \<^verbatim>\<open>ENV_RELEASE\<close>.\<close>

definition sim_environment :: env_state where
  "sim_environment =
     \<lparr>es_vars = [''CONSENT_EVIDENCE_SECRET'' \<mapsto> replicate 32 CHR ''s'', ''ENCRYPTION_KEY'' \<mapsto> ''k''],
      es_files = \<lambda>_. Inl (newError ''ENOENT''), es_fileValues = \<lambda>_. None, es_saas = None\<rparr>"

definition sim_protocol :: "string \<Rightarrow> js_error + string" where
  "sim_protocol url = (if take 5 url = ''http:'' then Inr ''http:'' else if take 6 url = ''https:'' then Inr ''https:'' else Inl (typeError ''Invalid URL''))"

lemma optionalEnvConfig_direct:
  "es_vars s (name @ ''_FILE'') = None \<Longrightarrow> optionalEnvConfig name s = (Inr (nonempty (es_vars s name)), s)"
  by (auto simp: optionalEnvConfig_def eff_defs nonempty_def split: option.split)

lemma sim_env_reads [simp]:
  "name \<in> set [''ENV_RELEASE'', ''CONSENT_EVIDENCE_KEY_ID'', ''TERMS_VERSION'', ''TERMS_URL'',
     ''TERMS_SHA256'', ''PRIVACY_VERSION'', ''PRIVACY_URL'', ''PRIVACY_SHA256'', ''APP_MODE'', ''TRADING_HOST'', ''TRADING_USER'',
     ''TRADING_PASSWORD'', ''PORT'', ''TONATIUH_DATA_DIR'', ''TONATIUH_API_TOKEN'', ''HOST''] \<Longrightarrow>
   optionalEnvConfig name sim_environment = (Inr None, sim_environment)"
  "optionalEnvConfig ''CONSENT_EVIDENCE_SECRET'' sim_environment = (Inr (Some (replicate 32 CHR ''s'')), sim_environment)"
  "optionalEnvConfig ''ENCRYPTION_KEY'' sim_environment = (Inr (Some ''k''), sim_environment)"
  by (subst optionalEnvConfig_direct; auto simp: sim_environment_def nonempty_def)+

lemma fst_ret [simp]: "fst (ret x s) = Inr x"
  by (simp add: ret_def)

lemma sim_versions: "version_format ''2026-01''" "version_format ''development-v1''"
  by (simp_all add: version_format_def version_start_def version_char_def is_digit_def toLowerCase_char_def Let_def)

lemma sim_byteLength: "byteLength (replicate 32 CHR ''s'') = 32"
  by (simp add: byteLength_def sum_list_replicate)

lemma sim_zeros: "sha256_format (replicate 64 CHR ''0'')" "zeros (replicate 64 CHR ''0'')"
    "toLowerCase (replicate 64 CHR ''0'') = replicate 64 CHR ''0''"
  by (simp_all add: sha256_format_def zeros_def toLowerCase_def toLowerCase_char_def list_all_iff)

text \<open>The settings of the engine take a release that is not named for production, the terms do not.\<close>

theorem unnamed_release_is_not_production:
  shows "\<exists>e l s. es_vars s ''ENV_RELEASE'' = None \<and> fst (ENV id ''/data'' s) = Inr e \<and> en_ENV_RELEASE e = ''prod'' \<and>
     fst (getComplianceConfig sim_protocol s) = Inr l \<and> zeros (ld_sha256 (cc_terms l)) \<and>
     ld_url (cc_terms l) = ''http://localhost/legal/terms''"
proof -
  have "es_vars sim_environment ''ENV_RELEASE'' = None" by (simp add: sim_environment_def)
  moreover have "\<exists>e. fst (ENV id ''/data'' sim_environment) = Inr e \<and> en_ENV_RELEASE e = ''prod''"
    by (simp add: ENV_def app_mode_setting_def webEnv_def setting_def envConfig_def numericEnvConfig_def nonempty_def bindE_of_Inr)
  moreover have "\<exists>l. fst (getComplianceConfig sim_protocol sim_environment) = Inr l \<and> zeros (ld_sha256 (cc_terms l)) \<and>
      ld_url (cc_terms l) = ''http://localhost/legal/terms''"
    by (simp add: getComplianceConfig_def evidence_secret_def legal_document_of_def document_version_def document_url_def
        document_digest_def setting_def bindE_of_Inr sim_versions sim_byteLength sim_zeros sim_protocol_def Let_def)
  ultimately show ?thesis by blast
qed

end
