(* ===== verification/Desktop_Api.thy ===== *)
theory Desktop_Api
  imports Environment Worker_Manager Config_Repository
begin

text \<open>
  The HTTP service of the trading engine: \<^verbatim>\<open>src/index.ts\<close>, \<^verbatim>\<open>src/router\<close>,
  \<^verbatim>\<open>src/middleware/local-api-security.ts\<close> and the list of databases of
  \<^verbatim>\<open>src/plugins/FileSystemUtils\<close>. A request is handled as a whole; the state holds the configuration
  database, the databases of the configurations by name, the file with their list, what the process has
  read of it, and the manager of the workers.

  Of \<^verbatim>\<open>POST /updateConfig\<close> and \<^verbatim>\<open>POST /createConfig\<close> the checks are modelled: what they store may hold
  a null or an unknown exchange, which the rows of the model do not have. Of several databases that
  fail at once the first is reported.
\<close>

section \<open>The list of databases\<close>

text \<open>\<open>Broken\<close> is a file that \<^verbatim>\<open>JSON.parse\<close> rejects. The keys of an object that are numbers come in ascending order.\<close>

datatype list_file = Absent | Broken | Listed "(nat \<times> string) list"

fun set_entry :: "nat \<Rightarrow> string \<Rightarrow> (nat \<times> string) list \<Rightarrow> (nat \<times> string) list" where
  "set_entry k v [] = [(k, v)]"
| "set_entry k v ((l, w) # xs) =
     (if k < l then (k, v) # (l, w) # xs else if k = l then (k, v) # xs else (l, w) # set_entry k v xs)"

definition readFromFile :: "list_file \<Rightarrow> (nat \<times> string) list" where
  "readFromFile f = (case f of Listed xs \<Rightarrow> xs | _ \<Rightarrow> [])"

definition writeToFile :: "nat \<Rightarrow> string \<Rightarrow> list_file \<Rightarrow> list_file" where
  "writeToFile configId dbName f = Listed (set_entry configId dbName (readFromFile f))"

lemma map_of_set_entry: "map_of (set_entry k v xs) l = (if l = k then Some v else map_of xs l)"
  if "sorted_wrt (<) (map fst xs)"
  using that by (induction k v xs rule: set_entry.induct) auto

lemma set_entry_keys: "set (map fst (set_entry k v xs)) = insert k (set (map fst xs))"
  by (induction k v xs rule: set_entry.induct) auto

lemma set_entry_sorted: "sorted_wrt (<) (map fst xs) \<Longrightarrow> sorted_wrt (<) (map fst (set_entry k v xs))"
proof (induction k v xs rule: set_entry.induct)
  case (2 k v l w xs)
  then show ?case using set_entry_keys [of k v xs] by auto
qed simp

section \<open>State and effects\<close>

record 'x desktop =
  dk_config :: "'x world"
  dk_trading :: "string \<Rightarrow> 'x world"
  dk_file :: list_file
  dk_databaseList :: "(nat \<times> string) list"
  dk_repos :: "string list"
  dk_manager :: manager
  dk_isShuttingDown :: bool

datatype desktop_error = HttpError nat string | Thrown js_error

type_synonym ('x, 'a) desk = "'x desktop \<Rightarrow> (desktop_error + 'a) \<times> 'x desktop"

definition retD :: "'a \<Rightarrow> ('x, 'a) desk" where
  "retD x s = (Inr x, s)"

definition bindD :: "('x, 'a) desk \<Rightarrow> ('a \<Rightarrow> ('x, 'b) desk) \<Rightarrow> ('x, 'b) desk" where
  "bindD m f s = (case m s of (Inl e, t) \<Rightarrow> (Inl e, t) | (Inr x, t) \<Rightarrow> f x t)"

definition checkD :: "desktop_error + 'a \<Rightarrow> ('x, 'a) desk" where
  "checkD r s = (r, s)"

definition modifyD :: "('x desktop \<Rightarrow> 'x desktop) \<Rightarrow> ('x, unit) desk" where
  "modifyD f s = (Inr (), f s)"

definition configD :: "('x world, 'a) eff \<Rightarrow> ('x, 'a) desk" where
  "configD m s =
     (case m (dk_config s) of (Inl e, w) \<Rightarrow> (Inl (Thrown e), s\<lparr>dk_config := w\<rparr>) | (Inr x, w) \<Rightarrow> (Inr x, s\<lparr>dk_config := w\<rparr>))"

definition databaseD :: "('x world, 'a) eff \<Rightarrow> string \<Rightarrow> ('x, 'a) desk" where
  "databaseD m name s =
     (case m (dk_trading s name) of
        (Inl e, w) \<Rightarrow> (Inl (Thrown e), s\<lparr>dk_trading := (dk_trading s)(name := w)\<rparr>)
      | (Inr x, w) \<Rightarrow> (Inr x, s\<lparr>dk_trading := (dk_trading s)(name := w)\<rparr>))"

fun eachD :: "('a \<Rightarrow> ('x, 'b) desk) \<Rightarrow> 'a list \<Rightarrow> ('x, 'b list) desk" where
  "eachD f [] = retD []"
| "eachD f (x # xs) = bindD (f x) (\<lambda>y. bindD (eachD f xs) (\<lambda>ys. retD (y # ys)))"

definition reposD :: "('x world, 'a) eff \<Rightarrow> ('x, 'a list) desk" where
  "reposD m s = eachD (databaseD m) (dk_repos s) s"

lemma bindD_Inr: "bindD m f s = (Inr y, t) \<longleftrightarrow> (\<exists>x u. m s = (Inr x, u) \<and> f x u = (Inr y, t))"
  by (auto simp: bindD_def split: prod.splits sum.splits)

lemma bindD_simps [simp]:
  "bindD (retD x) f = f x" "bindD (checkD (Inr x)) f = f x" "bindD (checkD (Inl e)) f = checkD (Inl e)"
  by (auto simp: bindD_def retD_def checkD_def)

section \<open>router.utils.ts\<close>

definition CONFIG_FIELDS :: "string list" where
  "CONFIG_FIELDS =
     [''id'', ''apiKey'', ''privateKey'', ''password'', ''symbol'', ''positionSize'', ''countGridSize'', ''gridSize'',
      ''percentBuyBackStep'', ''takeProfit'', ''stopLoss'', ''isEmergencyStop'', ''isFibonacci'', ''percentProfit'',
      ''percentFromBalance'', ''candlePriceRange'', ''isPercentTargetAfterTakeProfit'', ''isCapitalizeDeltaFromSale'',
      ''isCoinAccumulation'', ''isAutoStartTrading'', ''isStopTrading'', ''isOnlyBuy'', ''percentTargetAfterTakeProfit'',
      ''balanceDistribution'', ''exchange'', ''loggerEvent'']"

text \<open>\<^verbatim>\<open>Number(value)\<close>. An array is the number its text is: with one element that element's, with more there is a comma.\<close>

fun Number_json :: "json option \<Rightarrow> jsnum" where
  "Number_json None = NaN"
| "Number_json (Some JNull) = Fin 0"
| "Number_json (Some (JBool b)) = (if b then Fin 1 else Fin 0)"
| "Number_json (Some (JNum n)) = n"
| "Number_json (Some (JStr s)) = Number_text s"
| "Number_json (Some (JArr [])) = Fin 0"
| "Number_json (Some (JArr [JBool b])) = NaN"
| "Number_json (Some (JArr [v])) = Number_json (Some v)"
| "Number_json (Some (JArr (_ # _ # _))) = NaN"
| "Number_json (Some (JObj _)) = NaN"

definition parsePositiveId :: "json option \<Rightarrow> string \<Rightarrow> desktop_error + nat" where
  "parsePositiveId v name =
     (case integer_of (Number_json v) of
        Some n \<Rightarrow> if n \<le> 0 then Inl (HttpError 400 (name @ '' must be a positive integer.'')) else Inr (nat n)
      | None \<Rightarrow> Inl (HttpError 400 (name @ '' must be a positive integer.'')))"

definition text_fields :: "string list" where
  "text_fields = [''symbol'', ''exchange'', ''candlePriceRange'', ''apiKey'', ''privateKey'', ''password'', ''loggerEvent'']"

definition check_text_field :: "json_object \<Rightarrow> string \<Rightarrow> desktop_error + unit" where
  "check_text_field config key =
     (case map_of config key of
        None \<Rightarrow> Inr ()
      | Some (JStr _) \<Rightarrow> Inr ()
      | Some _ \<Rightarrow> Inl (HttpError 400 (key @ '' must be a string.'')))"

definition check_field :: "string \<times> json \<Rightarrow> desktop_error + unit" where
  "check_field entry =
     (case entry of (key, v) \<Rightarrow>
        if v = JNull \<or> key = ''id'' then Inr ()
        else if take 2 key = ''is'' \<or> key = ''balanceDistribution''
        then (case v of JBool _ \<Rightarrow> Inr () | _ \<Rightarrow> Inl (HttpError 400 (key @ '' must be a boolean.'')))
        else if key \<notin> set text_fields
        then (case v of
                JNum n \<Rightarrow> if isFinite n then Inr () else Inl (HttpError 400 (key @ '' must be a finite number.''))
              | _ \<Rightarrow> Inl (HttpError 400 (key @ '' must be a finite number.'')))
        else Inr ())"

fun check_all :: "('a \<Rightarrow> desktop_error + unit) \<Rightarrow> 'a list \<Rightarrow> desktop_error + unit" where
  "check_all f [] = Inr ()"
| "check_all f (x # xs) = (case f x of Inl e \<Rightarrow> Inl e | Inr _ \<Rightarrow> check_all f xs)"

definition validateConfigPayload :: "json option \<Rightarrow> bool \<Rightarrow> desktop_error + json_object" where
  "validateConfigPayload v requireId =
     (case v of
        Some (JObj config) \<Rightarrow>
          let unknownFields = filter (\<lambda>key. key \<notin> set CONFIG_FIELDS) (map fst config)
          in if unknownFields \<noteq> [] then Inl (HttpError 400 (''Unknown config fields: '' @ join '', '' unknownFields @ ''.''))
             else (case if requireId then parsePositiveId (map_of config ''id'') ''id'' else Inr 1 of
                 Inl e \<Rightarrow> Inl e
               | Inr _ \<Rightarrow> (case check_all (check_text_field config) text_fields of
                   Inl e \<Rightarrow> Inl e
                 | Inr _ \<Rightarrow> (case check_all check_field config of Inl e \<Rightarrow> Inl e | Inr _ \<Rightarrow> Inr config)))
      | _ \<Rightarrow> Inl (HttpError 400 ''Config payload must be an object.''))"

section \<open>Answers\<close>

datatype desktop_body =
    BText string
  | BMessage string
  | BConfigs "config list"
  | BStopped string bool
  | BStarted bool worker_status
  | BWorkers "worker_status list"
  | BIndexes "string option list"
  | BSessions "session_type list list"
  | BProfits "jsnum option list"
  | BOrders "mem_order list list"
  | BBalance "balance_state option"
  | BBalances "balance_state list"
  | BInstance "string option"

record answer =
  an_status :: nat
  an_body :: desktop_body

definition ok :: "desktop_body \<Rightarrow> answer" where
  "ok body = \<lparr>an_status = 200, an_body = body\<rparr>"

definition sendError :: "desktop_error \<Rightarrow> answer" where
  "sendError e =
     (case e of
        HttpError status message \<Rightarrow> \<lparr>an_status = status, an_body = BMessage message\<rparr>
      | Thrown _ \<Rightarrow> \<lparr>an_status = 500, an_body = BMessage ''Unexpected server error.''\<rparr>)"

text \<open>\<^verbatim>\<open>try { ... res.send(...) } catch (error) { sendError(res, error) }\<close>.\<close>

definition answering :: "('x, answer) desk \<Rightarrow> 'x desktop \<Rightarrow> answer \<times> 'x desktop" where
  "answering m s = (case m s of (Inl e, t) \<Rightarrow> (sendError e, t) | (Inr a, t) \<Rightarrow> (a, t))"

section \<open>Routes\<close>

text \<open>The three keys that \<^verbatim>\<open>getConfig\<close> leaves out are empty here.\<close>

definition public_config :: "config \<Rightarrow> config" where
  "public_config c = c\<lparr>c_apiKey := '''', c_privateKey := '''', c_password := ''''\<rparr>"

definition get_config :: "'x platform \<Rightarrow> ('x, answer) desk" where
  "get_config P = bindD (configD (getConfig P)) (\<lambda>configs. retD (ok (BConfigs (map public_config configs))))"

definition update_config_request :: "json option \<Rightarrow> desktop_error + nat \<times> json_object" where
  "update_config_request body =
     (case validateConfigPayload body True of
        Inl e \<Rightarrow> Inl e
      | Inr payload \<Rightarrow>
          (case parsePositiveId (map_of payload ''id'') ''id'' of
             Inl e \<Rightarrow> Inl e
           | Inr configId \<Rightarrow> Inr (configId, filter (\<lambda>(k, _). k \<noteq> ''id'') payload)))"

definition create_config_request :: "json option \<Rightarrow> desktop_error + json_object" where
  "create_config_request body = validateConfigPayload body False"

text \<open>\<^verbatim>\<open>req.body?.configId\<close>.\<close>

definition body_config_id :: "json option \<Rightarrow> desktop_error + nat" where
  "body_config_id body =
     parsePositiveId (case body of Some (JObj b) \<Rightarrow> map_of b ''configId'' | _ \<Rightarrow> None) ''configId''"

definition disable_autostart :: "'x platform \<Rightarrow> json option \<Rightarrow> ('x, answer) desk" where
  "disable_autostart P body =
     bindD (checkD (body_config_id body)) (\<lambda>configId.
     bindD (configD (disableAutoStartTrading P configId)) (\<lambda>_. retD (ok (BText ''Autostart trading disabled!''))))"

definition emergency_stop :: "'x platform \<Rightarrow> json option \<Rightarrow> ('x, answer) desk" where
  "emergency_stop P body =
     bindD (checkD (body_config_id body)) (\<lambda>configId.
     bindD (configD (enableEmergencyStop P configId)) (\<lambda>_. retD (ok (BText ''Emergency stop enabled!''))))"

definition stopWorker :: "nat \<Rightarrow> ('x, bool) desk" where
  "stopWorker configId s = (case stop configId (dk_manager s) of (stopped, m) \<Rightarrow> (Inr stopped, s\<lparr>dk_manager := m\<rparr>))"

definition startWorker :: "config \<Rightarrow> ('x, bool \<times> worker_status) desk" where
  "startWorker config s = (case start config (dk_manager s) of (r, m) \<Rightarrow> (Inr r, s\<lparr>dk_manager := m\<rparr>))"

definition stop_trading :: "'x platform \<Rightarrow> json option \<Rightarrow> ('x, answer) desk" where
  "stop_trading P body =
     bindD (checkD (body_config_id body)) (\<lambda>configId.
     bindD (configD (enableStopTrading P configId)) (\<lambda>_.
     bindD (stopWorker configId) (\<lambda>stopped. retD (ok (BStopped ''Stop trading enabled!'' stopped)))))"

definition database_name :: "nat \<Rightarrow> string" where
  "database_name configId = ''trading_db_'' @ show_nat configId @ ''.sqlite''"

definition enlist :: "nat \<Rightarrow> ('x, unit) desk" where
  "enlist configId =
     modifyD (\<lambda>s. if nonempty (map_of (dk_databaseList s) configId) = None
                  then s\<lparr>dk_file := writeToFile configId (database_name configId) (dk_file s)\<rparr> else s)"

definition start_trading :: "'x platform \<Rightarrow> string \<Rightarrow> ('x, answer) desk" where
  "start_trading P param =
     bindD (checkD (parsePositiveId (Some (JStr param)) ''configId'')) (\<lambda>configId.
     bindD (enlist configId) (\<lambda>_.
     bindD (configD (getConfig P)) (\<lambda>configs.
       case find (\<lambda>c. c_id c = configId) configs of
         None \<Rightarrow> retD \<lparr>an_status = 404, an_body = BMessage (''Config '' @ show_nat configId @ '' was not found.'')\<rparr>
       | Some config \<Rightarrow>
           bindD (startWorker config) (\<lambda>(started, status).
             retD \<lparr>an_status = (if started then 201 else 200), an_body = BStarted started status\<rparr>))))"

definition orders_by_index :: "'x platform \<Rightarrow> string \<Rightarrow> ('x, answer) desk" where
  "orders_by_index P indexOperation =
     (if indexOperation = [] \<or> length indexOperation > 128 then checkD (Inl (HttpError 400 ''Invalid indexOperation.''))
      else bindD (reposD (getAllOrdersByIndexOperation P indexOperation)) (\<lambda>r. retD (ok (BOrders r))))"

definition active_session :: "'x platform \<Rightarrow> string \<Rightarrow> ('x, answer) desk" where
  "active_session P param =
     bindD (checkD (parsePositiveId (Some (JStr param)) ''configId'')) (\<lambda>configId.
     bindD (reposD (checkingActiveSession P configId)) (\<lambda>r. retD (ok (BIndexes r))))"

datatype desktop_route =
    GetConfig
  | DisableAutostart "json option"
  | EmergencyStop "json option"
  | StopTrading "json option"
  | StartTrading string
  | TradingStatus
  | Status
  | GetActiveSession string
  | GetAllSession
  | GetAllHistorySession
  | GetAllProfitSession
  | GetAllActiveOrders
  | GetAllOrdersByIndexOperation string
  | GetBalance
  | GetAllBalance
  | GetInstance

fun route_path :: "desktop_route \<Rightarrow> string" where
  "route_path GetConfig = ''/config/getConfig''"
| "route_path (DisableAutostart _) = ''/config/disableAutostart''"
| "route_path (EmergencyStop _) = ''/config/emergencyStop''"
| "route_path (StopTrading _) = ''/config/stopTrading''"
| "route_path (StartTrading p) = ''/startTrading/'' @ p"
| "route_path TradingStatus = ''/trading/status''"
| "route_path Status = ''/status''"
| "route_path (GetActiveSession p) = ''/session/getActiveSession/'' @ p"
| "route_path GetAllSession = ''/session/getAllSession''"
| "route_path GetAllHistorySession = ''/session/getAllHistorySession''"
| "route_path GetAllProfitSession = ''/session/getAllProfitSession''"
| "route_path GetAllActiveOrders = ''/operation/getAllActiveOrders''"
| "route_path (GetAllOrdersByIndexOperation i) = ''/operation/getAllOrdersByIndexOperation/'' @ i"
| "route_path GetBalance = ''/balance/getBalance''"
| "route_path GetAllBalance = ''/balance/getAllBalance''"
| "route_path GetInstance = ''/identity/getInstance''"

fun handle :: "'x platform \<Rightarrow> desktop_route \<Rightarrow> ('x, answer) desk" where
  "handle P GetConfig = get_config P"
| "handle P (DisableAutostart body) = disable_autostart P body"
| "handle P (EmergencyStop body) = emergency_stop P body"
| "handle P (StopTrading body) = stop_trading P body"
| "handle P (StartTrading p) = start_trading P p"
| "handle P TradingStatus = (\<lambda>s. (Inr (ok (BWorkers (getStatuses (dk_manager s)))), s))"
| "handle P Status = retD (ok (BText ''Trading service is running''))"
| "handle P (GetActiveSession p) = active_session P p"
| "handle P GetAllSession = bindD (reposD (getAllSession P)) (\<lambda>r. retD (ok (BSessions r)))"
| "handle P GetAllHistorySession = bindD (reposD (getAllSession P)) (\<lambda>r. retD (ok (BSessions r)))"
| "handle P GetAllProfitSession = bindD (reposD (getAllProfitSession P)) (\<lambda>r. retD (ok (BProfits r)))"
| "handle P GetAllActiveOrders = bindD (reposD (getAllActiveOrders P)) (\<lambda>r. retD (ok (BOrders r)))"
| "handle P (GetAllOrdersByIndexOperation i) = orders_by_index P i"
| "handle P GetBalance = bindD (configD (getLastBalance P)) (\<lambda>r. retD (ok (BBalance r)))"
| "handle P GetAllBalance = bindD (configD (getAllBalance P)) (\<lambda>r. retD (ok (BBalances r)))"
| "handle P GetInstance = bindD (configD (getInstance P)) (\<lambda>r. retD (ok (BInstance r)))"

section \<open>local-api-security.ts\<close>

text \<open>None lets the request through.\<close>

definition localApiSecurity :: "runtime_settings \<Rightarrow> string \<Rightarrow> string \<Rightarrow> string option \<Rightarrow> answer option" where
  "localApiSecurity E method path authorization =
     (if path = ''/status'' \<or> method = ''OPTIONS'' then None
      else case en_API_TOKEN E of
        None \<Rightarrow>
          if en_ENV_RELEASE E = ''dev'' then None
          else Some \<lparr>an_status = 503, an_body = BMessage ''TONATIUH_API_TOKEN is not configured.''\<rparr>
      | Some token \<Rightarrow>
          if authorization \<noteq> Some (''Bearer '' @ token) then Some \<lparr>an_status = 401, an_body = BMessage ''Unauthorized.''\<rparr>
          else None)"

definition localCorsOrigin :: "runtime_settings \<Rightarrow> string option \<Rightarrow> string option \<Rightarrow> js_error + bool" where
  "localCorsOrigin E cors_origins origin =
     (case nonempty origin of
        None \<Rightarrow> Inr True
      | Some o1 \<Rightarrow>
          let allowed = filter (\<lambda>v. v \<noteq> []) (map trim (split_on CHR '','' (nullish cors_origins '''')))
          in if en_APP_MODE E = Desktop \<and> o1 = ''null'' then Inr True
             else if en_APP_MODE E = Web \<and> o1 \<in> set allowed then Inr True
             else Inl (newError (''Origin '' @ o1 @ '' is not allowed.'')))"

section \<open>index.ts\<close>

definition serve :: "runtime_settings \<Rightarrow> 'x platform \<Rightarrow> string option \<Rightarrow> desktop_route \<Rightarrow> 'x desktop \<Rightarrow> answer \<times> 'x desktop" where
  "serve E P authorization route s =
     (case localApiSecurity E ''GET'' (route_path route) authorization of
        Some a \<Rightarrow> (a, s)
      | None \<Rightarrow> answering (handle P route) s)"

definition autoStart :: "config \<Rightarrow> 'x desktop \<Rightarrow> 'x desktop" where
  "autoStart config s =
     (if c_isAutoStartTrading config then snd (bindD (enlist (c_id config)) (\<lambda>_. startWorker config) s) else s)"

definition autoStarterTrading :: "config list \<Rightarrow> 'x desktop \<Rightarrow> 'x desktop" where
  "autoStarterTrading configs s = fold autoStart configs s"

text \<open>The routers read the list when they are loaded, \<^verbatim>\<open>main\<close> when it starts; nobody changes the file in between.\<close>

definition main :: "'x platform \<Rightarrow> ('x, unit) desk" where
  "main P =
     bindD (modifyD (\<lambda>s. s\<lparr>dk_repos := map snd (readFromFile (dk_file s)), dk_databaseList := readFromFile (dk_file s),
       dk_manager := no_workers, dk_isShuttingDown := False\<rparr>)) (\<lambda>_.
     bindD (configD (getConfig P)) (\<lambda>configs. modifyD (autoStarterTrading configs)))"

definition shutdown :: "'x desktop \<Rightarrow> 'x desktop" where
  "shutdown s =
     (if dk_isShuttingDown s then s else s\<lparr>dk_isShuttingDown := True, dk_manager := stopAll (dk_manager s)\<rparr>)"

end
