(* ===== verification/Desktop_Flow.thy ===== *)
theory Desktop_Flow
  imports Desktop_Api Simulated_Exchange
begin

text \<open>
  What the HTTP service of the engine keeps, whatever requests, exits and timers come: every worker has its
  database in the list, a stop is final, and nothing happens without the token; and what it does not do.
\<close>

section \<open>Every worker finds its database\<close>

text \<open>\<open>from I m J\<close>: from a state with \<open>I\<close>, a handler ends in one with \<open>J\<close>, whether it returns or throws.\<close>

definition leads :: "('x desktop \<Rightarrow> bool) \<Rightarrow> ('x, 'a) desk \<Rightarrow> ('x desktop \<Rightarrow> bool) \<Rightarrow> bool" where
  "leads I m J \<longleftrightarrow> (\<forall>s. I s \<longrightarrow> J (snd (m s)))"

named_theorems leads_rules \<open>what the effects of the desktop service lead to\<close>

lemma leads_bind:
  assumes "leads I m J" and "\<And>x. leads J (f x) K" and "\<And>s. J s \<Longrightarrow> K s"
  shows "leads I (bindD m f) K"
  unfolding leads_def
proof (intro allI impI)
  fix s assume "I s"
  then have J: "J (snd (m s))" using assms(1) by (simp add: leads_def)
  show "K (snd (bindD m f s))"
    using J assms(2,3) by (auto simp: bindD_def leads_def split: prod.split sum.split)
qed

lemma leads_bind_same [leads_rules]: "leads I m I \<Longrightarrow> (\<And>x. leads I (f x) I) \<Longrightarrow> leads I (bindD m f) I"
  by (rule leads_bind)

lemma leads_basic [leads_rules]: "leads I (retD x) I" "leads I (checkD r) I"
  by (simp_all add: leads_def retD_def checkD_def)

lemma leads_weaken: "leads I m J \<Longrightarrow> (\<And>s. J s \<Longrightarrow> K s) \<Longrightarrow> leads I m K"
  by (auto simp: leads_def)

lemma leads_if [leads_rules]: "leads I m J \<Longrightarrow> leads I n J \<Longrightarrow> leads I (if b then m else n) J"
  by simp

definition other_databases :: "('x desktop \<Rightarrow> bool) \<Rightarrow> bool" where
  "other_databases I \<longleftrightarrow> (\<forall>s w d. I (s\<lparr>dk_config := w\<rparr>) = I s \<and> I (s\<lparr>dk_trading := d\<rparr>) = I s)"

lemma leads_configD [leads_rules]: "other_databases I \<Longrightarrow> leads I (configD m) I"
  by (auto simp: leads_def configD_def other_databases_def split: prod.split sum.split)

lemma leads_databaseD: "other_databases I \<Longrightarrow> leads I (databaseD m name) I"
  by (auto simp: leads_def databaseD_def other_databases_def split: prod.split sum.split)

lemma leads_eachD: "(\<And>x. leads I (f x) I) \<Longrightarrow> leads I (eachD f xs) I"
  by (induction xs) (auto intro: leads_rules)

lemma leads_reposD [leads_rules]: "other_databases I \<Longrightarrow> leads I (reposD m) I"
  using leads_eachD [of I "databaseD m", OF leads_databaseD] by (simp add: leads_def reposD_def)

definition worker_ids :: "manager \<Rightarrow> nat list" where
  "worker_ids m = map (\<lambda>w. c_id (wk_config w)) (wm_workers m)"

lemma worker_ids_touch:
  assumes "wk_config w = wk_config (wm_workers m ! i)"
  shows "map (\<lambda>w. c_id (wk_config w)) ((wm_workers m)[i := w]) = worker_ids m"
proof (cases "i < length (wm_workers m)")
  case True
  with assms have "(map (\<lambda>w. c_id (wk_config w)) (wm_workers m))[i := c_id (wk_config w)] = map (\<lambda>w. c_id (wk_config w)) (wm_workers m)"
    by (metis list_update_id nth_map)
  then show ?thesis by (simp add: worker_ids_def map_update)
qed (simp add: worker_ids_def list_update_beyond)

lemma worker_ids_stop: "worker_ids (snd (stop c m)) = worker_ids m"
  using worker_ids_touch by (auto simp: stop_def worker_ids_def split: option.split)

lemma worker_ids_stopAll: "worker_ids (stopAll m) = worker_ids m"
  unfolding stopAll_def
  by (rule fold_invariant [where P = "\<lambda>t. worker_ids t = worker_ids m" and Q = "\<lambda>_. True"]) (simp_all add: worker_ids_stop)

lemma worker_ids_start: "set (worker_ids (snd (start config m))) \<subseteq> insert (c_id config) (set (worker_ids m))"
  by (auto simp: start_def worker_ids_def launch_def Let_def split: option.split)

lemma worker_ids_exit: "worker_ids (on_exit i code (child_exits i code m)) = worker_ids m"
proof -
  have exits: "worker_ids (child_exits i code m) = worker_ids m"
    using worker_ids_touch [of "(wm_workers m ! i)\<lparr>wk_running := False, wk_exitCode := code, wk_connected := False\<rparr>" m i]
    by (simp add: child_exits_def worker_ids_def)
  have "worker_ids (on_exit i code t) = worker_ids t" for t
    using worker_ids_touch [of "(wm_workers t ! i)\<lparr>wk_restartAttempts := Suc (wk_launchedWith (wm_workers t ! i))\<rparr>" t i]
    by (simp add: on_exit_def worker_ids_def Let_def)
  with exits show ?thesis by simp
qed

lemma worker_ids_restart:
  assumes "wm_inv m" and "r \<in> set (wm_restarts m)"
  shows "set (worker_ids (on_restart_timer r m)) = set (worker_ids m)"
proof -
  have "fst r < length (wm_workers m)"
    using wm_invD(3) [OF assms(1), of "fst r" "snd r"] assms(2) by simp
  then have "c_id (wk_config (wm_workers m ! fst r)) \<in> set (worker_ids m)" by (simp add: worker_ids_def)
  then show ?thesis by (auto simp: on_restart_timer_def launch_def worker_ids_def Let_def)
qed

definition is_child_event :: "wm_event \<Rightarrow> bool" where
  "is_child_event e = (case e of Exited _ _ \<Rightarrow> True | RestartTimer _ \<Rightarrow> True | KillTimer _ \<Rightarrow> True | _ \<Rightarrow> False)"

lemma worker_ids_child_event:
  assumes "wm_step m e n" and "is_child_event e" and "wm_inv m"
  shows "set (worker_ids n) = set (worker_ids m)"
  using assms by (cases rule: wm_step.cases)
    (auto simp: is_child_event_def worker_ids_exit worker_ids_restart, simp_all add: on_kill_timer_def worker_ids_def)

text \<open>What may happen to the service: a request, an event of a child, the end, and what the workers store.\<close>

datatype 'x desk_event = Request "string option" desktop_route | Child wm_event | Terminated | WorkersStore "'x world" "string \<Rightarrow> 'x world"

inductive desk_step :: "runtime_settings \<Rightarrow> 'x platform \<Rightarrow> 'x desktop \<Rightarrow> 'x desk_event \<Rightarrow> 'x desktop \<Rightarrow> bool" for E P where
  desk_request: "desk_step E P s (Request authorization route) (snd (serve E P authorization route s))"
| desk_child: "wm_step (dk_manager s) e m \<Longrightarrow> is_child_event e \<Longrightarrow> desk_step E P s (Child e) (s\<lparr>dk_manager := m\<rparr>)"
| desk_shutdown: "desk_step E P s Terminated (shutdown s)"
| desk_workers: "desk_step E P s (WorkersStore w d) (s\<lparr>dk_config := w, dk_trading := d\<rparr>)"

inductive desk_run :: "runtime_settings \<Rightarrow> 'x platform \<Rightarrow> 'x desktop \<Rightarrow> 'x desk_event list \<Rightarrow> 'x desktop \<Rightarrow> bool" for E P where
  desk_nil: "desk_run E P s [] s"
| desk_snoc: "desk_run E P s es t \<Longrightarrow> desk_step E P t e u \<Longrightarrow> desk_run E P s (es @ [e]) u"

definition has_database :: "nat \<Rightarrow> 'x desktop \<Rightarrow> bool" where
  "has_database c s \<longleftrightarrow> nonempty (map_of (readFromFile (dk_file s)) c) \<noteq> None"

definition desk_inv :: "'x desktop \<Rightarrow> bool" where
  "desk_inv s \<longleftrightarrow>
     sorted_wrt (<) (map fst (readFromFile (dk_file s))) \<and>
     (\<forall>k. nonempty (map_of (dk_databaseList s) k) \<noteq> None \<longrightarrow> has_database k s) \<and>
     (\<forall>c \<in> set (worker_ids (dk_manager s)). has_database c s) \<and> wm_inv (dk_manager s)"

lemma desk_inv_frame [simp]:
  "desk_inv (s\<lparr>dk_config := w\<rparr>) = desk_inv s" "desk_inv (s\<lparr>dk_trading := d\<rparr>) = desk_inv s"
  "has_database c (s\<lparr>dk_config := w\<rparr>) = has_database c s" "has_database c (s\<lparr>dk_trading := d\<rparr>) = has_database c s"
  "has_database c (s\<lparr>dk_manager := m\<rparr>) = has_database c s"
  by (simp_all add: desk_inv_def has_database_def)

lemma other_databases_inv [simp]: "other_databases desk_inv" "other_databases (\<lambda>s. desk_inv s \<and> has_database c s)"
  by (simp_all add: other_databases_def)

lemma readFromFile_write [simp]: "readFromFile (writeToFile k v f) = set_entry k v (readFromFile f)"
  by (simp add: writeToFile_def readFromFile_def)

lemma leads_enlist: "leads desk_inv (enlist c) (\<lambda>s. desk_inv s \<and> has_database c s)"
  unfolding leads_def
proof (intro allI impI)
  fix s :: "'x desktop" assume inv: "desk_inv s"
  have "database_name c \<noteq> []" by (simp add: database_name_def)
  moreover have "has_database k (s\<lparr>dk_file := writeToFile c (database_name c) (dk_file s)\<rparr>) \<longleftrightarrow> k = c \<or> has_database k s" for k
    using inv \<open>database_name c \<noteq> []\<close> by (simp add: desk_inv_def has_database_def map_of_set_entry nonempty_def)
  ultimately show "desk_inv (snd (enlist c s)) \<and> has_database c (snd (enlist c s))"
    using inv by (auto simp: enlist_def modifyD_def desk_inv_def set_entry_sorted)
qed

lemma leads_startWorker: "leads (\<lambda>s. desk_inv s \<and> has_database (c_id config) s) (startWorker config) desk_inv"
  unfolding leads_def
proof (intro allI impI)
  fix s :: "'x desktop" assume "desk_inv s \<and> has_database (c_id config) s"
  then show "desk_inv (snd (startWorker config s))"
    using worker_ids_start [of config "dk_manager s"] start_inv [of "dk_manager s" config]
    by (auto simp: startWorker_def desk_inv_def has_database_def split: prod.split)
qed

lemma leads_stopWorker [leads_rules]: "leads desk_inv (stopWorker c) desk_inv"
  using worker_ids_stop stop_inv
  by (auto simp: leads_def stopWorker_def desk_inv_def has_database_def split: prod.split) (metis snd_conv)+

lemma leads_start_trading: "leads desk_inv (start_trading P p) desk_inv"
  unfolding start_trading_def
proof (rule leads_bind_same [OF leads_basic(2)])
  fix c
  have started: "leads (\<lambda>s. desk_inv s \<and> has_database c s)
      (case find (\<lambda>f. c_id f = c) configs of
         None \<Rightarrow> retD \<lparr>an_status = 404, an_body = BMessage (''Config '' @ show_nat c @ '' was not found.'')\<rparr>
       | Some config \<Rightarrow>
           bindD (startWorker config) (\<lambda>(started, status).
             retD \<lparr>an_status = (if started then 201 else 200), an_body = BStarted started status\<rparr>)) desk_inv" for configs
  proof (cases "find (\<lambda>f. c_id f = c) configs")
    case None
    then show ?thesis by (simp add: leads_def retD_def)
  next
    case (Some config)
    then have "c_id config = c" by (auto simp: find_Some_iff)
    with Some leads_startWorker [of config] show ?thesis
      by (auto intro!: leads_bind leads_rules split: prod.split)
  qed
  show "leads desk_inv (bindD (enlist c) (\<lambda>_. bindD (configD (getConfig P)) (\<lambda>configs.
       case find (\<lambda>f. c_id f = c) configs of
         None \<Rightarrow> retD \<lparr>an_status = 404, an_body = BMessage (''Config '' @ show_nat c @ '' was not found.'')\<rparr>
       | Some config \<Rightarrow>
           bindD (startWorker config) (\<lambda>(started, status).
             retD \<lparr>an_status = (if started then 201 else 200), an_body = BStarted started status\<rparr>)))) desk_inv"
    by (rule leads_bind [OF leads_enlist leads_bind [OF leads_configD started]]) simp_all
qed

lemma leads_handle: "leads desk_inv (handle P route) desk_inv"
proof (cases route)
  case (StartTrading p)
  then show ?thesis by (simp add: leads_start_trading)
next
  case TradingStatus
  then show ?thesis by (simp add: leads_def)
qed (simp_all add: get_config_def disable_autostart_def emergency_stop_def stop_trading_def active_session_def
      orders_by_index_def leads_rules)

lemma desk_step_inv: "desk_step E P s e t \<Longrightarrow> desk_inv s \<Longrightarrow> desk_inv t"
proof (induction rule: desk_step.induct)
  case (desk_request s authorization route)
  then show ?case
    using leads_handle [of P route]
    by (auto simp: serve_def answering_def leads_def split: option.split prod.split sum.split)
next
  case (desk_child s e m)
  then show ?case
    using worker_ids_child_event wm_step_inv by (simp add: desk_inv_def has_database_def)
next
  case (desk_shutdown s)
  then show ?case by (simp add: shutdown_def desk_inv_def has_database_def worker_ids_stopAll stopAll_inv)
qed simp

lemma desk_run_inv: "desk_run E P s es t \<Longrightarrow> desk_inv s \<Longrightarrow> desk_inv t"
  by (induction rule: desk_run.induct) (auto dest: desk_step_inv)

lemma autoStart_inv: "desk_inv s \<Longrightarrow> desk_inv (autoStart config s)"
  using leads_bind [OF leads_enlist [of "c_id config"] leads_startWorker [of config]]
  by (auto simp: autoStart_def leads_def)

lemma main_inv:
  assumes "sorted_wrt (<) (map fst (readFromFile (dk_file s)))"
  shows "desk_inv (snd (main P s))"
proof -
  let ?s = "s\<lparr>dk_repos := map snd (readFromFile (dk_file s)), dk_databaseList := readFromFile (dk_file s),
       dk_manager := no_workers, dk_isShuttingDown := False\<rparr>"
  have start: "desk_inv ?s"
    using assms by (simp add: desk_inv_def has_database_def worker_ids_def no_workers_inv) (simp add: no_workers_def)
  have auto_start: "leads desk_inv (modifyD (autoStarterTrading configs)) desk_inv" for configs :: "config list"
    unfolding leads_def modifyD_def autoStarterTrading_def
    by (auto intro!: fold_invariant [where P = desk_inv and Q = "\<lambda>_. True"] autoStart_inv)
  have "leads desk_inv (bindD (configD (getConfig P)) (\<lambda>configs. modifyD (autoStarterTrading configs))) desk_inv"
    by (intro leads_rules auto_start) simp
  with start show ?thesis
    by (simp add: main_def bindD_def [of "modifyD _"] modifyD_def leads_def)
qed

theorem every_worker_finds_its_database:
  assumes "sorted_wrt (<) (map fst (readFromFile (dk_file s)))" and "desk_run E P (snd (main P s)) es t"
    and "w \<in> set (wm_workers (dk_manager t))"
  shows "has_database (c_id (wk_config w)) t"
  using desk_run_inv [OF assms(2) main_inv [OF assms(1)]] assms(3) by (auto simp: desk_inv_def worker_ids_def)

section \<open>What the requests do to the workers\<close>

text \<open>A handler leaves the manager alone, but for the two that start and stop.\<close>

lemma other_databases_manager [simp]:
  "other_databases (\<lambda>s. dk_manager s = m)" "other_databases (\<lambda>s. dk_repos s = r)"
  by (simp_all add: other_databases_def)

lemma wm_run_single: "wm_step s e t \<Longrightarrow> wm_run s [e] t"
  using run_snoc [OF run_nil] by fastforce

definition quiet_for :: "nat \<Rightarrow> manager \<Rightarrow> manager \<Rightarrow> bool" where
  "quiet_for c m n \<longleftrightarrow> (\<exists>es. wm_run m es n \<and> \<not> list_ex (starts c) es)"

lemma quiet_for_refl [simp]: "quiet_for c m m"
  unfolding quiet_for_def by (intro exI [of _ "[]"]) (simp add: run_nil)

lemma quiet_for_step: "wm_step m e n \<Longrightarrow> \<not> starts c e \<Longrightarrow> quiet_for c m n"
  unfolding quiet_for_def by (intro exI [of _ "[e]"]) (simp add: wm_run_single)

lemma wm_run_trans: "wm_run t fs u \<Longrightarrow> wm_run s es t \<Longrightarrow> wm_run s (es @ fs) u"
  by (induction rule: wm_run.induct) (auto intro: run_snoc simp flip: append_assoc)

lemma quiet_for_trans: "quiet_for c m n \<Longrightarrow> quiet_for c n k \<Longrightarrow> quiet_for c m k"
  unfolding quiet_for_def by (metis wm_run_trans list_ex_append)

definition starts_trading :: "nat \<Rightarrow> 'x desk_event \<Rightarrow> bool" where
  "starts_trading c e = (case e of
     Request _ (StartTrading p) \<Rightarrow> parsePositiveId (Some (JStr p)) ''configId'' = Inr c
   | _ \<Rightarrow> False)"

abbreviation same_manager :: "manager \<Rightarrow> 'x desktop \<Rightarrow> bool" where
  "same_manager m s \<equiv> dk_manager s = m"

lemma quiet_for_stop: "quiet_for c m (snd (stop d m))"
  by (rule quiet_for_step [OF step_stop]) (simp add: starts_def)

lemma quiet_for_start: "c_id config \<noteq> c \<Longrightarrow> quiet_for c m (snd (start config m))"
  by (rule quiet_for_step [OF step_start]) (simp add: starts_def)

lemma stop_trading_manager:
  "leads (same_manager m) (stop_trading P body) (\<lambda>s. quiet_for c m (dk_manager s))"
proof -
  have stops: "leads (same_manager m) (stopWorker d) (\<lambda>s. quiet_for c m (dk_manager s))" for d
    using quiet_for_stop [of c m d] by (auto simp: leads_def stopWorker_def split: prod.split)
  show ?thesis
    unfolding stop_trading_def
    by (intro leads_bind [OF leads_basic(2)] leads_bind [OF leads_configD] leads_bind [OF stops] leads_basic) simp_all
qed

lemma start_trading_manager:
  assumes "parsePositiveId (Some (JStr p)) ''configId'' \<noteq> Inr c"
  shows "leads (same_manager m) (start_trading P p) (\<lambda>s. quiet_for c m (dk_manager s))"
proof (cases "parsePositiveId (Some (JStr p)) ''configId''")
  case (Inl e)
  then show ?thesis by (simp add: start_trading_def leads_def checkD_def)
next
  case (Inr d)
  have enlists: "leads (same_manager m) (enlist d) (same_manager m)"
    by (auto simp: leads_def enlist_def modifyD_def)
  have starts: "leads (same_manager m) (startWorker config) (\<lambda>s. quiet_for c m (dk_manager s))" if "c_id config = d" for config
    using that assms Inr quiet_for_start [of config c m]
    by (auto simp: leads_def startWorker_def split: prod.split)
  have found: "leads (same_manager m)
      (case find (\<lambda>f. c_id f = d) configs of
         None \<Rightarrow> retD \<lparr>an_status = 404, an_body = BMessage (''Config '' @ show_nat d @ '' was not found.'')\<rparr>
       | Some config \<Rightarrow>
           bindD (startWorker config) (\<lambda>(started, status).
             retD \<lparr>an_status = (if started then 201 else 200), an_body = BStarted started status\<rparr>))
      (\<lambda>s. quiet_for c m (dk_manager s))" for configs
  proof (cases "find (\<lambda>f. c_id f = d) configs")
    case None
    then show ?thesis by (simp add: leads_def retD_def)
  next
    case (Some config)
    then have "c_id config = d" by (auto simp: find_Some_iff)
    with Some starts show ?thesis
      by (auto intro!: leads_bind [OF starts] leads_basic split: prod.split)
  qed
  have "leads (same_manager m) (bindD (enlist d) (\<lambda>_. bindD (configD (getConfig P)) (\<lambda>configs.
       case find (\<lambda>f. c_id f = d) configs of
         None \<Rightarrow> retD \<lparr>an_status = 404, an_body = BMessage (''Config '' @ show_nat d @ '' was not found.'')\<rparr>
       | Some config \<Rightarrow>
           bindD (startWorker config) (\<lambda>(started, status).
             retD \<lparr>an_status = (if started then 201 else 200), an_body = BStarted started status\<rparr>))))
      (\<lambda>s. quiet_for c m (dk_manager s))"
    by (rule leads_bind [OF enlists leads_bind [OF leads_configD found]]) simp_all
  with Inr show ?thesis by (simp add: start_trading_def)
qed

lemma handle_rest:
  assumes "other_databases I" and "\<And>b. route \<noteq> StopTrading b" and "\<And>p. route \<noteq> StartTrading p"
  shows "leads I (handle P route) I"
proof (cases route)
  case TradingStatus
  then show ?thesis by (simp add: leads_def)
qed (use assms in \<open>simp_all add: get_config_def disable_autostart_def emergency_stop_def active_session_def
      orders_by_index_def leads_rules\<close>)

lemma handle_manager:
  assumes "\<not> starts_trading c (Request authorization route :: 'x desk_event)"
  shows "leads (same_manager m) (handle P route) (\<lambda>s. quiet_for c m (dk_manager s))"
proof (cases "\<exists>b. route = StopTrading b \<or> (\<exists>p. route = StartTrading p)")
  case True
  with assms show ?thesis by (auto simp: stop_trading_manager start_trading_manager starts_trading_def)
next
  case False
  then show ?thesis by (intro leads_weaken [OF handle_rest]) auto
qed

lemma desk_step_manager:
  assumes "desk_step E P s e t" and "\<not> starts_trading c e"
  shows "quiet_for c (dk_manager s) (dk_manager t)"
  using assms
proof (cases rule: desk_step.cases)
  case (desk_request authorization route)
  with assms(2) have "quiet_for c (dk_manager s) (dk_manager (snd (handle P route s)))"
    using handle_manager [of c authorization route "dk_manager s" P] by (auto simp: leads_def)
  with desk_request show ?thesis
    by (auto simp: serve_def answering_def split: option.split prod.split sum.split)
next
  case (desk_child f m)
  then have "\<not> starts c f" by (simp add: is_child_event_def starts_def split: wm_event.splits)
  with desk_child show ?thesis by (simp add: quiet_for_step)
next
  case desk_shutdown
  have "quiet_for c (dk_manager s) (stopAll (dk_manager s))"
    by (rule quiet_for_step [OF step_stopAll]) (simp add: starts_def)
  with desk_shutdown show ?thesis by (simp add: shutdown_def)
qed simp

lemma desk_run_manager:
  "desk_run E P s es t \<Longrightarrow> \<not> list_ex (starts_trading c) es \<Longrightarrow> quiet_for c (dk_manager s) (dk_manager t)"
proof (induction rule: desk_run.induct)
  case (desk_snoc s es t e u)
  then show ?case using quiet_for_trans desk_step_manager by fastforce
qed simp

text \<open>An accepted stop stores the flag and reaches the manager.\<close>

lemma stopWorker_eq: "stopWorker c s = (Inr (fst (stop c (dk_manager s))), s\<lparr>dk_manager := snd (stop c (dk_manager s))\<rparr>)"
  by (simp add: stopWorker_def split: prod.split)

lemma map_if_all:
  assumes "\<And>r. p r \<Longrightarrow> g (f r)" and "\<And>r. \<not> p r \<Longrightarrow> g r"
  shows "\<forall>r \<in> set (map (\<lambda>r. if p r then f r else r) xs). g r"
  using assms by auto

lemma enableStopTrading_ok:
  assumes "configD (enableStopTrading P c) s = (Inr x, u)"
  shows "\<forall>r \<in> set (trade_config (dk_config u)). c_id r = c \<longrightarrow> c_isStopTrading r" and "dk_manager u = dk_manager s"
proof -
  obtain y w where y: "p_db_fault P (ext (dk_config s)) = (y, w)" by fastforce
  let ?rows = "map (\<lambda>r. if c_id r = c then r\<lparr>c_isStopTrading := True\<rparr> else r) (trade_config (dk_config s))"
  have "y = None"
  proof (cases y)
    case (Some e)
    with assms y show ?thesis by (simp add: configD_def enableStopTrading_def queryE_def)
  qed
  with assms y have u: "u = s\<lparr>dk_config := (dk_config s)\<lparr>ext := w, trade_config := ?rows\<rparr>\<rparr>"
    by (simp add: configD_def enableStopTrading_def queryE_def)
  show "dk_manager u = dk_manager s" by (simp add: u)
  have "\<forall>r \<in> set ?rows. c_id r = c \<longrightarrow> c_isStopTrading r"
    by (rule map_if_all [where g = "\<lambda>r. c_id r = c \<longrightarrow> c_isStopTrading r"]) simp_all
  moreover have "trade_config (dk_config u) = ?rows" by (simp add: u)
  ultimately show "\<forall>r \<in> set (trade_config (dk_config u)). c_id r = c \<longrightarrow> c_isStopTrading r" by (simp only:)
qed

lemma stop_trading_ok:
  assumes "stop_trading P body s = (Inr a, t)" and "body_config_id body = Inr c"
  shows "\<forall>r \<in> set (trade_config (dk_config t)). c_id r = c \<longrightarrow> c_isStopTrading r"
    and "dk_manager t = snd (stop c (dk_manager s))" and "an_body a = BStopped ''Stop trading enabled!'' (fst (stop c (dk_manager s)))"
proof -
  obtain x u where stored: "configD (enableStopTrading P c) s = (Inr x, u)"
    and t: "t = u\<lparr>dk_manager := snd (stop c (dk_manager u))\<rparr>"
    and a: "a = ok (BStopped ''Stop trading enabled!'' (fst (stop c (dk_manager u))))"
    using assms by (auto simp: stop_trading_def bindD_Inr stopWorker_eq retD_def)
  note enableStopTrading_ok [OF stored]
  with t a show "\<forall>r \<in> set (trade_config (dk_config t)). c_id r = c \<longrightarrow> c_isStopTrading r"
    and "dk_manager t = snd (stop c (dk_manager s))" and "an_body a = BStopped ''Stop trading enabled!'' (fst (stop c (dk_manager s)))"
    by (simp_all add: ok_def)
qed


definition sim_settings :: runtime_settings where
  "sim_settings =
     \<lparr>en_TRADING_HOST = '''', en_TRADING_PORT = 0, en_TRADING_USER = '''', en_TRADING_PASSWORD = '''', en_ENCRYPTION_KEY = ''k'',
      en_PORT = 3131, en_ENV_RELEASE = ''prod'', en_APP_MODE = Desktop, en_DATA_DIR = ''/data'', en_API_TOKEN = Some ''t'',
      en_HOST = ''127.0.0.1''\<rparr>"

definition sim_engine :: "sim platform" where
  "sim_engine = (sim_platform Desktop)\<lparr>p_db_fault := \<lambda>x. (None, x)\<rparr>"

definition sim_desk_row :: config_row where
  "sim_desk_row = config.extend sim_config (config_row.fields None)"

definition sim_desktop :: "sim desktop" where
  "sim_desktop =
     \<lparr>dk_config = (sim_world sim_start)\<lparr>trade_config := [sim_desk_row]\<rparr>,
      dk_trading = (\<lambda>_. sim_world sim_start), dk_file = Listed [(1, ''trading_db_1.sqlite'')],
      dk_databaseList = [(1, ''trading_db_1.sqlite'')], dk_repos = [''trading_db_1.sqlite''],
      dk_manager = snd (start sim_config no_workers), dk_isShuttingDown = False\<rparr>"

definition sim_stop_body :: "json option" where
  "sim_stop_body = Some (JObj [(''configId'', JNum (Fin 1))])"

lemma sim_stop_id: "body_config_id sim_stop_body = Inr 1"
  by (simp add: body_config_id_def sim_stop_body_def parsePositiveId_def integer_of_def)

lemma sim_desktop_inv: "desk_inv sim_desktop"
  using start_inv [OF no_workers_inv, of sim_config]
  by (simp add: desk_inv_def has_database_def sim_desktop_def readFromFile_def worker_ids_def nonempty_def)
     (simp add: wm_exec_defs sim_config_def)


section \<open>What the service does not do\<close>

text \<open>Without the token nothing happens, whatever is asked for.\<close>

theorem unauthorised_requests_change_nothing:
  assumes "en_API_TOKEN E = Some token" and "authorization \<noteq> Some (''Bearer '' @ token)" and "route \<noteq> Status"
  shows "serve E P authorization route s = (\<lparr>an_status = 401, an_body = BMessage ''Unauthorized.''\<rparr>, s)"
proof -
  have "route_path route \<noteq> ''/status''" using assms(3) by (cases route) simp_all
  with assms(1,2) show ?thesis by (simp add: serve_def localApiSecurity_def)
qed

text \<open>The routers look only at the databases that were listed when the process started.\<close>

lemma handle_repos: "leads (\<lambda>s. dk_repos s = r) (handle P route) (\<lambda>s. dk_repos s = r)"
proof (cases "\<exists>b. route = StopTrading b \<or> (\<exists>p. route = StartTrading p)")
  case True
  have "leads (\<lambda>s. dk_repos s = r) (stopWorker c) (\<lambda>s. dk_repos s = r)" for c by (simp add: leads_def stopWorker_eq)
  moreover have "leads (\<lambda>s. dk_repos s = r) (startWorker c) (\<lambda>s. dk_repos s = r)" for c
    by (auto simp: leads_def startWorker_def split: prod.split)
  moreover have "leads (\<lambda>s. dk_repos s = r) (enlist c) (\<lambda>s. dk_repos s = r)" for c
    by (auto simp: leads_def enlist_def modifyD_def)
  ultimately show ?thesis
    using True by (auto simp: stop_trading_def start_trading_def intro!: leads_rules split: option.split prod.split)
next
  case False
  then show ?thesis by (intro handle_rest) auto
qed

theorem new_database_is_not_listed:
  "desk_run E P s es t \<Longrightarrow> dk_repos t = dk_repos s"
proof (induction rule: desk_run.induct)
  case (desk_snoc s es t e u)
  from desk_snoc.hyps(2) have "dk_repos u = dk_repos t"
  proof (cases rule: desk_step.cases)
    case (desk_request authorization route)
    have "dk_repos (snd (handle P route t)) = dk_repos t"
      using handle_repos [of "dk_repos t" P route] by (simp add: leads_def)
    with desk_request show ?thesis by (auto simp: serve_def answering_def split: option.split prod.split sum.split)
  qed (simp_all add: shutdown_def)
  with desk_snoc.IH show ?case by simp
qed simp

text \<open>A list that cannot be parsed is replaced by the one database that is started.\<close>

theorem broken_list_is_replaced:
  assumes "dk_file s = Broken" and "nonempty (map_of (dk_databaseList s) c) = None"
  shows "readFromFile (dk_file (snd (enlist c s))) = [(c, database_name c)]"
  using assms by (simp add: enlist_def modifyD_def readFromFile_def writeToFile_def)

text \<open>One configuration whose secrets cannot be decrypted keeps every other from starting.\<close>

lemma mapE_lift_fails:
  "(\<exists>x \<in> set xs. \<exists>e. f x = Inl e) \<Longrightarrow> \<exists>e. mapE (\<lambda>x. liftE (f x)) xs s = (Inl e, s)"
proof (induction xs)
  case (Cons x xs)
  show ?case
  proof (cases "f x")
    case (Inr y)
    with Cons obtain e where "mapE (\<lambda>x. liftE (f x)) xs s = (Inl e, s)" by auto
    with Inr show ?thesis by (simp add: bindE_of_Inl)
  qed (simp add: bindE_def liftE_def)
qed simp

lemma getConfig_fails:
  assumes "r \<in> set (trade_config w)" and "decrypt_config P (config_columns r) = Inl e"
  shows "\<exists>e v. getConfig P w = (Inl e, v)"
proof -
  obtain y x where y: "p_db_fault P (ext w) = (y, x)" by fastforce
  have "\<exists>e. mapE (\<lambda>c. liftE (decrypt_config P c)) (map config_columns (trade_config w)) (w\<lparr>ext := x\<rparr>) = (Inl e, w\<lparr>ext := x\<rparr>)"
    using assms by (intro mapE_lift_fails) auto
  with y show ?thesis by (cases y) (auto simp: getConfig_def bindE_def queryE_def)
qed

theorem broken_secret_blocks_every_start:
  assumes "r \<in> set (trade_config (dk_config s))" and "decrypt_config P (config_columns r) = Inl e"
  shows "dk_manager (snd (start_trading P p s)) = dk_manager s \<and> (\<exists>e. fst (start_trading P p s) = Inl e)"
proof (cases "parsePositiveId (Some (JStr p)) ''configId''")
  case (Inr c)
  obtain f v where "getConfig P (dk_config s) = (Inl f, v)" using getConfig_fails [OF assms] by blast
  with Inr show ?thesis by (simp add: start_trading_def bindD_def enlist_def modifyD_def configD_def)
qed (simp add: start_trading_def checkD_def)

section \<open>Accepted payloads\<close>

text \<open>The type a field of the configuration has, null apart.\<close>

definition field_typed :: "string \<times> json \<Rightarrow> bool" where
  "field_typed entry =
     (case entry of (key, v) \<Rightarrow>
        v = JNull \<or> key = ''id'' \<or>
        (if take 2 key = ''is'' \<or> key = ''balanceDistribution'' then \<exists>b. v = JBool b
         else if key \<in> set text_fields then \<exists>t. v = JStr t else \<exists>n. v = JNum (Fin n)))"

lemma check_all_Inr: "check_all f xs = Inr u \<Longrightarrow> x \<in> set xs \<Longrightarrow> f x = Inr ()"
  by (induction xs) (auto split: sum.splits)

theorem accepted_payload_is_typed:
  assumes "validateConfigPayload body requireId = Inr config" and "distinct (map fst config)"
  shows "set (map fst config) \<subseteq> set CONFIG_FIELDS \<and> list_all field_typed config"
proof -
  obtain u v where unknown: "filter (\<lambda>key. key \<notin> set CONFIG_FIELDS) (map fst config) = []"
    and texts: "check_all (check_text_field config) text_fields = Inr u" and fields: "check_all check_field config = Inr v"
    using assms(1) by (auto simp: validateConfigPayload_def Let_def split: option.splits json.splits sum.splits if_splits)
  have "field_typed (key, w)" if "(key, w) \<in> set config" for key w
  proof -
    have "check_field (key, w) = Inr ()" using check_all_Inr [OF fields] that by simp
    moreover have "map_of config key = Some w" using assms(2) that by simp
    with check_all_Inr [OF texts, of key] have "key \<in> set text_fields \<Longrightarrow> \<exists>t. w = JStr t"
      by (auto simp: check_text_field_def split: json.splits)
    ultimately show ?thesis
      by (auto simp: field_typed_def check_field_def isFinite_iff split: if_splits json.splits)
  qed
  with unknown show ?thesis by (auto simp: filter_empty_conv list_all_iff)
qed

end
