(* ===== verification/Database_Service.thy ===== *)
theory Database_Service
  imports Desktop_Api
begin

text \<open>
  \<^verbatim>\<open>src/utils/DatabaseService/DatabaseService.ts\<close>: the tables of the engine in its two databases, and
  how a process creates them. A column is its name, its type and the rest of its definition.

  The server holds its databases by name; the outcome of each statement it is sent is the next of a
  list of faults (none when the list is used up). A process keeps one attempt per database.
\<close>

section \<open>The tables\<close>

record column =
  co_name :: string
  co_type :: string
  co_rest :: string

type_synonym table = "string \<times> column list"

definition column_def :: "string \<Rightarrow> string \<Rightarrow> string \<Rightarrow> column" where
  "column_def name t r = \<lparr>co_name = name, co_type = t, co_rest = r\<rparr>"

text \<open>A default that is a text.\<close>

definition quoted :: "string \<Rightarrow> string" where
  "quoted s = ''DEFAULT '' @ [CHR 0x27] @ s @ [CHR 0x27]"

definition postgres_config_tables :: "table list" where
  "postgres_config_tables =
     [(''instance_identity'',
       [column_def ''create_at'' ''TIMESTAMP'' ''DEFAULT now()'',
        column_def ''update_at'' ''TIMESTAMP'' ''DEFAULT now()'',
        column_def ''client_id'' ''TEXT'' '''']),
      (''trade_config'',
       [column_def ''id'' ''SERIAL'' ''PRIMARY KEY'',
        column_def ''position_size'' ''DOUBLE PRECISION'' ''DEFAULT 0.1'',
        column_def ''count_grid_size'' ''INTEGER'' ''DEFAULT 1'',
        column_def ''grid_size'' ''INTEGER'' ''DEFAULT 1'',
        column_def ''percent_buy_back'' ''DOUBLE PRECISION'' ''DEFAULT 0.001'',
        column_def ''take_profit'' ''DOUBLE PRECISION'' '''',
        column_def ''stop_loss'' ''DOUBLE PRECISION'' '''',
        column_def ''is_emergency_stop'' ''SMALLINT'' ''DEFAULT 0'',
        column_def ''percent_profit'' ''DOUBLE PRECISION'' ''DEFAULT 0.02'',
        column_def ''percent_from_balance'' ''DOUBLE PRECISION'' ''DEFAULT 0.01'',
        column_def (''candle_price_range'') ''TEXT'' (quoted ''1h''),
        column_def ''symbol'' ''TEXT'' '''',
        column_def ''percent_target_after_take_profit'' ''DOUBLE PRECISION'' ''DEFAULT 0.01'',
        column_def ''balance_distribution'' ''SMALLINT'' ''DEFAULT 0'',
        column_def (''exchange'') ''TEXT'' (quoted ''okx''),
        column_def ''is_percent_target_after_take_profit'' ''SMALLINT'' ''DEFAULT 1'',
        column_def ''api_key'' ''TEXT'' '''',
        column_def ''private_key'' ''TEXT'' '''',
        column_def ''password'' ''TEXT'' '''',
        column_def ''is_only_buy'' ''SMALLINT'' ''DEFAULT 0'',
        column_def ''is_fibonacci'' ''SMALLINT'' ''DEFAULT 0'',
        column_def ''is_capitalize_delta_from_sale'' ''SMALLINT'' ''DEFAULT 0'',
        column_def ''is_coin_accumulation'' ''SMALLINT'' ''DEFAULT 0'',
        column_def ''is_auto_start_trading'' ''SMALLINT'' ''DEFAULT 0'',
        column_def ''is_stop_trading'' ''SMALLINT'' ''DEFAULT 0'',
        column_def ''logger_event'' ''TEXT'' '''']),
      (''balance_history'',
       [column_def ''usdt'' ''DOUBLE PRECISION'' '''',
        column_def ''profit_all'' ''DOUBLE PRECISION'' '''',
        column_def ''exchange_name'' ''TEXT'' '''',
        column_def ''update_date'' ''TIMESTAMP WITH TIME ZONE'' ''DEFAULT now()'',
        column_def ''profit_usdt'' ''DOUBLE PRECISION'' '''',
        column_def ''id'' ''SERIAL'' ''PRIMARY KEY'',
        column_def ''balance_object'' ''JSON'' ''''])]"

definition postgres_trading_tables :: "table list" where
  "postgres_trading_tables =
     [(''trade_operation'',
       [column_def ''id'' ''SERIAL'' ''PRIMARY KEY'',
        column_def ''create_at'' ''TIMESTAMP'' ''DEFAULT now()'',
        column_def ''price'' ''DOUBLE PRECISION'' ''NOT NULL'',
        column_def ''side'' ''TEXT'' ''NOT NULL'',
        column_def ''symbol'' ''TEXT'' ''NOT NULL'',
        column_def ''is_active'' ''SMALLINT'' ''DEFAULT 1'',
        column_def ''is_delete'' ''SMALLINT'' ''DEFAULT 0'',
        column_def ''order_id'' ''TEXT'' '''',
        column_def (CHR 0x22 # ''order'' @ [CHR 0x22]) ''JSON'' (''''),
        column_def ''index_operation'' ''TEXT'' '''',
        column_def ''amount'' ''DOUBLE PRECISION'' '''']),
      (''trade_session'',
       [column_def ''id'' ''SERIAL'' ''PRIMARY KEY'',
        column_def ''index_session'' ''TEXT'' ''NOT NULL'',
        column_def ''is_active'' ''SMALLINT'' ''DEFAULT 1'',
        column_def ''profit_session'' ''DOUBLE PRECISION'' ''DEFAULT 0'',
        column_def ''config_id'' ''INTEGER'' ''''])]"

definition sqlite_config_tables :: "table list" where
  "sqlite_config_tables =
     [(''trade_config'',
       [column_def ''id'' ''INTEGER'' ''PRIMARY KEY AUTOINCREMENT'',
        column_def ''position_size'' ''REAL'' ''DEFAULT 0.1'',
        column_def ''count_grid_size'' ''INTEGER'' ''DEFAULT 1'',
        column_def ''grid_size'' ''INTEGER'' ''DEFAULT 1'',
        column_def ''percent_buy_back'' ''REAL'' ''DEFAULT 0.001'',
        column_def ''take_profit'' ''REAL'' '''',
        column_def ''stop_loss'' ''REAL'' '''',
        column_def ''is_emergency_stop'' ''INTEGER'' ''DEFAULT 0'',
        column_def ''percent_profit'' ''REAL'' ''DEFAULT 0.02'',
        column_def ''percent_from_balance'' ''REAL'' ''DEFAULT 0.01'',
        column_def (''candle_price_range'') ''TEXT'' (quoted ''1h''),
        column_def ''symbol'' ''TEXT'' '''',
        column_def ''percent_target_after_take_profit'' ''REAL'' ''DEFAULT 0.01'',
        column_def ''balance_distribution'' ''INTEGER'' ''DEFAULT 0'',
        column_def (''exchange'') ''TEXT'' (quoted ''okx''),
        column_def ''is_percent_target_after_take_profit'' ''INTEGER'' ''DEFAULT 1'',
        column_def ''api_key'' ''TEXT'' '''',
        column_def ''private_key'' ''TEXT'' '''',
        column_def ''password'' ''TEXT'' '''',
        column_def ''is_only_buy'' ''INTEGER'' ''DEFAULT 0'',
        column_def ''is_fibonacci'' ''INTEGER'' ''DEFAULT 0'',
        column_def ''is_capitalize_delta_from_sale'' ''INTEGER'' ''DEFAULT 0'',
        column_def ''is_coin_accumulation'' ''INTEGER'' ''DEFAULT 0'',
        column_def ''is_auto_start_trading'' ''INTEGER'' ''DEFAULT 0'',
        column_def ''is_stop_trading'' ''INTEGER'' ''DEFAULT 0'',
        column_def ''logger_event'' ''TEXT'' '''']),
      (''instance_identity'',
       [column_def ''create_at'' ''TEXT'' ''DEFAULT CURRENT_TIMESTAMP'',
        column_def ''update_at'' ''TEXT'' ''DEFAULT CURRENT_TIMESTAMP'',
        column_def ''client_id'' ''TEXT'' '''']),
      (''balance_history'',
       [column_def ''usdt'' ''REAL'' '''',
        column_def ''profit_all'' ''REAL'' '''',
        column_def ''exchange_name'' ''TEXT'' '''',
        column_def ''update_date'' ''TEXT'' ''DEFAULT CURRENT_TIMESTAMP'',
        column_def ''profit_usdt'' ''REAL'' '''',
        column_def ''id'' ''INTEGER'' ''PRIMARY KEY AUTOINCREMENT'',
        column_def ''balance_object'' ''TEXT'' ''''])]"

definition sqlite_trading_tables :: "table list" where
  "sqlite_trading_tables =
     [(''trade_operation'',
       [column_def ''id'' ''INTEGER'' ''PRIMARY KEY AUTOINCREMENT'',
        column_def ''create_at'' ''TEXT'' ''DEFAULT CURRENT_TIMESTAMP'',
        column_def ''price'' ''REAL'' ''NOT NULL'',
        column_def ''side'' ''TEXT'' ''NOT NULL'',
        column_def ''symbol'' ''TEXT'' ''NOT NULL'',
        column_def ''is_active'' ''INTEGER'' ''DEFAULT 1'',
        column_def ''is_delete'' ''INTEGER'' ''DEFAULT 0'',
        column_def ''order_id'' ''TEXT'' '''',
        column_def (CHR 0x22 # ''order'' @ [CHR 0x22]) ''TEXT'' (''''),
        column_def ''index_operation'' ''TEXT'' '''',
        column_def ''amount'' ''REAL'' '''']),
      (''trade_session'',
       [column_def ''id'' ''INTEGER'' ''PRIMARY KEY AUTOINCREMENT'',
        column_def ''index_session'' ''TEXT'' ''NOT NULL'',
        column_def ''is_active'' ''INTEGER'' ''DEFAULT 1'',
        column_def ''profit_session'' ''REAL'' ''DEFAULT 0'',
        column_def ''config_id'' ''INTEGER'' ''''])]"

definition postgres_tables :: "string \<Rightarrow> table list" where
  "postgres_tables dbName = (if dbName = ''trading-config-db'' then postgres_config_tables else postgres_trading_tables)"

definition sqlite_tables :: "string \<Rightarrow> table list" where
  "sqlite_tables dbName = (if dbName = ''trading-config-db.sqlite'' then sqlite_config_tables else sqlite_trading_tables)"

definition column_names :: "table list \<Rightarrow> (string \<times> string list) list" where
  "column_names = map (\<lambda>(name, columns). (name, map co_name columns))"

lemma column_names_simps [simp]:
  "column_names [] = []" "column_names ((n, cs) # ts) = (n, map co_name cs) # column_names ts"
  "co_name (column_def n t r) = n"
  by (simp_all add: column_names_def column_def_def)

text \<open>A file of the desktop and a database of the server have the same tables with the same columns.\<close>

lemma web_and_desktop_agree:
  "set (column_names (postgres_tables ''trading-config-db'')) = set (column_names (sqlite_tables ''trading-config-db.sqlite''))"
  "column_names (postgres_tables (database_name c)) = column_names (sqlite_tables (database_name c))"
proof -
  have "database_name c \<noteq> ''trading-config-db''" "database_name c \<noteq> ''trading-config-db.sqlite''"
    by (simp_all add: database_name_def)
  then show "column_names (postgres_tables (database_name c)) = column_names (sqlite_tables (database_name c))"
    by (simp add: postgres_tables_def sqlite_tables_def postgres_trading_tables_def sqlite_trading_tables_def)
  show "set (column_names (postgres_tables ''trading-config-db'')) = set (column_names (sqlite_tables ''trading-config-db.sqlite''))"
    by (simp add: postgres_tables_def sqlite_tables_def postgres_config_tables_def sqlite_config_tables_def insert_commute)
qed

text \<open>Every column the repositories can name is a column of some table.\<close>

lemma repository_columns_exist:
  "set (map snd ColumnName) \<subseteq> set (concat (map snd (column_names (sqlite_config_tables @ sqlite_trading_tables))))"
  by (simp add: ColumnName_def sqlite_config_tables_def sqlite_trading_tables_def)

section \<open>A table that is already there\<close>

text \<open>\<^verbatim>\<open>CREATE TABLE IF NOT EXISTS\<close>, for one table after the other.\<close>

definition create_table :: "table \<Rightarrow> table list \<Rightarrow> table list" where
  "create_table t tables = (if fst t \<in> set (map fst tables) then tables else tables @ [t])"

definition create_tables :: "table list \<Rightarrow> table list \<Rightarrow> table list" where
  "create_tables new tables = fold create_table new tables"

lemma create_tables_keeps: "map_of tables n = Some cs \<Longrightarrow> map_of (create_tables new tables) n = Some cs"
  unfolding create_tables_def by (induction new arbitrary: tables) (auto simp: create_table_def map_add_def)

lemma create_tables_names: "set (map fst (create_tables new tables)) = set (map fst new) \<union> set (map fst tables)"
  unfolding create_tables_def by (induction new arbitrary: tables) (auto simp: create_table_def)

lemma create_tables_idle: "set (map fst new) \<subseteq> set (map fst tables) \<Longrightarrow> create_tables new tables = tables"
  unfolding create_tables_def by (induction new arbitrary: tables) (auto simp: create_table_def)

text \<open>Opening a file again changes nothing.\<close>

lemma create_tables_twice: "create_tables new (create_tables new tables) = create_tables new tables"
  by (rule create_tables_idle, unfold create_tables_names, simp)

section \<open>Creating a database on the server\<close>

record database_server =
  ds_databases :: "string \<Rightarrow> table list option"
  ds_faults :: "js_error option list"
  ds_migrations :: "string \<Rightarrow> (js_error + unit) option"

type_synonym 'a server_eff = "(database_server, 'a) eff"

definition statement :: "(database_server \<Rightarrow> js_error + 'a \<times> database_server) \<Rightarrow> 'a server_eff" where
  "statement f s =
     (let t = s\<lparr>ds_faults := tl (ds_faults s)\<rparr>
      in case ds_faults s of
           Some e # _ \<Rightarrow> (Inl e, t)
         | _ \<Rightarrow> (case f t of Inl e \<Rightarrow> (Inl e, t) | Inr (x, u) \<Rightarrow> (Inr x, u)))"

definition database_exists :: "string \<Rightarrow> bool server_eff" where
  "database_exists dbName = statement (\<lambda>s. Inr (ds_databases s dbName \<noteq> None, s))"

definition name_char :: "char \<Rightarrow> bool" where
  "name_char c \<longleftrightarrow> is_digit c \<or> c \<in> set ''_-'' \<or> (let n = of_char (toLowerCase_char c) :: nat in 97 \<le> n \<and> n \<le> 122)"

definition createPostgresDatabase :: "string \<Rightarrow> unit server_eff" where
  "createPostgresDatabase dbName =
     (if dbName = [] \<or> \<not> list_all name_char dbName then throwE (newError ''Invalid database name.'')
      else statement (\<lambda>s.
        if ds_databases s dbName \<noteq> None then Inl (newError ''database already exists'')
        else Inr ((), s\<lparr>ds_databases := (ds_databases s)(dbName \<mapsto> [])\<rparr>)))"

definition initPostgres :: "string \<Rightarrow> unit server_eff" where
  "initPostgres dbName =
     statement (\<lambda>s. case ds_databases s dbName of
       None \<Rightarrow> Inl (newError ''database does not exist'')
     | Some tables \<Rightarrow> Inr ((), s\<lparr>ds_databases := (ds_databases s)(dbName \<mapsto> create_tables (postgres_tables dbName) tables)\<rparr>))"

definition initDatabase :: "string \<Rightarrow> unit server_eff" where
  "initDatabase dbName = bindE (createPostgresDatabase dbName) (\<lambda>_. initPostgres dbName)"

definition checkAndInitDatabase :: "string \<Rightarrow> unit server_eff" where
  "checkAndInitDatabase dbName =
     bindE (database_exists dbName) (\<lambda>dbExists. if dbExists then ret () else initDatabase dbName)"

text \<open>The constructor keeps the outcome; every query of the process for this database waits for it.\<close>

definition open_database :: "string \<Rightarrow> database_server \<Rightarrow> database_server" where
  "open_database dbName s =
     (case ds_migrations s dbName of
        Some _ \<Rightarrow> s
      | None \<Rightarrow> (case checkAndInitDatabase dbName s of (r, t) \<Rightarrow> t\<lparr>ds_migrations := (ds_migrations t)(dbName \<mapsto> r)\<rparr>))"

definition query_ready :: "string \<Rightarrow> database_server \<Rightarrow> js_error + unit" where
  "query_ready dbName s = (case ds_migrations s dbName of None \<Rightarrow> Inl NonError | Some r \<Rightarrow> r)"

text \<open>A new process: the databases stay.\<close>

definition restart_process :: "database_server \<Rightarrow> database_server" where
  "restart_process s = s\<lparr>ds_migrations := \<lambda>_. None\<rparr>"

lemmas server_defs =
  open_database_def checkAndInitDatabase_def initDatabase_def createPostgresDatabase_def initPostgres_def
  database_exists_def statement_def query_ready_def restart_process_def eff_defs

text \<open>Without faults a database that is asked for has its tables afterwards.\<close>

lemma database_is_created:
  assumes "ds_migrations s name = None" and "ds_faults s = []" and "ds_databases s name = None"
    and "name \<noteq> []" and "list_all name_char name"
  shows "ds_databases (open_database name s) name = Some (create_tables (postgres_tables name) []) \<and>
     query_ready name (open_database name s) = Inr ()"
  using assms by (simp add: server_defs)

text \<open>
  A server database that was created but whose tables were not is never completed: the process that
  failed keeps failing, the next one finds the database and goes on without tables.
\<close>

theorem half_created_database_stays_empty:
  assumes "ds_migrations s name = None" and "ds_faults s = [None, None, Some e]" and "ds_databases s name = None"
    and "name \<noteq> []" and "list_all name_char name"
  shows "query_ready name (open_database name s) = Inl e \<and>
     ds_databases (open_database name (restart_process (open_database name s))) name = Some [] \<and>
     query_ready name (open_database name (restart_process (open_database name s))) = Inr ()"
  using assms by (simp add: server_defs)

text \<open>
  The names that the engine gives to the databases of the configurations have a point, which the check
  of names refuses: on a server none of them is ever created.
\<close>

theorem web_database_is_never_created:
  assumes "ds_databases s (database_name c) = None" and "ds_migrations s (database_name c) = None"
  shows "ds_databases (open_database (database_name c) s) (database_name c) = None \<and>
     (\<exists>e. query_ready (database_name c) (open_database (database_name c) s) = Inl e)"
proof -
  have "\<not> list_all name_char (database_name c)"
    by (simp add: database_name_def name_char_def is_digit_def toLowerCase_char_def Let_def)
  then have "\<exists>e t. checkAndInitDatabase (database_name c) s = (Inl e, t) \<and> ds_databases t = ds_databases s"
    using assms(1)
    by (cases "ds_faults s"; cases "hd (ds_faults s)")
       (simp_all add: checkAndInitDatabase_def initDatabase_def createPostgresDatabase_def database_exists_def statement_def eff_defs)
  with assms show ?thesis by (auto simp: open_database_def query_ready_def)
qed

end
