(* ===== verification/Migrations.thy ===== *)
theory Migrations
  imports Js_Prelude "HOL-Library.List_Lexorder" "HOL-Library.Char_ord"
begin

text \<open>
  \<^verbatim>\<open>src/saas/migrate.ts\<close>: the migrations of the SaaS database. The schema and the statements that
  change it are parameters: \<open>mg_run\<close> is what the text of a file does, \<open>mg_fault\<close> whether recording or
  committing it fails. The advisory lock excludes other runs, so a run is one step.
\<close>

section \<open>Model\<close>

record 'd migrator =
  mg_run :: "string \<Rightarrow> 'd \<Rightarrow> js_error + 'd"
  mg_fault :: "string \<Rightarrow> js_error option"

record 'd migration_db =
  md_schema :: 'd
  md_applied :: "string list option"

type_synonym sql_file = "string \<times> string"

definition applied :: "'d migration_db \<Rightarrow> string list" where
  "applied s = nullish (md_applied s) []"

text \<open>\<^verbatim>\<open>CREATE TABLE IF NOT EXISTS schema_migrations\<close>.\<close>

definition create_schema_migrations :: "'d migration_db \<Rightarrow> 'd migration_db" where
  "create_schema_migrations s = s\<lparr>md_applied := Some (applied s)\<rparr>"

definition ends_with :: "string \<Rightarrow> string \<Rightarrow> bool" where
  "ends_with s t \<longleftrightarrow> length t \<le> length s \<and> drop (length s - length t) s = t"

definition sql_files :: "sql_file list \<Rightarrow> sql_file list" where
  "sql_files directory = sort_key fst (filter (\<lambda>f. ends_with (fst f) ''.sql'') directory)"

definition migration_transaction :: "'d migrator \<Rightarrow> sql_file \<Rightarrow> 'd migration_db \<Rightarrow> js_error + 'd migration_db" where
  "migration_transaction M f s =
     (case mg_run M (snd f) (md_schema s) of
        Inl e \<Rightarrow> Inl e
      | Inr d \<Rightarrow>
          (case mg_fault M (fst f) of
             Some e \<Rightarrow> Inl e
           | None \<Rightarrow> Inr (s\<lparr>md_schema := d, md_applied := Some (applied s @ [fst f])\<rparr>)))"

fun apply_files :: "'d migrator \<Rightarrow> sql_file list \<Rightarrow> 'd migration_db \<Rightarrow> (js_error + unit) \<times> 'd migration_db" where
  "apply_files M [] s = (Inr (), s)"
| "apply_files M (f # fs) s =
     (if fst f \<in> set (applied s) then apply_files M fs s
      else case migration_transaction M f s of Inl e \<Rightarrow> (Inl e, s) | Inr t \<Rightarrow> apply_files M fs t)"

definition migrate :: "'d migrator \<Rightarrow> sql_file list \<Rightarrow> 'd migration_db \<Rightarrow> (js_error + unit) \<times> 'd migration_db" where
  "migrate M directory s = apply_files M (sql_files directory) (create_schema_migrations s)"

section \<open>Every migration once, in order\<close>

lemma migration_transaction_Inr:
  "migration_transaction M f s = Inr t \<longleftrightarrow>
     (\<exists>d. mg_run M (snd f) (md_schema s) = Inr d \<and> mg_fault M (fst f) = None \<and>
        t = s\<lparr>md_schema := d, md_applied := Some (applied s @ [fst f])\<rparr>)"
  by (auto simp: migration_transaction_def split: sum.split option.split)

lemma applied_simps [simp]:
  "applied (s\<lparr>md_schema := d, md_applied := Some xs\<rparr>) = xs" "applied (s\<lparr>md_applied := Some xs\<rparr>) = xs"
  "applied (create_schema_migrations s) = applied s"
  by (simp_all add: applied_def create_schema_migrations_def)

lemma apply_files_grows: "apply_files M fs s = (r, t) \<Longrightarrow> set (applied s) \<subseteq> set (applied t)"
proof (induction M fs s rule: apply_files.induct)
  case (2 M f fs s)
  then show ?case by (fastforce simp: migration_transaction_Inr split: if_splits sum.splits)
qed simp

lemma apply_files_done: "set (map fst fs) \<subseteq> set (applied s) \<Longrightarrow> apply_files M fs s = (Inr (), s)"
  by (induction fs) simp_all

lemma apply_files_complete: "apply_files M fs s = (Inr (), t) \<Longrightarrow> set (map fst fs) \<subseteq> set (applied t)"
proof (induction M fs s rule: apply_files.induct)
  case (2 M f fs s)
  show ?case
  proof (cases "fst f \<in> set (applied s)")
    case True
    with 2 apply_files_grows [of M fs s "Inr ()" t] show ?thesis by auto
  next
    case False
    with 2 obtain u where u: "migration_transaction M f s = Inr u" "apply_files M fs u = (Inr (), t)"
      by (auto split: sum.splits)
    then have "fst f \<in> set (applied t)"
      using apply_files_grows [OF u(2)] by (auto simp: migration_transaction_Inr)
    with 2(2) [OF False u] show ?thesis by simp
  qed
qed simp

lemma apply_files_log:
  assumes "distinct (map fst fs)" and "apply_files M fs s = (Inr (), t)"
  shows "applied t = applied s @ filter (\<lambda>n. n \<notin> set (applied s)) (map fst fs)"
  using assms
proof (induction M fs s rule: apply_files.induct)
  case (2 M f fs s)
  show ?case
  proof (cases "fst f \<in> set (applied s)")
    case False
    with 2 obtain u where u: "migration_transaction M f s = Inr u" "apply_files M fs u = (Inr (), t)"
      by (auto split: sum.splits)
    then have "applied u = applied s @ [fst f]" by (auto simp: migration_transaction_Inr)
    moreover have "filter (\<lambda>n. n \<notin> set (applied s) \<and> n \<noteq> fst f) (map fst fs) = filter (\<lambda>n. n \<notin> set (applied s)) (map fst fs)"
      using 2(3) by (intro filter_cong) (auto simp: rev_image_eqI)
    ultimately show ?thesis using False 2(2) [OF False u(1) _ u(2)] 2(3) by (simp add: conj_commute)
  qed (use 2 in auto)
qed simp

section \<open>An interrupted run\<close>

text \<open>\<open>N\<close> does what \<open>M\<close> does where \<open>M\<close> does not fail: the same migrations on a server that is better off.\<close>

definition recovers :: "'d migrator \<Rightarrow> 'd migrator \<Rightarrow> bool" where
  "recovers N M \<longleftrightarrow>
     (\<forall>text d d'. mg_run M text d = Inr d' \<longrightarrow> mg_run N text d = Inr d') \<and> (\<forall>name. mg_fault M name = None \<longrightarrow> mg_fault N name = None)"

lemma apply_files_resume:
  assumes "recovers N M" and "apply_files M fs s = (r, t)"
  shows "apply_files N fs t = apply_files N fs s"
  using assms(2)
proof (induction fs arbitrary: s)
  case (Cons f fs)
  show ?case
  proof (cases "fst f \<in> set (applied s)")
    case True
    with Cons.prems have run: "apply_files M fs s = (r, t)" by simp
    with True apply_files_grows [OF run] Cons.IH [OF run] show ?thesis by auto
  next
    case False
    show ?thesis
    proof (cases "migration_transaction M f s")
      case (Inl e)
      with False Cons.prems show ?thesis by simp
    next
      case (Inr u)
      with False Cons.prems have run: "apply_files M fs u = (r, t)" by simp
      moreover have "migration_transaction N f s = Inr u"
        using Inr assms(1) by (auto simp: migration_transaction_Inr recovers_def)
      moreover have "fst f \<in> set (applied t)"
        using apply_files_grows [OF run] Inr by (auto simp: migration_transaction_Inr)
      ultimately show ?thesis using False Cons.IH [OF run] by simp
    qed
  qed
qed simp

lemma apply_files_recorded: "apply_files M fs s = (r, t) \<Longrightarrow> md_applied s \<noteq> None \<Longrightarrow> md_applied t \<noteq> None"
proof (induction M fs s rule: apply_files.induct)
  case (2 M f fs s)
  then show ?case by (fastforce simp: migration_transaction_Inr split: if_splits sum.splits)
qed simp

lemma create_schema_migrations_idle: "md_applied s \<noteq> None \<Longrightarrow> create_schema_migrations s = s"
  by (auto simp: create_schema_migrations_def applied_def)

lemma migrate_recorded: "migrate M files s = (r, t) \<Longrightarrow> create_schema_migrations t = t"
  unfolding migrate_def
  by (rule create_schema_migrations_idle, erule apply_files_recorded) (simp add: create_schema_migrations_def)

lemma sql_files_names: "distinct (map fst files) \<Longrightarrow> distinct (map fst (sql_files files))" "sorted (map fst (sql_files files))"
  by (auto simp: sql_files_def distinct_map intro: inj_on_subset)

text \<open>
  C33: migrations can be interrupted: after a run that failed, a run on a server that has recovered ends
  with the schema an undisturbed run gives, every file was applied exactly once, in the order of
  the names, and running again changes nothing.
\<close>

theorem interrupted_migration_resumes:
  assumes "recovers N M" and "distinct (map fst files)"
    and "migrate M files s = (Inl e, t)" and "migrate N files s = (Inr (), u)"
  shows "migrate N files t = (Inr (), u) \<and> migrate N files u = (Inr (), u) \<and>
     applied u = applied s @ filter (\<lambda>n. n \<notin> set (applied s)) (map fst (sql_files files)) \<and>
     sorted (map fst (sql_files files))"
proof -
  have "migrate N files t = migrate N files s"
    using apply_files_resume [OF assms(1)] assms(3) migrate_recorded [OF assms(3)] by (simp add: migrate_def)
  moreover have run: "apply_files N (sql_files files) (create_schema_migrations s) = (Inr (), u)"
    using assms(4) by (simp add: migrate_def)
  from apply_files_complete [OF run] have "migrate N files u = (Inr (), u)"
    using migrate_recorded [OF assms(4)] by (simp add: migrate_def apply_files_done)
  ultimately show ?thesis
    using assms(4) apply_files_log [OF sql_files_names(1) [OF assms(2)] run] sql_files_names(2) by simp
qed

text \<open>The second of three files fails once; files that are not migrations are left out.\<close>

definition sim_migrator :: "string option \<Rightarrow> string list migrator" where
  "sim_migrator broken =
     \<lparr>mg_run = (\<lambda>text d. if Some text = broken then Inl (newError ''connection lost'') else Inr (d @ [text])), mg_fault = \<lambda>_. None\<rparr>"

definition sim_directory :: "sql_file list" where
  "sim_directory = [(''002.sql'', ''b''), (''README'', ''r''), (''001.sql'', ''a''), (''003.sql'', ''c'')]"

lemma sim_directory_files: "sql_files sim_directory = [(''001.sql'', ''a''), (''002.sql'', ''b''), (''003.sql'', ''c'')]"
  by (simp add: sql_files_def sim_directory_def ends_with_def less_char_def)

theorem interrupted_migration_resumes_witness:
  "\<exists>t u. migrate (sim_migrator (Some ''b'')) sim_directory \<lparr>md_schema = [], md_applied = None\<rparr> = (Inl (newError ''connection lost''), t) \<and>
     migrate (sim_migrator None) sim_directory t = (Inr (), u) \<and> md_schema u = [''a'', ''b'', ''c'']"
proof -
  let ?s = "\<lparr>md_schema = [], md_applied = None\<rparr> :: string list migration_db"
  have recovers: "recovers (sim_migrator None) (sim_migrator (Some ''b''))"
    by (simp add: recovers_def sim_migrator_def)
  have distinct: "distinct (map fst sim_directory)" by (simp add: sim_directory_def)
  note run = migrate_def sim_directory_files create_schema_migrations_def applied_def migration_transaction_def sim_migrator_def
  obtain t where failed: "migrate (sim_migrator (Some ''b'')) sim_directory ?s = (Inl (newError ''connection lost''), t)"
    by (simp add: run)
  obtain u where ends: "migrate (sim_migrator None) sim_directory ?s = (Inr (), u)" and schema: "md_schema u = [''a'', ''b'', ''c'']"
    by (simp add: run)
  show ?thesis
    using interrupted_migration_resumes [OF recovers distinct failed ends] failed schema by blast
qed

end
