(* ===== verification/Uri_Component.thy ===== *)
theory Uri_Component
  imports Sql_Builder
begin

text \<open>
  \<^verbatim>\<open>encodeURIComponent\<close> and \<^verbatim>\<open>decodeURIComponent\<close> for the characters of the model, whose UTF-8 form has
  one byte or two, and the segments of a path.
\<close>

definition hex_digit :: "nat \<Rightarrow> char" where
  "hex_digit n = (if n < 10 then digit_char n else char_of (n + 55))"

definition percent_byte :: "nat \<Rightarrow> string" where
  "percent_byte n = [CHR ''%'', hex_digit (n div 16), hex_digit (n mod 16)]"

definition unreserved :: "char \<Rightarrow> bool" where
  "unreserved c \<longleftrightarrow> is_digit c \<or> (let n = of_char (toLowerCase_char c) :: nat in 97 \<le> n \<and> n \<le> 122) \<or> c \<in> set ''-_.!~*()'' \<or> c = CHR 0x27"

definition encode_char :: "char \<Rightarrow> string" where
  "encode_char c =
     (let n = of_char c :: nat
      in if unreserved c then [c]
         else if n < 128 then percent_byte n else percent_byte (192 + n div 64) @ percent_byte (128 + n mod 64))"

definition encodeURIComponent :: "string \<Rightarrow> string" where
  "encodeURIComponent s = concat (map encode_char s)"

definition hex_value :: "char \<Rightarrow> nat option" where
  "hex_value c =
     (let n = of_char (toUpperCase [c] ! 0) :: nat
      in if is_digit c then Some (of_char c - 48) else if 65 \<le> n \<and> n \<le> 70 then Some (n - 55) else None)"

definition byte_value :: "char \<Rightarrow> char \<Rightarrow> nat option" where
  "byte_value a b = (case (hex_value a, hex_value b) of (Some m, Some n) \<Rightarrow> Some (16 * m + n) | _ \<Rightarrow> None)"

text \<open>None is a malformed sequence, or a character the model does not have.\<close>

fun decode_bytes :: "string \<Rightarrow> (nat + char) list option" where
  "decode_bytes [] = Some []"
| "decode_bytes (c # s) =
     (if c \<noteq> CHR ''%'' then map_option ((#) (Inr c)) (decode_bytes s)
      else case s of
        a # b # t \<Rightarrow>
          (case byte_value a b of
             None \<Rightarrow> None
           | Some n \<Rightarrow> map_option ((#) (Inl n)) (decode_bytes t))
      | _ \<Rightarrow> None)"

fun decode_utf8 :: "(nat + char) list \<Rightarrow> string option" where
  "decode_utf8 [] = Some []"
| "decode_utf8 (Inr c # s) = map_option ((#) c) (decode_utf8 s)"
| "decode_utf8 (Inl n # s) =
     (if n < 128 then map_option ((#) (char_of n)) (decode_utf8 s)
      else case s of
        Inl m # t \<Rightarrow>
          (if 194 \<le> n \<and> n \<le> 195 \<and> 128 \<le> m \<and> m < 192 then map_option ((#) (char_of ((n - 192) * 64 + (m - 128)))) (decode_utf8 t) else None)
      | _ \<Rightarrow> None)"

definition decodeURIComponent :: "string \<Rightarrow> string option" where
  "decodeURIComponent s = Option.bind (decode_bytes s) decode_utf8"

section \<open>Encoded text is plain\<close>

lemma hex_digit_value: "n < 16 \<Longrightarrow> hex_value (hex_digit n) = Some n"
proof -
  assume n: "n < 16"
  show ?thesis
  proof (cases "n < 10")
    case True
    then show ?thesis by (simp add: hex_value_def hex_digit_def)
  next
    case False
    then have "of_char (hex_digit n) = n + 55" using n by (simp add: hex_digit_def)
    with False n show ?thesis
      by (simp add: hex_value_def is_digit_def toUpperCase_def upper_char_def Let_def)
  qed
qed

definition special :: "char set" where
  "special = {CHR ''/'', CHR ''?'', CHR ''#'', CHR ''{'', CHR ''}'', CHR ''$''}"

lemma hex_digit_plain: "n < 16 \<Longrightarrow> hex_digit n \<notin> special"
proof -
  assume "n < 16"
  then have "of_char (hex_digit n) = (if n < 10 then 48 + n else n + 55)"
    by (simp add: hex_digit_def digit_char_def)
  then have "of_char (hex_digit n) \<noteq> (47 :: nat)" "of_char (hex_digit n) \<noteq> (63 :: nat)" "of_char (hex_digit n) \<noteq> (35 :: nat)"
    "of_char (hex_digit n) \<noteq> (123 :: nat)" "of_char (hex_digit n) \<noteq> (125 :: nat)" "of_char (hex_digit n) \<noteq> (36 :: nat)"
    using \<open>n < 16\<close> by (auto split: if_splits)
  then show ?thesis by (auto simp: special_def)
qed

lemma percent_byte_plain: "n < 256 \<Longrightarrow> set (percent_byte n) \<inter> special = {}"
  using hex_digit_plain [of "n div 16"] hex_digit_plain [of "n mod 16"] by (auto simp: percent_byte_def special_def)

lemma encode_char_cases:
  obtains "unreserved c" "encode_char c = [c]"
  | "\<not> unreserved c" "of_char c < (128 :: nat)" "encode_char c = percent_byte (of_char c)"
  | "\<not> unreserved c" "128 \<le> (of_char c :: nat)" "encode_char c = percent_byte (192 + of_char c div 64) @ percent_byte (128 + of_char c mod 64)"
  by (cases "unreserved c"; cases "of_char c < (128 :: nat)") (auto simp: encode_char_def Let_def)

lemma two_bytes: "192 + (of_char c :: nat) div 64 < 196" "128 + (of_char c :: nat) mod 64 < 192"
proof -
  have "of_char c < (256 :: nat)" by simp
  then show "192 + (of_char c :: nat) div 64 < 196" "128 + (of_char c :: nat) mod 64 < 192" by linarith+
qed

lemma encode_char_plain: "set (encode_char c) \<inter> special = {}"
proof (cases rule: encode_char_cases [of c])
  case 1
  then show ?thesis by (auto simp: special_def unreserved_def is_digit_def toLowerCase_char_def)
next
  case 2
  then show ?thesis using percent_byte_plain by simp
next
  case 3
  have "192 + (of_char c :: nat) div 64 < 256" "128 + (of_char c :: nat) mod 64 < 256" using two_bytes [of c] by linarith+
  with 3 percent_byte_plain show ?thesis by (simp add: Int_Un_distrib2)
qed

lemma encodeURIComponent_plain: "set (encodeURIComponent s) \<inter> special = {}"
  using encode_char_plain by (auto simp: encodeURIComponent_def)

lemma encodeURIComponent_Nil [simp]: "encodeURIComponent s = [] \<longleftrightarrow> s = []"
proof -
  have "encode_char c \<noteq> []" for c by (simp add: encode_char_def percent_byte_def Let_def)
  then show ?thesis by (cases s) (simp_all add: encodeURIComponent_def)
qed

section \<open>What is encoded is decoded again\<close>

lemma decode_bytes_percent:
  "n < 256 \<Longrightarrow> decode_bytes (percent_byte n @ s) = map_option ((#) (Inl n)) (decode_bytes s)"
  using hex_digit_value [of "n div 16"] hex_digit_value [of "n mod 16"]
  by (simp add: percent_byte_def byte_value_def)

definition char_bytes :: "char \<Rightarrow> (nat + char) list" where
  "char_bytes c =
     (let n = of_char c :: nat
      in if unreserved c then [Inr c] else if n < 128 then [Inl n] else [Inl (192 + n div 64), Inl (128 + n mod 64)])"

lemma decode_bytes_char: "decode_bytes (encode_char c @ s) = map_option ((@) (char_bytes c)) (decode_bytes s)"
proof (cases rule: encode_char_cases [of c])
  case 1
  then have "c \<noteq> CHR ''%''" by (auto simp: unreserved_def is_digit_def toLowerCase_char_def)
  with 1 show ?thesis by (cases "decode_bytes s") (simp_all add: char_bytes_def Let_def)
next
  case 2
  then show ?thesis by (cases "decode_bytes s") (simp_all add: decode_bytes_percent char_bytes_def Let_def)
next
  case 3
  have "192 + (of_char c :: nat) div 64 < 256" "128 + (of_char c :: nat) mod 64 < 256" using two_bytes [of c] by linarith+
  with 3 show ?thesis by (cases "decode_bytes s") (simp_all add: decode_bytes_percent char_bytes_def Let_def)
qed

lemma decode_utf8_char: "decode_utf8 (char_bytes c @ s) = map_option ((#) c) (decode_utf8 s)"
proof (cases "unreserved c \<or> of_char c < (128 :: nat)")
  case True
  then show ?thesis by (auto simp: char_bytes_def Let_def)
next
  case False
  have "of_char c < (256 :: nat)" by simp
  with False have "2 \<le> (of_char c :: nat) div 64" "(of_char c :: nat) div 64 \<le> 3" by linarith+
  with False show ?thesis using two_bytes(2) [of c] by (simp add: char_bytes_def Let_def)
qed

theorem decode_encode: "decodeURIComponent (encodeURIComponent s) = Some s"
proof -
  have "decode_bytes (encodeURIComponent s) = Some (concat (map char_bytes s))"
    by (induction s) (simp_all add: encodeURIComponent_def decode_bytes_char)
  moreover have "decode_utf8 (concat (map char_bytes s)) = Some s"
    by (induction s) (simp_all add: decode_utf8_char)
  ultimately show ?thesis by (simp add: decodeURIComponent_def)
qed

end
