(* ===== verification/Payment_Provider.thy ===== *)
theory Payment_Provider
  imports Billing_Flow Environment Uri_Component
begin

text \<open>
  \<^verbatim>\<open>src/saas/billing/yookassa.ts\<close>: the requests to the payment provider. Sending a request, the base 64 of
  the credentials and what the callers read of an answer (the code casts the JSON value) are arguments; a
  request that fails or is aborted has no response, a body that cannot be parsed is an empty object.
\<close>

section \<open>Requests and answers\<close>

record http_request =
  hq_method :: string
  hq_url :: string
  hq_headers :: "(string \<times> string) list"
  hq_body :: "json option"

record http_response =
  hp_ok :: bool
  hp_json :: "json option"

record provider_client =
  pv_config :: payment_config
  pv_fetch :: "http_request \<Rightarrow> http_response option"
  pv_base64 :: "string \<Rightarrow> string"
  pv_payment :: "json \<Rightarrow> provider_payment"
  pv_refund :: "json \<Rightarrow> provider_refund"

definition providerRequest :: "provider_client \<Rightarrow> string \<Rightarrow> string \<Rightarrow> (string \<times> string) list \<Rightarrow> json option \<Rightarrow> http_error + json" where
  "providerRequest C path method headers body =
     (let config = pv_config C;
          request = \<lparr>hq_method = method, hq_url = ''https://api.yookassa.ru/v3'' @ path,
            hq_headers = [(''Authorization'', ''Basic '' @ pv_base64 C (pc_shopId config @ '':'' @ pc_secretKey config)),
              (''Content-Type'', ''application/json'')] @ headers,
            hq_body = body\<rparr>
      in case pv_fetch C request of
           None \<Rightarrow> Inl (SaasHttpError 502 ''PAYMENT_PROVIDER_UNAVAILABLE'' ''Payment provider is unavailable.'' None)
         | Some response \<Rightarrow>
             if \<not> hp_ok response then Inl (SaasHttpError 502 ''PAYMENT_PROVIDER_ERROR'' ''Payment provider rejected the request.'' None)
             else Inr (nullish (hp_json response) (JObj [])))"

definition rubles :: "nat \<Rightarrow> json" where
  "rubles n = JObj [(''value'', JStr (amountValue n)), (''currency'', JStr ''RUB'')]"

abbreviation price :: "provider_client \<Rightarrow> nat" where
  "price C \<equiv> bc_priceKopecks (pc_policy (pv_config C))"

text \<open>\<^verbatim>\<open>JSON.stringify\<close> leaves out a receipt that is undefined.\<close>

definition receipt :: "provider_client \<Rightarrow> string \<Rightarrow> json_object" where
  "receipt C email =
     (let c = pv_config C
      in if \<not> pc_sendReceipt c then []
         else [(''receipt'', JObj [(''customer'', JObj [(''email'', JStr email)]),
                (''items'', JArr [JObj [(''description'', JStr (pc_planName c)), (''quantity'', JStr ''1.00''), (''amount'', rubles (price C)),
                  (''vat_code'', JNum (Fin (of_int (pc_vatCode c)))), (''payment_mode'', JStr ''full_payment''),
                  (''payment_subject'', JStr ''service'')]])])])"

definition initial_payment_body :: "provider_client \<Rightarrow> string \<Rightarrow> string \<Rightarrow> json_object" where
  "initial_payment_body C organizationId email =
     (let config = pv_config C
      in [(''amount'', rubles (price C)), (''capture'', JBool True),
          (''confirmation'', JObj [(''type'', JStr ''redirect''), (''return_url'', JStr (pc_returnUrl config))]),
          (''description'', JStr (pc_planName config @ '': subscription for one month''))] @
         (if pc_savePaymentMethod config then [(''save_payment_method'', JBool True)] else []) @
         [(''metadata'', JObj [(''organizationId'', JStr organizationId), (''kind'', JStr ''INITIAL'')])] @ receipt C email)"

definition recurring_payment_body :: "provider_client \<Rightarrow> string \<Rightarrow> string \<Rightarrow> string \<Rightarrow> json_object" where
  "recurring_payment_body C organizationId email paymentMethodId =
     [(''amount'', rubles (price C)), (''capture'', JBool True), (''payment_method_id'', JStr paymentMethodId),
      (''description'', JStr (pc_planName (pv_config C) @ '': subscription renewal'')),
      (''metadata'', JObj [(''organizationId'', JStr organizationId), (''kind'', JStr ''RENEWAL'')])] @ receipt C email"

definition refund_body :: "provider_client \<Rightarrow> string \<Rightarrow> nat \<Rightarrow> string \<Rightarrow> string \<Rightarrow> json_object" where
  "refund_body C paymentId amountKopecks email reason =
     [(''payment_id'', JStr paymentId), (''amount'', rubles amountKopecks), (''description'', JStr reason)] @ receipt C email"

definition post :: "provider_client \<Rightarrow> string \<Rightarrow> string \<Rightarrow> json_object \<Rightarrow> http_error + json" where
  "post C path key body = providerRequest C path ''POST'' [(''Idempotence-Key'', key)] (Some (JObj body))"

definition createInitialPayment :: "provider_client \<Rightarrow> string \<Rightarrow> string \<Rightarrow> string \<Rightarrow> provider_payment checked" where
  "createInitialPayment C organizationId email key = map_sum id (pv_payment C) (post C ''/payments'' key (initial_payment_body C organizationId email))"

definition createRecurringPayment :: "provider_client \<Rightarrow> string \<Rightarrow> string \<Rightarrow> string \<Rightarrow> string \<Rightarrow> provider_payment checked" where
  "createRecurringPayment C organizationId email method key =
     map_sum id (pv_payment C) (post C ''/payments'' key (recurring_payment_body C organizationId email method))"

definition getPayment :: "provider_client \<Rightarrow> string \<Rightarrow> provider_payment checked" where
  "getPayment C i = map_sum id (pv_payment C) (providerRequest C (''/payments/'' @ encodeURIComponent i) ''GET'' [] None)"

definition createRefund :: "provider_client \<Rightarrow> string \<Rightarrow> nat \<Rightarrow> string \<Rightarrow> string \<Rightarrow> string \<Rightarrow> provider_refund checked" where
  "createRefund C paymentId amountKopecks email key reason =
     map_sum id (pv_refund C) (post C ''/refunds'' key (refund_body C paymentId amountKopecks email reason))"

definition getRefund :: "provider_client \<Rightarrow> string \<Rightarrow> provider_refund checked" where
  "getRefund C i = map_sum id (pv_refund C) (providerRequest C (''/refunds/'' @ encodeURIComponent i) ''GET'' [] None)"

section \<open>What the requests carry\<close>

text \<open>The only errors are the two the caller can show.\<close>

theorem provider_errors_are_answers:
  "providerRequest C path method headers body = Inl e \<Longrightarrow>
     he_status e = 502 \<and> he_code e \<in> {''PAYMENT_PROVIDER_UNAVAILABLE'', ''PAYMENT_PROVIDER_ERROR''}"
  by (auto simp: providerRequest_def Let_def SaasHttpError_def split: option.splits if_splits)

text \<open>The amount of a request, as it is read from its body.\<close>

definition body_amount :: "json_object \<Rightarrow> nat checked" where
  "body_amount body =
     (case map_of body ''amount'' of
        Some (JObj entries) \<Rightarrow> (case map_of entries ''value'' of Some (JStr s) \<Rightarrow> kopecks s | _ \<Rightarrow> Inl (validationError '''' None))
      | _ \<Rightarrow> Inl (validationError '''' None))"

theorem requests_carry_the_amount:
  "body_amount (initial_payment_body C organization email) = Inr (price C)"
  "body_amount (recurring_payment_body C organization email method) = Inr (price C)"
  "body_amount (refund_body C payment n email reason) = Inr n"
  by (simp_all add: body_amount_def initial_payment_body_def recurring_payment_body_def refund_body_def rubles_def Let_def)

text \<open>The receipt of a refund is made out for today's price, whatever is refunded.\<close>

theorem refund_receipt_is_for_the_price:
  assumes "pc_sendReceipt (pv_config C)"
  shows "\<exists>customer item. map_of (refund_body C payment n email reason) ''receipt'' = Some (JObj [customer, (''items'', JArr [JObj item])]) \<and>
     map_of item ''amount'' = Some (rubles (price C))"
  using assms by (simp add: refund_body_def receipt_def Let_def)

text \<open>An identifier is one segment of the path, whatever it is: it cannot address anything else of the provider.\<close>

theorem identifier_is_one_segment:
  "set (encodeURIComponent i) \<inter> {CHR ''/'', CHR ''?'', CHR ''#''} = {}"
  using encodeURIComponent_plain [of i] by (auto simp: special_def)

text \<open>
  The environment of the billing requests with this client: a checkout and a refund of the API are the
  requests above.
\<close>

definition provider_env :: "provider_client \<Rightarrow> billing_env \<Rightarrow> billing_env" where
  "provider_env C E =
     E\<lparr>be_config := pc_policy (pv_config C), be_plan_name := pc_planName (pv_config C),
       be_get_payment := getPayment C, be_get_refund := getRefund C,
       be_create_payment := \<lambda>organization email key _. createInitialPayment C organization email key,
       be_create_refund := \<lambda>payment amount email key reason.
         (case kopecks amount of Inl e \<Rightarrow> Inl e | Inr n \<Rightarrow> createRefund C payment n email key reason)\<rparr>"

lemma provider_env_simps [simp]:
  "be_config (provider_env C E) = pc_policy (pv_config C)"
  "be_create_payment (provider_env C E) organization email key (amountValue (price C)) = createInitialPayment C organization email key"
  "be_create_refund (provider_env C E) payment (amountValue n) email key reason = createRefund C payment n email key reason"
  by (simp_all add: provider_env_def)

end
