(* ===== verification/Client_Sdk.thy ===== *)
theory Client_Sdk
  imports Uri_Component Http_Validation Encryption_Service
begin

text \<open>
  \<^verbatim>\<open>sdk/src\<close>, the client of the public API, against \<^verbatim>\<open>src/saas/api.ts\<close> and the routers it mounts: which
  request an operation makes, and which route the server answers it with. \<^verbatim>\<open>fetch\<close> is the caller's; a
  request is what it is given, an answer what it returns. \<^verbatim>\<open>URLSearchParams\<close> and \<^verbatim>\<open>JSON.stringify\<close> are not
  modelled: the query is a list of pairs, the body a value.
\<close>

section \<open>Operations and routes\<close>

definition operations :: "(string \<times> string \<times> string) list" where
  "operations =
    [(''register'', ''POST'', ''/api/v1/auth/register''),
     (''login'', ''POST'', ''/api/v1/auth/login''),
     (''refreshSession'', ''POST'', ''/api/v1/auth/refresh''),
     (''logout'', ''POST'', ''/api/v1/auth/logout''),
     (''verifyEmail'', ''POST'', ''/api/v1/auth/verify-email''),
     (''resendVerification'', ''POST'', ''/api/v1/auth/resend-verification''),
     (''forgotPassword'', ''POST'', ''/api/v1/auth/forgot-password''),
     (''resetPassword'', ''POST'', ''/api/v1/auth/reset-password''),
     (''cancelAccountDeletion'', ''POST'', ''/api/v1/auth/cancel-deletion''),
     (''currentAccount'', ''GET'', ''/api/v1/auth/me''),
     (''scheduleAccountDeletion'', ''DELETE'', ''/api/v1/auth/me''),
     (''exportAccountData'', ''GET'', ''/api/v1/auth/me/export''),
     (''listMyDataSubjectRequests'', ''GET'', ''/api/v1/auth/me/data-requests''),
     (''createDataSubjectRequest'', ''POST'', ''/api/v1/auth/me/data-requests''),
     (''listLegalDocuments'', ''GET'', ''/api/v1/compliance/documents''),
     (''listMyConsentEvents'', ''GET'', ''/api/v1/compliance/consents''),
     (''acceptCurrentLegalDocuments'', ''POST'', ''/api/v1/compliance/consents''),
     (''listPlans'', ''GET'', ''/api/v1/billing/plans''),
     (''listOrganizations'', ''GET'', ''/api/v1/organizations''),
     (''switchOrganization'', ''POST'', ''/api/v1/organizations/switch''),
     (''listOrganizationMembers'', ''GET'', ''/api/v1/organizations/members''),
     (''updateMemberRole'', ''PATCH'', ''/api/v1/organizations/members/{userId}''),
     (''removeMember'', ''DELETE'', ''/api/v1/organizations/members/{userId}''),
     (''listInvitations'', ''GET'', ''/api/v1/organizations/invitations''),
     (''createInvitation'', ''POST'', ''/api/v1/organizations/invitations''),
     (''acceptInvitation'', ''POST'', ''/api/v1/organizations/invitations/accept''),
     (''revokeInvitation'', ''DELETE'', ''/api/v1/organizations/invitations/{id}''),
     (''yookassaWebhook'', ''POST'', ''/api/v1/billing/webhook''),
     (''getSubscription'', ''GET'', ''/api/v1/billing/subscription''),
     (''getPlanUsage'', ''GET'', ''/api/v1/billing/usage''),
     (''createCheckout'', ''POST'', ''/api/v1/billing/checkout''),
     (''cancelSubscription'', ''POST'', ''/api/v1/billing/cancel''),
     (''resumeSubscription'', ''POST'', ''/api/v1/billing/resume''),
     (''listExchangeConnections'', ''GET'', ''/api/v1/exchanges''),
     (''createExchangeConnection'', ''POST'', ''/api/v1/exchanges''),
     (''updateExchangeConnection'', ''PATCH'', ''/api/v1/exchanges/{id}''),
     (''verifyExchangeConnection'', ''POST'', ''/api/v1/exchanges/{id}/verify''),
     (''listBots'', ''GET'', ''/api/v1/bots''),
     (''createBot'', ''POST'', ''/api/v1/bots''),
     (''getBot'', ''GET'', ''/api/v1/bots/{id}''),
     (''updateBot'', ''PATCH'', ''/api/v1/bots/{id}''),
     (''deleteBot'', ''DELETE'', ''/api/v1/bots/{id}''),
     (''startBot'', ''POST'', ''/api/v1/bots/{id}/start''),
     (''stopBot'', ''POST'', ''/api/v1/bots/{id}/stop''),
     (''emergencyStopBot'', ''POST'', ''/api/v1/bots/{id}/emergency-stop''),
     (''restartBot'', ''POST'', ''/api/v1/bots/{id}/restart''),
     (''listBotCommands'', ''GET'', ''/api/v1/bots/{id}/commands''),
     (''listBotOrders'', ''GET'', ''/api/v1/bots/{id}/orders''),
     (''listBotRuntimeLogs'', ''GET'', ''/api/v1/bots/{id}/logs''),
     (''emailProviderEvent'', ''POST'', ''/api/v1/email/provider-events''),
     (''listFeatureDecisions'', ''GET'', ''/api/v1/features''),
     (''liveness'', ''GET'', ''/health/live''),
     (''adminStats'', ''GET'', ''/api/v1/admin/stats''),
     (''adminListUsers'', ''GET'', ''/api/v1/admin/users''),
     (''adminChangeUserStatus'', ''PATCH'', ''/api/v1/admin/users/{id}/status''),
     (''adminRevokeUserSessions'', ''POST'', ''/api/v1/admin/users/{id}/revoke-sessions''),
     (''adminListOrganizations'', ''GET'', ''/api/v1/admin/organizations''),
     (''adminChangeOrganizationStatus'', ''PATCH'', ''/api/v1/admin/organizations/{id}/status''),
     (''adminListAuditEvents'', ''GET'', ''/api/v1/admin/audit-events''),
     (''adminListDataSubjectRequests'', ''GET'', ''/api/v1/admin/data-subject-requests''),
     (''adminUpdateDataSubjectRequest'', ''PATCH'', ''/api/v1/admin/data-subject-requests/{id}''),
     (''adminListFeatureFlags'', ''GET'', ''/api/v1/admin/feature-flags''),
     (''adminUpdateFeatureFlag'', ''PATCH'', ''/api/v1/admin/feature-flags/{key}''),
     (''adminSetFeatureFlagOverride'', ''PUT'', ''/api/v1/admin/feature-flags/{key}/organizations/{organizationId}''),
     (''adminRemoveFeatureFlagOverride'', ''DELETE'', ''/api/v1/admin/feature-flags/{key}/organizations/{organizationId}''),
     (''adminListFeatureFlagOverrides'', ''GET'', ''/api/v1/admin/feature-flags/{key}/organizations''),
     (''adminListPayments'', ''GET'', ''/api/v1/admin/payments''),
     (''adminRefundPayment'', ''POST'', ''/api/v1/admin/payments/{id}/refund''),
     (''adminListRefunds'', ''GET'', ''/api/v1/admin/refunds''),
     (''adminSystemStatus'', ''GET'', ''/api/v1/admin/system''),
     (''adminListEmailDeadLetters'', ''GET'', ''/api/v1/admin/email/dead-letters''),
     (''adminRetryEmailDeadLetter'', ''POST'', ''/api/v1/admin/email/dead-letters/{id}/retry''),
     (''readiness'', ''GET'', ''/health/ready''),
     (''prometheusMetrics'', ''GET'', ''/metrics'')]"

definition auth_routes :: "(string \<times> string) list" where
  "auth_routes =
    [(''POST'', ''/register''),
     (''POST'', ''/login''),
     (''POST'', ''/verify-email''),
     (''POST'', ''/resend-verification''),
     (''POST'', ''/forgot-password''),
     (''POST'', ''/reset-password''),
     (''POST'', ''/refresh''),
     (''POST'', ''/logout''),
     (''POST'', ''/cancel-deletion''),
     (''GET'', ''/me''),
     (''GET'', ''/me/export''),
     (''GET'', ''/me/data-requests''),
     (''POST'', ''/me/data-requests''),
     (''DELETE'', ''/me'')]"

definition billing_routes :: "(string \<times> string) list" where
  "billing_routes =
    [(''GET'', ''/plans''),
     (''POST'', ''/webhook''),
     (''GET'', ''/subscription''),
     (''GET'', ''/usage''),
     (''POST'', ''/checkout''),
     (''POST'', ''/cancel''),
     (''POST'', ''/resume'')]"

definition email_routes :: "(string \<times> string) list" where
  "email_routes =
    [(''POST'', ''/provider-events'')]"

definition exchanges_routes :: "(string \<times> string) list" where
  "exchanges_routes =
    [(''GET'', ''/''),
     (''POST'', ''/''),
     (''POST'', ''/:id/verify''),
     (''PATCH'', ''/:id'')]"

definition bots_routes :: "(string \<times> string) list" where
  "bots_routes =
    [(''GET'', ''/''),
     (''GET'', ''/:id''),
     (''POST'', ''/''),
     (''PATCH'', ''/:id''),
     (''DELETE'', ''/:id''),
     (''POST'', ''/:id/start''),
     (''POST'', ''/:id/stop''),
     (''POST'', ''/:id/restart''),
     (''POST'', ''/:id/emergency-stop''),
     (''GET'', ''/:id/commands''),
     (''GET'', ''/:id/orders''),
     (''GET'', ''/:id/logs'')]"

definition organizations_routes :: "(string \<times> string) list" where
  "organizations_routes =
    [(''GET'', ''/''),
     (''POST'', ''/switch''),
     (''GET'', ''/members''),
     (''PATCH'', ''/members/:userId''),
     (''DELETE'', ''/members/:userId''),
     (''GET'', ''/invitations''),
     (''POST'', ''/invitations''),
     (''POST'', ''/invitations/accept''),
     (''DELETE'', ''/invitations/:id'')]"

definition features_routes :: "(string \<times> string) list" where
  "features_routes =
    [(''GET'', ''/'')]"

definition compliance_routes :: "(string \<times> string) list" where
  "compliance_routes =
    [(''GET'', ''/documents''),
     (''POST'', ''/consents''),
     (''GET'', ''/consents'')]"

definition admin_routes :: "(string \<times> string) list" where
  "admin_routes =
    [(''GET'', ''/stats''),
     (''GET'', ''/users''),
     (''PATCH'', ''/users/:id/status''),
     (''POST'', ''/users/:id/revoke-sessions''),
     (''GET'', ''/organizations''),
     (''PATCH'', ''/organizations/:id/status''),
     (''GET'', ''/audit-events''),
     (''GET'', ''/data-subject-requests''),
     (''PATCH'', ''/data-subject-requests/:id''),
     (''GET'', ''/feature-flags''),
     (''PATCH'', ''/feature-flags/:key''),
     (''GET'', ''/feature-flags/:key/organizations''),
     (''PUT'', ''/feature-flags/:key/organizations/:organizationId''),
     (''DELETE'', ''/feature-flags/:key/organizations/:organizationId''),
     (''GET'', ''/payments''),
     (''GET'', ''/refunds''),
     (''POST'', ''/payments/:id/refund''),
     (''GET'', ''/system''),
     (''GET'', ''/email/dead-letters''),
     (''POST'', ''/email/dead-letters/:id/retry'')]"

text \<open>\<^verbatim>\<open>api.ts\<close>: the routers in the order they are mounted.\<close>

definition api_routes :: "(string \<times> string) list" where
  "api_routes =
     concat (map (\<lambda>(prefix, routes). map (\<lambda>(method, path). (method, prefix @ path)) routes)
       [(''/auth'', auth_routes), (''/billing'', billing_routes), (''/email'', email_routes), (''/exchanges'', exchanges_routes),
        (''/bots'', bots_routes), (''/organizations'', organizations_routes), (''/features'', features_routes),
        (''/compliance'', compliance_routes), (''/admin'', admin_routes)])"

definition API_V1_PREFIX :: string where
  "API_V1_PREFIX = ''/api/v1''"

section \<open>The client\<close>

text \<open>\<^verbatim>\<open>text.replace(pattern, value)\<close> for a pattern that is a text: the first occurrence; \<open>value\<close> has no dollar sign.\<close>

fun starts_with :: "string \<Rightarrow> string \<Rightarrow> bool" where
  "starts_with s [] = True"
| "starts_with [] (p # ps) = False"
| "starts_with (c # s) (p # ps) = (c = p \<and> starts_with s ps)"

fun replace_first :: "string \<Rightarrow> string \<Rightarrow> string \<Rightarrow> string" where
  "replace_first p v [] = (if p = [] then v else [])"
| "replace_first p v (c # s) = (if starts_with (c # s) p then v @ drop (length p) (c # s) else c # replace_first p v s)"

definition hole :: "string \<Rightarrow> string" where
  "hole name = ''{'' @ name @ ''}''"

definition fill_path :: "(string \<times> string) list \<Rightarrow> string \<Rightarrow> string" where
  "fill_path params path = fold (\<lambda>(name, v) p. replace_first (hole name) (encodeURIComponent v) p) params path"

text \<open>\<^verbatim>\<open>/\{[^}]+\}/.test(path)\<close>.\<close>

fun has_hole :: "string \<Rightarrow> bool" where
  "has_hole [] = False"
| "has_hole (c # s) = (c = CHR ''{'' \<and> s \<noteq> [] \<and> hd s \<noteq> CHR ''}'' \<and> CHR ''}'' \<in> set s \<or> has_hole s)"

record sdk_input =
  si_path :: "(string \<times> string) list"
  si_query :: "(string \<times> string list option) list"
  si_headers :: "(string \<times> string) list"
  si_body :: "json option"

record sdk_request =
  sr_method :: string
  sr_path :: string
  sr_query :: "(string \<times> string) list"
  sr_headers :: "(string \<times> string) list"
  sr_body :: "json option"

text \<open>\<^verbatim>\<open>headers.set\<close>: the names do not depend on the case.\<close>

definition set_header :: "string \<Rightarrow> string \<Rightarrow> (string \<times> string) list \<Rightarrow> (string \<times> string) list" where
  "set_header name v headers = filter (\<lambda>(n, _). toLowerCase n \<noteq> toLowerCase name) headers @ [(name, v)]"

definition sdk_headers :: "(string \<times> string) list \<Rightarrow> string option \<Rightarrow> sdk_input \<Rightarrow> (string \<times> string) list" where
  "sdk_headers defaults token input =
     (let h1 = fold (\<lambda>(n, v). set_header n v) (si_headers input) (set_header ''Accept'' ''application/json'' defaults);
          h2 = (case token of None \<Rightarrow> h1 | Some t \<Rightarrow> if t = [] then h1 else set_header ''Authorization'' (''Bearer '' @ t) h1)
      in case si_body input of None \<Rightarrow> h2 | Some _ \<Rightarrow> set_header ''Content-Type'' ''application/json'' h2)"

definition sdk_query :: "(string \<times> string list option) list \<Rightarrow> (string \<times> string) list" where
  "sdk_query query = concat (map (\<lambda>(name, v). map (Pair name) (nullish v [])) query)"

definition client_request :: "(string \<times> string) list \<Rightarrow> string option \<Rightarrow> string \<Rightarrow> sdk_input \<Rightarrow> js_error + sdk_request" where
  "client_request defaults token operationId input =
     (case map_of operations operationId of
        None \<Rightarrow> Inl (typeError ''operation is not a function'')
      | Some (method, template) \<Rightarrow>
          let path = fill_path (si_path input) template
          in if has_hole path then Inl (newError (''Missing path parameter for '' @ operationId @ ''.''))
             else Inr \<lparr>sr_method = method, sr_path = path, sr_query = sdk_query (si_query input),
                       sr_headers = sdk_headers defaults token input, sr_body = si_body input\<rparr>)"

record sdk_response =
  sp_status :: nat
  sp_ok :: bool
  sp_status_text :: string
  sp_payload :: "json option"

record api_error_value =
  ae_status :: nat
  ae_code :: json
  ae_message :: json
  ae_requestId :: "json option"
  ae_details :: "json option"

text \<open>\<^verbatim>\<open>error?.field ?? fallback\<close>.\<close>

definition field_or :: "json option \<Rightarrow> string \<Rightarrow> json \<Rightarrow> json" where
  "field_or error field fallback =
     (case error of Some (JObj e) \<Rightarrow> (case map_of e field of Some v \<Rightarrow> if v = JNull then fallback else v | None \<Rightarrow> fallback) | _ \<Rightarrow> fallback)"

definition sdk_result :: "sdk_response \<Rightarrow> api_error_value + json option" where
  "sdk_result response =
     (let payload = (if sp_status response = 204 then None else sp_payload response);
          error = (case payload of Some (JObj p) \<Rightarrow> map_of p ''error'' | _ \<Rightarrow> None);
          field = (\<lambda>f. case error of Some (JObj e) \<Rightarrow> map_of e f | _ \<Rightarrow> None)
      in if sp_ok response then Inr payload
         else Inl \<lparr>ae_status = sp_status response, ae_code = field_or error ''code'' (JStr ''HTTP_ERROR''),
                   ae_message = field_or error ''message'' (JStr (sp_status_text response)),
                   ae_requestId = field ''requestId'', ae_details = field ''details''\<rparr>)"

section \<open>The server\<close>

text \<open>\<^verbatim>\<open>new URL\<close> resolves the segments \<open>.\<close> and \<open>..\<close> of a path, which the encoding leaves as they are.\<close>

fun resolve_dots :: "string list \<Rightarrow> string list \<Rightarrow> string list" where
  "resolve_dots acc [] = rev acc"
| "resolve_dots acc (s # rest) =
     (if s = ''..'' then (if rest = [] then rev ([] # tl acc) else resolve_dots (tl acc) rest)
      else if s = ''.'' then (if rest = [] then rev ([] # acc) else resolve_dots acc rest)
      else resolve_dots (s # acc) rest)"

definition path_segments :: "string \<Rightarrow> string list" where
  "path_segments path = resolve_dots [] (tl (split_on CHR ''/'' path))"

text \<open>A route is matched segment by segment, without regard to case; an empty segment at the end does not count.\<close>

type_synonym pattern = "(string + string) list"

definition route_pattern :: "string \<Rightarrow> pattern" where
  "route_pattern path =
     map (\<lambda>s. case s of c # name \<Rightarrow> if c = CHR '':'' then Inr name else Inl s | [] \<Rightarrow> Inl s)
       (filter (\<lambda>s. s \<noteq> []) (split_on CHR ''/'' path))"

fun match_segments :: "pattern \<Rightarrow> string list \<Rightarrow> (string \<times> string) list option" where
  "match_segments [] ss = (if ss = [] \<or> ss = [[]] then Some [] else None)"
| "match_segments (p # ps) [] = None"
| "match_segments (Inl t # ps) (s # ss) = (if toLowerCase s = toLowerCase t then match_segments ps ss else None)"
| "match_segments (Inr name # ps) (s # ss) =
     (if s = [] then None
      else case decodeURIComponent s of
        None \<Rightarrow> None
      | Some v \<Rightarrow> map_option ((#) (name, v)) (match_segments ps ss))"

definition v1_routes :: "(string \<times> pattern) list" where
  "v1_routes = map (\<lambda>(method, path). (method, route_pattern (API_V1_PREFIX @ path))) api_routes"

fun first_match :: "(string \<times> pattern) list \<Rightarrow> string \<Rightarrow> string list \<Rightarrow> (pattern \<times> (string \<times> string) list) option" where
  "first_match [] method ss = None"
| "first_match ((m, p) # routes) method ss =
     (if m = method then (case match_segments p ss of Some params \<Rightarrow> Some (p, params) | None \<Rightarrow> first_match routes method ss)
      else first_match routes method ss)"

definition dispatch :: "sdk_request \<Rightarrow> (pattern \<times> (string \<times> string) list) option" where
  "dispatch r = first_match v1_routes (sr_method r) (path_segments (sr_path r))"

section \<open>Templates\<close>

definition seg_text :: "string + string \<Rightarrow> string" where
  "seg_text s = (case s of Inl t \<Rightarrow> t | Inr name \<Rightarrow> hole name)"

definition render :: "pattern \<Rightarrow> string" where
  "render ps = concat (map (\<lambda>s. CHR ''/'' # seg_text s) ps)"

definition template_pattern :: "string \<Rightarrow> pattern" where
  "template_pattern path =
     map (\<lambda>s. if s \<noteq> [] \<and> hd s = CHR ''{'' then Inr (butlast (tl s)) else Inl s) (tl (split_on CHR ''/'' path))"

definition plain_text :: "string \<Rightarrow> bool" where
  "plain_text s \<longleftrightarrow> list_all (\<lambda>c. c \<noteq> CHR ''/'' \<and> c \<noteq> CHR ''{'' \<and> c \<noteq> CHR ''}'') s"

definition names_of :: "pattern \<Rightarrow> string list" where
  "names_of ps = List.map_filter (\<lambda>s. case s of Inl _ \<Rightarrow> None | Inr n \<Rightarrow> Some n) ps"

definition plain_pattern :: "pattern \<Rightarrow> bool" where
  "plain_pattern ps \<longleftrightarrow> list_all (\<lambda>s. case s of Inl t \<Rightarrow> plain_text t | Inr n \<Rightarrow> plain_text n) ps \<and> distinct (names_of ps)"

definition put :: "string \<Rightarrow> string \<Rightarrow> pattern \<Rightarrow> pattern" where
  "put name v ps = map (\<lambda>s. if s = Inr name then Inl v else s) ps"

lemma render_simps [simp]: "render [] = []" "render (s # ps) = CHR ''/'' # seg_text s @ render ps"
  by (simp_all add: render_def)

lemma names_of_simps [simp]: "names_of [] = []" "names_of (Inl t # ps) = names_of ps" "names_of (Inr n # ps) = n # names_of ps"
  by (simp_all add: names_of_def map_filter_simps)

lemma plain_pattern_Cons:
  "plain_pattern (s # ps) \<Longrightarrow> plain_pattern ps" "plain_pattern (Inl t # ps) \<Longrightarrow> plain_text t" "plain_pattern (Inr n # ps) \<Longrightarrow> plain_text n \<and> n \<notin> set (names_of ps)"
  by (cases s; simp add: plain_pattern_def)+

lemma names_of_mem: "n \<in> set (names_of ps) \<longleftrightarrow> Inr n \<in> set ps"
  by (induction ps) (auto simp: names_of_def map_filter_simps split: sum.splits)

lemma put_absent: "n \<notin> set (names_of ps) \<Longrightarrow> put n v ps = ps"
  by (auto simp: put_def names_of_mem intro: map_idI)

lemma starts_with_self: "starts_with (p @ s) p"
  by (induction p) simp_all

lemma starts_with_hole:
  "plain_text m \<Longrightarrow> plain_text n \<Longrightarrow> starts_with (m @ CHR ''}'' # s) (n @ [CHR ''}'']) \<longleftrightarrow> m = n"
proof (induction n arbitrary: m)
  case Nil
  then show ?case by (cases m) (auto simp: plain_text_def)
next
  case (Cons c n)
  then show ?case by (cases m) (auto simp: plain_text_def)
qed

lemma replace_hole_skip: "CHR ''{'' \<notin> set t \<Longrightarrow> replace_first (hole n) v (t @ s) = t @ replace_first (hole n) v s"
  by (induction t) (auto simp: hole_def)

lemma replace_hole:
  "plain_pattern ps \<Longrightarrow> plain_text n \<Longrightarrow> replace_first (hole n) v (render ps) = render (put n v ps)"
proof (induction ps)
  case Nil
  then show ?case by (simp add: put_def hole_def)
next
  case (Cons s ps)
  note rest = plain_pattern_Cons(1) [OF Cons.prems(1)]
  show ?case
  proof (cases s)
    case (Inl t)
    with Cons.prems(1) have "plain_text t" using plain_pattern_Cons(2) by blast
    then have "CHR ''{'' \<notin> set (CHR ''/'' # t)" by (auto simp: plain_text_def list_all_iff)
    from replace_hole_skip [OF this, of n v "render ps"] Cons.IH [OF rest Cons.prems(2)] Inl show ?thesis
      by (simp add: seg_text_def put_def hole_def)
  next
    case (Inr m)
    with Cons.prems(1) have m: "plain_text m" "m \<notin> set (names_of ps)" using plain_pattern_Cons(3) by blast+
    show ?thesis
    proof (cases "m = n")
      case True
      with m Inr put_absent [of n ps v] show ?thesis
        using starts_with_self [of "hole n" "render ps"]
        by (simp add: seg_text_def put_def hole_def)
    next
      case False
      have "CHR ''{'' \<notin> set (m @ ''}'')" using m(1) by (auto simp: plain_text_def list_all_iff)
      from replace_hole_skip [OF this, of n v "render ps"] have "replace_first (hole n) v (hole m @ render ps) = hole m @ replace_first (hole n) v (render ps)"
        using False starts_with_hole [OF m(1) Cons.prems(2), of "render ps"] by (simp add: hole_def)
      with Cons.IH [OF rest Cons.prems(2)] Inr False show ?thesis
        by (simp add: seg_text_def put_def hole_def)
    qed
  qed
qed

lemma plain_pattern_put: "plain_pattern ps \<Longrightarrow> plain_text v \<Longrightarrow> plain_pattern (put n v ps)"
proof (induction ps)
  case (Cons s ps)
  have "set (names_of (put n v ps)) \<subseteq> set (names_of ps)" by (auto simp: names_of_mem put_def split: if_splits)
  with Cons show ?case by (cases s) (auto simp: plain_pattern_def put_def)
qed (simp add: put_def plain_pattern_def)

lemma plain_encoded: "plain_text (encodeURIComponent v)"
  using encodeURIComponent_plain [of v] by (auto simp: plain_text_def list_all_iff special_def)

text \<open>A template with its parameters.\<close>

definition filled :: "(string \<times> string) list \<Rightarrow> string + string \<Rightarrow> string + string" where
  "filled params s = (case s of Inl t \<Rightarrow> Inl t | Inr n \<Rightarrow> (case map_of params n of None \<Rightarrow> Inr n | Some v \<Rightarrow> Inl (encodeURIComponent v)))"

lemma fill_path_render:
  "plain_pattern ps \<Longrightarrow> list_all plain_text (map fst params) \<Longrightarrow> fill_path params (render ps) = render (map (filled params) ps)"
proof (induction params arbitrary: ps)
  case Nil
  have "map (filled []) ps = ps" by (auto simp: filled_def intro!: map_idI split: sum.split)
  then show ?case by (simp add: fill_path_def)
next
  case (Cons p params)
  obtain n v where p: "p = (n, v)" by fastforce
  let ?ps = "put n (encodeURIComponent v) ps"
  have "fill_path (p # params) (render ps) = fill_path params (render ?ps)"
    using Cons.prems p by (simp add: fill_path_def replace_hole)
  also have "\<dots> = render (map (filled params) ?ps)"
    using Cons.IH [of ?ps] Cons.prems plain_pattern_put [OF _ plain_encoded] by simp
  also have "map (filled params) ?ps = map (filled (p # params)) ps"
    by (auto simp: put_def filled_def p split: sum.split)
  finally show ?case .
qed

section \<open>From the client to the route\<close>

text \<open>The values of the parameters of a template that are given and address something.\<close>

definition given_all :: "(string \<times> string) list \<Rightarrow> pattern \<Rightarrow> bool" where
  "given_all params ps \<longleftrightarrow>
     list_all (\<lambda>n. case map_of params n of None \<Rightarrow> False | Some v \<Rightarrow> v \<notin> {[], ''.'', ''..''}) (names_of ps)"

definition segments_of :: "(string \<times> string) list \<Rightarrow> pattern \<Rightarrow> string list" where
  "segments_of params ps = map (\<lambda>s. case s of Inl t \<Rightarrow> t | Inr n \<Rightarrow> encodeURIComponent (the (map_of params n))) ps"

definition arguments_of :: "(string \<times> string) list \<Rightarrow> pattern \<Rightarrow> (string \<times> string) list" where
  "arguments_of params ps = map (\<lambda>n. (n, the (map_of params n))) (names_of ps)"

definition compatible :: "pattern \<Rightarrow> pattern \<Rightarrow> bool" where
  "compatible qs ps \<longleftrightarrow>
     list_all2 (\<lambda>q p. case (q, p) of (Inl s, Inl t) \<Rightarrow> toLowerCase s = toLowerCase t | _ \<Rightarrow> True) qs ps"

lemma split_render:
  "plain_text t \<Longrightarrow> list_all (\<lambda>s. plain_text (seg_text s)) ps \<Longrightarrow> split_on CHR ''/'' (t @ render ps) = t # map seg_text ps"
proof (induction ps arbitrary: t)
  case Nil
  then have "CHR ''/'' \<notin> set t" by (auto simp: plain_text_def list_all_iff)
  then show ?case by (simp add: split_on_no_sep)
next
  case (Cons s ps)
  then have "CHR ''/'' \<notin> set t" by (auto simp: plain_text_def list_all_iff)
  with Cons show ?case by (simp add: split_on_append_sep)
qed

lemma resolve_dots_none: "list_all (\<lambda>s. s \<noteq> ''.'' \<and> s \<noteq> ''..'') ss \<Longrightarrow> resolve_dots acc ss = rev acc @ ss"
  by (induction ss arbitrary: acc) simp_all

lemma encode_dots: "encodeURIComponent v \<in> {[], ''.'', ''..''} \<Longrightarrow> v \<in> {[], ''.'', ''..''}"
proof -
  have dots: "encodeURIComponent d = d" if "d \<in> {[], ''.'', ''..''}" for d
    using that by (auto simp: encodeURIComponent_def encode_char_def unreserved_def Let_def)
  assume d: "encodeURIComponent v \<in> {[], ''.'', ''..''}"
  then have "decodeURIComponent (encodeURIComponent (encodeURIComponent v)) = decodeURIComponent (encodeURIComponent v)"
    by (simp only: dots)
  then have "encodeURIComponent v = v" by (simp add: decode_encode)
  with d show ?thesis by simp
qed

definition api_pattern :: "pattern \<Rightarrow> bool" where
  "api_pattern ps \<longleftrightarrow> plain_pattern ps \<and> list_all (\<lambda>s. case s of Inl t \<Rightarrow> t \<notin> {[], ''.'', ''..''} | Inr _ \<Rightarrow> True) ps"

lemma given_all_mem: "given_all params ps \<Longrightarrow> Inr n \<in> set ps \<Longrightarrow> \<exists>v. map_of params n = Some v \<and> v \<notin> {[], ''.'', ''..''}"
proof -
  assume "given_all params ps" and "Inr n \<in> set ps"
  then have "case map_of params n of None \<Rightarrow> False | Some v \<Rightarrow> v \<notin> {[], ''.'', ''..''}"
    unfolding given_all_def list_all_iff names_of_mem [symmetric] by blast
  then show ?thesis by (cases "map_of params n") simp_all
qed

lemma segments_proper:
  assumes "api_pattern ps" and "given_all params ps"
  shows "list_all (\<lambda>s. s \<notin> {[], ''.'', ''..''}) (segments_of params ps)"
proof -
  have "seg \<notin> {[], ''.'', ''..''}" if "s \<in> set ps" "seg = (case s of Inl t \<Rightarrow> t | Inr n \<Rightarrow> encodeURIComponent (the (map_of params n)))" for s seg
  proof (cases s)
    case (Inl t)
    with that assms(1) show ?thesis by (auto simp: api_pattern_def list_all_iff)
  next
    case (Inr n)
    with that assms(2) obtain v where "map_of params n = Some v" "v \<notin> {[], ''.'', ''..''}" using given_all_mem by blast
    with encode_dots [of v] Inr that(2) show ?thesis by auto
  qed
  then show ?thesis by (auto simp: segments_of_def list_all_iff)
qed

lemma filled_texts:
  assumes "given_all params ps"
  shows "map seg_text (map (filled params) ps) = segments_of params ps"
proof -
  have "seg_text (filled params s) = (case s of Inl t \<Rightarrow> t | Inr n \<Rightarrow> encodeURIComponent (the (map_of params n)))" if "s \<in> set ps" for s
  proof (cases s)
    case (Inr n)
    with that given_all_mem [OF assms] obtain v where "map_of params n = Some v" by blast
    with Inr show ?thesis by (simp add: filled_def seg_text_def)
  qed (simp add: filled_def seg_text_def)
  then show ?thesis by (simp add: segments_of_def)
qed

lemma filled_path_segments:
  assumes "api_pattern ps" and "given_all params ps"
  shows "path_segments (render (map (filled params) ps)) = segments_of params ps" and "\<not> has_hole (render (map (filled params) ps))"
proof -
  have plain_text: "list_all (\<lambda>s. plain_text (seg_text s)) (map (filled params) ps)"
  proof -
    have "plain_text (seg_text (filled params s))" if "s \<in> set ps" for s
    proof (cases s)
      case (Inr n)
      with that given_all_mem [OF assms(2)] obtain v where "map_of params n = Some v" by blast
      with Inr show ?thesis by (simp add: filled_def seg_text_def plain_encoded)
    next
      case (Inl t)
      with that assms(1) show ?thesis by (auto simp: filled_def seg_text_def api_pattern_def plain_pattern_def list_all_iff)
    qed
    then show ?thesis by (simp add: list_all_iff)
  qed
  have "split_on CHR ''/'' (render (map (filled params) ps)) = [] # segments_of params ps"
    using split_render [of "[]", OF _ plain_text] filled_texts [OF assms(2)] by (simp add: plain_text_def)
  then show "path_segments (render (map (filled params) ps)) = segments_of params ps"
    using segments_proper [OF assms] by (simp add: path_segments_def resolve_dots_none list_all_iff)
  have "CHR ''{'' \<notin> set (render ss)" if "list_all (\<lambda>s. plain_text (seg_text s)) ss" for ss
    using that by (induction ss) (auto simp: plain_text_def list_all_iff)
  moreover have "has_hole t \<Longrightarrow> CHR ''{'' \<in> set t" for t by (induction t) auto
  ultimately show "\<not> has_hole (render (map (filled params) ps))" using plain_text by metis
qed

lemma segments_of_simps [simp]:
  "segments_of params [] = []" "segments_of params (Inl t # ps) = t # segments_of params ps"
  "segments_of params (Inr n # ps) = encodeURIComponent (the (map_of params n)) # segments_of params ps"
  by (simp_all add: segments_of_def)

lemma match_own: "given_all params ps \<Longrightarrow> match_segments ps (segments_of params ps) = Some (arguments_of params ps)"
proof (induction ps)
  case (Cons s ps)
  then have "match_segments ps (segments_of params ps) = Some (arguments_of params ps)"
    by (cases s) (simp_all add: given_all_def)
  with Cons.prems show ?case
    by (cases s) (auto simp: arguments_of_def given_all_def decode_encode split: option.splits)
qed (simp add: arguments_of_def)

lemma match_compatible:
  "match_segments qs (segments_of params ps) = Some x \<Longrightarrow> list_all (\<lambda>s. s \<noteq> []) (segments_of params ps) \<Longrightarrow> compatible qs ps"
proof (induction qs arbitrary: ps x)
  case Nil
  then show ?case by (cases ps) (auto simp: compatible_def segments_of_def split: if_splits)
next
  case (Cons q qs)
  show ?case
  proof (cases ps)
    case Nil
    with Cons.prems show ?thesis by simp
  next
    case (Cons s ps')
    with Cons.prems Cons.IH [of ps'] show ?thesis
      by (cases q; cases s) (auto simp: compatible_def split: if_splits option.splits)
  qed
qed

lemma first_match_unique:
  assumes "given_all params ps" and "list_all (\<lambda>s. s \<noteq> []) (segments_of params ps)"
    and "filter (\<lambda>(m, q). m = method \<and> compatible q ps) routes = [(method, ps)]"
  shows "first_match routes method (segments_of params ps) = Some (ps, arguments_of params ps)"
  using assms(3)
proof (induction routes)
  case (Cons r routes)
  obtain m q where r: "r = (m, q)" by fastforce
  show ?case
  proof (cases "m = method \<and> compatible q ps")
    case True
    with Cons.prems r have "q = ps" by simp
    with True r match_own [OF assms(1)] show ?thesis by simp
  next
    case False
    then have "m = method \<Longrightarrow> match_segments q (segments_of params ps) = None"
      using match_compatible [OF _ assms(2)] by (cases "match_segments q (segments_of params ps)") auto
    with False Cons r show ?thesis by auto
  qed
qed simp

text \<open>The two tables, compared once: an operation of the API is compatible with one route only, its own.\<close>

definition api_operation :: "string \<times> string \<times> string \<Rightarrow> bool" where
  "api_operation e = starts_with (snd (snd e)) API_V1_PREFIX"

fun fits :: "pattern \<Rightarrow> pattern \<Rightarrow> bool" where
  "fits [] [] = True"
| "fits (Inl s # qs) (Inl t # ps) = (if s = t then fits qs ps else False)"
| "fits (_ # qs) (_ # ps) = fits qs ps"
| "fits _ _ = False"

definition small_letters :: "pattern \<Rightarrow> bool" where
  "small_letters ps = list_all (\<lambda>s. case s of Inl t \<Rightarrow> toLowerCase t = t | Inr _ \<Rightarrow> True) ps"

lemma compatible_fits: "small_letters qs \<Longrightarrow> small_letters ps \<Longrightarrow> compatible qs ps = fits qs ps"
  by (induction qs ps rule: fits.induct) (auto simp: compatible_def small_letters_def split: sum.splits)

definition operation_fits :: "(string \<times> pattern) list \<Rightarrow> string \<times> string \<times> string \<Rightarrow> bool" where
  "operation_fits routes e =
     (case e of (_, method, template) \<Rightarrow>
        let ps = template_pattern template
        in render ps = template \<and> api_pattern ps \<and> small_letters ps \<and> filter (\<lambda>(m, q). if m = method then fits q ps else False) routes = [(method, ps)])"

lemma v1_routes_small: "list_all (\<lambda>(m, q). small_letters q) v1_routes"
  by code_simp

abbreviation fitting :: "(string \<times> string \<times> string) list \<Rightarrow> bool" where
  "fitting es \<equiv> list_all (operation_fits v1_routes) (filter api_operation es)"

lemma operations_fit_1: "fitting (take 20 operations)"
  by code_simp

lemma operations_fit_2: "fitting (take 20 (drop 20 operations))"
  by code_simp

lemma operations_fit_3: "fitting (take 20 (drop 40 operations))"
  by code_simp

lemma operations_fit_4: "fitting (drop 60 operations)"
  by code_simp

lemma operations_fit: "fitting operations"
proof -
  have "fitting (take 20 (drop 40 operations) @ drop 60 operations)"
    using operations_fit_3 operations_fit_4 by simp
  also have "take 20 (drop 40 operations) @ drop 60 operations = drop 40 operations"
    using append_take_drop_id [of 20 "drop 40 operations"] by simp
  finally have "fitting (take 20 (drop 20 operations) @ drop 40 operations)"
    using operations_fit_2 by simp
  also have "take 20 (drop 20 operations) @ drop 40 operations = drop 20 operations"
    using append_take_drop_id [of 20 "drop 20 operations"] by simp
  finally have "fitting (take 20 operations @ drop 20 operations)"
    using operations_fit_1 by (simp only: filter_append list_all_append)
  then show ?thesis by (simp only: append_take_drop_id)
qed

lemma operations_distinct: "distinct (map fst operations)"
  by code_simp

lemma v1_routes_own:
  assumes "(operationId, method, template) \<in> set operations" and "starts_with template API_V1_PREFIX"
  defines "ps \<equiv> template_pattern template"
  shows "render ps = template" and "api_pattern ps" and "filter (\<lambda>(m, q). m = method \<and> compatible q ps) v1_routes = [(method, ps)]"
proof -
  have fits: "operation_fits v1_routes (operationId, method, template)"
    using operations_fit assms(1,2) by (auto simp: list_all_iff api_operation_def)
  then show "render ps = template" "api_pattern ps" by (simp_all add: operation_fits_def ps_def Let_def)
  have small: "small_letters ps" using fits by (simp add: operation_fits_def ps_def Let_def)
  have "compatible q ps = fits q ps" if "(m, q) \<in> set v1_routes" for m q
    using compatible_fits [OF _ small] v1_routes_small that by (auto simp: list_all_iff)
  then have "filter (\<lambda>(m, q). m = method \<and> compatible q ps) v1_routes = filter (\<lambda>(m, q). if m = method then fits q ps else False) v1_routes"
    by (intro filter_cong) auto
  moreover have "filter (\<lambda>(m, q). if m = method then fits q ps else False) v1_routes = [(method, ps)]"
    using fits unfolding operation_fits_def ps_def Let_def by blast
  ultimately show "filter (\<lambda>(m, q). m = method \<and> compatible q ps) v1_routes = [(method, ps)]"
    by (rule trans)
qed

section \<open>What the client relies on\<close>

text \<open>
  C36: Every operation of the client that belongs to the API is answered by its own route and by no other,
  and the route reads back exactly the values of the path parameters, whatever characters they have; only
  the empty text and the two dot segments are excepted.
\<close>

theorem operation_reaches_its_route:
  assumes "(operationId, method, template) \<in> set operations" and "starts_with template API_V1_PREFIX"
    and "set (map fst (si_path input)) = set (names_of (template_pattern template))"
    and "given_all (si_path input) (template_pattern template)"
  shows "\<exists>r. client_request defaults token operationId input = Inr r \<and> sr_method r = method \<and>
     dispatch r = Some (template_pattern template, arguments_of (si_path input) (template_pattern template))"
proof -
  let ?ps = "template_pattern template" and ?params = "si_path input"
  note own = v1_routes_own [OF assms(1,2)]
  have "map_of operations operationId = Some (method, template)"
    using operations_distinct assms(1) by simp
  moreover have "list_all plain_text (map fst ?params)"
    using own(2) assms(3) unfolding api_pattern_def plain_pattern_def
    by (fastforce simp: list_all_iff names_of_mem)
  then have "fill_path ?params template = render (map (filled ?params) ?ps)"
    using fill_path_render [of ?ps ?params] own(1,2) by (simp add: api_pattern_def)
  moreover note filled_path_segments [OF own(2) assms(4)]
  moreover have "list_all (\<lambda>s. s \<noteq> []) (segments_of ?params ?ps)"
    using segments_proper [OF own(2) assms(4)] by (auto simp: list_all_iff)
  from first_match_unique [OF assms(4) this own(3)]
  have "first_match v1_routes method (segments_of ?params ?ps) = Some (?ps, arguments_of ?params ?ps)" .
  ultimately show ?thesis
    by (simp add: client_request_def dispatch_def Let_def)
qed

definition sim_input :: sdk_input where
  "sim_input = \<lparr>si_path = [(''organizationId'', ''a/b''), (''key'', ''50% {key}'')], si_query = [], si_headers = [], si_body = None\<rparr>"

theorem operation_reaches_its_route_witness:
  "\<exists>r p. client_request [] None ''adminRemoveFeatureFlagOverride'' sim_input = Inr r \<and> sr_method r = ''DELETE'' \<and>
     dispatch r = Some (p, [(''key'', ''50% {key}''), (''organizationId'', ''a/b'')])"
proof -
  let ?t = "''/api/v1/admin/feature-flags/{key}/organizations/{organizationId}''"
  have operation: "(''adminRemoveFeatureFlagOverride'', ''DELETE'', ?t) \<in> set operations"
    by (simp add: operations_def)
  have prefix: "starts_with ?t API_V1_PREFIX" by (simp add: API_V1_PREFIX_def)
  have pattern: "template_pattern ?t = [Inl ''api'', Inl ''v1'', Inl ''admin'', Inl ''feature-flags'', Inr ''key'', Inl ''organizations'', Inr ''organizationId'']"
    by (simp add: template_pattern_def)
  have names: "set (map fst (si_path sim_input)) = set (names_of (template_pattern ?t))"
    and given: "given_all (si_path sim_input) (template_pattern ?t)"
    and arguments: "arguments_of (si_path sim_input) (template_pattern ?t) = [(''key'', ''50% {key}''), (''organizationId'', ''a/b'')]"
    unfolding pattern by (auto simp: sim_input_def given_all_def arguments_of_def)
  from operation_reaches_its_route [OF operation prefix names given, of "[]" None] arguments show ?thesis by auto
qed

text \<open>A dot is not encoded: asked for the bot \<open>.\<close>, the client gets the list of all bots.\<close>

theorem dot_identifier_lists_bots:
  "\<exists>r. client_request [] None ''getBot'' \<lparr>si_path = [(''id'', ''.'')], si_query = [], si_headers = [], si_body = None\<rparr> = Inr r \<and>
     dispatch r = Some ([Inl ''api'', Inl ''v1'', Inl ''bots''], [])"
proof -
  have operation: "map_of operations ''getBot'' = Some (''GET'', ''/api/v1/bots/{id}'')"
    using operations_distinct by (simp add: operations_def)
  have path: "fill_path [(''id'', ''.'')] ''/api/v1/bots/{id}'' = ''/api/v1/bots/.''"
    by (simp add: fill_path_def hole_def encodeURIComponent_def encode_char_def unreserved_def Let_def)
  have "first_match v1_routes ''GET'' [''api'', ''v1'', ''bots'', []] = Some ([Inl ''api'', Inl ''v1'', Inl ''bots''], [])"
    by code_simp
  then show ?thesis
    by (simp add: client_request_def operation path dispatch_def path_segments_def Let_def)
qed

text \<open>An answer that is not successful is thrown, with the code of the API or a general one.\<close>

theorem failed_answer_is_thrown:
  assumes "\<not> sp_ok response"
  shows "\<exists>e. sdk_result response = Inl e \<and> ae_status e = sp_status response \<and>
     (sp_payload response = None \<longrightarrow> ae_code e = JStr ''HTTP_ERROR'')"
  using assms by (simp add: sdk_result_def field_or_def Let_def)

end
