(* ===== verification/Admin_Grant.thy ===== *)
theory Admin_Grant
  imports Account_Tables Http_Validation
begin

text \<open>
  \<^verbatim>\<open>src/saas/admin/grant.ts\<close>: the command that makes a user an administrator of the platform or takes
  the role away. Each query is a transaction of its own; they run one after the other here.
\<close>

definition role_of_text :: "string \<Rightarrow> platform_role option" where
  "role_of_text role = (if role = ''ADMIN'' then Some PlatformAdmin else if role = ''USER'' then Some PlatformUser else None)"

definition active_admin :: "user_row \<Rightarrow> bool" where
  "active_admin u \<longleftrightarrow> us_platform_role u = PlatformAdmin \<and> us_status u = ActiveUser"

definition usage_error :: js_error where
  "usage_error = newError ''Usage: npm run admin:set-role -- <email> <ADMIN|USER>''"

definition last_admin_guard :: "string \<Rightarrow> platform_role \<Rightarrow> account_db \<Rightarrow> js_error option" where
  "last_admin_guard email role db =
     (if role = PlatformUser \<and>
         (case find (\<lambda>u. us_email u = email) (ad_users db) of None \<Rightarrow> False | Some u \<Rightarrow> us_platform_role u = PlatformAdmin) \<and>
         length (filter active_admin (ad_users db)) \<le> 1
      then Some (newError ''Cannot demote the last active platform administrator.'') else None)"

definition grant_main :: "string option \<Rightarrow> string option \<Rightarrow> account_db \<Rightarrow> js_error + account_db" where
  "grant_main argument1 argument2 db =
     (let email = toLowerCase (trim (nullish argument1 ''''))
      in case Option.bind argument2 role_of_text of
           None \<Rightarrow> Inl usage_error
         | Some role \<Rightarrow>
             if email = [] then Inl usage_error
             else case last_admin_guard email role db of
               Some e \<Rightarrow> Inl e
             | None \<Rightarrow>
                 if \<not> list_ex (\<lambda>u. us_email u = email) (ad_users db) then Inl (newError ''User was not found.'')
                 else Inr (update_users (\<lambda>u. us_email u = email) (\<lambda>u. u\<lparr>us_platform_role := role\<rparr>) db))"

section \<open>An administrator remains\<close>

lemma grant_main_Inr:
  assumes "grant_main a b db = Inr db'"
  obtains email role where "last_admin_guard email role db = None"
    and "ad_users db' = update_where (\<lambda>u. us_email u = email) (\<lambda>u. u\<lparr>us_platform_role := role\<rparr>) (ad_users db)"
  using assms by (auto simp: grant_main_def Let_def update_users_def split: option.splits if_splits)

lemma other_admin:
  assumes "distinct (map us_email users)" and "1 < length (filter active_admin users)"
  shows "\<exists>u \<in> set users. active_admin u \<and> us_email u \<noteq> email"
proof (rule ccontr)
  assume "\<not> ?thesis"
  then have "\<forall>u \<in> set (filter active_admin users). us_email u = email" by auto
  then have "map us_email (filter active_admin users) = replicate (length (filter active_admin users)) email"
    by (intro replicate_eqI) auto
  moreover have "distinct (map us_email (filter active_admin users))" using assms(1) by (rule distinct_map_filter)
  ultimately have "distinct (replicate (length (filter active_admin users)) email)" by simp
  moreover obtain m where "length (filter active_admin users) = Suc (Suc m)"
    using less_imp_Suc_add [OF assms(2)] by auto
  ultimately show False by simp
qed

theorem an_administrator_remains:
  assumes "grant_main a b db = Inr db'" and "distinct (map us_email (ad_users db))" and "list_ex active_admin (ad_users db)"
  shows "list_ex active_admin (ad_users db')"
proof -
  from grant_main_Inr [OF assms(1)] obtain email role where guard: "last_admin_guard email role db = None"
    and users: "ad_users db' = update_where (\<lambda>u. us_email u = email) (\<lambda>u. u\<lparr>us_platform_role := role\<rparr>) (ad_users db)" .
  obtain v where v: "v \<in> set (ad_users db)" "active_admin v" using assms(3) by (auto simp: list_ex_iff)
  consider "role = PlatformAdmin" | "us_email v \<noteq> email" | "role = PlatformUser" "us_email v = email"
    by (cases role) auto
  then show ?thesis
  proof cases
    case 1
    with v show ?thesis unfolding users list_ex_iff update_where_ex by (auto simp: active_admin_def)
  next
    case 2
    with v show ?thesis unfolding users list_ex_iff update_where_ex by auto
  next
    case 3
    have "find (\<lambda>u. us_email u = email) (ad_users db) = Some v"
    proof -
      have "find (\<lambda>u. us_email u = email) (ad_users db) \<noteq> None" using v(1) 3 by (auto simp: find_None_iff)
      then obtain w where "find (\<lambda>u. us_email u = email) (ad_users db) = Some w" by blast
      moreover from this have "w \<in> set (ad_users db)" "us_email w = email" by (auto simp: find_Some_iff)
      with assms(2) v(1) 3(2) have "w = v" by (auto simp: distinct_map inj_on_def)
      ultimately show ?thesis by simp
    qed
    with guard 3 v(2) have "1 < length (filter active_admin (ad_users db))"
      by (auto simp: last_admin_guard_def active_admin_def split: if_splits)
    from other_admin [OF assms(2) this, of email] show ?thesis
      unfolding users list_ex_iff update_where_ex by auto
  qed
qed

text \<open>The count is of the active administrators, so a suspended one cannot be demoted while only one is active.\<close>

theorem suspended_admin_cannot_be_demoted:
  assumes "find (\<lambda>u. us_email u = email) (ad_users db) = Some u" and "us_platform_role u = PlatformAdmin" and "\<not> active_admin u"
    and "length (filter active_admin (ad_users db)) = 1" and "email \<noteq> []" and "toLowerCase (trim email) = email"
  shows "grant_main (Some email) (Some ''USER'') db = Inl (newError ''Cannot demote the last active platform administrator.'')"
  using assms by (simp add: grant_main_def role_of_text_def last_admin_guard_def Let_def)

end
