(* ===== verification/Spec2Isabelle.thy ===== *)
theory Spec2Isabelle
  imports Orders_Checking Sql_Builder Worker_Manager Trading_Worker Rate_Limit Order_Book Connections Mail_Queue Admin_Flow
    Retention_Flow Desktop_Flow Database_Service Migrations Payment_Provider Client_Sdk Admin_Grant
begin

text \<open>
  Verification of a trading service: an engine that trades one configuration per process, and the
  multi-tenant service (SaaS) around it. Paths below are those of the repository.

  \<^bold>\<open>The program.\<close> \<^verbatim>\<open>src/worker.ts\<close> runs \<^verbatim>\<open>TradingVectorProfitService\<close> (a subclass of
  \<^verbatim>\<open>AbstractTradingClass\<close>) for one configuration: it opens a session, opens a position, watches the price until
  the profit is taken, the loss is stopped or the position is averaged, and closes the session. It uses the order
  service, the session service, the exchange wrapper and the repositories over SQLite or PostgreSQL. Two parents
  start such workers. \<^verbatim>\<open>src/index.ts\<close> serves the local HTTP API of the desktop and keeps its children with
  \<^verbatim>\<open>TradingWorkerManager\<close>. \<^verbatim>\<open>src/saas/worker.ts\<close> is the leader of the SaaS: it claims commands from a
  table, decrypts the credentials of the connection, starts, stops and restarts the bots, and mirrors what they
  report into PostgreSQL. The HTTP handlers under \<^verbatim>\<open>src/saas\<close> write those commands and everything else the tables
  hold: accounts and refresh tokens, organisations, connections, bots, payments, feature flags, messages. Three
  more processes work on the tables: the renewals of \<^verbatim>\<open>billing/renewals.ts\<close>, the mail worker of
  \<^verbatim>\<open>email/worker.ts\<close> and the retention worker of \<^verbatim>\<open>retention/worker.ts\<close>.

  \<^bold>\<open>The engine.\<close>
  \<^item> \<open>Js_Prelude\<close>, \<open>Trade_Types\<close>: numbers, errors, effects; the types, rows and the state \<open>'x world\<close> of a
    process. The exchange client, clock, randomness, cipher and database failures are the argument \<open>'x platform\<close>.
  \<^item> \<open>Trading_Math\<close>: \<^verbatim>\<open>trading-math.ts\<close>, \<^verbatim>\<open>position-exposure.ts\<close>, \<^verbatim>\<open>session-reconciliation.ts\<close>; the locale
    \<open>signed_ledger\<close> is the arithmetic of signed quantities that the last two share.
  \<^item> \<open>Exchange_Service\<close>: \<^verbatim>\<open>ExchangeService.ts\<close> and its retries (locale \<open>backoff\<close>, also interpreted by
    \<open>Worker_Manager\<close>). \<open>Simulated_Exchange\<close>: an executable platform for the witnesses.
  \<^item> \<open>Encryption_Service\<close>: the envelopes of secrets (locale \<open>gcm\<close>: opening inverts sealing).
  \<^item> \<open>Repositories\<close>, \<open>Config_Repository\<close>, \<open>Sql_Builder\<close>, \<open>Database_Service\<close>: the statements of
    \<^verbatim>\<open>src/repository\<close> as operations on rows (locales \<open>session_store\<close>, \<open>order_log\<close>), the text of the statements,
    and the tables and databases \<^verbatim>\<open>DatabaseService.ts\<close> creates.
  \<^item> \<open>Orders_Operation\<close>, \<open>Session_Trading\<close>, \<open>Orders_Checking\<close>, \<open>Abstract_Trading\<close>: the services of the same
    names under \<^verbatim>\<open>src/utils\<close> and the trading loop (locale \<open>take_profit_contract\<close>: what the loop relies on of a
    strategy). \<open>Trading_Worker\<close>: \<^verbatim>\<open>src/worker.ts\<close>.
  \<^item> \<open>Worker_Manager\<close>: \<^verbatim>\<open>TradingWorkerManager.ts\<close> as functions on its table of workers and as a step relation.
  \<^item> \<open>Environment\<close>: every setting read from the environment or a secret file. \<open>Desktop_Api\<close>, \<open>Desktop_Flow\<close>:
    \<^verbatim>\<open>src/index.ts\<close>, \<^verbatim>\<open>src/router\<close>, \<^verbatim>\<open>local-api-security.ts\<close>, the list of databases; \<open>Desktop_Flow\<close> mixes
    requests, exits, timers and signals in a step relation.

  \<^bold>\<open>The service.\<close> Each theory named after a router holds one definition per request, with its guards in the
  order of the code; the theory after it holds the properties.
  \<^item> \<open>Saas_Tables\<close>, \<open>Account_Tables\<close>: rows and transactions. \<open>Http_Validation\<close>, \<open>Rate_Limit\<close>: checks of input.
    \<open>Entitlements\<close>: plans, quotas, features (locales \<open>bounded_quota\<close>, \<open>quota\<close>). \<open>Bots_Router\<close>: requests on bots.
  \<^item> \<open>Saas_Worker\<close>: the leader. \<open>Worker_Frame\<close> (locales \<open>worker_frame\<close>, \<open>message_frame\<close>) carries what each of its
    functions leaves alone; \<open>Bot_Supervision\<close> and \<open>Order_Book\<close> what it guarantees.
  \<^item> \<open>Accounts\<close>, \<open>Organizations\<close>: \<^verbatim>\<open>auth/router.ts\<close>, \<^verbatim>\<open>organizations/router.ts\<close>, the security helpers.
    \<open>Account_Sessions\<close> is the abstract protocol of refresh tokens, \<open>Account_Security\<close> shows every request to make
    only its steps.
  \<^item> \<open>Exchanges_Router\<close>, \<open>Connections\<close> (locale \<open>secret_store\<close>): stored credentials.
  \<^item> \<open>Billing_Lifecycle\<close>, \<open>Billing_Router\<close>, \<open>Billing_Flow\<close>, \<open>Payment_Provider\<close>: subscriptions, notifications,
    checkout, and the requests of \<^verbatim>\<open>yookassa.ts\<close>.
  \<^item> \<open>Email_Delivery\<close>, \<open>Mail_Queue\<close> (locale \<open>mail_channel\<close>): the outbox. \<open>Admin_Router\<close>, \<open>Admin_Flow\<close>,
    \<open>Admin_Grant\<close>: administration. \<open>Retention\<close>, \<open>Retention_Flow\<close>: deletion. \<open>Migrations\<close>: \<^verbatim>\<open>migrate.ts\<close>.
  \<^item> \<open>Uri_Component\<close>, \<open>Client_Sdk\<close>: the client of \<^verbatim>\<open>sdk/src\<close> against the routes of \<^verbatim>\<open>saas/api.ts\<close>.

  \<^bold>\<open>What is shown.\<close> Engine: a closing order flattens exactly the filled exposure, an iteration of the loop places at
  most one order, the trailing stop only moves one way, the emergency stop ends the loop, sessions stay
  consistent with their rows and their profit is the realised one, a crash loop is cut, a stop is final whatever
  exits, timers and requests follow. Service: commands are settled, quotas hold under any interleaving of
  requests, the order table refines a finite map, refresh tokens refine the set of live sessions and a replayed
  one ends its family, removed members are barred, connections stay usable, a payment extends a
  subscription once, notifications change only what the provider confirms, refunds never exceed the payment, the
  outbox drains, deleted users are forgotten. Whole program: what validation accepts the engine can trade with (this
  theory), an operation of the client reaches its route with its parameters, an interrupted migration resumes.
  Several theorems state where the code falls short; they are named in the findings of the manifest.

  \<^bold>\<open>Bounds and fuel.\<close> The loops that poll the market (\<open>watchingProcess_loop\<close>, \<open>priceTracker_loop\<close>,
  \<open>trading_rounds\<close>) run as long as the market wants; they take a number of rounds and return None when it is used up.
  Safety is proved for every number of rounds and on every outcome, for a single iteration or a prefix; that the
  loop ends is claimed only with its reason (an emergency stop: one round). All other loops are total:
  retries by their bound, the loops over rows by the rows, the retention and restart loops by measures.

  \<^bold>\<open>Abstractions.\<close> Binary doubles are exact rationals with infinities and NaN, and the rounding of \<^verbatim>\<open>numeric(36,18)\<close>
  columns is not modelled. Rows are kept in insertion order. Identifiers are compared as strings in canonical lower
  case; characters are those below 256. Log output and timestamps that are only written are dropped. A request runs
  as a whole, or up to its awaits where the order matters; transactions are atomic. Row level security and
  collisions of random identifiers are not modelled. The payment provider, hashes, ciphers, JSON and URL parsing and
  SMTP are arguments, with what the code relies on as locales or named hypotheses; failures of the database are a
  list of outcomes consumed by the statements. The Russian texts of messages are arguments. Writing the list of
  databases succeeds.

  \<^bold>\<open>Not modelled.\<close> The read-only listings (they change nothing and only project rows); \<^verbatim>\<open>saas/observability\<close> and
  \<^verbatim>\<open>LoggerService\<close> (output only); \<^verbatim>\<open>app.ts\<close>, the headers of the legacy prefix and the error handler (calls of
  express); \<^verbatim>\<open>saas/db/access-context.ts\<close> (row level security of the server); the empty subclasses and interfaces of
  \<^verbatim>\<open>src/utils\<close> and \<^verbatim>\<open>src/interfaces\<close>; \<^verbatim>\<open>TradingBehavior\<close> and \<^verbatim>\<open>src/error\<close> (never used); the generated types of
  the client; what \<^verbatim>\<open>POST /updateConfig\<close> and \<^verbatim>\<open>POST /createConfig\<close> of the desktop store (a payload may hold nulls and
  exchanges the rows of the model cannot; its checks are modelled); lines 30, 32, 35 and 37 of
  \<^verbatim>\<open>retention/worker.ts\<close> (ageing of audit rows the model does not keep); connection options, pragmas and drivers.
\<close>

section \<open>From the request to the engine\<close>

definition in_range :: "rat \<Rightarrow> rat \<Rightarrow> jsnum \<Rightarrow> bool" where
  "in_range low high x \<longleftrightarrow> (\<exists>n. x = Fin n \<and> low \<le> n \<and> n \<le> high)"

lemma accepted_typed:
  assumes "accepted_configuration num_text settings"
  shows "list_all well_typed settings"
  using assms unfolding accepted_configuration_def by (rule tradingConfiguration_shape)

lemma numberOr_range:
  assumes "accepted_configuration num_text settings" and "map_of configuration_ranges f = Some (low, high)"
    and "low \<le> d" and "d \<le> high"
  shows "in_range low high (numberOr (map_of settings f) (Fin d))"
proof (cases "map_of settings f")
  case None
  with assms(3,4) show ?thesis by (simp add: numberOr_def in_range_def)
next
  case (Some v)
  then have "well_typed (f, v)"
    using accepted_typed [OF assms(1)] map_of_SomeD [OF Some] by (auto simp: list_all_iff)
  moreover have "f \<in> set (map fst configuration_ranges)"
    using map_of_SomeD [OF assms(2)] by force
  ultimately obtain n where "v = JNum (Fin n)" "low \<le> n" "n \<le> high"
    using well_typed_number assms(2) by blast
  with Some show ?thesis by (simp add: numberOr_def in_range_def)
qed

lemma legacyConfig_Inr:
  assumes "legacyConfig L bv = Inr config"
  obtains apiKey privateKey password exchange symbol where
    "config = runtime_config apiKey privateKey password exchange symbol (bv_configuration bv)"
    and "map_of (bv_configuration bv) ''symbol'' = Some (JStr symbol)"
  using assms unfolding legacyConfig_def
  by (auto split: option.split_asm json.split_asm if_split_asm sum.split_asm)

lemma runtime_config_password [simp]:
  "c_password (runtime_config apiKey privateKey password exchange symbol settings) = password"
  "c_id (runtime_config apiKey privateKey password exchange symbol settings) = 1"
  by (simp_all add: runtime_config_def Let_def)

lemma legacyConfig_password:
  assumes "legacyConfig L bv = Inr config" and "decrypt (ld_platform L) (bv_credentials_ciphertext bv) = Inr text"
    and "ld_parse L text = Inr credentials"
  shows "c_password config = nullish (credential credentials ''password'') [] \<and> c_id config = 1"
  using assms unfolding legacyConfig_def
  by (auto split: option.split_asm json.split_asm if_split_asm)

text \<open>
  C21: what the API accepts, the engine can trade with. If the stored configuration of a bot is one that
  validation accepts (an invariant of the tables) and \<^verbatim>\<open>legacyConfig\<close> makes the configuration of its process
  from it, then every number of that configuration is finite and within the limits of the API, with the
  defaults filled in where a field was left out; in particular the profit target is not negative, which is
  what the safety of the watching loop rests on. Symbol and time frame are those of the API.
\<close>

theorem accepted_bot_fits_the_engine:
  assumes "accepted_configuration num_text (bv_configuration bv)" and "legacyConfig L bv = Inr config"
  shows "symbol_format (c_symbol config) \<and> c_candlePriceRange config \<in> set timeframes \<and>
    list_all (in_range 0 1) [c_percentProfit config, c_percentBuyBackStep config, c_percentTargetAfterTakeProfit config,
      the (c_takeProfit config), the (c_stopLoss config)] \<and>
    in_range (1 / 10 ^ 8) 1 (c_percentFromBalance config) \<and>
    in_range (1 / 10 ^ 8) (10 ^ 6) (c_positionSize config) \<and> in_range (1 / 10 ^ 8) (10 ^ 6) (the (c_gridSize config)) \<and>
    in_range 1 100 (the (c_countGridSize config)) \<and> Fin 0 \<le> c_percentProfit config"
proof -
  obtain apiKey privateKey password exchange symbol where
    config: "config = runtime_config apiKey privateKey password exchange symbol (bv_configuration bv)"
    and symbol: "map_of (bv_configuration bv) ''symbol'' = Some (JStr symbol)"
    by (rule legacyConfig_Inr [OF assms(2)])
  note range = numberOr_range [OF assms(1)]
  have typed: "well_typed (f, v)" if "map_of (bv_configuration bv) f = Some v" for f v
    using accepted_typed [OF assms(1)] map_of_SomeD [OF that] by (auto simp: list_all_iff)
  have "symbol_format symbol"
    using typed [OF symbol] by (simp add: well_typed_def)
  moreover have "(case map_of (bv_configuration bv) ''candlePriceRange'' of Some (JStr t) \<Rightarrow> t | _ \<Rightarrow> ''1h'') \<in> set timeframes"
    using typed [of "''candlePriceRange''"]
    by (auto simp: well_typed_def timeframes_def split: option.split json.split)
  moreover have "in_range 0 1 (numberOr (map_of (bv_configuration bv) ''percentProfit'') (Fin (2 / 100)))"
    by (rule range) (simp_all add: configuration_ranges_def)
  moreover from this have "Fin 0 \<le> numberOr (map_of (bv_configuration bv) ''percentProfit'') (Fin (2 / 100))"
    by (auto simp: in_range_def)
  moreover have "in_range 0 1 (numberOr (map_of (bv_configuration bv) ''percentBuyBackStep'') (Fin (1 / 1000)))"
    "in_range 0 1 (numberOr (map_of (bv_configuration bv) ''percentTargetAfterTakeProfit'') (Fin (1 / 100)))"
    "in_range 0 1 (numberOr (map_of (bv_configuration bv) ''takeProfit'') (Fin (2 / 100)))"
    "in_range 0 1 (numberOr (map_of (bv_configuration bv) ''stopLoss'') (Fin (1 / 100)))"
    "in_range (1 / 10 ^ 8) 1 (numberOr (map_of (bv_configuration bv) ''percentFromBalance'') (Fin (1 / 100)))"
    "in_range (1 / 10 ^ 8) (10 ^ 6) (numberOr (map_of (bv_configuration bv) ''positionSize'') (Fin (1 / 10)))"
    "in_range (1 / 10 ^ 8) (10 ^ 6) (numberOr (map_of (bv_configuration bv) ''gridSize'') (Fin 1))"
    "in_range 1 100 (numberOr (map_of (bv_configuration bv) ''countGridSize'') (Fin 1))"
    by (rule range; simp add: configuration_ranges_def)+
  ultimately show ?thesis
    unfolding config by (simp add: runtime_config_def Let_def)
qed

theorem accepted_bot_fits_the_engine_witness:
  "\<exists>config. legacyConfig sim_credentials (bot_view_of sim_bot sim_connection) = Inr config \<and> Fin 0 \<le> c_percentProfit config"
proof -
  obtain config where config: "legacyConfig sim_credentials (bot_view_of sim_bot sim_connection) = Inr config"
    using sim_legacyConfig by blast
  have "accepted_configuration (\<lambda>_. []) (bv_configuration (bot_view_of sim_bot sim_connection))"
    using sim_bots_ok by (simp add: tables_ok_def sim_bots_db_def bot_view_of_def)
  from accepted_bot_fits_the_engine [OF this config] config show ?thesis by blast
qed



end
